(* ===== verification/Py_Text.thy ===== *)
theory Py_Text
  imports Kace_Prelude
begin

text \<open>
  The string operations of Python that the modelled sources call: trimming, case mapping,
  prefix and substring tests, splitting and joining, decimal and hexadecimal numerals, and
  the string literals of JSON with the escapes \<open>json.dumps(..., ensure_ascii=False)\<close>
  writes and \<open>json.loads\<close> reads.
\<close>

subsection \<open>Trimming, case, prefixes, substrings\<close>

definition py_lstrip :: "string \<Rightarrow> string" where
  "py_lstrip s = dropWhile py_is_space s"

definition py_strip :: "string \<Rightarrow> string" where
  "py_strip s = rev (py_lstrip (rev (py_lstrip s)))"

definition py_lower :: "string \<Rightarrow> string" where
  "py_lower s = map lower_char s"

definition py_upper :: "string \<Rightarrow> string" where
  "py_upper s = map upper_char s"

fun starts_with :: "'a list \<Rightarrow> 'a list \<Rightarrow> bool" where
  "starts_with [] s = True"
| "starts_with (p # ps) [] = False"
| "starts_with (p # ps) (c # cs) = (p = c \<and> starts_with ps cs)"

definition ends_with :: "'a list \<Rightarrow> 'a list \<Rightarrow> bool" where
  "ends_with p s = starts_with (rev p) (rev s)"

fun contains :: "'a list \<Rightarrow> 'a list \<Rightarrow> bool" where
  "contains p [] = (p = [])"
| "contains p (c # cs) = (starts_with p (c # cs) \<or> contains p cs)"

definition any_in :: "string list \<Rightarrow> string \<Rightarrow> bool" where
  "any_in ms s = list_ex (\<lambda>m. contains m s) ms"

fun join_with :: "string \<Rightarrow> string list \<Rightarrow> string" where
  "join_with sep [] = []"
| "join_with sep [s] = s"
| "join_with sep (s # t # ts) = s @ sep @ join_with sep (t # ts)"

fun split_char :: "char \<Rightarrow> string \<Rightarrow> string list" where
  "split_char sep [] = [[]]"
| "split_char sep (c # cs) =
     (if c = sep then [] # split_char sep cs
      else (case split_char sep cs of [] \<Rightarrow> [[c]] | w # ws \<Rightarrow> (c # w) # ws))"

lemma starts_with_iff: "starts_with p s \<longleftrightarrow> (\<exists>t. s = p @ t)"
  by (induction p s rule: starts_with.induct) auto

lemma starts_with_append [simp]: "starts_with p (p @ t)"
  by (simp add: starts_with_iff)

lemma ends_with_iff: "ends_with p s \<longleftrightarrow> (\<exists>t. s = t @ p)"
proof -
  have "(\<exists>t. rev s = rev p @ t) \<longleftrightarrow> (\<exists>t. s = t @ p)"
    by (metis rev_append rev_rev_ident)
  then show ?thesis by (simp add: ends_with_def starts_with_iff)
qed

lemma contains_iff: "contains p s \<longleftrightarrow> (\<exists>u v. s = u @ p @ v)"
proof (induction p s rule: contains.induct)
  case (2 p c cs)
  show ?case
  proof
    assume "contains p (c # cs)"
    then consider t where "c # cs = p @ t" | u v where "cs = u @ p @ v"
      using "2.IH" by (auto simp: starts_with_iff)
    then show "\<exists>u v. c # cs = u @ p @ v"
      by cases (metis append_Nil, metis append_Cons)
  next
    assume "\<exists>u v. c # cs = u @ p @ v"
    then obtain u v where uv: "c # cs = u @ p @ v" by blast
    show "contains p (c # cs)"
    proof (cases u)
      case Nil
      with uv have "starts_with p (c # cs)" by (metis starts_with_iff append_Nil)
      then show ?thesis by simp
    next
      case (Cons a u')
      with uv have "cs = u' @ p @ v" by simp
      with "2.IH" show ?thesis by auto
    qed
  qed
qed auto

lemma split_char_nonempty [simp]: "split_char sep s \<noteq> []"
  by (induction s) (auto split: list.splits)

lemma split_char_no_sep: "w \<in> set (split_char sep s) \<Longrightarrow> sep \<notin> set w"
  by (induction s arbitrary: w) (auto split: list.splits if_splits)

lemma join_split_char: "join_with [sep] (split_char sep s) = s"
proof (induction s)
  case (Cons c cs)
  show ?case
  proof (cases "split_char sep cs")
    case (Cons w ws)
    then show ?thesis using Cons.IH by (cases ws) (auto split: list.splits)
  qed simp
qed simp

lemma join_with_members: "l \<in> set ls \<Longrightarrow> set l \<subseteq> set (join_with sep ls)"
  by (induction sep ls rule: join_with.induct) auto

lemma length_py_lower [simp]: "length (py_lower s) = length s"
  by (simp add: py_lower_def)

lemma lower_char_idem [simp]: "lower_char (lower_char c) = lower_char c"
  by (auto simp: lower_char_def is_upper_def)

lemma py_lower_idem [simp]: "py_lower (py_lower s) = py_lower s"
  by (simp add: py_lower_def)

lemma dropWhile_idem' [simp]: "dropWhile P (dropWhile P xs) = dropWhile P xs"
  by (induction xs) auto

lemma py_strip_no_space: "list_all (\<lambda>c. \<not> py_is_space c) s \<Longrightarrow> py_strip s = s"
proof -
  assume a: "list_all (\<lambda>c. \<not> py_is_space c) s"
  have d: "dropWhile py_is_space t = t" if "list_all (\<lambda>c. \<not> py_is_space c) t" for t
    using that by (cases t) auto
  from a have "list_all (\<lambda>c. \<not> py_is_space c) (rev s)" by (simp add: list_all_iff)
  with a show ?thesis by (simp add: py_strip_def py_lstrip_def d)
qed

lemma py_strip_hd: "py_strip s \<noteq> [] \<Longrightarrow> \<not> py_is_space (hd (py_strip s))"
proof -
  assume ne: "py_strip s \<noteq> []"
  define t where "t = dropWhile py_is_space s"
  have "py_strip s = rev (dropWhile py_is_space (rev t))"
    by (simp add: py_strip_def py_lstrip_def t_def)
  moreover obtain u where "rev t = u @ dropWhile py_is_space (rev t)"
    by (metis takeWhile_dropWhile_id)
  ultimately have "t = py_strip s @ rev u" by (metis rev_append rev_rev_ident)
  with ne have "hd (py_strip s) = hd t" and "t \<noteq> []" by auto
  then show ?thesis by (metis t_def hd_dropWhile)
qed

subsection \<open>Lines\<close>

text \<open>\<open>str.splitlines\<close>: the line boundaries within U+0000 to U+00FF.\<close>

definition is_linebreak :: "char \<Rightarrow> bool" where
  "is_linebreak c = (let n = code_of c in (10 \<le> n \<and> n \<le> 13) \<or> (28 \<le> n \<and> n \<le> 30) \<or> n = 133)"

fun py_splitlines :: "string \<Rightarrow> string list" where
  "py_splitlines [] = []"
| "py_splitlines (c # cs) =
     (if is_linebreak c then
        [] # (case cs of
                [] \<Rightarrow> []
              | d # ds \<Rightarrow> if c = CHR 0x0D \<and> d = CHR 0x0A then py_splitlines ds else py_splitlines cs)
      else (case py_splitlines cs of [] \<Rightarrow> [[c]] | w # ws \<Rightarrow> (c # w) # ws))"

lemma py_splitlines_line:
  "list_all (\<lambda>c. \<not> is_linebreak c) s \<Longrightarrow> py_splitlines (s @ CHR 0x0A # rest) = s # py_splitlines rest"
  by (induction s) (auto simp: is_linebreak_def code_of_def split: list.splits)

lemma splitlines_of_lines:
  "\<forall>s \<in> set ls. list_all (\<lambda>c. \<not> is_linebreak c) s \<Longrightarrow>
   py_splitlines (concat (map (\<lambda>s. s @ [CHR 0x0A]) ls)) = ls"
  by (induction ls) (auto simp: py_splitlines_line)

text \<open>\<open>text.replace("\r\n", "\n").replace("\r", "\n")\<close>.\<close>

fun normalize_newlines :: "string \<Rightarrow> string" where
  "normalize_newlines [] = []"
| "normalize_newlines [c] = (if c = CHR 0x0D then [CHR 0x0A] else [c])"
| "normalize_newlines (c # d # cs) =
     (if c = CHR 0x0D \<and> d = CHR 0x0A then CHR 0x0A # normalize_newlines cs
      else (if c = CHR 0x0D then CHR 0x0A else c) # normalize_newlines (d # cs))"

lemma normalize_newlines_id: "CHR 0x0D \<notin> set s \<Longrightarrow> normalize_newlines s = s"
  by (induction s rule: normalize_newlines.induct) auto

lemma normalize_newlines_no_cr: "CHR 0x0D \<notin> set (normalize_newlines s)"
  by (induction s rule: normalize_newlines.induct) auto

lemma normalize_newlines_idem: "normalize_newlines (normalize_newlines s) = normalize_newlines s"
  by (simp add: normalize_newlines_id normalize_newlines_no_cr)

end
