(* ===== verification/Py_Numerals.thy ===== *)
theory Py_Numerals
  imports Py_Text
begin

text \<open>
  Decimal and hexadecimal numerals as Python prints (\<open>str\<close>) and reads (\<open>int(s, 10)\<close>,
  \<open>int(s, 16)\<close>) them, with the round trip between the two.
\<close>

definition digit_char :: "nat \<Rightarrow> char" where
  "digit_char n = char_of (48 + n)"

definition digit_val :: "char \<Rightarrow> nat" where
  "digit_val c = code_of c - 48"

fun show_nat :: "nat \<Rightarrow> string" where
  "show_nat n = (if n < 10 then [digit_char n] else show_nat (n div 10) @ [digit_char (n mod 10)])"

declare show_nat.simps [simp del]

definition show_int :: "int \<Rightarrow> string" where
  "show_int i = (if i < 0 then CHR ''-'' # show_nat (nat (- i)) else show_nat (nat i))"

definition dec_val :: "string \<Rightarrow> nat" where
  "dec_val s = foldl (\<lambda>acc c. 10 * acc + digit_val c) 0 s"

definition hex_digit_char :: "nat \<Rightarrow> char" where
  "hex_digit_char n = (if n < 10 then char_of (48 + n) else char_of (87 + n))"

definition hex_digit_val :: "char \<Rightarrow> nat" where
  "hex_digit_val c = (let n = code_of c in
     if n \<le> 57 then n - 48 else if n \<le> 70 then n - 55 else n - 87)"

definition hex_val :: "string \<Rightarrow> nat" where
  "hex_val s = foldl (\<lambda>acc c. 16 * acc + hex_digit_val c) 0 s"

text \<open>
  \<open>_INTEGER_RE\<close> (\<open>[+-]?[0-9]+\<close>) and \<open>_HEX_RE\<close> (\<open>[+-]?0[xX][0-9a-fA-F]+\<close>) with
  \<open>int(raw, 10)\<close> and \<open>int(raw, 16)\<close> on their matches; \<open>None\<close> is a failed match.
\<close>

definition sign_split :: "string \<Rightarrow> bool \<times> string" where
  "sign_split s = (case s of
     c # cs \<Rightarrow> (if c = CHR ''-'' then (True, cs) else if c = CHR ''+'' then (False, cs) else (False, s))
   | [] \<Rightarrow> (False, []))"

definition signed :: "bool \<Rightarrow> nat \<Rightarrow> int" where
  "signed neg n = (if neg then - int n else int n)"

definition integer_re :: "string \<Rightarrow> int option" where
  "integer_re s = (let (neg, ds) = sign_split s in
     if ds \<noteq> [] \<and> list_all is_digit ds then Some (signed neg (dec_val ds)) else None)"

definition hex_re :: "string \<Rightarrow> int option" where
  "hex_re s = (let (neg, ds) = sign_split s in
     case ds of
       z # x # hs \<Rightarrow>
         if z = CHR ''0'' \<and> (x = CHR ''x'' \<or> x = CHR ''X'') \<and> hs \<noteq> [] \<and> list_all is_hex hs
         then Some (signed neg (hex_val hs)) else None
     | _ \<Rightarrow> None)"

lemma is_digit_digit_char: "n < 10 \<Longrightarrow> is_digit (digit_char n)"
  by (simp add: is_digit_def digit_char_def)

lemma digit_val_char: "n < 10 \<Longrightarrow> digit_val (digit_char n) = n"
  by (simp add: digit_val_def digit_char_def)

lemma dec_val_snoc: "dec_val (s @ [c]) = 10 * dec_val s + digit_val c"
  by (simp add: dec_val_def)

lemma show_nat_digits: "show_nat n \<noteq> [] \<and> list_all is_digit (show_nat n)"
proof (induction n rule: show_nat.induct)
  case (1 n)
  then show ?case
    by (subst (1 2) show_nat.simps) (auto simp: is_digit_digit_char)
qed

lemma dec_val_show_nat [simp]: "dec_val (show_nat n) = n"
proof (induction n rule: show_nat.induct)
  case (1 n)
  then show ?case
    by (subst show_nat.simps) (auto simp: dec_val_snoc digit_val_char dec_val_def [of "[_]"])
qed

lemma digit_not_sign: "is_digit c \<Longrightarrow> c \<noteq> CHR ''-'' \<and> c \<noteq> CHR ''+''"
  by (auto simp: is_digit_def code_of_def)

lemma sign_split_show_nat: "sign_split (show_nat n) = (False, show_nat n)"
  using show_nat_digits [of n]
  by (cases "show_nat n") (auto simp: sign_split_def digit_not_sign dest: digit_not_sign)

lemma integer_re_show_int: "integer_re (show_int i) = Some i"
proof (cases "i < 0")
  case True
  then show ?thesis
    using show_nat_digits [of "nat (- i)"]
    by (simp add: integer_re_def show_int_def sign_split_def signed_def)
next
  case False
  then show ?thesis
    using show_nat_digits [of "nat i"]
    by (simp add: integer_re_def show_int_def sign_split_show_nat signed_def)
qed

lemma hex_re_digits: "list_all is_digit s \<Longrightarrow> hex_re s = None"
  by (auto simp: hex_re_def sign_split_def is_digit_def code_of_def split: list.splits)

lemma hex_re_show_int: "hex_re (show_int i) = None"
proof (cases "i < 0")
  case True
  have "hex_re (CHR ''-'' # s) = None" if "list_all is_digit s" for s
    using that by (auto simp: hex_re_def sign_split_def is_digit_def code_of_def split: list.splits)
  with True show ?thesis
    using show_nat_digits [of "nat (- i)"] by (simp add: show_int_def)
next
  case False
  then show ?thesis
    using show_nat_digits [of "nat i"] by (simp add: show_int_def hex_re_digits)
qed

lemma show_int_chars: "c \<in> set (show_int i) \<Longrightarrow> is_digit c \<or> c = CHR ''-''"
  using show_nat_digits by (auto simp: show_int_def list_all_iff split: if_splits)

lemma show_int_nonempty [simp]: "show_int i \<noteq> []"
  using show_nat_digits by (simp add: show_int_def)

lemma show_nat_inject [simp]: "show_nat m = show_nat n \<longleftrightarrow> m = n"
  by (metis dec_val_show_nat)

subsection \<open>JSON string literals\<close>

definition hex4 :: "nat \<Rightarrow> string" where
  "hex4 n = map (\<lambda>k. hex_digit_char (n div 16 ^ k mod 16)) [3, 2, 1, 0]"

text \<open>The escapes of \<open>json.dumps\<close> with \<open>ensure_ascii=False\<close>.\<close>

definition json_escape :: "char \<Rightarrow> string" where
  "json_escape c =
     (if c = CHR 0x22 then [CHR 0x5C, CHR 0x22]
      else if c = CHR 0x5C then [CHR 0x5C, CHR 0x5C]
      else if c = CHR 0x0A then [CHR 0x5C, CHR ''n'']
      else if c = CHR 0x0D then [CHR 0x5C, CHR ''r'']
      else if c = CHR 0x09 then [CHR 0x5C, CHR ''t'']
      else if c = CHR 0x0C then [CHR 0x5C, CHR ''f'']
      else if c = CHR 0x08 then [CHR 0x5C, CHR ''b'']
      else if is_control c then CHR 0x5C # CHR ''u'' # hex4 (code_of c)
      else [c])"

definition json_string :: "string \<Rightarrow> string" where
  "json_string s = CHR 0x22 # concat (map json_escape s) @ [CHR 0x22]"

definition json_unescape :: "char \<Rightarrow> nat option" where
  "json_unescape e =
     (if e = CHR 0x22 then Some 34 else if e = CHR 0x5C then Some 92
      else if e = CHR ''/'' then Some 47 else if e = CHR ''b'' then Some 8
      else if e = CHR ''f'' then Some 12 else if e = CHR ''n'' then Some 10
      else if e = CHR ''r'' then Some 13 else if e = CHR ''t'' then Some 9 else None)"

text \<open>
  The scanner of \<open>json.loads\<close>, from just after the opening quote: the code points read and
  the text after the closing quote.  Control characters are refused, as in strict mode.
  Both halves of a surrogate pair are kept as they are; they lie beyond U+00FF either way.
\<close>

fun json_scan :: "string \<Rightarrow> (nat list \<times> string) option" where
  "json_scan [] = None"
| "json_scan (c # cs) =
     (if c = CHR 0x22 then Some ([], cs)
      else if c = CHR 0x5C then
        (case cs of
           [] \<Rightarrow> None
         | e # r \<Rightarrow>
             if e = CHR ''u'' then
               (case r of
                  h1 # h2 # h3 # h4 # r' \<Rightarrow>
                    if list_all is_hex [h1, h2, h3, h4]
                    then map_option (\<lambda>(ns, t). (hex_val [h1, h2, h3, h4] # ns, t)) (json_scan r')
                    else None
                | _ \<Rightarrow> None)
             else (case json_unescape e of
                     None \<Rightarrow> None
                   | Some n \<Rightarrow> map_option (\<lambda>(ns, t). (n # ns, t)) (json_scan r)))
      else if is_control c then None
      else map_option (\<lambda>(ns, t). (code_of c # ns, t)) (json_scan cs))"

text \<open>
  \<open>json.loads(raw)\<close> for a text that begins with a quote.  \<open>Json_wide\<close> is a string with a
  code point beyond U+00FF, which the text type of this development does not hold.
\<close>

datatype json_out = Json_ok string | Json_invalid | Json_wide

definition is_json_space :: "char \<Rightarrow> bool" where
  "is_json_space c = (c = CHR 0x20 \<or> c = CHR 0x09 \<or> c = CHR 0x0A \<or> c = CHR 0x0D)"

definition json_loads_string :: "string \<Rightarrow> json_out" where
  "json_loads_string raw = (case raw of
     [] \<Rightarrow> Json_invalid
   | q # cs \<Rightarrow>
       if q \<noteq> CHR 0x22 then Json_invalid
       else (case json_scan cs of
               None \<Rightarrow> Json_invalid
             | Some (ns, t) \<Rightarrow>
                 if \<not> list_all is_json_space t then Json_invalid
                 else if list_all (\<lambda>n. n < 256) ns then Json_ok (map char_of ns)
                 else Json_wide))"

lemma hex_digit_val_char: "n < 16 \<Longrightarrow> hex_digit_val (hex_digit_char n) = n"
  by (auto simp: hex_digit_val_def hex_digit_char_def Let_def)

lemma is_hex_digit_char: "n < 16 \<Longrightarrow> is_hex (hex_digit_char n)"
  by (auto simp: is_hex_def is_lower_hex_def is_digit_def hex_digit_char_def)

lemma hex_val_hex4: "n < 256 \<Longrightarrow> hex_val (hex4 n) = n"
  by (simp add: hex4_def hex_val_def hex_digit_val_char)

lemma hex4_shape: "\<exists>h1 h2 h3 h4. hex4 n = [h1, h2, h3, h4] \<and> list_all is_hex [h1, h2, h3, h4]"
  by (simp add: hex4_def is_hex_digit_char)

lemma json_scan_u_escape:
  "json_scan (CHR 0x5C # CHR ''u'' # hex4 (code_of c) @ cs) =
     map_option (\<lambda>(ns, t). (code_of c # ns, t)) (json_scan cs)"
proof -
  obtain h1 h2 h3 h4 where h: "hex4 (code_of c) = [h1, h2, h3, h4]" "list_all is_hex [h1, h2, h3, h4]"
    using hex4_shape by blast
  have "hex_val [h1, h2, h3, h4] = code_of c"
    using hex_val_hex4 [OF code_of_less [of c]] h(1) by simp
  with h show ?thesis by (simp add: is_control_def)
qed

lemma json_scan_escape:
  "json_scan (json_escape c @ cs) = map_option (\<lambda>(ns, t). (code_of c # ns, t)) (json_scan cs)"
proof -
  have "code_of CHR 0x22 = 34" "code_of CHR 0x5C = 92" "code_of CHR 0x0A = 10"
      "code_of CHR 0x0D = 13" "code_of CHR 0x09 = 9" "code_of CHR 0x0C = 12" "code_of CHR 0x08 = 8"
    by (simp_all add: code_of_def)
  then show ?thesis
    using json_scan_u_escape [of c cs] by (simp add: json_escape_def json_unescape_def is_control_def)
qed

lemma json_scan_string: "json_scan (concat (map json_escape s) @ CHR 0x22 # t) = Some (map code_of s, t)"
proof (induction s)
  case (Cons c s)
  then show ?case by (simp only: list.map concat.simps append_assoc json_scan_escape) simp
qed simp

lemma json_loads_json_string: "json_loads_string (json_string s) = Json_ok s"
proof -
  have "list_all (\<lambda>n. n < 256) (map code_of s)"
    by (simp add: list_all_iff code_of_less)
  moreover have "map char_of (map code_of s) = s"
    by (induction s) auto
  ultimately show ?thesis
    by (simp add: json_loads_string_def json_string_def json_scan_string)
qed

lemma json_string_inject: "json_string s = json_string t \<Longrightarrow> s = t"
  by (metis json_loads_json_string json_out.inject(1))

end
