(* ===== verification/Py_Values.thy ===== *)
theory Py_Values
  imports Py_Numerals "HOL-Library.Multiset"
begin

text \<open>
  The values a YAML document gives the program, and their canonical JSON text
  (\<open>json.dumps\<close> with sorted keys, the separators \<open>","\<close> and \<open>":"\<close> and without
  NaN).  Dictionary keys are strings or integers.  A finite float is kept as the text JSON
  prints for it; \<open>PNonFinite\<close> is NaN or an infinity; \<open>POpaque\<close> is an object JSON cannot
  print, such as a date.
\<close>

datatype pkey = KStr string | KInt int

datatype pyval =
    PNone
  | PBool bool
  | PInt int
  | PFloat string
  | PNonFinite
  | PStr string
  | PList "pyval list"
  | PDict "(pkey \<times> pyval) list"
  | POpaque string

definition key_is_str :: "pkey \<Rightarrow> bool" where
  "key_is_str k = (case k of KStr _ \<Rightarrow> True | KInt _ \<Rightarrow> False)"

definition key_str :: "pkey \<Rightarrow> string" where
  "key_str k = (case k of KStr s \<Rightarrow> s | KInt _ \<Rightarrow> [])"

definition key_int :: "pkey \<Rightarrow> int" where
  "key_int k = (case k of KStr _ \<Rightarrow> 0 | KInt i \<Rightarrow> i)"

text \<open>\<open>data.get(name)\<close>: a missing key reads as \<open>None\<close>.\<close>

definition py_get :: "(pkey \<times> pyval) list \<Rightarrow> string \<Rightarrow> pyval" where
  "py_get d k = (case dict_get d (KStr k) of None \<Rightarrow> PNone | Some v \<Rightarrow> v)"

definition py_get_or :: "(pkey \<times> pyval) list \<Rightarrow> string \<Rightarrow> pyval \<Rightarrow> pyval" where
  "py_get_or d k v0 = (case dict_get d (KStr k) of None \<Rightarrow> v0 | Some v \<Rightarrow> v)"

definition py_pop :: "(pkey \<times> pyval) list \<Rightarrow> string \<Rightarrow> (pkey \<times> pyval) list" where
  "py_pop d k = filter (\<lambda>(k', v). k' \<noteq> KStr k) d"

text \<open>\<open>sorted(keys)\<close>: strings by code point, integers by value, a mixture raises (\<open>None\<close>).\<close>

definition sort_entries :: "(pkey \<times> 'a) list \<Rightarrow> (pkey \<times> 'a) list option" where
  "sort_entries es =
     (if list_all (\<lambda>(k, _). key_is_str k) es then Some (sort_key (\<lambda>(k, _). key_str k) es)
      else if list_all (\<lambda>(k, _). \<not> key_is_str k) es then Some (sort_key (\<lambda>(k, _). key_int k) es)
      else None)"

definition json_key :: "pkey \<Rightarrow> string" where
  "json_key k = (case k of KStr s \<Rightarrow> json_string s | KInt i \<Rightarrow> CHR 0x22 # show_int i @ [CHR 0x22])"

definition json_entry :: "pkey \<times> string \<Rightarrow> string" where
  "json_entry e = json_key (fst e) @ '':'' @ snd e"

definition json_object :: "(pkey \<times> string) list \<Rightarrow> string option" where
  "json_object es = map_option
     (\<lambda>es'. ''{'' @ join_with '','' (map json_entry es') @ ''}'') (sort_entries es)"

fun json_text :: "pyval \<Rightarrow> string option" where
  "json_text PNone = Some ''null''"
| "json_text (PBool b) = Some (if b then ''true'' else ''false'')"
| "json_text (PInt i) = Some (show_int i)"
| "json_text (PFloat t) = Some t"
| "json_text PNonFinite = None"
| "json_text (PStr s) = Some (json_string s)"
| "json_text (PList xs) =
     map_option (\<lambda>ts. ''['' @ join_with '','' ts @ '']'') (those (map json_text xs))"
| "json_text (PDict kvs) =
     Option.bind (those (map (\<lambda>(k, v). map_option (Pair k) (json_text v)) kvs)) json_object"
| "json_text (POpaque s) = None"

text \<open>Values of texts, integers, booleans, lists and text-keyed dictionaries always have a JSON text.\<close>

fun plain :: "pyval \<Rightarrow> bool" where
  "plain (PBool _) = True"
| "plain (PInt _) = True"
| "plain (PStr _) = True"
| "plain (PList xs) = list_all plain xs"
| "plain (PDict kvs) = (list_all (\<lambda>(k, v). plain v) kvs \<and> list_all (\<lambda>(k, v). key_is_str k) kvs)"
| "plain PNone = True"
| "plain _ = False"

lemma those_Some: "(\<forall>x \<in> set xs. f x \<noteq> None) \<Longrightarrow> those (map f xs) = Some (map (the \<circ> f) xs)"
  by (induction xs) auto

lemma plain_json: "plain v \<Longrightarrow> \<exists>t. json_text v = Some t"
proof (induction v rule: plain.induct)
  case (4 xs)
  then have "\<forall>x \<in> set xs. json_text x \<noteq> None" by (auto simp: list_all_iff)
  then show ?case by (simp add: those_Some)
next
  case (5 kvs)
  let ?f = "\<lambda>(k, v). map_option (Pair k) (json_text v)"
  have "\<forall>kv \<in> set kvs. ?f kv \<noteq> None" using 5 by (fastforce simp: list_all_iff)
  then have "those (map ?f kvs) = Some (map (the \<circ> ?f) kvs)" by (rule those_Some)
  moreover have "list_all (\<lambda>(k, v). key_is_str k) (map (the \<circ> ?f) kvs)"
    using 5 by (fastforce simp: list_all_iff)
  ultimately show ?case by (simp add: json_object_def sort_entries_def)
qed auto

lemma sort_key_unique:
  assumes "mset xs = mset ys" and "inj_on f (set xs)"
  shows "sort_key f xs = sort_key f ys"
  using assms by (intro sort_key_inj_key_eq) auto

lemma inj_on_key:
  assumes d: "distinct (map fst es)" and g: "inj_on g (fst ` set es)"
  shows "inj_on (\<lambda>(k, _). g k) (set es)"
proof (rule inj_onI)
  fix p q assume p: "p \<in> set es" and q: "q \<in> set es" and eq: "(case p of (k, _) \<Rightarrow> g k) = (case q of (k, _) \<Rightarrow> g k)"
  then have "fst p = fst q" using g by (auto simp: inj_on_def split: prod.splits)
  with d p q show "p = q" by (metis distinct_map inj_onD)
qed

lemma sort_entries_perm:
  assumes m: "mset es = mset es'" and d: "distinct (map fst es)"
  shows "sort_entries es = sort_entries es'"
proof -
  have s: "set es = set es'" using m by (rule mset_eq_setD)
  have all: "list_all P es = list_all P es'" for P
    using s by (simp add: list_all_iff)
  have "sort_key (\<lambda>(k, _). key_str k) es = sort_key (\<lambda>(k, _). key_str k) es'"
    if "list_all (\<lambda>(k, _). key_is_str k) es"
  proof (rule sort_key_unique [OF m], rule inj_on_key [OF d])
    from that show "inj_on key_str (fst ` set es)"
      by (auto simp: inj_on_def list_all_iff key_is_str_def key_str_def split: pkey.splits)
  qed
  moreover have "sort_key (\<lambda>(k, _). key_int k) es = sort_key (\<lambda>(k, _). key_int k) es'"
    if "list_all (\<lambda>(k, _). \<not> key_is_str k) es"
  proof (rule sort_key_unique [OF m], rule inj_on_key [OF d])
    from that show "inj_on key_int (fst ` set es)"
      by (auto simp: inj_on_def list_all_iff key_is_str_def key_int_def split: pkey.splits)
  qed
  ultimately show ?thesis by (simp add: sort_entries_def all)
qed

text \<open>
  Two documents that differ only in the order of dictionary entries, at any depth.
\<close>

inductive same_document :: "pyval \<Rightarrow> pyval \<Rightarrow> bool" where
  same_refl: "same_document v v"
| same_list: "list_all2 same_document xs ys \<Longrightarrow> same_document (PList xs) (PList ys)"
| same_dict: "distinct (map fst kvs) \<Longrightarrow>
     list_all2 (\<lambda>p q. fst p = fst q \<and> same_document (snd p) (snd q)) kvs kvs1 \<Longrightarrow>
     mset kvs1 = mset kvs2 \<Longrightarrow> same_document (PDict kvs) (PDict kvs2)"

lemma those_mset:
  assumes "mset xs = mset ys"
  shows "rel_option (\<lambda>a b. mset a = mset b) (those (map f xs)) (those (map f ys))"
proof -
  have some: "those (map f zs) = (if \<forall>z \<in> set zs. f z \<noteq> None then Some (map (the \<circ> f) zs) else None)" for zs
    by (induction zs) (auto split: option.splits)
  have "set xs = set ys" using assms by (rule mset_eq_setD)
  moreover have "mset (map (the \<circ> f) xs) = mset (map (the \<circ> f) ys)"
    using assms by simp
  ultimately show ?thesis by (simp only: some) auto
qed

lemma those_map_fst:
  "those (map (\<lambda>(k, v). map_option (Pair k) (f v)) kvs) = Some es \<Longrightarrow> map fst es = map fst kvs"
proof (induction kvs arbitrary: es)
  case (Cons p kvs)
  then show ?case by (cases p) (auto split: option.splits)
qed simp

lemma json_text_same_document: "same_document v w \<Longrightarrow> json_text v = json_text w"
proof (induction rule: same_document.induct)
  case (same_list xs ys)
  then have "map json_text xs = map json_text ys"
    by (induction xs ys rule: list_all2_induct) auto
  then show ?case by (simp only: json_text.simps)
next
  case (same_dict kvs kvs1 kvs2)
  let ?f = "\<lambda>(k, v). map_option (Pair k) (json_text v)"
  have eq: "map ?f kvs = map ?f kvs1"
    using same_dict.IH by (induction kvs kvs1 rule: list_all2_induct) (auto split: prod.splits)
  have keys: "map fst kvs = map fst kvs1"
    using same_dict.IH by (induction kvs kvs1 rule: list_all2_induct) auto
  have rel: "rel_option (\<lambda>a b. mset a = mset b) (those (map ?f kvs1)) (those (map ?f kvs2))"
    using same_dict.hyps(2) by (rule those_mset)
  have "Option.bind (those (map ?f kvs1)) json_object = Option.bind (those (map ?f kvs2)) json_object"
  proof (cases "those (map ?f kvs1)")
    case None
    with rel show ?thesis by (cases "those (map ?f kvs2)") auto
  next
    case (Some es)
    with rel obtain es' where es': "those (map ?f kvs2) = Some es'" "mset es = mset es'"
      by (cases "those (map ?f kvs2)") auto
    from Some have "distinct (map fst es)"
      using those_map_fst [OF Some] same_dict.hyps(1) keys by simp
    with es' have "json_object es = json_object es'"
      by (simp add: json_object_def sort_entries_perm)
    with Some es' show ?thesis by simp
  qed
  with eq show ?case by (simp only: json_text.simps)
qed simp

end
