(* ===== verification/Board_Fields.thy ===== *)
theory Board_Fields
  imports Py_Values
begin

text \<open>
  The field readers of \<open>firmware/boards/models.py\<close>: the enumerations, the regular
  expressions, and the functions \<open>_mapping\<close>, \<open>_only_keys\<close>, \<open>_sequence\<close>, \<open>_text\<close>,
  \<open>_identifier\<close>, \<open>_sha256\<close>, \<open>_kconfig_values\<close> that turn an untyped document value into a
  typed one or raise.  A raised exception is a value of \<open>model_error\<close>: the class and, for
  \<open>BoardContractError\<close>, the failing check and the field it names.
\<close>

subsection \<open>Enumerations\<close>

datatype support_status =
  PROVISIONAL | BUILD_VERIFIED | DEPLOYMENT_VERIFIED | RUNTIME_SUPPORTED | CONFIG_ONLY | BLOCKED

datatype transport_kind = USB | UART | CAN

datatype artifact_format = BIN | UF2 | IHEX

datatype flash_strategy =
  PREPARE_ONLY | SD_CARD | AVRDUDE | DFU_UTIL | MAKE_FLASH | RAW_ADDRESS | RP2040_BOOTSEL

datatype warning_severity = INFO | WARNING | CRITICAL | BLOCKING

definition support_status_of :: "string \<Rightarrow> support_status option" where
  "support_status_of s = map_of
     [(''PROVISIONAL'', PROVISIONAL), (''BUILD_VERIFIED'', BUILD_VERIFIED),
      (''DEPLOYMENT_VERIFIED'', DEPLOYMENT_VERIFIED), (''RUNTIME_SUPPORTED'', RUNTIME_SUPPORTED),
      (''CONFIG_ONLY'', CONFIG_ONLY), (''BLOCKED'', BLOCKED)] s"

definition transport_kind_of :: "string \<Rightarrow> transport_kind option" where
  "transport_kind_of s = map_of [(''USB'', USB), (''UART'', UART), (''CAN'', CAN)] s"

definition artifact_format_of :: "string \<Rightarrow> artifact_format option" where
  "artifact_format_of s = map_of [(''BIN'', BIN), (''UF2'', UF2), (''IHEX'', IHEX)] s"

definition flash_strategy_of :: "string \<Rightarrow> flash_strategy option" where
  "flash_strategy_of s = map_of
     [(''PREPARE_ONLY'', PREPARE_ONLY), (''SD_CARD'', SD_CARD), (''AVRDUDE'', AVRDUDE),
      (''DFU_UTIL'', DFU_UTIL), (''MAKE_FLASH'', MAKE_FLASH), (''RAW_ADDRESS'', RAW_ADDRESS),
      (''RP2040_BOOTSEL'', RP2040_BOOTSEL)] s"

definition warning_severity_of :: "string \<Rightarrow> warning_severity option" where
  "warning_severity_of s = map_of
     [(''INFO'', INFO), (''WARNING'', WARNING), (''CRITICAL'', CRITICAL), (''BLOCKING'', BLOCKING)] s"

subsection \<open>Regular expressions\<close>

text \<open>\<open>_ID_RE\<close>: runs of lower case letters and digits with single separators between them.\<close>

definition is_id_char :: "char \<Rightarrow> bool" where
  "is_id_char c = (is_lower c \<or> is_digit c)"

definition is_id_sep :: "char \<Rightarrow> bool" where
  "is_id_sep c = (c = CHR ''.'' \<or> c = CHR ''_'' \<or> c = CHR ''-'')"

fun id_re_from :: "bool \<Rightarrow> string \<Rightarrow> bool" where
  "id_re_from after_char [] = after_char"
| "id_re_from after_char (c # cs) =
     (if is_id_char c then id_re_from True cs
      else after_char \<and> is_id_sep c \<and> id_re_from False cs)"

definition id_re :: "string \<Rightarrow> bool" where
  "id_re s = id_re_from False s"

definition sha256_re :: "string \<Rightarrow> bool" where
  "sha256_re s = (length s = 64 \<and> list_all is_lower_hex s)"

definition commit_re :: "string \<Rightarrow> bool" where
  "commit_re s = (length s = 40 \<and> list_all is_lower_hex s)"

definition kconfig_re :: "string \<Rightarrow> bool" where
  "kconfig_re s = (starts_with ''CONFIG_'' s \<and> drop 7 s \<noteq> [] \<and> list_all is_word (drop 7 s))"

text \<open>\<open>_PROCESSOR_RE\<close> ignores case, so it is matched on the upper-case text.\<close>

definition prefixed :: "string \<Rightarrow> (char \<Rightarrow> bool) \<Rightarrow> string \<Rightarrow> bool" where
  "prefixed p cls s = (let rest = drop (length p) s in
     starts_with p s \<and> rest \<noteq> [] \<and> list_all cls rest)"

definition processor_re :: "string \<Rightarrow> bool" where
  "processor_re s = (let u = py_upper s; alnum = (\<lambda>c. is_upper c \<or> is_digit c) in
     prefixed ''STM32'' alnum u \<or> prefixed ''LPC'' is_digit u \<or> prefixed ''RP'' is_digit u
     \<or> prefixed ''ATMEGA'' alnum u \<or> prefixed ''AT90USB'' alnum u
     \<or> prefixed ''SAM'' alnum u \<or> prefixed ''SAME'' alnum u)"

definition address_re :: "string \<Rightarrow> bool" where
  "address_re s = prefixed ''0x'' is_hex s"

subsection \<open>Allow lists\<close>

definition architectures :: "string list" where
  "architectures = [''stm32'', ''lpc176x'', ''rpxxxx'', ''avr'', ''atsam'', ''atsamd'', ''linux'']"

definition alias_meta :: "char list" where
  "alias_meta = ''*?[](){}+|'' @ [CHR 0x5C] @ ''^$''"

definition shell_markers :: "string list" where
  "shell_markers = [''&&'', ''||'', '';'', ''|'', ''>'', ''<'', [CHR 0x60], ''$('',
     [CHR 0x0D], [CHR 0x0A], [CHR 0x00]]"

definition allowed_backends :: "string list" where
  "allowed_backends = [''avrdude'', ''dfu-util'', ''make-flash'', ''raw-flash'']"

definition forbidden_backends :: "string list" where
  "forbidden_backends = [''sh'', ''bash'', ''cmd'', ''cmd.exe'', ''powershell'', ''pwsh'', ''shell'']"

definition allowed_steps :: "string list" where
  "allowed_steps =
     [''VALIDATE_ARTIFACT'', ''ASSIGN_FINAL_FILENAME'', ''VERIFY_FILENAME_POLICY'',
      ''COPY_TO_MEDIA_ROOT'', ''VERIFY_MEDIA_CHECKSUM'', ''SAFE_EJECT'',
      ''REQUIRE_PRINTER_POWER_OFF'', ''REQUIRE_MEDIA_INSERTED'', ''REQUIRE_PRINTER_POWER_ON'',
      ''CONNECT_BOOT_JUMPER'', ''PRESS_RESET'', ''ENTER_DFU'', ''ENTER_BOOTSEL'', ''RUN_BACKEND'',
      ''WAIT_FOR_MCU_REENUMERATION'', ''VERIFY_KLIPPER_BUILD_ID'', ''OPERATOR_ACTION_REQUIRED'',
      ''PREPARE_MEDIA'', ''COPY_TO_MEDIA'', ''REQUIRE_POWER_OFF'', ''REQUIRE_POWER_ON'']"

subsection \<open>Errors\<close>

text \<open>
  \<open>Board_contract_error field message\<close> is the exception with the field its message starts with
  and the constant part of the message; the values the message goes on to print are left out.
\<close>

datatype model_error =
    Board_contract_error string string
  | Value_error string
  | Type_error string

type_synonym 'a read = "(model_error, 'a) res"
type_synonym pydict = "(pkey \<times> pyval) list"

definition fld :: "string \<Rightarrow> string \<Rightarrow> string" where
  "fld f name = f @ ''.'' @ name"

definition idx :: "string \<Rightarrow> nat \<Rightarrow> string" where
  "idx f i = f @ ''['' @ show_nat i @ '']''"

subsection \<open>Field readers\<close>

definition as_mapping :: "pyval \<Rightarrow> string \<Rightarrow> pydict read" where
  "as_mapping v f = (case v of PDict d \<Rightarrow> Inr d | _ \<Rightarrow> Inl (Board_contract_error f ''must be an object''))"

definition sorted_keys :: "pkey list \<Rightarrow> pkey list option" where
  "sorted_keys ks = map_option (map fst) (sort_entries (map (\<lambda>k. (k, ())) ks))"

definition unexpected_keys :: "pydict \<Rightarrow> string list \<Rightarrow> pkey list" where
  "unexpected_keys d allowed = filter (\<lambda>k. k \<notin> set (map KStr allowed)) (map fst d)"

definition only_keys :: "pydict \<Rightarrow> string list \<Rightarrow> string \<Rightarrow> unit read" where
  "only_keys d allowed f = (let unexpected = unexpected_keys d allowed in
     case sorted_keys unexpected of
       None \<Rightarrow> Inl (Type_error f)
     | Some ks \<Rightarrow> require (ks = []) (Board_contract_error f ''has unexpected fields'') (Inr ()))"

definition as_sequence :: "pyval \<Rightarrow> string \<Rightarrow> pyval list read" where
  "as_sequence v f = (case v of PList xs \<Rightarrow> Inr xs | _ \<Rightarrow> Inl (Board_contract_error f ''must be a list''))"

definition as_text_or_empty :: "pyval \<Rightarrow> string \<Rightarrow> bool \<Rightarrow> string read" where
  "as_text_or_empty v f allow_empty = (case v of
     PStr s \<Rightarrow> (let result = py_strip s in
       require (allow_empty \<or> result \<noteq> []) (Board_contract_error f ''must not be empty'') (Inr result))
   | _ \<Rightarrow> Inl (Board_contract_error f ''must be a string''))"

abbreviation as_text :: "pyval \<Rightarrow> string \<Rightarrow> string read" where
  "as_text v f \<equiv> as_text_or_empty v f False"

definition as_identifier :: "pyval \<Rightarrow> string \<Rightarrow> string read" where
  "as_identifier v f = bindE (as_text v f) (\<lambda>t. let result = py_lower t in
     require (id_re result) (Board_contract_error f ''is not a canonical identifier'') (Inr result))"

definition as_sha256 :: "pyval \<Rightarrow> string \<Rightarrow> string read" where
  "as_sha256 v f = bindE (as_text v f) (\<lambda>t. let result = py_lower t in
     require (sha256_re result) (Board_contract_error f ''must be a lowercase SHA-256'') (Inr result))"

text \<open>A generator over \<open>enumerate(_sequence(...))\<close>, and one over the bare items.\<close>

definition read_indexed :: "(pyval \<Rightarrow> string \<Rightarrow> 'a read) \<Rightarrow> pyval \<Rightarrow> string \<Rightarrow> 'a list read" where
  "read_indexed r v f = bindE (as_sequence v f)
     (\<lambda>xs. mapE (\<lambda>(i, x). r x (idx f i)) (enumerate 0 xs))"

definition read_items :: "(pyval \<Rightarrow> string \<Rightarrow> 'a read) \<Rightarrow> pyval \<Rightarrow> string \<Rightarrow> 'a list read" where
  "read_items r v f = bindE (as_sequence v f) (mapE (\<lambda>x. r x f))"

subsection \<open>Kconfig values\<close>

datatype kscalar = SBool bool | SInt int | SStr string

text \<open>Python's \<open>==\<close> on bool, int and str: booleans compare as the integers 0 and 1.\<close>

definition kscalar_int :: "kscalar \<Rightarrow> int option" where
  "kscalar_int v = (case v of SBool b \<Rightarrow> Some (if b then 1 else 0) | SInt i \<Rightarrow> Some i | SStr _ \<Rightarrow> None)"

definition kscalar_eq :: "kscalar \<Rightarrow> kscalar \<Rightarrow> bool" where
  "kscalar_eq v w = (case (v, w) of
     (SStr s, SStr t) \<Rightarrow> s = t
   | _ \<Rightarrow> kscalar_int v \<noteq> None \<and> kscalar_int v = kscalar_int w)"

type_synonym kconfig = "(string, kscalar) dict"

definition kconfig_scalar :: "pyval \<Rightarrow> kscalar option" where
  "kconfig_scalar v = (case v of
     PBool b \<Rightarrow> Some (SBool b) | PInt i \<Rightarrow> Some (SInt i) | PStr s \<Rightarrow> Some (SStr s) | _ \<Rightarrow> None)"

fun kconfig_entries :: "pydict \<Rightarrow> string \<Rightarrow> kconfig \<Rightarrow> kconfig read" where
  "kconfig_entries [] f result = Inr result"
| "kconfig_entries ((key, item) # d) f result = (case key of
     KInt _ \<Rightarrow> Inl (Board_contract_error f ''has invalid Kconfig symbol'')
   | KStr k \<Rightarrow>
       require (kconfig_re k) (Board_contract_error f ''has invalid Kconfig symbol'')
       (case kconfig_scalar item of
          None \<Rightarrow> Inl (Board_contract_error (fld f k) ''has an unsupported value'')
        | Some s \<Rightarrow> kconfig_entries d f (dict_set result k s)))"

definition kconfig_values :: "pyval \<Rightarrow> string \<Rightarrow> kconfig read" where
  "kconfig_values v f = bindE (as_mapping v f) (\<lambda>d. kconfig_entries d f [])"

subsection \<open>What the readers guarantee\<close>

lemma id_re_chars: "id_re s \<Longrightarrow> list_all (\<lambda>c. is_id_char c \<or> is_id_sep c) s"
proof -
  have "id_re_from b s \<Longrightarrow> list_all (\<lambda>c. is_id_char c \<or> is_id_sep c) s" for b
    by (induction s arbitrary: b) (auto split: if_splits)
  then show "id_re s \<Longrightarrow> ?thesis" by (simp add: id_re_def)
qed

lemma id_re_nonempty: "id_re s \<Longrightarrow> s \<noteq> []"
  by (auto simp: id_re_def)

lemma as_identifier_ok: "as_identifier v f = Inr s \<Longrightarrow> id_re s \<and> py_lower s = s"
  by (auto simp: as_identifier_def result_simps Let_def)

lemma as_sha256_ok: "as_sha256 v f = Inr s \<Longrightarrow> sha256_re s"
  by (auto simp: as_sha256_def result_simps Let_def)

lemma as_text_nonempty: "as_text v f = Inr s \<Longrightarrow> s \<noteq> []"
  by (auto simp: as_text_or_empty_def result_simps Let_def split: pyval.splits)

lemma as_text_strip: "as_text v f = Inr s \<Longrightarrow> \<exists>t. v = PStr t \<and> s = py_strip t"
  by (auto simp: as_text_or_empty_def result_simps Let_def split: pyval.splits)

definition kconfig_wf :: "kconfig \<Rightarrow> bool" where
  "kconfig_wf d = (dict_ok d \<and> list_all kconfig_re (map fst d))"

lemma kconfig_wf_set: "kconfig_wf d \<Longrightarrow> kconfig_re k \<Longrightarrow> kconfig_wf (dict_set d k v)"
proof -
  assume "kconfig_wf d" "kconfig_re k"
  moreover have "set (map fst (dict_set d k v)) = insert k (set (map fst d))"
    using keys_dict_set [of d k v] by simp
  ultimately show ?thesis
    unfolding kconfig_wf_def list_all_iff by (simp add: dict_ok_set)
qed

lemma kconfig_entries_wf:
  "kconfig_entries d f r = Inr r' \<Longrightarrow> kconfig_wf r \<Longrightarrow> kconfig_wf r'"
  by (induction d f r rule: kconfig_entries.induct)
     (auto simp: result_simps kconfig_wf_set split: pkey.splits option.splits)

lemma kconfig_values_wf: "kconfig_values v f = Inr r \<Longrightarrow> kconfig_wf r"
  by (auto simp: kconfig_values_def result_simps kconfig_wf_def
      dest!: kconfig_entries_wf)

lemma kscalar_eq_refl [simp]: "kscalar_eq v v"
  by (cases v) (auto simp: kscalar_eq_def kscalar_int_def)

lemma kscalar_eq_sym: "kscalar_eq v w \<longleftrightarrow> kscalar_eq w v"
  by (cases v; cases w) (auto simp: kscalar_eq_def kscalar_int_def)

lemma sort_entries_Nil_iff: "sort_entries es = Some [] \<longleftrightarrow> es = []"
  by (auto simp: sort_entries_def dest!: arg_cong [where f = length])

lemma unexpected_keys_Nil: "unexpected_keys d allowed = [] \<longleftrightarrow> fst ` set d \<subseteq> KStr ` set allowed"
  by (auto simp: unexpected_keys_def filter_empty_conv subset_iff image_iff)

lemma sorted_keys_Nil: "sorted_keys ks = Some [] \<longleftrightarrow> ks = []"
  by (auto simp: sorted_keys_def sort_entries_Nil_iff)

lemma only_keys_ok: "only_keys d allowed f = Inr u \<longleftrightarrow> fst ` set d \<subseteq> KStr ` set allowed"
proof -
  have "only_keys d allowed f = Inr u \<longleftrightarrow> sorted_keys (unexpected_keys d allowed) = Some []"
    by (auto simp: only_keys_def result_simps Let_def split: option.splits)
  then show ?thesis by (simp add: sorted_keys_Nil unexpected_keys_Nil)
qed

end
