(* ===== verification/Board_Specs.thy ===== *)
theory Board_Specs
  imports Board_Fields
begin

text \<open>
  The leaf classes of \<open>firmware/boards/models.py\<close>: one record per dataclass and one reader
  per \<open>from_mapping\<close>, with its checks in the order Python evaluates them.  Each reader comes
  with the well-formedness its checks establish, stated through the \<open>checked_reader\<close>
  interface so that lists of parts inherit it.
\<close>

subsection \<open>The interface of a checking reader\<close>

locale checked_reader =
  fixes reads :: "pyval \<Rightarrow> string \<Rightarrow> 'a read" and wf :: "'a \<Rightarrow> bool"
  assumes reads_wf: "reads v f = Inr x \<Longrightarrow> wf x"
begin

lemma read_items_wf: "read_items reads v f = Inr xs \<Longrightarrow> list_all wf xs"
  by (auto simp: read_items_def result_simps list_all_iff dest!: mapE_all [where P = wf] reads_wf)

lemma read_indexed_wf: "read_indexed reads v f = Inr xs \<Longrightarrow> list_all wf xs"
  by (auto simp: read_indexed_def result_simps list_all_iff dest!: mapE_all [where P = wf] intro: reads_wf)

end

interpretation as_text: checked_reader "\<lambda>v f. as_text_or_empty v f False" "\<lambda>s. s \<noteq> []"
  by unfold_locales (rule as_text_nonempty)

interpretation as_identifier: checked_reader as_identifier "\<lambda>s. id_re s \<and> py_lower s = s"
  by unfold_locales (rule as_identifier_ok)

subsection \<open>Provenance\<close>

record provenance =
  pv_source :: string
  pv_reference :: string
  pv_detail :: string

definition provenance_from_mapping :: "pyval \<Rightarrow> string \<Rightarrow> provenance read" where
  "provenance_from_mapping v f =
     bindE (as_mapping v f) (\<lambda>data.
     bindE (only_keys data [''source'', ''reference'', ''detail''] f) (\<lambda>_.
     bindE (as_identifier (py_get data ''source'') (fld f ''source'')) (\<lambda>source.
     bindE (as_text (py_get data ''reference'') (fld f ''reference'')) (\<lambda>reference.
     bindE (as_text_or_empty (py_get_or data ''detail'' (PStr [])) (fld f ''detail'') True) (\<lambda>detail.
     Inr \<lparr>pv_source = source, pv_reference = reference, pv_detail = detail\<rparr>)))))"

definition provenance_wf :: "provenance \<Rightarrow> bool" where
  "provenance_wf p = (id_re (pv_source p) \<and> pv_reference p \<noteq> [])"

interpretation provenance: checked_reader provenance_from_mapping provenance_wf
  by unfold_locales
     (auto simp: provenance_from_mapping_def provenance_wf_def result_simps
       dest: as_text_nonempty as_identifier_ok)

definition provenance_list :: "pyval \<Rightarrow> string \<Rightarrow> provenance list read" where
  "provenance_list v f = bindE (read_indexed provenance_from_mapping v f) (\<lambda>items.
     require (items \<noteq> []) (Board_contract_error f ''must contain at least one source'') (Inr items))"

definition sourced :: "provenance list \<Rightarrow> bool" where
  "sourced ps = (ps \<noteq> [] \<and> list_all provenance_wf ps)"

interpretation provenance_list: checked_reader provenance_list sourced
  by unfold_locales
     (auto simp: provenance_list_def sourced_def result_simps dest: provenance.read_indexed_wf)

subsection \<open>Processor, bootloader and clock\<close>

record processor_spec =
  ps_architecture :: string
  ps_architecture_kconfig :: string
  ps_model :: string
  ps_model_kconfig :: string
  ps_resolved_mcu :: string
  ps_provenance :: "provenance list"

definition processor_from_mapping :: "pyval \<Rightarrow> string \<Rightarrow> processor_spec read" where
  "processor_from_mapping v f =
     bindE (as_mapping v f) (\<lambda>data.
     bindE (only_keys data [''architecture'', ''architecture_kconfig'', ''model'', ''model_kconfig'',
       ''resolved_mcu'', ''provenance''] f) (\<lambda>_.
     bindE (as_text (py_get data ''architecture'') (fld f ''architecture'')) (\<lambda>architecture0.
     let architecture = py_lower architecture0 in
     require (architecture \<in> set architectures)
       (Board_contract_error (fld f ''architecture'') ''is unsupported'')
     (bindE (as_text (py_get data ''model'') (fld f ''model'')) (\<lambda>model.
     require (processor_re model)
       (Board_contract_error (fld f ''model'') ''is not an allow-listed processor model'')
     (bindE (as_text (py_get data ''resolved_mcu'') (fld f ''resolved_mcu'')) (\<lambda>mcu0.
     let resolved_mcu = py_lower mcu0 in
     require (processor_re resolved_mcu)
       (Board_contract_error (fld f ''resolved_mcu'') ''is not an allow-listed MCU'')
     (bindE (as_text (py_get data ''architecture_kconfig'') (fld f ''architecture_kconfig'')) (\<lambda>arch_symbol.
     bindE (as_text (py_get data ''model_kconfig'') (fld f ''model_kconfig'')) (\<lambda>model_symbol.
     require (kconfig_re arch_symbol \<and> kconfig_re model_symbol)
       (Board_contract_error f ''contains an invalid Kconfig symbol'')
     (require (starts_with ''CONFIG_MACH_'' model_symbol)
       (Board_contract_error (fld f ''model_kconfig'') ''must select CONFIG_MACH_*'')
     (bindE (provenance_list (py_get data ''provenance'') (fld f ''provenance'')) (\<lambda>prov.
     Inr \<lparr>ps_architecture = architecture, ps_architecture_kconfig = arch_symbol, ps_model = model,
          ps_model_kconfig = model_symbol, ps_resolved_mcu = resolved_mcu, ps_provenance = prov\<rparr>)))))))))))))"

definition processor_wf :: "processor_spec \<Rightarrow> bool" where
  "processor_wf p =
     (ps_architecture p \<in> set architectures \<and> processor_re (ps_model p)
      \<and> processor_re (ps_resolved_mcu p) \<and> kconfig_re (ps_architecture_kconfig p)
      \<and> kconfig_re (ps_model_kconfig p) \<and> starts_with ''CONFIG_MACH_'' (ps_model_kconfig p)
      \<and> sourced (ps_provenance p))"

interpretation processor: checked_reader processor_from_mapping processor_wf
  by unfold_locales
     (auto simp: processor_from_mapping_def processor_wf_def result_simps Let_def
       dest: provenance_list.reads_wf)

record bootloader_spec =
  bl_label :: string
  bl_selection :: kconfig
  bl_application_address :: "string option"
  bl_provenance :: "provenance list"

definition read_address :: "pyval \<Rightarrow> string \<Rightarrow> string option read" where
  "read_address v f = (if v = PNone then Inr None else
     bindE (as_text v f) (\<lambda>address.
     require (address_re address) (Board_contract_error f ''must be hexadecimal'') (Inr (Some address))))"

definition bootloader_from_mapping :: "pyval \<Rightarrow> string \<Rightarrow> bootloader_spec read" where
  "bootloader_from_mapping v f =
     bindE (as_mapping v f) (\<lambda>data.
     bindE (only_keys data [''label'', ''selection'', ''application_address'', ''provenance''] f) (\<lambda>_.
     bindE (read_address (py_get data ''application_address'') (fld f ''application_address'')) (\<lambda>address.
     bindE (as_text (py_get data ''label'') (fld f ''label'')) (\<lambda>label.
     bindE (kconfig_values (py_get_or data ''selection'' (PDict [])) (fld f ''selection'')) (\<lambda>selection.
     bindE (provenance_list (py_get data ''provenance'') (fld f ''provenance'')) (\<lambda>prov.
     Inr \<lparr>bl_label = label, bl_selection = selection, bl_application_address = address,
          bl_provenance = prov\<rparr>))))))"

definition bootloader_wf :: "bootloader_spec \<Rightarrow> bool" where
  "bootloader_wf b =
     (kconfig_wf (bl_selection b) \<and> sourced (bl_provenance b)
      \<and> (case bl_application_address b of None \<Rightarrow> True | Some a \<Rightarrow> address_re a))"

interpretation bootloader: checked_reader bootloader_from_mapping bootloader_wf
  by unfold_locales
     (auto simp: bootloader_from_mapping_def bootloader_wf_def read_address_def result_simps
       dest: provenance_list.reads_wf kconfig_values_wf split: if_splits)

record clock_spec =
  ck_label :: string
  ck_selection :: kconfig
  ck_reference_hz :: int
  ck_provenance :: "provenance list"

definition read_positive :: "pyval \<Rightarrow> string \<Rightarrow> int read" where
  "read_positive v f = (case v of
     PInt hz \<Rightarrow> require (0 < hz) (Board_contract_error f ''must be a positive integer'') (Inr hz)
   | _ \<Rightarrow> Inl (Board_contract_error f ''must be a positive integer''))"

interpretation positive: checked_reader read_positive "\<lambda>hz. 0 < hz"
  by unfold_locales (auto simp: read_positive_def result_simps split: pyval.splits)

definition clock_from_mapping :: "pyval \<Rightarrow> string \<Rightarrow> clock_spec read" where
  "clock_from_mapping v f =
     bindE (as_mapping v f) (\<lambda>data.
     bindE (only_keys data [''label'', ''selection'', ''reference_hz'', ''provenance''] f) (\<lambda>_.
     bindE (read_positive (py_get data ''reference_hz'') (fld f ''reference_hz'')) (\<lambda>hz.
     bindE (as_text (py_get data ''label'') (fld f ''label'')) (\<lambda>label.
     bindE (kconfig_values (py_get_or data ''selection'' (PDict [])) (fld f ''selection'')) (\<lambda>selection.
     bindE (provenance_list (py_get data ''provenance'') (fld f ''provenance'')) (\<lambda>prov.
     Inr \<lparr>ck_label = label, ck_selection = selection, ck_reference_hz = hz, ck_provenance = prov\<rparr>))))))"

definition clock_wf :: "clock_spec \<Rightarrow> bool" where
  "clock_wf c = (kconfig_wf (ck_selection c) \<and> 0 < ck_reference_hz c \<and> sourced (ck_provenance c))"

interpretation clock: checked_reader clock_from_mapping clock_wf
  by unfold_locales
     (auto simp: clock_from_mapping_def clock_wf_def result_simps
       dest: provenance_list.reads_wf kconfig_values_wf positive.reads_wf)

end
