(* ===== verification/Board_Recipes.thy ===== *)
theory Board_Recipes
  imports Board_Specs
begin

text \<open>
  The target-level classes of \<open>firmware/boards/models.py\<close>: transport, low-level options,
  artifact policy, flash command and recipe, and contract warnings.  A recipe is
  declarative: its command names an allow-listed backend and an argument vector without
  shell syntax, and is present exactly when the strategy and the steps call for one.
\<close>

subsection \<open>Transport and low-level options\<close>

record transport_spec =
  tr_kind :: transport_kind
  tr_selection :: kconfig
  tr_endpoint :: "(string, string) dict"
  tr_host_connection :: string
  tr_provenance :: "provenance list"

text \<open>
  \<open>_text\<close> raises a \<open>BoardContractError\<close>, which is a \<open>ValueError\<close>, so the handler around
  \<open>TransportKind(...)\<close> reports every failure of the field as an unsupported kind.
\<close>

definition read_transport_kind :: "pyval \<Rightarrow> string \<Rightarrow> transport_kind read" where
  "read_transport_kind v f = (case as_text v f of
     Inl _ \<Rightarrow> Inl (Board_contract_error f ''is unsupported'')
   | Inr t \<Rightarrow> (case transport_kind_of (py_upper t) of
       None \<Rightarrow> Inl (Board_contract_error f ''is unsupported'')
     | Some k \<Rightarrow> Inr k))"

fun endpoint_entries :: "pydict \<Rightarrow> string \<Rightarrow> (string, string) dict \<Rightarrow> (string, string) dict read" where
  "endpoint_entries [] f result = Inr result"
| "endpoint_entries ((key, item) # d) f result =
     bindE (as_text (case key of KStr k \<Rightarrow> PStr k | KInt i \<Rightarrow> PInt i) (fld f ''endpoint key'')) (\<lambda>k.
     bindE (as_text item (fld (fld f ''endpoint'')
        (case key of KStr k' \<Rightarrow> k' | KInt i \<Rightarrow> show_int i))) (\<lambda>t.
     endpoint_entries d f (dict_set result k t)))"

definition transport_from_mapping :: "pyval \<Rightarrow> string \<Rightarrow> transport_spec read" where
  "transport_from_mapping v f =
     bindE (as_mapping v f) (\<lambda>data.
     bindE (only_keys data [''kind'', ''selection'', ''endpoint'', ''host_connection'', ''provenance''] f) (\<lambda>_.
     bindE (read_transport_kind (py_get data ''kind'') (fld f ''kind'')) (\<lambda>kind.
     bindE (bindE (as_mapping (py_get data ''endpoint'') (fld f ''endpoint''))
              (\<lambda>d. endpoint_entries d f [])) (\<lambda>endpoint.
     require (endpoint \<noteq> []) (Board_contract_error (fld f ''endpoint'') ''must not be empty'')
     (bindE (kconfig_values (py_get data ''selection'') (fld f ''selection'')) (\<lambda>selection.
     bindE (as_identifier (py_get data ''host_connection'') (fld f ''host_connection'')) (\<lambda>host.
     bindE (provenance_list (py_get data ''provenance'') (fld f ''provenance'')) (\<lambda>prov.
     Inr \<lparr>tr_kind = kind, tr_selection = selection, tr_endpoint = endpoint,
          tr_host_connection = host, tr_provenance = prov\<rparr>))))))))"

definition transport_wf :: "transport_spec \<Rightarrow> bool" where
  "transport_wf t =
     (kconfig_wf (tr_selection t) \<and> tr_endpoint t \<noteq> [] \<and> id_re (tr_host_connection t)
      \<and> sourced (tr_provenance t))"

interpretation transport: checked_reader transport_from_mapping transport_wf
  by unfold_locales
     (auto simp: transport_from_mapping_def transport_wf_def result_simps
       dest: provenance_list.reads_wf kconfig_values_wf as_identifier_ok)

record low_level_spec =
  ll_enabled :: bool
  ll_startup_gpio :: "string list"
  ll_provenance :: "provenance list"

definition read_bool :: "pyval \<Rightarrow> string \<Rightarrow> bool read" where
  "read_bool v f = (case v of PBool b \<Rightarrow> Inr b | _ \<Rightarrow> Inl (Board_contract_error f ''must be boolean''))"

definition low_level_from_mapping :: "pyval \<Rightarrow> string \<Rightarrow> low_level_spec read" where
  "low_level_from_mapping v f =
     bindE (as_mapping v f) (\<lambda>data.
     bindE (only_keys data [''enabled'', ''startup_gpio'', ''provenance''] f) (\<lambda>_.
     bindE (read_bool (py_get data ''enabled'') (fld f ''enabled'')) (\<lambda>enabled.
     bindE (read_items (\<lambda>x g. as_text x g) (py_get_or data ''startup_gpio'' (PList []))
              (fld f ''startup_gpio'')) (\<lambda>pins.
     require (\<not> (pins \<noteq> [] \<and> \<not> enabled))
       (Board_contract_error f ''cannot set startup GPIO with low-level disabled'')
     (bindE (provenance_list (py_get data ''provenance'') (fld f ''provenance'')) (\<lambda>prov.
     Inr \<lparr>ll_enabled = enabled, ll_startup_gpio = pins, ll_provenance = prov\<rparr>))))))"

definition low_level_wf :: "low_level_spec \<Rightarrow> bool" where
  "low_level_wf l = ((ll_startup_gpio l \<noteq> [] \<longrightarrow> ll_enabled l) \<and> sourced (ll_provenance l))"

interpretation low_level: checked_reader low_level_from_mapping low_level_wf
  by unfold_locales
     (auto simp: low_level_from_mapping_def low_level_wf_def result_simps
       dest: provenance_list.reads_wf)

subsection \<open>Artifact policy\<close>

record artifact_policy =
  ap_native_path :: string
  ap_native_filename :: string
  ap_format :: artifact_format
  ap_final_filename :: pydict
  ap_provenance :: "provenance list"

definition has_slash :: "string \<Rightarrow> bool" where
  "has_slash s = (CHR ''/'' \<in> set s \<or> CHR 0x5C \<in> set s)"

definition read_format :: "pyval \<Rightarrow> string \<Rightarrow> artifact_format read" where
  "read_format v f = bindE (as_text v f) (\<lambda>t. case artifact_format_of (py_upper t) of
     None \<Rightarrow> Inl (Value_error f) | Some fmt \<Rightarrow> Inr fmt)"

definition check_fixed_name :: "pydict \<Rightarrow> string \<Rightarrow> unit read" where
  "check_fixed_name final f =
     bindE (as_text (py_get final ''value'') (fld f ''final_filename.value'')) (\<lambda>fixed.
     require (\<not> has_slash fixed)
       (Board_contract_error (fld f ''final_filename.value'') ''must be a basename'') (Inr ()))"

definition artifact_from_mapping :: "pyval \<Rightarrow> string \<Rightarrow> artifact_policy read" where
  "artifact_from_mapping v f =
     bindE (as_mapping v f) (\<lambda>data.
     bindE (only_keys data [''native_path'', ''native_filename'', ''format'', ''final_filename'', ''provenance''] f) (\<lambda>_.
     bindE (as_text (py_get data ''native_filename'') (fld f ''native_filename'')) (\<lambda>native.
     require (\<not> (has_slash native \<or> native = ''.'' \<or> native = ''..''))
       (Board_contract_error (fld f ''native_filename'') ''must be a basename'')
     (bindE (as_mapping (py_get data ''final_filename'') (fld f ''final_filename'')) (\<lambda>final.
     bindE (only_keys final [''strategy'', ''value'', ''template'', ''required_suffix'',
       ''must_differ_from_last_successful_flash''] (fld f ''final_filename'')) (\<lambda>_.
     bindE (as_identifier (py_get final ''strategy'') (fld f ''final_filename.strategy'')) (\<lambda>strategy.
     require (strategy \<in> {''fixed'', ''native'', ''build-id''})
       (Board_contract_error (fld f ''final_filename.strategy'') ''is unsupported'')
     (bindE (if strategy = ''fixed'' then check_fixed_name final f else Inr ()) (\<lambda>_.
     bindE (if strategy = ''build-id''
            then bindE (as_text (py_get final ''template'') (fld f ''final_filename.template'')) (\<lambda>_. Inr ())
            else Inr ()) (\<lambda>_.
     bindE (as_text (py_get data ''native_path'') (fld f ''native_path'')) (\<lambda>native_path.
     bindE (read_format (py_get data ''format'') (fld f ''format'')) (\<lambda>fmt.
     bindE (provenance_list (py_get data ''provenance'') (fld f ''provenance'')) (\<lambda>prov.
     Inr \<lparr>ap_native_path = native_path, ap_native_filename = native, ap_format = fmt,
          ap_final_filename = final, ap_provenance = prov\<rparr>)))))))))))))"

definition artifact_wf :: "artifact_policy \<Rightarrow> bool" where
  "artifact_wf a =
     (ap_native_filename a \<noteq> [] \<and> \<not> has_slash (ap_native_filename a)
      \<and> ap_native_filename a \<notin> {''.'', ''..''} \<and> sourced (ap_provenance a)
      \<and> (\<exists>s \<in> set [''fixed'', ''native'', ''build-id''].
            as_identifier (py_get (ap_final_filename a) ''strategy'') [] = Inr s))"

lemma as_identifier_field: "as_identifier v f = Inr s \<Longrightarrow> as_identifier v g = Inr s"
  by (auto simp: as_identifier_def as_text_or_empty_def result_simps Let_def split: pyval.splits)

interpretation artifact: checked_reader artifact_from_mapping artifact_wf
proof unfold_locales
  fix v f x assume "artifact_from_mapping v f = Inr x"
  then show "artifact_wf x"
    unfolding artifact_from_mapping_def artifact_wf_def
    by (clarsimp simp: result_simps split del: if_split)
       (auto dest: as_text_nonempty provenance_list.reads_wf as_identifier_field [where g = "[]"])
qed

subsection \<open>Flash command and recipe\<close>

record flash_command =
  fc_backend :: string
  fc_argv :: "string list"

definition flash_command_from_mapping :: "pyval \<Rightarrow> string \<Rightarrow> flash_command read" where
  "flash_command_from_mapping v f =
     bindE (as_mapping v f) (\<lambda>data.
     bindE (only_keys data [''backend'', ''argv''] f) (\<lambda>_.
     bindE (as_text (py_get data ''backend'') (fld f ''backend'')) (\<lambda>backend0.
     let backend = py_lower backend0 in
     require (\<not> (backend \<in> set forbidden_backends \<or> backend \<notin> set allowed_backends))
       (Board_contract_error (fld f ''backend'') ''is not allow-listed'')
     (bindE (read_items (\<lambda>x g. as_text x g) (py_get data ''argv'') (fld f ''argv'')) (\<lambda>argv.
     require (argv \<noteq> []) (Board_contract_error (fld f ''argv'') ''must not be empty'')
     (require (\<not> list_ex (any_in shell_markers) argv)
       (Board_contract_error (fld f ''argv'') ''contains shell syntax'')
     (Inr \<lparr>fc_backend = backend, fc_argv = argv\<rparr>)))))))"

definition flash_command_wf :: "flash_command \<Rightarrow> bool" where
  "flash_command_wf c =
     (fc_backend c \<in> set allowed_backends \<and> fc_argv c \<noteq> []
      \<and> list_all (\<lambda>a. a \<noteq> [] \<and> \<not> any_in shell_markers a) (fc_argv c))"

interpretation flash_command: checked_reader flash_command_from_mapping flash_command_wf
  by unfold_locales
     (auto simp: flash_command_from_mapping_def flash_command_wf_def result_simps Let_def
       list_all_iff list_ex_iff dest!: as_text.read_items_wf)

record flash_recipe =
  fr_strategy :: flash_strategy
  fr_steps :: "string list"
  fr_command :: "flash_command option"
  fr_options :: pydict
  fr_provenance :: "provenance list"

definition read_flash_strategy :: "pyval \<Rightarrow> string \<Rightarrow> flash_strategy read" where
  "read_flash_strategy v f = (case as_text v f of
     Inl _ \<Rightarrow> Inl (Board_contract_error f ''is not allow-listed'')
   | Inr t \<Rightarrow> (case flash_strategy_of (py_upper t) of
       None \<Rightarrow> Inl (Board_contract_error f ''is not allow-listed'')
     | Some s \<Rightarrow> Inr s))"

definition read_command :: "pyval \<Rightarrow> string \<Rightarrow> flash_command option read" where
  "read_command v f = (if v = PNone then Inr None
     else bindE (flash_command_from_mapping v f) (\<lambda>c. Inr (Some c)))"

definition needs_command :: "flash_strategy \<Rightarrow> bool" where
  "needs_command s = (s \<in> {AVRDUDE, DFU_UTIL, MAKE_FLASH, RAW_ADDRESS})"

text \<open>
  \<open>any(item not in {"vfat"} for item in filesystems)\<close>: an unhashable item raises, unless an
  earlier item has already decided the answer.
\<close>

fun any_not_vfat :: "pyval list \<Rightarrow> string \<Rightarrow> bool read" where
  "any_not_vfat [] f = Inr False"
| "any_not_vfat (x # xs) f = (case x of
     PList _ \<Rightarrow> Inl (Type_error f)
   | PDict _ \<Rightarrow> Inl (Type_error f)
   | _ \<Rightarrow> if x \<noteq> PStr ''vfat'' then Inr True else any_not_vfat xs f)"

definition check_filesystems :: "pyval \<Rightarrow> string \<Rightarrow> unit read" where
  "check_filesystems v f = (case v of
     PList xs \<Rightarrow>
       if xs = [] then Inl (Board_contract_error f ''must be [vfat]'')
       else bindE (any_not_vfat xs f) (\<lambda>bad.
         require (\<not> bad) (Board_contract_error f ''must be [vfat]'') (Inr ()))
   | _ \<Rightarrow> Inl (Board_contract_error f ''must be [vfat]''))"

definition check_sd_options :: "pydict \<Rightarrow> string \<Rightarrow> unit read" where
  "check_sd_options options f =
     (case sorted_keys (unexpected_keys options [''destination'', ''make_flash_supported'',
             ''restart_board'', ''required_filesystems'', ''require_removable'']) of
        None \<Rightarrow> Inl (Type_error (fld f ''options''))
      | Some unknown \<Rightarrow>
          require (unknown = []) (Board_contract_error (fld f ''options'') ''has unsupported SD_CARD fields'')
          (require (py_get options ''destination'' = PStr ''sd-card-root'')
            (Board_contract_error (fld f ''options.destination'') ''must be sd-card-root'')
          (bindE (check_filesystems (py_get options ''required_filesystems'')
                    (fld f ''options.required_filesystems'')) (\<lambda>_.
          require (py_get options ''require_removable'' = PBool True)
            (Board_contract_error (fld f ''options.require_removable'') ''must be true'') (Inr ())))))"

definition recipe_from_mapping :: "pyval \<Rightarrow> string \<Rightarrow> flash_recipe read" where
  "recipe_from_mapping v f =
     bindE (as_mapping v f) (\<lambda>data.
     bindE (only_keys data [''strategy'', ''steps'', ''command'', ''options'', ''provenance''] f) (\<lambda>_.
     bindE (read_flash_strategy (py_get data ''strategy'') (fld f ''strategy'')) (\<lambda>strategy.
     bindE (read_items (\<lambda>x g. bindE (as_text x g) (\<lambda>t. Inr (py_upper t))) (py_get data ''steps'')
              (fld f ''steps'')) (\<lambda>steps.
     require (steps \<noteq> []) (Board_contract_error (fld f ''steps'') ''must not be empty'')
     (require (list_all (\<lambda>s. s \<in> set allowed_steps) steps)
       (Board_contract_error (fld f ''steps'') ''contains unsupported actions'')
     (bindE (read_command (py_get data ''command'') (fld f ''command'')) (\<lambda>command.
     require (needs_command strategy = (command \<noteq> None))
       (Board_contract_error f ''command does not match strategy'')
     (require ((command \<noteq> None) = (''RUN_BACKEND'' \<in> set steps))
       (Board_contract_error (fld f ''steps'') ''must represent backend execution exactly'')
     (bindE (as_mapping (py_get_or data ''options'' (PDict [])) (fld f ''options'')) (\<lambda>options.
     bindE (if strategy = SD_CARD then check_sd_options options f else Inr ()) (\<lambda>_.
     bindE (provenance_list (py_get data ''provenance'') (fld f ''provenance'')) (\<lambda>prov.
     Inr \<lparr>fr_strategy = strategy, fr_steps = steps, fr_command = command,
          fr_options = options, fr_provenance = prov\<rparr>))))))))))))"

definition is_vfat_list :: "pyval \<Rightarrow> bool" where
  "is_vfat_list v = (case v of PList xs \<Rightarrow> xs \<noteq> [] \<and> list_all (\<lambda>x. x = PStr ''vfat'') xs | _ \<Rightarrow> False)"

definition recipe_wf :: "flash_recipe \<Rightarrow> bool" where
  "recipe_wf r =
     (fr_steps r \<noteq> [] \<and> list_all (\<lambda>s. s \<in> set allowed_steps) (fr_steps r)
      \<and> (fr_command r \<noteq> None) = needs_command (fr_strategy r)
      \<and> (fr_command r \<noteq> None) = (''RUN_BACKEND'' \<in> set (fr_steps r))
      \<and> (case fr_command r of None \<Rightarrow> True | Some c \<Rightarrow> flash_command_wf c)
      \<and> (fr_strategy r = SD_CARD \<longrightarrow>
           py_get (fr_options r) ''destination'' = PStr ''sd-card-root''
           \<and> py_get (fr_options r) ''require_removable'' = PBool True
           \<and> is_vfat_list (py_get (fr_options r) ''required_filesystems''))
      \<and> sourced (fr_provenance r))"

lemma any_not_vfat_False: "any_not_vfat xs f = Inr False \<longleftrightarrow> list_all (\<lambda>x. x = PStr ''vfat'') xs"
  by (induction xs f rule: any_not_vfat.induct) (auto split: pyval.splits)

lemma check_filesystems_ok: "check_filesystems v f = Inr u \<longleftrightarrow> is_vfat_list v"
  by (auto simp: check_filesystems_def is_vfat_list_def result_simps any_not_vfat_False ex_bool_eq split: pyval.splits)

lemma check_sd_options_ok:
  "check_sd_options options f = Inr u \<Longrightarrow>
     py_get options ''destination'' = PStr ''sd-card-root''
     \<and> py_get options ''require_removable'' = PBool True
     \<and> is_vfat_list (py_get options ''required_filesystems'')"
  by (auto simp: check_sd_options_def result_simps check_filesystems_ok split: option.splits)

lemma read_command_ok:
  "read_command v f = Inr c \<Longrightarrow> (case c of None \<Rightarrow> True | Some c \<Rightarrow> flash_command_wf c)"
  by (auto simp: read_command_def result_simps dest: flash_command.reads_wf split: if_splits)

interpretation recipe: checked_reader recipe_from_mapping recipe_wf
proof unfold_locales
  fix v f x assume "recipe_from_mapping v f = Inr x"
  then show "recipe_wf x"
    unfolding recipe_from_mapping_def recipe_wf_def
    by (clarsimp simp: result_simps split del: if_split)
       (auto dest: read_command_ok check_sd_options_ok provenance_list.reads_wf)
qed

subsection \<open>Contract warnings\<close>

record contract_warning =
  cw_id :: string
  cw_severity :: warning_severity
  cw_text :: string
  cw_incompatible_board_ids :: "string list"
  cw_provenance :: "provenance list"

definition read_severity :: "pyval \<Rightarrow> string \<Rightarrow> warning_severity read" where
  "read_severity v f = bindE (as_text v f) (\<lambda>t. case warning_severity_of (py_upper t) of
     None \<Rightarrow> Inl (Value_error f) | Some s \<Rightarrow> Inr s)"

definition warning_from_mapping :: "pyval \<Rightarrow> string \<Rightarrow> contract_warning read" where
  "warning_from_mapping v f =
     bindE (as_mapping v f) (\<lambda>data.
     bindE (only_keys data [''id'', ''severity'', ''text'', ''incompatible_board_ids'', ''provenance''] f) (\<lambda>_.
     bindE (as_identifier (py_get data ''id'') (fld f ''id'')) (\<lambda>wid.
     bindE (read_severity (py_get data ''severity'') (fld f ''severity'')) (\<lambda>severity.
     bindE (as_text (py_get data ''text'') (fld f ''text'')) (\<lambda>txt.
     bindE (read_items as_identifier (py_get_or data ''incompatible_board_ids'' (PList []))
              (fld f ''incompatible_board_ids'')) (\<lambda>boards.
     bindE (provenance_list (py_get data ''provenance'') (fld f ''provenance'')) (\<lambda>prov.
     Inr \<lparr>cw_id = wid, cw_severity = severity, cw_text = txt,
          cw_incompatible_board_ids = boards, cw_provenance = prov\<rparr>)))))))"

definition warning_wf :: "contract_warning \<Rightarrow> bool" where
  "warning_wf w =
     (id_re (cw_id w) \<and> cw_text w \<noteq> [] \<and> list_all id_re (cw_incompatible_board_ids w)
      \<and> sourced (cw_provenance w))"

interpretation warning: checked_reader warning_from_mapping warning_wf
  by unfold_locales
     (auto simp: warning_from_mapping_def warning_wf_def result_simps list_all_iff
       dest: as_identifier_ok as_text_nonempty provenance_list.reads_wf
       dest!: as_identifier.read_items_wf)

end
