(* ===== verification/Board_Models.thy ===== *)
theory Board_Models
  imports Board_Recipes
begin

text \<open>
  Build targets, hardware variants and whole board contracts of
  \<open>firmware/boards/models.py\<close>, with the canonical form that identifies a contract.  The
  SHA-256 of a text's UTF-8 encoding is the parameter \<open>sha\<close>.
\<close>

subsection \<open>Canonical form and digest\<close>

definition canonical_contract_text :: "pydict \<Rightarrow> string read" where
  "canonical_contract_text payload =
     (case json_text (PDict (py_pop payload ''contract_digest'')) of
        None \<Rightarrow> Inl (Board_contract_error [] ''contract is not canonically serializable'')
      | Some t \<Rightarrow> Inr t)"

definition compute_contract_digest :: "(string \<Rightarrow> string) \<Rightarrow> pydict \<Rightarrow> string read" where
  "compute_contract_digest sha payload =
     bindE (canonical_contract_text payload) (\<lambda>t. Inr (sha t))"

subsection \<open>Build targets\<close>

record build_target =
  bt_id :: string
  bt_support_status :: support_status
  bt_transport :: transport_spec
  bt_low_level :: low_level_spec
  bt_requested_kconfig :: kconfig
  bt_resolved_assertions :: kconfig
  bt_kconfig_provenance :: "provenance list"
  bt_artifact :: artifact_policy
  bt_flash :: flash_recipe

definition read_support_status :: "pyval \<Rightarrow> string \<Rightarrow> support_status read" where
  "read_support_status v f = bindE (as_text v f) (\<lambda>t. case support_status_of (py_upper t) of
     None \<Rightarrow> Inl (Value_error f) | Some s \<Rightarrow> Inr s)"

definition target_from_mapping :: "pyval \<Rightarrow> string \<Rightarrow> build_target read" where
  "target_from_mapping v f =
     bindE (as_mapping v f) (\<lambda>data.
     bindE (only_keys data [''id'', ''support_status'', ''transport'', ''low_level'', ''requested_kconfig'',
       ''resolved_assertions'', ''kconfig_provenance'', ''artifact'', ''flash''] f) (\<lambda>_.
     bindE (kconfig_values (py_get data ''requested_kconfig'') (fld f ''requested_kconfig'')) (\<lambda>requested.
     bindE (kconfig_values (py_get data ''resolved_assertions'') (fld f ''resolved_assertions'')) (\<lambda>resolved.
     require (requested \<noteq> [] \<and> resolved \<noteq> [])
       (Board_contract_error f ''must declare requested and resolved Kconfig'')
     (bindE (as_identifier (py_get data ''id'') (fld f ''id'')) (\<lambda>tid.
     bindE (read_support_status (py_get data ''support_status'') (fld f ''support_status'')) (\<lambda>status.
     bindE (transport_from_mapping (py_get data ''transport'') (fld f ''transport'')) (\<lambda>transport.
     bindE (low_level_from_mapping (py_get data ''low_level'') (fld f ''low_level'')) (\<lambda>low_level.
     bindE (provenance_list (py_get data ''kconfig_provenance'') (fld f ''kconfig_provenance'')) (\<lambda>prov.
     bindE (artifact_from_mapping (py_get data ''artifact'') (fld f ''artifact'')) (\<lambda>artifact.
     bindE (recipe_from_mapping (py_get data ''flash'') (fld f ''flash'')) (\<lambda>flash.
     Inr \<lparr>bt_id = tid, bt_support_status = status, bt_transport = transport,
          bt_low_level = low_level, bt_requested_kconfig = requested,
          bt_resolved_assertions = resolved, bt_kconfig_provenance = prov,
          bt_artifact = artifact, bt_flash = flash\<rparr>))))))))))))"

definition target_wf :: "build_target \<Rightarrow> bool" where
  "target_wf t =
     (id_re (bt_id t) \<and> py_lower (bt_id t) = bt_id t
      \<and> kconfig_wf (bt_requested_kconfig t) \<and> bt_requested_kconfig t \<noteq> []
      \<and> kconfig_wf (bt_resolved_assertions t) \<and> bt_resolved_assertions t \<noteq> []
      \<and> transport_wf (bt_transport t) \<and> low_level_wf (bt_low_level t)
      \<and> artifact_wf (bt_artifact t) \<and> recipe_wf (bt_flash t) \<and> sourced (bt_kconfig_provenance t))"

interpretation target: checked_reader target_from_mapping target_wf
proof unfold_locales
  fix v f x assume "target_from_mapping v f = Inr x"
  then show "target_wf x"
    unfolding target_from_mapping_def target_wf_def
    by (clarsimp simp: result_simps)
       (simp add: kconfig_values_wf as_identifier_ok [THEN conjunct1] as_identifier_ok [THEN conjunct2]
         transport.reads_wf low_level.reads_wf artifact.reads_wf recipe.reads_wf
         provenance_list.reads_wf)
qed

subsection \<open>Hardware variants\<close>

record hardware_variant =
  hv_id :: string
  hv_processor :: processor_spec
  hv_bootloader :: bootloader_spec
  hv_clock :: clock_spec
  hv_build_targets :: "build_target list"

text \<open>The dictionary \<open>required\<close> of \<open>HardwareVariant.from_mapping\<close>, later entries first in effect.\<close>

definition required_selectors ::
    "processor_spec \<Rightarrow> bootloader_spec \<Rightarrow> clock_spec \<Rightarrow> build_target \<Rightarrow> kconfig" where
  "required_selectors p b c t =
     dict_update (dict_update (dict_update (dict_set (dict_set (dict_set []
       (ps_architecture_kconfig p) (SBool True)) (ps_model_kconfig p) (SBool True))
       ''CONFIG_LOW_LEVEL_OPTIONS'' (SBool (ll_enabled (bt_low_level t))))
       (bl_selection b)) (ck_selection c)) (tr_selection (bt_transport t))"

definition agrees :: "kconfig \<Rightarrow> string \<Rightarrow> kscalar \<Rightarrow> bool" where
  "agrees cfg symbol expected = (case dict_get cfg symbol of None \<Rightarrow> False | Some v \<Rightarrow> kscalar_eq v expected)"

definition encodes :: "kconfig \<Rightarrow> kconfig \<Rightarrow> bool" where
  "encodes cfg required = list_all (\<lambda>(s, v). agrees cfg s v) required"

definition check_target :: "processor_spec \<Rightarrow> bootloader_spec \<Rightarrow> clock_spec \<Rightarrow> string \<Rightarrow> build_target \<Rightarrow> unit read" where
  "check_target p b c f t =
     require (encodes (bt_requested_kconfig t) (required_selectors p b c t))
       (Board_contract_error (fld (fld f (bt_id t)) ''requested_kconfig'') ''does not encode the declared selectors'')
     (require (agrees (bt_resolved_assertions t) ''CONFIG_MCU'' (SStr (ps_resolved_mcu p)))
       (Board_contract_error (fld (fld f (bt_id t)) ''resolved_assertions'') ''has the wrong CONFIG_MCU'')
     (Inr ()))"

definition variant_from_mapping :: "pyval \<Rightarrow> string \<Rightarrow> hardware_variant read" where
  "variant_from_mapping v f =
     bindE (as_mapping v f) (\<lambda>data.
     bindE (only_keys data [''id'', ''processor'', ''bootloader'', ''clock'', ''build_targets''] f) (\<lambda>_.
     bindE (read_indexed target_from_mapping (py_get data ''build_targets'') (fld f ''build_targets'')) (\<lambda>targets.
     require (targets \<noteq> []) (Board_contract_error (fld f ''build_targets'') ''must not be empty'')
     (require (distinct (map bt_id targets))
       (Board_contract_error f ''contains duplicate build target IDs'')
     (bindE (processor_from_mapping (py_get data ''processor'') (fld f ''processor'')) (\<lambda>processor.
     bindE (bootloader_from_mapping (py_get data ''bootloader'') (fld f ''bootloader'')) (\<lambda>bootloader.
     bindE (clock_from_mapping (py_get data ''clock'') (fld f ''clock'')) (\<lambda>clock.
     bindE (mapE (check_target processor bootloader clock f) targets) (\<lambda>_.
     bindE (as_identifier (py_get data ''id'') (fld f ''id'')) (\<lambda>vid.
     Inr \<lparr>hv_id = vid, hv_processor = processor, hv_bootloader = bootloader, hv_clock = clock,
          hv_build_targets = targets\<rparr>))))))))))"

text \<open>What a variant promises about each of its targets.\<close>

definition target_matches :: "hardware_variant \<Rightarrow> build_target \<Rightarrow> bool" where
  "target_matches v t =
     (encodes (bt_requested_kconfig t)
        (required_selectors (hv_processor v) (hv_bootloader v) (hv_clock v) t)
      \<and> agrees (bt_resolved_assertions t) ''CONFIG_MCU'' (SStr (ps_resolved_mcu (hv_processor v))))"

definition variant_wf :: "hardware_variant \<Rightarrow> bool" where
  "variant_wf v =
     (id_re (hv_id v) \<and> py_lower (hv_id v) = hv_id v
      \<and> processor_wf (hv_processor v) \<and> bootloader_wf (hv_bootloader v)
      \<and> clock_wf (hv_clock v) \<and> hv_build_targets v \<noteq> [] \<and> distinct (map bt_id (hv_build_targets v))
      \<and> list_all target_wf (hv_build_targets v) \<and> list_all (target_matches v) (hv_build_targets v))"

lemma check_target_ok:
  "mapE (check_target p b c f) ts = Inr us \<Longrightarrow> t \<in> set ts \<Longrightarrow>
     encodes (bt_requested_kconfig t) (required_selectors p b c t)
     \<and> agrees (bt_resolved_assertions t) ''CONFIG_MCU'' (SStr (ps_resolved_mcu p))"
  by (induction ts arbitrary: us) (auto simp: result_simps check_target_def)

interpretation variant: checked_reader variant_from_mapping variant_wf
proof unfold_locales
  fix v f x assume "variant_from_mapping v f = Inr x"
  then show "variant_wf x"
    unfolding variant_from_mapping_def variant_wf_def
    by (clarsimp simp: result_simps)
       (auto simp: list_all_iff target_matches_def
         dest: check_target_ok as_identifier_ok processor.reads_wf bootloader.reads_wf clock.reads_wf
         dest!: target.read_indexed_wf)
qed

text \<open>\<open>HardwareVariant.target\<close>: the argument is a string or \<open>None\<close> (the empty string).\<close>

definition variant_target :: "hardware_variant \<Rightarrow> string \<Rightarrow> build_target option" where
  "variant_target v target_id =
     (let normalized = py_lower (py_strip target_id) in
      find (\<lambda>t. bt_id t = normalized) (hv_build_targets v))"

lemma variant_target_Some:
  "variant_target v i = Some t \<Longrightarrow> t \<in> set (hv_build_targets v) \<and> bt_id t = py_lower (py_strip i)"
  by (auto simp: variant_target_def Let_def find_Some_iff)

end
