(* ===== verification/Board_Contract.thy ===== *)
theory Board_Contract
  imports Board_Models
begin

text \<open>
  \<open>UpstreamMetadata\<close> and \<open>BoardContract\<close> of \<open>firmware/boards/models.py\<close>: the whole
  contract reader, the recomputed digest and the lookup of variants.
\<close>

subsection \<open>Upstream evidence\<close>

record upstream_metadata =
  um_source_contract :: string
  um_repository :: string
  um_validated_commit :: string
  um_config_path :: string
  um_config_sha256_lf :: string
  um_header_sha256_lf :: string
  um_header_text :: string

definition read_header :: "pyval \<Rightarrow> string \<Rightarrow> string read" where
  "read_header v f = (case v of
     PStr s \<Rightarrow> require (py_strip s \<noteq> []) (Board_contract_error f ''must not be empty'') (Inr s)
   | _ \<Rightarrow> Inl (Board_contract_error f ''must not be empty''))"

definition upstream_from_mapping :: "(string \<Rightarrow> string) \<Rightarrow> pyval \<Rightarrow> string \<Rightarrow> upstream_metadata read" where
  "upstream_from_mapping sha v f =
     bindE (as_mapping v f) (\<lambda>data.
     bindE (only_keys data [''source_contract'', ''repository'', ''validated_commit'', ''config_path'',
       ''config_sha256_lf'', ''header_sha256_lf'', ''header_text''] f) (\<lambda>_.
     bindE (as_text (py_get data ''validated_commit'') (fld f ''validated_commit'')) (\<lambda>commit0.
     let commit = py_lower commit0 in
     require (commit_re commit) (Board_contract_error (fld f ''validated_commit'') ''must be a full Git SHA'')
     (bindE (as_text (py_get data ''config_path'') (fld f ''config_path'')) (\<lambda>path.
     require (\<not> (\<not> starts_with ''config/'' path \<or> contains ''..'' path \<or> CHR 0x5C \<in> set path))
       (Board_contract_error (fld f ''config_path'') ''must remain under config/'')
     (bindE (read_header (py_get data ''header_text'') (fld f ''header_text'')) (\<lambda>header_text.
     bindE (as_text (py_get data ''source_contract'') (fld f ''source_contract'')) (\<lambda>source_contract.
     bindE (as_text (py_get data ''repository'') (fld f ''repository'')) (\<lambda>repository.
     require (source_contract = ''kace-klipper-source/v1'')
       (Board_contract_error (fld f ''source_contract'') ''is unsupported'')
     (require (repository = ''https://github.com/Klipper3d/klipper.git'')
       (Board_contract_error (fld f ''repository'') ''must be the official Klipper repository'')
     (bindE (as_sha256 (py_get data ''header_sha256_lf'') (fld f ''header_sha256_lf'')) (\<lambda>header_hash.
     require (sha (normalize_newlines header_text) = header_hash)
       (Board_contract_error (fld f ''header_text'') ''does not match header_sha256_lf'')
     (bindE (as_sha256 (py_get data ''config_sha256_lf'') (fld f ''config_sha256_lf'')) (\<lambda>config_hash.
     Inr \<lparr>um_source_contract = source_contract, um_repository = repository,
          um_validated_commit = commit, um_config_path = path, um_config_sha256_lf = config_hash,
          um_header_sha256_lf = header_hash, um_header_text = header_text\<rparr>))))))))))))))"

definition upstream_wf :: "(string \<Rightarrow> string) \<Rightarrow> upstream_metadata \<Rightarrow> bool" where
  "upstream_wf sha u =
     (commit_re (um_validated_commit u)
      \<and> starts_with ''config/'' (um_config_path u) \<and> \<not> contains ''..'' (um_config_path u)
      \<and> um_repository u = ''https://github.com/Klipper3d/klipper.git''
      \<and> sha (normalize_newlines (um_header_text u)) = um_header_sha256_lf u
      \<and> sha256_re (um_config_sha256_lf u))"

interpretation upstream: checked_reader "upstream_from_mapping sha" "upstream_wf sha"
proof unfold_locales
  fix v f x assume "upstream_from_mapping sha v f = Inr x"
  then show "upstream_wf sha x"
    unfolding upstream_from_mapping_def upstream_wf_def
    by (clarsimp simp: result_simps Let_def) (auto dest: as_sha256_ok)
qed

subsection \<open>Board contracts\<close>

record board_contract =
  bc_schema :: string
  bc_board_id :: string
  bc_display_name :: string
  bc_manufacturer :: string
  bc_family_id :: string
  bc_revision :: string
  bc_official_config_filenames :: "string list"
  bc_legacy_aliases :: "string list"
  bc_upstream :: upstream_metadata
  bc_hardware_variants :: "hardware_variant list"
  bc_warnings :: "contract_warning list"
  bc_declared_digest :: string
  bc_payload :: pydict

definition exact_alias :: "string \<Rightarrow> bool" where
  "exact_alias alias = (\<not> list_ex (\<lambda>c. c \<in> set alias_meta) alias)"

definition contract_from_mapping ::
    "(string \<Rightarrow> string) \<Rightarrow> pyval \<Rightarrow> string \<Rightarrow> board_contract read" where
  "contract_from_mapping sha v src =
     bindE (as_mapping v src) (\<lambda>data.
     bindE (only_keys data [''schema'', ''board_id'', ''display_name'', ''manufacturer'', ''family_id'',
       ''revision'', ''aliases'', ''upstream'', ''hardware_variants'', ''warnings'', ''contract_digest''] src) (\<lambda>_.
     require (py_get data ''schema'' = PStr ''kace-board-contract/v1'')
       (Board_contract_error src ''unsupported board contract schema'')
     (bindE (as_mapping (py_get data ''aliases'') (fld src ''aliases'')) (\<lambda>aliases.
     bindE (only_keys aliases [''official_config_filenames'', ''legacy_exact''] (fld src ''aliases'')) (\<lambda>_.
     bindE (read_items (\<lambda>x g. as_text x g) (py_get aliases ''official_config_filenames'')
              (fld src ''aliases.official_config_filenames'')) (\<lambda>official.
     bindE (read_items (\<lambda>x g. as_text x g) (py_get_or aliases ''legacy_exact'' (PList []))
              (fld src ''aliases.legacy_exact'')) (\<lambda>legacy.
     require (official \<noteq> []) (Board_contract_error src ''at least one official config filename is required'')
     (require (list_all exact_alias (official @ legacy))
       (Board_contract_error src ''aliases must be exact literals'')
     (bindE (read_indexed variant_from_mapping (py_get data ''hardware_variants'')
              (fld src ''hardware_variants'')) (\<lambda>variants.
     require (variants \<noteq> []) (Board_contract_error src ''hardware_variants must not be empty'')
     (require (distinct (map hv_id variants)) (Board_contract_error src ''duplicate hardware variant IDs'')
     (bindE (read_indexed warning_from_mapping (py_get_or data ''warnings'' (PList []))
              (fld src ''warnings'')) (\<lambda>warnings.
     require (distinct (map cw_id warnings)) (Board_contract_error src ''duplicate warning IDs'')
     (bindE (as_sha256 (py_get data ''contract_digest'') (fld src ''contract_digest'')) (\<lambda>declared.
     bindE (compute_contract_digest sha data) (\<lambda>computed.
     require (declared = computed) (Board_contract_error src ''contract_digest mismatch'')
     (bindE (as_identifier (py_get data ''board_id'') (fld src ''board_id'')) (\<lambda>board_id.
     bindE (as_text (py_get data ''display_name'') (fld src ''display_name'')) (\<lambda>display_name.
     bindE (as_text (py_get data ''manufacturer'') (fld src ''manufacturer'')) (\<lambda>manufacturer.
     bindE (as_identifier (py_get data ''family_id'') (fld src ''family_id'')) (\<lambda>family_id.
     bindE (as_text (py_get data ''revision'') (fld src ''revision'')) (\<lambda>revision.
     bindE (upstream_from_mapping sha (py_get data ''upstream'') (fld src ''upstream'')) (\<lambda>upstream.
     Inr \<lparr>bc_schema = ''kace-board-contract/v1'', bc_board_id = board_id,
          bc_display_name = display_name, bc_manufacturer = manufacturer,
          bc_family_id = family_id, bc_revision = revision,
          bc_official_config_filenames = official, bc_legacy_aliases = legacy,
          bc_upstream = upstream, bc_hardware_variants = variants, bc_warnings = warnings,
          bc_declared_digest = declared, bc_payload = data\<rparr>)))))))))))))))))))))))"

definition contract_digest :: "(string \<Rightarrow> string) \<Rightarrow> board_contract \<Rightarrow> string read" where
  "contract_digest sha c = compute_contract_digest sha (bc_payload c)"

definition contract_aliases :: "board_contract \<Rightarrow> string list" where
  "contract_aliases c = bc_official_config_filenames c @ bc_legacy_aliases c"

definition canonical_bytes :: "board_contract \<Rightarrow> string read" where
  "canonical_bytes c = canonical_contract_text (bc_payload c)"

definition contract_to_mapping :: "(string \<Rightarrow> string) \<Rightarrow> board_contract \<Rightarrow> bool \<Rightarrow> pydict read" where
  "contract_to_mapping sha c include_digest =
     (if include_digest then
        bindE (contract_digest sha c) (\<lambda>d. Inr (dict_set (bc_payload c) (KStr ''contract_digest'') (PStr d)))
      else Inr (py_pop (bc_payload c) ''contract_digest''))"

definition contract_variant :: "board_contract \<Rightarrow> string \<Rightarrow> hardware_variant option" where
  "contract_variant c variant_id =
     (let normalized = py_lower (py_strip variant_id) in
      find (\<lambda>v. hv_id v = normalized) (bc_hardware_variants c))"

definition contract_wf :: "(string \<Rightarrow> string) \<Rightarrow> board_contract \<Rightarrow> bool" where
  "contract_wf sha c =
     (bc_schema c = ''kace-board-contract/v1'' \<and> id_re (bc_board_id c) \<and> id_re (bc_family_id c)
      \<and> bc_official_config_filenames c \<noteq> [] \<and> list_all exact_alias (contract_aliases c)
      \<and> bc_hardware_variants c \<noteq> [] \<and> distinct (map hv_id (bc_hardware_variants c))
      \<and> list_all variant_wf (bc_hardware_variants c)
      \<and> distinct (map cw_id (bc_warnings c)) \<and> list_all warning_wf (bc_warnings c)
      \<and> upstream_wf sha (bc_upstream c)
      \<and> sha256_re (bc_declared_digest c) \<and> contract_digest sha c = Inr (bc_declared_digest c))"

interpretation contract: checked_reader "contract_from_mapping sha" "contract_wf sha"
proof unfold_locales
  fix v f x assume "contract_from_mapping sha v f = Inr x"
  then show "contract_wf sha x"
    unfolding contract_from_mapping_def contract_wf_def
    by (clarsimp simp: result_simps contract_aliases_def contract_digest_def list_all_append)
       (auto dest: as_sha256_ok as_identifier_ok upstream.reads_wf variant.read_indexed_wf
         warning.read_indexed_wf)
qed

lemma contract_variant_Some:
  "contract_variant c i = Some v \<Longrightarrow>
     v \<in> set (bc_hardware_variants c) \<and> hv_id v = py_lower (py_strip i)"
  by (auto simp: contract_variant_def Let_def find_Some_iff)

lemma py_pop_dict_set: "py_pop (dict_set d (KStr k) v) k = py_pop d k"
  by (induction d) (auto simp: py_pop_def)

lemma digest_ignores_declared:
  "compute_contract_digest sha (dict_set d (KStr ''contract_digest'') v) = compute_contract_digest sha d"
  by (simp add: compute_contract_digest_def canonical_contract_text_def py_pop_dict_set)

end
