(* ===== verification/Board_Catalog.thy ===== *)
theory Board_Catalog
  imports Board_Contract
begin

text \<open>
  \<open>firmware/boards/catalog.py\<close> and \<open>firmware/boards/resolver.py\<close>: the catalog with its two
  exact indices, the loader, the board/variant/target resolver and the shadow comparison
  with the legacy choice.  Unicode NFKC normalisation is the parameter \<open>nfkc\<close>.
\<close>

subsection \<open>The interface of an exact directory\<close>

text \<open>
  What a client of the catalog may rely on: a lookup answers a member that owns the name,
  and every name of every member is answered by that member.
\<close>

locale exact_directory =
  fixes members :: "'cat \<Rightarrow> 'c set"
    and owns :: "'c \<Rightarrow> string \<Rightarrow> bool"
    and lookup :: "'cat \<Rightarrow> string \<Rightarrow> 'c option"
    and valid :: "'cat \<Rightarrow> bool"
  assumes lookup_sound: "valid cat \<Longrightarrow> lookup cat a = Some c \<Longrightarrow> c \<in> members cat \<and> owns c a"
    and lookup_complete: "valid cat \<Longrightarrow> c \<in> members cat \<Longrightarrow> owns c a \<Longrightarrow> lookup cat a = Some c"
begin

lemma lookup_iff: "valid cat \<Longrightarrow> lookup cat a = Some c \<longleftrightarrow> c \<in> members cat \<and> owns c a"
  using lookup_sound lookup_complete by blast

lemma owner_unique:
  "valid cat \<Longrightarrow> c \<in> members cat \<Longrightarrow> owns c a \<Longrightarrow> c' \<in> members cat \<Longrightarrow> owns c' a \<Longrightarrow> c' = c"
  by (metis lookup_complete option.inject)

lemma lookup_None: "valid cat \<Longrightarrow> lookup cat a = None \<longleftrightarrow> (\<forall>c \<in> members cat. \<not> owns c a)"
  by (metis lookup_iff not_Some_eq)

end

subsection \<open>Catalog and indices\<close>

definition normalize_exact_alias :: "(string \<Rightarrow> string) \<Rightarrow> string \<Rightarrow> string" where
  "normalize_exact_alias nfkc s = py_lower (py_strip (nfkc s))"

record catalog_entry =
  ce_contract :: board_contract
  ce_source_path :: string

record board_catalog =
  cat_entries :: "catalog_entry list"
  cat_by_id :: "(string, catalog_entry) dict"
  cat_by_alias :: "(string, catalog_entry) dict"

datatype catalog_issue =
    Empty_catalog | Duplicate_board_id string | Empty_alias string
  | Duplicate_alias string string | Ambiguous_alias string string string
  | Directory_not_found string | Cannot_load string

datatype catalog_error = Board_catalog_error catalog_issue | Escaped model_error

definition entry_names :: "catalog_entry \<Rightarrow> string list" where
  "entry_names e = bc_board_id (ce_contract e) # contract_aliases (ce_contract e)"

fun index_aliases ::
    "(string \<Rightarrow> string) \<Rightarrow> catalog_entry \<Rightarrow> string list \<Rightarrow> string list
     \<Rightarrow> (string, catalog_entry) dict \<Rightarrow> (catalog_error, (string, catalog_entry) dict) res" where
  "index_aliases nfkc e [] seen_local by_alias = Inr by_alias"
| "index_aliases nfkc e (alias # rest) seen_local by_alias =
     (let normalized = normalize_exact_alias nfkc alias; bid = bc_board_id (ce_contract e) in
      require (normalized \<noteq> []) (Board_catalog_error (Empty_alias bid))
      (require (normalized \<notin> set seen_local) (Board_catalog_error (Duplicate_alias bid alias))
      (case dict_get by_alias normalized of
         Some owner \<Rightarrow> Inl (Board_catalog_error (Ambiguous_alias alias (bc_board_id (ce_contract owner)) bid))
       | None \<Rightarrow> index_aliases nfkc e rest (normalized # seen_local) (dict_set by_alias normalized e))))"

fun build_indices ::
    "(string \<Rightarrow> string) \<Rightarrow> catalog_entry list \<Rightarrow> (string, catalog_entry) dict
     \<Rightarrow> (string, catalog_entry) dict
     \<Rightarrow> (catalog_error, (string, catalog_entry) dict \<times> (string, catalog_entry) dict) res" where
  "build_indices nfkc [] by_id by_alias = Inr (by_id, by_alias)"
| "build_indices nfkc (e # es) by_id by_alias =
     (let board_id = normalize_exact_alias nfkc (bc_board_id (ce_contract e)) in
      require (dict_get by_id board_id = None)
        (Board_catalog_error (Duplicate_board_id (bc_board_id (ce_contract e))))
      (bindE (index_aliases nfkc e (entry_names e) [] by_alias) (\<lambda>by_alias'.
       build_indices nfkc es (dict_set by_id board_id e) by_alias')))"

definition board_catalog_init :: "(string \<Rightarrow> string) \<Rightarrow> catalog_entry list \<Rightarrow> (catalog_error, board_catalog) res" where
  "board_catalog_init nfkc entries =
     require (entries \<noteq> []) (Board_catalog_error Empty_catalog)
     (bindE (build_indices nfkc entries [] []) (\<lambda>(by_id, by_alias).
      Inr \<lparr>cat_entries = entries, cat_by_id = by_id, cat_by_alias = by_alias\<rparr>))"

definition by_id :: "(string \<Rightarrow> string) \<Rightarrow> board_catalog \<Rightarrow> string \<Rightarrow> board_contract option" where
  "by_id nfkc cat board_id = map_option ce_contract (dict_get (cat_by_id cat) (normalize_exact_alias nfkc board_id))"

definition resolve_exact :: "(string \<Rightarrow> string) \<Rightarrow> board_catalog \<Rightarrow> string \<Rightarrow> board_contract option" where
  "resolve_exact nfkc cat alias =
     map_option ce_contract (dict_get (cat_by_alias cat) (normalize_exact_alias nfkc alias))"

subsection \<open>Loading a directory\<close>

text \<open>
  A directory is its files with what reading and parsing each as YAML gives: \<open>Inl\<close> for an
  \<open>OSError\<close> or a \<open>YAMLError\<close>.  Only a \<open>BoardContractError\<close> of the reader is turned into a
  catalog error; any other exception leaves \<open>load\<close> as it is.
\<close>

definition is_yaml_name :: "string \<Rightarrow> bool" where
  "is_yaml_name name = (ends_with ''.yaml'' name \<or> ends_with ''.yml'' name)"

definition load_entry ::
    "(string \<Rightarrow> string) \<Rightarrow> string \<times> (string + pyval) \<Rightarrow> (catalog_error, catalog_entry) res" where
  "load_entry sha file = (case snd file of
     Inl _ \<Rightarrow> Inl (Board_catalog_error (Cannot_load (fst file)))
   | Inr payload \<Rightarrow> (case contract_from_mapping sha payload (fst file) of
       Inr c \<Rightarrow> Inr \<lparr>ce_contract = c, ce_source_path = fst file\<rparr>
     | Inl (Board_contract_error _ _) \<Rightarrow> Inl (Board_catalog_error (Cannot_load (fst file)))
     | Inl e \<Rightarrow> Inl (Escaped e)))"

definition load_catalog ::
    "(string \<Rightarrow> string) \<Rightarrow> (string \<Rightarrow> string) \<Rightarrow> string \<Rightarrow> (string \<times> (string + pyval)) list option
     \<Rightarrow> (catalog_error, board_catalog) res" where
  "load_catalog nfkc sha root listing = (case listing of
     None \<Rightarrow> Inl (Board_catalog_error (Directory_not_found root))
   | Some files \<Rightarrow>
       bindE (mapE (load_entry sha)
         (sort_key fst (map (\<lambda>(name, content). (root @ ''/'' @ name, content))
           (filter (\<lambda>(name, _). is_yaml_name name) files))))
       (board_catalog_init nfkc))"

subsection \<open>Exactness of the indices\<close>

definition entry_owns :: "(string \<Rightarrow> string) \<Rightarrow> catalog_entry \<Rightarrow> string \<Rightarrow> bool" where
  "entry_owns nfkc e n = (n \<in> normalize_exact_alias nfkc ` set (entry_names e))"

lemma index_aliases_get:
  "index_aliases nfkc e names seen ba = Inr ba' \<Longrightarrow>
   dict_get ba' n =
     (if n \<in> normalize_exact_alias nfkc ` set names then Some e else dict_get ba n)"
proof (induction nfkc e names seen ba arbitrary: ba' rule: index_aliases.induct)
  case (2 nfkc e al rest seen ba)
  then show ?case
    by (auto simp: result_simps Let_def dict_get_set split: option.splits)
qed simp

lemma index_aliases_fresh:
  "index_aliases nfkc e names seen ba = Inr ba' \<Longrightarrow>
   n \<in> normalize_exact_alias nfkc ` set names \<Longrightarrow> dict_get ba n = None"
proof (induction nfkc e names seen ba arbitrary: ba' rule: index_aliases.induct)
  case (2 nfkc e al rest seen ba)
  let ?n = "normalize_exact_alias nfkc al"
  from "2.prems"(1) have fresh: "dict_get ba ?n = None" and checks: "?n \<noteq> []" "?n \<notin> set seen"
    and r: "index_aliases nfkc e rest (?n # seen) (dict_set ba ?n e) = Inr ba'"
    by (auto simp: result_simps Let_def split: option.splits)
  show ?case
  proof (cases "n = ?n")
    case True
    with fresh show ?thesis by simp
  next
    case False
    with "2.prems"(2) have "n \<in> normalize_exact_alias nfkc ` set rest" by auto
    with "2.IH" [OF refl refl fresh r] False show ?thesis by (simp add: dict_get_set)
  qed
qed simp

text \<open>
  An index maps a name to an entry exactly when the entry is one of those indexed and the
  name is one of its names.
\<close>

definition index_exact :: "(string, catalog_entry) dict \<Rightarrow> catalog_entry set \<Rightarrow> (catalog_entry \<Rightarrow> string \<Rightarrow> bool) \<Rightarrow> bool" where
  "index_exact d es owns = (\<forall>n e. dict_get d n = Some e \<longleftrightarrow> e \<in> es \<and> owns e n)"

lemma index_aliases_exact:
  assumes ia: "index_aliases nfkc e (entry_names e) [] ba = Inr ba'"
    and ex: "index_exact ba es (entry_owns nfkc)"
  shows "index_exact ba' (insert e es) (entry_owns nfkc)"
  unfolding index_exact_def
proof (intro allI)
  fix n e'
  show "dict_get ba' n = Some e' \<longleftrightarrow> e' \<in> insert e es \<and> entry_owns nfkc e' n"
  proof (cases "n \<in> normalize_exact_alias nfkc ` set (entry_names e)")
    case True
    with index_aliases_get [OF ia, of n] have "dict_get ba' n = Some e" by simp
    moreover have "\<not> (e' \<in> es \<and> entry_owns nfkc e' n)"
      using index_aliases_fresh [OF ia True] ex by (metis index_exact_def option.distinct(1))
    ultimately show ?thesis using True by (auto simp: entry_owns_def)
  next
    case False
    with index_aliases_get [OF ia, of n] ex show ?thesis
      by (auto simp: index_exact_def entry_owns_def)
  qed
qed

definition entry_id :: "(string \<Rightarrow> string) \<Rightarrow> catalog_entry \<Rightarrow> string \<Rightarrow> bool" where
  "entry_id nfkc e n = (n = normalize_exact_alias nfkc (bc_board_id (ce_contract e)))"

lemma index_exact_insert:
  assumes ex: "index_exact d E (entry_id nfkc)"
    and fresh: "dict_get d (normalize_exact_alias nfkc (bc_board_id (ce_contract e))) = None"
  shows "index_exact (dict_set d (normalize_exact_alias nfkc (bc_board_id (ce_contract e))) e)
           (insert e E) (entry_id nfkc)"
  unfolding index_exact_def
proof (intro allI)
  fix n e'
  let ?n = "normalize_exact_alias nfkc (bc_board_id (ce_contract e))"
  have old: "dict_get d n = Some e' \<longleftrightarrow> e' \<in> E \<and> entry_id nfkc e' n"
    using ex by (simp add: index_exact_def)
  show "dict_get (dict_set d ?n e) n = Some e' \<longleftrightarrow> e' \<in> insert e E \<and> entry_id nfkc e' n"
  proof (cases "n = ?n")
    case True
    with fresh old have "\<not> (e' \<in> E \<and> entry_id nfkc e' n)" by simp
    with True show ?thesis by (auto simp: dict_get_set entry_id_def)
  next
    case False
    with old show ?thesis by (auto simp: dict_get_set entry_id_def)
  qed
qed

lemma build_indices_exact:
  "build_indices nfkc es bi ba = Inr (bi', ba') \<Longrightarrow>
   index_exact bi E (entry_id nfkc) \<Longrightarrow> index_exact ba E (entry_owns nfkc) \<Longrightarrow>
   index_exact bi' (E \<union> set es) (entry_id nfkc) \<and> index_exact ba' (E \<union> set es) (entry_owns nfkc)"
proof (induction nfkc es bi ba arbitrary: E rule: build_indices.induct)
  case (2 nfkc e es bi ba)
  let ?n = "normalize_exact_alias nfkc (bc_board_id (ce_contract e))"
  from "2.prems"(1) obtain ba1 where
    fresh: "dict_get bi ?n = None" and
    ia: "index_aliases nfkc e (entry_names e) [] ba = Inr ba1" and
    rest: "build_indices nfkc es (dict_set bi ?n e) ba1 = Inr (bi', ba')"
    by (auto simp: result_simps Let_def)
  from "2.prems"(2) fresh have "index_exact (dict_set bi ?n e) (insert e E) (entry_id nfkc)"
    by (rule index_exact_insert)
  moreover from "2.prems"(3) have "index_exact ba1 (insert e E) (entry_owns nfkc)"
    by (rule index_aliases_exact [OF ia])
  ultimately have "index_exact bi' (insert e E \<union> set es) (entry_id nfkc)
      \<and> index_exact ba' (insert e E \<union> set es) (entry_owns nfkc)"
    by (rule "2.IH" [OF refl ia rest])
  then show ?case by simp
qed simp

definition catalog_valid :: "(string \<Rightarrow> string) \<Rightarrow> board_catalog \<Rightarrow> bool" where
  "catalog_valid nfkc cat = (\<exists>entries. board_catalog_init nfkc entries = Inr cat)"

lemma catalog_exact:
  assumes "board_catalog_init nfkc entries = Inr cat"
  shows "cat_entries cat = entries" and "entries \<noteq> []"
    and "index_exact (cat_by_id cat) (set entries) (entry_id nfkc)"
    and "index_exact (cat_by_alias cat) (set entries) (entry_owns nfkc)"
proof -
  from assms obtain bi ba where ne: "entries \<noteq> []" and b: "build_indices nfkc entries [] [] = Inr (bi, ba)"
    and cat: "cat = \<lparr>cat_entries = entries, cat_by_id = bi, cat_by_alias = ba\<rparr>"
    by (auto simp: board_catalog_init_def result_simps)
  have "index_exact [] {} P" for P by (simp add: index_exact_def)
  from build_indices_exact [OF b this this] have
    "index_exact bi (set entries) (entry_id nfkc)" "index_exact ba (set entries) (entry_owns nfkc)"
    by simp_all
  with cat ne show "cat_entries cat = entries" "entries \<noteq> []"
    "index_exact (cat_by_id cat) (set entries) (entry_id nfkc)"
    "index_exact (cat_by_alias cat) (set entries) (entry_owns nfkc)" by simp_all
qed

definition catalog_contracts :: "board_catalog \<Rightarrow> board_contract list" where
  "catalog_contracts cat = map ce_contract (cat_entries cat)"

definition contract_owns :: "(string \<Rightarrow> string) \<Rightarrow> board_contract \<Rightarrow> string \<Rightarrow> bool" where
  "contract_owns nfkc c a =
     (normalize_exact_alias nfkc a \<in> normalize_exact_alias nfkc ` set (bc_board_id c # contract_aliases c))"

definition contract_has_id :: "(string \<Rightarrow> string) \<Rightarrow> board_contract \<Rightarrow> string \<Rightarrow> bool" where
  "contract_has_id nfkc c a = (normalize_exact_alias nfkc a = normalize_exact_alias nfkc (bc_board_id c))"

interpretation alias_directory: exact_directory
  "\<lambda>cat. set (catalog_contracts cat)" "contract_owns nfkc" "resolve_exact nfkc" "catalog_valid nfkc"
proof unfold_locales
  fix cat a c
  assume "catalog_valid nfkc cat"
  then obtain entries where init: "board_catalog_init nfkc entries = Inr cat"
    by (auto simp: catalog_valid_def)
  from catalog_exact(4) [OF init] have ex: "dict_get (cat_by_alias cat) (normalize_exact_alias nfkc a) = Some e \<longleftrightarrow>
      e \<in> set (cat_entries cat) \<and> contract_owns nfkc (ce_contract e) a" for e
    using catalog_exact(1) [OF init]
    by (simp add: index_exact_def entry_owns_def contract_owns_def entry_names_def)
  { assume "resolve_exact nfkc cat a = Some c"
    then show "c \<in> set (catalog_contracts cat) \<and> contract_owns nfkc c a"
      using ex by (auto simp: resolve_exact_def catalog_contracts_def) }
  { assume "c \<in> set (catalog_contracts cat)" "contract_owns nfkc c a"
    then show "resolve_exact nfkc cat a = Some c"
      using ex by (auto simp: resolve_exact_def catalog_contracts_def) }
qed

interpretation id_directory: exact_directory
  "\<lambda>cat. set (catalog_contracts cat)" "contract_has_id nfkc" "by_id nfkc" "catalog_valid nfkc"
proof unfold_locales
  fix cat a c
  assume "catalog_valid nfkc cat"
  then obtain entries where init: "board_catalog_init nfkc entries = Inr cat"
    by (auto simp: catalog_valid_def)
  from catalog_exact(3) [OF init] have ex: "dict_get (cat_by_id cat) (normalize_exact_alias nfkc a) = Some e \<longleftrightarrow>
      e \<in> set (cat_entries cat) \<and> contract_has_id nfkc (ce_contract e) a" for e
    using catalog_exact(1) [OF init]
    by (simp add: index_exact_def entry_id_def contract_has_id_def)
  { assume "by_id nfkc cat a = Some c"
    then show "c \<in> set (catalog_contracts cat) \<and> contract_has_id nfkc c a"
      using ex by (auto simp: by_id_def catalog_contracts_def) }
  { assume "c \<in> set (catalog_contracts cat)" "contract_has_id nfkc c a"
    then show "by_id nfkc cat a = Some c"
      using ex by (auto simp: by_id_def catalog_contracts_def) }
qed

lemma load_catalog_wf:
  assumes "load_catalog nfkc sha root listing = Inr cat"
  shows "catalog_valid nfkc cat \<and> list_all (contract_wf sha) (catalog_contracts cat)"
proof -
  from assms obtain files es where m: "mapE (load_entry sha) files = Inr es"
    and init: "board_catalog_init nfkc es = Inr cat"
    by (auto simp: load_catalog_def result_simps split: option.splits)
  have wf: "load_entry sha f = Inr e \<Longrightarrow> contract_wf sha (ce_contract e)" for f e
    by (auto simp: load_entry_def dest: contract.reads_wf split: sum.splits model_error.splits)
  then have "\<forall>e \<in> set es. contract_wf sha (ce_contract e)"
    by (rule mapE_all [OF m])
  with catalog_exact(1) [OF init] init show ?thesis
    by (auto simp: catalog_valid_def catalog_contracts_def list_all_iff)
qed

end
