(* ===== verification/Board_Resolver.thy ===== *)
theory Board_Resolver
  imports Board_Catalog
begin

text \<open>
  \<open>firmware/boards/resolver.py\<close>: exact resolution of a board, a hardware variant and a build
  target, never guessing among several, and the diagnostic comparison with the legacy
  selection.
\<close>

datatype resolution_status =
  RESOLVED | NOT_FOUND | AMBIGUOUS_VARIANT | VARIANT_NOT_FOUND | AMBIGUOUS_TARGET | TARGET_NOT_FOUND

record resolution_result =
  rr_status :: resolution_status
  rr_contract :: "board_contract option"
  rr_variant :: "hardware_variant option"
  rr_target :: "build_target option"
  rr_candidates :: "string list"

definition resolution_ok :: "resolution_result \<Rightarrow> bool" where
  "resolution_ok r = (rr_status r = RESOLVED)"

definition qualified_target_id :: "resolution_result \<Rightarrow> string" where
  "qualified_target_id r =
     (if \<not> resolution_ok r then []
      else (case (rr_contract r, rr_variant r, rr_target r) of
         (Some c, Some v, Some t) \<Rightarrow> bc_board_id c @ ''/'' @ hv_id v @ ''/'' @ bt_id t
       | _ \<Rightarrow> []))"

definition resolve ::
    "(string \<Rightarrow> string) \<Rightarrow> board_catalog \<Rightarrow> string \<Rightarrow> string option \<Rightarrow> string option \<Rightarrow> resolution_result" where
  "resolve nfkc cat alias variant_id target_id =
     (case resolve_exact nfkc cat alias of
        None \<Rightarrow> \<lparr>rr_status = NOT_FOUND, rr_contract = None, rr_variant = None, rr_target = None, rr_candidates = []\<rparr>
      | Some contract \<Rightarrow>
          (let variants = bc_hardware_variants contract;
               chosen = (case variant_id of
                  None \<Rightarrow> (case variants of [v] \<Rightarrow> Inr v | _ \<Rightarrow> Inl AMBIGUOUS_VARIANT)
                | Some i \<Rightarrow> (case contract_variant contract i of Some v \<Rightarrow> Inr v | None \<Rightarrow> Inl VARIANT_NOT_FOUND))
           in case chosen of
             Inl status \<Rightarrow> \<lparr>rr_status = status, rr_contract = Some contract, rr_variant = None,
                 rr_target = None, rr_candidates = map hv_id variants\<rparr>
           | Inr variant \<Rightarrow>
               (let targets = hv_build_targets variant;
                    picked = (case target_id of
                       None \<Rightarrow> (case targets of [t] \<Rightarrow> Inr t | _ \<Rightarrow> Inl AMBIGUOUS_TARGET)
                     | Some i \<Rightarrow> (case variant_target variant i of Some t \<Rightarrow> Inr t | None \<Rightarrow> Inl TARGET_NOT_FOUND))
                in case picked of
                  Inl status \<Rightarrow> \<lparr>rr_status = status, rr_contract = Some contract, rr_variant = Some variant,
                      rr_target = None, rr_candidates = map bt_id targets\<rparr>
                | Inr target \<Rightarrow> \<lparr>rr_status = RESOLVED, rr_contract = Some contract,
                      rr_variant = Some variant, rr_target = Some target, rr_candidates = []\<rparr>)))"

subsection \<open>Shadow comparison\<close>

datatype shadow_divergence =
  AGREES | BOARD_NOT_COVERED | LEGACY_MCU_UNAVAILABLE | MCU_DIVERGENCE | VARIANT_AMBIGUOUS | SHADOW_ERROR

record shadow_comparison =
  sc_legacy_board :: string
  sc_legacy_mcu :: string
  sc_board_contract_id :: string
  sc_matching_variant_ids :: "string list"
  sc_divergence :: shadow_divergence

text \<open>
  \<open>active_catalog\<close> is \<open>Inl\<close> when loading the default catalog raised; the comparison reports
  that as a divergence and never raises.
\<close>

definition matching_variants :: "(string \<Rightarrow> string) \<Rightarrow> board_contract \<Rightarrow> string \<Rightarrow> string list" where
  "matching_variants nfkc c mcu = (let m = normalize_exact_alias nfkc mcu in
     map hv_id (filter (\<lambda>v. normalize_exact_alias nfkc (ps_model (hv_processor v)) = m
        \<or> normalize_exact_alias nfkc (ps_resolved_mcu (hv_processor v)) = m) (bc_hardware_variants c)))"

definition compare_legacy_resolution ::
    "(string \<Rightarrow> string) \<Rightarrow> (catalog_error, board_catalog) res \<Rightarrow> string \<Rightarrow> string \<Rightarrow> shadow_comparison" where
  "compare_legacy_resolution nfkc active_catalog board_text mcu_text =
     (let result = (\<lambda>mcu cid ids d. \<lparr>sc_legacy_board = board_text, sc_legacy_mcu = mcu,
            sc_board_contract_id = cid, sc_matching_variant_ids = ids, sc_divergence = d\<rparr>)
      in case active_catalog of
        Inl _ \<Rightarrow> result mcu_text [] [] SHADOW_ERROR
      | Inr cat \<Rightarrow> (case resolve_exact nfkc cat board_text of
          None \<Rightarrow> result mcu_text [] [] BOARD_NOT_COVERED
        | Some contract \<Rightarrow>
            if py_strip mcu_text = [] then result [] (bc_board_id contract) [] LEGACY_MCU_UNAVAILABLE
            else (let matches = matching_variants nfkc contract mcu_text in
              if matches = [] then result mcu_text (bc_board_id contract) [] MCU_DIVERGENCE
              else result mcu_text (bc_board_id contract) matches
                (if 1 < length matches then VARIANT_AMBIGUOUS else AGREES))))"

subsection \<open>What a resolution means\<close>

text \<open>The abstract relation: which triples a request may denote.\<close>

definition denotes ::
    "(string \<Rightarrow> string) \<Rightarrow> board_catalog \<Rightarrow> string \<Rightarrow> string option \<Rightarrow> string option
     \<Rightarrow> board_contract \<Rightarrow> hardware_variant \<Rightarrow> build_target \<Rightarrow> bool" where
  "denotes nfkc cat alias variant_id target_id c v t =
     (c \<in> set (catalog_contracts cat) \<and> contract_owns nfkc c alias
      \<and> v \<in> set (bc_hardware_variants c)
      \<and> (case variant_id of None \<Rightarrow> True | Some i \<Rightarrow> hv_id v = py_lower (py_strip i))
      \<and> t \<in> set (hv_build_targets v)
      \<and> (case target_id of None \<Rightarrow> True | Some i \<Rightarrow> bt_id t = py_lower (py_strip i)))"

lemma singleton_choice:
  "(case xs of [x] \<Rightarrow> Inr x | _ \<Rightarrow> Inl e) = Inr y \<longleftrightarrow> xs = [y]"
  by (auto split: list.splits)

lemma find_key_unique:
  "distinct (map f xs) \<Longrightarrow> x \<in> set xs \<Longrightarrow> f x = k \<Longrightarrow> find (\<lambda>y. f y = k) xs = Some x"
  by (induction xs) (auto simp: image_iff)

lemma resolve_RESOLVED:
  "resolve nfkc cat alias vi ti = r \<Longrightarrow> rr_status r = RESOLVED \<Longrightarrow>
     \<exists>c v t. rr_contract r = Some c \<and> rr_variant r = Some v \<and> rr_target r = Some t
       \<and> resolve_exact nfkc cat alias = Some c
       \<and> (case vi of None \<Rightarrow> bc_hardware_variants c = [v] | Some i \<Rightarrow> contract_variant c i = Some v)
       \<and> (case ti of None \<Rightarrow> hv_build_targets v = [t] | Some i \<Rightarrow> variant_target v i = Some t)"
  by (auto simp: resolve_def Let_def split: option.splits sum.splits list.splits)

lemma resolve_sound:
  assumes "catalog_valid nfkc cat" and "resolution_ok (resolve nfkc cat alias vi ti)"
  obtains c v t where
    "resolve nfkc cat alias vi ti =
       \<lparr>rr_status = RESOLVED, rr_contract = Some c, rr_variant = Some v, rr_target = Some t, rr_candidates = []\<rparr>"
    and "denotes nfkc cat alias vi ti c v t"
proof -
  let ?r = "resolve nfkc cat alias vi ti"
  from assms(2) have st: "rr_status ?r = RESOLVED" by (simp add: resolution_ok_def)
  from resolve_RESOLVED [OF refl st] obtain c v t where
    r: "rr_contract ?r = Some c" "rr_variant ?r = Some v" "rr_target ?r = Some t"
    and c: "resolve_exact nfkc cat alias = Some c"
    and v: "case vi of None \<Rightarrow> bc_hardware_variants c = [v] | Some i \<Rightarrow> contract_variant c i = Some v"
    and t: "case ti of None \<Rightarrow> hv_build_targets v = [t] | Some i \<Rightarrow> variant_target v i = Some t"
    by blast
  from st have "rr_candidates ?r = []"
    by (auto simp: resolve_def Let_def split: option.splits sum.splits list.splits)
  with r st have "?r = \<lparr>rr_status = RESOLVED, rr_contract = Some c, rr_variant = Some v,
      rr_target = Some t, rr_candidates = []\<rparr>" by simp
  moreover have "denotes nfkc cat alias vi ti c v t"
    using alias_directory.lookup_sound [OF assms(1) c] v t
    by (auto simp: denotes_def dest: contract_variant_Some variant_target_Some split: option.splits)
  ultimately show thesis by (rule that)
qed

text \<open>
  With the distinct ids every loaded contract has, a request that denotes exactly one triple
  of a one-variant, one-target board, or that names its parts, is resolved.
\<close>

lemma resolve_complete:
  assumes "catalog_valid nfkc cat" and d: "denotes nfkc cat alias vi ti c v t"
    and wf: "distinct (map hv_id (bc_hardware_variants c))" "distinct (map bt_id (hv_build_targets v))"
    and vi: "vi = None \<Longrightarrow> length (bc_hardware_variants c) = 1"
    and ti: "ti = None \<Longrightarrow> length (hv_build_targets v) = 1"
  shows "resolve nfkc cat alias vi ti =
     \<lparr>rr_status = RESOLVED, rr_contract = Some c, rr_variant = Some v, rr_target = Some t, rr_candidates = []\<rparr>"
proof -
  from d have c: "resolve_exact nfkc cat alias = Some c"
    by (auto simp: denotes_def alias_directory.lookup_complete [OF assms(1)])
  have v: "vi = None \<Longrightarrow> bc_hardware_variants c = [v]" "vi = Some i \<Longrightarrow> contract_variant c i = Some v" for i
    using d vi wf(1) by (auto simp: denotes_def contract_variant_def Let_def length_Suc_conv
        intro: find_key_unique)
  have t: "ti = None \<Longrightarrow> hv_build_targets v = [t]" "ti = Some i \<Longrightarrow> variant_target v i = Some t" for i
    using d ti wf(2) by (auto simp: denotes_def variant_target_def Let_def length_Suc_conv
        intro: find_key_unique)
  show ?thesis
    by (cases vi; cases ti) (simp_all add: resolve_def c v t Let_def)
qed

end
