(* ===== verification/Kconfig_Text.thy ===== *)
theory Kconfig_Text
  imports Board_Models
begin

text \<open>
  The textual half of \<open>firmware/boards/kconfig.py\<close>: writing the seed \<open>.config\<close>, reading a
  resolved one back, and the checks of requested and resolved values.  Bytes are identified
  with the text they encode.
\<close>

datatype build_error =
    Board_build_error string | Checkout_error string | Checkout_commit_mismatch string
  | Kconfig_error string | Unknown_kconfig_symbol "string list" | Discarded_selection "string list"
  | Assertion_mismatch "string list" | Incompatible_target string | Artifact_validation_error string
  | Build_command_error string | Text_outside_model string

record verification_proof =
  vp_ok :: bool
  vp_checked_symbols :: "string list"
  vp_failures :: "string list"

subsection \<open>Writing\<close>

definition newline :: string where
  "newline = [CHR 0x0A]"

definition config_line :: "string \<Rightarrow> kscalar \<Rightarrow> (build_error, string) res" where
  "config_line symbol v =
     require (kconfig_re symbol) (Unknown_kconfig_symbol [symbol])
     (case v of
        SBool True \<Rightarrow> Inr (symbol @ ''=y'')
      | SBool False \<Rightarrow> Inr (''# '' @ symbol @ '' is not set'')
      | SInt i \<Rightarrow> Inr (symbol @ ''='' @ show_int i)
      | SStr s \<Rightarrow>
          require (\<not> (CHR 0x00 \<in> set s \<or> CHR 0x0D \<in> set s \<or> CHR 0x0A \<in> set s)) (Kconfig_error symbol)
          (Inr (symbol @ ''='' @ json_string s)))"

definition serialize_requested_config :: "kconfig \<Rightarrow> (build_error, string) res" where
  "serialize_requested_config values =
     bindE (mapE (\<lambda>(symbol, v). config_line symbol v) (sort_key fst values)) (\<lambda>ls.
     Inr (join_with newline ls @ newline))"

subsection \<open>Reading\<close>

text \<open>\<open>_NOT_SET_RE\<close> and \<open>_ASSIGNMENT_RE\<close>.\<close>

definition symbol_prefix :: "string \<Rightarrow> (string \<times> string) option" where
  "symbol_prefix s =
     (if starts_with ''CONFIG_'' s \<and> takeWhile is_word (drop 7 s) \<noteq> []
      then Some (''CONFIG_'' @ takeWhile is_word (drop 7 s), dropWhile is_word (drop 7 s)) else None)"

definition not_set_re :: "string \<Rightarrow> string option" where
  "not_set_re line =
     (if starts_with ''# '' line
      then (case symbol_prefix (drop 2 line) of
              Some (symbol, rest) \<Rightarrow> if rest = '' is not set'' then Some symbol else None
            | None \<Rightarrow> None)
      else None)"

definition assignment_re :: "string \<Rightarrow> (string \<times> string) option" where
  "assignment_re line = (case symbol_prefix line of
     Some (symbol, c # raw) \<Rightarrow> if c = CHR ''='' then Some (symbol, raw) else None
   | _ \<Rightarrow> None)"

definition parse_value :: "string \<Rightarrow> string \<Rightarrow> (build_error, kscalar) res" where
  "parse_value symbol raw =
     (if raw = ''y'' then Inr (SBool True)
      else if raw = ''n'' then Inr (SBool False)
      else if raw \<noteq> [] \<and> hd raw = CHR 0x22 \<and> last raw = CHR 0x22 then
        (case json_loads_string raw of
           Json_ok s \<Rightarrow> Inr (SStr s)
         | Json_invalid \<Rightarrow> Inl (Kconfig_error symbol)
         | Json_wide \<Rightarrow> Inl (Text_outside_model symbol))
      else (case hex_re raw of
          Some i \<Rightarrow> Inr (SInt i)
        | None \<Rightarrow> (case integer_re raw of Some i \<Rightarrow> Inr (SInt i) | None \<Rightarrow> Inr (SStr raw))))"

fun parse_lines :: "string list \<Rightarrow> kconfig \<Rightarrow> (build_error, kconfig) res" where
  "parse_lines [] parsed = Inr parsed"
| "parse_lines (line # ls) parsed =
     (case not_set_re line of
        Some symbol \<Rightarrow> parse_lines ls (dict_set parsed symbol (SBool False))
      | None \<Rightarrow> (case assignment_re line of
          None \<Rightarrow> parse_lines ls parsed
        | Some (symbol, raw) \<Rightarrow>
            bindE (parse_value symbol raw) (\<lambda>v. parse_lines ls (dict_set parsed symbol v))))"

definition parse_kconfig :: "string \<Rightarrow> (build_error, kconfig) res" where
  "parse_kconfig content = parse_lines (py_splitlines (normalize_newlines content)) []"

subsection \<open>Checks\<close>

definition normalize_expected :: "kscalar \<Rightarrow> kscalar" where
  "normalize_expected v = (case v of
     SStr s \<Rightarrow> (case hex_re s of Some i \<Rightarrow> SInt i | None \<Rightarrow> v)
   | _ \<Rightarrow> v)"

definition resolved_as :: "kconfig \<Rightarrow> string \<times> kscalar \<Rightarrow> bool" where
  "resolved_as resolved e = (case dict_get resolved (fst e) of
     None \<Rightarrow> False
   | Some actual \<Rightarrow> kscalar_eq (normalize_expected (snd e)) actual)"

definition verify_requested_selections :: "kconfig \<Rightarrow> kconfig \<Rightarrow> (build_error, verification_proof) res" where
  "verify_requested_selections requested resolved =
     (let discarded = map fst (filter (\<lambda>e. \<not> resolved_as resolved e) (sort_key fst requested)) in
      require (discarded = []) (Discarded_selection discarded)
      (Inr \<lparr>vp_ok = True, vp_checked_symbols = sort (map fst requested), vp_failures = []\<rparr>))"

definition verify_declared_symbols :: "kconfig \<Rightarrow> string set \<Rightarrow> (build_error, unit) res" where
  "verify_declared_symbols values declared =
     (let missing = sort (filter (\<lambda>s. s \<notin> declared) (map fst values)) in
      require (missing = []) (Unknown_kconfig_symbol missing) (Inr ()))"

definition verify_resolved_assertions :: "kconfig \<Rightarrow> kconfig \<Rightarrow> (build_error, verification_proof) res" where
  "verify_resolved_assertions assertions resolved =
     (let failures = map fst (filter (\<lambda>e. \<not> resolved_as resolved e) (sort_key fst assertions)) in
      require (failures = []) (Assertion_mismatch failures)
      (Inr \<lparr>vp_ok = True, vp_checked_symbols = sort (map fst assertions), vp_failures = []\<rparr>))"

lemma verify_requested_ok:
  "verify_requested_selections requested resolved = Inr p \<longleftrightarrow>
     (\<forall>e \<in> set requested. resolved_as resolved e)
     \<and> p = \<lparr>vp_ok = True, vp_checked_symbols = sort (map fst requested), vp_failures = []\<rparr>"
  by (auto simp: verify_requested_selections_def Let_def result_simps filter_empty_conv)

lemma verify_assertions_ok:
  "verify_resolved_assertions assertions resolved = Inr p \<longleftrightarrow>
     (\<forall>e \<in> set assertions. resolved_as resolved e)
     \<and> p = \<lparr>vp_ok = True, vp_checked_symbols = sort (map fst assertions), vp_failures = []\<rparr>"
  by (auto simp: verify_resolved_assertions_def Let_def result_simps filter_empty_conv)

lemma sort_Nil_iff: "sort xs = [] \<longleftrightarrow> xs = []"
  by (metis length_0_conv length_sort)

lemma verify_declared_ok: "verify_declared_symbols values declared = Inr u \<longleftrightarrow> fst ` set values \<subseteq> declared"
  by (auto simp: verify_declared_symbols_def Let_def result_simps sort_Nil_iff filter_empty_conv)

subsection \<open>Reading back what was written\<close>

text \<open>
  \<open>str.splitlines\<close> also ends a line at U+0085, which neither the guard of
  \<open>serialize_requested_config\<close> nor JSON escaping removes.
\<close>

definition line_safe :: "kscalar \<Rightarrow> bool" where
  "line_safe v = (case v of SStr s \<Rightarrow> CHR 0x85 \<notin> set s | _ \<Rightarrow> True)"

lemma kconfig_re_split:
  assumes "kconfig_re s" and "rest = [] \<or> \<not> is_word (hd rest)"
  shows "symbol_prefix (s @ rest) = Some (s, rest)"
proof -
  from assms(1) obtain t where s: "s = ''CONFIG_'' @ t" and t: "t \<noteq> []" "list_all is_word t"
    by (auto simp: kconfig_re_def starts_with_iff)
  have "takeWhile is_word (t @ rest) = t" "dropWhile is_word (t @ rest) = rest"
    using t(2) assms(2) by (cases rest; auto simp: list_all_iff takeWhile_append dropWhile_append)+
  with s t(1) show ?thesis by (simp add: symbol_prefix_def)
qed

lemma kconfig_re_head: "kconfig_re s \<Longrightarrow> \<exists>t. s = CHR ''C'' # t"
  by (auto simp: kconfig_re_def starts_with_iff)

lemma not_set_line:
  "kconfig_re s \<Longrightarrow> not_set_re (''# '' @ s @ '' is not set'') = Some s"
  by (simp add: not_set_re_def kconfig_re_split is_word_def is_digit_def is_lower_def is_upper_def code_of_def)

lemma assignment_line: "kconfig_re s \<Longrightarrow> assignment_re (s @ ''='' @ raw) = Some (s, raw)"
  by (simp add: assignment_re_def kconfig_re_split is_word_def is_digit_def is_lower_def is_upper_def code_of_def)

lemma not_set_assignment: "kconfig_re s \<Longrightarrow> not_set_re (s @ t) = None"
  using kconfig_re_head [of s] by (auto simp: not_set_re_def)

lemma parse_value_int: "parse_value symbol (show_int i) = Inr (SInt i)"
proof -
  have d: "c \<in> set (show_int i) \<Longrightarrow> c \<noteq> CHR 0x22 \<and> c \<noteq> CHR ''y'' \<and> c \<noteq> CHR ''n''" for c
    using show_int_chars [of c i] by (auto simp: is_digit_def code_of_def)
  have "hd (show_int i) \<in> set (show_int i)" by simp
  with d have "hd (show_int i) \<noteq> CHR 0x22" "show_int i \<noteq> ''y''" "show_int i \<noteq> ''n''"
    by (blast, (metis d list.set_intros(1))+)
  then show ?thesis
    by (simp add: parse_value_def hex_re_show_int integer_re_show_int)
qed

lemma parse_value_string: "parse_value symbol (json_string s) = Inr (SStr s)"
proof -
  have "hd (json_string s) = CHR 0x22" "last (json_string s) = CHR 0x22"
    "json_string s \<noteq> []" "json_string s \<noteq> ''y''" "json_string s \<noteq> ''n''"
    by (simp_all add: json_string_def)
  then show ?thesis by (simp add: parse_value_def json_loads_json_string)
qed

lemma parse_lines_config_line:
  assumes "config_line symbol v = Inr line"
  shows "parse_lines (line # ls) parsed = parse_lines ls (dict_set parsed symbol v)"
proof (cases v)
  case (SBool b)
  with assms show ?thesis
    by (cases b) (auto simp: config_line_def result_simps not_set_line [simplified] not_set_assignment
      assignment_line [where raw = "''y''", simplified] parse_value_def)
next
  case (SInt i)
  with assms show ?thesis
    by (auto simp: config_line_def result_simps not_set_assignment parse_value_int
      assignment_line [simplified])
next
  case (SStr s)
  with assms show ?thesis
    by (auto simp: config_line_def result_simps not_set_assignment parse_value_string
      assignment_line [simplified])
qed

lemma dict_set_fresh: "k \<notin> fst ` set d \<Longrightarrow> dict_set d k v = d @ [(k, v)]"
  by (induction d k v rule: dict_set.induct) auto

lemma dict_update_fresh: "dict_ok (d @ e) \<Longrightarrow> dict_update d e = d @ e"
proof (induction e arbitrary: d)
  case Nil
  then show ?case by (simp add: dict_update_def)
next
  case (Cons p e)
  obtain k v where p: "p = (k, v)" by fastforce
  with Cons.prems have "k \<notin> fst ` set d" by auto
  then have "dict_update d (p # e) = dict_update (d @ [(k, v)]) e"
    by (simp add: dict_update_def p dict_set_fresh)
  also have "\<dots> = (d @ [(k, v)]) @ e" using Cons.prems p by (intro Cons.IH) simp
  finally show ?case by (simp add: p)
qed

lemma parse_written_lines:
  "mapE (\<lambda>(symbol, v). config_line symbol v) kvs = Inr ls \<Longrightarrow>
   parse_lines ls parsed = Inr (dict_update parsed kvs)"
proof (induction kvs arbitrary: ls parsed)
  case Nil
  then show ?case by (simp add: dict_update_def)
next
  case (Cons p kvs)
  obtain k v where p: "p = (k, v)" by fastforce
  from Cons.prems p obtain l ls' where "config_line k v = Inr l" "ls = l # ls'"
      "mapE (\<lambda>(symbol, v). config_line symbol v) kvs = Inr ls'"
    by (auto simp: result_simps)
  with Cons.IH [of ls' "dict_set parsed k v"] p show ?case
    by (simp add: parse_lines_config_line dict_update_def del: parse_lines.simps)
qed

lemma word_not_linebreak: "is_word c \<Longrightarrow> \<not> is_linebreak c"
  by (auto simp: is_word_def is_digit_def is_lower_def is_upper_def is_linebreak_def Let_def code_of_def)

lemma kconfig_re_no_linebreak: "kconfig_re s \<Longrightarrow> list_all (\<lambda>c. \<not> is_linebreak c) s"
  by (auto simp: kconfig_re_def starts_with_iff list_all_iff word_not_linebreak)
     (auto simp: is_linebreak_def code_of_def)

lemma show_int_no_linebreak: "list_all (\<lambda>c. \<not> is_linebreak c) (show_int i)"
  by (auto simp: list_all_iff is_linebreak_def Let_def is_digit_def dest!: show_int_chars)
     (auto simp: code_of_def)

lemma hex4_no_linebreak: "c \<in> set (hex4 n) \<Longrightarrow> \<not> is_linebreak c"
proof -
  assume "c \<in> set (hex4 n)"
  then obtain m where "c = hex_digit_char m" "m < 16" by (auto simp: hex4_def)
  then have "48 \<le> code_of c \<and> code_of c \<le> 102" by (auto simp: hex_digit_char_def)
  then show ?thesis by (auto simp: is_linebreak_def Let_def)
qed

lemma json_escape_no_linebreak: "c \<noteq> CHR 0x85 \<Longrightarrow> d \<in> set (json_escape c) \<Longrightarrow> \<not> is_linebreak d"
proof -
  assume c: "c \<noteq> CHR 0x85" and d: "d \<in> set (json_escape c)"
  have nel: "code_of c \<noteq> 133"
  proof
    assume "code_of c = 133"
    then have "code_of c = code_of CHR 0x85" by (simp add: code_of_def)
    with c show False by simp
  qed
  show ?thesis
    using d nel hex4_no_linebreak [of d "code_of c"]
    by (auto simp: json_escape_def is_control_def is_linebreak_def Let_def split: if_splits)
       (auto simp: code_of_def)
qed

lemma json_string_no_linebreak:
  "CHR 0x85 \<notin> set s \<Longrightarrow> list_all (\<lambda>c. \<not> is_linebreak c) (json_string s)"
  by (auto simp: json_string_def list_all_iff dest: json_escape_no_linebreak [rotated])
     (auto simp: is_linebreak_def code_of_def)

lemma config_line_no_linebreak:
  assumes "config_line k v = Inr l" and "line_safe v"
  shows "list_all (\<lambda>c. \<not> is_linebreak c) l"
proof -
  have lit: "list_all (\<lambda>c. \<not> is_linebreak c) ''=y''" "list_all (\<lambda>c. \<not> is_linebreak c) ''# ''"
     "list_all (\<lambda>c. \<not> is_linebreak c) '' is not set''" "list_all (\<lambda>c. \<not> is_linebreak c) ''=''"
    by (simp_all add: is_linebreak_def code_of_def)
  from assms kconfig_re_no_linebreak [of k] lit show_int_no_linebreak json_string_no_linebreak
  show ?thesis
    by (auto simp: config_line_def result_simps line_safe_def list_all_append
        split: kscalar.splits bool.splits)
qed

lemma join_with_newline: "ls \<noteq> [] \<Longrightarrow> join_with newline ls @ newline = concat (map (\<lambda>s. s @ [CHR 0x0A]) ls)"
  by (induction newline ls rule: join_with.induct) (auto simp: newline_def)

lemma written_lines_split:
  assumes "\<forall>s \<in> set ls. list_all (\<lambda>c. \<not> is_linebreak c) s"
  shows "py_splitlines (normalize_newlines (join_with newline ls @ newline)) = (if ls = [] then [[]] else ls)"
proof (cases "ls = []")
  case True
  then show ?thesis by (simp add: newline_def is_linebreak_def code_of_def)
next
  case False
  have "is_linebreak CHR 0x0D" by (simp add: is_linebreak_def code_of_def)
  with assms have "CHR 0x0D \<notin> set (concat (map (\<lambda>s. s @ [CHR 0x0A]) ls))"
    by (auto simp: list_all_iff)
  with False assms show ?thesis
    by (simp add: join_with_newline normalize_newlines_id splitlines_of_lines)
qed

lemma config_lines_no_linebreak:
  "mapE (\<lambda>(symbol, v). config_line symbol v) kvs = Inr ls \<Longrightarrow> \<forall>(k, v) \<in> set kvs. line_safe v \<Longrightarrow>
   \<forall>s \<in> set ls. list_all (\<lambda>c. \<not> is_linebreak c) s"
  by (induction kvs arbitrary: ls) (auto simp: result_simps dest: config_line_no_linebreak)

text \<open>
  C40. Round trip: the seed configuration written for a set of Kconfig values parses back to the same
  values, sorted by symbol; text values are required to be free of U+0085.
\<close>

theorem serialize_parse:
  assumes ser: "serialize_requested_config values = Inr txt"
    and ok: "dict_ok values" and safe: "\<forall>(k, v) \<in> set values. line_safe v"
  shows "parse_kconfig txt = Inr (sort_key fst values)"
proof -
  let ?kvs = "sort_key fst values"
  from ser obtain ls where m: "mapE (\<lambda>(symbol, v). config_line symbol v) ?kvs = Inr ls"
    and written: "txt = join_with newline ls @ newline"
    by (auto simp: serialize_requested_config_def result_simps)
  from safe have "\<forall>(k, v) \<in> set ?kvs. line_safe v" by simp
  from config_lines_no_linebreak [OF m this]
  have split: "py_splitlines (normalize_newlines txt) = (if ls = [] then [[]] else ls)"
    unfolding written by (rule written_lines_split)
  have "dict_ok ?kvs" using ok by (simp add: distinct_map inj_on_def)
  then have "dict_update [] ?kvs = ?kvs" using dict_update_fresh [of "[]" ?kvs] by simp
  with parse_written_lines [OF m, of "[]"] have pl: "parse_lines ls [] = Inr ?kvs" by simp
  show ?thesis
  proof (cases "ls = []")
    case True
    with m have "?kvs = []" by simp
    with True split show ?thesis
      by (simp add: parse_kconfig_def not_set_re_def assignment_re_def symbol_prefix_def)
  next
    case False
    with split pl show ?thesis by (simp add: parse_kconfig_def)
  qed
qed

theorem serialize_parse_witness:
  "parse_kconfig (''# CONFIG_A is not set'' @ newline @ ''CONFIG_B='' @ json_string ''x'' @ newline @ ''CONFIG_C=-3'' @ newline) =
     Inr [(''CONFIG_A'', SBool False), (''CONFIG_B'', SStr ''x''), (''CONFIG_C'', SInt (- 3))]"
proof -
  let ?vals = "[(''CONFIG_B'', SStr ''x''), (''CONFIG_C'', SInt (- 3)), (''CONFIG_A'', SBool False)]"
  have ser: "serialize_requested_config ?vals =
      Inr (''# CONFIG_A is not set'' @ newline @ ''CONFIG_B='' @ json_string ''x'' @ newline @ ''CONFIG_C=-3'' @ newline)"
    by code_simp
  have sorted: "sort_key fst ?vals = [(''CONFIG_A'', SBool False), (''CONFIG_B'', SStr ''x''), (''CONFIG_C'', SInt (- 3))]"
    by code_simp
  from serialize_parse [OF ser] show ?thesis unfolding sorted by (simp add: line_safe_def)
qed

text \<open>
  The restriction is needed: a text value with U+0085, which the writer accepts, splits its line
  when it is read back and the value is not the one written.
\<close>

theorem next_line_value_lost:
  "\<exists>written. serialize_requested_config [(''CONFIG_B'', SStr [CHR ''x'', CHR 0x85, CHR ''y''])] = Inr written
     \<and> parse_kconfig written = Inr [(''CONFIG_B'', SStr [CHR 0x22, CHR ''x''])]"
proof -
  have s: "serialize_requested_config [(''CONFIG_B'', SStr [CHR ''x'', CHR 0x85, CHR ''y''])] =
      Inr (''CONFIG_B='' @ [CHR 0x22, CHR ''x'', CHR 0x85, CHR ''y'', CHR 0x22] @ newline)"
    by code_simp
  have p: "parse_kconfig (''CONFIG_B='' @ [CHR 0x22, CHR ''x'', CHR 0x85, CHR ''y'', CHR 0x22] @ newline) =
      Inr [(''CONFIG_B'', SStr [CHR 0x22, CHR ''x''])]"
    by code_simp
  from s p show ?thesis by blast
qed

text \<open>
  The two checks after olddefconfig are exact: the requested selections, and likewise the
  assertions, pass precisely when every declared value is the resolved one, and otherwise the error
  lists precisely the symbols that were lost.
\<close>

theorem verification_exact:
  "verify_requested_selections requested resolved =
     (if list_all (resolved_as resolved) requested
      then Inr \<lparr>vp_ok = True, vp_checked_symbols = sort (map fst requested), vp_failures = []\<rparr>
      else Inl (Discarded_selection (map fst (filter (\<lambda>e. \<not> resolved_as resolved e) (sort_key fst requested)))))
   \<and> (verify_resolved_assertions assertions resolved = Inr p \<longleftrightarrow>
        list_all (resolved_as resolved) assertions
        \<and> p = \<lparr>vp_ok = True, vp_checked_symbols = sort (map fst assertions), vp_failures = []\<rparr>)"
proof -
  have "map fst (filter (\<lambda>e. \<not> resolved_as resolved e) (sort_key fst requested)) = [] \<longleftrightarrow>
      list_all (resolved_as resolved) requested"
    by (auto simp: filter_empty_conv list_all_iff)
  then have "verify_requested_selections requested resolved =
     (if list_all (resolved_as resolved) requested
      then Inr \<lparr>vp_ok = True, vp_checked_symbols = sort (map fst requested), vp_failures = []\<rparr>
      else Inl (Discarded_selection (map fst (filter (\<lambda>e. \<not> resolved_as resolved e) (sort_key fst requested)))))"
    unfolding verify_requested_selections_def Let_def by (simp only:) simp
  then show ?thesis by (simp add: verify_assertions_ok list_all_iff)
qed

end
