(* ===== verification/Kconfig_Target.thy ===== *)
theory Kconfig_Target
  imports Kconfig_Text Board_Contract
begin

text \<open>
  \<open>validate_target_contract\<close> of \<open>firmware/boards/kconfig.py\<close>, with the prefix tables it reads,
  the pinned-source check and the choice of make parallelism.
\<close>

subsection \<open>Prefix tables\<close>

definition transport_prefixes :: "transport_kind \<Rightarrow> string list" where
  "transport_prefixes k = (case k of
     USB \<Rightarrow> [''CONFIG_STM32_USB_'', ''CONFIG_RPXXXX_USB'', ''CONFIG_AVR_USB'', ''CONFIG_LPC_USB'']
   | UART \<Rightarrow> [''CONFIG_STM32_SERIAL_'', ''CONFIG_RPXXXX_SERIAL_'', ''CONFIG_AVR_SERIAL_'',
       ''CONFIG_LPC_SERIAL_'']
   | CAN \<Rightarrow> [''CONFIG_STM32_CANBUS_'', ''CONFIG_RPXXXX_CANBUS'', ''CONFIG_LPC_MMENU_CANBUS_''])"

definition all_transport_prefixes :: "string list" where
  "all_transport_prefixes = concat (map transport_prefixes [USB, UART, CAN])"

definition bootloader_prefixes :: "string list" where
  "bootloader_prefixes =
     [''CONFIG_STM32_FLASH_START_'', ''CONFIG_RPXXXX_FLASH_START_'', ''CONFIG_LPC_FLASH_START_'']"

definition starts_with_any :: "string list \<Rightarrow> string \<Rightarrow> bool" where
  "starts_with_any ps s = list_ex (\<lambda>p. starts_with p s) ps"

text \<open>The symbols of a configuration whose value \<open>is True\<close>: no integer passes for a boolean.\<close>

definition selected :: "kconfig \<Rightarrow> (string \<Rightarrow> bool) \<Rightarrow> string list" where
  "selected cfg p = map fst (filter (\<lambda>(s, v). v = SBool True \<and> p s) cfg)"

definition requests :: "kconfig \<Rightarrow> string \<Rightarrow> bool" where
  "requests cfg s = (dict_get cfg s = Some (SBool True))"

subsection \<open>Validation\<close>

definition validate_target_contract :: "hardware_variant \<Rightarrow> build_target \<Rightarrow> (build_error, unit) res" where
  "validate_target_contract variant target =
     (let requested = bt_requested_kconfig target; p = hv_processor variant;
          transport_symbols = map fst (tr_selection (bt_transport target));
          prefixes = transport_prefixes (tr_kind (bt_transport target)) in
      require (requests requested (ps_architecture_kconfig p))
        (Incompatible_target ''target does not select its declared architecture'')
      (require (requests requested (ps_model_kconfig p))
        (Incompatible_target ''target does not select its declared processor'')
      (require (set (selected requested (starts_with ''CONFIG_MACH_''))
                = set [ps_architecture_kconfig p, ps_model_kconfig p])
        (Incompatible_target ''target selects processors outside its declared architecture/model'')
      (require (dict_get requested ''CONFIG_LOW_LEVEL_OPTIONS'' = Some (SBool (ll_enabled (bt_low_level target))))
        (Incompatible_target ''target low-level selection is inconsistent'')
      (require (transport_symbols \<noteq> [] \<and> list_all (starts_with_any prefixes) transport_symbols)
        (Incompatible_target ''target has incompatible transport selectors'')
      (require (set (selected requested (starts_with_any all_transport_prefixes)) = set transport_symbols)
        (Incompatible_target ''target requests incompatible or multiple communication interfaces'')
      (require (set (selected requested (starts_with_any bootloader_prefixes))
                = set (selected (bl_selection (hv_bootloader variant)) (\<lambda>_. True)))
        (Incompatible_target ''target requests incompatible or multiple bootloader/flash starts'')
      (require (list_all (encodes requested) [bl_selection (hv_bootloader variant),
                  ck_selection (hv_clock variant), tr_selection (bt_transport target)])
        (Incompatible_target ''target does not request declared selector'')
      (Inr ())))))))))"

definition validate_pinned_source :: "string \<Rightarrow> string \<Rightarrow> board_contract \<Rightarrow> (build_error, unit) res" where
  "validate_pinned_source source_commit source_repository c =
     require (um_validated_commit (bc_upstream c) = source_commit)
       (Checkout_commit_mismatch ''board contract and global Klipper commit differ'')
     (require (um_repository (bc_upstream c) = source_repository)
       (Checkout_error ''board contract and global Klipper repositories differ'')
     (Inr ()))"

subsection \<open>What a valid target selects\<close>

lemma starts_with_comparable:
  "starts_with p s \<Longrightarrow> starts_with q s \<Longrightarrow> starts_with p q \<or> starts_with q p"
  by (induction p s arbitrary: q rule: starts_with.induct) (auto, (case_tac q; auto)+)

lemma transport_prefixes_apart:
  "k \<noteq> k' \<Longrightarrow> list_all (\<lambda>p. list_all (\<lambda>q. \<not> starts_with p q \<and> \<not> starts_with q p) (transport_prefixes k'))
     (transport_prefixes k)"
  by (cases k; cases k') (simp_all add: transport_prefixes_def)

lemma one_transport:
  assumes "starts_with_any (transport_prefixes k) s" and "starts_with_any (transport_prefixes k') s"
  shows "k = k'"
proof (rule ccontr)
  assume "k \<noteq> k'"
  from assms obtain p q where p: "p \<in> set (transport_prefixes k)" "starts_with p s"
    and q: "q \<in> set (transport_prefixes k')" "starts_with q s"
    by (auto simp: starts_with_any_def list_ex_iff)
  from starts_with_comparable [OF p(2) q(2)] transport_prefixes_apart [OF \<open>k \<noteq> k'\<close>] p(1) q(1)
  show False by (auto simp: list_all_iff)
qed

lemma any_transport: "starts_with_any (transport_prefixes k) s \<Longrightarrow> starts_with_any all_transport_prefixes s"
  by (cases k) (auto simp: starts_with_any_def all_transport_prefixes_def)

lemma selected_iff: "dict_ok cfg \<Longrightarrow> s \<in> set (selected cfg p) \<longleftrightarrow> requests cfg s \<and> p s"
  by (force simp: selected_def requests_def dict_get_def)

lemma validate_target_ok:
  "validate_target_contract variant target = Inr u \<longleftrightarrow>
    (let requested = bt_requested_kconfig target; p = hv_processor variant; tr = bt_transport target in
     requests requested (ps_architecture_kconfig p) \<and> requests requested (ps_model_kconfig p)
     \<and> set (selected requested (starts_with ''CONFIG_MACH_'')) = {ps_architecture_kconfig p, ps_model_kconfig p}
     \<and> dict_get requested ''CONFIG_LOW_LEVEL_OPTIONS'' = Some (SBool (ll_enabled (bt_low_level target)))
     \<and> tr_selection tr \<noteq> []
     \<and> list_all (starts_with_any (transport_prefixes (tr_kind tr))) (map fst (tr_selection tr))
     \<and> set (selected requested (starts_with_any all_transport_prefixes)) = fst ` set (tr_selection tr)
     \<and> set (selected requested (starts_with_any bootloader_prefixes))
         = set (selected (bl_selection (hv_bootloader variant)) (\<lambda>_. True))
     \<and> encodes requested (bl_selection (hv_bootloader variant)) \<and> encodes requested (ck_selection (hv_clock variant))
     \<and> encodes requested (tr_selection tr))"
  by (simp add: validate_target_contract_def Let_def result_simps)

subsection \<open>Parallelism of make\<close>

definition memory_per_job :: int where
  "memory_per_job = 512 * 1024 ^ 2"

text \<open>The host's processor count, model text and memory are the arguments here.\<close>

definition recommended_build_concurrency :: "int \<Rightarrow> string \<Rightarrow> int option \<Rightarrow> int" where
  "recommended_build_concurrency cpu_count model memory =
     (let processors = max 1 cpu_count in
      if contains ''raspberry pi 3'' (py_lower model) then min 2 processors
      else (let jobs = min processors 4;
                bounded = (case memory of
                  Some m \<Rightarrow> if m > 0 then min jobs (max 1 (m div memory_per_job)) else jobs
                | None \<Rightarrow> jobs) in
            max 1 bounded))"

lemma concurrency_memory:
  assumes "m > 0" and "recommended_build_concurrency cpu_count model (Some m) \<noteq> 1"
    and "\<not> contains ''raspberry pi 3'' (py_lower model)"
  shows "recommended_build_concurrency cpu_count model (Some m) * memory_per_job \<le> m"
proof -
  let ?j = "recommended_build_concurrency cpu_count model (Some m)"
  have "?j \<le> m div memory_per_job"
    using assms by (auto simp: recommended_build_concurrency_def Let_def)
  then have "?j * memory_per_job \<le> (m div memory_per_job) * memory_per_job"
    by (simp add: memory_per_job_def)
  also have "\<dots> \<le> m"
    by (simp add: memory_per_job_def div_mult_mod_eq [of m, symmetric])
  finally show ?thesis .
qed

text \<open>
  The number of parallel build jobs is between one and four and never above the processor count,
  a Raspberry Pi 3 gets at most two, and with a known memory size every job beyond the first has its
  memory budget.
\<close>

theorem concurrency_bounds:
  "(let jobs = recommended_build_concurrency cpu_count model memory in
      1 \<le> jobs \<and> jobs \<le> 4 \<and> jobs \<le> max 1 cpu_count
      \<and> (if contains ''raspberry pi 3'' (py_lower model) then jobs \<le> 2
         else (case memory of None \<Rightarrow> True
               | Some m \<Rightarrow> m \<le> 0 \<or> jobs = 1 \<or> jobs * memory_per_job \<le> m)))"
proof -
  have "m \<le> 0 \<or> recommended_build_concurrency cpu_count model (Some m) = 1
      \<or> recommended_build_concurrency cpu_count model (Some m) * memory_per_job \<le> m"
    if "\<not> contains ''raspberry pi 3'' (py_lower model)" for m
    using concurrency_memory [of m cpu_count model] that by force
  then show ?thesis
    by (auto simp: Let_def split: option.splits) (auto simp: recommended_build_concurrency_def Let_def split: option.splits)
qed

end
