(* ===== verification/Example_Board.thy ===== *)
theory Example_Board
  imports Board_Resolver Kconfig_Target
begin

text \<open>
  A concrete SD-card board: the YAML document as the loader receives it, the records it becomes,
  and the catalog with this one contract.  The theorems of the other theories are instantiated
  here; the digest function is a fixed text, the normalisation of Unicode the identity.
\<close>

definition ex_digest :: string where
  "ex_digest = replicate 64 CHR ''a''"

definition ex_sha :: "string \<Rightarrow> string" where
  "ex_sha s = ex_digest"

definition ex_nfkc :: "string \<Rightarrow> string" where
  "ex_nfkc s = s"

definition ex_commit :: string where
  "ex_commit = replicate 40 CHR ''b''"

abbreviation (input) entry :: "string \<Rightarrow> pyval \<Rightarrow> pkey \<times> pyval" where
  "entry k v \<equiv> (KStr k, v)"

definition ex_provenance_doc :: pyval where
  "ex_provenance_doc = PList [PDict [entry ''source'' (PStr ''klipper''), entry ''reference'' (PStr ''Kconfig'')]]"

definition ex_provenance :: "provenance list" where
  "ex_provenance = [\<lparr>pv_source = ''klipper'', pv_reference = ''Kconfig'', pv_detail = []\<rparr>]"

lemma ex_provenance_read: "provenance_list ex_provenance_doc f = Inr ex_provenance"
  by code_simp

definition ex_processor_doc :: pyval where
  "ex_processor_doc = PDict [
    entry ''architecture'' (PStr ''stm32''),
    entry ''architecture_kconfig'' (PStr ''CONFIG_MACH_STM32''),
    entry ''model'' (PStr ''STM32F103''),
    entry ''model_kconfig'' (PStr ''CONFIG_MACH_STM32F103''),
    entry ''resolved_mcu'' (PStr ''stm32f103xe''),
    entry ''provenance'' (ex_provenance_doc)]"

definition ex_processor :: processor_spec where
  "ex_processor = \<lparr>ps_architecture = ''stm32'',
     ps_architecture_kconfig = ''CONFIG_MACH_STM32'',
     ps_model = ''STM32F103'',
     ps_model_kconfig = ''CONFIG_MACH_STM32F103'',
     ps_resolved_mcu = ''stm32f103xe'',
     ps_provenance = ex_provenance\<rparr>"

lemma ex_processor_read: "processor_from_mapping ex_processor_doc f = Inr ex_processor"
  by code_simp

definition ex_bootloader_doc :: pyval where
  "ex_bootloader_doc = PDict [
    entry ''label'' (PStr ''28KiB''),
    entry ''selection'' (PDict [
    entry ''CONFIG_STM32_FLASH_START_7000'' (PBool True)]),
    entry ''application_address'' (PStr ''0x8007000''),
    entry ''provenance'' (ex_provenance_doc)]"

definition ex_bootloader :: bootloader_spec where
  "ex_bootloader = \<lparr>bl_label = ''28KiB'',
     bl_selection = [(''CONFIG_STM32_FLASH_START_7000'', SBool True)],
     bl_application_address = Some ''0x8007000'',
     bl_provenance = ex_provenance\<rparr>"

lemma ex_bootloader_read: "bootloader_from_mapping ex_bootloader_doc f = Inr ex_bootloader"
  by code_simp

definition ex_clock_doc :: pyval where
  "ex_clock_doc = PDict [
    entry ''label'' (PStr ''8 MHz''),
    entry ''selection'' (PDict [
    entry ''CONFIG_STM32_CLOCK_REF_8M'' (PBool True)]),
    entry ''reference_hz'' (PInt 8000000),
    entry ''provenance'' (ex_provenance_doc)]"

definition ex_clock :: clock_spec where
  "ex_clock = \<lparr>ck_label = ''8 MHz'',
     ck_selection = [(''CONFIG_STM32_CLOCK_REF_8M'', SBool True)],
     ck_reference_hz = 8000000,
     ck_provenance = ex_provenance\<rparr>"

lemma ex_clock_read: "clock_from_mapping ex_clock_doc f = Inr ex_clock"
  by code_simp

definition ex_transport_doc :: pyval where
  "ex_transport_doc = PDict [
    entry ''kind'' (PStr ''UART''),
    entry ''selection'' (PDict [
    entry ''CONFIG_STM32_SERIAL_USART1'' (PBool True)]),
    entry ''endpoint'' (PDict [
    entry ''rx_pin'' (PStr ''PA10'')]),
    entry ''host_connection'' (PStr ''usb-serial''),
    entry ''provenance'' (ex_provenance_doc)]"

definition ex_transport :: transport_spec where
  "ex_transport = \<lparr>tr_kind = UART,
     tr_selection = [(''CONFIG_STM32_SERIAL_USART1'', SBool True)],
     tr_endpoint = [(''rx_pin'', ''PA10'')],
     tr_host_connection = ''usb-serial'',
     tr_provenance = ex_provenance\<rparr>"

lemma ex_transport_read: "transport_from_mapping ex_transport_doc f = Inr ex_transport"
  by code_simp

definition ex_low_level_doc :: pyval where
  "ex_low_level_doc = PDict [
    entry ''enabled'' (PBool True),
    entry ''startup_gpio'' (PList []),
    entry ''provenance'' (ex_provenance_doc)]"

definition ex_low_level :: low_level_spec where
  "ex_low_level = \<lparr>ll_enabled = True,
     ll_startup_gpio = [],
     ll_provenance = ex_provenance\<rparr>"

lemma ex_low_level_read: "low_level_from_mapping ex_low_level_doc f = Inr ex_low_level"
  by code_simp

definition ex_artifact_doc :: pyval where
  "ex_artifact_doc = PDict [
    entry ''native_path'' (PStr ''out/klipper.bin''),
    entry ''native_filename'' (PStr ''klipper.bin''),
    entry ''format'' (PStr ''BIN''),
    entry ''final_filename'' (PDict [
    entry ''strategy'' (PStr ''build-id''),
    entry ''template'' (PStr ''fw-{build_id_short}.bin''),
    entry ''required_suffix'' (PStr ''.bin'')]),
    entry ''provenance'' (ex_provenance_doc)]"

definition ex_artifact :: artifact_policy where
  "ex_artifact = \<lparr>ap_native_path = ''out/klipper.bin'',
     ap_native_filename = ''klipper.bin'',
     ap_format = BIN,
     ap_final_filename = [(KStr ''strategy'', PStr ''build-id''), (KStr ''template'', PStr ''fw-{build_id_short}.bin''),
       (KStr ''required_suffix'', PStr ''.bin'')],
     ap_provenance = ex_provenance\<rparr>"

lemma ex_artifact_read: "artifact_from_mapping ex_artifact_doc f = Inr ex_artifact"
  by code_simp

definition ex_steps :: "string list" where
  "ex_steps = [''VALIDATE_ARTIFACT'', ''ASSIGN_FINAL_FILENAME'', ''VERIFY_FILENAME_POLICY'', ''PREPARE_MEDIA'', ''COPY_TO_MEDIA'', ''VERIFY_MEDIA_CHECKSUM'', ''SAFE_EJECT'', ''REQUIRE_POWER_OFF'', ''REQUIRE_MEDIA_INSERTED'', ''REQUIRE_POWER_ON'', ''WAIT_FOR_MCU_REENUMERATION'', ''VERIFY_KLIPPER_BUILD_ID'']"

definition ex_flash_doc :: pyval where
  "ex_flash_doc = PDict [
    entry ''strategy'' (PStr ''SD_CARD''),
    entry ''steps'' (PList (map PStr ex_steps)),
    entry ''command'' (PNone),
    entry ''options'' (PDict [
    entry ''destination'' (PStr ''sd-card-root''),
    entry ''required_filesystems'' (PList [PStr ''vfat'']),
    entry ''require_removable'' (PBool True)]),
    entry ''provenance'' (ex_provenance_doc)]"

definition ex_flash :: flash_recipe where
  "ex_flash = \<lparr>fr_strategy = SD_CARD,
     fr_steps = ex_steps,
     fr_command = None,
     fr_options = [(KStr ''destination'', PStr ''sd-card-root''), (KStr ''required_filesystems'', PList [PStr ''vfat'']),
       (KStr ''require_removable'', PBool True)],
     fr_provenance = ex_provenance\<rparr>"

lemma ex_flash_read: "recipe_from_mapping ex_flash_doc f = Inr ex_flash"
  by code_simp

definition ex_requested_doc :: pyval where
  "ex_requested_doc = PDict [
    entry ''CONFIG_LOW_LEVEL_OPTIONS'' (PBool True),
    entry ''CONFIG_MACH_STM32'' (PBool True),
    entry ''CONFIG_MACH_STM32F103'' (PBool True),
    entry ''CONFIG_STM32_FLASH_START_7000'' (PBool True),
    entry ''CONFIG_STM32_CLOCK_REF_8M'' (PBool True),
    entry ''CONFIG_STM32_SERIAL_USART1'' (PBool True)]"

definition ex_requested :: kconfig where
  "ex_requested = [(''CONFIG_LOW_LEVEL_OPTIONS'', SBool True),
     (''CONFIG_MACH_STM32'', SBool True),
     (''CONFIG_MACH_STM32F103'', SBool True),
     (''CONFIG_STM32_FLASH_START_7000'', SBool True),
     (''CONFIG_STM32_CLOCK_REF_8M'', SBool True),
     (''CONFIG_STM32_SERIAL_USART1'', SBool True)]"

lemma ex_requested_read: "kconfig_values ex_requested_doc f = Inr ex_requested"
  by code_simp

definition ex_asserted_doc :: pyval where
  "ex_asserted_doc = PDict [
    entry ''CONFIG_MCU'' (PStr ''stm32f103xe'')]"

definition ex_asserted :: kconfig where
  "ex_asserted = [(''CONFIG_MCU'', SStr ''stm32f103xe'')]"

lemma ex_asserted_read: "kconfig_values ex_asserted_doc f = Inr ex_asserted"
  by code_simp

definition ex_target_doc :: pyval where
  "ex_target_doc = PDict [
    entry ''id'' (PStr ''sd-usart1''),
    entry ''support_status'' (PStr ''RUNTIME_SUPPORTED''),
    entry ''transport'' (ex_transport_doc),
    entry ''low_level'' (ex_low_level_doc),
    entry ''requested_kconfig'' (ex_requested_doc),
    entry ''resolved_assertions'' (ex_asserted_doc),
    entry ''kconfig_provenance'' (ex_provenance_doc),
    entry ''artifact'' (ex_artifact_doc),
    entry ''flash'' (ex_flash_doc)]"

definition ex_target :: build_target where
  "ex_target = \<lparr>bt_id = ''sd-usart1'',
     bt_support_status = RUNTIME_SUPPORTED,
     bt_transport = ex_transport,
     bt_low_level = ex_low_level,
     bt_requested_kconfig = ex_requested,
     bt_resolved_assertions = ex_asserted,
     bt_kconfig_provenance = ex_provenance,
     bt_artifact = ex_artifact,
     bt_flash = ex_flash\<rparr>"

lemmas ex_reads = ex_provenance_read ex_processor_read ex_bootloader_read ex_clock_read ex_transport_read
  ex_low_level_read ex_artifact_read ex_flash_read ex_requested_read ex_asserted_read


lemma ex_target_read: "target_from_mapping ex_target_doc f = Inr ex_target"
  by code_simp

definition ex_variant_doc :: pyval where
  "ex_variant_doc = PDict [
    entry ''id'' (PStr ''stm32f103''),
    entry ''processor'' ex_processor_doc,
    entry ''bootloader'' ex_bootloader_doc,
    entry ''clock'' ex_clock_doc,
    entry ''build_targets'' (PList [ex_target_doc])]"

definition ex_variant :: hardware_variant where
  "ex_variant = \<lparr>hv_id = ''stm32f103'', hv_processor = ex_processor, hv_bootloader = ex_bootloader,
     hv_clock = ex_clock, hv_build_targets = [ex_target]\<rparr>"

lemma ex_variant_read: "variant_from_mapping ex_variant_doc f = Inr ex_variant"
  by code_simp

definition ex_upstream_doc :: pyval where
  "ex_upstream_doc = PDict [
    entry ''source_contract'' (PStr ''kace-klipper-source/v1''),
    entry ''repository'' (PStr ''https://github.com/Klipper3d/klipper.git''),
    entry ''validated_commit'' (PStr ex_commit),
    entry ''config_path'' (PStr ''config/a.cfg''),
    entry ''config_sha256_lf'' (PStr ex_digest),
    entry ''header_sha256_lf'' (PStr ex_digest),
    entry ''header_text'' (PStr ''# a'')]"

definition ex_upstream :: upstream_metadata where
  "ex_upstream = \<lparr>um_source_contract = ''kace-klipper-source/v1'',
     um_repository = ''https://github.com/Klipper3d/klipper.git'', um_validated_commit = ex_commit,
     um_config_path = ''config/a.cfg'', um_config_sha256_lf = ex_digest,
     um_header_sha256_lf = ex_digest, um_header_text = ''# a''\<rparr>"

lemma ex_upstream_read: "upstream_from_mapping ex_sha ex_upstream_doc f = Inr ex_upstream"
  by code_simp

definition ex_payload :: pydict where
  "ex_payload = [
    entry ''schema'' (PStr ''kace-board-contract/v1''),
    entry ''board_id'' (PStr ''acme.one''),
    entry ''display_name'' (PStr ''Acme One''),
    entry ''manufacturer'' (PStr ''Acme''),
    entry ''family_id'' (PStr ''acme''),
    entry ''revision'' (PStr ''1.0''),
    entry ''aliases'' (PDict [entry ''official_config_filenames'' (PList [PStr ''a.cfg''])]),
    entry ''upstream'' ex_upstream_doc,
    entry ''hardware_variants'' (PList [ex_variant_doc]),
    entry ''contract_digest'' (PStr ex_digest)]"

definition ex_contract :: board_contract where
  "ex_contract = \<lparr>bc_schema = ''kace-board-contract/v1'', bc_board_id = ''acme.one'',
     bc_display_name = ''Acme One'', bc_manufacturer = ''Acme'', bc_family_id = ''acme'', bc_revision = ''1.0'',
     bc_official_config_filenames = [''a.cfg''], bc_legacy_aliases = [], bc_upstream = ex_upstream,
     bc_hardware_variants = [ex_variant], bc_warnings = [], bc_declared_digest = ex_digest,
     bc_payload = ex_payload\<rparr>"

lemma ex_payload_digest: "compute_contract_digest ex_sha ex_payload = Inr ex_digest"
proof -
  have "plain (PDict (py_pop ex_payload ''contract_digest''))" by code_simp
  then obtain t where "json_text (PDict (py_pop ex_payload ''contract_digest'')) = Some t"
    using plain_json by blast
  then show ?thesis
    by (simp add: compute_contract_digest_def canonical_contract_text_def ex_sha_def)
qed

lemma ex_contract_fields:
  "as_sha256 (PStr ex_digest) f = Inr ex_digest" "as_identifier (PStr ''acme.one'') f = Inr ''acme.one''"
  "as_identifier (PStr ''acme'') f = Inr ''acme''" "as_text (PStr ''Acme One'') f = Inr ''Acme One''"
  "as_text (PStr ''Acme'') f = Inr ''Acme''" "as_text (PStr ''1.0'') f = Inr ''1.0''"
  "read_items (\<lambda>x g. as_text x g) (PList [PStr ''a.cfg'']) f = Inr [''a.cfg'']"
  "read_items (\<lambda>x g. as_text x g) (PList []) f = Inr []"
  "read_indexed warning_from_mapping (PList []) f = Inr []"
  "exact_alias ''a.cfg''"
  by code_simp+

lemma ex_variants_read: "read_indexed variant_from_mapping (PList [ex_variant_doc]) f = Inr [ex_variant]"
  by (simp add: read_indexed_def ex_variant_read as_sequence_def)

lemma ex_contract_read: "contract_from_mapping ex_sha (PDict ex_payload) src = Inr ex_contract"
proof -
  have keys: "only_keys ex_payload [''schema'', ''board_id'', ''display_name'', ''manufacturer'', ''family_id'',
       ''revision'', ''aliases'', ''upstream'', ''hardware_variants'', ''warnings'', ''contract_digest''] src = Inr ()"
    by code_simp
  have aliases: "only_keys [entry ''official_config_filenames'' (PList [PStr ''a.cfg''])]
       [''official_config_filenames'', ''legacy_exact''] f = Inr ()" for f
    by code_simp
  have get: "py_get ex_payload ''schema'' = PStr ''kace-board-contract/v1''"
    "py_get ex_payload ''aliases'' = PDict [entry ''official_config_filenames'' (PList [PStr ''a.cfg''])]"
    "py_get ex_payload ''board_id'' = PStr ''acme.one''" "py_get ex_payload ''display_name'' = PStr ''Acme One''"
    "py_get ex_payload ''manufacturer'' = PStr ''Acme''" "py_get ex_payload ''family_id'' = PStr ''acme''"
    "py_get ex_payload ''revision'' = PStr ''1.0''" "py_get ex_payload ''upstream'' = ex_upstream_doc"
    "py_get ex_payload ''hardware_variants'' = PList [ex_variant_doc]"
    "py_get ex_payload ''contract_digest'' = PStr ex_digest"
    "py_get_or ex_payload ''warnings'' (PList []) = PList []"
    "py_get [entry ''official_config_filenames'' (PList [PStr ''a.cfg''])] ''official_config_filenames'' = PList [PStr ''a.cfg'']"
    "py_get_or [entry ''official_config_filenames'' (PList [PStr ''a.cfg''])] ''legacy_exact'' (PList []) = PList []"
    by (simp_all add: ex_payload_def py_get_def py_get_or_def)
  show ?thesis
    by (simp add: contract_from_mapping_def as_mapping_def keys aliases get ex_contract_fields ex_upstream_read
        ex_variants_read ex_payload_digest ex_contract_def)
qed

subsection \<open>The catalog of this contract\<close>

definition ex_entry :: catalog_entry where
  "ex_entry = \<lparr>ce_contract = ex_contract, ce_source_path = ''/a.yaml''\<rparr>"

definition ex_catalog :: board_catalog where
  "ex_catalog = \<lparr>cat_entries = [ex_entry], cat_by_id = [(''acme.one'', ex_entry)],
     cat_by_alias = [(''acme.one'', ex_entry), (''a.cfg'', ex_entry)]\<rparr>"

lemma ex_names: "normalize_exact_alias ex_nfkc ''acme.one'' = ''acme.one''"
  "normalize_exact_alias ex_nfkc ''a.cfg'' = ''a.cfg''"
  by code_simp+

lemma ex_catalog_init: "board_catalog_init ex_nfkc [ex_entry] = Inr ex_catalog"
  by (simp add: board_catalog_init_def ex_catalog_def ex_entry_def entry_names_def ex_contract_def
      contract_aliases_def ex_names Let_def)

lemma ex_catalog_load:
  "load_catalog ex_nfkc ex_sha [] (Some [(''a.yaml'', Inr (PDict ex_payload)), (''b.txt'', Inl ''x'')]) = Inr ex_catalog"
proof -
  have names: "is_yaml_name ''a.yaml''" "\<not> is_yaml_name ''b.txt''" by code_simp+
  have "load_entry ex_sha (''/a.yaml'', Inr (PDict ex_payload)) = Inr ex_entry"
    by (simp add: load_entry_def ex_contract_read ex_entry_def)
  then show ?thesis by (simp add: load_catalog_def names ex_catalog_init)
qed

lemma ex_catalog_valid: "catalog_valid ex_nfkc ex_catalog"
  using ex_catalog_init by (auto simp: catalog_valid_def)

lemma ex_contract_wf: "contract_wf ex_sha ex_contract"
  by (rule contract.reads_wf [OF ex_contract_read])

lemma ex_resolve: "resolve ex_nfkc ex_catalog ''a.cfg'' (Some ''stm32f103'') (Some ''sd-usart1'') =
   \<lparr>rr_status = RESOLVED, rr_contract = Some ex_contract, rr_variant = Some ex_variant,
    rr_target = Some ex_target, rr_candidates = []\<rparr>"
proof -
  have v: "contract_variant ex_contract ''stm32f103'' = Some ex_variant" by code_simp
  have t: "variant_target ex_variant ''sd-usart1'' = Some ex_target" by code_simp
  show ?thesis
    by (simp add: resolve_def resolve_exact_def ex_catalog_def ex_names ex_entry_def v t)
qed

lemma ex_validated: "validate_target_contract ex_variant ex_target = Inr ()"
  by code_simp

end
