(* ===== verification/Board_Properties.thy ===== *)
theory Board_Properties
  imports Example_Board
begin

text \<open>
  What the loader, the catalog, the resolver and the target check promise, each with an
  instance on the board of \<open>Example_Board\<close>.
\<close>

subsection \<open>Loading\<close>

text \<open>
  C28. A contract that the loader accepts is well formed: schema, identifiers, exact aliases, distinct
  variant, target and warning ids, targets whose requested Kconfig encodes the selectors of their
  processor, bootloader, clock and transport, safe flash recipes, and a declared digest equal to the
  recomputed one.
\<close>

theorem loaded_contract_wf:
  assumes "contract_from_mapping sha v src = Inr c"
  shows "contract_wf sha c"
  using assms by (rule contract.reads_wf)

theorem loaded_contract_wf_witness: "contract_wf ex_sha ex_contract"
  by (rule loaded_contract_wf [OF ex_contract_read])

lemma as_sha256_fix: "sha256_re s \<Longrightarrow> as_sha256 (PStr s) f = Inr s"
proof -
  assume "sha256_re s"
  then have hex: "list_all is_lower_hex s" and ne: "s \<noteq> []" by (auto simp: sha256_re_def)
  have "lower_char c = c \<and> \<not> py_is_space c" if "is_lower_hex c" for c
    using that by (cases c) (auto simp: is_lower_hex_code lower_char_code is_digit_code is_upper_code py_is_space_code)
  with hex have "py_lower s = s" "list_all (\<lambda>c. \<not> py_is_space c) s"
    by (auto simp: py_lower_def list_all_iff intro: map_idI)
  with \<open>sha256_re s\<close> ne show ?thesis
    by (simp add: as_sha256_def as_text_or_empty_def py_strip_no_space Let_def)
qed

text \<open>
  C31. Round trip: the mapping that a loaded contract exports with its digest loads again, to the same
  contract.
\<close>

theorem contract_mapping_roundtrip:
  assumes "contract_from_mapping sha v src = Inr c"
  shows "\<exists>d. contract_to_mapping sha c True = Inr d
     \<and> contract_from_mapping sha (PDict d) src = Inr (c\<lparr>bc_payload := d\<rparr>)"
proof -
  obtain data where v: "v = PDict data"
    using assms by (cases v) (auto simp: contract_from_mapping_def as_mapping_def result_simps)
  let ?d = "dict_set data (KStr ''contract_digest'') (PStr (bc_declared_digest c))"
  have payload: "bc_payload c = data" and declared: "compute_contract_digest sha data = Inr (bc_declared_digest c)"
    and hex: "sha256_re (bc_declared_digest c)"
    using assms v as_sha256_ok by (fastforce simp: contract_from_mapping_def as_mapping_def result_simps)+
  have to: "contract_to_mapping sha c True = Inr ?d"
    by (simp add: contract_to_mapping_def contract_digest_def payload declared)
  have get: "py_get ?d k = py_get data k" "py_get_or ?d k x = py_get_or data k x" if "k \<noteq> ''contract_digest''" for k x
    using that by (simp_all add: py_get_def py_get_or_def dict_get_set)
  have got: "py_get ?d ''contract_digest'' = PStr (bc_declared_digest c)"
    by (simp add: py_get_def dict_get_set)
  have keys: "only_keys ?d ks f = Inr () \<longleftrightarrow> only_keys data ks f = Inr ()" if "''contract_digest'' \<in> set ks" for ks f
    using that by (auto simp: only_keys_ok keys_dict_set)
  have "contract_from_mapping sha (PDict ?d) src = Inr (c\<lparr>bc_payload := ?d\<rparr>)"
    using assms unfolding v
    by (clarsimp simp: contract_from_mapping_def as_mapping_def result_simps get got keys
        as_sha256_fix [OF hex] digest_ignores_declared declared)
       (drule arg_cong [where f = "bc_payload_update (\<lambda>_. ?d)"], simp)
  with to show ?thesis by blast
qed

theorem contract_mapping_roundtrip_witness:
  "\<exists>d. contract_to_mapping ex_sha ex_contract True = Inr d
     \<and> contract_from_mapping ex_sha (PDict d) ''a.yaml'' = Inr (ex_contract\<lparr>bc_payload := d\<rparr>)"
  by (rule contract_mapping_roundtrip [OF ex_contract_read])

text \<open>
  C32. The contract digest does not depend on the order of keys at any depth, nor on the digest the
  document declares.
\<close>

theorem digest_order_independent:
  assumes "same_document (PDict (py_pop d ''contract_digest'')) (PDict (py_pop e ''contract_digest''))"
  shows "compute_contract_digest sha (dict_set d (KStr ''contract_digest'') v) = compute_contract_digest sha e"
  using json_text_same_document [OF assms]
  by (simp add: py_pop_dict_set compute_contract_digest_def canonical_contract_text_def
      del: json_text.simps)

theorem digest_order_independent_witness:
  "compute_contract_digest ex_sha (dict_set [entry ''a'' (PInt 1), entry ''b'' PNone] (KStr ''contract_digest'') (PStr ''x''))
     = compute_contract_digest ex_sha [entry ''b'' PNone, entry ''a'' (PInt 1)]"
proof (rule digest_order_independent)
  have "same_document (PDict [entry ''a'' (PInt 1), entry ''b'' PNone]) (PDict [entry ''b'' PNone, entry ''a'' (PInt 1)])"
    by (rule same_dict [of _ "[entry ''a'' (PInt 1), entry ''b'' PNone]"]) (simp_all add: same_refl)
  then show "same_document (PDict (py_pop [entry ''a'' (PInt 1), entry ''b'' PNone] ''contract_digest''))
      (PDict (py_pop [entry ''b'' PNone, entry ''a'' (PInt 1)] ''contract_digest''))"
    by (simp add: py_pop_def)
qed

text \<open>
  C29. A flash recipe the loader accepts is safe: an SD-card recipe writes to the card root of a
  removable medium whose only admitted file systems are vfat and runs no command, and the arguments of
  any command are free of shell syntax and name an admitted backend.
\<close>

theorem loaded_recipe_safe:
  assumes "recipe_from_mapping v f = Inr r"
  shows "(fr_strategy r = SD_CARD \<longrightarrow> fr_command r = None
       \<and> py_get (fr_options r) ''destination'' = PStr ''sd-card-root''
       \<and> py_get (fr_options r) ''require_removable'' = PBool True
       \<and> (\<exists>xs. py_get (fr_options r) ''required_filesystems'' = PList xs \<and> set xs = {PStr ''vfat''}))
     \<and> (\<forall>c. fr_command r = Some c \<longrightarrow> fc_backend c \<in> set allowed_backends
           \<and> (\<forall>a \<in> set (fc_argv c). \<not> any_in shell_markers a))"
proof -
  have wf: "recipe_wf r" by (rule recipe.reads_wf [OF assms])
  have "is_vfat_list x \<Longrightarrow> \<exists>xs. x = PList xs \<and> set xs = {PStr ''vfat''}" for x
    by (cases x) (auto simp: is_vfat_list_def list_all_iff neq_Nil_conv)
  with wf show ?thesis
    by (auto simp: recipe_wf_def needs_command_def flash_command_wf_def list_all_iff)
qed

theorem loaded_recipe_safe_witness: "fr_strategy ex_flash = SD_CARD \<and> fr_command ex_flash = None"
  using loaded_recipe_safe [OF ex_flash_read] by (simp add: ex_flash_def)

subsection \<open>Catalog and resolution\<close>

definition only_choice :: "'i option \<Rightarrow> 'a list \<Rightarrow> bool" where
  "only_choice chosen options = (chosen = None \<longrightarrow> length options = 1)"

text \<open>
  C30. In a loaded catalog every contract is well formed, and looking an alias up finds exactly the
  contract that owns it, so no two contracts share an alias.
\<close>

theorem catalog_alias_exact:
  assumes "load_catalog nfkc sha root listing = Inr cat"
  shows "list_all (contract_wf sha) (catalog_contracts cat)
     \<and> (resolve_exact nfkc cat a = Some c \<longleftrightarrow> c \<in> set (catalog_contracts cat) \<and> contract_owns nfkc c a)"
proof -
  from load_catalog_wf [OF assms] have valid: "catalog_valid nfkc cat"
    and wf: "list_all (contract_wf sha) (catalog_contracts cat)" by blast+
  with alias_directory.lookup_iff [OF valid] show ?thesis by blast
qed

theorem catalog_alias_exact_witness:
  "resolve_exact ex_nfkc ex_catalog ''A.CFG '' = Some ex_contract \<and> resolve_exact ex_nfkc ex_catalog ''b.cfg'' = None"
proof -
  have own: "contract_owns ex_nfkc ex_contract ''A.CFG ''" "\<not> contract_owns ex_nfkc ex_contract ''b.cfg''"
    by code_simp+
  have "set (catalog_contracts ex_catalog) = {ex_contract}"
    by (simp add: catalog_contracts_def ex_catalog_def ex_entry_def)
  with own catalog_alias_exact [OF ex_catalog_load] show ?thesis
    by (metis insert_iff option.exhaust singletonD)
qed

text \<open>
  Two entries that own a common name are never admitted together: building the catalog fails.
\<close>

theorem shared_alias_rejected:
  assumes "c \<in> set (map ce_contract entries)" and "c' \<in> set (map ce_contract entries)" and "c \<noteq> c'"
    and "contract_owns nfkc c a" and "contract_owns nfkc c' a"
  shows "\<not> is_ok (board_catalog_init nfkc entries)"
proof
  assume "is_ok (board_catalog_init nfkc entries)"
  then obtain cat where init: "board_catalog_init nfkc entries = Inr cat"
    by (cases "board_catalog_init nfkc entries") (simp_all add: is_ok_def)
  then have valid: "catalog_valid nfkc cat" by (auto simp: catalog_valid_def)
  have "set (catalog_contracts cat) = set (map ce_contract entries)"
    by (simp add: catalog_contracts_def catalog_exact(1) [OF init])
  with alias_directory.owner_unique [OF valid] assms show False by blast
qed

theorem shared_alias_rejected_witness:
  "\<not> is_ok (board_catalog_init ex_nfkc [ex_entry, ex_entry\<lparr>ce_contract := ex_contract\<lparr>bc_board_id := ''acme.two''\<rparr>\<rparr>])"
proof (rule shared_alias_rejected)
  show "contract_owns ex_nfkc ex_contract ''a.cfg''" by code_simp
  show "contract_owns ex_nfkc (ex_contract\<lparr>bc_board_id := ''acme.two''\<rparr>) ''a.cfg''" by code_simp
qed (simp_all add: ex_entry_def ex_contract_def)

text \<open>
  C27. Resolution implements its specification: on a loaded catalog the resolver answers RESOLVED with a
  board, variant and target exactly when they are the ones the query denotes, an omitted variant or
  target id standing for the only one there is.
\<close>

theorem resolve_refines:
  assumes load: "load_catalog nfkc sha root listing = Inr cat"
  shows "resolve nfkc cat alias vi ti = \<lparr>rr_status = RESOLVED, rr_contract = Some c, rr_variant = Some v,
       rr_target = Some t, rr_candidates = []\<rparr> \<longleftrightarrow>
     denotes nfkc cat alias vi ti c v t \<and> only_choice vi (bc_hardware_variants c) \<and> only_choice ti (hv_build_targets v)"
    (is "?r = ?ok \<longleftrightarrow> _")
proof
  from load_catalog_wf [OF load] have valid: "catalog_valid nfkc cat"
    and wf: "list_all (contract_wf sha) (catalog_contracts cat)" by blast+
  { assume r: "?r = ?ok"
    then have st: "rr_status ?r = RESOLVED" by simp
    then have "resolution_ok ?r" by (simp add: resolution_ok_def)
    from resolve_sound [OF valid this] r have "denotes nfkc cat alias vi ti c v t" by fastforce
    moreover from resolve_RESOLVED [OF refl st] r
    have "only_choice vi (bc_hardware_variants c)" "only_choice ti (hv_build_targets v)"
      by (auto simp: only_choice_def split: option.splits)
    ultimately show "denotes nfkc cat alias vi ti c v t \<and> only_choice vi (bc_hardware_variants c)
        \<and> only_choice ti (hv_build_targets v)" by blast }
  { assume d: "denotes nfkc cat alias vi ti c v t \<and> only_choice vi (bc_hardware_variants c)
        \<and> only_choice ti (hv_build_targets v)"
    with wf have "contract_wf sha c" "variant_wf v"
      by (auto simp: denotes_def list_all_iff contract_wf_def)
    with d valid show "?r = ?ok"
      by (intro resolve_complete) (auto simp: only_choice_def contract_wf_def variant_wf_def) }
qed

theorem resolve_refines_witness:
  "denotes ex_nfkc ex_catalog ''a.cfg'' (Some ''stm32f103'') (Some ''sd-usart1'') ex_contract ex_variant ex_target"
  using resolve_refines [OF ex_catalog_load, of "''a.cfg''" "Some ''stm32f103''" "Some ''sd-usart1''"
      ex_contract ex_variant ex_target] ex_resolve by blast

text \<open>
  A build target that passes the target check requests serial, USB or CAN symbols of its declared
  transport only.
\<close>

theorem checked_target_one_transport:
  assumes "validate_target_contract v t = Inr ()" and "dict_ok (bt_requested_kconfig t)"
    and "requests (bt_requested_kconfig t) s" and "starts_with_any (transport_prefixes k) s"
  shows "k = tr_kind (bt_transport t) \<and> s \<in> fst ` set (tr_selection (bt_transport t))"
proof -
  let ?tr = "bt_transport t"
  from assms(1) have sel: "set (selected (bt_requested_kconfig t) (starts_with_any all_transport_prefixes)) = fst ` set (tr_selection ?tr)"
    and fam: "list_all (starts_with_any (transport_prefixes (tr_kind ?tr))) (map fst (tr_selection ?tr))"
    by (simp_all add: validate_target_ok Let_def)
  have "s \<in> set (selected (bt_requested_kconfig t) (starts_with_any all_transport_prefixes))"
    using assms(2-4) by (simp add: selected_iff any_transport)
  with sel have "s \<in> fst ` set (tr_selection ?tr)" by simp
  moreover with fam have "starts_with_any (transport_prefixes (tr_kind ?tr)) s" by (auto simp: list_all_iff)
  ultimately show ?thesis using one_transport assms(4) by blast
qed

theorem checked_target_one_transport_witness:
  "UART = tr_kind ex_transport \<and> ''CONFIG_STM32_SERIAL_USART1'' \<in> fst ` set (tr_selection ex_transport)"
proof -
  have "requests ex_requested ''CONFIG_STM32_SERIAL_USART1''" by code_simp
  moreover have "starts_with_any (transport_prefixes UART) ''CONFIG_STM32_SERIAL_USART1''" by code_simp
  moreover have "dict_ok ex_requested" by (simp add: ex_requested_def)
  ultimately show ?thesis
    using checked_target_one_transport [OF ex_validated, of "''CONFIG_STM32_SERIAL_USART1''" UART]
    by (simp add: ex_target_def)
qed

text \<open>
  A document whose artifact format is not one of the enumerated ones is not reported as a catalog
  error: the loader lets the underlying ValueError escape.
\<close>

theorem unknown_format_escapes:
  "artifact_from_mapping (PDict [entry ''native_path'' (PStr ''a''), entry ''native_filename'' (PStr ''a''),
     entry ''format'' (PStr ''ELF''), entry ''final_filename'' (PDict [entry ''strategy'' (PStr ''native'')]),
     entry ''provenance'' ex_provenance_doc]) f = Inl (Value_error (fld f ''format''))"
  by code_simp

end
