(* ===== verification/Py_State.thy ===== *)
theory Py_State
  imports Kace_Prelude
begin

text \<open>
  Stateful code that may raise: an action maps a state to a result and the state it leaves,
  also when it raised.  \<open>keeps P m\<close> says an action preserves an invariant on every path,
  \<open>ends P m Q\<close> what holds after it returned.
\<close>

type_synonym ('s, 'e, 'a) action = "'s \<Rightarrow> ('e + 'a) \<times> 's"

named_theorems state_simps \<open>when an action returns, and what\<close>
named_theorems keeps_intros \<open>invariants of actions, by their structure\<close>

definition returnS :: "'a \<Rightarrow> ('s, 'e, 'a) action" where
  "returnS x s = (Inr x, s)"

definition raiseS :: "'e \<Rightarrow> ('s, 'e, 'a) action" where
  "raiseS e s = (Inl e, s)"

definition bindS :: "('s, 'e, 'a) action \<Rightarrow> ('a \<Rightarrow> ('s, 'e, 'b) action) \<Rightarrow> ('s, 'e, 'b) action" where
  "bindS m k s = (case m s of (Inl e, s1) \<Rightarrow> (Inl e, s1) | (Inr x, s1) \<Rightarrow> k x s1)"

definition liftS :: "('e, 'a) res \<Rightarrow> ('s, 'e, 'a) action" where
  "liftS r s = (r, s)"

definition getS :: "('s \<Rightarrow> 'a) \<Rightarrow> ('s, 'e, 'a) action" where
  "getS f s = (Inr (f s), s)"

definition modifyS :: "('s \<Rightarrow> 's) \<Rightarrow> ('s, 'e, unit) action" where
  "modifyS f s = (Inr (), f s)"

definition requireS :: "bool \<Rightarrow> 'e \<Rightarrow> ('s, 'e, unit) action" where
  "requireS c e = (if c then returnS () else raiseS e)"

definition whenS :: "bool \<Rightarrow> ('s, 'e, unit) action \<Rightarrow> ('s, 'e, unit) action" where
  "whenS c m = (if c then m else returnS ())"

text \<open>\<open>try: ... finally: ...\<close>: an exception of the last part replaces the result.\<close>

definition finallyS :: "('s, 'e, 'a) action \<Rightarrow> ('s, 'e, unit) action \<Rightarrow> ('s, 'e, 'a) action" where
  "finallyS m f s = (case m s of (r, s1) \<Rightarrow>
     (case f s1 of (Inl e, s2) \<Rightarrow> (Inl e, s2) | (Inr _, s2) \<Rightarrow> (r, s2)))"

definition catchS :: "('s, 'e, 'a) action \<Rightarrow> ('e \<Rightarrow> ('s, 'e, 'a) action) \<Rightarrow> ('s, 'e, 'a) action" where
  "catchS m h s = (case m s of (Inl e, s1) \<Rightarrow> h e s1 | (Inr x, s1) \<Rightarrow> (Inr x, s1))"

fun eachS :: "('a \<Rightarrow> ('s, 'e, unit) action) \<Rightarrow> 'a list \<Rightarrow> ('s, 'e, unit) action" where
  "eachS f [] = returnS ()"
| "eachS f (x # xs) = bindS (f x) (\<lambda>_. eachS f xs)"

fun mapS :: "('a \<Rightarrow> ('s, 'e, 'b) action) \<Rightarrow> 'a list \<Rightarrow> ('s, 'e, 'b list) action" where
  "mapS f [] = returnS []"
| "mapS f (x # xs) = bindS (f x) (\<lambda>y. bindS (mapS f xs) (\<lambda>ys. returnS (y # ys)))"

subsection \<open>When an action returns\<close>

lemma returnS_eq [state_simps]: "returnS x s = (Inr y, s') \<longleftrightarrow> y = x \<and> s' = s"
  by (auto simp: returnS_def)

lemma raiseS_eq [state_simps]: "raiseS e s = (Inr y, s') \<longleftrightarrow> False"
  by (simp add: raiseS_def)

lemma bindS_eq [state_simps]:
  "bindS m k s = (Inr y, s') \<longleftrightarrow> (\<exists>x s1. m s = (Inr x, s1) \<and> k x s1 = (Inr y, s'))"
  by (auto simp: bindS_def split: prod.splits sum.splits)

lemma liftS_eq [state_simps]: "liftS r s = (Inr y, s') \<longleftrightarrow> r = Inr y \<and> s' = s"
  by (auto simp: liftS_def)

lemma getS_eq [state_simps]: "getS f s = (Inr y, s') \<longleftrightarrow> y = f s \<and> s' = s"
  by (auto simp: getS_def)

lemma modifyS_eq [state_simps]: "modifyS f s = (Inr y, s') \<longleftrightarrow> s' = f s"
  by (auto simp: modifyS_def)

lemma requireS_eq [state_simps]: "requireS c e s = (Inr y, s') \<longleftrightarrow> c \<and> s' = s"
  by (auto simp: requireS_def returnS_def raiseS_def)

lemma finallyS_eq [state_simps]:
  "finallyS m f s = (Inr y, s') \<longleftrightarrow> (\<exists>s1. m s = (Inr y, s1) \<and> f s1 = (Inr (), s'))"
  by (auto simp: finallyS_def split: prod.splits sum.splits)

lemma bindS_return [simp]: "bindS (returnS x) k = k x"
  by (simp add: bindS_def returnS_def fun_eq_iff)

lemma bindS_raise [simp]: "bindS (raiseS e) k = raiseS e"
  by (simp add: bindS_def raiseS_def fun_eq_iff)

lemma bindS_assoc: "bindS (bindS m k) h = bindS m (\<lambda>x. bindS (k x) h)"
  by (auto simp: bindS_def fun_eq_iff split: prod.splits sum.splits)

subsection \<open>Invariants\<close>

definition keeps :: "('s \<Rightarrow> bool) \<Rightarrow> ('s, 'e, 'a) action \<Rightarrow> bool" where
  "keeps P m = (\<forall>s. P s \<longrightarrow> P (snd (m s)))"

lemma keepsD: "keeps P m \<Longrightarrow> P s \<Longrightarrow> m s = (r, s') \<Longrightarrow> P s'"
  by (metis keeps_def snd_conv)

lemma keeps_return [keeps_intros]: "keeps P (returnS x)"
  by (simp add: keeps_def returnS_def)

lemma keeps_raise [keeps_intros]: "keeps P (raiseS e)"
  by (simp add: keeps_def raiseS_def)

lemma keeps_lift [keeps_intros]: "keeps P (liftS r)"
  by (simp add: keeps_def liftS_def)

lemma keeps_get [keeps_intros]: "keeps P (getS f)"
  by (simp add: keeps_def getS_def)

lemma keeps_require [keeps_intros]: "keeps P (requireS c e)"
  by (simp add: requireS_def keeps_intros)

lemma keeps_modify: "(\<And>s. P s \<Longrightarrow> P (f s)) \<Longrightarrow> keeps P (modifyS f)"
  by (simp add: keeps_def modifyS_def)

lemma keeps_bind [keeps_intros]: "keeps P m \<Longrightarrow> (\<And>x. keeps P (k x)) \<Longrightarrow> keeps P (bindS m k)"
  unfolding keeps_def bindS_def
  by (auto split: prod.splits sum.splits)

lemma keeps_when [keeps_intros]: "keeps P m \<Longrightarrow> keeps P (whenS c m)"
  by (simp add: whenS_def keeps_intros)

lemma keeps_if [keeps_intros]: "keeps P m \<Longrightarrow> keeps P n \<Longrightarrow> keeps P (if c then m else n)"
  by simp

lemma keeps_finally [keeps_intros]: "keeps P m \<Longrightarrow> keeps P f \<Longrightarrow> keeps P (finallyS m f)"
  unfolding keeps_def finallyS_def
  by (auto split: prod.splits sum.splits)

lemma keeps_catch [keeps_intros]: "keeps P m \<Longrightarrow> (\<And>e. keeps P (h e)) \<Longrightarrow> keeps P (catchS m h)"
  unfolding keeps_def catchS_def
  by (auto split: prod.splits sum.splits)

lemma keeps_each [keeps_intros]: "(\<And>x. keeps P (f x)) \<Longrightarrow> keeps P (eachS f xs)"
  by (induction xs) (simp_all add: keeps_intros)

lemma keeps_map [keeps_intros]: "(\<And>x. keeps P (f x)) \<Longrightarrow> keeps P (mapS f xs)"
  by (induction xs) (simp_all add: keeps_intros)

lemma keeps_prod [keeps_intros]: "(\<And>a b. keeps P (f a b)) \<Longrightarrow> keeps P (case p of (a, b) \<Rightarrow> f a b)"
  by (cases p) simp

lemma keeps_option [keeps_intros]:
  "keeps P m \<Longrightarrow> (\<And>x. keeps P (f x)) \<Longrightarrow> keeps P (case q of None \<Rightarrow> m | Some x \<Rightarrow> f x)"
  by (cases q) simp_all

lemma keeps_let [keeps_intros]: "(\<And>x. keeps P (f x)) \<Longrightarrow> keeps P (let x = v in f x)"
  by simp

text \<open>Every value the action returns satisfies \<open>Q\<close>, from any state; an action may also raise.\<close>

definition yields :: "('s, 'e, 'a) action \<Rightarrow> ('a \<Rightarrow> bool) \<Rightarrow> bool" where
  "yields m Q = (\<forall>s x s'. m s = (Inr x, s') \<longrightarrow> Q x)"

lemma yieldsI: "(\<And>s x s'. m s = (Inr x, s') \<Longrightarrow> Q x) \<Longrightarrow> yields m Q"
  by (simp add: yields_def)

lemma yieldsD: "yields m Q \<Longrightarrow> m s = (Inr x, s') \<Longrightarrow> Q x"
  by (auto simp: yields_def)

text \<open>The action returns \<open>x\<close> from every state.\<close>

definition returns :: "('s, 'e, 'a) action \<Rightarrow> 'a \<Rightarrow> bool" where
  "returns m x = (\<forall>s. \<exists>s'. m s = (Inr x, s'))"

lemma returns_return [simp]: "returns (returnS x) y \<longleftrightarrow> x = y"
  by (simp add: returns_def returnS_def)

lemma returns_bind: "returns m x \<Longrightarrow> returns (k x) y \<Longrightarrow> returns (bindS m k) y"
  unfolding returns_def bindS_def by (metis (mono_tags, lifting) case_prod_conv sum.simps(6))

lemma returns_modify [simp]: "returns (k ()) y \<Longrightarrow> returns (bindS (modifyS f) k) y"
  by (rule returns_bind [where x = "()"]) (auto simp: returns_def modifyS_def)

lemma returns_finally: "returns m x \<Longrightarrow> returns f () \<Longrightarrow> returns (finallyS m f) x"
  unfolding returns_def finallyS_def by (metis (mono_tags, lifting) case_prod_conv sum.simps(6))

lemma action_simps:
  "requireS True e = returnS ()" "liftS (Inr x) = returnS x" "whenS False m = returnS ()" "whenS True m = m"
  "catchS (returnS x) h = returnS x"
  by (auto simp: requireS_def liftS_def whenS_def catchS_def returnS_def fun_eq_iff)

end
