(* ===== verification/Firmware_Identity.thy ===== *)
theory Firmware_Identity
  imports Kconfig_Text
begin

text \<open>
  \<open>firmware/identity.py\<close>: the build marker a firmware carries, the patched Makefile line, the
  order-independent form of a resolved \<open>.config\<close>, and the identity records of a build.
  SHA-256 is the parameter \<open>sha\<close>, a fresh \<open>uuid4().hex\<close> an argument.
\<close>

datatype identity_error = Firmware_identity_error string | Identity_outside_model

subsection \<open>Markers\<close>

definition marker_prefix :: string where
  "marker_prefix = ''kace-b1-''"

definition fingerprint_re :: "string \<Rightarrow> bool" where
  "fingerprint_re s = (starts_with marker_prefix s \<and> length s = 40 \<and> list_all is_lower_hex (drop 8 s))"

text \<open>\<open>re.findall("kace-b1-[0-9a-f]+", s)\<close>: leftmost, greedy, not overlapping.\<close>

function find_markers :: "string \<Rightarrow> string list" where
  "find_markers s =
     (if s = [] then []
      else let run = takeWhile is_lower_hex (drop 8 s) in
        if starts_with marker_prefix s \<and> run \<noteq> []
        then (marker_prefix @ run) # find_markers (dropWhile is_lower_hex (drop 8 s))
        else find_markers (tl s))"
  by pat_completeness auto

termination
proof (relation "measure length")
  fix s :: string and run
  assume "s \<noteq> []" "run = takeWhile is_lower_hex (drop 8 s)"
  have "length (dropWhile is_lower_hex (drop 8 s)) \<le> length (drop 8 s)" by (rule length_dropWhile_le)
  with \<open>s \<noteq> []\<close> show "(dropWhile is_lower_hex (drop 8 s), s) \<in> measure length"
    by (cases s) auto
qed auto

declare find_markers.simps [simp del]

definition firmware_version_matches :: "string \<Rightarrow> string \<Rightarrow> bool" where
  "firmware_version_matches actual expected =
     (if \<not> fingerprint_re expected then actual = expected
      else find_markers actual = [expected]
        \<and> (actual = expected
           \<or> (length actual > length expected + 1 \<and> ends_with (''-'' @ expected) actual
              \<and> \<not> list_ex py_is_space actual)))"

subsection \<open>The Makefile line\<close>

text \<open>\<open>str.count\<close> and \<open>str.replace\<close> with a non-empty needle.\<close>

function count_text :: "string \<Rightarrow> string \<Rightarrow> nat" where
  "count_text needle s =
     (if s = [] \<or> needle = [] then 0
      else if starts_with needle s then Suc (count_text needle (drop (length needle) s))
      else count_text needle (tl s))"
  by pat_completeness auto

termination
proof (relation "measure (\<lambda>(needle, s). length s)")
  fix needle s :: string
  assume "\<not> (s = [] \<or> needle = [])"
  then show "((needle, drop (length needle) s), needle, s) \<in> measure (\<lambda>(needle, s). length s)"
    by (cases s; cases needle) auto
qed auto

function replace_text :: "string \<Rightarrow> string \<Rightarrow> string \<Rightarrow> string" where
  "replace_text needle by_text s =
     (if s = [] \<or> needle = [] then s
      else if starts_with needle s then by_text @ replace_text needle by_text (drop (length needle) s)
      else hd s # replace_text needle by_text (tl s))"
  by pat_completeness auto

termination
proof (relation "measure (\<lambda>(needle, by_text, s). length s)")
  fix needle by_text s :: string
  assume "\<not> (s = [] \<or> needle = [])"
  then show "((needle, by_text, drop (length needle) s), needle, by_text, s)
      \<in> measure (\<lambda>(needle, by_text, s). length s)"
    by (cases s; cases needle) auto
qed auto

declare count_text.simps [simp del] replace_text.simps [simp del]

definition makefile_needle :: string where
  "makefile_needle = ''$(PYTHON) ./scripts/buildcommands.py -d $(OUT)klipper.dict''"

definition makefile_patch :: "string \<Rightarrow> string" where
  "makefile_patch fingerprint =
     ''$(PYTHON) ./scripts/buildcommands.py --extra=-'' @ fingerprint @ '' -d $(OUT)klipper.dict''"

definition fingerprint_makefile :: "string \<Rightarrow> string \<Rightarrow> (identity_error, string) res" where
  "fingerprint_makefile content fingerprint =
     require (fingerprint_re fingerprint) (Firmware_identity_error ''invalid firmware fingerprint format'')
     (require (count_text makefile_needle content = 1)
       (Firmware_identity_error ''validated Klipper buildcommands invocation drifted'')
     (Inr (replace_text makefile_needle (makefile_patch fingerprint) content)))"

subsection \<open>Canonical configuration\<close>

text \<open>\<open>_CONFIG_RE.match(line) or _CONFIG_UNSET_RE.match(line)\<close>, giving the symbol.\<close>

definition config_key :: "string \<Rightarrow> string option" where
  "config_key line = (case assignment_re line of Some (k, _) \<Rightarrow> Some k | None \<Rightarrow> not_set_re line)"

fun collect_config :: "string list \<Rightarrow> (string, string) dict \<Rightarrow> (identity_error, (string, string) dict) res" where
  "collect_config [] values = Inr values"
| "collect_config (raw_line # ls) values =
     (let line = py_strip raw_line in
      case config_key line of
        None \<Rightarrow> collect_config ls values
      | Some key \<Rightarrow>
          require (dict_get values key = None \<or> dict_get values key = Some line)
            (Firmware_identity_error ''Klipper .config contains conflicting values'')
          (collect_config ls (dict_set values key line)))"

definition canonicalize_dot_config :: "string \<Rightarrow> (identity_error, string) res" where
  "canonicalize_dot_config content =
     bindE (collect_config (split_char CHR 0x0A (normalize_newlines content)) []) (\<lambda>values.
     require (values \<noteq> []) (Firmware_identity_error ''Klipper .config has no canonical Kconfig values'')
     (Inr (join_with newline (map snd (sort_key fst values)) @ newline)))"

subsection \<open>Build identities\<close>

record toolchain_identity =
  ti_make_command :: string
  ti_make_version :: string
  ti_compiler :: string
  ti_compiler_version :: string

record build_inputs =
  bi_schema :: string
  bi_build_id :: string
  bi_reported_version :: string
  bi_klipper_commit :: string
  bi_canonical_config :: string
  bi_config_sha256 :: string
  bi_toolchain :: toolchain_identity
  bi_build_options :: pydict
  bi_input_sha256 :: string

record build_identity = build_inputs +
  fi_artifact_sha256 :: string
  fi_artifact_size :: int
  fi_artifact_format :: string
  fi_artifact_build_id :: string

definition identity_schema :: string where
  "identity_schema = ''kace-firmware-build/v1''"

text \<open>
  \<open>json.dumps(..., ensure_ascii=True)\<close> differs from the text of \<open>json_text\<close> only in escaping
  every character above \<open>~\<close>.  A value \<open>json_text\<close> cannot print is outside the model.
\<close>

definition ascii_escape :: "char \<Rightarrow> string" where
  "ascii_escape c = (if code_of c \<le> 126 then [c] else CHR 0x5C # ''u'' @ hex4 (code_of c))"

definition json_sha256 :: "(string \<Rightarrow> string) \<Rightarrow> pydict \<Rightarrow> (identity_error, string) res" where
  "json_sha256 sha d = (case json_text (PDict d) of
     None \<Rightarrow> Inl Identity_outside_model
   | Some t \<Rightarrow> Inr (sha (concat (map ascii_escape t))))"

definition toolchain_mapping :: "toolchain_identity \<Rightarrow> pyval" where
  "toolchain_mapping t = PDict
     [(KStr ''make_command'', PStr (ti_make_command t)), (KStr ''make_version'', PStr (ti_make_version t)),
      (KStr ''compiler'', PStr (ti_compiler t)), (KStr ''compiler_version'', PStr (ti_compiler_version t))]"

text \<open>\<open>build_id\<close> is \<open>None\<close> or empty when the caller leaves the choice to \<open>uuid4\<close>.\<close>

definition build_inputs_create ::
    "(string \<Rightarrow> string) \<Rightarrow> string \<Rightarrow> string \<Rightarrow> string \<Rightarrow> toolchain_identity \<Rightarrow> pydict \<Rightarrow> string option
     \<Rightarrow> (identity_error, build_inputs) res" where
  "build_inputs_create sha fresh klipper_commit canonical_config toolchain options build_id =
     (let commit = py_lower (py_strip klipper_commit) in
      require (commit_re commit) (Firmware_identity_error ''Klipper commit must be an exact 40-character SHA'')
      (bindE (canonicalize_dot_config canonical_config) (\<lambda>canonical.
       bindE (json_sha256 sha [(KStr ''schema'', PStr identity_schema), (KStr ''klipper_commit'', PStr commit),
           (KStr ''canonical_config'', PStr canonical), (KStr ''toolchain'', toolchain_mapping toolchain),
           (KStr ''build_options'', PDict options)]) (\<lambda>input_sha256.
       let chosen = (case build_id of Some b \<Rightarrow> if b = [] then fresh else b | None \<Rightarrow> fresh);
           bid = py_lower (filter (\<lambda>c. c \<noteq> CHR ''-'') chosen) in
       require (length bid = 32 \<and> list_all is_lower_hex bid)
         (Firmware_identity_error ''firmware build_id must contain 128 bits of hexadecimal data'')
       (Inr \<lparr>bi_schema = identity_schema, bi_build_id = bid, bi_reported_version = marker_prefix @ bid,
            bi_klipper_commit = commit, bi_canonical_config = canonical, bi_config_sha256 = sha canonical,
            bi_toolchain = toolchain, bi_build_options = options, bi_input_sha256 = input_sha256\<rparr>)))))"

definition build_inputs_complete ::
    "(string \<Rightarrow> string) \<Rightarrow> build_inputs \<Rightarrow> string \<Rightarrow> int \<Rightarrow> string \<Rightarrow> (identity_error, build_identity) res" where
  "build_inputs_complete sha i artifact_sha256 artifact_size artifact_format =
     (let digest = py_lower artifact_sha256 in
      require (sha256_re digest) (Firmware_identity_error ''firmware artifact SHA-256 is missing or invalid'')
      (bindE (json_sha256 sha [(KStr ''schema'', PStr identity_schema), (KStr ''build_id'', PStr (bi_build_id i)),
           (KStr ''input_sha256'', PStr (bi_input_sha256 i)), (KStr ''artifact_sha256'', PStr digest)])
       (\<lambda>artifact_build_id.
       Inr (build_inputs.extend (build_inputs.truncate i)
         \<lparr>fi_artifact_sha256 = digest, fi_artifact_size = artifact_size,
          fi_artifact_format = artifact_format, fi_artifact_build_id = artifact_build_id\<rparr>))))"

subsection \<open>Markers are unique\<close>

lemma fingerprint_hex: "fingerprint_re s \<Longrightarrow> \<exists>run. s = marker_prefix @ run \<and> length run = 32 \<and> list_all is_lower_hex run"
  by (auto simp: fingerprint_re_def starts_with_iff marker_prefix_def)

lemma find_markers_Cons:
  "\<not> starts_with marker_prefix (c # s) \<Longrightarrow> find_markers (c # s) = find_markers s"
  by (subst find_markers.simps) simp

lemma hex_not_k: "is_lower_hex c \<Longrightarrow> c \<noteq> CHR ''k''"
  by (auto simp: is_lower_hex_def is_digit_def code_of_def)

lemma marker_apart:
  assumes s: "marker_prefix @ run @ rest = u @ marker_prefix @ w" and "u \<noteq> []"
    and hex: "list_all is_lower_hex run"
  shows "\<exists>u'. u = marker_prefix @ run @ u' \<and> rest = u' @ marker_prefix @ w"
proof -
  let ?p = "marker_prefix @ run"
  have "length ?p \<le> length u"
  proof (rule ccontr)
    assume "\<not> length ?p \<le> length u"
    then have lt: "length u < length ?p" by simp
    have "(marker_prefix @ run @ rest) ! length u = CHR ''k''"
      by (simp only: s) (simp add: nth_append marker_prefix_def)
    with lt have k: "?p ! length u = CHR ''k''" by (metis append_assoc nth_append)
    have "CHR ''k'' \<notin> set (tl ?p)"
      using hex by (auto simp: marker_prefix_def list_all_iff dest: hex_not_k)
    moreover have "?p ! length u = tl ?p ! (length u - 1)"
      using \<open>u \<noteq> []\<close> by (cases u) (auto simp: nth_tl marker_prefix_def)
    moreover have "length u - 1 < length (tl ?p)" using lt \<open>u \<noteq> []\<close> by (cases u) auto
    ultimately show False using k by (metis nth_mem)
  qed
  with s have "\<exists>u'. u = ?p @ u' \<and> rest = u' @ marker_prefix @ w"
    by (metis (no_types, lifting) append_assoc append_eq_append_conv_if append_take_drop_id)
  then show ?thesis by simp
qed

lemma find_markers_complete:
  "s = u @ marker_prefix @ h # v \<Longrightarrow> is_lower_hex h \<Longrightarrow>
   marker_prefix @ takeWhile is_lower_hex (h # v) \<in> set (find_markers s)"
proof (induction s arbitrary: u rule: find_markers.induct)
  case (1 s)
  let ?run = "takeWhile is_lower_hex (drop 8 s)" and ?rest = "dropWhile is_lower_hex (drop 8 s)"
  have ne: "s \<noteq> []" using "1.prems" by (simp add: marker_prefix_def)
  show ?case
  proof (cases "starts_with marker_prefix s \<and> ?run \<noteq> []")
    case hit: True
    then have fm: "find_markers s = (marker_prefix @ ?run) # find_markers ?rest"
      using ne by (subst find_markers.simps) (simp add: Let_def)
    from hit have s: "s = marker_prefix @ ?run @ ?rest"
      by (auto simp: starts_with_iff marker_prefix_def)
    show ?thesis
    proof (cases "u = []")
      case True
      with "1.prems" have "drop 8 s = h # v" by (simp add: marker_prefix_def)
      with fm show ?thesis by simp
    next
      case False
      have "list_all is_lower_hex ?run" by (auto simp: list_all_iff dest: set_takeWhileD)
      from marker_apart [OF _ False this] s "1.prems"(1) obtain u' where "?rest = u' @ marker_prefix @ h # v"
        by metis
      with "1.IH"(1) [OF ne refl hit] "1.prems"(2) fm show ?thesis by (simp del: takeWhile.simps)
    qed
  next
    case miss: False
    have "u \<noteq> []"
    proof
      assume "u = []"
      with "1.prems" have "starts_with marker_prefix s" "?run \<noteq> []" by (simp_all add: marker_prefix_def)
      with miss show False by simp
    qed
    then obtain c u' where u: "u = c # u'" by (cases u) auto
    have fm: "find_markers s = find_markers (tl s)"
      using ne miss by (subst find_markers.simps) (auto simp: Let_def)
    from "1.prems" u have "tl s = u' @ marker_prefix @ h # v" by simp
    with "1.IH"(2) [OF ne refl miss] "1.prems"(2) fm show ?thesis by (simp del: takeWhile.simps)
  qed
qed

lemma find_markers_no_k: "CHR ''k'' \<notin> set p \<Longrightarrow> find_markers (p @ s) = find_markers s"
  by (induction p) (auto simp: find_markers_Cons marker_prefix_def)

lemma find_markers_fingerprint: "fingerprint_re e \<Longrightarrow> find_markers e = [e]"
proof -
  assume "fingerprint_re e"
  then obtain run where e: "e = marker_prefix @ run" "length run = 32" "list_all is_lower_hex run"
    using fingerprint_hex by blast
  then have tw: "takeWhile is_lower_hex run = run" "dropWhile is_lower_hex run = []" "run \<noteq> []"
    by (auto simp: list_all_iff dropWhile_eq_Nil_conv takeWhile_eq_all_conv)
  from e(1) have d: "drop 8 e = run" "starts_with marker_prefix e" "e \<noteq> []"
    by (simp_all add: marker_prefix_def)
  have "find_markers [] = []" by (simp add: find_markers.simps)
  with d tw have "find_markers e = [marker_prefix @ run]"
    by (subst find_markers.simps) (simp only: Let_def if_False if_True simp_thms)
  with e(1) show ?thesis by simp
qed

subsection \<open>Counting and replacing\<close>

lemma count_text_zero:
  "needle \<noteq> [] \<Longrightarrow> count_text needle s = 0 \<Longrightarrow> \<not> contains needle s \<and> replace_text needle r s = s"
proof (induction s)
  case Nil
  then show ?case by (simp add: replace_text.simps)
next
  case (Cons c cs)
  from Cons.prems have ns: "\<not> starts_with needle (c # cs)" and z: "count_text needle cs = 0"
    by (auto simp: count_text.simps [of needle "c # cs"] split: if_splits)
  from Cons.IH [OF Cons.prems(1) z] ns show ?case
    using Cons.prems(1) by (simp add: replace_text.simps [of needle r "c # cs"])
qed

lemma count_text_one:
  "needle \<noteq> [] \<Longrightarrow> count_text needle s = 1 \<Longrightarrow>
   \<exists>a b. s = a @ needle @ b \<and> replace_text needle r s = a @ r @ b \<and> \<not> contains needle b"
proof (induction s)
  case Nil
  then show ?case by (simp add: count_text.simps)
next
  case (Cons c cs)
  show ?case
  proof (cases "starts_with needle (c # cs)")
    case True
    then obtain b where b: "c # cs = needle @ b" by (auto simp: starts_with_iff)
    with True Cons.prems have z: "count_text needle b = 0"
      by (simp add: count_text.simps [of needle "needle @ b"])
    have "replace_text needle r (c # cs) = r @ b"
      using True Cons.prems(1) b count_text_zero [OF Cons.prems(1) z, of r]
      by (simp add: replace_text.simps [of needle r "needle @ b"])
    with b count_text_zero [OF Cons.prems(1) z] show ?thesis by (metis append_Nil)
  next
    case False
    with Cons.prems have "count_text needle cs = 1"
      by (simp add: count_text.simps [of needle "c # cs"])
    with Cons.IH Cons.prems(1) obtain a b where
      "cs = a @ needle @ b" "replace_text needle r cs = a @ r @ b" "\<not> contains needle b" by blast
    moreover have "replace_text needle r (c # cs) = c # replace_text needle r cs"
      using False Cons.prems(1) by (simp add: replace_text.simps [of needle r "c # cs"])
    ultimately have "c # cs = (c # a) @ needle @ b" "replace_text needle r (c # cs) = (c # a) @ r @ b"
      by simp_all
    with \<open>\<not> contains needle b\<close> show ?thesis by blast
  qed
qed

subsection \<open>Order of the configuration lines\<close>

definition config_entries :: "string list \<Rightarrow> (string \<times> string) set" where
  "config_entries ls = {(k, py_strip l) |k l. l \<in> set ls \<and> config_key (py_strip l) = Some k}"

lemma config_entries_Cons:
  "config_entries (l # ls) = (case config_key (py_strip l) of
     None \<Rightarrow> {} | Some k \<Rightarrow> {(k, py_strip l)}) \<union> config_entries ls"
  by (auto simp: config_entries_def split: option.splits)

lemma config_entries_iff:
  "(k, l) \<in> config_entries ls \<longleftrightarrow> (\<exists>m \<in> set ls. l = py_strip m \<and> config_key (py_strip m) = Some k)"
  by (auto simp: config_entries_def)

lemma config_entries_key: "(k, l) \<in> config_entries ls \<Longrightarrow> config_key l = Some k"
  by (auto simp: config_entries_def)

lemma dict_set_same: "dict_get d k = Some v \<Longrightarrow> dict_set d k v = d"
  by (induction d k v rule: dict_set.induct) auto

definition functional :: "(string \<times> string) set \<Rightarrow> bool" where
  "functional r = (\<forall>k v w. (k, v) \<in> r \<longrightarrow> (k, w) \<in> r \<longrightarrow> v = w)"

lemma functional_mono: "functional r \<Longrightarrow> r' \<subseteq> r \<Longrightarrow> functional r'"
  unfolding functional_def by blast

lemma dict_ok_mem: "dict_ok d \<Longrightarrow> dict_get d k = Some v \<longleftrightarrow> (k, v) \<in> set d"
  by (simp add: dict_get_def)

lemma collect_config_ok:
  "dict_ok d \<Longrightarrow> collect_config ls d = Inr d' \<Longrightarrow>
     dict_ok d' \<and> set d' = set d \<union> config_entries ls"
proof (induction ls d rule: collect_config.induct)
  case (1 vals)
  then show ?case by (auto simp: config_entries_def)
next
  case (2 raw_line ls vals)
  show ?case
  proof (cases "config_key (py_strip raw_line)")
    case None
    with 2 show ?thesis by (simp add: Let_def config_entries_Cons)
  next
    case (Some key)
    let ?line = "py_strip raw_line"
    from "2.prems" Some have req: "dict_get vals key = None \<or> dict_get vals key = Some ?line"
      and rest: "collect_config ls (dict_set vals key ?line) = Inr d'"
      by (auto simp: Let_def result_simps)
    have ok: "dict_ok (dict_set vals key ?line)" using "2.prems"(1) by (rule dict_ok_set)
    have "set (dict_set vals key ?line) = insert (key, ?line) (set vals)"
    proof (cases "dict_get vals key")
      case None
      then have "key \<notin> fst ` set vals" by (simp add: dict_get_def map_of_eq_None_iff)
      then show ?thesis by (simp add: dict_set_fresh)
    next
      case (Some v)
      with req have "dict_get vals key = Some ?line" by simp
      with "2.prems"(1) show ?thesis by (auto simp: dict_set_same dict_ok_mem)
    qed
    with "2.IH"(2) [OF refl Some ok rest] Some show ?thesis
      by (auto simp: config_entries_Cons)
  qed
qed

lemma collect_config_total:
  "dict_ok d \<Longrightarrow> functional (set d \<union> config_entries ls) \<Longrightarrow> \<exists>d'. collect_config ls d = Inr d'"
proof (induction ls d rule: collect_config.induct)
  case (2 raw_line ls vals)
  show ?case
  proof (cases "config_key (py_strip raw_line)")
    case None
    with 2 show ?thesis by (simp add: Let_def config_entries_Cons)
  next
    case (Some key)
    let ?line = "py_strip raw_line"
    have req: "dict_get vals key = None \<or> dict_get vals key = Some ?line"
    proof (cases "dict_get vals key")
      case (Some v)
      with "2.prems" \<open>config_key ?line = Some key\<close> have "v = ?line"
        by (auto simp: functional_def config_entries_Cons dict_ok_mem)
      with Some show ?thesis by simp
    qed simp
    have ok: "dict_ok (dict_set vals key ?line)" using "2.prems"(1) by (rule dict_ok_set)
    have "set (dict_set vals key ?line) \<subseteq> insert (key, ?line) (set vals)"
      by (induction vals key ?line rule: dict_set.induct) auto
    then have "set (dict_set vals key ?line) \<union> config_entries ls \<subseteq> set vals \<union> config_entries (raw_line # ls)"
      using Some by (auto simp: config_entries_Cons)
    with "2.prems"(2) have "functional (set (dict_set vals key ?line) \<union> config_entries ls)"
      by (rule functional_mono)
    with "2.IH"(2) [OF refl Some ok] req Some show ?thesis by (auto simp: Let_def require_def)
  qed
qed simp

lemma functional_dict: "dict_ok d \<Longrightarrow> functional (set d)"
  by (auto simp: functional_def simp flip: dict_ok_mem)

lemma sort_dict_unique:
  assumes "dict_ok d" and "dict_ok d'" and "set d = set d'"
  shows "sort_key fst d = sort_key fst (d' :: (string, 'v) dict)"
proof (rule sort_key_unique)
  from assms show "mset d = mset d'"
    by (metis distinct_map set_eq_iff_mset_eq_distinct)
  from assms(1) show "inj_on fst (set d)" by (simp add: distinct_map)
qed

definition config_lines :: "string \<Rightarrow> string list" where
  "config_lines content = split_char CHR 0x0A (normalize_newlines content)"

lemma canonicalize_entries:
  "canonicalize_dot_config content = Inr txt \<longleftrightarrow>
     (\<exists>d. dict_ok d \<and> d \<noteq> [] \<and> set d = config_entries (config_lines content)
       \<and> txt = join_with newline (map snd (sort_key fst d)) @ newline)"
proof
  assume "canonicalize_dot_config content = Inr txt"
  then show "\<exists>d. dict_ok d \<and> d \<noteq> [] \<and> set d = config_entries (config_lines content)
       \<and> txt = join_with newline (map snd (sort_key fst d)) @ newline"
    using collect_config_ok [of "[]" "config_lines content"]
    by (fastforce simp: canonicalize_dot_config_def result_simps config_lines_def)
next
  assume "\<exists>d. dict_ok d \<and> d \<noteq> [] \<and> set d = config_entries (config_lines content)
       \<and> txt = join_with newline (map snd (sort_key fst d)) @ newline"
  then obtain d where d: "dict_ok d" "d \<noteq> []" "set d = config_entries (config_lines content)"
    "txt = join_with newline (map snd (sort_key fst d)) @ newline" by blast
  from functional_dict [OF d(1)] d(3) have "functional (set [] \<union> config_entries (config_lines content))"
    by simp
  from collect_config_total [OF _ this] obtain d' where c: "collect_config (config_lines content) [] = Inr d'"
    by auto
  from collect_config_ok [OF _ c] have d': "dict_ok d'" "set d' = set d" using d(3) by auto
  with d(2) have "d' \<noteq> []" by auto
  with c d' d sort_dict_unique [OF d'(1) d(1)] show "canonicalize_dot_config content = Inr txt"
    by (simp add: canonicalize_dot_config_def config_lines_def)
qed

text \<open>
  The canonical form of a Klipper configuration does not depend on the order, spacing, repetition or
  comments of its lines: texts with the same entries have the same canonical form.
\<close>

theorem canonicalize_same_entries:
  assumes "config_entries (config_lines a) = config_entries (config_lines b)"
    and "canonicalize_dot_config a = Inr txt"
  shows "canonicalize_dot_config b = Inr txt"
  using assms by (simp add: canonicalize_entries)

theorem canonicalize_same_entries_witness:
  "canonicalize_dot_config (''CONFIG_A=y'' @ newline @ ''# CONFIG_B is not set'') =
     Inr (''CONFIG_A=y'' @ newline @ ''# CONFIG_B is not set'' @ newline)"
proof (rule canonicalize_same_entries)
  show "canonicalize_dot_config (''# CONFIG_B is not set'' @ newline @ ''  CONFIG_A=y'' @ newline @ ''CONFIG_A=y'') =
     Inr (''CONFIG_A=y'' @ newline @ ''# CONFIG_B is not set'' @ newline)"
    by code_simp
  have k: "config_key ''CONFIG_A=y'' = Some ''CONFIG_A''" "config_key ''# CONFIG_B is not set'' = Some ''CONFIG_B''"
    by code_simp+
  have s: "py_strip ''  CONFIG_A=y'' = ''CONFIG_A=y''" "py_strip ''CONFIG_A=y'' = ''CONFIG_A=y''"
    "py_strip ''# CONFIG_B is not set'' = ''# CONFIG_B is not set''"
    by code_simp+
  have l: "config_lines (''# CONFIG_B is not set'' @ newline @ ''  CONFIG_A=y'' @ newline @ ''CONFIG_A=y'') =
      [''# CONFIG_B is not set'', ''  CONFIG_A=y'', ''CONFIG_A=y'']"
    "config_lines (''CONFIG_A=y'' @ newline @ ''# CONFIG_B is not set'') = [''CONFIG_A=y'', ''# CONFIG_B is not set'']"
    by code_simp+
  show "config_entries (config_lines (''# CONFIG_B is not set'' @ newline @ ''  CONFIG_A=y'' @ newline @ ''CONFIG_A=y'')) =
      config_entries (config_lines (''CONFIG_A=y'' @ newline @ ''# CONFIG_B is not set''))"
    unfolding l config_entries_Cons s k option.case by blast
qed


subsection \<open>Canonical text is a fixed point\<close>

lemma py_strip_idem: "py_strip (py_strip s) = py_strip s"
proof -
  show ?thesis
  proof (cases "py_strip s = []")
    case True
    show ?thesis by (simp only: True) (simp add: py_strip_def py_lstrip_def)
  next
    case False
    have l: "py_lstrip (py_strip s) = py_strip s"
      using py_strip_hd [OF False] False by (cases "py_strip s") (auto simp: py_lstrip_def)
    have "py_lstrip (rev (py_strip s)) = rev (py_strip s)"
      by (simp add: py_strip_def py_lstrip_def)
    with l show ?thesis by (simp add: py_strip_def [of "py_strip s"])
  qed
qed

lemma py_strip_set: "set (py_strip s) \<subseteq> set s"
  by (auto simp: py_strip_def py_lstrip_def dest!: set_dropWhileD)

lemma split_char_lines:
  "\<forall>l \<in> set ls. c \<notin> set l \<Longrightarrow> split_char c (concat (map (\<lambda>l. l @ [c]) ls)) = ls @ [[]]"
proof (induction ls)
  case (Cons l ls)
  have "c \<notin> set l \<Longrightarrow> split_char c (l @ c # t) = l # split_char c t" for t
    by (induction l) auto
  with Cons show ?case by simp
qed simp

lemma config_lines_clean:
  assumes "l \<in> set (config_lines content)"
  shows "CHR 0x0A \<notin> set l \<and> CHR 0x0D \<notin> set l"
proof -
  have "set l \<subseteq> set (join_with [CHR 0x0A] (config_lines content))"
    using assms by (rule join_with_members)
  with assms show ?thesis
    using normalize_newlines_no_cr [of content]
    by (auto simp: config_lines_def split_char_no_sep join_split_char)
qed

text \<open>
  Canonicalising a canonical Klipper configuration changes nothing.
\<close>

theorem canonicalize_idem:
  assumes "canonicalize_dot_config content = Inr txt"
  shows "canonicalize_dot_config txt = Inr txt"
proof -
  from assms obtain d where d: "dict_ok d" "d \<noteq> []" "set d = config_entries (config_lines content)"
    and written: "txt = join_with newline (map snd (sort_key fst d)) @ newline"
    by (auto simp: canonicalize_entries)
  let ?ls = "map snd (sort_key fst d)"
  have stripped: "py_strip l = l \<and> CHR 0x0A \<notin> set l \<and> CHR 0x0D \<notin> set l" if "l \<in> set ?ls" for l
    using that d(3) config_lines_clean [of _ content] py_strip_set
    by (fastforce simp: config_entries_def py_strip_idem)
  have "txt = concat (map (\<lambda>l. l @ [CHR 0x0A]) ?ls)"
    unfolding written using d(2) by (subst join_with_newline) (auto simp flip: set_empty)
  moreover have "\<forall>l \<in> set ?ls. CHR 0x0A \<notin> set l" using stripped by blast
  moreover have "CHR 0x0D \<notin> set (concat (map (\<lambda>l. l @ [CHR 0x0A]) ?ls))" using stripped by auto
  ultimately have lines: "config_lines txt = ?ls @ [[]]"
    by (simp only: config_lines_def normalize_newlines_id split_char_lines not_False_eq_True)
  have "config_key [] = None" by (simp add: config_key_def assignment_re_def not_set_re_def symbol_prefix_def)
  moreover have "py_strip [] = []" by (simp add: py_strip_def py_lstrip_def)
  ultimately have "config_entries (config_lines txt) = config_entries ?ls"
    unfolding lines by (auto simp: config_entries_def)
  also have "\<dots> = set d"
  proof (rule set_eqI)
    fix p :: "string \<times> string"
    obtain k l where p: "p = (k, l)" by fastforce
    have "(k, l) \<in> config_entries ?ls \<longleftrightarrow> (\<exists>m \<in> set ?ls. l = m \<and> config_key m = Some k)"
      unfolding config_entries_iff by (rule bex_cong [OF refl]) (use stripped in presburger)
    also have "\<dots> \<longleftrightarrow> l \<in> set ?ls \<and> config_key l = Some k" by blast
    also have "\<dots> \<longleftrightarrow> (\<exists>k'. (k', l) \<in> set d) \<and> config_key l = Some k" by force
    also have "\<dots> \<longleftrightarrow> (k, l) \<in> set d"
      using config_entries_key [of _ l "config_lines content"] unfolding d(3) by (metis option.inject)
    finally show "p \<in> config_entries ?ls \<longleftrightarrow> p \<in> set d" by (simp only: p)
  qed
  finally show ?thesis using d written by (auto simp: canonicalize_entries)
qed

theorem canonicalize_idem_witness:
  "canonicalize_dot_config (''CONFIG_A=y'' @ newline) = Inr (''CONFIG_A=y'' @ newline)"
proof (rule canonicalize_idem)
  show "canonicalize_dot_config (''  CONFIG_A=y'' @ newline @ ''# x'') = Inr (''CONFIG_A=y'' @ newline)"
    by code_simp
qed

text \<open>
  C39. Acceptance of a reported firmware version is unambiguous: wherever the reported text holds the
  marker prefix followed by a hexadecimal digit, the expected fingerprint stands, and no other one.
\<close>

theorem version_marker_unique:
  assumes "firmware_version_matches actual expected" and "fingerprint_re expected"
    and "actual = u @ marker_prefix @ h # v" and "is_lower_hex h"
  shows "expected = marker_prefix @ takeWhile is_lower_hex (h # v)"
proof -
  from assms(1,2) have "find_markers actual = [expected]"
    by (simp add: firmware_version_matches_def del: find_markers.simps)
  with find_markers_complete [OF assms(3,4)] show ?thesis by (simp del: takeWhile.simps)
qed

theorem version_marker_unique_witness:
  "marker_prefix @ replicate 32 CHR ''7'' = marker_prefix @ takeWhile is_lower_hex (CHR ''7'' # replicate 31 CHR ''7'')"
proof (rule version_marker_unique)
  show "firmware_version_matches (''v0-'' @ marker_prefix @ replicate 32 CHR ''7'') (marker_prefix @ replicate 32 CHR ''7'')"
    by code_simp
  show "fingerprint_re (marker_prefix @ replicate 32 CHR ''7'')" by code_simp
  show "''v0-'' @ marker_prefix @ replicate 32 CHR ''7'' = ''v0-'' @ marker_prefix @ CHR ''7'' # replicate 31 CHR ''7''"
    by code_simp
  show "is_lower_hex CHR ''7''" by code_simp
qed

text \<open>
  Patching the Klipper Makefile changes exactly the one reviewed invocation: the text around it is
  kept, the invocation does not occur after it, and the fingerprint is well formed.
\<close>

theorem makefile_patched_once:
  assumes "fingerprint_makefile content fingerprint = Inr patched"
  shows "fingerprint_re fingerprint \<and> (\<exists>a b. content = a @ makefile_needle @ b
     \<and> patched = a @ makefile_patch fingerprint @ b \<and> \<not> contains makefile_needle b)"
proof -
  have "makefile_needle \<noteq> []" by (simp add: makefile_needle_def)
  with assms count_text_one [of makefile_needle content "makefile_patch fingerprint"] show ?thesis
    by (auto simp: fingerprint_makefile_def result_simps simp del: count_text.simps replace_text.simps)
qed

theorem makefile_patched_once_witness:
  "\<exists>a b. ''x '' @ makefile_needle @ '' y'' = a @ makefile_needle @ b \<and> \<not> contains makefile_needle b"
proof -
  have "fingerprint_makefile (''x '' @ makefile_needle @ '' y'') (marker_prefix @ replicate 32 CHR ''7'') =
      Inr (''x '' @ makefile_patch (marker_prefix @ replicate 32 CHR ''7'') @ '' y'')"
    by code_simp
  from makefile_patched_once [OF this] show ?thesis by blast
qed

end
