(* ===== verification/Firmware_Image.thy ===== *)
theory Firmware_Image
  imports Firmware_Identity "HOL-Library.Word" "HOL-Library.Product_Lexorder"
begin

text \<open>
  The firmware containers \<open>firmware/boards/kconfig.py\<close> reads back: UF2 blocks, Intel HEX
  records, and the search for the build marker in a plain or compressed image.  A byte is an
  \<open>8 word\<close>; Python's unbounded integers are \<open>int\<close>.
\<close>

type_synonym byte = "8 word"
type_synonym bytes = "8 word list"

definition ascii_bytes :: "string \<Rightarrow> bytes" where
  "ascii_bytes s = map (\<lambda>c. of_nat (code_of c)) s"

fun le_value :: "bytes \<Rightarrow> int" where
  "le_value [] = 0"
| "le_value (b # bs) = uint b + 256 * le_value bs"

definition be_value :: "bytes \<Rightarrow> int" where
  "be_value bs = le_value (rev bs)"

subsection \<open>UF2\<close>

text \<open>\<open>struct.unpack_from("<I", block, offset)\<close>.\<close>

definition u32_at :: "bytes \<Rightarrow> nat \<Rightarrow> int" where
  "u32_at block offset = le_value (take 4 (drop offset block))"

function blocks_of :: "nat \<Rightarrow> 'a list \<Rightarrow> 'a list list" where
  "blocks_of n xs = (if xs = [] \<or> n = 0 then [] else take n xs # blocks_of n (drop n xs))"
  by pat_completeness auto

termination
  by (relation "measure (\<lambda>(n, xs). length xs)") auto

declare blocks_of.simps [simp del]

definition uf2_magic :: "bytes \<Rightarrow> bool" where
  "uf2_magic block = (u32_at block 0 = 0x0A324655 \<and> u32_at block 4 = 0x9E5D5157
     \<and> u32_at block 508 = 0x0AB16F30)"

fun uf2_scan :: "bytes list \<Rightarrow> int option \<Rightarrow> (int \<times> bytes) list \<Rightarrow> (int option \<times> (int \<times> bytes) list) option" where
  "uf2_scan [] declared chunks = Some (declared, chunks)"
| "uf2_scan (block # blocks) declared chunks =
     (let target_address = u32_at block 12; payload_size = u32_at block 16;
          block_number = u32_at block 20; block_count = u32_at block 24;
          declared' = (case declared of None \<Rightarrow> block_count | Some n \<Rightarrow> n) in
      if \<not> uf2_magic block then None
      else if payload_size < 1 \<or> payload_size > 476 then None
      else if block_count \<noteq> declared' \<or> block_number \<ge> block_count then None
      else uf2_scan blocks (Some declared')
             (chunks @ [(target_address, take (nat payload_size) (drop 32 block))]))"

text \<open>Slice assignment of a range that lies inside the buffer.\<close>

definition write_at :: "'a list \<Rightarrow> nat \<Rightarrow> 'a list \<Rightarrow> 'a list" where
  "write_at buffer n chunk = take n buffer @ chunk @ drop (n + length chunk) buffer"

fun uf2_overlay :: "int \<Rightarrow> (int \<times> bytes) list \<Rightarrow> int \<Rightarrow> bytes \<Rightarrow> bytes option" where
  "uf2_overlay base [] previous_end payload = Some payload"
| "uf2_overlay base ((address, chunk) # chunks) previous_end payload =
     (if address < previous_end then None
      else uf2_overlay base chunks (address + int (length chunk))
             (write_at payload (nat (address - base)) chunk))"

definition chunk_end :: "int \<times> bytes \<Rightarrow> int" where
  "chunk_end c = fst c + int (length (snd c))"

definition max_image :: int where
  "max_image = 32 * 1024 * 1024"

definition decode_uf2_payload :: "bytes \<Rightarrow> bytes option" where
  "decode_uf2_payload content =
     (if length content < 512 \<or> length content mod 512 \<noteq> 0 then None
      else Option.bind (uf2_scan (blocks_of 512 content) None []) (\<lambda>(declared, chunks0).
        if declared \<noteq> Some (int (length chunks0)) then None
        else let chunks = sort_key fst chunks0; base = fst (hd chunks);
                 top = Max (set (map chunk_end chunks)) in
          if top - base > max_image then None
          else uf2_overlay base chunks base (replicate (nat (top - base)) 0)))"

subsection \<open>Intel HEX\<close>

definition colon :: byte where "colon = 0x3A"

text \<open>\<open>bytes.splitlines\<close> ends a line at LF, CR or CR LF only.\<close>

fun byte_lines :: "bytes \<Rightarrow> bytes list" where
  "byte_lines [] = []"
| "byte_lines (c # cs) =
     (if c = 0x0A \<or> c = 0x0D then
        [] # (case cs of
                [] \<Rightarrow> []
              | d # ds \<Rightarrow> if c = 0x0D \<and> d = 0x0A then byte_lines ds else byte_lines cs)
      else (case byte_lines cs of [] \<Rightarrow> [[c]] | w # ws \<Rightarrow> (c # w) # ws))"

definition hex_nibble :: "byte \<Rightarrow> byte option" where
  "hex_nibble b = (if 0x30 \<le> b \<and> b \<le> 0x39 then Some (b - 0x30)
     else if 0x41 \<le> b \<and> b \<le> 0x46 then Some (b - 0x37)
     else if 0x61 \<le> b \<and> b \<le> 0x66 then Some (b - 0x57) else None)"

definition is_byte_space :: "byte \<Rightarrow> bool" where
  "is_byte_space b = ((0x09 \<le> b \<and> b \<le> 0x0D) \<or> b = 0x20)"

text \<open>
  \<open>bytes.fromhex(line.decode("ascii"))\<close>: white space may stand between bytes, not between the
  two digits of one; anything else raises \<open>ValueError\<close> (\<open>None\<close>).
\<close>

fun from_hex :: "bytes \<Rightarrow> bytes option" where
  "from_hex [] = Some []"
| "from_hex (a # bs) =
     (if is_byte_space a then from_hex bs
      else (case bs of
          [] \<Rightarrow> None
        | b # cs \<Rightarrow> (case (hex_nibble a, hex_nibble b) of
              (Some x, Some y) \<Rightarrow> map_option (\<lambda>r. (16 * x + y) # r) (from_hex cs)
            | _ \<Rightarrow> None)))"

record ihex_state =
  ih_chunks :: "(int \<times> bytes) list"
  ih_base :: int
  ih_ended :: bool

definition ihex_record :: "bytes \<Rightarrow> bytes option" where
  "ihex_record line =
     (if \<not> starts_with [colon] line then None
      else Option.bind (from_hex (tl line)) (\<lambda>r.
        if length r < 5 \<or> int (length r) \<noteq> uint (hd r) + 5 \<or> sum_list (map uint r) mod 256 \<noteq> 0
        then None else Some r))"

definition ihex_step :: "ihex_state \<Rightarrow> bytes \<Rightarrow> ihex_state option" where
  "ihex_step s line =
     (if ih_ended s then None
      else Option.bind (ihex_record line) (\<lambda>r.
        let kind = uint (r ! 3); data = butlast (drop 4 r) in
        if kind = 0 then
          Some (s\<lparr>ih_chunks := ih_chunks s @ [(ih_base s + be_value [r ! 1, r ! 2], data)]\<rparr>)
        else if kind = 1 then Some (s\<lparr>ih_ended := (data = [])\<rparr>)
        else if (kind = 2 \<or> kind = 4) \<and> length data = 2 then
          Some (s\<lparr>ih_base := push_bit (if kind = 2 then 4 else 16) (be_value data)\<rparr>)
        else if kind \<noteq> 3 \<and> kind \<noteq> 5 then None
        else Some s))"

fun ihex_scan :: "bytes list \<Rightarrow> ihex_state \<Rightarrow> ihex_state option" where
  "ihex_scan [] s = Some s"
| "ihex_scan (line # ls) s = Option.bind (ihex_step s line) (ihex_scan ls)"

fun join_contiguous :: "(int \<times> bytes) list \<Rightarrow> int \<Rightarrow> bytes option" where
  "join_contiguous [] address = Some []"
| "join_contiguous ((start, data) # chunks) address =
     (if start \<noteq> address then None
      else map_option ((@) data) (join_contiguous chunks (address + int (length data))))"

definition decode_ihex_payload :: "bytes \<Rightarrow> bytes option" where
  "decode_ihex_payload content =
     (if \<not> starts_with [colon] content then None
      else Option.bind (ihex_scan (byte_lines content) \<lparr>ih_chunks = [], ih_base = 0, ih_ended = False\<rparr>) (\<lambda>s.
        if \<not> ih_ended s \<or> ih_chunks s = [] then None
        else let chunks = sort (ih_chunks s) in join_contiguous chunks (fst (hd chunks))))"

subsection \<open>What a decoded UF2 image holds\<close>

definition slice_at :: "'a list \<Rightarrow> int \<Rightarrow> nat \<Rightarrow> 'a list" where
  "slice_at p n len = take len (drop (nat n) p)"

lemma length_write_at: "n + length chunk \<le> length p \<Longrightarrow> length (write_at p n chunk) = length p"
  by (simp add: write_at_def)

lemma take_write_at: "n \<le> length p \<Longrightarrow> take n (write_at p n chunk) = take n p"
  by (simp add: write_at_def)

lemma take_written: "n \<le> length p \<Longrightarrow> take (n + length chunk) (write_at p n chunk) = take n p @ chunk"
  by (simp add: write_at_def)

lemma overlay_holds:
  assumes "uf2_overlay base chunks prev payload = Some p" and "base \<le> prev"
    and "prev \<le> base + int (length payload)" and "\<forall>c \<in> set chunks. chunk_end c \<le> base + int (length payload)"
  shows "length p = length payload \<and> take (nat (prev - base)) p = take (nat (prev - base)) payload
     \<and> (\<forall>(a, c) \<in> set chunks. prev \<le> a \<and> slice_at p (a - base) (length c) = c)"
  using assms
proof (induction base chunks prev payload rule: uf2_overlay.induct)
  case (2 base address chunk chunks prev payload)
  let ?n = "nat (address - base)" and ?q = "write_at payload (nat (address - base)) chunk"
  let ?next = "address + int (length chunk)"
  from "2.prems" have le: "prev \<le> address" and ov: "uf2_overlay base chunks ?next ?q = Some p"
    by (auto split: if_splits)
  from "2.prems" have fit: "?next \<le> base + int (length payload)" by (simp add: chunk_end_def)
  have n: "?n + length chunk \<le> length payload" using fit le "2.prems"(2) by linarith
  have len: "length ?q = length payload" using n by (rule length_write_at)
  have adv: "nat (?next - base) = ?n + length chunk" using le "2.prems"(2) by linarith
  have IH: "length p = length ?q" "take (?n + length chunk) p = take ?n payload @ chunk"
      "\<forall>(a, c) \<in> set chunks. ?next \<le> a \<and> slice_at p (a - base) (length c) = c"
    using "2.IH" [OF _ ov] le "2.prems"(2,4) fit len n
    by (auto simp: adv take_written)
  have "slice_at p (address - base) (length chunk) = drop ?n (take (?n + length chunk) p)"
    by (simp add: slice_at_def drop_take)
  with IH(2) n have this_chunk: "slice_at p (address - base) (length chunk) = chunk" by simp
  have "nat (prev - base) \<le> ?n" using le by simp
  then have "take (nat (prev - base)) p = take (nat (prev - base)) (take (?n + length chunk) p)"
    by (simp add: min_def)
  also have "\<dots> = take (nat (prev - base)) payload"
    using \<open>nat (prev - base) \<le> ?n\<close> n by (simp add: IH(2) min_def)
  finally show ?case using IH le len this_chunk by fastforce
qed simp

lemma decode_uf2_holds:
  assumes "decode_uf2_payload content = Some p"
  obtains chunks base where
    "uf2_scan (blocks_of 512 content) None [] = Some (Some (int (length chunks)), chunks)"
    and "int (length p) \<le> max_image"
    and "\<forall>(a, c) \<in> set chunks. base \<le> a \<and> a + int (length c) \<le> base + int (length p)
           \<and> slice_at p (a - base) (length c) = c"
proof -
  from assms obtain declared chunks where
    scan: "uf2_scan (blocks_of 512 content) None [] = Some (declared, chunks)"
    and count: "declared = Some (int (length chunks))"
    and small: "Max (set (map chunk_end (sort_key fst chunks))) - fst (hd (sort_key fst chunks)) \<le> max_image"
    and ov: "uf2_overlay (fst (hd (sort_key fst chunks))) (sort_key fst chunks) (fst (hd (sort_key fst chunks)))
        (replicate (nat (Max (set (map chunk_end (sort_key fst chunks))) - fst (hd (sort_key fst chunks)))) 0) = Some p"
    by (auto simp: decode_uf2_payload_def Let_def bind_eq_Some_conv split: if_splits)
  define base where "base = fst (hd (sort_key fst chunks))"
  define top where "top = Max (set (map chunk_end (sort_key fst chunks)))"
  have ends: "chunk_end c \<le> top" if "c \<in> set chunks" for c
    using that by (auto simp: top_def)
  have top: "base \<le> top" if "chunks \<noteq> []"
  proof -
    from that have "hd (sort_key fst chunks) \<in> set chunks"
      by (metis hd_in_set set_sort length_0_conv length_sort)
    then have "chunk_end (hd (sort_key fst chunks)) \<le> top" by (rule ends)
    then show ?thesis by (simp add: base_def chunk_end_def)
  qed
  let ?buffer = "replicate (nat (top - base)) (0 :: byte)"
  show thesis
  proof (cases "chunks = []")
    case True
    with ov have "p = ?buffer" by (simp add: base_def top_def)
    with small True scan count show thesis
      by (intro that [of chunks base]) (auto simp: base_def top_def max_image_def)
  next
    case False
    with top have len: "int (length ?buffer) = top - base" by simp
    from ov have ov': "uf2_overlay base (sort_key fst chunks) base ?buffer = Some p"
      by (simp only: base_def top_def)
    have "\<forall>c \<in> set (sort_key fst chunks). chunk_end c \<le> base + int (length ?buffer)"
      using ends len by simp
    from overlay_holds [OF ov' order_refl _ this]
    have holds: "length p = length ?buffer"
       "\<forall>(a, c) \<in> set chunks. base \<le> a \<and> slice_at p (a - base) (length c) = c"
      by simp_all
    have "\<forall>(a, c) \<in> set chunks. a + int (length c) \<le> base + int (length p)"
      using ends len holds(1) by (fastforce simp: chunk_end_def)
    moreover have "int (length p) \<le> max_image"
      using holds(1) len small by (simp only: base_def top_def)
    ultimately show thesis using holds(2) scan count by (intro that [of chunks base]) auto
  qed
qed

subsection \<open>A reference UF2 writer\<close>

text \<open>The published block layout; consecutive chunks of an image that starts at an address.\<close>

definition le32 :: "int \<Rightarrow> bytes" where
  "le32 n = map word_of_int [n, n div 256, n div 65536, n div 16777216]"

definition uf2_block :: "int \<Rightarrow> bytes \<Rightarrow> int \<Rightarrow> int \<Rightarrow> bytes" where
  "uf2_block address chunk number nblocks =
     le32 0x0A324655 @ le32 0x9E5D5157 @ le32 0 @ le32 address @ le32 (int (length chunk))
     @ le32 number @ le32 nblocks @ le32 0 @ chunk @ replicate (476 - length chunk) 0 @ le32 0x0AB16F30"

fun placed :: "int \<Rightarrow> bytes list \<Rightarrow> (int \<times> bytes) list" where
  "placed address [] = []"
| "placed address (c # cs) = (address, c) # placed (address + int (length c)) cs"

fun uf2_blocks :: "int \<Rightarrow> int \<Rightarrow> int \<Rightarrow> bytes list \<Rightarrow> bytes list" where
  "uf2_blocks address number nblocks [] = []"
| "uf2_blocks address number nblocks (c # cs) =
     uf2_block address c number nblocks # uf2_blocks (address + int (length c)) (number + 1) nblocks cs"

definition encode_uf2 :: "int \<Rightarrow> bytes list \<Rightarrow> bytes" where
  "encode_uf2 base chunks = concat (uf2_blocks base 0 (int (length chunks)) chunks)"

lemma length_le32 [simp]: "length (le32 n) = 4"
  by (simp add: le32_def)

lemma le_value_le32: "0 \<le> n \<Longrightarrow> n < 4294967296 \<Longrightarrow> le_value (le32 n) = n"
proof -
  assume n: "0 \<le> n" "n < 4294967296"
  have u: "uint (word_of_int k :: byte) = k mod 256" for k
    by (simp add: uint_word_of_int)
  have d: "n div 65536 = n div 256 div 256" "n div 16777216 = n div 256 div 256 div 256"
    using zdiv_zmult2_eq [of 256 n 256] zdiv_zmult2_eq [of 65536 n 256] zdiv_zmult2_eq [of 256 "n div 256" 256] by simp_all
  have split: "k mod 256 + 256 * (k div 256) = k" for k :: int by simp
  have "n div 256 div 256 div 256 mod 256 = n div 256 div 256 div 256"
    using n by (intro mod_pos_pos_trivial) (simp_all flip: d)
  then show ?thesis by (simp add: le32_def u d split)
qed

lemma u32_at_le32:
  "block = pre @ le32 n @ post \<Longrightarrow> length pre = offset \<Longrightarrow> 0 \<le> n \<Longrightarrow> n < 4294967296 \<Longrightarrow>
   u32_at block offset = n"
  by (simp add: u32_at_def le_value_le32)

lemma length_uf2_block: "length chunk \<le> 476 \<Longrightarrow> length (uf2_block address chunk number nblocks) = 512"
  by (simp add: uf2_block_def)

definition u32 :: "int \<Rightarrow> bool" where
  "u32 n = (0 \<le> n \<and> n < 4294967296)"

lemma uf2_block_fields:
  assumes "length chunk \<le> 476" "u32 address" "u32 number" "u32 nblocks"
  defines "b \<equiv> uf2_block address chunk number nblocks"
  shows "u32_at b 0 = 0x0A324655" "u32_at b 4 = 0x9E5D5157" "u32_at b 508 = 0x0AB16F30"
    "u32_at b 12 = address" "u32_at b 16 = int (length chunk)" "u32_at b 20 = number"
    "u32_at b 24 = nblocks" "take (length chunk) (drop 32 b) = chunk"
proof -
  let ?m0 = "le32 0x0A324655" and ?m1 = "le32 0x9E5D5157" and ?z = "le32 0" and ?e = "le32 0x0AB16F30"
  let ?a = "le32 address" and ?l = "le32 (int (length chunk))" and ?n = "le32 number" and ?t = "le32 nblocks"
  let ?tail = "chunk @ replicate (476 - length chunk) 0"
  have u: "u32 (int (length chunk))" using assms(1) by (simp add: u32_def)
  note field = u32_at_le32 [OF _ _ conjunct1 conjunct2]
  show "u32_at b 0 = 0x0A324655"
    by (rule u32_at_le32 [where pre = "[]"]) (simp_all add: b_def uf2_block_def)
  show "u32_at b 4 = 0x9E5D5157"
    by (rule u32_at_le32 [where pre = ?m0]) (simp_all add: b_def uf2_block_def)
  show "u32_at b 508 = 0x0AB16F30"
    by (rule u32_at_le32 [where pre = "?m0 @ ?m1 @ ?z @ ?a @ ?l @ ?n @ ?t @ ?z @ ?tail"])
       (use assms(1) in \<open>simp_all add: b_def uf2_block_def\<close>)
  show "u32_at b 12 = address"
    by (rule u32_at_le32 [where pre = "?m0 @ ?m1 @ ?z"])
       (use assms(2) in \<open>simp_all add: b_def uf2_block_def u32_def\<close>)
  show "u32_at b 16 = int (length chunk)"
    by (rule u32_at_le32 [where pre = "?m0 @ ?m1 @ ?z @ ?a"])
       (use u in \<open>simp_all add: b_def uf2_block_def u32_def\<close>)
  show "u32_at b 20 = number"
    by (rule u32_at_le32 [where pre = "?m0 @ ?m1 @ ?z @ ?a @ ?l"])
       (use assms(3) in \<open>simp_all add: b_def uf2_block_def u32_def\<close>)
  show "u32_at b 24 = nblocks"
    by (rule u32_at_le32 [where pre = "?m0 @ ?m1 @ ?z @ ?a @ ?l @ ?n"])
       (use assms(4) in \<open>simp_all add: b_def uf2_block_def u32_def\<close>)
  show "take (length chunk) (drop 32 b) = chunk"
    by (simp add: b_def uf2_block_def)
qed

lemma uf2_scan_written:
  assumes "\<forall>c \<in> set cs. 1 \<le> length c \<and> length c \<le> 476" and "0 \<le> address" "0 \<le> number"
    and "address + int (length (concat cs)) < 4294967296" and "number + int (length cs) \<le> nblocks"
    and "u32 nblocks" and "declared = None \<or> declared = Some nblocks"
  shows "uf2_scan (uf2_blocks address number nblocks cs) declared acc =
     Some (if cs = [] then declared else Some nblocks, acc @ placed address cs)"
  using assms
proof (induction cs arbitrary: address number declared acc)
  case (Cons c cs)
  from Cons.prems have u: "u32 address" "u32 number" "length c \<le> 476" "1 \<le> length c" "number < nblocks"
    by (auto simp: u32_def)
  note f = uf2_block_fields [OF u(3) u(1) u(2) Cons.prems(6)]
  have "uf2_scan (uf2_blocks address number nblocks (c # cs)) declared acc =
      uf2_scan (uf2_blocks (address + int (length c)) (number + 1) nblocks cs) (Some nblocks) (acc @ [(address, c)])"
    using u Cons.prems(7) by (auto simp: f uf2_magic_def Let_def)
  also have "\<dots> = Some (Some nblocks, (acc @ [(address, c)]) @ placed (address + int (length c)) cs)"
    using Cons.prems by (subst Cons.IH) auto
  finally show ?case by simp
qed simp

lemma blocks_of_concat:
  "\<forall>b \<in> set bs. length b = n \<Longrightarrow> n > 0 \<Longrightarrow> blocks_of n (concat bs) = bs"
proof (induction bs)
  case (Cons b bs)
  then have "b \<noteq> []" by auto
  with Cons show ?case by (subst blocks_of.simps) simp
qed (simp add: blocks_of.simps)

lemma length_concat_const: "\<forall>b \<in> set bs. length b = n \<Longrightarrow> length (concat bs) = n * length bs"
  by (induction bs) auto

lemma uf2_blocks_length:
  "\<forall>c \<in> set cs. length c \<le> 476 \<Longrightarrow> \<forall>b \<in> set (uf2_blocks a n t cs). length b = 512"
  by (induction cs arbitrary: a n) (auto simp: length_uf2_block)

lemma length_uf2_blocks [simp]: "length (uf2_blocks a n t cs) = length cs"
  by (induction cs arbitrary: a n) auto

lemma length_placed [simp]: "length (placed a cs) = length cs"
  by (induction cs arbitrary: a) auto

lemma placed_range: "x \<in> set (placed a cs) \<Longrightarrow> a \<le> fst x \<and> chunk_end x \<le> a + int (length (concat cs))"
  by (induction cs arbitrary: a) (force simp: chunk_end_def)+

lemma placed_sorted: "sorted (map fst (placed a cs))"
proof (induction cs arbitrary: a)
  case (Cons c cs)
  have "\<forall>x \<in> set (placed (a + int (length c)) cs). a \<le> fst x"
    using placed_range [of _ "a + int (length c)" cs] by force
  with Cons.IH show ?case by auto
qed simp

lemma placed_last: "cs \<noteq> [] \<Longrightarrow> \<exists>x \<in> set (placed a cs). chunk_end x = a + int (length (concat cs))"
proof (induction cs arbitrary: a)
  case (Cons c cs)
  show ?case
  proof (cases cs)
    case Nil
    then show ?thesis by (simp add: chunk_end_def)
  next
    case (Cons d ds)
    then obtain x where x: "x \<in> set (placed (a + int (length c)) cs)"
        "chunk_end x = a + int (length c) + int (length (concat cs))"
      using Cons.IH [of "a + int (length c)"] by blast
    then show ?thesis by (intro bexI [of _ x]) simp_all
  qed
qed simp

lemma overlay_placed:
  "base \<le> a \<Longrightarrow> length front = nat (a - base) \<Longrightarrow>
   uf2_overlay base (placed a cs) a (front @ replicate (length (concat cs)) 0) = Some (front @ concat cs)"
proof (induction cs arbitrary: a front)
  case (Cons c cs)
  have "write_at (front @ replicate (length (concat (c # cs))) 0) (nat (a - base)) c
      = (front @ c) @ replicate (length (concat cs)) 0"
    using Cons.prems by (simp add: write_at_def)
  moreover have "length (front @ c) = nat (a + int (length c) - base)" using Cons.prems by simp
  ultimately show ?case using Cons.IH [of "a + int (length c)" "front @ c"] Cons.prems(1) by simp
qed simp

text \<open>
  C38. Round trip: the UF2 decoder recovers exactly the bytes of an image written as consecutive UF2
  blocks of at most 476 bytes, for any base address in 32 bits and any image within the 32 MiB bound.
\<close>

theorem decode_encode_uf2:
  assumes ne: "chunks \<noteq> []" and sizes: "\<forall>c \<in> set chunks. 1 \<le> length c \<and> length c \<le> 476"
    and base: "0 \<le> base" "base + int (length (concat chunks)) < 4294967296"
    and bound: "int (length (concat chunks)) \<le> max_image" "int (length chunks) < 4294967296"
  shows "decode_uf2_payload (encode_uf2 base chunks) = Some (concat chunks)"
proof -
  let ?blocks = "uf2_blocks base 0 (int (length chunks)) chunks"
  have lens: "\<forall>b \<in> set ?blocks. length b = 512" using sizes by (intro uf2_blocks_length) auto
  then have "length (concat ?blocks) = 512 * length chunks"
    using length_concat_const [of ?blocks 512] by simp
  then have len: "\<not> length (encode_uf2 base chunks) < 512" "length (encode_uf2 base chunks) mod 512 = 0"
    using ne by (auto simp: encode_uf2_def Suc_le_eq neq_Nil_conv)
  have blocks: "blocks_of 512 (encode_uf2 base chunks) = ?blocks"
    unfolding encode_uf2_def using lens by (rule blocks_of_concat) simp
  have scan: "uf2_scan ?blocks None [] = Some (Some (int (length chunks)), placed base chunks)"
    using ne sizes base bound by (subst uf2_scan_written) (auto simp: u32_def)
  have sorted: "sort_key fst (placed base chunks) = placed base chunks"
    by (rule sort_key_id_if_sorted) (rule placed_sorted)
  have hd: "fst (hd (placed base chunks)) = base" using ne by (cases chunks) auto
  have max: "Max (set (map chunk_end (placed base chunks))) = base + int (length (concat chunks))"
  proof (rule Max_eqI)
    show "base + int (length (concat chunks)) \<in> set (map chunk_end (placed base chunks))"
      using placed_last [OF ne, of base] by (metis image_eqI set_map)
  qed (use placed_range [of _ base chunks] in auto)
  have ov: "uf2_overlay base (placed base chunks) base (replicate (length (concat chunks)) 0) = Some (concat chunks)"
    using overlay_placed [of base base "[]" chunks] by simp
  show ?thesis
    unfolding decode_uf2_payload_def
    using len bound(1) by (simp add: blocks scan Let_def sorted hd max ov del: set_map)
qed

theorem decode_encode_uf2_witness:
  "decode_uf2_payload (encode_uf2 0x10000000 [[0x4B], [1, 2]]) = Some [0x4B, 1, 2]"
  using decode_encode_uf2 [of "[[0x4B], [1, 2]]" "0x10000000"] by (simp add: max_image_def)


subsection \<open>A reference Intel HEX writer\<close>

definition hex_char :: "byte \<Rightarrow> byte" where
  "hex_char n = (if n < 10 then 0x30 + n else 0x37 + n)"

definition hex_pairs :: "bytes \<Rightarrow> bytes" where
  "hex_pairs bs = concat (map (\<lambda>b. [hex_char (b div 16), hex_char (b mod 16)]) bs)"

definition be16 :: "int \<Rightarrow> bytes" where
  "be16 n = [word_of_int (n div 256), word_of_int n]"

definition with_checksum :: "bytes \<Rightarrow> bytes" where
  "with_checksum bs = bs @ [- sum_list bs]"

definition ihex_body :: "byte \<Rightarrow> int \<Rightarrow> bytes \<Rightarrow> bytes" where
  "ihex_body kind address data =
     with_checksum (word_of_int (int (length data)) # be16 address @ kind # data)"

definition ihex_line :: "byte \<Rightarrow> int \<Rightarrow> bytes \<Rightarrow> bytes" where
  "ihex_line kind address data = colon # hex_pairs (ihex_body kind address data)"

definition chunk_lines :: "int \<times> bytes \<Rightarrow> bytes list" where
  "chunk_lines c = [ihex_line 4 0 (be16 (fst c div 65536)), ihex_line 0 (fst c mod 65536) (snd c)]"

definition encode_ihex :: "int \<Rightarrow> bytes list \<Rightarrow> bytes" where
  "encode_ihex base chunks =
     concat (map (\<lambda>l. l @ [0x0A]) (concat (map chunk_lines (placed base chunks)) @ [ihex_line 1 0 []]))"

lemma hex_char_table:
  "list_all (\<lambda>n. hex_nibble (hex_char n) = Some n \<and> \<not> is_byte_space (hex_char n)
     \<and> hex_char n \<noteq> 0x0A \<and> hex_char n \<noteq> 0x0D) (map word_of_nat [0..<16])"
  by code_simp

lemma hex_char_props:
  assumes "n < 16"
  shows "hex_nibble (hex_char n) = Some n" "\<not> is_byte_space (hex_char n)"
    "hex_char n \<noteq> 0x0A" "hex_char n \<noteq> 0x0D"
proof -
  have "unat n < 16" using assms by (simp add: word_less_nat_alt)
  moreover have "n = word_of_nat (unat n)" by simp
  ultimately have "n \<in> set (map word_of_nat [0..<16])"
    by (metis atLeastLessThan_iff image_eqI set_map set_upt zero_le)
  with hex_char_table show "hex_nibble (hex_char n) = Some n" "\<not> is_byte_space (hex_char n)"
    "hex_char n \<noteq> 0x0A" "hex_char n \<noteq> 0x0D"
    unfolding list_all_iff by blast+
qed

lemma nibbles: "(b :: byte) div 16 < 16" "b mod 16 < 16" "16 * (b div 16) + b mod 16 = b"
proof -
  have "unat b < 256" using unsigned_less [of b, where ?'a = nat] by simp
  then show "b div 16 < 16" "b mod 16 < 16"
    by (simp_all add: word_less_nat_alt unat_div unat_mod)
  have "uint b < 256" using unsigned_less [of b, where ?'a = int] by simp
  then have "uint (16 * (b div 16) + b mod 16) = uint b"
    by (simp add: uint_word_ariths uint_div uint_mod mod_simps)
  then show "16 * (b div 16) + b mod 16 = b" by (simp add: word_uint_eq_iff)
qed

lemma from_hex_pairs: "from_hex (hex_pairs bs) = Some bs"
  by (induction bs) (simp_all add: hex_pairs_def hex_char_props nibbles)

lemma hex_pairs_plain: "c \<in> set (hex_pairs bs) \<Longrightarrow> c \<noteq> 0x0A \<and> c \<noteq> 0x0D"
  by (auto simp: hex_pairs_def hex_char_props nibbles)

lemma byte_lines_line:
  "\<forall>c \<in> set l. c \<noteq> 0x0A \<and> c \<noteq> 0x0D \<Longrightarrow> byte_lines (l @ 0x0A # rest) = l # byte_lines rest"
  by (induction l) (auto split: list.splits)

lemma byte_lines_of_lines:
  "\<forall>l \<in> set ls. \<forall>c \<in> set l. c \<noteq> 0x0A \<and> c \<noteq> 0x0D \<Longrightarrow> byte_lines (concat (map (\<lambda>l. l @ [0x0A]) ls)) = ls"
  by (induction ls) (auto simp: byte_lines_line)

lemma sum_uint: "sum_list (map uint bs) mod 256 = uint (sum_list bs :: byte)"
proof (induction bs)
  case (Cons b bs)
  have "sum_list (map uint (b # bs)) mod 256 = (uint b + sum_list (map uint bs) mod 256) mod 256"
    by (simp add: mod_simps)
  also have "\<dots> = uint (b + sum_list bs)" by (simp add: Cons.IH uint_word_ariths)
  finally show ?case by simp
qed simp

lemma ihex_record_line:
  assumes "length data < 256"
  shows "ihex_record (ihex_line kind address data) = Some (ihex_body kind address data)"
proof -
  have "sum_list (map uint (ihex_body kind address data)) mod 256 = 0"
    by (simp add: sum_uint) (simp add: ihex_body_def with_checksum_def)
  moreover have "uint (word_of_int (int (length data)) :: byte) = int (length data)"
    using assms by (simp only: uint_word_of_int) simp
  ultimately show ?thesis
    by (simp add: ihex_record_def ihex_line_def from_hex_pairs)
       (simp add: ihex_body_def with_checksum_def be16_def)
qed

lemma be_value_be16: "0 \<le> n \<Longrightarrow> n < 65536 \<Longrightarrow> be_value [word_of_int (n div 256), word_of_int n] = n"
proof -
  assume "0 \<le> n" "n < 65536"
  then have "n div 256 mod 256 = n div 256" by (intro mod_pos_pos_trivial) auto
  then show ?thesis by (simp add: be_value_def uint_word_of_int)
qed

lemma ihex_step_data:
  assumes "\<not> ih_ended s" "length data < 256" "0 \<le> address" "address < 65536"
  shows "ihex_step s (ihex_line 0 address data) =
     Some (s\<lparr>ih_chunks := ih_chunks s @ [(ih_base s + address, data)]\<rparr>)"
  using assms
  by (simp add: ihex_step_def ihex_record_line)
     (simp add: ihex_body_def with_checksum_def be16_def be_value_be16 butlast_append)

lemma ihex_step_base:
  assumes "\<not> ih_ended s" "0 \<le> upper" "upper < 65536"
  shows "ihex_step s (ihex_line 4 0 (be16 upper)) = Some (s\<lparr>ih_base := upper * 65536\<rparr>)"
proof -
  have "length (be16 upper) < 256" by (simp add: be16_def)
  with assms show ?thesis
    by (simp add: ihex_step_def ihex_record_line)
       (simp add: ihex_body_def with_checksum_def be16_def be_value_be16 push_bit_eq_mult)
qed

lemma ihex_step_end:
  assumes "\<not> ih_ended s"
  shows "ihex_step s (ihex_line 1 0 []) = Some (s\<lparr>ih_ended := True\<rparr>)"
  using assms
  by (simp add: ihex_step_def ihex_record_line)
     (simp add: ihex_body_def with_checksum_def be16_def)

lemma ihex_scan_append: "ihex_scan (ls @ ms) s = Option.bind (ihex_scan ls s) (ihex_scan ms)"
  by (induction ls arbitrary: s) (auto split: bind_splits)

lemma ihex_scan_chunks:
  assumes "\<forall>c \<in> set cs. length (snd c) < 256 \<and> 0 \<le> fst c \<and> fst c < 4294967296" and "\<not> ih_ended s"
  shows "\<exists>b. ihex_scan (concat (map chunk_lines cs)) s = Some (s\<lparr>ih_chunks := ih_chunks s @ cs, ih_base := b\<rparr>)"
  using assms
proof (induction cs arbitrary: s)
  case Nil
  show ?case by (intro exI [of _ "ih_base s"]) simp
next
  case (Cons c cs)
  let ?s = "s\<lparr>ih_chunks := ih_chunks s @ [c], ih_base := fst c div 65536 * 65536\<rparr>"
  have r: "0 \<le> fst c div 65536" "fst c div 65536 < 65536" "length (snd c) < 256" using Cons.prems by auto
  have "ihex_scan (chunk_lines c) s = Some ?s"
    using Cons.prems(2) r
    by (simp add: chunk_lines_def ihex_step_base ihex_step_data)
  moreover obtain b where "ihex_scan (concat (map chunk_lines cs)) ?s = Some (?s\<lparr>ih_chunks := ih_chunks ?s @ cs, ih_base := b\<rparr>)"
    using Cons.IH [of ?s] Cons.prems by auto
  ultimately show ?case by (intro exI [of _ b]) (simp add: ihex_scan_append)
qed

lemma placed_strict: "\<forall>c \<in> set cs. c \<noteq> [] \<Longrightarrow> sorted (placed a cs)"
proof (induction cs arbitrary: a)
  case (Cons c cs)
  have "0 < length c" using Cons.prems by simp
  then have "\<forall>x \<in> set (placed (a + int (length c)) cs). a < fst x"
    using placed_range [of _ "a + int (length c)" cs] by (meson ballI less_add_same_cancel1 of_nat_0_less_iff order_less_le_trans)
  then have "\<forall>x \<in> set (placed (a + int (length c)) cs). (a, c) \<le> x"
    by (auto simp: less_eq_prod_def)
  with Cons show ?case by simp
qed simp

lemma join_placed: "join_contiguous (placed a cs) a = Some (concat cs)"
  by (induction cs arbitrary: a) auto

text \<open>
  Round trip: the Intel HEX decoder recovers exactly the bytes of an image written as consecutive data
  records, each preceded by its extended linear address record, anywhere in the 32-bit address space.
\<close>

theorem decode_encode_ihex:
  assumes ne: "chunks \<noteq> []" and sizes: "\<forall>c \<in> set chunks. 1 \<le> length c \<and> length c < 256"
    and base: "0 \<le> base" "base + int (length (concat chunks)) \<le> 4294967296"
  shows "decode_ihex_payload (encode_ihex base chunks) = Some (concat chunks)"
proof -
  let ?lines = "concat (map chunk_lines (placed base chunks)) @ [ihex_line 1 0 []]"
  let ?s0 = "\<lparr>ih_chunks = [], ih_base = 0, ih_ended = False\<rparr>"
  have "\<forall>l \<in> set ?lines. \<forall>c \<in> set l. c \<noteq> 0x0A \<and> c \<noteq> 0x0D"
    by (auto simp: chunk_lines_def ihex_line_def colon_def dest: hex_pairs_plain)
  then have lines: "byte_lines (encode_ihex base chunks) = ?lines"
    unfolding encode_ihex_def by (rule byte_lines_of_lines)
  have start: "starts_with [colon] (encode_ihex base chunks)"
    using ne by (cases chunks) (simp_all add: encode_ihex_def chunk_lines_def ihex_line_def)
  have "snd ` set (placed base chunks) = set chunks" 
    by (induction chunks arbitrary: base) auto
  with sizes have small: "\<forall>c \<in> set (placed base chunks). length (snd c) < 256 \<and> 1 \<le> length (snd c)" by auto
  have "\<forall>c \<in> set (placed base chunks). length (snd c) < 256 \<and> 0 \<le> fst c \<and> fst c < 4294967296"
  proof
    fix c assume c: "c \<in> set (placed base chunks)"
    with small placed_range [OF c] base show "length (snd c) < 256 \<and> 0 \<le> fst c \<and> fst c < 4294967296"
      by (auto simp: chunk_end_def)
  qed
  from ihex_scan_chunks [OF this, of ?s0] obtain b where
    "ihex_scan (concat (map chunk_lines (placed base chunks))) ?s0 = Some (?s0\<lparr>ih_chunks := placed base chunks, ih_base := b\<rparr>)"
    by auto
  then have scan: "ihex_scan ?lines ?s0 = Some \<lparr>ih_chunks = placed base chunks, ih_base = b, ih_ended = True\<rparr>"
    by (simp add: ihex_scan_append ihex_step_end)
  have sorted: "sort (placed base chunks) = placed base chunks"
    using sizes by (intro sort_key_id_if_sorted) (auto intro!: placed_strict)
  have hd: "placed base chunks \<noteq> []" "fst (hd (placed base chunks)) = base" using ne by (cases chunks; simp)+
  show ?thesis
    using start by (simp add: decode_ihex_payload_def lines scan sorted hd join_placed)
qed

theorem decode_encode_ihex_witness:
  "decode_ihex_payload (encode_ihex 0x0800FFFF [[0x4B], [1, 2]]) = Some [0x4B, 1, 2]"
  using decode_encode_ihex [of "[[0x4B], [1, 2]]" "0x0800FFFF"] by simp

text \<open>
  Whatever bytes an adversary supplies, a UF2 image the decoder accepts reconstructs to at most
  32 MiB, every block was scanned and counted, and the chunk of every block stands in the result at its
  own address.
\<close>

theorem uf2_bounded_layout:
  assumes "decode_uf2_payload content = Some p"
  shows "int (length p) \<le> 33554432
     \<and> (\<exists>chunks base. uf2_scan (blocks_of 512 content) None [] = Some (Some (int (length chunks)), chunks)
          \<and> list_all (\<lambda>(a, c). base \<le> a \<and> a + int (length c) \<le> base + int (length p)
               \<and> slice_at p (a - base) (length c) = c) chunks)"
proof -
  from assms obtain chunks base where
    c: "uf2_scan (blocks_of 512 content) None [] = Some (Some (int (length chunks)), chunks)"
      "int (length p) \<le> max_image"
      "\<forall>(a, c) \<in> set chunks. base \<le> a \<and> a + int (length c) \<le> base + int (length p)
           \<and> slice_at p (a - base) (length c) = c"
    by (rule decode_uf2_holds)
  then have "list_all (\<lambda>(a, c). base \<le> a \<and> a + int (length c) \<le> base + int (length p)
               \<and> slice_at p (a - base) (length c) = c) chunks"
    by (auto simp: list_all_iff)
  with c show ?thesis by (auto simp: max_image_def)
qed

theorem uf2_bounded_layout_witness:
  "length [7 :: byte] \<le> 33554432 \<and> decode_uf2_payload (encode_uf2 0 [[7]]) = Some [7]"
proof -
  have d: "decode_uf2_payload (encode_uf2 0 [[7]]) = Some [7]" by code_simp
  from uf2_bounded_layout [OF d] d show ?thesis by simp
qed

end
