(* ===== verification/Firmware_Marker.thy ===== *)
theory Firmware_Marker
  imports Firmware_Image
begin

text \<open>
  \<open>artifact_contains_firmware_fingerprint\<close> of \<open>firmware/boards/kconfig.py\<close>.  The zlib
  decompressor is the parameter \<open>inflate\<close> (\<open>None\<close> for \<open>zlib.error\<close>); decoding a stream as the
  JSON identify dictionary is the parameter \<open>identify\<close>.
\<close>

text \<open>
  \<open>json.loads(decoded.decode("utf-8"))\<close>: undecodable or malformed text, a JSON value that is not
  an object (on which \<open>.get\<close> raises \<open>AttributeError\<close>), or the text of the version entry.
\<close>

datatype identify_result = Not_json | Not_an_object | Version string

datatype marker_error = Unicode_encode_error | Attribute_error

definition is_ascii :: "string \<Rightarrow> bool" where
  "is_ascii s = list_all (\<lambda>c. code_of c < 128) s"

fun scan_streams ::
    "(bytes \<Rightarrow> bytes option) \<Rightarrow> (bytes \<Rightarrow> identify_result) \<Rightarrow> string \<Rightarrow> bytes \<Rightarrow> (marker_error, bool) res" where
  "scan_streams inflate identify fingerprint [] = Inr False"
| "scan_streams inflate identify fingerprint (b # bs) =
     (if b \<noteq> 0x78 then scan_streams inflate identify fingerprint bs
      else (case inflate (b # bs) of
          None \<Rightarrow> scan_streams inflate identify fingerprint bs
        | Some decoded \<Rightarrow>
            if contains (ascii_bytes fingerprint) decoded then
              (case identify decoded of
                 Not_json \<Rightarrow> scan_streams inflate identify fingerprint bs
               | Not_an_object \<Rightarrow> Inl Attribute_error
               | Version v \<Rightarrow>
                   if firmware_version_matches v fingerprint then Inr True
                   else scan_streams inflate identify fingerprint bs)
            else scan_streams inflate identify fingerprint bs))"

fun scan_payloads ::
    "(bytes \<Rightarrow> bytes option) \<Rightarrow> (bytes \<Rightarrow> identify_result) \<Rightarrow> string \<Rightarrow> bytes option list \<Rightarrow> (marker_error, bool) res" where
  "scan_payloads inflate identify fingerprint [] = Inr False"
| "scan_payloads inflate identify fingerprint (None # ps) = scan_payloads inflate identify fingerprint ps"
| "scan_payloads inflate identify fingerprint (Some payload # ps) =
     (if contains (ascii_bytes fingerprint) payload then Inr True
      else bindE (scan_streams inflate identify fingerprint payload) (\<lambda>found.
        if found then Inr True else scan_payloads inflate identify fingerprint ps))"

definition artifact_contains_fingerprint ::
    "(bytes \<Rightarrow> bytes option) \<Rightarrow> (bytes \<Rightarrow> identify_result) \<Rightarrow> bytes \<Rightarrow> string \<Rightarrow> (marker_error, bool) res" where
  "artifact_contains_fingerprint inflate identify content fingerprint =
     require (is_ascii fingerprint) Unicode_encode_error
     (scan_payloads inflate identify fingerprint
        [Some content, decode_uf2_payload content, decode_ihex_payload content])"

subsection \<open>What a found marker means\<close>

text \<open>The images of an artifact: its bytes, and what its container unpacks to.\<close>

definition images :: "bytes \<Rightarrow> bytes set" where
  "images content = {content} \<union> set_option (decode_uf2_payload content) \<union> set_option (decode_ihex_payload content)"

definition identifies ::
    "(bytes \<Rightarrow> bytes option) \<Rightarrow> (bytes \<Rightarrow> identify_result) \<Rightarrow> bytes \<Rightarrow> string \<Rightarrow> bool" where
  "identifies inflate identify payload fingerprint =
     (\<exists>pre stream decoded v. payload = pre @ stream \<and> inflate stream = Some decoded
        \<and> identify decoded = Version v \<and> firmware_version_matches v fingerprint)"

lemma identifies_Cons: "identifies inflate identify bs f \<Longrightarrow> identifies inflate identify (b # bs) f"
  unfolding identifies_def by (metis append_Cons)

lemma identifies_here:
  "inflate s = Some d \<Longrightarrow> identify d = Version v \<Longrightarrow> firmware_version_matches v f \<Longrightarrow>
   identifies inflate identify s f"
  unfolding identifies_def by (metis append_Nil)

lemma scan_streams_True:
  "scan_streams inflate identify f payload = Inr True \<Longrightarrow> identifies inflate identify payload f"
proof (induction payload)
  case (Cons b bs)
  then show ?case
    by (auto split: if_splits option.splits identify_result.splits
        intro: identifies_Cons identifies_here)
qed simp

lemma scan_payloads_True:
  "scan_payloads inflate identify f ps = Inr True \<Longrightarrow>
   \<exists>p. Some p \<in> set ps \<and> (contains (ascii_bytes f) p \<or> identifies inflate identify p f)"
  by (induction inflate identify f ps rule: scan_payloads.induct)
     (auto simp: result_simps dest: scan_streams_True split: if_splits, blast)

lemma images_set: "Some p \<in> set [Some content, decode_uf2_payload content, decode_ihex_payload content] \<longleftrightarrow> p \<in> images content"
  by (auto simp: images_def)

text \<open>
  When the fingerprint check of a native artifact succeeds, the fingerprint stands in the raw bytes
  or in the decoded UF2 or HEX image, either in plain text or as the version of an identify dictionary
  in one of its zlib streams.
\<close>

theorem found_marker:
  assumes "artifact_contains_fingerprint inflate identify content f = Inr True"
  shows "\<exists>p \<in> images content. contains (ascii_bytes f) p \<or> identifies inflate identify p f"
proof -
  from assms have "scan_payloads inflate identify f
      [Some content, decode_uf2_payload content, decode_ihex_payload content] = Inr True"
    by (simp add: artifact_contains_fingerprint_def result_simps del: scan_payloads.simps)
  from scan_payloads_True [OF this] show ?thesis unfolding images_set by blast
qed

theorem found_marker_witness:
  "\<exists>p \<in> images [0x61, 0x62]. contains (ascii_bytes ''ab'') p \<or> identifies (\<lambda>_. None) (\<lambda>_. Not_json) p ''ab''"
  by (rule found_marker) code_simp


end
