(* ===== verification/Build_Host.thy ===== *)
theory Build_Host
  imports Py_State Kconfig_Target Firmware_Marker
begin

text \<open>
  The host of the firmware build: the commands, files and paths \<open>firmware/boards/kconfig.py\<close>
  uses, as fields of \<open>build_host\<close> over an arbitrary world \<open>'w\<close>; every one may raise.  Over
  it: running one command with its evidence, and the disk-space and workspace helpers of
  \<open>core/workspace.py\<close>.  Progress reports and phase timers only present the build and are left
  out.  \<open>bh_read_text\<close> reads a text file with universal newlines, \<open>bh_read_raw\<close> decodes its
  bytes, \<open>bh_unlink\<close> ignores a missing file.  Paths are absolute texts; an expanded and resolved path has no \<open>..\<close> and no trailing
  slash.
\<close>

datatype host_exn = Os_error string | Other_exn string

datatype build_exn =
  Build_exn build_error | Host_exn host_exn | Marker_exn marker_error | Model_exn model_error

type_synonym env = "(string, string) dict"

record completed =
  cr_returncode :: int
  cr_stdout :: string
  cr_stderr :: string

record 'w build_host =
  bh_environ :: env
  bh_legacy_klipper :: string
  bh_cache_directory :: "('w, host_exn, string) action"
  bh_run :: "string list \<Rightarrow> string \<Rightarrow> env \<Rightarrow> ('w, host_exn, completed) action"
  bh_resolve :: "string \<Rightarrow> ('w, host_exn, string) action"
  bh_mkdirs :: "string \<Rightarrow> ('w, host_exn, unit) action"
  bh_mkdir :: "string \<Rightarrow> ('w, host_exn, unit) action"
  bh_disk_free :: "string \<Rightarrow> ('w, host_exn, int) action"
  bh_disk_backed :: "string \<Rightarrow> ('w, host_exn, unit) action"
  bh_lock :: "string \<Rightarrow> ('w, host_exn, unit) action"
  bh_unlock :: "string \<Rightarrow> ('w, host_exn, unit) action"
  bh_is_file :: "string \<Rightarrow> ('w, host_exn, bool) action"
  bh_is_dir :: "string \<Rightarrow> ('w, host_exn, bool) action"
  bh_is_symlink :: "string \<Rightarrow> ('w, host_exn, bool) action"
  bh_exists :: "string \<Rightarrow> ('w, host_exn, bool) action"
  bh_lexists :: "string \<Rightarrow> ('w, host_exn, bool) action"
  bh_read_text :: "string \<Rightarrow> ('w, host_exn, string) action"
  bh_read_raw :: "string \<Rightarrow> ('w, host_exn, string) action"
  bh_read_bytes :: "string \<Rightarrow> ('w, host_exn, bytes) action"
  bh_write_text :: "string \<Rightarrow> string \<Rightarrow> ('w, host_exn, unit) action"
  bh_copyfile :: "string \<Rightarrow> string \<Rightarrow> ('w, host_exn, unit) action"
  bh_replace :: "string \<Rightarrow> string \<Rightarrow> ('w, host_exn, unit) action"
  bh_unlink :: "string \<Rightarrow> ('w, host_exn, unit) action"
  bh_rmtree :: "string \<Rightarrow> ('w, host_exn, unit) action"
  bh_kconfig_files :: "string \<Rightarrow> ('w, host_exn, string list) action"
  bh_uuid :: "('w, host_exn, string) action"
  bh_cpu_count :: "('w, host_exn, int) action"
  bh_pi_model :: "('w, host_exn, string) action"
  bh_memory :: "('w, host_exn, int option) action"
  bh_wrapper_source :: string

text \<open>The state of a build: the world, and the commands that were run, oldest first.\<close>

record 'w build_state =
  bs_world :: 'w
  bs_commands :: "string list list"

type_synonym ('w, 'a) build = "('w build_state, build_exn, 'a) action"

definition hostS :: "('w, host_exn, 'a) action \<Rightarrow> ('w, 'a) build" where
  "hostS m s = (case m (bs_world s) of
     (Inl e, w) \<Rightarrow> (Inl (Host_exn e), s\<lparr>bs_world := w\<rparr>)
   | (Inr x, w) \<Rightarrow> (Inr x, s\<lparr>bs_world := w\<rparr>))"

definition failS :: "build_error \<Rightarrow> ('w, 'a) build" where
  "failS e = raiseS (Build_exn e)"

definition mapI :: "('e \<Rightarrow> 'f) \<Rightarrow> ('e, 'a) res \<Rightarrow> ('f, 'a) res" where
  "mapI f r = (case r of Inl e \<Rightarrow> Inl (f e) | Inr x \<Rightarrow> Inr x)"

definition pureS :: "(build_error, 'a) res \<Rightarrow> ('w, 'a) build" where
  "pureS r = liftS (mapI Build_exn r)"

lemma hostS_eq [state_simps]:
  "hostS m s = (Inr x, s') \<longleftrightarrow> (\<exists>w. m (bs_world s) = (Inr x, w) \<and> s' = s\<lparr>bs_world := w\<rparr>)"
  by (auto simp: hostS_def split: prod.splits sum.splits)

lemma mapI_eq [result_simps]: "mapI f r = Inr x \<longleftrightarrow> r = Inr x"
  by (auto simp: mapI_def split: sum.splits)

lemma pureS_eq [state_simps]: "pureS r s = (Inr x, s') \<longleftrightarrow> r = Inr x \<and> s' = s"
  by (auto simp: pureS_def state_simps result_simps)

lemma failS_eq [state_simps]: "failS e s = (Inr x, s') \<longleftrightarrow> False"
  by (simp add: failS_def state_simps)

subsection \<open>Paths\<close>

definition path_join :: "string \<Rightarrow> string \<Rightarrow> string" where
  "path_join a b = a @ ''/'' @ b"

definition path_name :: "string \<Rightarrow> string" where
  "path_name p = last (split_char CHR ''/'' p)"

text \<open>\<open>path.relative_to(root)\<close> does not raise.\<close>

definition path_within :: "string \<Rightarrow> string \<Rightarrow> bool" where
  "path_within root p = (p = root \<or> starts_with (root @ ''/'') p)"

definition reject_legacy_path :: "'w build_host \<Rightarrow> string \<Rightarrow> string \<Rightarrow> ('w, unit) build" where
  "reject_legacy_path h p field_name =
     bindS (hostS (bh_resolve h p)) (\<lambda>resolved.
     requireS (\<not> path_within (bh_legacy_klipper h) resolved)
       (Build_exn (Checkout_error (field_name @ '' may not use or write under ~/klipper''))))"

subsection \<open>Commands\<close>

record command_proof =
  cp_argv :: "string list"
  cp_returncode :: int
  cp_stdout_sha256 :: string
  cp_stderr_sha256 :: string
  cp_stdout_tail :: string
  cp_stderr_tail :: string

definition command_ok :: "command_proof \<Rightarrow> bool" where
  "command_ok p = (cp_returncode p = 0)"

definition contains_shell_syntax :: "string \<Rightarrow> bool" where
  "contains_shell_syntax v = any_in shell_markers v"

definition tail_of :: "string \<Rightarrow> string" where
  "tail_of s = drop (length s - 4000) s"

definition executeS ::
    "(string \<Rightarrow> string) \<Rightarrow> 'w build_host \<Rightarrow> string list \<Rightarrow> string \<Rightarrow> env
     \<Rightarrow> ('w, command_proof \<times> completed) build" where
  "executeS sha h argv cwd environment =
     bindS (requireS (\<not> list_ex contains_shell_syntax argv)
              (Build_exn (Board_build_error ''command argv contains shell syntax''))) (\<lambda>_.
     bindS (modifyS (\<lambda>s. s\<lparr>bs_commands := bs_commands s @ [argv]\<rparr>)) (\<lambda>_.
     bindS (hostS (bh_run h argv cwd environment)) (\<lambda>c.
     returnS (\<lparr>cp_argv = argv, cp_returncode = cr_returncode c,
        cp_stdout_sha256 = sha (cr_stdout c), cp_stderr_sha256 = sha (cr_stderr c),
        cp_stdout_tail = tail_of (cr_stdout c), cp_stderr_tail = tail_of (cr_stderr c)\<rparr>, c))))"

definition runS ::
    "(string \<Rightarrow> string) \<Rightarrow> 'w build_host \<Rightarrow> string list \<Rightarrow> string \<Rightarrow> env \<Rightarrow> ('w, command_proof) build" where
  "runS sha h argv cwd environment = bindS (executeS sha h argv cwd environment) (\<lambda>(p, _). returnS p)"

definition is_no_space_error :: "string \<Rightarrow> bool" where
  "is_no_space_error detail =
     any_in [''no space left on device'', ''enospc'', ''out of diskspace'', ''disk full''] (py_lower detail)"

text \<open>The message of \<open>BuildCommandError\<close>.\<close>

definition build_command_message :: "string \<Rightarrow> command_proof \<Rightarrow> string" where
  "build_command_message phase p =
     (if is_no_space_error (cp_stderr_tail p) \<or> is_no_space_error (cp_stdout_tail p)
      then phase @ '' failed because the build workspace ran out of disk space. Free space on the workspace filesystem or set KACE_CACHE_HOME to a larger disk.''
      else (let detail = (if cp_stderr_tail p \<noteq> [] then cp_stderr_tail p else cp_stdout_tail p) in
        phase @ '' failed with exit code '' @ show_int (cp_returncode p)
          @ (if detail \<noteq> [] then '': '' @ detail else [])))"

text \<open>A command whose failure ends the build.\<close>

definition run_okS ::
    "(string \<Rightarrow> string) \<Rightarrow> 'w build_host \<Rightarrow> string \<Rightarrow> string list \<Rightarrow> string \<Rightarrow> env \<Rightarrow> ('w, command_proof) build" where
  "run_okS sha h phase argv cwd environment =
     bindS (runS sha h argv cwd environment) (\<lambda>p.
     bindS (requireS (command_ok p) (Build_exn (Build_command_error (build_command_message phase p)))) (\<lambda>_. returnS p))"

subsection \<open>Workspaces\<close>

definition gib :: int where "gib = 1024 ^ 3"

definition ensure_free_space :: "'w build_host \<Rightarrow> string \<Rightarrow> int \<Rightarrow> string \<Rightarrow> ('w, unit) build" where
  "ensure_free_space h directory required phase =
     bindS (hostS (bh_resolve h directory)) (\<lambda>p.
     bindS (hostS (bh_mkdirs h p)) (\<lambda>_.
     bindS (hostS (bh_disk_free h p)) (\<lambda>available.
     requireS (required \<le> available) (Host_exn (Other_exn (''Insufficient disk space for '' @ phase))))))"

definition exclusive_file_lock :: "'w build_host \<Rightarrow> string \<Rightarrow> ('w, 'a) build \<Rightarrow> ('w, 'a) build" where
  "exclusive_file_lock h p body =
     bindS (hostS (bh_lock h p)) (\<lambda>_. finallyS body (hostS (bh_unlock h p)))"

text \<open>\<open>shutil.rmtree(path, ignore_errors=True)\<close>.\<close>

definition rmtreeS :: "'w build_host \<Rightarrow> string \<Rightarrow> ('w, unit) build" where
  "rmtreeS h p = catchS (hostS (bh_rmtree h p)) (\<lambda>_. returnS ())"

definition heavy_workspace ::
    "'w build_host \<Rightarrow> string \<Rightarrow> string option \<Rightarrow> (string \<Rightarrow> ('w, 'a) build) \<Rightarrow> ('w, 'a) build" where
  "heavy_workspace h prefix parent body =
     bindS (case parent of
              Some p \<Rightarrow> hostS (bh_resolve h p)
            | None \<Rightarrow> bindS (hostS (bh_cache_directory h)) (\<lambda>c. returnS (path_join c ''workspaces''))) (\<lambda>root.
     bindS (hostS (bh_mkdirs h root)) (\<lambda>_.
     bindS (hostS (bh_disk_backed h root)) (\<lambda>_.
     bindS (hostS (bh_uuid h)) (\<lambda>u.
     let workspace = path_join root (prefix @ u) in
     bindS (hostS (bh_mkdir h workspace)) (\<lambda>_.
     finallyS (body workspace) (rmtreeS h workspace))))))"

end
