(* ===== verification/Build_Source.thy ===== *)
theory Build_Source
  imports Build_Host
begin

text \<open>
  The source half of \<open>BoardContractKconfigBuilder\<close>: the verified bare cache of the Klipper
  repository, its atomic replacement, and the isolated checkout at the pinned commit.
\<close>

record build_context =
  cx_output_directory :: string
  cx_staging_parent :: string
  cx_source_checkout :: string
  cx_git_command :: "string list"
  cx_make_command :: "string list"
  cx_concurrency :: "int option"
  cx_environment_path :: string
  cx_allow_lto_retry :: bool

text \<open>
  \<open>__post_init__\<close>; an absent optional text is the empty one, which the code treats alike.  The
  two progress fields are left out with the reports they govern.
\<close>

definition command_prefix_ok :: "string list \<Rightarrow> bool" where
  "command_prefix_ok command = (command \<noteq> [] \<and> list_all (\<lambda>item. item \<noteq> []) command)"

definition check_context :: "build_context \<Rightarrow> (string, unit) res" where
  "check_context cx =
     require (cx_output_directory cx \<noteq> []) ''output_directory is required''
     (bindE (mapE (\<lambda>(name, command).
         require (command_prefix_ok command) (name @ '' must be a non-empty argv prefix'')
         (require (\<not> list_ex contains_shell_syntax command) (name @ '' may not contain shell syntax'')
         (Inr ()))) [(''git_command'', cx_git_command cx), (''make_command'', cx_make_command cx)]) (\<lambda>_.
     require (case cx_concurrency cx of Some n \<Rightarrow> 1 \<le> n | None \<Rightarrow> True) ''concurrency must be positive''
     (Inr ())))"

definition build_environment :: "'w build_host \<Rightarrow> build_context \<Rightarrow> env" where
  "build_environment h cx =
     (let e1 = filter (\<lambda>(k, v). k \<noteq> ''KCONFIG_CONFIG'') (bh_environ h);
          e2 = (if cx_environment_path cx \<noteq> [] then dict_set e1 ''PATH'' (cx_environment_path cx) else e1) in
      dict_set e2 ''LC_ALL'' ''C'')"

definition source_cache_path :: "(string \<Rightarrow> string) \<Rightarrow> 'w build_host \<Rightarrow> string \<Rightarrow> ('w, string \<times> string) build" where
  "source_cache_path sha h repository =
     bindS (hostS (bh_cache_directory h)) (\<lambda>c.
     let parent = path_join c ''sources'' in
     returnS (parent, path_join parent (''klipper-'' @ take 20 (sha repository) @ ''.git'')))"

subsection \<open>Validating the cache\<close>

datatype cache_check = Check_bare | Check_repository | Check_commit | Check_integrity

definition cache_check_argv :: "build_context \<Rightarrow> string \<Rightarrow> string \<Rightarrow> cache_check \<Rightarrow> string list" where
  "cache_check_argv cx cache commit k = cx_git_command cx @ [''--git-dir'', cache] @ (case k of
     Check_bare \<Rightarrow> [''rev-parse'', ''--is-bare-repository'']
   | Check_repository \<Rightarrow> [''config'', ''--get'', ''kace.repository'']
   | Check_commit \<Rightarrow> [''cat-file'', ''-e'', commit @ ''^{commit}'']
   | Check_integrity \<Rightarrow> [''fsck'', ''--full'', ''--no-dangling'', commit])"

text \<open>\<open>None\<close> is a valid cache, \<open>Some reason\<close> the failed check.\<close>

fun run_cache_checks ::
    "(string \<Rightarrow> string) \<Rightarrow> 'w build_host \<Rightarrow> build_context \<Rightarrow> string \<Rightarrow> string \<Rightarrow> string \<Rightarrow> string \<Rightarrow> env
     \<Rightarrow> cache_check list \<Rightarrow> ('w, string option) build" where
  "run_cache_checks sha h cx parent cache repository commit environment [] = returnS None"
| "run_cache_checks sha h cx parent cache repository commit environment (k # ks) =
     bindS (executeS sha h (cache_check_argv cx cache commit k) parent environment) (\<lambda>(p, c).
     let out = py_strip (cr_stdout c) in
     if \<not> command_ok p then returnS (Some ''check failed'')
     else if k = Check_bare \<and> out \<noteq> ''true'' then returnS (Some ''not a bare repository'')
     else if k = Check_repository \<and> out \<noteq> repository then returnS (Some ''belongs to another repository'')
     else run_cache_checks sha h cx parent cache repository commit environment ks)"

definition validate_source_cache ::
    "(string \<Rightarrow> string) \<Rightarrow> 'w build_host \<Rightarrow> build_context \<Rightarrow> string \<Rightarrow> string \<Rightarrow> string \<Rightarrow> string \<Rightarrow> env
     \<Rightarrow> ('w, string option) build" where
  "validate_source_cache sha h cx parent cache repository commit environment =
     bindS (hostS (bh_is_symlink h cache)) (\<lambda>link.
     if link then returnS (Some ''is a symbolic link'')
     else bindS (hostS (bh_is_dir h cache)) (\<lambda>dir.
       if \<not> dir then returnS (Some ''absent or not a directory'')
       else run_cache_checks sha h cx parent cache repository commit environment
              [Check_bare, Check_repository, Check_commit, Check_integrity]))"

subsection \<open>Rebuilding the cache\<close>

definition remove_cache_path :: "'w build_host \<Rightarrow> string \<Rightarrow> ('w, unit) build" where
  "remove_cache_path h p =
     bindS (hostS (bh_is_symlink h p)) (\<lambda>link.
     if link then hostS (bh_unlink h p)
     else bindS (hostS (bh_is_dir h p)) (\<lambda>dir.
       if dir then rmtreeS h p else hostS (bh_unlink h p)))"

definition install_cache :: "'w build_host \<Rightarrow> string \<Rightarrow> string \<Rightarrow> string \<Rightarrow> ('w, unit) build" where
  "install_cache h temporary quarantine cache =
     bindS (hostS (bh_lexists h cache)) (\<lambda>previous_exists.
     bindS (whenS previous_exists (hostS (bh_replace h cache quarantine))) (\<lambda>_.
     bindS (catchS (hostS (bh_replace h temporary cache)) (\<lambda>e.
       bindS (if previous_exists then
                bindS (hostS (bh_lexists h quarantine)) (\<lambda>q.
                if q then bindS (hostS (bh_lexists h cache)) (\<lambda>c. returnS (\<not> c)) else returnS False)
              else returnS False) (\<lambda>restore.
       bindS (whenS restore (hostS (bh_replace h quarantine cache))) (\<lambda>_. raiseS e)))) (\<lambda>_.
     remove_cache_path h quarantine)))"

definition rebuild_source_cache ::
    "(string \<Rightarrow> string) \<Rightarrow> 'w build_host \<Rightarrow> build_context \<Rightarrow> string \<Rightarrow> string \<Rightarrow> string \<Rightarrow> string \<Rightarrow> string \<Rightarrow> env
     \<Rightarrow> ('w, unit) build" where
  "rebuild_source_cache sha h cx parent cache source repository commit environment =
     bindS (hostS (bh_uuid h)) (\<lambda>u1.
     bindS (hostS (bh_uuid h)) (\<lambda>u2.
     let temporary = path_join parent (''.'' @ path_name cache @ ''.'' @ u1 @ ''.tmp'');
         quarantine = path_join parent (''.'' @ path_name cache @ ''.'' @ u2 @ ''.invalid'') in
     bindS (remove_cache_path h temporary) (\<lambda>_.
     finallyS
       (bindS (run_okS sha h ''git clone source cache''
          (cx_git_command cx @ [''clone'', ''--mirror'', ''--no-hardlinks'', source, temporary]) parent environment) (\<lambda>_.
        bindS (run_okS sha h ''git bind source cache''
          (cx_git_command cx @ [''--git-dir'', temporary, ''config'', ''kace.repository'', repository])
          parent environment) (\<lambda>_.
        bindS (validate_source_cache sha h cx parent temporary repository commit environment) (\<lambda>reason.
        bindS (requireS (reason = None)
          (Build_exn (Checkout_error ''rebuilt Klipper cache does not contain an intact validated commit''))) (\<lambda>_.
        install_cache h temporary quarantine cache)))))
       (remove_cache_path h temporary))))"

subsection \<open>The isolated checkout\<close>

definition prepare_checkout ::
    "(string \<Rightarrow> string) \<Rightarrow> 'w build_host \<Rightarrow> build_context \<Rightarrow> string \<Rightarrow> string \<Rightarrow> board_contract \<Rightarrow> ('w, unit) build" where
  "prepare_checkout sha h cx staging checkout contract =
     (let repository = um_repository (bc_upstream contract);
          commit = um_validated_commit (bc_upstream contract);
          source = (if cx_source_checkout cx \<noteq> [] then cx_source_checkout cx else repository);
          environment = build_environment h cx in
      bindS (whenS (cx_source_checkout cx \<noteq> []) (reject_legacy_path h (cx_source_checkout cx) ''source_checkout'')) (\<lambda>_.
      bindS (source_cache_path sha h repository) (\<lambda>(parent, cache).
      bindS (hostS (bh_mkdirs h parent)) (\<lambda>_.
      bindS (ensure_free_space h parent gib ''Klipper source cache'') (\<lambda>_.
      bindS (exclusive_file_lock h (cache @ ''.lock'')
        (bindS (validate_source_cache sha h cx parent cache repository commit environment) (\<lambda>reason.
         whenS (reason \<noteq> None)
           (rebuild_source_cache sha h cx parent cache source repository commit environment)))) (\<lambda>_.
      bindS (run_okS sha h ''git init isolated checkout''
        (cx_git_command cx @ [''init'', ''--quiet'', checkout]) staging environment) (\<lambda>_.
      bindS (run_okS sha h ''git fetch from verified cache''
        (cx_git_command cx @ [''fetch'', ''--quiet'', ''--no-tags'', cache, ''+'' @ commit @ '':refs/kace/validated''])
        checkout environment) (\<lambda>_.
      bindS (ensure_free_space h staging (2 * gib) ''Klipper checkout'') (\<lambda>_.
      bindS (run_okS sha h ''git checkout'' (cx_git_command cx @ [''checkout'', ''--detach'', commit])
        checkout environment) (\<lambda>_.
      returnS ()))))))))))"

definition read_checkout_commit ::
    "(string \<Rightarrow> string) \<Rightarrow> 'w build_host \<Rightarrow> build_context \<Rightarrow> string \<Rightarrow> ('w, string) build" where
  "read_checkout_commit sha h cx checkout =
     bindS (executeS sha h (cx_git_command cx @ [''rev-parse'', ''HEAD'']) checkout (build_environment h cx)) (\<lambda>(p, c).
     bindS (requireS (command_ok p) (Build_exn (Build_command_error (build_command_message ''git rev-parse'' p)))) (\<lambda>_.
     let commit = py_lower (py_strip (cr_stdout c)) in
     bindS (requireS (commit_re commit) (Build_exn (Checkout_error ''git returned invalid commit identity''))) (\<lambda>_.
     returnS commit)))"

definition verify_checkout_clean ::
    "(string \<Rightarrow> string) \<Rightarrow> 'w build_host \<Rightarrow> build_context \<Rightarrow> string \<Rightarrow> ('w, unit) build" where
  "verify_checkout_clean sha h cx checkout =
     bindS (executeS sha h (cx_git_command cx @ [''status'', ''--porcelain'', ''--untracked-files=all''])
       checkout (build_environment h cx)) (\<lambda>(p, c).
     bindS (requireS (command_ok p)
       (Build_exn (Build_command_error (build_command_message ''git status isolated checkout'' p)))) (\<lambda>_.
     requireS (py_strip (cr_stdout c) = [])
       (Build_exn (Checkout_error ''isolated Klipper checkout is dirty before configuration''))))"

end
