(* ===== verification/Build_Pipeline.thy ===== *)
theory Build_Pipeline
  imports Build_Source Board_Resolver
begin

text \<open>
  The build half of \<open>BoardContractKconfigBuilder\<close> in \<open>firmware/boards/kconfig.py\<close>: the
  declared Kconfig symbols, the configuration, the compilation with its single retry without
  LTO, and the immutable \<open>BuildProof\<close>.  The JSON reading of one compiler-audit line is the
  parameter \<open>audit_line\<close>.
\<close>

subsection \<open>Declared Kconfig symbols\<close>

text \<open>One match of \<open>^\s*(?:menu)?config\s+([A-Za-z0-9_]+)\s*$\<close> at a line start.\<close>

definition match_config :: "string \<Rightarrow> (string \<times> string) option" where
  "match_config s =
     (let s1 = py_lstrip s;
          r = (if starts_with ''menuconfig'' s1 then drop 10 s1
               else if starts_with ''config'' s1 then drop 6 s1 else []);
          r1 = py_lstrip r; r2 = dropWhile is_word r1;
          r3 = dropWhile (\<lambda>c. py_is_space c \<and> c \<noteq> CHR 0x0A) r2 in
      if r \<noteq> [] \<and> py_is_space (hd r) \<and> takeWhile is_word r1 \<noteq> [] \<and> (r3 = [] \<or> hd r3 = CHR 0x0A)
      then Some (takeWhile is_word r1, r3) else None)"

lemma match_config_shorter: "match_config s = Some (w, r) \<Longrightarrow> length r < length s"
proof -
  assume m: "match_config s = Some (w, r)"
  define s1 where "s1 = py_lstrip s"
  define t where "t = (if starts_with ''menuconfig'' s1 then drop 10 s1
     else if starts_with ''config'' s1 then drop 6 s1 else [])"
  from m have t: "t \<noteq> []" and r: "r = dropWhile (\<lambda>c. py_is_space c \<and> c \<noteq> CHR 0x0A) (dropWhile is_word (py_lstrip t))"
    by (auto simp: match_config_def Let_def s1_def t_def split: if_splits)
  have "length r \<le> length t"
    unfolding r py_lstrip_def by (meson le_trans length_dropWhile_le)
  also from t have "length t < length s1" by (auto simp: t_def split: if_splits)
  also have "length s1 \<le> length s" by (simp add: s1_def py_lstrip_def length_dropWhile_le)
  finally show ?thesis .
qed

function find_configs :: "bool \<Rightarrow> string \<Rightarrow> string list" where
  "find_configs at_start s =
     (case (if at_start then match_config s else None) of
        Some (w, r) \<Rightarrow> w # find_configs False r
      | None \<Rightarrow> (case s of [] \<Rightarrow> [] | c # cs \<Rightarrow> find_configs (c = CHR 0x0A) cs))"
  by pat_completeness auto

termination
  by (relation "measure (\<lambda>(at_start, s). length s)") (auto split: if_splits dest: match_config_shorter)

declare find_configs.simps [simp del]

definition read_kconfig_source :: "'w build_host \<Rightarrow> string \<Rightarrow> ('w, string) build" where
  "read_kconfig_source h p = catchS (hostS (bh_read_text h p)) (\<lambda>e. case e of
     Host_exn (Os_error m) \<Rightarrow> failS (Kconfig_error (''cannot read Kconfig source '' @ p))
   | _ \<Rightarrow> raiseS e)"

definition collect_declared_kconfig_symbols :: "'w build_host \<Rightarrow> string \<Rightarrow> ('w, string set) build" where
  "collect_declared_kconfig_symbols h checkout =
     bindS (hostS (bh_kconfig_files h checkout)) (\<lambda>files.
     bindS (mapS (read_kconfig_source h) files) (\<lambda>texts.
     let declared = set (map ((@) ''CONFIG_'') (concat (map (find_configs True) texts))) in
     bindS (requireS (declared \<noteq> {})
       (Build_exn (Kconfig_error ''checkout contains no readable Klipper Kconfig symbols''))) (\<lambda>_.
     returnS declared)))"

subsection \<open>Toolchain and compiler audit\<close>

definition compiler_of :: "string \<Rightarrow> string option" where
  "compiler_of architecture = map_of
     [(''stm32'', ''arm-none-eabi-gcc''), (''lpc176x'', ''arm-none-eabi-gcc''),
      (''rpxxxx'', ''arm-none-eabi-gcc''), (''atsam'', ''arm-none-eabi-gcc''),
      (''atsamd'', ''arm-none-eabi-gcc''), (''avr'', ''avr-gcc''), (''linux'', ''gcc'')] architecture"

definition compiler_names :: "string list" where
  "compiler_names = [''arm-none-eabi-gcc'', ''avr-gcc'', ''gcc'']"

definition first_output_line :: "completed \<Rightarrow> string" where
  "first_output_line c =
     (let out = (if cr_stdout c \<noteq> [] then cr_stdout c else cr_stderr c) in
      case py_splitlines (py_strip out) of [] \<Rightarrow> [] | l # _ \<Rightarrow> py_strip l)"

definition identify_toolchain ::
    "(string \<Rightarrow> string) \<Rightarrow> 'w build_host \<Rightarrow> build_context \<Rightarrow> string \<Rightarrow> hardware_variant \<Rightarrow> env
     \<Rightarrow> ('w, toolchain_identity) build" where
  "identify_toolchain sha h cx checkout variant environment =
     (case compiler_of (ps_architecture (hv_processor variant)) of
        None \<Rightarrow> failS (Board_build_error ''no compiler identity mapping'')
      | Some compiler \<Rightarrow>
          bindS (executeS sha h (cx_make_command cx @ [''--version'']) checkout environment) (\<lambda>(p, c).
          bindS (requireS (command_ok p)
            (Build_exn (Build_command_error (build_command_message ''make toolchain identity'' p)))) (\<lambda>_.
          bindS (executeS sha h [compiler, ''--version''] checkout environment) (\<lambda>(p', c').
          bindS (requireS (command_ok p')
            (Build_exn (Build_command_error (build_command_message ''compiler toolchain identity'' p')))) (\<lambda>_.
          bindS (requireS (first_output_line c \<noteq> [] \<and> first_output_line c' \<noteq> [])
            (Build_exn (Board_build_error ''toolchain identity returned an empty version''))) (\<lambda>_.
          returnS \<lparr>ti_make_command = join_with '' '' (cx_make_command cx),
             ti_make_version = first_output_line c, ti_compiler = compiler,
             ti_compiler_version = first_output_line c'\<rparr>))))))"

definition prepare_compiler_audit :: "'w build_host \<Rightarrow> string \<Rightarrow> ('w, string \<times> string) build" where
  "prepare_compiler_audit h staging =
     bindS (hostS (bh_is_file h (bh_wrapper_source h))) (\<lambda>present.
     bindS (requireS present (Build_exn (Board_build_error ''trusted compiler wrapper is absent''))) (\<lambda>_.
     let wrappers = path_join staging ''trusted-board-contract-wrappers'';
         flags_log = path_join staging ''compiler-flags.jsonl'' in
     bindS (hostS (bh_mkdir h wrappers)) (\<lambda>_.
     bindS (eachS (\<lambda>c. hostS (bh_copyfile h (bh_wrapper_source h) (path_join wrappers c))) compiler_names) (\<lambda>_.
     bindS (hostS (bh_write_text h flags_log [])) (\<lambda>_.
     returnS (wrappers, flags_log))))))"

definition is_lto_flag :: "string \<Rightarrow> bool" where
  "is_lto_flag a = (starts_with ''-flto'' a \<or> a \<in> {''-fwhole-program'', ''-fno-use-linker-plugin''})"

text \<open>
  The lists of one audit entry: \<open>None\<close> for a line \<open>json.loads\<close> rejects; a \<open>None\<close> list for a
  value that is not a list of strings.
\<close>

type_synonym audit_entry = "string list option \<times> string list option"

fun read_flag_lines ::
    "(string \<Rightarrow> audit_entry option) \<Rightarrow> string list \<Rightarrow> string list \<Rightarrow> string list
     \<Rightarrow> (build_error, string list \<times> string list) res" where
  "read_flag_lines audit_line [] req eff = Inr (sort (remdups req), sort (remdups eff))"
| "read_flag_lines audit_line (line # ls) req eff =
     (if py_strip line = [] then read_flag_lines audit_line ls req eff
      else (case audit_line line of
          Some (Some r, Some e) \<Rightarrow>
            read_flag_lines audit_line ls (req @ filter (starts_with ''-'') r) (eff @ filter (starts_with ''-'') e)
        | None \<Rightarrow> Inl (Board_build_error ''invalid compiler flag audit'')
        | _ \<Rightarrow> Inl (Board_build_error ''compiler flag audit has an invalid argv'')))"

definition read_compiler_flags ::
    "(string \<Rightarrow> audit_entry option) \<Rightarrow> 'w build_host \<Rightarrow> string \<Rightarrow> ('w, string list \<times> string list) build" where
  "read_compiler_flags audit_line h p =
     bindS (catchS (hostS (bh_read_text h p)) (\<lambda>e. case e of
        Host_exn (Os_error m) \<Rightarrow> failS (Board_build_error ''cannot read compiler flag audit'')
      | _ \<Rightarrow> raiseS e)) (\<lambda>content.
     pureS (read_flag_lines audit_line (py_splitlines content) [] []))"

definition is_lto_failure :: "command_proof \<Rightarrow> bool" where
  "is_lto_failure p = any_in [''ltrans'', ''lto-wrapper'', ''cannot find /tmp/cc'']
     (py_lower (cp_stdout_tail p @ newline @ cp_stderr_tail p))"

definition identity_exn :: "identity_error \<Rightarrow> build_exn" where
  "identity_exn e = (case e of
     Firmware_identity_error m \<Rightarrow> Build_exn (Artifact_validation_error m)
   | Identity_outside_model \<Rightarrow> Build_exn (Text_outside_model []))"

definition inject_firmware_fingerprint :: "'w build_host \<Rightarrow> string \<Rightarrow> string \<Rightarrow> ('w, unit) build" where
  "inject_firmware_fingerprint h checkout fingerprint =
     (let makefile = path_join checkout ''Makefile'' in
      bindS (hostS (bh_is_file h makefile)) (\<lambda>present.
      bindS (requireS present (Build_exn (Artifact_validation_error ''Klipper Makefile is absent''))) (\<lambda>_.
      bindS (hostS (bh_read_text h makefile)) (\<lambda>content.
      bindS (liftS (mapI identity_exn (fingerprint_makefile content fingerprint))) (\<lambda>patched.
      hostS (bh_write_text h makefile patched))))))"

subsection \<open>The build proof\<close>

record build_proof =
  bp_schema :: string
  bp_board_id :: string
  bp_hardware_variant_id :: string
  bp_build_target_id :: string
  bp_contract_digest :: string
  bp_klipper_commit :: string
  bp_requested_config_path :: string
  bp_requested_config_sha256 :: string
  bp_resolved_config_path :: string
  bp_resolved_config_sha256 :: string
  bp_artifact_path :: string
  bp_artifact_sha256 :: string
  bp_artifact_size :: int
  bp_olddefconfig :: command_proof
  bp_requested_selections :: verification_proof
  bp_resolved_assertions :: verification_proof
  bp_build :: command_proof
  bp_build_attempts :: "command_proof list"
  bp_lto_retry_used :: bool
  bp_toolchain :: toolchain_identity
  bp_requested_flags :: "string list"
  bp_effective_flags :: "string list"
  bp_lto_requested :: bool
  bp_lto_effective :: bool
  bp_fallback_used :: bool
  bp_fallback_reason :: string
  bp_build_id :: string
  bp_firmware_fingerprint :: string
  bp_embedded_fingerprint_verified :: bool

text \<open>What the configure phase hands to the later ones.\<close>

record configured =
  cf_requested_text :: string
  cf_resolved_text :: string
  cf_olddefconfig :: command_proof
  cf_selection_proof :: verification_proof
  cf_assertion_proof :: verification_proof
  cf_toolchain :: toolchain_identity
  cf_flags_log :: string
  cf_environment :: env
  cf_build_id :: string
  cf_fingerprint :: string
  cf_build_argv :: "string list"

definition choose_jobs :: "'w build_host \<Rightarrow> build_context \<Rightarrow> ('w, int) build" where
  "choose_jobs h cx = (case cx_concurrency cx of
     Some n \<Rightarrow> returnS n
   | None \<Rightarrow>
       bindS (hostS (bh_cpu_count h)) (\<lambda>cpu.
       bindS (hostS (bh_pi_model h)) (\<lambda>model.
       if contains ''raspberry pi 3'' (py_lower model) then returnS (recommended_build_concurrency cpu model None)
       else bindS (hostS (bh_memory h)) (\<lambda>memory.
         returnS (recommended_build_concurrency cpu model memory)))))"

definition configure_build ::
    "(string \<Rightarrow> string) \<Rightarrow> 'w build_host \<Rightarrow> build_context \<Rightarrow> string \<Rightarrow> string \<Rightarrow> hardware_variant
     \<Rightarrow> build_target \<Rightarrow> ('w, configured) build" where
  "configure_build sha h cx staging checkout variant target =
     bindS (ensure_free_space h staging (2 * gib) ''Klipper firmware build'') (\<lambda>_.
     let environment = build_environment h cx; config_path = path_join checkout ''.config'' in
     bindS (pureS (serialize_requested_config (bt_requested_kconfig target))) (\<lambda>requested_text.
     bindS (collect_declared_kconfig_symbols h checkout) (\<lambda>declared.
     bindS (pureS (verify_declared_symbols (bt_requested_kconfig target) declared)) (\<lambda>_.
     bindS (pureS (verify_declared_symbols (bt_resolved_assertions target) declared)) (\<lambda>_.
     bindS (hostS (bh_write_text h config_path requested_text)) (\<lambda>_.
     bindS (run_okS sha h ''olddefconfig'' (cx_make_command cx @ [''olddefconfig'']) checkout environment) (\<lambda>olddefconfig.
     bindS (hostS (bh_is_file h config_path)) (\<lambda>present.
     bindS (requireS present (Build_exn (Kconfig_error ''olddefconfig removed .config''))) (\<lambda>_.
     bindS (hostS (bh_read_raw h config_path)) (\<lambda>raw.
     let resolved_text = normalize_newlines raw in
     bindS (pureS (parse_kconfig resolved_text)) (\<lambda>resolved.
     bindS (pureS (verify_requested_selections (bt_requested_kconfig target) resolved)) (\<lambda>selection_proof.
     bindS (pureS (verify_resolved_assertions (bt_resolved_assertions target) resolved)) (\<lambda>assertion_proof.
     bindS (identify_toolchain sha h cx checkout variant environment) (\<lambda>toolchain.
     bindS (prepare_compiler_audit h staging) (\<lambda>(wrappers, flags_log).
     bindS (hostS (bh_uuid h)) (\<lambda>build_id.
     let old_path = (case dict_get environment ''PATH'' of Some p \<Rightarrow> p | None \<Rightarrow> []);
         build_env = dict_set (dict_set (dict_set environment ''PATH'' (wrappers @ '':'' @ old_path))
           ''KACE_CC_FLAGS_LOG'' flags_log) ''KACE_CC_DISABLE_LTO'' ''0'';
         fingerprint = marker_prefix @ build_id in
     bindS (inject_firmware_fingerprint h checkout fingerprint) (\<lambda>_.
     bindS (choose_jobs h cx) (\<lambda>jobs.
     returnS \<lparr>cf_requested_text = requested_text, cf_resolved_text = resolved_text,
        cf_olddefconfig = olddefconfig, cf_selection_proof = selection_proof,
        cf_assertion_proof = assertion_proof, cf_toolchain = toolchain, cf_flags_log = flags_log,
        cf_environment = build_env, cf_build_id = build_id, cf_fingerprint = fingerprint,
        cf_build_argv = cx_make_command cx @ [''KLIPPER_VERSION='' @ fingerprint]
          @ (if 1 < jobs then [''-j'' @ show_int jobs] else [])\<rparr>))))))))))))))))))"

text \<open>The attempts, oldest first; the last one succeeded.\<close>

definition compile_firmware ::
    "(string \<Rightarrow> string) \<Rightarrow> 'w build_host \<Rightarrow> build_context \<Rightarrow> string \<Rightarrow> configured
     \<Rightarrow> ('w, command_proof list) build" where
  "compile_firmware sha h cx checkout cf =
     bindS (runS sha h (cf_build_argv cf) checkout (cf_environment cf)) (\<lambda>first.
     if \<not> command_ok first \<and> cx_allow_lto_retry cx \<and> is_lto_failure first then
       (let retry_env = dict_set (cf_environment cf) ''KACE_CC_DISABLE_LTO'' ''1'' in
        bindS (hostS (bh_write_text h (cf_flags_log cf) [])) (\<lambda>_.
        bindS (run_okS sha h ''LTO retry clean'' (cx_make_command cx @ [''clean'']) checkout retry_env) (\<lambda>_.
        bindS (run_okS sha h ''build'' (cf_build_argv cf) checkout retry_env) (\<lambda>second.
        returnS [first, second]))))
     else bindS (requireS (command_ok first)
       (Build_exn (Build_command_error (build_command_message ''build'' first)))) (\<lambda>_. returnS [first]))"

definition artifact_suffix :: "artifact_format \<Rightarrow> string" where
  "artifact_suffix f = (case f of BIN \<Rightarrow> ''.bin'' | UF2 \<Rightarrow> ''.uf2'' | IHEX \<Rightarrow> ''.hex'')"

text \<open>The native artifact: its resolved path and its bytes.\<close>

definition read_native_artifact ::
    "(bytes \<Rightarrow> bytes option) \<Rightarrow> (bytes \<Rightarrow> identify_result) \<Rightarrow> 'w build_host \<Rightarrow> string \<Rightarrow> artifact_policy \<Rightarrow> string
     \<Rightarrow> ('w, string \<times> bytes) build" where
  "read_native_artifact inflate identify h checkout policy fingerprint =
     bindS (hostS (bh_resolve h (path_join checkout (ap_native_path policy)))) (\<lambda>native_path.
     bindS (requireS (path_within checkout native_path)
       (Build_exn (Artifact_validation_error ''artifact path escapes checkout''))) (\<lambda>_.
     bindS (requireS (path_name native_path = ap_native_filename policy)
       (Build_exn (Artifact_validation_error ''ArtifactPolicy native path/name disagree''))) (\<lambda>_.
     bindS (requireS (ends_with (artifact_suffix (ap_format policy)) (py_lower (path_name native_path)))
       (Build_exn (Artifact_validation_error ''artifact extension does not match''))) (\<lambda>_.
     bindS (hostS (bh_is_file h native_path)) (\<lambda>present.
     bindS (requireS present (Build_exn (Artifact_validation_error ''expected native artifact is absent''))) (\<lambda>_.
     bindS (hostS (bh_read_bytes h native_path)) (\<lambda>content.
     bindS (requireS (content \<noteq> []) (Build_exn (Artifact_validation_error ''native artifact is empty''))) (\<lambda>_.
     bindS (liftS (mapI Marker_exn (artifact_contains_fingerprint inflate identify content fingerprint))) (\<lambda>found.
     bindS (requireS found
       (Build_exn (Artifact_validation_error ''native artifact identify metadata does not contain the requested fingerprint''))) (\<lambda>_.
     returnS (native_path, content)))))))))))"

subsection \<open>One build\<close>

text \<open>\<open>render\<close> is the indented JSON text of the proof file.\<close>

record build_tools =
  tl_sha :: "string \<Rightarrow> string"
  tl_sha_bytes :: "bytes \<Rightarrow> string"
  tl_inflate :: "bytes \<Rightarrow> bytes option"
  tl_identify :: "bytes \<Rightarrow> identify_result"
  tl_audit_line :: "string \<Rightarrow> audit_entry option"
  tl_render :: "build_proof \<Rightarrow> string"

definition build_in_checkout ::
    "build_tools \<Rightarrow> 'w build_host \<Rightarrow> build_context \<Rightarrow> string \<Rightarrow> string \<Rightarrow> board_contract
     \<Rightarrow> hardware_variant \<Rightarrow> build_target \<Rightarrow> string \<Rightarrow> string \<Rightarrow> ('w, build_proof) build" where
  "build_in_checkout tools h cx staging checkout contract variant target output_root commit =
     bindS (configure_build (tl_sha tools) h cx staging checkout variant target) (\<lambda>cf.
     bindS (compile_firmware (tl_sha tools) h cx checkout cf) (\<lambda>attempts.
     bindS (read_compiler_flags (tl_audit_line tools) h (cf_flags_log cf)) (\<lambda>(req, eff).
     bindS (read_native_artifact (tl_inflate tools) (tl_identify tools) h checkout (bt_artifact target)
       (cf_fingerprint cf)) (\<lambda>(native_path, content).
     bindS (liftS (mapI Model_exn (contract_digest (tl_sha tools) contract))) (\<lambda>digest.
     bindS (hostS (bh_uuid h)) (\<lambda>u.
     let evidence_dir = path_join output_root (bc_board_id contract @ ''-'' @ hv_id variant @ ''-''
           @ bt_id target @ ''-'' @ take 12 digest @ ''-'' @ u);
         requested_evidence = path_join evidence_dir ''requested.config'';
         resolved_evidence = path_join evidence_dir ''resolved.config'';
         artifact_evidence = path_join evidence_dir (ap_native_filename (bt_artifact target)) in
     bindS (hostS (bh_mkdir h evidence_dir)) (\<lambda>_.
     bindS (hostS (bh_write_text h requested_evidence (cf_requested_text cf))) (\<lambda>_.
     bindS (hostS (bh_write_text h resolved_evidence (cf_resolved_text cf))) (\<lambda>_.
     bindS (hostS (bh_copyfile h native_path artifact_evidence)) (\<lambda>_.
     let retry = (length attempts = 2);
         proof_value = \<lparr>bp_schema = ''kace-board-build-proof/v3'', bp_board_id = bc_board_id contract,
           bp_hardware_variant_id = hv_id variant, bp_build_target_id = bt_id target,
           bp_contract_digest = digest, bp_klipper_commit = commit,
           bp_requested_config_path = requested_evidence,
           bp_requested_config_sha256 = tl_sha tools (cf_requested_text cf),
           bp_resolved_config_path = resolved_evidence,
           bp_resolved_config_sha256 = tl_sha tools (cf_resolved_text cf),
           bp_artifact_path = artifact_evidence, bp_artifact_sha256 = tl_sha_bytes tools content,
           bp_artifact_size = int (length content), bp_olddefconfig = cf_olddefconfig cf,
           bp_requested_selections = cf_selection_proof cf, bp_resolved_assertions = cf_assertion_proof cf,
           bp_build = last attempts, bp_build_attempts = attempts, bp_lto_retry_used = retry,
           bp_toolchain = cf_toolchain cf, bp_requested_flags = req, bp_effective_flags = eff,
           bp_lto_requested = list_ex is_lto_flag req, bp_lto_effective = list_ex is_lto_flag eff,
           bp_fallback_used = retry,
           bp_fallback_reason = (if retry then ''LTO linker failure: compiler ltrans objects were unavailable'' else []),
           bp_build_id = cf_build_id cf, bp_firmware_fingerprint = cf_fingerprint cf,
           bp_embedded_fingerprint_verified = True\<rparr>;
         temporary_proof = path_join evidence_dir ''.build-proof.json.tmp'' in
     bindS (hostS (bh_write_text h temporary_proof (tl_render tools proof_value @ newline))) (\<lambda>_.
     bindS (hostS (bh_replace h temporary_proof (path_join evidence_dir ''build-proof.json''))) (\<lambda>_.
     returnS proof_value))))))))))))"

definition build_firmware ::
    "build_tools \<Rightarrow> (string \<Rightarrow> string) \<Rightarrow> board_catalog \<Rightarrow> string \<Rightarrow> string \<Rightarrow> 'w build_host \<Rightarrow> build_context
     \<Rightarrow> string \<Rightarrow> string \<Rightarrow> string \<Rightarrow> ('w, build_proof) build" where
  "build_firmware tools nfkc cat source_commit source_repository h cx board_alias variant_id target_id =
     (case resolve nfkc cat board_alias (Some variant_id) (Some target_id) of r \<Rightarrow>
      (case (rr_status r, rr_contract r, rr_variant r, rr_target r) of
        (RESOLVED, Some contract, Some variant, Some target) \<Rightarrow>
          bindS (pureS (validate_pinned_source source_commit source_repository contract)) (\<lambda>_.
          bindS (pureS (validate_target_contract variant target)) (\<lambda>_.
          bindS (hostS (bh_resolve h (cx_output_directory cx))) (\<lambda>output_root.
          bindS (reject_legacy_path h output_root ''output_directory'') (\<lambda>_.
          bindS (hostS (bh_mkdirs h output_root)) (\<lambda>_.
          bindS (if cx_staging_parent cx = [] then returnS None
                 else bindS (hostS (bh_resolve h (cx_staging_parent cx))) (\<lambda>p.
                   bindS (reject_legacy_path h p ''staging_parent'') (\<lambda>_.
                   bindS (hostS (bh_mkdirs h p)) (\<lambda>_. returnS (Some p))))) (\<lambda>staging_parent.
          heavy_workspace h ''board-contract-'' staging_parent (\<lambda>staging.
            let checkout = path_join staging ''klipper'' in
            bindS (ensure_free_space h staging gib ''Klipper clone'') (\<lambda>_.
            bindS (prepare_checkout (tl_sha tools) h cx staging checkout contract) (\<lambda>_.
            bindS (reject_legacy_path h checkout ''isolated checkout'') (\<lambda>_.
            bindS (ensure_free_space h staging (2 * gib) ''Klipper checkout'') (\<lambda>_.
            bindS (read_checkout_commit (tl_sha tools) h cx checkout) (\<lambda>commit.
            bindS (requireS (commit = um_validated_commit (bc_upstream contract))
              (Build_exn (Checkout_commit_mismatch ''checkout commit does not match validated''))) (\<lambda>_.
            bindS (verify_checkout_clean (tl_sha tools) h cx checkout) (\<lambda>_.
            build_in_checkout tools h cx staging checkout contract variant target output_root commit))))))))))))))
      | _ \<Rightarrow> failS (Incompatible_target ''target resolution failed'')))"

end
