(* ===== verification/Build_Safety.thy ===== *)
theory Build_Safety
  imports Build_Pipeline
begin

text \<open>
  What a firmware build guarantees: no command it runs, on any path, carries shell syntax, and
  a returned proof speaks of the pinned commit, of a configuration that kept every requested
  value, of a build that succeeded and of an artifact that carries the fingerprint.
\<close>

subsection \<open>Commands\<close>

definition shell_free :: "'w build_state \<Rightarrow> bool" where
  "shell_free s = list_all (\<lambda>argv. \<not> list_ex contains_shell_syntax argv) (bs_commands s)"

lemma shell_free_host [keeps_intros]: "keeps shell_free (hostS m)"
  by (auto simp: keeps_def hostS_def shell_free_def split: prod.splits sum.splits)

lemma shell_free_pure [keeps_intros]: "keeps P (pureS r)"
  by (simp add: pureS_def keeps_intros)

lemma shell_free_fail [keeps_intros]: "keeps P (failS e)"
  by (simp add: failS_def keeps_intros)

lemma shell_free_execute [keeps_intros]: "keeps shell_free (executeS sha h argv cwd e)"
proof (cases "list_ex contains_shell_syntax argv")
  case True
  then show ?thesis by (simp add: executeS_def requireS_def keeps_intros)
next
  case False
  then have "keeps shell_free (modifyS (\<lambda>s. s\<lparr>bs_commands := bs_commands s @ [argv]\<rparr>))"
    by (intro keeps_modify) (simp add: shell_free_def list_all_append)
  then show ?thesis unfolding executeS_def by (intro keeps_intros)
qed

lemma shell_free_run [keeps_intros]: "keeps shell_free (runS sha h argv cwd e)"
  unfolding runS_def by (intro keeps_intros)

lemma shell_free_run_ok [keeps_intros]: "keeps shell_free (run_okS sha h phase argv cwd e)"
  unfolding run_okS_def by (intro keeps_intros)

lemma shell_free_helpers [keeps_intros]:
  "keeps shell_free (reject_legacy_path h p f)"
  "keeps shell_free (ensure_free_space h d n phase)"
  "keeps shell_free (rmtreeS h p)"
  unfolding reject_legacy_path_def ensure_free_space_def rmtreeS_def by (intro keeps_intros)+

lemma shell_free_remove [keeps_intros]: "keeps shell_free (remove_cache_path h p)"
  unfolding remove_cache_path_def by (intro keeps_intros)

lemma shell_free_lock [keeps_intros]:
  "keeps shell_free m \<Longrightarrow> keeps shell_free (exclusive_file_lock h p m)"
  unfolding exclusive_file_lock_def by (intro keeps_intros)

lemma shell_free_workspace [keeps_intros]:
  "(\<And>w. keeps shell_free (body w)) \<Longrightarrow> keeps shell_free (heavy_workspace h prefix parent body)"
  unfolding heavy_workspace_def by (intro keeps_intros)

lemma shell_free_checks [keeps_intros]:
  "keeps shell_free (run_cache_checks sha h cx parent cache repository commit environment ks)"
  by (induction ks) (auto simp: Let_def intro!: keeps_intros)

lemma shell_free_source [keeps_intros]:
  "keeps shell_free (validate_source_cache sha h cx parent cache repository commit environment)"
  "keeps shell_free (install_cache h temporary quarantine cache)"
  "keeps shell_free (source_cache_path sha h repository)"
  "keeps shell_free (read_checkout_commit sha h cx checkout)"
  "keeps shell_free (verify_checkout_clean sha h cx checkout)"
  unfolding validate_source_cache_def install_cache_def source_cache_path_def
    read_checkout_commit_def verify_checkout_clean_def
  by (intro keeps_intros)+

lemma shell_free_rebuild [keeps_intros]:
  "keeps shell_free (rebuild_source_cache sha h cx parent cache source repository commit environment)"
  unfolding rebuild_source_cache_def by (intro keeps_intros)

lemma shell_free_checkout [keeps_intros]:
  "keeps shell_free (prepare_checkout sha h cx staging checkout contract)"
  unfolding prepare_checkout_def by (intro keeps_intros)

lemma keeps_exn_cases [keeps_intros]:
  "(\<And>m. e = Host_exn (Os_error m) \<Longrightarrow> keeps P (f m)) \<Longrightarrow> keeps P d \<Longrightarrow>
   keeps P (case e of Host_exn x \<Rightarrow> (case x of Os_error m \<Rightarrow> f m | Other_exn _ \<Rightarrow> d) | _ \<Rightarrow> d)"
  by (auto split: build_exn.splits host_exn.splits)

lemma shell_free_symbols [keeps_intros]: "keeps shell_free (collect_declared_kconfig_symbols h checkout)"
  unfolding collect_declared_kconfig_symbols_def read_kconfig_source_def by (intro keeps_intros)

lemma shell_free_toolchain [keeps_intros]:
  "keeps shell_free (identify_toolchain sha h cx checkout variant environment)"
  "keeps shell_free (prepare_compiler_audit h staging)"
  "keeps shell_free (read_compiler_flags audit_line h p)"
  "keeps shell_free (inject_firmware_fingerprint h checkout fingerprint)"
  "keeps shell_free (choose_jobs h cx)"
  unfolding identify_toolchain_def prepare_compiler_audit_def read_compiler_flags_def
    inject_firmware_fingerprint_def choose_jobs_def
  by (intro keeps_intros)+

lemma shell_free_phases [keeps_intros]:
  "keeps shell_free (configure_build sha h cx staging checkout variant target)"
  "keeps shell_free (compile_firmware sha h cx checkout cf)"
  "keeps shell_free (read_native_artifact inflate identify h checkout policy fingerprint)"
  unfolding configure_build_def compile_firmware_def read_native_artifact_def
  by (intro keeps_intros)+

lemma shell_free_in_checkout [keeps_intros]:
  "keeps shell_free (build_in_checkout tools h cx staging checkout contract variant target output_root commit)"
  unfolding build_in_checkout_def by (intro keeps_intros)

lemma keeps_resolution [keeps_intros]:
  "(\<And>c v t. keeps P (f c v t)) \<Longrightarrow> keeps P d \<Longrightarrow>
   keeps P (case (st, qc, qv, qt) of (RESOLVED, Some c, Some v, Some t) \<Rightarrow> f c v t | _ \<Rightarrow> d)"
  by (auto split: resolution_status.splits option.splits)

text \<open>
  C3. No command a build runs has an argument with shell syntax: whatever the catalog, the host and the
  outcome, the list of commands stays free of it.
\<close>

theorem build_keeps_shell_free:
  "keeps shell_free (build_firmware tools nfkc cat source_commit source_repository h cx alias vi ti)"
  unfolding build_firmware_def Let_def by (intro keeps_intros)

subsection \<open>A returned proof\<close>

lemma run_okS_ok: "run_okS sha h phase argv cwd e s = (Inr p, s') \<Longrightarrow> command_ok p"
  by (auto simp: run_okS_def state_simps)

definition configuration_kept :: "(string \<Rightarrow> string) \<Rightarrow> build_target \<Rightarrow> string \<Rightarrow> bool" where
  "configuration_kept sha target digest =
     (\<exists>resolved_text cfg. parse_kconfig resolved_text = Inr cfg \<and> sha resolved_text = digest
        \<and> (\<forall>e \<in> set (bt_requested_kconfig target). resolved_as cfg e)
        \<and> (\<forall>e \<in> set (bt_resolved_assertions target). resolved_as cfg e))"

lemma configuration_keptI:
  assumes "parse_kconfig resolved_text = Inr cfg"
    and "verify_requested_selections (bt_requested_kconfig target) cfg = Inr p"
    and "verify_resolved_assertions (bt_resolved_assertions target) cfg = Inr q"
  shows "configuration_kept sha target (sha resolved_text)"
  using assms unfolding configuration_kept_def verify_requested_ok verify_assertions_ok by blast

lemma inject_ok: "inject_firmware_fingerprint h checkout f s = (Inr u, s') \<Longrightarrow> fingerprint_re f"
  by (auto simp: inject_firmware_fingerprint_def state_simps result_simps Let_def fingerprint_makefile_def)

lemma configure_ok:
  assumes "configure_build sha h cx staging checkout variant target s = (Inr cf, s')"
  shows "configuration_kept sha target (sha (cf_resolved_text cf)) \<and> fingerprint_re (cf_fingerprint cf)
    \<and> serialize_requested_config (bt_requested_kconfig target) = Inr (cf_requested_text cf)
    \<and> command_ok (cf_olddefconfig cf) \<and> cf_fingerprint cf = marker_prefix @ cf_build_id cf"
  using assms unfolding configure_build_def
  by (clarsimp simp: state_simps Let_def split: prod.splits)
     (simp add: configuration_keptI inject_ok run_okS_ok)

lemma compile_ok:
  assumes "compile_firmware sha h cx checkout cf s = (Inr attempts, s')"
  shows "command_ok (last attempts) \<and> (length attempts = 1 \<or>
     (length attempts = 2 \<and> cx_allow_lto_retry cx \<and> \<not> command_ok (hd attempts) \<and> is_lto_failure (hd attempts)))"
  using assms
  by (auto simp: compile_firmware_def state_simps Let_def dest: run_okS_ok split: if_splits)

lemma artifact_ok:
  assumes "read_native_artifact inflate identify h checkout policy fingerprint s = (Inr (p, content), s')"
  shows "content \<noteq> [] \<and> artifact_contains_fingerprint inflate identify content fingerprint = Inr True
    \<and> path_within checkout p \<and> path_name p = ap_native_filename policy"
  using assms by (auto simp: read_native_artifact_def state_simps result_simps)

text \<open>What a build proof says of the build it describes.\<close>

definition proof_sound :: "build_tools \<Rightarrow> board_contract \<Rightarrow> hardware_variant \<Rightarrow> build_target \<Rightarrow> build_proof \<Rightarrow> bool" where
  "proof_sound tools c v t p =
     (bp_board_id p = bc_board_id c \<and> bp_hardware_variant_id p = hv_id v \<and> bp_build_target_id p = bt_id t
      \<and> contract_digest (tl_sha tools) c = Inr (bp_contract_digest p)
      \<and> bp_klipper_commit p = um_validated_commit (bc_upstream c)
      \<and> configuration_kept (tl_sha tools) t (bp_resolved_config_sha256 p)
      \<and> command_ok (bp_olddefconfig p) \<and> command_ok (bp_build p) \<and> bp_build p = last (bp_build_attempts p)
      \<and> bp_build_attempts p \<noteq> [] \<and> length (bp_build_attempts p) \<le> 2
      \<and> (bp_lto_retry_used p \<longleftrightarrow> length (bp_build_attempts p) = 2) \<and> bp_fallback_used p = bp_lto_retry_used p
      \<and> fingerprint_re (bp_firmware_fingerprint p) \<and> bp_firmware_fingerprint p = marker_prefix @ bp_build_id p
      \<and> (\<exists>content. content \<noteq> [] \<and> bp_artifact_sha256 p = tl_sha_bytes tools content
           \<and> bp_artifact_size p = int (length content)
           \<and> artifact_contains_fingerprint (tl_inflate tools) (tl_identify tools) content
                (bp_firmware_fingerprint p) = Inr True))"

lemma in_checkout_ok:
  assumes "build_in_checkout tools h cx staging checkout c v t output_root commit s = (Inr p, s')"
    and "commit = um_validated_commit (bc_upstream c)"
  shows "proof_sound tools c v t p"
proof -
  from assms(1) obtain cf attempts req eff native content digest s1 s2 s3 s4 s5 where
    cf: "configure_build (tl_sha tools) h cx staging checkout v t s = (Inr cf, s1)" and
    att: "compile_firmware (tl_sha tools) h cx checkout cf s1 = (Inr attempts, s2)" and
    art: "read_native_artifact (tl_inflate tools) (tl_identify tools) h checkout (bt_artifact t)
       (cf_fingerprint cf) s3 = (Inr (native, content), s4)" and
    dig: "contract_digest (tl_sha tools) c = Inr digest" and
    p: "bp_board_id p = bc_board_id c" "bp_hardware_variant_id p = hv_id v" "bp_build_target_id p = bt_id t"
      "bp_contract_digest p = digest" "bp_klipper_commit p = commit"
      "bp_resolved_config_sha256 p = tl_sha tools (cf_resolved_text cf)"
      "bp_olddefconfig p = cf_olddefconfig cf" "bp_build p = last attempts" "bp_build_attempts p = attempts"
      "bp_lto_retry_used p = (length attempts = 2)" "bp_fallback_used p = bp_lto_retry_used p"
      "bp_firmware_fingerprint p = cf_fingerprint cf" "bp_build_id p = cf_build_id cf"
      "bp_artifact_sha256 p = tl_sha_bytes tools content" "bp_artifact_size p = int (length content)"
    by (fastforce simp: build_in_checkout_def state_simps result_simps Let_def split: prod.splits)
  from configure_ok [OF cf] compile_ok [OF att] artifact_ok [OF art] assms(2) dig p show ?thesis
    unfolding proof_sound_def by (auto simp: length_Suc_conv)
qed

lemma heavy_workspace_ok:
  assumes "heavy_workspace h prefix parent body s = (Inr p, s')"
  obtains ws s1 s2 where "body ws s1 = (Inr p, s2)"
  using assms by (auto simp: heavy_workspace_def state_simps Let_def)

lemma build_firmware_sound:
  assumes b: "build_firmware tools nfkc cat source_commit source_repository h cx alias vi ti s = (Inr p, s')"
    and valid: "catalog_valid nfkc cat"
  shows "\<exists>c v t. denotes nfkc cat alias (Some vi) (Some ti) c v t
     \<and> validate_target_contract v t = Inr () \<and> um_validated_commit (bc_upstream c) = source_commit
     \<and> proof_sound tools c v t p"
proof -
  let ?r = "resolve nfkc cat alias (Some vi) (Some ti)"
  have ok: "resolution_ok ?r"
  proof (rule ccontr)
    assume "\<not> resolution_ok ?r"
    with b show False
      by (auto simp: build_firmware_def resolution_ok_def state_simps split: resolution_status.splits)
  qed
  obtain c v t where r: "?r = \<lparr>rr_status = RESOLVED, rr_contract = Some c, rr_variant = Some v,
      rr_target = Some t, rr_candidates = []\<rparr>" and d: "denotes nfkc cat alias (Some vi) (Some ti) c v t"
    using resolve_sound [OF valid ok] by blast
  from b r obtain parent body s1 s2 where
    pin: "validate_pinned_source source_commit source_repository c = Inr ()" and
    val: "validate_target_contract v t = Inr ()" and
    ws: "heavy_workspace h ''board-contract-'' parent body s1 = (Inr p, s2)" and
    body: "\<And>w s3 s4. body w s3 = (Inr p, s4) \<Longrightarrow> proof_sound tools c v t p"
    by (auto simp: build_firmware_def state_simps Let_def intro: in_checkout_ok)
       (fastforce simp: state_simps intro: in_checkout_ok)+
  from heavy_workspace_ok [OF ws] body have "proof_sound tools c v t p" by metis
  with d val pin show ?thesis by (auto simp: validate_pinned_source_def result_simps)
qed

end
