(* ===== verification/Build_Artifact.thy ===== *)
theory Build_Artifact
  imports Build_Pipeline
begin

text \<open>
  \<open>firmware/artifacts.py\<close> and the canonical form of a build proof: the artifact model shared
  by the legacy and the contract path, the completeness of its contract identity, and the
  digest that ties an artifact to its \<open>BuildProof\<close>.  \<open>FirmwareFormat\<close> has the values of
  \<open>ArtifactFormat\<close> and uses its type.
\<close>

subsection \<open>Artifacts\<close>

datatype build_provenance = REAL | MOCK

record build_artifact =
  ba_build_id :: string
  ba_path :: string
  ba_native_filename :: string
  ba_format :: artifact_format
  ba_sha256 :: string
  ba_size_bytes :: int
  ba_mcu :: string
  ba_firmware_fingerprint :: string
  ba_provenance :: build_provenance
  ba_flashable :: bool
  ba_firmware_identity :: "build_identity option"
  ba_board_id :: string
  ba_hardware_variant_id :: string
  ba_build_target_id :: string
  ba_board_contract_digest :: string
  ba_klipper_commit :: string
  ba_build_proof_digest :: string

definition format_from_filename :: "string \<Rightarrow> artifact_format" where
  "format_from_filename filename = (let lowered = py_lower filename in
     if ends_with ''.uf2'' lowered then UF2 else if ends_with ''.hex'' lowered then IHEX else BIN)"

definition format_name :: "artifact_format \<Rightarrow> string" where
  "format_name f = (case f of BIN \<Rightarrow> ''BIN'' | UF2 \<Rightarrow> ''UF2'' | IHEX \<Rightarrow> ''IHEX'')"

definition contract_identity :: "build_artifact \<Rightarrow> string list" where
  "contract_identity a = [ba_board_id a, ba_hardware_variant_id a, ba_build_target_id a,
     ba_board_contract_digest a, ba_klipper_commit a, ba_build_proof_digest a]"

text \<open>\<open>__post_init__\<close>; the error is the message of the \<open>ValueError\<close>.\<close>

definition check_artifact :: "build_artifact \<Rightarrow> (string, build_artifact) res" where
  "check_artifact a =
     (let present = list_ex (\<lambda>s. s \<noteq> []) (contract_identity a);
          complete = list_all (\<lambda>s. s \<noteq> []) (contract_identity a) in
      require (\<not> (present \<and> \<not> complete)) ''BoardContract artifact identity must be complete or absent''
      (if complete then
         require (sha256_re (ba_board_contract_digest a)) ''board_contract_digest must be a lowercase SHA-256''
         (require (commit_re (ba_klipper_commit a)) ''klipper_commit must be an exact lowercase Git SHA''
         (require (sha256_re (ba_build_proof_digest a)) ''build_proof_digest must be a lowercase SHA-256''
         (Inr a)))
       else Inr a))"

text \<open>
  \<open>BuildArtifact.create\<close>: \<open>digest\<close> is what \<open>_sha256\<close> returned for the file (empty when it could
  not be read), \<open>fresh\<close> the new UUID, \<open>absolute\<close> the expanded absolute path.  The contract
  identity arguments come as the list of \<open>contract_identity\<close>.
\<close>

datatype artifact_error = Artifact_value_error string | Artifact_identity_error identity_error

definition artifact_create ::
    "(string \<Rightarrow> string) \<Rightarrow> string \<Rightarrow> string \<Rightarrow> string \<Rightarrow> string \<Rightarrow> int \<Rightarrow> string \<Rightarrow> string \<Rightarrow> bool \<Rightarrow> bool
     \<Rightarrow> build_inputs option \<Rightarrow> string list \<Rightarrow> (artifact_error, build_artifact) res" where
  "artifact_create sha fresh digest absolute native_filename size_bytes mcu fingerprint mock_build
     size_warning inputs identity6 =
     (let fmt = format_from_filename native_filename in
      bindE (case inputs of
          Some i \<Rightarrow> if digest = [] then Inr None
            else (case build_inputs_complete sha i digest size_bytes (format_name fmt) of
              Inl e \<Rightarrow> Inl (Artifact_identity_error e) | Inr f \<Rightarrow> Inr (Some f))
        | None \<Rightarrow> Inr None) (\<lambda>identity.
      (case check_artifact \<lparr>ba_build_id = fresh, ba_path = absolute, ba_native_filename = native_filename,
           ba_format = fmt, ba_sha256 = digest, ba_size_bytes = size_bytes, ba_mcu = mcu,
           ba_firmware_fingerprint = (case identity of Some f \<Rightarrow> bi_reported_version f | None \<Rightarrow> fingerprint),
           ba_provenance = (if mock_build then MOCK else REAL),
           ba_flashable = (\<not> mock_build \<and> \<not> size_warning \<and> digest \<noteq> [] \<and> identity \<noteq> None),
           ba_firmware_identity = identity, ba_board_id = identity6 ! 0,
           ba_hardware_variant_id = identity6 ! 1, ba_build_target_id = identity6 ! 2,
           ba_board_contract_digest = identity6 ! 3, ba_klipper_commit = identity6 ! 4,
           ba_build_proof_digest = identity6 ! 5\<rparr> of
         Inl m \<Rightarrow> Inl (Artifact_value_error m) | Inr a \<Rightarrow> Inr a)))"

lemma check_artifact_ok:
  "check_artifact a = Inr b \<longleftrightarrow> b = a \<and>
     ((\<forall>s \<in> set (contract_identity a). s = [])
      \<or> ((\<forall>s \<in> set (contract_identity a). s \<noteq> []) \<and> sha256_re (ba_board_contract_digest a)
          \<and> commit_re (ba_klipper_commit a) \<and> sha256_re (ba_build_proof_digest a)))"
  by (auto simp: check_artifact_def Let_def result_simps list_ex_iff list_all_iff contract_identity_def)

subsection \<open>Canonical form of a proof\<close>

definition text_list :: "string list \<Rightarrow> pyval" where
  "text_list xs = PList (map PStr xs)"

definition command_mapping :: "command_proof \<Rightarrow> pyval" where
  "command_mapping p = PDict
     [(KStr ''argv'', text_list (cp_argv p)), (KStr ''returncode'', PInt (cp_returncode p)),
      (KStr ''stdout_sha256'', PStr (cp_stdout_sha256 p)), (KStr ''stderr_sha256'', PStr (cp_stderr_sha256 p)),
      (KStr ''stdout_tail'', PStr (cp_stdout_tail p)), (KStr ''stderr_tail'', PStr (cp_stderr_tail p))]"

definition verification_mapping :: "verification_proof \<Rightarrow> pyval" where
  "verification_mapping p = PDict
     [(KStr ''ok'', PBool (vp_ok p)), (KStr ''checked_symbols'', text_list (vp_checked_symbols p)),
      (KStr ''failures'', text_list (vp_failures p))]"

definition build_proof_mapping :: "build_proof \<Rightarrow> pydict" where
  "build_proof_mapping p =
     [(KStr ''schema'', PStr (bp_schema p)), (KStr ''board_id'', PStr (bp_board_id p)),
      (KStr ''hardware_variant_id'', PStr (bp_hardware_variant_id p)),
      (KStr ''build_target_id'', PStr (bp_build_target_id p)),
      (KStr ''contract_digest'', PStr (bp_contract_digest p)), (KStr ''klipper_commit'', PStr (bp_klipper_commit p)),
      (KStr ''requested_config_path'', PStr (bp_requested_config_path p)),
      (KStr ''requested_config_sha256'', PStr (bp_requested_config_sha256 p)),
      (KStr ''resolved_config_path'', PStr (bp_resolved_config_path p)),
      (KStr ''resolved_config_sha256'', PStr (bp_resolved_config_sha256 p)),
      (KStr ''artifact_path'', PStr (bp_artifact_path p)), (KStr ''artifact_sha256'', PStr (bp_artifact_sha256 p)),
      (KStr ''artifact_size'', PInt (bp_artifact_size p)),
      (KStr ''olddefconfig'', command_mapping (bp_olddefconfig p)),
      (KStr ''requested_selections'', verification_mapping (bp_requested_selections p)),
      (KStr ''resolved_assertions'', verification_mapping (bp_resolved_assertions p)),
      (KStr ''build'', command_mapping (bp_build p)),
      (KStr ''build_attempts'', PList (map command_mapping (bp_build_attempts p))),
      (KStr ''lto_retry_used'', PBool (bp_lto_retry_used p)),
      (KStr ''toolchain'', toolchain_mapping (bp_toolchain p)),
      (KStr ''requested_flags'', text_list (bp_requested_flags p)),
      (KStr ''effective_flags'', text_list (bp_effective_flags p)),
      (KStr ''lto_requested'', PBool (bp_lto_requested p)), (KStr ''lto_effective'', PBool (bp_lto_effective p)),
      (KStr ''fallback_used'', PBool (bp_fallback_used p)), (KStr ''fallback_reason'', PStr (bp_fallback_reason p)),
      (KStr ''build_id'', PStr (bp_build_id p)), (KStr ''firmware_fingerprint'', PStr (bp_firmware_fingerprint p)),
      (KStr ''embedded_fingerprint_verified'', PBool (bp_embedded_fingerprint_verified p))]"

text \<open>Canonical JSON text of a value that holds only texts, integers, booleans and lists.\<close>

definition canonical_json :: "pyval \<Rightarrow> string" where
  "canonical_json v = (case json_text v of Some t \<Rightarrow> t | None \<Rightarrow> [])"

definition build_proof_digest :: "(string \<Rightarrow> string) \<Rightarrow> build_proof \<Rightarrow> string" where
  "build_proof_digest sha p = sha (canonical_json (PDict (build_proof_mapping p)))"

lemma plain_texts: "plain (text_list xs)"
  by (simp add: text_list_def list_all_iff)

lemma build_proof_plain: "plain (PDict (build_proof_mapping p))"
  by (simp add: build_proof_mapping_def command_mapping_def verification_mapping_def
      toolchain_mapping_def plain_texts list_all_iff key_is_str_def)

end
