(* ===== verification/Deployment_Plan.thy ===== *)
theory Deployment_Plan
  imports Build_Artifact
begin

text \<open>
  \<open>firmware/boards/deployment.py\<close>: from a build proof to a typed artifact, the file name policy,
  the rename-only preparation of the artifact, and the deployment plan with its digest and its
  strict validation.  The host operations are those of the build host.
\<close>

datatype deploy_error =
    Contract_deployment_error string | Contract_identity_mismatch string
  | Contract_artifact_error string | Filename_policy_error string

datatype deploy_exn =
    Deploy_exn deploy_error | Deploy_host host_exn | Deploy_marker marker_error
  | Deploy_identity identity_error | Deploy_model model_error | Deploy_value string

type_synonym ('w, 'a) deploy = "('w, deploy_exn, 'a) action"

definition hostD :: "('w, host_exn, 'a) action \<Rightarrow> ('w, 'a) deploy" where
  "hostD m w = (case m w of (r, w') \<Rightarrow> (mapI Deploy_host r, w'))"

definition mismatch :: "string \<Rightarrow> deploy_exn" where
  "mismatch m = Deploy_exn (Contract_identity_mismatch m)"

definition artifact_err :: "string \<Rightarrow> deploy_exn" where
  "artifact_err m = Deploy_exn (Contract_artifact_error m)"

subsection \<open>Contract identity\<close>

definition find_target :: "board_contract \<Rightarrow> string \<Rightarrow> string \<Rightarrow> (deploy_exn, hardware_variant \<times> build_target) res" where
  "find_target c vi ti = (case contract_variant c vi of
     None \<Rightarrow> Inl (mismatch ''variant is not in the contract'')
   | Some v \<Rightarrow> (case variant_target v ti of
       None \<Rightarrow> Inl (mismatch ''target is not in the variant'')
     | Some t \<Rightarrow> Inr (v, t)))"

definition digest_of :: "(string \<Rightarrow> string) \<Rightarrow> board_contract \<Rightarrow> (deploy_exn, string) res" where
  "digest_of sha c = mapI Deploy_model (contract_digest sha c)"

definition require_contract_identity ::
    "(string \<Rightarrow> string) \<Rightarrow> board_contract \<Rightarrow> build_artifact \<Rightarrow> (deploy_exn, hardware_variant \<times> build_target) res" where
  "require_contract_identity sha c a =
     bindE (digest_of sha c) (\<lambda>digest.
     require (ba_board_id a = bc_board_id c) (mismatch ''artifact board_id does not match'')
     (require (ba_board_contract_digest a = digest) (mismatch ''artifact board_contract_digest does not match'')
     (require (ba_klipper_commit a = um_validated_commit (bc_upstream c))
        (mismatch ''artifact klipper_commit does not match'')
     (bindE (find_target c (ba_hardware_variant_id a) (ba_build_target_id a)) (\<lambda>vt.
     require (sha256_re (ba_build_proof_digest a)) (mismatch ''artifact has no valid BuildProof digest'')
     (Inr vt))))))"

subsection \<open>From a proof to an artifact\<close>

text \<open>\<open>_sha256_file\<close>: an \<open>OSError\<close> is reported as a \<open>ContractArtifactError\<close>.\<close>

definition file_sha :: "(bytes \<Rightarrow> string) \<Rightarrow> 'w build_host \<Rightarrow> string \<Rightarrow> ('w, string) deploy" where
  "file_sha sha_bytes h p = catchS (bindS (hostD (bh_read_bytes h p)) (\<lambda>c. returnS (sha_bytes c))) (\<lambda>e. case e of
     Deploy_host (Os_error m) \<Rightarrow> raiseS (artifact_err ''cannot read artifact'')
   | _ \<Rightarrow> raiseS e)"

definition file_size :: "'w build_host \<Rightarrow> string \<Rightarrow> ('w, int) deploy" where
  "file_size h p = bindS (hostD (bh_read_bytes h p)) (\<lambda>c. returnS (int (length c)))"

definition check_evidence ::
    "(bytes \<Rightarrow> string) \<Rightarrow> 'w build_host \<Rightarrow> string \<times> string \<times> int option \<Rightarrow> ('w, unit) deploy" where
  "check_evidence sha_bytes h e = (case e of (p, expected_hash, expected_size) \<Rightarrow>
     bindS (hostD (bh_is_file h p)) (\<lambda>present.
     bindS (requireS present (artifact_err ''BuildProof evidence is absent'')) (\<lambda>_.
     bindS (file_sha sha_bytes h p) (\<lambda>observed.
     bindS (requireS (observed = expected_hash) (artifact_err ''BuildProof evidence hash changed'')) (\<lambda>_.
     (case expected_size of
        None \<Rightarrow> returnS ()
      | Some n \<Rightarrow> bindS (file_size h p) (\<lambda>size.
          requireS (size = n) (artifact_err ''BuildProof artifact size changed''))))))))"

definition build_options :: "build_proof \<Rightarrow> pydict" where
  "build_options p =
     [(KStr ''requested_flags'', text_list (bp_requested_flags p)),
      (KStr ''effective_flags'', text_list (bp_effective_flags p)),
      (KStr ''lto_requested'', PBool (bp_lto_requested p)), (KStr ''lto_effective'', PBool (bp_lto_effective p)),
      (KStr ''fallback_used'', PBool (bp_fallback_used p)), (KStr ''fallback_reason'', PStr (bp_fallback_reason p))]"

definition build_id_re :: "string \<Rightarrow> bool" where
  "build_id_re s = (length s = 32 \<and> list_all is_lower_hex s)"

definition build_artifact_from_proof ::
    "build_tools \<Rightarrow> 'w build_host \<Rightarrow> build_proof \<Rightarrow> board_contract \<Rightarrow> ('w, build_artifact) deploy" where
  "build_artifact_from_proof tools h p c =
     bindS (liftS (digest_of (tl_sha tools) c)) (\<lambda>digest.
     bindS (requireS (bp_board_id p = bc_board_id c) (mismatch ''BuildProof board_id does not match'')) (\<lambda>_.
     bindS (requireS (bp_contract_digest p = digest) (mismatch ''BuildProof contract_digest does not match'')) (\<lambda>_.
     bindS (requireS (bp_klipper_commit p = um_validated_commit (bc_upstream c))
       (mismatch ''BuildProof klipper_commit does not match'')) (\<lambda>_.
     bindS (liftS (find_target c (bp_hardware_variant_id p) (bp_build_target_id p))) (\<lambda>(v, t).
     bindS (requireS (command_ok (bp_olddefconfig p) \<and> vp_ok (bp_requested_selections p)
         \<and> vp_ok (bp_resolved_assertions p) \<and> command_ok (bp_build p))
       (artifact_err ''BuildProof does not record a successful verified build'')) (\<lambda>_.
     bindS (eachS (check_evidence (tl_sha_bytes tools) h)
       [(bp_requested_config_path p, bp_requested_config_sha256 p, None),
        (bp_resolved_config_path p, bp_resolved_config_sha256 p, None),
        (bp_artifact_path p, bp_artifact_sha256 p, Some (bp_artifact_size p))]) (\<lambda>_.
     bindS (requireS (path_name (bp_artifact_path p) = ap_native_filename (bt_artifact t))
       (artifact_err ''BuildProof native filename violates ArtifactPolicy'')) (\<lambda>_.
     bindS (hostD (bh_read_text h (bp_resolved_config_path p))) (\<lambda>resolved_config.
     bindS (requireS (build_id_re (bp_build_id p))
       (artifact_err ''BuildProof has no valid embedded firmware build ID'')) (\<lambda>_.
     bindS (requireS (bp_firmware_fingerprint p = marker_prefix @ bp_build_id p)
       (artifact_err ''BuildProof firmware fingerprint does not match its embedded build ID'')) (\<lambda>_.
     bindS (requireS (bp_embedded_fingerprint_verified p)
       (artifact_err ''BuildProof did not verify the fingerprint inside the native artifact'')) (\<lambda>_.
     bindS (hostD (bh_read_bytes h (bp_artifact_path p))) (\<lambda>content.
     bindS (liftS (mapI Deploy_marker (artifact_contains_fingerprint (tl_inflate tools) (tl_identify tools)
       content (bp_firmware_fingerprint p)))) (\<lambda>found.
     bindS (requireS found (artifact_err ''BuildProof artifact no longer contains its firmware fingerprint'')) (\<lambda>_.
     bindS (requireS (list_ex (\<lambda>attempt. (''KLIPPER_VERSION='' @ bp_firmware_fingerprint p) \<in> set (cp_argv attempt))
         (bp_build_attempts p))
       (artifact_err ''BuildProof does not prove that its firmware fingerprint was compiled'')) (\<lambda>_.
     bindS (liftS (mapI Deploy_identity (bindE
       (build_inputs_create (tl_sha tools) [] (bp_klipper_commit p) resolved_config (bp_toolchain p)
          (build_options p) (Some (bp_build_id p))) (\<lambda>i.
       build_inputs_complete (tl_sha tools) i (bp_artifact_sha256 p) (bp_artifact_size p)
          (format_name (ap_format (bt_artifact t))))))) (\<lambda>identity.
     bindS (hostD (bh_resolve h (bp_artifact_path p))) (\<lambda>resolved_path.
     let proof_digest = build_proof_digest (tl_sha tools) p in
     liftS (mapI Deploy_value (check_artifact
       \<lparr>ba_build_id = take 32 proof_digest, ba_path = resolved_path,
        ba_native_filename = ap_native_filename (bt_artifact t), ba_format = ap_format (bt_artifact t),
        ba_sha256 = bp_artifact_sha256 p, ba_size_bytes = bp_artifact_size p,
        ba_mcu = ps_resolved_mcu (hv_processor v), ba_firmware_fingerprint = bi_reported_version identity,
        ba_provenance = REAL, ba_flashable = False, ba_firmware_identity = Some identity,
        ba_board_id = bc_board_id c, ba_hardware_variant_id = hv_id v, ba_build_target_id = bt_id t,
        ba_board_contract_digest = digest, ba_klipper_commit = um_validated_commit (bc_upstream c),
        ba_build_proof_digest = proof_digest\<rparr>))))))))))))))))))))"

subsection \<open>File name policy\<close>

definition py_truthy :: "pyval \<Rightarrow> bool" where
  "py_truthy v = (case v of
     PNone \<Rightarrow> False | PBool b \<Rightarrow> b | PInt i \<Rightarrow> i \<noteq> 0 | PFloat t \<Rightarrow> t \<notin> {''0.0'', ''-0.0''}
   | PNonFinite \<Rightarrow> True | PStr s \<Rightarrow> s \<noteq> [] | PList xs \<Rightarrow> xs \<noteq> [] | PDict d \<Rightarrow> d \<noteq> [] | POpaque _ \<Rightarrow> True)"

text \<open>
  \<open>str(policy[key])\<close> of a text; the loader leaves no other value for \<open>value\<close> and \<open>template\<close>.
  A truthy \<open>required_suffix\<close> that is no text is outside the model.
\<close>

definition policy_text :: "pydict \<Rightarrow> string \<Rightarrow> (deploy_exn, string) res" where
  "policy_text policy key = (case py_get policy key of PStr s \<Rightarrow> Inr s | _ \<Rightarrow> Inl (Deploy_value key))"

definition optional_text :: "pydict \<Rightarrow> string \<Rightarrow> (deploy_exn, string) res" where
  "optional_text policy key =
     (if py_truthy (py_get policy key) then policy_text policy key else Inr [])"

text \<open>\<open>Path(name).name == name\<close> for a name other than the two dot names.\<close>

definition safe_basename :: "string \<Rightarrow> bool" where
  "safe_basename s = (s \<noteq> [] \<and> CHR ''/'' \<notin> set s \<and> s \<notin> {''.'', ''..''})"

definition policy_name :: "pydict \<Rightarrow> build_artifact \<Rightarrow> (deploy_exn, string) res" where
  "policy_name policy a =
     (let strategy = py_get policy ''strategy'' in
      if strategy = PStr ''fixed'' then policy_text policy ''value''
      else if strategy = PStr ''native'' then Inr (ba_native_filename a)
      else if strategy = PStr ''build-id'' then
        bindE (policy_text policy ''template'') (\<lambda>template.
        Inr (replace_text ''{build_id_short}'' (take 12 (ba_build_id a)) template))
      else Inl (Deploy_exn (Filename_policy_error ''unsupported filename strategy'')))"

definition final_filename :: "build_target \<Rightarrow> build_artifact \<Rightarrow> (deploy_exn, string) res" where
  "final_filename t a =
     (let policy = ap_final_filename (bt_artifact t) in
      bindE (policy_name policy a) (\<lambda>filename.
      require (safe_basename filename)
        (Deploy_exn (Filename_policy_error ''final firmware filename must be a safe basename''))
      (require (CHR ''{'' \<notin> set filename \<and> CHR ''}'' \<notin> set filename)
        (Deploy_exn (Filename_policy_error ''final firmware filename contains an unresolved template''))
      (bindE (optional_text policy ''required_suffix'') (\<lambda>suffix.
      require (suffix = [] \<or> ends_with (py_lower suffix) (py_lower filename))
        (Deploy_exn (Filename_policy_error ''final filename must end in the required suffix''))
      (Inr filename))))))"

subsection \<open>Preparing the artifact\<close>

datatype transformation_kind = RENAME_ONLY

record artifact_transformation =
  at_kind :: transformation_kind
  at_native_path :: string
  at_native_filename :: string
  at_native_sha256 :: string
  at_final_path :: string
  at_final_filename :: string
  at_final_sha256 :: string
  at_size_bytes :: int
  at_content_changed :: bool

definition check_native ::
    "(bytes \<Rightarrow> string) \<Rightarrow> 'w build_host \<Rightarrow> build_target \<Rightarrow> build_artifact \<Rightarrow> ('w, string) deploy" where
  "check_native sha_bytes h t a =
     bindS (hostD (bh_is_file h (ba_path a))) (\<lambda>present.
     bindS (requireS present (artifact_err ''native artifact is absent'')) (\<lambda>_.
     bindS (requireS (path_name (ba_path a) = ba_native_filename a)
       (artifact_err ''artifact path and native filename disagree'')) (\<lambda>_.
     bindS (requireS (ba_native_filename a = ap_native_filename (bt_artifact t))
       (artifact_err ''native filename does not match ArtifactPolicy'')) (\<lambda>_.
     bindS (requireS (ba_format a = ap_format (bt_artifact t))
       (artifact_err ''artifact format does not match ArtifactPolicy'')) (\<lambda>_.
     bindS (requireS (ends_with (artifact_suffix (ap_format (bt_artifact t))) (py_lower (ba_native_filename a)))
       (artifact_err ''native artifact extension is incompatible'')) (\<lambda>_.
     bindS (file_sha sha_bytes h (ba_path a)) (\<lambda>native_hash.
     bindS (requireS (native_hash = ba_sha256 a)
       (artifact_err ''native artifact hash no longer matches BuildArtifact'')) (\<lambda>_.
     bindS (file_size h (ba_path a)) (\<lambda>size.
     bindS (requireS (size = ba_size_bytes a)
       (artifact_err ''native artifact size no longer matches BuildArtifact'')) (\<lambda>_.
     returnS native_hash))))))))))"

definition unlink_if_exists :: "'w build_host \<Rightarrow> string \<Rightarrow> ('w, unit) deploy" where
  "unlink_if_exists h p = bindS (hostD (bh_exists h p)) (\<lambda>e. whenS e (hostD (bh_unlink h p)))"

text \<open>\<open>last_successful\<close> is empty when there is none.\<close>

definition apply_artifact_policy ::
    "build_tools \<Rightarrow> 'w build_host \<Rightarrow> board_contract \<Rightarrow> build_artifact \<Rightarrow> string \<Rightarrow> string
     \<Rightarrow> ('w, build_target \<times> artifact_transformation) deploy" where
  "apply_artifact_policy tools h c a output_directory last_successful =
     bindS (liftS (require_contract_identity (tl_sha tools) c a)) (\<lambda>(v, t).
     bindS (check_native (tl_sha_bytes tools) h t a) (\<lambda>native_hash.
     bindS (liftS (final_filename t a)) (\<lambda>filename.
     bindS (requireS (\<not> (py_truthy (py_get (ap_final_filename (bt_artifact t)) ''must_differ_from_last_successful_flash'')
           \<and> last_successful \<noteq> [] \<and> py_lower last_successful = py_lower filename))
       (Deploy_exn (Filename_policy_error ''final filename must differ from the last successful flash''))) (\<lambda>_.
     bindS (hostD (bh_resolve h output_directory)) (\<lambda>output_root.
     bindS (hostD (bh_mkdirs h output_root)) (\<lambda>_.
     let prepared = path_join output_root (bc_board_id c @ ''-'' @ take 12 (ba_build_proof_digest a));
         final_path = path_join prepared filename;
         temporary = path_join prepared (''.'' @ filename @ ''.part'') in
     bindS (hostD (bh_mkdirs h prepared)) (\<lambda>_.
     bindS (finallyS
        (bindS (hostD (bh_copyfile h (ba_path a) temporary)) (\<lambda>_.
         bindS (file_sha (tl_sha_bytes tools) h temporary) (\<lambda>copied.
         bindS (requireS (copied = native_hash)
           (artifact_err ''ArtifactPolicy transformation changed content during rename-only preparation'')) (\<lambda>_.
         hostD (bh_replace h temporary final_path)))))
        (unlink_if_exists h temporary)) (\<lambda>_.
     bindS (file_sha (tl_sha_bytes tools) h final_path) (\<lambda>final_hash.
     bindS (requireS (final_hash = native_hash)
       (artifact_err ''prepared artifact hash differs from native artifact'')) (\<lambda>_.
     bindS (hostD (bh_resolve h (ba_path a))) (\<lambda>native_path.
     returnS (t, \<lparr>at_kind = RENAME_ONLY, at_native_path = native_path,
        at_native_filename = ba_native_filename a, at_native_sha256 = native_hash,
        at_final_path = final_path, at_final_filename = filename, at_final_sha256 = final_hash,
        at_size_bytes = ba_size_bytes a, at_content_changed = False\<rparr>))))))))))))"

end
