(* ===== verification/Plan_Check.thy ===== *)
theory Plan_Check
  imports Deployment_Plan
begin

text \<open>
  The deployment plan of \<open>firmware/boards/deployment.py\<close>: its typed steps, its canonical payload
  and digest, its strict validation before a physical execution, and its creation.  The
  resolution of a path at validation time is the parameter \<open>resolve_path\<close>.
\<close>

datatype step_id =
    VALIDATE_ARTIFACT | ASSIGN_FINAL_FILENAME | VERIFY_FILENAME_POLICY | PREPARE_MEDIA | ENTER_BOOTSEL
  | COPY_TO_MEDIA | VERIFY_MEDIA_CHECKSUM | SAFE_EJECT | REQUIRE_POWER_OFF | REQUIRE_MEDIA_INSERTED
  | REQUIRE_POWER_ON | WAIT_FOR_MCU_REENUMERATION | VERIFY_KLIPPER_BUILD_ID

definition step_table :: "(string \<times> step_id) list" where
  "step_table =
     [(''VALIDATE_ARTIFACT'', VALIDATE_ARTIFACT), (''ASSIGN_FINAL_FILENAME'', ASSIGN_FINAL_FILENAME),
      (''VERIFY_FILENAME_POLICY'', VERIFY_FILENAME_POLICY), (''PREPARE_MEDIA'', PREPARE_MEDIA),
      (''ENTER_BOOTSEL'', ENTER_BOOTSEL), (''COPY_TO_MEDIA'', COPY_TO_MEDIA),
      (''VERIFY_MEDIA_CHECKSUM'', VERIFY_MEDIA_CHECKSUM), (''SAFE_EJECT'', SAFE_EJECT),
      (''REQUIRE_POWER_OFF'', REQUIRE_POWER_OFF), (''REQUIRE_MEDIA_INSERTED'', REQUIRE_MEDIA_INSERTED),
      (''REQUIRE_POWER_ON'', REQUIRE_POWER_ON),
      (''WAIT_FOR_MCU_REENUMERATION'', WAIT_FOR_MCU_REENUMERATION),
      (''VERIFY_KLIPPER_BUILD_ID'', VERIFY_KLIPPER_BUILD_ID)]"

definition step_name :: "step_id \<Rightarrow> string" where
  "step_name i = (case find (\<lambda>(n, j). j = i) step_table of Some (n, _) \<Rightarrow> n | None \<Rightarrow> [])"

definition sd_steps :: "step_id list" where
  "sd_steps = [VALIDATE_ARTIFACT, ASSIGN_FINAL_FILENAME, VERIFY_FILENAME_POLICY, PREPARE_MEDIA,
     COPY_TO_MEDIA, VERIFY_MEDIA_CHECKSUM, SAFE_EJECT, REQUIRE_POWER_OFF, REQUIRE_MEDIA_INSERTED,
     REQUIRE_POWER_ON, WAIT_FOR_MCU_REENUMERATION, VERIFY_KLIPPER_BUILD_ID]"

definition bootsel_steps :: "step_id list" where
  "bootsel_steps = [VALIDATE_ARTIFACT, ASSIGN_FINAL_FILENAME, VERIFY_FILENAME_POLICY, PREPARE_MEDIA,
     ENTER_BOOTSEL, COPY_TO_MEDIA, VERIFY_MEDIA_CHECKSUM, SAFE_EJECT, WAIT_FOR_MCU_REENUMERATION,
     VERIFY_KLIPPER_BUILD_ID]"

record deployment_step =
  ds_id :: step_id
  ds_ordinal :: nat

definition typed_steps :: "build_target \<Rightarrow> (deploy_exn, deployment_step list) res" where
  "typed_steps t =
     (case those (map (map_of step_table) (fr_steps (bt_flash t))) of
        None \<Rightarrow> Inl (Deploy_exn (Contract_deployment_error ''contract flash recipe contains a non-Phase-3 deployment step''))
      | Some ids \<Rightarrow>
          require ((fr_strategy (bt_flash t) = SD_CARD \<and> ids = sd_steps)
              \<or> (fr_strategy (bt_flash t) = RP2040_BOOTSEL \<and> ids = bootsel_steps))
            (Deploy_exn (Contract_deployment_error ''contract has no exact non-executing plan''))
          (Inr (map (\<lambda>(n, i). \<lparr>ds_id = i, ds_ordinal = n\<rparr>) (enumerate 1 ids))))"

record deployment_plan =
  dp_schema :: string
  dp_deployment_id :: string
  dp_board_id :: string
  dp_hardware_variant_id :: string
  dp_build_target_id :: string
  dp_board_contract_digest :: string
  dp_klipper_commit :: string
  dp_build_proof_digest :: string
  dp_strategy :: flash_strategy
  dp_artifact :: build_artifact
  dp_transformation :: artifact_transformation
  dp_steps :: "deployment_step list"
  dp_warnings :: "string list"
  dp_plan_digest :: string

definition strategy_name :: "flash_strategy \<Rightarrow> string" where
  "strategy_name s = (case s of
     PREPARE_ONLY \<Rightarrow> ''PREPARE_ONLY'' | SD_CARD \<Rightarrow> ''SD_CARD'' | AVRDUDE \<Rightarrow> ''AVRDUDE''
   | DFU_UTIL \<Rightarrow> ''DFU_UTIL'' | MAKE_FLASH \<Rightarrow> ''MAKE_FLASH'' | RAW_ADDRESS \<Rightarrow> ''RAW_ADDRESS''
   | RP2040_BOOTSEL \<Rightarrow> ''RP2040_BOOTSEL'')"

definition transformation_mapping :: "artifact_transformation \<Rightarrow> pyval" where
  "transformation_mapping x = PDict
     [(KStr ''kind'', PStr ''RENAME_ONLY''), (KStr ''native_path'', PStr (at_native_path x)),
      (KStr ''native_filename'', PStr (at_native_filename x)), (KStr ''native_sha256'', PStr (at_native_sha256 x)),
      (KStr ''final_path'', PStr (at_final_path x)), (KStr ''final_filename'', PStr (at_final_filename x)),
      (KStr ''final_sha256'', PStr (at_final_sha256 x)), (KStr ''size_bytes'', PInt (at_size_bytes x)),
      (KStr ''content_changed'', PBool (at_content_changed x))]"

definition plan_payload :: "deployment_plan \<Rightarrow> pydict" where
  "plan_payload p =
     [(KStr ''schema'', PStr (dp_schema p)), (KStr ''board_id'', PStr (dp_board_id p)),
      (KStr ''hardware_variant_id'', PStr (dp_hardware_variant_id p)),
      (KStr ''build_target_id'', PStr (dp_build_target_id p)),
      (KStr ''board_contract_digest'', PStr (dp_board_contract_digest p)),
      (KStr ''klipper_commit'', PStr (dp_klipper_commit p)),
      (KStr ''build_proof_digest'', PStr (dp_build_proof_digest p)),
      (KStr ''strategy'', PStr (strategy_name (dp_strategy p))),
      (KStr ''artifact_sha256'', PStr (ba_sha256 (dp_artifact p))),
      (KStr ''transformation'', transformation_mapping (dp_transformation p)),
      (KStr ''steps'', text_list (map (\<lambda>s. step_name (ds_id s)) (dp_steps p))),
      (KStr ''warnings'', text_list (dp_warnings p))]"

definition compute_plan_digest :: "(string \<Rightarrow> string) \<Rightarrow> deployment_plan \<Rightarrow> string" where
  "compute_plan_digest sha p = sha (canonical_json (PDict (plan_payload p)))"

lemma plan_payload_plain: "plain (PDict (plan_payload p))"
  by (simp add: plan_payload_def transformation_mapping_def plain_texts list_all_iff key_is_str_def)

definition plan_id :: "string \<Rightarrow> string" where
  "plan_id digest = ''board-contract-'' @ take 24 digest"

subsection \<open>Validation\<close>

definition check_transformation ::
    "(string \<Rightarrow> string) \<Rightarrow> build_artifact \<Rightarrow> string \<Rightarrow> artifact_transformation \<Rightarrow> (deploy_exn, unit) res" where
  "check_transformation resolve_path a filename x =
     require (at_kind x = RENAME_ONLY) (mismatch ''physical SD execution permits rename-only artifacts'')
     (require (at_final_filename x = filename)
       (Deploy_exn (Filename_policy_error ''plan final filename differs from ArtifactPolicy''))
     (require (path_name (at_final_path x) = filename)
       (Deploy_exn (Filename_policy_error ''plan staged path filename differs from ArtifactPolicy''))
     (require (at_native_filename x = ba_native_filename a) (mismatch ''plan native filename differs from BuildArtifact'')
     (require (at_native_path x = resolve_path (ba_path a)) (mismatch ''plan native path differs from BuildArtifact'')
     (require (at_native_sha256 x = ba_sha256 a) (mismatch ''plan native hash differs from BuildArtifact'')
     (require (at_final_sha256 x = ba_sha256 a) (mismatch ''plan staged hash differs from BuildArtifact'')
     (require (at_size_bytes x = ba_size_bytes a) (mismatch ''plan staged size differs from BuildArtifact'')
     (require (\<not> at_content_changed x) (mismatch ''rename-only plan records changed content'')
     (Inr ())))))))))"

definition check_identity :: "deployment_plan \<Rightarrow> build_artifact \<Rightarrow> (deploy_exn, unit) res" where
  "check_identity p a = (case ba_firmware_identity a of
     None \<Rightarrow> Inl (mismatch ''contract artifact has no firmware identity'')
   | Some i \<Rightarrow>
       require (bi_klipper_commit i = dp_klipper_commit p)
         (mismatch ''firmware identity has a different Klipper commit'')
       (require (fi_artifact_sha256 i = ba_sha256 a)
         (mismatch ''firmware identity has a different artifact hash'')
       (require (fi_artifact_size i = ba_size_bytes a)
         (mismatch ''firmware identity has a different artifact size'')
       (Inr ()))))"

definition validate_deployment_plan ::
    "(string \<Rightarrow> string) \<Rightarrow> (string \<Rightarrow> string) \<Rightarrow> board_contract \<Rightarrow> deployment_plan \<Rightarrow> (deploy_exn, build_target) res" where
  "validate_deployment_plan sha resolve_path c p =
     bindE (digest_of sha c) (\<lambda>digest.
     require (dp_board_id p = bc_board_id c) (mismatch ''plan board_id does not match'')
     (require (dp_board_contract_digest p = digest) (mismatch ''plan board_contract_digest does not match'')
     (require (dp_klipper_commit p = um_validated_commit (bc_upstream c))
       (mismatch ''plan klipper_commit does not match'')
     (bindE (find_target c (dp_hardware_variant_id p) (dp_build_target_id p)) (\<lambda>(v, t).
     require (dp_strategy p = fr_strategy (bt_flash t)) (mismatch ''plan strategy differs from FlashRecipe'')
     (bindE (typed_steps t) (\<lambda>steps.
     require (dp_steps p = steps) (mismatch ''plan steps differ from FlashRecipe'')
     (require (dp_warnings p = map cw_text (bc_warnings c)) (mismatch ''plan warnings differ from the contract'')
     (bindE (require_contract_identity sha c (dp_artifact p)) (\<lambda>(v', t').
     require (hv_id v' = hv_id v \<and> bt_id t' = bt_id t) (mismatch ''plan and artifact target identities differ'')
     (require (ba_build_proof_digest (dp_artifact p) = dp_build_proof_digest p)
       (mismatch ''plan and artifact BuildProof digests differ'')
     (bindE (check_identity p (dp_artifact p)) (\<lambda>_.
     bindE (final_filename t (dp_artifact p)) (\<lambda>filename.
     bindE (check_transformation resolve_path (dp_artifact p) filename (dp_transformation p)) (\<lambda>_.
     let computed = compute_plan_digest sha p in
     require (dp_plan_digest p = computed) (mismatch ''DeploymentPlan digest is invalid'')
     (require (dp_deployment_id p = plan_id computed) (mismatch ''DeploymentPlan ID is not derived from its digest'')
     (Inr t)))))))))))))))))"

subsection \<open>Creation\<close>

definition create_deployment_plan ::
    "build_tools \<Rightarrow> 'w build_host \<Rightarrow> board_contract \<Rightarrow> build_artifact \<Rightarrow> string \<Rightarrow> string
     \<Rightarrow> ('w, deployment_plan) deploy" where
  "create_deployment_plan tools h c a output_directory last_successful =
     bindS (apply_artifact_policy tools h c a output_directory last_successful) (\<lambda>(t, x).
     bindS (liftS (typed_steps t)) (\<lambda>steps.
     bindS (liftS (digest_of (tl_sha tools) c)) (\<lambda>digest.
     let draft = \<lparr>dp_schema = ''kace-board-deployment-plan/v1'', dp_deployment_id = [],
           dp_board_id = bc_board_id c, dp_hardware_variant_id = ba_hardware_variant_id a,
           dp_build_target_id = ba_build_target_id a, dp_board_contract_digest = digest,
           dp_klipper_commit = um_validated_commit (bc_upstream c),
           dp_build_proof_digest = ba_build_proof_digest a, dp_strategy = fr_strategy (bt_flash t),
           dp_artifact = a, dp_transformation = x, dp_steps = steps,
           dp_warnings = map cw_text (bc_warnings c), dp_plan_digest = []\<rparr>;
         computed = compute_plan_digest (tl_sha tools) draft in
     returnS (draft\<lparr>dp_deployment_id := plan_id computed, dp_plan_digest := computed\<rparr>))))"

subsection \<open>Created plans pass validation\<close>

lemma split_char_append: "CHR ''/'' \<notin> set f \<Longrightarrow> split_char CHR ''/'' (d @ ''/'' @ f) = split_char CHR ''/'' d @ [f]"
proof (induction d)
  case Nil
  then have "split_char CHR ''/'' f = [f]" by (induction f) auto
  then show ?case by simp
next
  case (Cons a d)
  then show ?case by (auto split: list.splits)
qed

lemma path_name_join: "CHR ''/'' \<notin> set f \<Longrightarrow> path_name (path_join d f) = f"
  by (simp add: path_name_def path_join_def split_char_append [simplified])

lemma final_filename_safe: "final_filename t a = Inr f \<Longrightarrow> safe_basename f \<and> CHR ''{'' \<notin> set f \<and> CHR ''}'' \<notin> set f"
  by (auto simp: final_filename_def Let_def result_simps)

lemma hostD_eq [state_simps]:
  "hostD m w = (Inr x, w') \<longleftrightarrow> m w = (Inr x, w')"
  by (cases "m w") (auto simp: hostD_def mapI_def split: sum.splits)

lemma check_native_ok:
  "check_native sha_bytes h t a w = (Inr n, w') \<Longrightarrow> n = ba_sha256 a \<and> ba_native_filename a = ap_native_filename (bt_artifact t)
     \<and> ba_format a = ap_format (bt_artifact t)"
  by (auto simp: check_native_def state_simps)

lemma policy_applied:
  assumes "apply_artifact_policy tools h c a out last_successful w = (Inr (t, x), w')"
  shows "\<exists>v filename native_path. require_contract_identity (tl_sha tools) c a = Inr (v, t)
     \<and> final_filename t a = Inr filename
     \<and> x = \<lparr>at_kind = RENAME_ONLY, at_native_path = native_path,
        at_native_filename = ba_native_filename a, at_native_sha256 = ba_sha256 a,
        at_final_path = at_final_path x, at_final_filename = filename, at_final_sha256 = ba_sha256 a,
        at_size_bytes = ba_size_bytes a, at_content_changed = False\<rparr>
     \<and> path_name (at_final_path x) = filename"
  using assms unfolding apply_artifact_policy_def
  by (clarsimp simp: state_simps Let_def split: prod.splits)
     (auto simp: path_name_join safe_basename_def dest!: check_native_ok final_filename_safe)

lemma contract_identity_parts:
  assumes "require_contract_identity sha c a = Inr (v, t)"
  shows "ba_board_id a = bc_board_id c" "digest_of sha c = Inr (ba_board_contract_digest a)"
    "ba_klipper_commit a = um_validated_commit (bc_upstream c)"
    "find_target c (ba_hardware_variant_id a) (ba_build_target_id a) = Inr (v, t)"
    "sha256_re (ba_build_proof_digest a)"
  using assms by (auto simp: require_contract_identity_def result_simps)

text \<open>The artifact's firmware identity agrees with the contract and with the artifact.\<close>

definition identity_consistent :: "board_contract \<Rightarrow> build_artifact \<Rightarrow> bool" where
  "identity_consistent c a = (case ba_firmware_identity a of
     None \<Rightarrow> False
   | Some i \<Rightarrow> bi_klipper_commit i = um_validated_commit (bc_upstream c)
       \<and> fi_artifact_sha256 i = ba_sha256 a \<and> fi_artifact_size i = ba_size_bytes a)"

lemma created_plan_validates:
  assumes cr: "create_deployment_plan tools h c a out last_successful w = (Inr p, w')"
    and idn: "identity_consistent c a"
    and stable: "resolve_path (ba_path a) = at_native_path (dp_transformation p)"
  shows "\<exists>t. validate_deployment_plan (tl_sha tools) resolve_path c p = Inr t
     \<and> dp_strategy p = fr_strategy (bt_flash t)"
proof -
  from cr obtain t x steps digest w1 where
    ap: "apply_artifact_policy tools h c a out last_successful w = (Inr (t, x), w1)" and
    st: "typed_steps t = Inr steps" and dg: "digest_of (tl_sha tools) c = Inr digest" and
    fields: "dp_board_id p = bc_board_id c" "dp_hardware_variant_id p = ba_hardware_variant_id a"
      "dp_build_target_id p = ba_build_target_id a" "dp_board_contract_digest p = digest"
      "dp_klipper_commit p = um_validated_commit (bc_upstream c)"
      "dp_build_proof_digest p = ba_build_proof_digest a" "dp_strategy p = fr_strategy (bt_flash t)"
      "dp_artifact p = a" "dp_transformation p = x" "dp_steps p = steps"
      "dp_warnings p = map cw_text (bc_warnings c)" and
    ids: "dp_plan_digest p = compute_plan_digest (tl_sha tools) p"
      "dp_deployment_id p = plan_id (compute_plan_digest (tl_sha tools) p)"
    by (clarsimp simp: create_deployment_plan_def state_simps Let_def compute_plan_digest_def plan_payload_def)
  from policy_applied [OF ap] obtain v filename where
    ci: "require_contract_identity (tl_sha tools) c a = Inr (v, t)" and
    ff: "final_filename t a = Inr filename" and
    x: "at_kind x = RENAME_ONLY" "at_native_filename x = ba_native_filename a"
      "at_native_sha256 x = ba_sha256 a" "at_final_filename x = filename"
      "at_final_sha256 x = ba_sha256 a" "at_size_bytes x = ba_size_bytes a" "\<not> at_content_changed x"
      "path_name (at_final_path x) = filename"
    by (metis artifact_transformation.select_convs)
  have tr: "check_transformation resolve_path a filename x = Inr ()"
    using x stable fields by (simp add: check_transformation_def)
  have ident: "check_identity p a = Inr ()"
    using idn fields by (auto simp: identity_consistent_def check_identity_def split: option.splits)
  show ?thesis
    using contract_identity_parts [OF ci] dg st ci ff tr ident fields ids
    by (simp add: validate_deployment_plan_def)
qed

subsection \<open>Bridged artifacts are consistent\<close>

lemma lower_hex_lower: "is_lower_hex ch \<Longrightarrow> lower_char ch = ch"
  by (auto simp: is_lower_hex_def lower_char_def is_upper_def is_digit_def)

lemma py_lower_hex: "list_all is_lower_hex s \<Longrightarrow> py_lower s = s"
  by (induction s) (simp_all add: py_lower_def lower_hex_lower)

lemma lower_hex_not_space: "is_lower_hex ch \<Longrightarrow> \<not> py_is_space ch"
  by (auto simp: is_lower_hex_def py_is_space_def is_digit_def Let_def)

lemma py_strip_hex: "list_all is_lower_hex s \<Longrightarrow> py_strip s = s"
  by (rule py_strip_no_space) (auto simp: list_all_iff lower_hex_not_space)

lemma inputs_commit:
  "build_inputs_create sha fresh commit cfg ti opts b = Inr i \<Longrightarrow> commit_re commit \<Longrightarrow> bi_klipper_commit i = commit"
  by (auto simp: build_inputs_create_def Let_def result_simps commit_re_def py_strip_hex py_lower_hex)

lemma completed_fields:
  "build_inputs_complete sha i hash bytes_count fmt = Inr f \<Longrightarrow>
     bi_klipper_commit f = bi_klipper_commit i \<and> fi_artifact_sha256 f = py_lower hash \<and> fi_artifact_size f = bytes_count"
  by (auto simp: build_inputs_complete_def Let_def result_simps build_inputs.defs)

lemma file_sha_ok:
  assumes "file_sha sha_bytes h p w = (Inr d, w')"
  shows "\<exists>content. d = sha_bytes content"
  using assms
  by (auto simp: file_sha_def catchS_def raiseS_def returnS_def bindS_def
      split: prod.splits sum.splits deploy_exn.splits host_exn.splits)

lemma check_artifact_same: "check_artifact a = Inr b \<Longrightarrow> b = a"
  by (simp add: check_artifact_ok)

lemma bridged_parts:
  assumes "build_artifact_from_proof tools h p c w = (Inr a, w')"
  shows "bp_klipper_commit p = um_validated_commit (bc_upstream c)
    \<and> (\<exists>w1 w2. check_evidence (tl_sha_bytes tools) h (bp_artifact_path p, bp_artifact_sha256 p, Some (bp_artifact_size p)) w1 = (Inr (), w2))
    \<and> (\<exists>i f cfg fmt. build_inputs_create (tl_sha tools) [] (um_validated_commit (bc_upstream c)) cfg (bp_toolchain p)
          (build_options p) (Some (bp_build_id p)) = Inr i
        \<and> build_inputs_complete (tl_sha tools) i (bp_artifact_sha256 p) (bp_artifact_size p) fmt = Inr f
        \<and> ba_firmware_identity a = Some f)
    \<and> ba_sha256 a = bp_artifact_sha256 p \<and> ba_size_bytes a = bp_artifact_size p
    \<and> ba_flashable a = False \<and> ba_build_proof_digest a = build_proof_digest (tl_sha tools) p"
  using assms unfolding build_artifact_from_proof_def
  by (clarsimp simp: state_simps result_simps Let_def split: prod.splits dest!: check_artifact_same) blast

lemma bridged_consistent:
  assumes br: "build_artifact_from_proof tools h p c w = (Inr a, w')"
    and hex: "\<forall>content. sha256_re (tl_sha_bytes tools content)"
    and commit: "commit_re (um_validated_commit (bc_upstream c))"
  shows "identity_consistent c a \<and> ba_flashable a = False \<and> ba_sha256 a = bp_artifact_sha256 p
     \<and> ba_build_proof_digest a = build_proof_digest (tl_sha tools) p"
proof -
  from bridged_parts [OF br] obtain i f cfg fmt w1 w2 where
    commit_eq: "bp_klipper_commit p = um_validated_commit (bc_upstream c)" and
    ev: "check_evidence (tl_sha_bytes tools) h (bp_artifact_path p, bp_artifact_sha256 p, Some (bp_artifact_size p)) w1 = (Inr (), w2)" and
    i: "build_inputs_create (tl_sha tools) [] (um_validated_commit (bc_upstream c)) cfg (bp_toolchain p)
          (build_options p) (Some (bp_build_id p)) = Inr i" and
    f: "build_inputs_complete (tl_sha tools) i (bp_artifact_sha256 p) (bp_artifact_size p) fmt = Inr f" and
    a: "ba_firmware_identity a = Some f" "ba_sha256 a = bp_artifact_sha256 p" "ba_size_bytes a = bp_artifact_size p"
      "ba_flashable a = False" "ba_build_proof_digest a = build_proof_digest (tl_sha tools) p"
    by blast
  from ev obtain w4 w5 where "file_sha (tl_sha_bytes tools) h (bp_artifact_path p) w4 = (Inr (bp_artifact_sha256 p), w5)"
    by (auto simp: check_evidence_def state_simps)
  from file_sha_ok [OF this] hex have "sha256_re (bp_artifact_sha256 p)" by auto
  then have "py_lower (bp_artifact_sha256 p) = bp_artifact_sha256 p"
    by (simp add: sha256_re_def py_lower_hex)
  with inputs_commit [OF i] completed_fields [OF f] commit commit_eq a show ?thesis
    by (simp add: identity_consistent_def)
qed

end
