(* ===== verification/Build_Properties.thy ===== *)
theory Build_Properties
  imports Build_Safety Plan_Check Example_Board
begin

text \<open>What a successful build, its artifact and its deployment plan promise.\<close>

declare action_simps [simp]

subsection \<open>A concrete host\<close>

text \<open>
  A host on which everything succeeds: the same bytes in every binary file, commands that exit
  with 0.  Its digests are the fixed text of \<open>Example_Board\<close>.
\<close>

definition ex_build_id :: string where
  "ex_build_id = replicate 32 CHR ''7''"

definition ex_fingerprint :: string where
  "ex_fingerprint = marker_prefix @ ex_build_id"

definition ex_content :: bytes where
  "ex_content = ascii_bytes ex_fingerprint"

definition ex_tools :: build_tools where
  "ex_tools = \<lparr>tl_sha = ex_sha, tl_sha_bytes = (\<lambda>_. ex_digest), tl_inflate = (\<lambda>_. None), tl_identify = (\<lambda>_. Not_json),
     tl_audit_line = (\<lambda>_. None), tl_render = (\<lambda>_. [])\<rparr>"

definition ex_config :: string where
  "ex_config = concat (map (\<lambda>(s, _). s @ ''=y'' @ newline) ex_requested) @ ''CONFIG_MCU='' @ json_string ''stm32f103xe'' @ newline"

definition ex_kconfig_source :: string where
  "ex_kconfig_source = concat (map (\<lambda>s. ''config '' @ drop 7 s @ newline) (''CONFIG_MCU'' # map fst ex_requested))"

definition ex_read_text :: "string \<Rightarrow> string" where
  "ex_read_text p = (if path_name p = ''Kconfig'' then ex_kconfig_source
     else if path_name p = ''Makefile'' then makefile_needle
     else if path_name p = ''compiler-flags.jsonl'' then [] else ex_config)"

definition ex_stdout :: "string list \<Rightarrow> string" where
  "ex_stdout argv = (let a = last argv in
     if a = ''HEAD'' then ex_commit else if a = ''--is-bare-repository'' then ''true''
     else if a = ''kace.repository'' then ''https://github.com/Klipper3d/klipper.git''
     else if a = ''--version'' then ''1'' else [])"

definition ex_host :: "unit build_host" where
  "ex_host = \<lparr>bh_environ = [], bh_legacy_klipper = ''/h/klipper'', bh_cache_directory = returnS ''/c'',
     bh_run = (\<lambda>argv _ _. returnS \<lparr>cr_returncode = 0, cr_stdout = ex_stdout argv, cr_stderr = []\<rparr>),
     bh_resolve = returnS, bh_mkdirs = (\<lambda>_. returnS ()), bh_mkdir = (\<lambda>_. returnS ()),
     bh_disk_free = (\<lambda>_. returnS (1024 ^ 4)), bh_disk_backed = (\<lambda>_. returnS ()),
     bh_lock = (\<lambda>_. returnS ()), bh_unlock = (\<lambda>_. returnS ()), bh_is_file = (\<lambda>_. returnS True),
     bh_is_dir = (\<lambda>_. returnS True), bh_is_symlink = (\<lambda>_. returnS False), bh_exists = (\<lambda>_. returnS False),
     bh_lexists = (\<lambda>_. returnS True), bh_read_text = (\<lambda>p. returnS (ex_read_text p)),
     bh_read_raw = (\<lambda>_. returnS ex_config), bh_read_bytes = (\<lambda>_. returnS ex_content),
     bh_write_text = (\<lambda>_ _. returnS ()), bh_copyfile = (\<lambda>_ _. returnS ()), bh_replace = (\<lambda>_ _. returnS ()),
     bh_unlink = (\<lambda>_. returnS ()), bh_rmtree = (\<lambda>_. returnS ()), bh_kconfig_files = (\<lambda>_. returnS [''/k/Kconfig'']),
     bh_uuid = returnS ex_build_id, bh_cpu_count = returnS 4, bh_pi_model = returnS [],
     bh_memory = returnS None, bh_wrapper_source = ''/w''\<rparr>"

definition ex_context :: build_context where
  "ex_context = \<lparr>cx_output_directory = ''/o'', cx_staging_parent = [], cx_source_checkout = [],
     cx_git_command = [''git''], cx_make_command = [''make''], cx_concurrency = Some 2,
     cx_environment_path = [], cx_allow_lto_retry = True\<rparr>"

lemma ex_context_fields [simp]:
  "cx_output_directory ex_context = ''/o''" "cx_staging_parent ex_context = []" "cx_source_checkout ex_context = []"
  "cx_git_command ex_context = [''git'']" "cx_make_command ex_context = [''make'']" "cx_concurrency ex_context = Some 2"
  "cx_environment_path ex_context = []" "cx_allow_lto_retry ex_context"
  by (simp_all add: ex_context_def)

lemma unit_host [simp]: "hostS (returnS x) = (returnS x :: (unit, 'a) build)"
  by (rule ext) (simp add: hostS_def returnS_def)

lemma ex_host_ops [simp]:
  "bh_resolve ex_host p = returnS p" "bh_mkdirs ex_host p = returnS ()" "bh_mkdir ex_host p = returnS ()"
  "bh_disk_free ex_host p = returnS (1024 ^ 4)" "bh_is_file ex_host p = returnS True"
  "bh_read_text ex_host p = returnS (ex_read_text p)" "bh_read_raw ex_host p = returnS ex_config"
  "bh_read_bytes ex_host p = returnS ex_content" "bh_write_text ex_host p t = returnS ()"
  "bh_copyfile ex_host p q = returnS ()" "bh_replace ex_host p q = returnS ()"
  "bh_uuid ex_host = returnS ex_build_id" "bh_kconfig_files ex_host p = returnS [''/k/Kconfig'']"
  "bh_exists ex_host p = returnS False" "bh_lock ex_host p = returnS ()" "bh_unlock ex_host p = returnS ()"
  "bh_is_symlink ex_host p = returnS False" "bh_is_dir ex_host p = returnS True" "bh_rmtree ex_host p = returnS ()"
  "bh_disk_backed ex_host p = returnS ()" "bh_cache_directory ex_host = returnS ''/c''"
  "bh_wrapper_source ex_host = ''/w''" "bh_environ ex_host = []" "bh_legacy_klipper ex_host = ''/h/klipper''"
  by (simp_all add: ex_host_def)

lemma ex_pure [simp]: "pureS (Inr x) = returnS x" "mapI f (Inr x) = Inr x"
  by (simp_all add: pureS_def mapI_def)

lemma ex_space [simp]: "ensure_free_space ex_host d (2 * gib) p = returnS ()" "ensure_free_space ex_host d gib p = returnS ()"
  by (simp_all add: ensure_free_space_def gib_def)

subsection \<open>Commands of the concrete build\<close>

definition ran :: "string list \<Rightarrow> (unit, unit) build" where
  "ran argv = modifyS (\<lambda>s. s\<lparr>bs_commands := bs_commands s @ [argv]\<rparr>)"

lemma returns_ran [simp]: "returns (k ()) y \<Longrightarrow> returns (bindS (ran argv) k) y"
  by (simp add: ran_def)

definition ex_proof_of :: "string list \<Rightarrow> command_proof" where
  "ex_proof_of argv = \<lparr>cp_argv = argv, cp_returncode = 0, cp_stdout_sha256 = ex_digest, cp_stderr_sha256 = ex_digest,
     cp_stdout_tail = tail_of (ex_stdout argv), cp_stderr_tail = []\<rparr>"

lemma ex_proof_ok [simp]: "command_ok (ex_proof_of argv)"
  by (simp add: command_ok_def ex_proof_of_def)

lemma ex_execute: "\<not> list_ex contains_shell_syntax argv \<Longrightarrow>
   executeS ex_sha ex_host argv cwd e = bindS (ran argv) (\<lambda>_.
     returnS (ex_proof_of argv, \<lparr>cr_returncode = 0, cr_stdout = ex_stdout argv, cr_stderr = []\<rparr>))"
  by (simp add: executeS_def ran_def ex_host_def ex_sha_def ex_proof_of_def tail_of_def)

lemma ex_run: "\<not> list_ex contains_shell_syntax argv \<Longrightarrow>
   runS ex_sha ex_host argv cwd e = bindS (ran argv) (\<lambda>_. returnS (ex_proof_of argv))"
  by (simp add: runS_def ex_execute bindS_assoc)

lemma ex_run_ok: "\<not> list_ex contains_shell_syntax argv \<Longrightarrow>
   run_okS ex_sha ex_host phase argv cwd e = bindS (ran argv) (\<lambda>_. returnS (ex_proof_of argv))"
  by (simp add: run_okS_def ex_run bindS_assoc)

lemma ex_shell:
  "\<not> contains_shell_syntax ''make''" "\<not> contains_shell_syntax ''--version''" "\<not> contains_shell_syntax ''arm-none-eabi-gcc''"
  "\<not> contains_shell_syntax ''olddefconfig''"
  by code_simp+

subsection \<open>Its phases\<close>

definition ex_requested_text :: string where
  "ex_requested_text = concat (map (\<lambda>(s, _). s @ ''=y'' @ newline) (sort_key fst ex_requested))"

definition ex_declared :: "string list" where
  "ex_declared = ''CONFIG_MCU'' # map fst ex_requested"

definition ex_resolved :: kconfig where
  "ex_resolved = ex_requested @ ex_asserted"

lemma ex_serialize: "serialize_requested_config ex_requested = Inr ex_requested_text"
  by code_simp

lemma ex_configs: "map ((@) ''CONFIG_'') (find_configs True ex_kconfig_source) = ex_declared"
  by code_simp

lemma ex_parse: "normalize_newlines ex_config = ex_config" "parse_kconfig ex_config = Inr ex_resolved"
  by code_simp+

lemma ex_collected: "collect_declared_kconfig_symbols ex_host p = returnS (set ex_declared)"
proof -
  have "set ex_declared \<noteq> {}" by (simp add: ex_declared_def)
  moreover have "ex_read_text ''/k/Kconfig'' = ex_kconfig_source" by (simp add: ex_read_text_def path_name_def)
  ultimately show ?thesis
    by (simp add: collect_declared_kconfig_symbols_def read_kconfig_source_def ex_configs
        del: map_map set_map set_empty image_is_empty map_is_Nil_conv)
qed

lemma ex_all_declared:
  "verify_declared_symbols ex_requested (set ex_declared) = Inr ()" "verify_declared_symbols ex_asserted (set ex_declared) = Inr ()"
  by (auto simp: verify_declared_ok ex_declared_def ex_asserted_def)

definition ex_selections :: verification_proof where
  "ex_selections = \<lparr>vp_ok = True, vp_checked_symbols = sort (map fst ex_requested), vp_failures = []\<rparr>"

definition ex_assertions :: verification_proof where
  "ex_assertions = \<lparr>vp_ok = True, vp_checked_symbols = [''CONFIG_MCU''], vp_failures = []\<rparr>"

lemma ex_selected:
  "verify_requested_selections ex_requested ex_resolved = Inr ex_selections"
  "verify_resolved_assertions ex_asserted ex_resolved = Inr ex_assertions"
  by code_simp+

definition ex_toolchain :: toolchain_identity where
  "ex_toolchain = \<lparr>ti_make_command = ''make'', ti_make_version = ''1'', ti_compiler = ''arm-none-eabi-gcc'', ti_compiler_version = ''1''\<rparr>"

lemma ex_identify: "identify_toolchain ex_sha ex_host ex_context co ex_variant e =
   bindS (ran [''make'', ''--version'']) (\<lambda>_. bindS (ran [''arm-none-eabi-gcc'', ''--version'']) (\<lambda>_. returnS ex_toolchain))"
proof -
  have "first_output_line \<lparr>cr_returncode = 0, cr_stdout = ''1'', cr_stderr = []\<rparr> = ''1''" by code_simp
  moreover have "compiler_of ''stm32'' = Some ''arm-none-eabi-gcc''" by code_simp
  ultimately show ?thesis
    by (simp add: identify_toolchain_def ex_variant_def ex_processor_def ex_execute ex_shell bindS_assoc
      ex_stdout_def ex_toolchain_def)
qed

lemma ex_audit: "prepare_compiler_audit ex_host st =
   returnS (path_join st ''trusted-board-contract-wrappers'', path_join st ''compiler-flags.jsonl'')"
  by (simp add: prepare_compiler_audit_def compiler_names_def)

lemma ex_inject: "inject_firmware_fingerprint ex_host co ex_fingerprint = returnS ()"
proof -
  have "fingerprint_makefile makefile_needle ex_fingerprint = Inr (makefile_patch ex_fingerprint)" by code_simp
  moreover have "ex_read_text (path_join co ''Makefile'') = makefile_needle" by (simp add: ex_read_text_def path_name_join)
  ultimately show ?thesis by (simp add: inject_firmware_fingerprint_def)
qed

definition ex_build_argv :: "string list" where
  "ex_build_argv = [''make'', ''KLIPPER_VERSION='' @ ex_fingerprint, ''-j2'']"

definition ex_configured :: "string \<Rightarrow> configured" where
  "ex_configured st = \<lparr>cf_requested_text = ex_requested_text, cf_resolved_text = ex_config,
     cf_olddefconfig = ex_proof_of [''make'', ''olddefconfig''], cf_selection_proof = ex_selections,
     cf_assertion_proof = ex_assertions, cf_toolchain = ex_toolchain, cf_flags_log = path_join st ''compiler-flags.jsonl'',
     cf_environment = [(''LC_ALL'', ''C''), (''PATH'', path_join st ''trusted-board-contract-wrappers'' @ '':''),
       (''KACE_CC_FLAGS_LOG'', path_join st ''compiler-flags.jsonl''), (''KACE_CC_DISABLE_LTO'', ''0'')],
     cf_build_id = ex_build_id, cf_fingerprint = ex_fingerprint, cf_build_argv = ex_build_argv\<rparr>"

lemma ex_configure: "returns (configure_build ex_sha ex_host ex_context st co ex_variant ex_target) (ex_configured st)"
proof -
  have jobs: "show_int 2 = ''2''" by code_simp
  show ?thesis
    by (simp add: configure_build_def ex_target_def ex_serialize ex_collected ex_all_declared ex_run_ok ex_shell bindS_assoc
      ex_parse ex_selected ex_audit ex_inject [unfolded ex_fingerprint_def] ex_identify Let_def choose_jobs_def
      ex_configured_def ex_build_argv_def ex_fingerprint_def build_environment_def jobs)
qed

lemma ex_build_shell: "\<not> list_ex contains_shell_syntax ex_build_argv"
  by code_simp

lemma ex_compile: "returns (compile_firmware ex_sha ex_host ex_context co (ex_configured st)) [ex_proof_of ex_build_argv]"
  by (simp add: compile_firmware_def ex_configured_def ex_run ex_build_shell bindS_assoc)

lemma ex_flags: "read_compiler_flags (\<lambda>_. None) ex_host (path_join st ''compiler-flags.jsonl'') = returnS ([], [])"
proof -
  have "ex_read_text (path_join st ''compiler-flags.jsonl'') = []" by (simp add: ex_read_text_def path_name_join)
  then show ?thesis by (simp add: read_compiler_flags_def)
qed

lemma ex_marker: "artifact_contains_fingerprint (\<lambda>_. None) (\<lambda>_. Not_json) ex_content ex_fingerprint = Inr True"
  by code_simp

lemma ex_native: "read_native_artifact (\<lambda>_. None) (\<lambda>_. Not_json) ex_host co ex_artifact ex_fingerprint =
   returnS (path_join co ''out/klipper.bin'', ex_content)"
proof -
  have n: "path_name (path_join co ''out/klipper.bin'') = ''klipper.bin''"
    using path_name_join [of "''klipper.bin''" "path_join co ''out''"] by (simp add: path_join_def)
  have w: "path_within co (path_join co ''out/klipper.bin'')"
    by (simp add: path_within_def path_join_def starts_with_iff)
  have e: "ends_with ''.bin'' (py_lower ''klipper.bin'')" "ex_content \<noteq> []" by code_simp+
  show ?thesis
    by (simp add: read_native_artifact_def ex_artifact_def n w e artifact_suffix_def ex_marker)
qed

definition ex_evidence :: string where
  "ex_evidence = path_join ''/o'' (''acme.one-stm32f103-sd-usart1-aaaaaaaaaaaa-'' @ ex_build_id)"

definition ex_proof :: build_proof where
  "ex_proof = \<lparr>bp_schema = ''kace-board-build-proof/v3'', bp_board_id = ''acme.one'',
     bp_hardware_variant_id = ''stm32f103'', bp_build_target_id = ''sd-usart1'', bp_contract_digest = ex_digest,
     bp_klipper_commit = ex_commit, bp_requested_config_path = path_join ex_evidence ''requested.config'',
     bp_requested_config_sha256 = ex_digest, bp_resolved_config_path = path_join ex_evidence ''resolved.config'',
     bp_resolved_config_sha256 = ex_digest, bp_artifact_path = path_join ex_evidence ''klipper.bin'',
     bp_artifact_sha256 = ex_digest, bp_artifact_size = 40, bp_olddefconfig = ex_proof_of [''make'', ''olddefconfig''],
     bp_requested_selections = ex_selections, bp_resolved_assertions = ex_assertions,
     bp_build = ex_proof_of ex_build_argv, bp_build_attempts = [ex_proof_of ex_build_argv], bp_lto_retry_used = False,
     bp_toolchain = ex_toolchain, bp_requested_flags = [], bp_effective_flags = [], bp_lto_requested = False,
     bp_lto_effective = False, bp_fallback_used = False, bp_fallback_reason = [], bp_build_id = ex_build_id,
     bp_firmware_fingerprint = ex_fingerprint, bp_embedded_fingerprint_verified = True\<rparr>"

lemma ex_contract_digest: "contract_digest ex_sha ex_contract = Inr ex_digest"
  by (simp add: contract_digest_def ex_contract_def ex_payload_digest)

lemma ex_take_digest: "take 12 ex_digest = ''aaaaaaaaaaaa''"
  by code_simp

lemma ex_content_size: "length ex_content = 40"
  by code_simp

lemma ex_fields:
  "bc_board_id ex_contract = ''acme.one''" "hv_id ex_variant = ''stm32f103''" "bt_id ex_target = ''sd-usart1''"
  "bt_artifact ex_target = ex_artifact" "ap_native_filename ex_artifact = ''klipper.bin''"
  "bc_upstream ex_contract = ex_upstream" "um_validated_commit ex_upstream = ex_commit"
  "um_repository ex_upstream = ''https://github.com/Klipper3d/klipper.git''"
  by (simp_all add: ex_contract_def ex_variant_def ex_target_def ex_artifact_def ex_upstream_def)

lemma ex_in_checkout:
  "returns (build_in_checkout ex_tools ex_host ex_context st co ex_contract ex_variant ex_target ''/o'' ex_commit) ex_proof"
  unfolding build_in_checkout_def
  by (rule returns_bind, simp add: ex_tools_def, rule ex_configure, rule returns_bind, simp add: ex_tools_def, rule ex_compile)
     (simp add: ex_tools_def ex_configured_def ex_flags ex_native ex_fields ex_contract_digest Let_def
      ex_take_digest ex_evidence_def ex_proof_def ex_sha_def ex_content_size)

subsection \<open>The whole build\<close>

definition ex_checkout :: string where
  "ex_checkout = ''/c/workspaces/board-contract-77777777777777777777777777777777/klipper''"

lemma ex_check_shell:
  "\<not> list_ex contains_shell_syntax (cache_check_argv ex_context ''/c/sources/klipper-aaaaaaaaaaaaaaaaaaaa.git'' ex_commit k)"
proof -
  have "list_all (\<lambda>k. \<not> list_ex contains_shell_syntax
      (cache_check_argv ex_context ''/c/sources/klipper-aaaaaaaaaaaaaaaaaaaa.git'' ex_commit k))
      [Check_bare, Check_repository, Check_commit, Check_integrity]"
    by code_simp
  then show ?thesis by (cases k) (simp_all only: list.pred_inject simp_thms)
qed

lemma ex_git_shell:
  "\<not> contains_shell_syntax ''git''" "\<not> contains_shell_syntax ''init''" "\<not> contains_shell_syntax ''--quiet''"
  "\<not> contains_shell_syntax ex_checkout" "\<not> contains_shell_syntax ''fetch''" "\<not> contains_shell_syntax ''--no-tags''"
  "\<not> contains_shell_syntax ''/c/sources/klipper-aaaaaaaaaaaaaaaaaaaa.git''"
  "\<not> contains_shell_syntax (CHR ''+'' # ex_commit @ '':refs/kace/validated'')"
  "\<not> contains_shell_syntax ''checkout''" "\<not> contains_shell_syntax ''--detach''" "\<not> contains_shell_syntax ex_commit"
  "\<not> contains_shell_syntax ''rev-parse''" "\<not> contains_shell_syntax ''HEAD''"
  "\<not> contains_shell_syntax ''status''" "\<not> contains_shell_syntax ''--porcelain''" "\<not> contains_shell_syntax ''--untracked-files=all''"
  by code_simp+

lemma ex_texts: "py_strip ''true'' = ''true''" "py_strip ex_commit = ex_commit" "py_lower ex_commit = ex_commit"
  "commit_re ex_commit"
  "py_strip ''https://github.com/Klipper3d/klipper.git'' = ''https://github.com/Klipper3d/klipper.git''"
  by code_simp+

lemma ex_cache_path: "source_cache_path ex_sha ex_host r = returnS (''/c/sources'', ''/c/sources/klipper-aaaaaaaaaaaaaaaaaaaa.git'')"
proof -
  have "take 20 ex_digest = ''aaaaaaaaaaaaaaaaaaaa''" by code_simp
  then show ?thesis by (simp add: source_cache_path_def path_join_def ex_sha_def)
qed

lemma ex_checks: "returns (validate_source_cache ex_sha ex_host ex_context ''/c/sources''
   ''/c/sources/klipper-aaaaaaaaaaaaaaaaaaaa.git'' ''https://github.com/Klipper3d/klipper.git'' ex_commit e) None"
  by (simp add: validate_source_cache_def ex_execute ex_check_shell bindS_assoc Let_def)
     (simp add: cache_check_argv_def ex_stdout_def ex_texts)

lemma ex_prepare: "returns (prepare_checkout ex_sha ex_host ex_context st ex_checkout ex_contract) ()"
proof -
  have "returns (exclusive_file_lock ex_host p (bindS (validate_source_cache ex_sha ex_host ex_context ''/c/sources''
     ''/c/sources/klipper-aaaaaaaaaaaaaaaaaaaa.git'' ''https://github.com/Klipper3d/klipper.git'' ex_commit e)
     (\<lambda>reason. whenS (P reason) m))) ()" if "\<not> P None" for p e m P
    unfolding exclusive_file_lock_def
    using that by simp (rule returns_finally, rule returns_bind, rule ex_checks, simp_all)
  note lock = returns_bind [OF this]
  show ?thesis
    by (simp add: prepare_checkout_def ex_fields Let_def ex_cache_path, rule lock)
       (simp_all add: ex_run_ok ex_git_shell bindS_assoc)
qed

lemma ex_legacy: "reject_legacy_path ex_host ''/o'' f = returnS ()" "reject_legacy_path ex_host ex_checkout f = returnS ()"
proof -
  have "\<not> path_within ''/h/klipper'' ''/o''" "\<not> path_within ''/h/klipper'' ex_checkout" by code_simp+
  then show "reject_legacy_path ex_host ''/o'' f = returnS ()" "reject_legacy_path ex_host ex_checkout f = returnS ()"
    by (simp_all add: reject_legacy_path_def)
qed

lemma ex_commit_read: "returns (read_checkout_commit ex_sha ex_host ex_context co) ex_commit"
  by (simp add: read_checkout_commit_def ex_execute ex_git_shell bindS_assoc ex_stdout_def ex_texts Let_def)

lemma ex_clean: "returns (verify_checkout_clean ex_sha ex_host ex_context co) ()"
  by (simp add: verify_checkout_clean_def ex_execute ex_git_shell bindS_assoc ex_stdout_def py_strip_def py_lstrip_def)

lemma ex_builds:
  "returns (build_firmware ex_tools ex_nfkc ex_catalog ex_commit ''https://github.com/Klipper3d/klipper.git'' ex_host ex_context
     ''a.cfg'' ''stm32f103'' ''sd-usart1'') ex_proof"
proof -
  have pinned: "validate_pinned_source ex_commit ''https://github.com/Klipper3d/klipper.git'' ex_contract = Inr ()"
    by (simp add: validate_pinned_source_def ex_fields)
  have co: "path_join (path_join (path_join ''/c'' ''workspaces'') (''board-contract-'' @ ex_build_id)) ''klipper'' = ex_checkout"
    by code_simp
  have sha: "tl_sha ex_tools = ex_sha" by (simp add: ex_tools_def)
  show ?thesis
    by (simp add: build_firmware_def ex_resolve pinned ex_validated ex_legacy heavy_workspace_def Let_def,
        rule returns_finally)
       (simp add: co [simplified] sha ex_legacy, rule returns_bind, rule ex_prepare, rule returns_bind,
        rule ex_commit_read, simp add: ex_fields, rule returns_bind, rule ex_clean, rule ex_in_checkout,
        simp add: rmtreeS_def)
qed

subsection \<open>Its artifact and plan\<close>

text \<open>\<open>build_artifact_from_proof\<close> followed by \<open>create_deployment_plan\<close>.\<close>

definition plan_from_proof ::
    "build_tools \<Rightarrow> 'w build_host \<Rightarrow> build_proof \<Rightarrow> board_contract \<Rightarrow> string \<Rightarrow> string \<Rightarrow> ('w, deployment_plan) deploy" where
  "plan_from_proof tools h p c output_directory last_successful =
     bindS (build_artifact_from_proof tools h p c) (\<lambda>a.
     create_deployment_plan tools h c a output_directory last_successful)"

lemma unit_hostD [simp]: "hostD (returnS x) = (returnS x :: (unit, 'a) deploy)"
  by (rule ext) (simp add: hostD_def returnS_def)

lemma ex_digests: "digest_of ex_sha ex_contract = Inr ex_digest" "json_sha256 ex_sha d = (case json_text (PDict d) of
     None \<Rightarrow> Inl Identity_outside_model | Some t \<Rightarrow> Inr ex_digest)" "sha256_re ex_digest" "py_lower ex_digest = ex_digest"
proof -
  show "digest_of ex_sha ex_contract = Inr ex_digest" by (simp add: digest_of_def ex_contract_digest)
  show "json_sha256 ex_sha d = (case json_text (PDict d) of None \<Rightarrow> Inl Identity_outside_model | Some t \<Rightarrow> Inr ex_digest)"
    by (simp add: json_sha256_def ex_sha_def cong: option.case_cong del: json_text.simps)
  show "sha256_re ex_digest" "py_lower ex_digest = ex_digest" by code_simp+
qed

lemma json_sha256_plain: "plain (PDict d) \<Longrightarrow> json_sha256 ex_sha d = Inr ex_digest"
  using plain_json [of "PDict d"] by (auto simp: ex_digests simp del: json_text.simps)

lemma ex_find: "find_target ex_contract ''stm32f103'' ''sd-usart1'' = Inr (ex_variant, ex_target)"
  by code_simp

definition ex_canonical :: string where
  "ex_canonical = concat (map (\<lambda>l. l @ newline) (sort (map (\<lambda>(s, _). s @ ''=y'') ex_requested @ [''CONFIG_MCU='' @ json_string ''stm32f103xe''])))"

lemma ex_canonicalize: "canonicalize_dot_config ex_config = Inr ex_canonical"
  by code_simp

lemma ex_identity: "\<exists>f. bindE (build_inputs_create ex_sha [] ex_commit ex_config ex_toolchain (build_options ex_proof) (Some ex_build_id))
   (\<lambda>i. build_inputs_complete ex_sha i ex_digest 40 ''BIN'') = Inr f \<and> bi_reported_version f = ex_fingerprint"
proof -
  have pl: "plain (PDict (build_options ex_proof))" "plain (toolchain_mapping ex_toolchain)"
    by (simp_all add: build_options_def ex_proof_def text_list_def toolchain_mapping_def key_is_str_def)
  have b: "ex_build_id \<noteq> []" "filter (\<lambda>c. c \<noteq> CHR ''-'') ex_build_id = ex_build_id" "py_lower ex_build_id = ex_build_id"
    "length ex_build_id = 32" "list_all is_lower_hex ex_build_id"
    by code_simp+
  show ?thesis
    using pl by (simp add: build_inputs_create_def build_inputs_complete_def Let_def ex_texts ex_canonicalize ex_digests(3,4) b
      json_sha256_plain key_is_str_def ex_fingerprint_def build_inputs.defs)
qed

lemma ex_file_sha: "file_sha (tl_sha_bytes ex_tools) ex_host p = returnS ex_digest" "file_size ex_host p = returnS 40"
  by (simp_all add: file_sha_def file_size_def ex_tools_def ex_content_size)

definition ex_artifact_with :: "build_identity \<Rightarrow> build_artifact" where
  "ex_artifact_with f = \<lparr>ba_build_id = take 32 ex_digest, ba_path = path_join ex_evidence ''klipper.bin'',
     ba_native_filename = ''klipper.bin'', ba_format = BIN, ba_sha256 = ex_digest, ba_size_bytes = 40,
     ba_mcu = ''stm32f103xe'', ba_firmware_fingerprint = bi_reported_version f, ba_provenance = REAL,
     ba_flashable = False, ba_firmware_identity = Some f, ba_board_id = ''acme.one'',
     ba_hardware_variant_id = ''stm32f103'', ba_build_target_id = ''sd-usart1'',
     ba_board_contract_digest = ex_digest, ba_klipper_commit = ex_commit, ba_build_proof_digest = ex_digest\<rparr>"

lemma ex_checked: "check_artifact (ex_artifact_with f) = Inr (ex_artifact_with f)"
proof -
  have "ex_digest \<noteq> []" "ex_commit \<noteq> []" by code_simp+
  then show ?thesis
    by (simp add: check_artifact_def contract_identity_def ex_artifact_with_def Let_def ex_digests ex_texts)
qed

lemma ex_bridged: "\<exists>f. build_artifact_from_proof ex_tools ex_host ex_proof ex_contract = returnS (ex_artifact_with f)
   \<and> bi_reported_version f = ex_fingerprint"
proof -
  obtain f where rv: "bi_reported_version f = ex_fingerprint" and f: "bindE (build_inputs_create ex_sha [] ex_commit ex_config ex_toolchain (build_options ex_proof) (Some ex_build_id))
     (\<lambda>i. build_inputs_complete ex_sha i ex_digest 40 ''BIN'') = Inr f"
    using ex_identity by blast
  have names: "path_name (path_join ex_evidence n) = n" if "CHR ''/'' \<notin> set n" for n
    using that by (rule path_name_join)
  have resolved: "ex_read_text (path_join ex_evidence ''resolved.config'') = ex_config" by (simp add: ex_read_text_def names)
  have id: "build_id_re ex_build_id" by code_simp
  have digest: "build_proof_digest ex_sha p = ex_digest" for p by (simp add: build_proof_digest_def ex_sha_def)
  have t: "tl_sha ex_tools = ex_sha" "tl_inflate ex_tools = (\<lambda>_. None)" "tl_identify ex_tools = (\<lambda>_. Not_json)"
    by (simp_all add: ex_tools_def)
  have fl: "bp_board_id ex_proof = ''acme.one''" "bp_contract_digest ex_proof = ex_digest" "bp_klipper_commit ex_proof = ex_commit"
    "bp_hardware_variant_id ex_proof = ''stm32f103''" "bp_build_target_id ex_proof = ''sd-usart1''"
    "command_ok (bp_olddefconfig ex_proof)" "vp_ok (bp_requested_selections ex_proof)" "vp_ok (bp_resolved_assertions ex_proof)"
    "command_ok (bp_build ex_proof)" "bp_requested_config_sha256 ex_proof = ex_digest"
    "bp_resolved_config_sha256 ex_proof = ex_digest" "bp_artifact_sha256 ex_proof = ex_digest" "bp_artifact_size ex_proof = 40"
    "bp_artifact_path ex_proof = path_join ex_evidence ''klipper.bin''"
    "bp_resolved_config_path ex_proof = path_join ex_evidence ''resolved.config''"
    "bp_build_id ex_proof = ex_build_id" "bp_firmware_fingerprint ex_proof = ex_fingerprint"
    "bp_embedded_fingerprint_verified ex_proof" "bp_toolchain ex_proof = ex_toolchain"
    "bp_build_attempts ex_proof = [ex_proof_of ex_build_argv]"
    by (simp_all add: ex_proof_def ex_selections_def ex_assertions_def)
  have compiled: "''KLIPPER_VERSION='' @ ex_fingerprint \<in> set (cp_argv (ex_proof_of ex_build_argv))"
    by (simp add: ex_proof_of_def ex_build_argv_def)
  have pol: "ap_format ex_artifact = BIN" "ps_resolved_mcu (hv_processor ex_variant) = ''stm32f103xe''"
    by (simp_all add: ex_artifact_def ex_variant_def ex_processor_def)
  have ev: "check_evidence (tl_sha_bytes ex_tools) ex_host (p, ex_digest, n) = returnS ()" if "n \<in> {None, Some 40}" for p n
    using that by (auto simp: check_evidence_def ex_file_sha)
  have "build_artifact_from_proof ex_tools ex_host ex_proof ex_contract = returnS (ex_artifact_with f)"
    using f ex_checked [of f]
    by (simp add: build_artifact_from_proof_def t fl ex_digests ex_fields ex_find names resolved id ex_marker compiled [simplified] pol
        digest ev fingerprint_re_def format_name_def ex_fingerprint_def [symmetric] ex_artifact_with_def Let_def)
  with rv show ?thesis by blast
qed

lemma ex_planned: "\<exists>p. returns (create_deployment_plan ex_tools ex_host ex_contract (ex_artifact_with f) ''/o'' []) p"
proof -
  have ident: "require_contract_identity ex_sha ex_contract (ex_artifact_with f) = Inr (ex_variant, ex_target)"
    by (simp add: require_contract_identity_def ex_artifact_with_def ex_digests ex_fields ex_find)
  have nat: "check_native (tl_sha_bytes ex_tools) ex_host ex_target (ex_artifact_with f) = returnS ex_digest"
  proof -
    have "ends_with ''.bin'' (py_lower ''klipper.bin'')" by code_simp
    moreover have "ap_format ex_artifact = BIN" by (simp add: ex_artifact_def)
    ultimately show ?thesis
      by (simp add: check_native_def ex_artifact_with_def path_name_join ex_fields ex_file_sha artifact_suffix_def)
  qed
  have name: "final_filename ex_target (ex_artifact_with f) = Inr ''fw-aaaaaaaaaaaa.bin''"
  proof -
    have "policy_name (ap_final_filename ex_artifact) (ex_artifact_with f) = Inr ''fw-aaaaaaaaaaaa.bin''"
      by code_simp
    moreover have "safe_basename ''fw-aaaaaaaaaaaa.bin''" "optional_text (ap_final_filename ex_artifact) ''required_suffix'' = Inr ''.bin''"
      "ends_with (py_lower ''.bin'') (py_lower ''fw-aaaaaaaaaaaa.bin'')" by code_simp+
    ultimately show ?thesis by (simp add: final_filename_def ex_fields Let_def)
  qed
  have free: "\<not> py_truthy (py_get (ap_final_filename ex_artifact) ''must_differ_from_last_successful_flash'')" by code_simp
  have steps: "\<exists>xs. typed_steps ex_target = Inr xs" 
  proof -
    have "is_ok (typed_steps ex_target)" by code_simp
    then show ?thesis by (cases "typed_steps ex_target") (simp_all add: is_ok_def)
  qed
  then obtain xs where xs: "typed_steps ex_target = Inr xs" by blast
  have fin: "finallyS (returnS x) (returnS ()) = returnS x" for x :: "'x"
    by (rule ext) (simp add: finallyS_def returnS_def)
  have sha: "tl_sha ex_tools = ex_sha" by (simp add: ex_tools_def)
  have "\<exists>x. apply_artifact_policy ex_tools ex_host ex_contract (ex_artifact_with f) ''/o'' [] = returnS (ex_target, x)"
    unfolding apply_artifact_policy_def
    by (simp add: ident sha nat name free ex_fields ex_file_sha unlink_if_exists_def Let_def fin) blast
  then obtain x where "apply_artifact_policy ex_tools ex_host ex_contract (ex_artifact_with f) ''/o'' [] = returnS (ex_target, x)"
    by blast
  then show ?thesis
    by (simp add: create_deployment_plan_def xs sha ex_digests Let_def)
qed

lemma ex_plan: "\<exists>p. returns (plan_from_proof ex_tools ex_host ex_proof ex_contract ''/o'' []) p"
proof -
  obtain f where "build_artifact_from_proof ex_tools ex_host ex_proof ex_contract = returnS (ex_artifact_with f)"
    using ex_bridged by blast
  with ex_planned [of f] show ?thesis by (simp add: plan_from_proof_def)
qed

subsection \<open>Properties\<close>

text \<open>
  C1. A build that returns a proof has built what was asked: on a loaded catalog the query denotes one
  board, variant and target, the target passed its check, the contract is pinned to the trusted Klipper
  commit, and the proof records that board, the resolved configuration that keeps every requested
  selection and assertion, successful commands, at most one retry, and the digest of a nonempty artifact
  in which the fingerprint was found.
\<close>

theorem build_proof_sound:
  assumes "load_catalog nfkc sha root listing = Inr cat"
  shows "yields (build_firmware tools nfkc cat source_commit source_repository h cx alias vi ti)
     (\<lambda>p. \<exists>c v t. denotes nfkc cat alias (Some vi) (Some ti) c v t
        \<and> validate_target_contract v t = Inr () \<and> um_validated_commit (bc_upstream c) = source_commit
        \<and> proof_sound tools c v t p)"
proof (rule yieldsI)
  from load_catalog_wf [OF assms] have valid: "catalog_valid nfkc cat" by blast
  fix s p s'
  assume "build_firmware tools nfkc cat source_commit source_repository h cx alias vi ti s = (Inr p, s')"
  from build_firmware_sound [OF this valid]
  show "\<exists>c v t. denotes nfkc cat alias (Some vi) (Some ti) c v t
     \<and> validate_target_contract v t = Inr () \<and> um_validated_commit (bc_upstream c) = source_commit
     \<and> proof_sound tools c v t p" .
qed

theorem build_proof_sound_witness: "\<exists>c v t. proof_sound ex_tools c v t ex_proof"
proof -
  from ex_builds obtain s' where
    "build_firmware ex_tools ex_nfkc ex_catalog ex_commit ''https://github.com/Klipper3d/klipper.git'' ex_host ex_context
       ''a.cfg'' ''stm32f103'' ''sd-usart1'' \<lparr>bs_world = (), bs_commands = []\<rparr> = (Inr ex_proof, s')"
    unfolding returns_def by blast
  from yieldsD [OF build_proof_sound [OF ex_catalog_load] this] show ?thesis by blast
qed

text \<open>The host resolves paths by a fixed function, as it does while no link changes.\<close>

definition resolves_by :: "'w build_host \<Rightarrow> (string \<Rightarrow> string) \<Rightarrow> bool" where
  "resolves_by h r = (\<forall>p w. bh_resolve h p w = (Inr (r p), w))"

lemma planned_native_path:
  assumes "create_deployment_plan tools h c a out last_successful w = (Inr p, w')" and "resolves_by h r"
  shows "at_native_path (dp_transformation p) = r (ba_path a)"
proof -
  from assms(1) obtain t x w1 where
    "apply_artifact_policy tools h c a out last_successful w = (Inr (t, x), w1)" and "dp_transformation p = x"
    by (clarsimp simp: create_deployment_plan_def state_simps Let_def)
  with assms(2) show ?thesis
    by (auto simp: apply_artifact_policy_def state_simps Let_def resolves_by_def split: prod.splits)
qed

text \<open>
  C2. From proof to plan: a deployment plan made from a build proof passes the strict validation that
  the executor repeats before it writes anything, its strategy is the one of the contract's recipe, and
  it names the proof's digest, its artifact and an artifact marked as not flashable by the old path.
\<close>

theorem plan_from_proof_valid:
  assumes "contract_from_mapping (tl_sha tools) v src = Inr c" and "resolves_by h r"
    and "\<forall>content. sha256_re (tl_sha_bytes tools content)"
  shows "yields (plan_from_proof tools h p c out last_successful) (\<lambda>plan.
     (\<exists>t. validate_deployment_plan (tl_sha tools) r c plan = Inr t \<and> dp_strategy plan = fr_strategy (bt_flash t))
     \<and> dp_build_proof_digest plan = build_proof_digest (tl_sha tools) p
     \<and> ba_sha256 (dp_artifact plan) = bp_artifact_sha256 p \<and> \<not> ba_flashable (dp_artifact plan))"
proof (rule yieldsI)
  from contract.reads_wf [OF assms(1)] have commit: "commit_re (um_validated_commit (bc_upstream c))"
    by (simp add: contract_wf_def upstream_wf_def)
  fix s plan s' assume "plan_from_proof tools h p c out last_successful s = (Inr plan, s')"
  then obtain a w1 where a: "build_artifact_from_proof tools h p c s = (Inr a, w1)"
    and plan: "create_deployment_plan tools h c a out last_successful w1 = (Inr plan, s')"
    by (auto simp: plan_from_proof_def state_simps)
  from bridged_consistent [OF a assms(3) commit] have idn: "identity_consistent c a" "\<not> ba_flashable a"
    "ba_sha256 a = bp_artifact_sha256 p" "ba_build_proof_digest a = build_proof_digest (tl_sha tools) p" by auto
  from planned_native_path [OF plan assms(2)] created_plan_validates [OF plan idn(1), of r]
  have "\<exists>t. validate_deployment_plan (tl_sha tools) r c plan = Inr t \<and> dp_strategy plan = fr_strategy (bt_flash t)"
    by simp
  moreover have "dp_artifact plan = a" "dp_build_proof_digest plan = ba_build_proof_digest a"
    using plan by (auto simp: create_deployment_plan_def state_simps Let_def)
  ultimately show "(\<exists>t. validate_deployment_plan (tl_sha tools) r c plan = Inr t \<and> dp_strategy plan = fr_strategy (bt_flash t))
     \<and> dp_build_proof_digest plan = build_proof_digest (tl_sha tools) p
     \<and> ba_sha256 (dp_artifact plan) = bp_artifact_sha256 p \<and> \<not> ba_flashable (dp_artifact plan)"
    using idn by simp
qed

theorem plan_from_proof_valid_witness:
  "\<exists>plan t. fst (plan_from_proof ex_tools ex_host ex_proof ex_contract ''/o'' [] ()) = Inr plan
     \<and> validate_deployment_plan ex_sha (\<lambda>p. p) ex_contract plan = Inr t"
proof -
  from ex_plan obtain plan s' where p: "plan_from_proof ex_tools ex_host ex_proof ex_contract ''/o'' [] () = (Inr plan, s')"
    unfolding returns_def by blast
  have sha: "tl_sha ex_tools = ex_sha" "\<forall>content. sha256_re (tl_sha_bytes ex_tools content)"
    by (simp_all add: ex_tools_def ex_digests)
  have "resolves_by ex_host (\<lambda>p. p)" by (simp add: resolves_by_def returnS_def)
  from yieldsD [OF plan_from_proof_valid [of ex_tools, unfolded sha(1), OF ex_contract_read this sha(2)] p] p
  show ?thesis by auto
qed

end
