(* ===== verification/Sd_Session.thy ===== *)
theory Sd_Session
  imports Plan_Check
begin

text \<open>
  The data of \<open>firmware/boards/executor.py\<close>: the states of a physical SD deployment and the
  transitions the executor allows, media candidates, the session and the proof drawn from it.
\<close>

subsection \<open>Staged machines\<close>

text \<open>
  An interface for workflows that advance one stage at a time: what a transition table must
  satisfy for a recorded history to be a complete one.
\<close>

locale staged_machine =
  fixes next_of :: "'st \<Rightarrow> 'st list" and stage :: "'st \<Rightarrow> nat" and order :: "'st list"
  assumes next_stage: "b \<in> set (next_of a) \<Longrightarrow> stage b = Suc (stage a) \<and> a \<in> set order \<and> b \<in> set order"
    and order_stage: "i < length order \<Longrightarrow> stage (order ! i) = i"
begin

lemma order_nth: "a \<in> set order \<Longrightarrow> order ! stage a = a \<and> stage a < length order"
  by (metis in_set_conv_nth order_stage)

definition run :: "'st list \<Rightarrow> bool" where
  "run xs = (xs \<noteq> [] \<and> hd xs = hd order \<and> (\<forall>i. Suc i < length xs \<longrightarrow> xs ! Suc i \<in> set (next_of (xs ! i))))"

lemma run_stage: "run xs \<Longrightarrow> order \<noteq> [] \<Longrightarrow> i < length xs \<Longrightarrow> stage (xs ! i) = i \<and> xs ! i \<in> set order"
proof (induction i)
  case 0
  then have "xs ! 0 = order ! 0" by (metis run_def hd_conv_nth)
  with 0 show ?case by (simp add: order_stage)
next
  case (Suc i)
  then have "xs ! Suc i \<in> set (next_of (xs ! i))" by (simp add: run_def)
  with Suc next_stage show ?case by auto
qed

lemma run_prefix:
  assumes "run xs" and "order \<noteq> []"
  shows "xs = take (length xs) order"
proof -
  have nth: "xs ! i = order ! i \<and> i < length order" if "i < length xs" for i
    using run_stage [OF assms that] order_nth by metis
  then have "length xs \<le> length order" by (metis le_less_linear less_irrefl)
  with nth show ?thesis by (intro nth_equalityI) auto
qed

text \<open>A history that ends in a state is the whole order up to that state.\<close>

lemma run_complete: "run xs \<Longrightarrow> order \<noteq> [] \<Longrightarrow> xs = take (Suc (stage (last xs))) order"
proof -
  assume r: "run xs" "order \<noteq> []"
  then have ne: "xs \<noteq> []" by (simp add: run_def)
  then have "stage (last xs) = length xs - 1"
    using run_stage [OF r, of "length xs - 1"] by (simp add: last_conv_nth)
  with ne run_prefix [OF r] show ?thesis by simp
qed

end

subsection \<open>States\<close>

datatype deployment_state =
    PREPARED | MEDIA_SELECTED | MEDIA_VERIFIED | COPIED | COPY_VERIFIED | EJECTED
  | WAITING_FOR_MANUAL_POWER_CYCLE | WAITING_FOR_MCU_REENUMERATION | MCU_REENUMERATED
  | WAITING_FOR_KLIPPER | VERIFYING_FIRMWARE | VERIFIED | FAILED

definition allowed_transitions :: "deployment_state \<Rightarrow> deployment_state list" where
  "allowed_transitions s = (case s of
     PREPARED \<Rightarrow> [MEDIA_SELECTED] | MEDIA_SELECTED \<Rightarrow> [MEDIA_VERIFIED] | MEDIA_VERIFIED \<Rightarrow> [COPIED]
   | COPIED \<Rightarrow> [COPY_VERIFIED] | COPY_VERIFIED \<Rightarrow> [EJECTED]
   | EJECTED \<Rightarrow> [WAITING_FOR_MANUAL_POWER_CYCLE]
   | WAITING_FOR_MANUAL_POWER_CYCLE \<Rightarrow> [WAITING_FOR_MCU_REENUMERATION]
   | WAITING_FOR_MCU_REENUMERATION \<Rightarrow> [MCU_REENUMERATED]
   | MCU_REENUMERATED \<Rightarrow> [WAITING_FOR_KLIPPER] | WAITING_FOR_KLIPPER \<Rightarrow> [VERIFYING_FIRMWARE]
   | VERIFYING_FIRMWARE \<Rightarrow> [VERIFIED] | VERIFIED \<Rightarrow> [] | FAILED \<Rightarrow> [])"

definition state_order :: "deployment_state list" where
  "state_order = [PREPARED, MEDIA_SELECTED, MEDIA_VERIFIED, COPIED, COPY_VERIFIED, EJECTED,
     WAITING_FOR_MANUAL_POWER_CYCLE, WAITING_FOR_MCU_REENUMERATION, MCU_REENUMERATED,
     WAITING_FOR_KLIPPER, VERIFYING_FIRMWARE, VERIFIED]"

text \<open>The place of a state in a successful deployment; a failed one has no stage reached.\<close>

definition state_stage :: "deployment_state \<Rightarrow> nat" where
  "state_stage s = (case s of
     PREPARED \<Rightarrow> 0 | MEDIA_SELECTED \<Rightarrow> 1 | MEDIA_VERIFIED \<Rightarrow> 2 | COPIED \<Rightarrow> 3 | COPY_VERIFIED \<Rightarrow> 4
   | EJECTED \<Rightarrow> 5 | WAITING_FOR_MANUAL_POWER_CYCLE \<Rightarrow> 6 | WAITING_FOR_MCU_REENUMERATION \<Rightarrow> 7
   | MCU_REENUMERATED \<Rightarrow> 8 | WAITING_FOR_KLIPPER \<Rightarrow> 9 | VERIFYING_FIRMWARE \<Rightarrow> 10 | VERIFIED \<Rightarrow> 11
   | FAILED \<Rightarrow> 0)"

interpretation deployment_machine: staged_machine allowed_transitions state_stage state_order
proof unfold_locales
  fix a b assume "b \<in> set (allowed_transitions a)"
  then show "state_stage b = Suc (state_stage a) \<and> a \<in> set state_order \<and> b \<in> set state_order"
    by (cases a) (simp_all add: allowed_transitions_def state_stage_def state_order_def)
next
  fix i assume "i < length state_order"
  then have "i \<in> set [0..<12]" by (simp add: state_order_def)
  then show "state_stage (state_order ! i) = i"
    by (auto simp: upt_rec state_order_def state_stage_def)
qed

instantiation deployment_state :: linorder
begin

definition less_eq_deployment_state :: "deployment_state \<Rightarrow> deployment_state \<Rightarrow> bool" where
  "less_eq_deployment_state a b = (a = b \<or> a = FAILED \<or> (b \<noteq> FAILED \<and> state_stage a \<le> state_stage b))"

definition less_deployment_state :: "deployment_state \<Rightarrow> deployment_state \<Rightarrow> bool" where
  "less_deployment_state a b = (a \<le> b \<and> \<not> b \<le> a)"

instance
  by standard
     (auto simp: less_eq_deployment_state_def less_deployment_state_def state_stage_def
       split: deployment_state.splits)

end

subsection \<open>Media\<close>

record media_candidate =
  mc_stable_id :: string
  mc_device_path :: string
  mc_parent_device :: string
  mc_mount_path :: string
  mc_filesystem :: string
  mc_size_bytes :: int
  mc_free_bytes :: int
  mc_removable :: bool
  mc_system_disk :: bool
  mc_read_only :: bool
  mc_label :: string
  mc_model :: string
  mc_serial :: string

text \<open>\<open>__post_init__\<close>: \<open>False\<close> where it raises \<open>ValueError\<close>.\<close>

definition candidate_ok :: "media_candidate \<Rightarrow> bool" where
  "candidate_ok m = (mc_stable_id m \<noteq> [] \<and> mc_device_path m \<noteq> [] \<and> mc_mount_path m \<noteq> []
     \<and> \<not> (mc_size_bytes m < 0 \<or> mc_free_bytes m < 0))"

definition same_physical_medium :: "(string \<Rightarrow> string) \<Rightarrow> media_candidate \<Rightarrow> media_candidate \<Rightarrow> bool" where
  "same_physical_medium resolve_path m n =
     (mc_stable_id m = mc_stable_id n \<and> mc_device_path m = mc_device_path n
      \<and> mc_parent_device m = mc_parent_device n
      \<and> resolve_path (mc_mount_path m) = resolve_path (mc_mount_path n)
      \<and> py_lower (mc_filesystem m) = py_lower (mc_filesystem n)
      \<and> mc_size_bytes m = mc_size_bytes n \<and> mc_serial m = mc_serial n)"

datatype eject_status = Eject_EJECTED | Eject_UNSUPPORTED | Eject_FAILED

record eject_result =
  er_status :: eject_status
  er_device_path :: string
  er_detail :: string
  er_timestamp :: string

subsection \<open>Sessions and proofs\<close>

record step_record =
  sr_state :: deployment_state
  sr_timestamp :: string
  sr_detail :: string

record power_observation =
  po_state :: string
  po_timestamp :: string
  po_detail :: string
  po_requested_action :: string
  po_confirmed :: bool

record firmware_result =
  fv_klipper_connected :: bool
  fv_observed_fingerprint :: string
  fv_observed_versions :: "(string, string) dict"
  fv_detail :: string

record mcu_evidence =
  me_configured_path :: string
  me_device_node :: string
  me_devpath :: string
  me_serial :: string
  me_physical_path :: string
  me_vendor_id :: string
  me_model_id :: string
  me_physical_port :: string
  me_by_path :: "string list"
  me_vid_pid :: string

record session =
  se_plan :: deployment_plan
  se_state :: deployment_state
  se_started_at :: string
  se_steps :: "step_record list"
  se_selected_media :: "media_candidate option"
  se_readback_hash :: string
  se_readback_size :: int
  se_safe_eject :: "eject_result option"
  se_manual_confirmation :: bool
  se_manual_confirmation_at :: string
  se_power_observations :: "power_observation list"
  se_reenumeration_result :: string
  se_observed_mcu :: "mcu_evidence option"
  se_klipper_result :: string
  se_observed_fingerprint :: string
  se_errors :: "string list"
  se_finished_at :: string

definition expected_fingerprint :: "deployment_plan \<Rightarrow> string" where
  "expected_fingerprint p = (case ba_firmware_identity (dp_artifact p) of
     Some i \<Rightarrow> bi_reported_version i | None \<Rightarrow> [])"

record deployment_proof =
  pf_schema :: string
  pf_deployment_id :: string
  pf_plan_digest :: string
  pf_board_id :: string
  pf_hardware_variant_id :: string
  pf_build_target_id :: string
  pf_board_contract_digest :: string
  pf_klipper_commit :: string
  pf_build_proof_digest :: string
  pf_artifact_native_hash :: string
  pf_artifact_staged_hash :: string
  pf_artifact_filename :: string
  pf_artifact_size :: int
  pf_selected_media :: "media_candidate option"
  pf_filesystem :: string
  pf_destination :: string
  pf_media_readback_hash :: string
  pf_media_readback_size :: int
  pf_safe_eject :: "eject_result option"
  pf_executed_steps :: "step_record list"
  pf_started_at :: string
  pf_finished_at :: string
  pf_manual_confirmation :: bool
  pf_manual_confirmation_at :: string
  pf_power_observations :: "power_observation list"
  pf_reenumeration_result :: string
  pf_observed_mcu_identity :: "mcu_evidence option"
  pf_klipper_connection_result :: string
  pf_expected_fingerprint :: string
  pf_observed_fingerprint :: string
  pf_final_state :: deployment_state
  pf_errors :: "string list"

definition session_proof :: "session \<Rightarrow> deployment_proof" where
  "session_proof s = (let p = se_plan s in
     \<lparr>pf_schema = ''kace-board-deployment-proof/v1'', pf_deployment_id = dp_deployment_id p,
      pf_plan_digest = dp_plan_digest p, pf_board_id = dp_board_id p,
      pf_hardware_variant_id = dp_hardware_variant_id p, pf_build_target_id = dp_build_target_id p,
      pf_board_contract_digest = dp_board_contract_digest p, pf_klipper_commit = dp_klipper_commit p,
      pf_build_proof_digest = dp_build_proof_digest p,
      pf_artifact_native_hash = ba_sha256 (dp_artifact p),
      pf_artifact_staged_hash = at_final_sha256 (dp_transformation p),
      pf_artifact_filename = at_final_filename (dp_transformation p),
      pf_artifact_size = ba_size_bytes (dp_artifact p), pf_selected_media = se_selected_media s,
      pf_filesystem = (case se_selected_media s of Some m \<Rightarrow> mc_filesystem m | None \<Rightarrow> []),
      pf_destination = (case se_selected_media s of Some m \<Rightarrow> mc_mount_path m | None \<Rightarrow> []),
      pf_media_readback_hash = se_readback_hash s, pf_media_readback_size = se_readback_size s,
      pf_safe_eject = se_safe_eject s, pf_executed_steps = se_steps s,
      pf_started_at = se_started_at s, pf_finished_at = se_finished_at s,
      pf_manual_confirmation = se_manual_confirmation s,
      pf_manual_confirmation_at = se_manual_confirmation_at s,
      pf_power_observations = se_power_observations s,
      pf_reenumeration_result = se_reenumeration_result s,
      pf_observed_mcu_identity = se_observed_mcu s,
      pf_klipper_connection_result = se_klipper_result s,
      pf_expected_fingerprint = expected_fingerprint p,
      pf_observed_fingerprint = se_observed_fingerprint s, pf_final_state = se_state s,
      pf_errors = se_errors s\<rparr>)"

end
