(* ===== verification/Sd_Executor.thy ===== *)
theory Sd_Executor
  imports Sd_Session Board_Catalog Py_State
begin

text \<open>
  \<open>SdCardDeploymentExecutor\<close> of \<open>firmware/boards/executor.py\<close>.  The collaborators (media
  provider, writer, ejector, MCU monitor, firmware verifier, event sink, clock, files) are the
  fields of \<open>sd_env\<close> over an arbitrary world; each may raise.  \<open>xs_effects\<close> records the
  writes, ejections and events with the session at that moment; the code has no such list.
\<close>

datatype error_class =
    Execution_error | Unsupported_strategy | Media_selection_error | Media_verification_error
  | Artifact_execution_error | Post_flash_error

text \<open>
  \<open>Exec cls code message\<close> is a \<open>ContractDeploymentExecutionError\<close>; the proof it carries is the one
  of the session it leaves.  \<open>Mcu_exn\<close> stands for \<open>McuMonitorError\<close> and its subclasses.
\<close>

datatype exec_exn =
    Exec error_class string string | Timeout_exn string | Mcu_exn string
  | Os_exn string | Runtime_exn string

definition exn_text :: "exec_exn \<Rightarrow> string" where
  "exn_text e = (case e of
     Exec _ _ m \<Rightarrow> m | Timeout_exn m \<Rightarrow> m | Mcu_exn m \<Rightarrow> m | Os_exn m \<Rightarrow> m | Runtime_exn m \<Rightarrow> m)"

record event =
  ev_workflow_id :: string
  ev_sequence :: nat
  ev_state :: deployment_state
  ev_detail :: string
  ev_plan_digest :: string

record 'w sd_env =
  en_clock :: "('w, exec_exn, string) action"
  en_event_sink :: "event \<Rightarrow> ('w, exec_exn, unit) action"
  en_has_monitor :: bool
  en_has_verifier :: bool
  en_arm :: "('w, exec_exn, unit) action"
  en_close :: "('w, exec_exn, unit) action"
  en_wait_for_present :: "('w, exec_exn, mcu_evidence) action"
  en_wait_for_firmware :: "string \<Rightarrow> ('w, exec_exn, firmware_result) action"
  en_list_candidates :: "('w, exec_exn, media_candidate list) action"
  en_refresh :: "media_candidate \<Rightarrow> ('w, exec_exn, media_candidate option) action"
  en_copy :: "string \<Rightarrow> string \<Rightarrow> string \<Rightarrow> ('w, exec_exn, unit) action"
  en_eject :: "media_candidate \<Rightarrow> ('w, exec_exn, eject_result) action"
  en_is_file :: "string \<Rightarrow> ('w, exec_exn, bool) action"
  en_is_dir :: "string \<Rightarrow> ('w, exec_exn, bool) action"
  en_size :: "string \<Rightarrow> ('w, exec_exn, int) action"
  en_read :: "string \<Rightarrow> ('w, exec_exn, bytes) action"
  en_resolve :: "'w \<Rightarrow> string \<Rightarrow> string"
  en_sha :: "string \<Rightarrow> string"
  en_sha_bytes :: "bytes \<Rightarrow> string"
  en_nfkc :: "string \<Rightarrow> string"
  en_catalog :: board_catalog

datatype effect = Copied_to media_candidate string | Ejecting media_candidate | Emitted event

record 'w exec_state =
  xs_world :: 'w
  xs_sequences :: "(string, nat) dict"
  xs_session :: session
  xs_effects :: "(effect \<times> session) list"

type_synonym ('w, 'a) exec = "('w exec_state, exec_exn, 'a) action"

definition envS :: "('w, exec_exn, 'a) action \<Rightarrow> ('w, 'a) exec" where
  "envS m s = (case m (xs_world s) of (r, w) \<Rightarrow> (r, s\<lparr>xs_world := w\<rparr>))"

definition on_session :: "(session \<Rightarrow> session) \<Rightarrow> ('w, unit) exec" where
  "on_session f = modifyS (\<lambda>s. s\<lparr>xs_session := f (xs_session s)\<rparr>)"

definition the_session :: "('w, session) exec" where
  "the_session = getS xs_session"

definition note_effect :: "effect \<Rightarrow> ('w, unit) exec" where
  "note_effect e = modifyS (\<lambda>s. s\<lparr>xs_effects := xs_effects s @ [(e, xs_session s)]\<rparr>)"

definition raiseE :: "error_class \<Rightarrow> string \<Rightarrow> string \<Rightarrow> ('w, 'a) exec" where
  "raiseE cls code m = raiseS (Exec cls code m)"

definition checkE :: "bool \<Rightarrow> error_class \<Rightarrow> string \<Rightarrow> string \<Rightarrow> ('w, unit) exec" where
  "checkE c cls code m = requireS c (Exec cls code m)"

subsection \<open>Events and transitions\<close>

definition emit :: "'w sd_env \<Rightarrow> string \<Rightarrow> ('w, unit) exec" where
  "emit env detail =
     bindS the_session (\<lambda>s.
     let wid = dp_deployment_id (se_plan s) in
     bindS (getS (\<lambda>x. (case dict_get (xs_sequences x) wid of Some n \<Rightarrow> n | None \<Rightarrow> 0) + 1)) (\<lambda>sequence.
     bindS (modifyS (\<lambda>x. x\<lparr>xs_sequences := dict_set (xs_sequences x) wid sequence\<rparr>)) (\<lambda>_.
     let ev = \<lparr>ev_workflow_id = wid, ev_sequence = sequence, ev_state = se_state s,
         ev_detail = detail, ev_plan_digest = dp_plan_digest (se_plan s)\<rparr> in
     bindS (note_effect (Emitted ev)) (\<lambda>_.
     envS (en_event_sink env ev)))))"

definition transition :: "'w sd_env \<Rightarrow> deployment_state \<Rightarrow> string \<Rightarrow> ('w, unit) exec" where
  "transition env state detail =
     bindS the_session (\<lambda>s.
     bindS (requireS (state = FAILED \<or> state \<in> set (allowed_transitions (se_state s)))
       (Runtime_exn ''invalid contractual deployment transition'')) (\<lambda>_.
     bindS (on_session (se_state_update (\<lambda>_. state))) (\<lambda>_.
     bindS (envS (en_clock env)) (\<lambda>t.
     bindS (on_session (se_steps_update (\<lambda>xs. xs @ [\<lparr>sr_state = state, sr_timestamp = t, sr_detail = detail\<rparr>]))) (\<lambda>_.
     bindS (whenS (state = VERIFIED \<or> state = FAILED)
       (bindS (envS (en_clock env)) (\<lambda>t'. on_session (se_finished_at_update (\<lambda>_. t'))))) (\<lambda>_.
     emit env detail))))))"

definition close_monitor :: "'w sd_env \<Rightarrow> ('w, unit) exec" where
  "close_monitor env = catchS (envS (en_close env)) (\<lambda>_. returnS ())"

definition fail_session :: "'w sd_env \<Rightarrow> exec_exn \<Rightarrow> string \<Rightarrow> error_class \<Rightarrow> ('w, 'a) exec" where
  "fail_session env e code cls =
     (let message = exn_text e in
      bindS (on_session (se_errors_update (\<lambda>xs. xs @ [message]))) (\<lambda>_.
      bindS the_session (\<lambda>s.
      bindS (whenS (se_state s \<noteq> FAILED \<and> se_state s \<noteq> VERIFIED) (transition env FAILED message)) (\<lambda>_.
      bindS (close_monitor env) (\<lambda>_.
      raiseE cls code message)))))"

subsection \<open>Plan, artifacts, media\<close>

text \<open>\<open>re.fullmatch("[0-9a-fA-F]{4}:[0-9a-fA-F]{4}", s)\<close>.\<close>

definition vid_pid_re :: "string \<Rightarrow> bool" where
  "vid_pid_re s = (length s = 9 \<and> list_all is_hex (take 4 s) \<and> s ! 4 = CHR '':'' \<and> list_all is_hex (drop 5 s))"

definition deploy_message :: "deploy_error \<Rightarrow> string" where
  "deploy_message e = (case e of
     Contract_deployment_error m \<Rightarrow> m | Contract_identity_mismatch m \<Rightarrow> m
   | Contract_artifact_error m \<Rightarrow> m | Filename_policy_error m \<Rightarrow> m)"

definition plan_error :: "deploy_exn \<Rightarrow> exec_exn" where
  "plan_error e = (case e of
     Deploy_exn d \<Rightarrow> Exec Execution_error ''PLAN_IDENTITY_MISMATCH'' (deploy_message d)
   | _ \<Rightarrow> Runtime_exn ''plan validation'')"

definition validate_plan ::
    "'w sd_env \<Rightarrow> (string \<Rightarrow> string) \<Rightarrow> deployment_plan \<Rightarrow> (exec_exn, board_contract \<times> build_target) res" where
  "validate_plan env resolve_path p =
     (case by_id (en_nfkc env) (en_catalog env) (dp_board_id p) of
        None \<Rightarrow> Inl (Exec Execution_error ''CONTRACT_NOT_FOUND'' ''DeploymentPlan board is absent from the BoardContract catalog'')
      | Some c \<Rightarrow>
          bindE (mapI plan_error (validate_deployment_plan (en_sha env) resolve_path c p)) (\<lambda>t.
          require (fr_strategy (bt_flash t) = SD_CARD)
            (Exec Unsupported_strategy ''UNSUPPORTED_STRATEGY'' ''physical strategy is unsupported in Phase 4B'')
          (require (bt_support_status t \<in> {RUNTIME_SUPPORTED, DEPLOYMENT_VERIFIED})
            (Exec Execution_error ''TARGET_NOT_RUNTIME_SUPPORTED'' ''target support status cannot execute physically'')
          (require (tr_kind (bt_transport t) = USB \<longrightarrow> vid_pid_re
               (case dict_get (tr_endpoint (bt_transport t)) ''application_vid_pid'' of Some x \<Rightarrow> x | None \<Rightarrow> []))
            (Exec Execution_error ''MCU_IDENTITY_CONTRACT_INCOMPLETE'' ''USB target has no exact application VID:PID identity'')
          (Inr (c, t))))))"

definition validate_planS :: "'w sd_env \<Rightarrow> deployment_plan \<Rightarrow> ('w, board_contract \<times> build_target) exec" where
  "validate_planS env p = bindS (getS xs_world) (\<lambda>w. liftS (validate_plan env (en_resolve env w) p))"

definition exec_file_sha :: "'w sd_env \<Rightarrow> string \<Rightarrow> ('w, string) exec" where
  "exec_file_sha env p = catchS (bindS (envS (en_read env p)) (\<lambda>c. returnS (en_sha_bytes env c))) (\<lambda>e. case e of
     Os_exn m \<Rightarrow> raiseE Artifact_execution_error ''ARTIFACT_UNREADABLE'' m
   | _ \<Rightarrow> raiseS e)"

definition verify_file :: "'w sd_env \<Rightarrow> string \<times> string \<times> int \<times> string \<Rightarrow> ('w, unit) exec" where
  "verify_file env chk = (case chk of (p, expected_hash, expected_size, expected_name) \<Rightarrow>
     bindS (envS (en_is_file env p)) (\<lambda>present.
     bindS (checkE present Artifact_execution_error ''ARTIFACT_ABSENT'' ''firmware artifact is absent'') (\<lambda>_.
     bindS (checkE (path_name p = expected_name) Artifact_execution_error ''ARTIFACT_FILENAME_MISMATCH''
       ''firmware artifact filename changed'') (\<lambda>_.
     bindS (envS (en_size env p)) (\<lambda>n.
     bindS (checkE (n = expected_size) Artifact_execution_error ''ARTIFACT_SIZE_MISMATCH''
       ''firmware artifact size changed'') (\<lambda>_.
     bindS (exec_file_sha env p) (\<lambda>observed.
     checkE (observed = expected_hash) Artifact_execution_error ''ARTIFACT_HASH_MISMATCH''
       ''firmware artifact hash changed'')))))))"

definition verify_artifacts :: "'w sd_env \<Rightarrow> deployment_plan \<Rightarrow> ('w, string \<times> string) exec" where
  "verify_artifacts env p =
     (let native = ba_path (dp_artifact p); staged = at_final_path (dp_transformation p) in
      bindS (eachS (verify_file env)
        [(native, ba_sha256 (dp_artifact p), ba_size_bytes (dp_artifact p), ba_native_filename (dp_artifact p)),
         (staged, at_final_sha256 (dp_transformation p), at_size_bytes (dp_transformation p),
            at_final_filename (dp_transformation p))]) (\<lambda>_.
      bindS (exec_file_sha env native) (\<lambda>a.
      bindS (exec_file_sha env staged) (\<lambda>b.
      bindS (checkE (a = b) Artifact_execution_error ''ARTIFACT_CONTENT_MISMATCH''
        ''staged artifact content differs from native artifact'') (\<lambda>_.
      returnS (native, staged))))))"

definition select_media :: "media_candidate list \<Rightarrow> string \<Rightarrow> (exec_exn, media_candidate) res" where
  "select_media candidates selected_id =
     require (candidates \<noteq> [])
       (Exec Media_selection_error ''NO_MEDIA'' ''no removable media candidates are available'')
     (if selected_id \<noteq> [] then
        (case filter (\<lambda>m. mc_stable_id m = selected_id) candidates of
           [m] \<Rightarrow> Inr m
         | _ \<Rightarrow> Inl (Exec Media_selection_error ''MEDIA_SELECTION_INVALID''
                 ''explicit media selection does not identify exactly one candidate''))
      else (case candidates of
           [m] \<Rightarrow> Inr m
         | _ \<Rightarrow> Inl (Exec Media_selection_error ''MEDIA_AMBIGUOUS''
                 ''multiple removable media candidates require explicit selection'')))"

text \<open>The texts of \<open>options["required_filesystems"]\<close>; the loader admits nothing but texts there.\<close>

definition required_filesystems :: "flash_recipe \<Rightarrow> string list" where
  "required_filesystems r = (case py_get (fr_options r) ''required_filesystems'' of
     PList xs \<Rightarrow> map py_lower (List.map_filter (\<lambda>x. case x of PStr s \<Rightarrow> Some s | _ \<Rightarrow> None) xs)
   | _ \<Rightarrow> [])"

definition media_err :: "bool \<Rightarrow> string \<Rightarrow> string \<Rightarrow> ('w, unit) exec" where
  "media_err c code m = checkE c Media_verification_error code m"

definition verify_media :: "'w sd_env \<Rightarrow> media_candidate \<Rightarrow> build_target \<Rightarrow> int \<Rightarrow> bool \<Rightarrow> ('w, unit) exec" where
  "verify_media env m t artifact_size require_space =
     (let options = fr_options (bt_flash t) in
      bindS (media_err (\<not> mc_system_disk m) ''SYSTEM_DISK_REJECTED'' ''selected medium belongs to the system disk'') (\<lambda>_.
      bindS (media_err (\<not> (py_truthy (py_get options ''require_removable'') \<and> \<not> mc_removable m))
        ''MEDIA_NOT_REMOVABLE'' ''selected medium is not reported removable'') (\<lambda>_.
      bindS (media_err (\<not> mc_read_only m) ''MEDIA_READ_ONLY'' ''selected medium is read-only'') (\<lambda>_.
      bindS (media_err (py_lower (mc_filesystem m) \<in> set (required_filesystems (bt_flash t)))
        ''FILESYSTEM_MISMATCH'' ''filesystem is not allowed'') (\<lambda>_.
      bindS (media_err (py_get options ''destination'' = PStr ''sd-card-root'')
        ''DESTINATION_POLICY_MISMATCH'' ''FlashRecipe destination is not the SD-card root'') (\<lambda>_.
      bindS (envS (en_is_dir env (mc_mount_path m))) (\<lambda>dir.
      bindS (getS (\<lambda>s. en_resolve env (xs_world s) (mc_mount_path m))) (\<lambda>resolved.
      bindS (media_err (dir \<and> resolved = mc_mount_path m) ''MOUNT_INVALID''
        ''selected mount root is absent or not canonical'') (\<lambda>_.
      media_err (\<not> (require_space \<and> mc_free_bytes m < artifact_size)) ''INSUFFICIENT_SPACE''
        ''selected medium has insufficient free space'')))))))))"

subsection \<open>Preparing the medium\<close>

definition fresh_session :: "deployment_plan \<Rightarrow> string \<Rightarrow> string \<Rightarrow> session" where
  "fresh_session p started_at t =
     \<lparr>se_plan = p, se_state = PREPARED, se_started_at = started_at,
      se_steps = [\<lparr>sr_state = PREPARED, sr_timestamp = t,
         sr_detail = ''DeploymentPlan and staged artifact validated''\<rparr>],
      se_selected_media = None, se_readback_hash = [], se_readback_size = 0, se_safe_eject = None,
      se_manual_confirmation = False, se_manual_confirmation_at = [], se_power_observations = [],
      se_reenumeration_result = [], se_observed_mcu = None, se_klipper_result = [],
      se_observed_fingerprint = [], se_errors = [], se_finished_at = []\<rparr>"

definition refresh_same :: "'w sd_env \<Rightarrow> media_candidate \<Rightarrow> ('w, media_candidate) exec" where
  "refresh_same env m =
     bindS (envS (en_refresh env m)) (\<lambda>r. case r of
       None \<Rightarrow> raiseE Media_verification_error ''MEDIA_DISAPPEARED'' ''selected medium disappeared''
     | Some n \<Rightarrow>
         bindS (getS (\<lambda>s. same_physical_medium (en_resolve env (xs_world s)) m n)) (\<lambda>same.
         bindS (media_err same ''MEDIA_IDENTITY_CHANGED'' ''selected medium identity changed'') (\<lambda>_.
         returnS n)))"

definition select_step :: "'w sd_env \<Rightarrow> deployment_plan \<Rightarrow> build_target \<Rightarrow> string \<Rightarrow> ('w, media_candidate) exec" where
  "select_step env p t selected_id =
     bindS (checkE (en_has_monitor env \<and> en_has_verifier env) Execution_error ''POST_FLASH_VERIFIER_UNAVAILABLE''
       ''MCU monitor and Klipper verifier are required before media writes'') (\<lambda>_.
     bindS (envS (en_arm env)) (\<lambda>_.
     bindS (envS (en_list_candidates env)) (\<lambda>candidates.
     bindS (liftS (select_media candidates selected_id)) (\<lambda>selected.
     bindS (on_session (se_selected_media_update (\<lambda>_. Some selected))) (\<lambda>_.
     bindS (transition env MEDIA_SELECTED (''selected removable medium '' @ mc_stable_id selected)) (\<lambda>_.
     bindS (verify_media env selected t (ba_size_bytes (dp_artifact p)) True) (\<lambda>_.
     bindS (refresh_same env selected) (\<lambda>refreshed.
     bindS (on_session (se_selected_media_update (\<lambda>_. Some refreshed))) (\<lambda>_.
     bindS (verify_media env refreshed t (ba_size_bytes (dp_artifact p)) True) (\<lambda>_.
     bindS (transition env MEDIA_VERIFIED ''filesystem, removability, identity and free space verified'') (\<lambda>_.
     returnS refreshed)))))))))))"

text \<open>\<open>destination.parent.resolve()\<close> of a file directly under the mount root.\<close>

definition copy_step :: "'w sd_env \<Rightarrow> deployment_plan \<Rightarrow> build_target \<Rightarrow> media_candidate \<Rightarrow> ('w, media_candidate \<times> string) exec" where
  "copy_step env p t refreshed =
     bindS (validate_planS env p) (\<lambda>_.
     bindS (verify_artifacts env p) (\<lambda>(native, staged).
     bindS (refresh_same env refreshed) (\<lambda>again.
     bindS (verify_media env again t (ba_size_bytes (dp_artifact p)) True) (\<lambda>_.
     bindS (on_session (se_selected_media_update (\<lambda>_. Some again))) (\<lambda>_.
     let destination = path_join (mc_mount_path again) (at_final_filename (dp_transformation p)) in
     bindS (getS (\<lambda>s. en_resolve env (xs_world s) (mc_mount_path again))) (\<lambda>parent.
     bindS (media_err (parent = mc_mount_path again) ''DESTINATION_ESCAPE''
       ''firmware destination escapes the selected media root'') (\<lambda>_.
     bindS (note_effect (Copied_to again destination)) (\<lambda>_.
     bindS (envS (en_copy env staged destination (dp_deployment_id p))) (\<lambda>_.
     bindS (refresh_same env again) (\<lambda>after_copy.
     bindS (verify_media env after_copy t (ba_size_bytes (dp_artifact p)) False) (\<lambda>_.
     bindS (on_session (se_selected_media_update (\<lambda>_. Some after_copy))) (\<lambda>_.
     bindS (transition env COPIED ''copied to selected media root'') (\<lambda>_.
     returnS (after_copy, destination))))))))))))))"

definition readback_step :: "'w sd_env \<Rightarrow> deployment_plan \<Rightarrow> string \<Rightarrow> ('w, unit) exec" where
  "readback_step env p destination =
     bindS (envS (en_is_file env destination)) (\<lambda>present.
     bindS (checkE present Artifact_execution_error ''MEDIA_FILE_ABSENT''
       ''copied firmware is absent from the selected medium'') (\<lambda>_.
     bindS (envS (en_size env destination)) (\<lambda>n.
     bindS (on_session (se_readback_size_update (\<lambda>_. n))) (\<lambda>_.
     bindS (exec_file_sha env destination) (\<lambda>digest.
     bindS (on_session (se_readback_hash_update (\<lambda>_. digest))) (\<lambda>_.
     bindS (checkE (n = ba_size_bytes (dp_artifact p)) Artifact_execution_error ''MEDIA_SIZE_MISMATCH''
       ''media readback size differs from staged artifact'') (\<lambda>_.
     bindS (checkE (digest = at_final_sha256 (dp_transformation p)) Artifact_execution_error ''MEDIA_HASH_MISMATCH''
       ''media readback hash differs from staged artifact'') (\<lambda>_.
     transition env COPY_VERIFIED ''media file reread; size and SHA-256 match staged artifact''))))))))"

definition eject_step :: "'w sd_env \<Rightarrow> media_candidate \<Rightarrow> ('w, unit) exec" where
  "eject_step env m =
     bindS (note_effect (Ejecting m)) (\<lambda>_.
     bindS (envS (en_eject env m)) (\<lambda>r.
     bindS (on_session (se_safe_eject_update (\<lambda>_. Some r))) (\<lambda>_.
     bindS (media_err (er_status r = Eject_EJECTED)
       (if er_status r = Eject_UNSUPPORTED then ''EJECT_UNSUPPORTED'' else ''EJECT_FAILED'')
       (''safe eject did not complete: '' @ er_detail r)) (\<lambda>_.
     bindS (transition env EJECTED ''selected medium safely ejected'') (\<lambda>_.
     transition env WAITING_FOR_MANUAL_POWER_CYCLE
       ''waiting for explicit confirmation of manual power off, SD insertion and power on'')))))"

definition media_steps :: "'w sd_env \<Rightarrow> deployment_plan \<Rightarrow> build_target \<Rightarrow> string \<Rightarrow> ('w, unit) exec" where
  "media_steps env p t selected_id =
     bindS (select_step env p t selected_id) (\<lambda>refreshed.
     bindS (copy_step env p t refreshed) (\<lambda>(after_copy, destination).
     bindS (readback_step env p destination) (\<lambda>_.
     eject_step env after_copy)))"

definition prepare_media :: "'w sd_env \<Rightarrow> deployment_plan \<Rightarrow> string \<Rightarrow> ('w, session) exec" where
  "prepare_media env p selected_id =
     bindS (validate_planS env p) (\<lambda>(c, t).
     bindS (verify_artifacts env p) (\<lambda>_.
     bindS (envS (en_clock env)) (\<lambda>started_at.
     bindS (envS (en_clock env)) (\<lambda>first_at.
     bindS (on_session (\<lambda>_. fresh_session p started_at first_at)) (\<lambda>_.
     bindS (emit env ''DeploymentPlan and staged artifact validated'') (\<lambda>_.
     catchS (bindS (media_steps env p t selected_id) (\<lambda>_. the_session)) (\<lambda>e. case e of
       Exec cls code m \<Rightarrow> fail_session env e code cls
     | _ \<Rightarrow> fail_session env e ''MEDIA_PREPARATION_FAILED'' Execution_error)))))))"

subsection \<open>The manual gate\<close>

definition at_gate :: "string \<Rightarrow> string \<Rightarrow> ('w, unit) exec" where
  "at_gate code m = bindS the_session (\<lambda>s.
     checkE (se_state s = WAITING_FOR_MANUAL_POWER_CYCLE) Execution_error code m)"

definition record_power_observation :: "power_observation \<Rightarrow> ('w, session) exec" where
  "record_power_observation o' =
     bindS (at_gate ''INVALID_POWER_OBSERVATION_STATE'' ''power observations are only recorded at the manual gate'') (\<lambda>_.
     bindS (on_session (se_power_observations_update (\<lambda>xs. xs @ [o']))) (\<lambda>_.
     the_session))"

definition cancel_at_manual_gate :: "'w sd_env \<Rightarrow> string \<Rightarrow> ('w, deployment_proof) exec" where
  "cancel_at_manual_gate env reason =
     (let message = (if reason = [] then ''cancelled by user'' else reason) in
      bindS (at_gate ''MANUAL_GATE_NOT_ACTIVE'' ''deployment is not waiting at the manual gate'') (\<lambda>_.
      bindS (on_session (se_errors_update (\<lambda>xs. xs @ [message]))) (\<lambda>_.
      bindS (transition env FAILED message) (\<lambda>_.
      bindS (close_monitor env) (\<lambda>_.
      bindS the_session (\<lambda>s. returnS (session_proof s)))))))"

definition reenumerate_step :: "'w sd_env \<Rightarrow> ('w, unit) exec" where
  "reenumerate_step env =
     bindS (transition env WAITING_FOR_MCU_REENUMERATION
       ''user explicitly confirmed the manual power-cycle procedure'') (\<lambda>_.
     bindS (envS (en_wait_for_present env)) (\<lambda>identity.
     bindS (on_session (se_observed_mcu_update (\<lambda>_. Some identity))) (\<lambda>_.
     bindS (on_session (se_reenumeration_result_update (\<lambda>_. ''expected physical MCU identity accepted''))) (\<lambda>_.
     transition env MCU_REENUMERATED ''expected physical MCU identity accepted''))))"

definition verify_step :: "'w sd_env \<Rightarrow> ('w, unit) exec" where
  "verify_step env =
     bindS (transition env WAITING_FOR_KLIPPER ''waiting for Klipper and expected MCU registration'') (\<lambda>_.
     bindS the_session (\<lambda>s.
     let expected = expected_fingerprint (se_plan s) in
     bindS (envS (en_wait_for_firmware env expected)) (\<lambda>r.
     bindS (on_session (\<lambda>s. s\<lparr>se_klipper_result := fv_detail r,
         se_observed_fingerprint := fv_observed_fingerprint r\<rparr>)) (\<lambda>_.
     bindS (checkE (fv_klipper_connected r) Post_flash_error ''KLIPPER_NOT_READY'' (fv_detail r)) (\<lambda>_.
     bindS (transition env VERIFYING_FIRMWARE ''verifying exact firmware build-id/fingerprint'') (\<lambda>_.
     bindS (checkE (firmware_version_matches (fv_observed_fingerprint r) expected) Post_flash_error
       ''FIRMWARE_FINGERPRINT_MISMATCH'' ''firmware fingerprint mismatch'') (\<lambda>_.
     transition env VERIFIED ''physical SD deployment and firmware identity verified'')))))))"

definition post_flash_failure :: "'w sd_env \<Rightarrow> exec_exn \<Rightarrow> ('w, 'a) exec" where
  "post_flash_failure env e = (case e of
     Exec cls code m \<Rightarrow> fail_session env e code cls
   | Timeout_exn m \<Rightarrow> fail_session env e ''MCU_REENUMERATION_TIMEOUT'' Post_flash_error
   | Mcu_exn m \<Rightarrow> fail_session env e ''MCU_IDENTITY_REJECTED'' Post_flash_error
   | _ \<Rightarrow> fail_session env e ''POST_FLASH_VERIFICATION_FAILED'' Post_flash_error)"

definition close_when_final :: "'w sd_env \<Rightarrow> ('w, unit) exec" where
  "close_when_final env = bindS the_session (\<lambda>s.
     whenS (se_state s \<in> {VERIFIED, FAILED, MCU_REENUMERATED}) (close_monitor env))"

definition confirm_manual_power_cycle :: "'w sd_env \<Rightarrow> bool \<Rightarrow> bool \<Rightarrow> ('w, deployment_proof) exec" where
  "confirm_manual_power_cycle env confirmed defer =
     bindS (at_gate ''MANUAL_GATE_NOT_ACTIVE'' ''deployment is not waiting for manual power-cycle confirmation'') (\<lambda>_.
     if \<not> confirmed then bindS the_session (\<lambda>s. returnS (session_proof s))
     else
       bindS (on_session (se_manual_confirmation_update (\<lambda>_. True))) (\<lambda>_.
       bindS (envS (en_clock env)) (\<lambda>t.
       bindS (on_session (se_manual_confirmation_at_update (\<lambda>_. t))) (\<lambda>_.
       finallyS
         (catchS
           (bindS (reenumerate_step env) (\<lambda>_.
            bindS (if defer then on_session (se_klipper_result_update (\<lambda>_.
                     ''pending configuration activation and firmware verification''))
                   else verify_step env) (\<lambda>_.
            bindS the_session (\<lambda>s. returnS (session_proof s)))))
           (post_flash_failure env))
         (close_when_final env)))))"

end
