(* ===== verification/Sd_Safety.thy ===== *)
theory Sd_Safety
  imports Sd_Executor
begin

text \<open>
  Safety of the SD executor: a small program logic for its actions over the session and the
  recorded effects, the invariant of the session, and its preservation by every operation on
  every path, raised exceptions included.
\<close>

subsection \<open>Program logic\<close>

type_synonym core = "session \<times> (effect \<times> session) list"

definition core :: "'w exec_state \<Rightarrow> core" where
  "core s = (xs_session s, xs_effects s)"

definition drives :: "(core \<Rightarrow> bool) \<Rightarrow> (core \<Rightarrow> bool) \<Rightarrow> ('w, 'a) exec \<Rightarrow> ('a \<Rightarrow> core \<Rightarrow> bool) \<Rightarrow> bool" where
  "drives J P m Q = (\<forall>s. J (core s) \<and> P (core s) \<longrightarrow>
     J (core (snd (m s))) \<and> (\<forall>x. fst (m s) = Inr x \<longrightarrow> Q x (core (snd (m s)))))"

named_theorems drives_rules \<open>structural rules of the executor's program logic\<close>

lemma drives_bind [drives_rules]:
  "drives J P m Q \<Longrightarrow> (\<And>x. drives J (Q x) (k x) R) \<Longrightarrow> drives J P (bindS m k) R"
  unfolding drives_def bindS_def
  by (auto split: prod.splits sum.splits)

lemma drives_pre: "drives J P m Q \<Longrightarrow> (\<And>c. J c \<Longrightarrow> P' c \<Longrightarrow> P c) \<Longrightarrow> drives J P' m Q"
  by (simp add: drives_def)

lemma drives_post: "drives J P m Q \<Longrightarrow> (\<And>x c. J c \<Longrightarrow> Q x c \<Longrightarrow> Q' x c) \<Longrightarrow> drives J P m Q'"
  by (simp add: drives_def)

lemma drives_return: "(\<And>c. J c \<Longrightarrow> P c \<Longrightarrow> Q x c) \<Longrightarrow> drives J P (returnS x) Q"
  by (simp add: drives_def returnS_def)

lemma drives_raise [drives_rules]: "drives J P (raiseS e) Q" "drives J P (raiseE cls code m) Q"
  by (simp_all add: drives_def raiseS_def raiseE_def)

lemma core_world [simp]: "core (s\<lparr>xs_world := w\<rparr>) = core s" "core (s\<lparr>xs_sequences := q\<rparr>) = core s"
  by (simp_all add: core_def)

lemma drives_env [drives_rules]: "drives J P (envS m) (\<lambda>_. P)"
  by (simp add: drives_def envS_def split: prod.splits)

lemma drives_lift: "drives J P (liftS r) (\<lambda>x c. P c \<and> r = Inr x)"
  by (simp add: drives_def liftS_def)

lemma drives_get [drives_rules]: "drives J P (getS f) (\<lambda>_. P)"
  by (simp add: drives_def getS_def)

lemma drives_session [drives_rules]: "drives J P the_session (\<lambda>x c. P c \<and> x = fst c)"
  by (simp add: drives_def the_session_def getS_def core_def)

lemma drives_check [drives_rules]:
  "drives J P (checkE b cls code m) (\<lambda>_ c. P c \<and> b)" "drives J P (media_err b code m) (\<lambda>_ c. P c \<and> b)"
  "drives J P (requireS b e) (\<lambda>_ c. P c \<and> b)"
  by (simp_all add: drives_def checkE_def media_err_def requireS_def returnS_def raiseS_def)

lemma drives_on_session:
  "(\<And>s l. J (s, l) \<Longrightarrow> P (s, l) \<Longrightarrow> J (f s, l) \<and> Q () (f s, l)) \<Longrightarrow> drives J P (on_session f) Q"
  by (simp add: drives_def on_session_def modifyS_def core_def)

lemma drives_note:
  "(\<And>s l. J (s, l) \<Longrightarrow> P (s, l) \<Longrightarrow> J (s, l @ [(e, s)]) \<and> Q () (s, l @ [(e, s)])) \<Longrightarrow> drives J P (note_effect e) Q"
  by (simp add: drives_def note_effect_def modifyS_def core_def)

lemma drives_sequences [drives_rules]: "drives J P (modifyS (\<lambda>s. s\<lparr>xs_sequences := q s\<rparr>)) (\<lambda>_. P)"
  by (simp add: drives_def modifyS_def core_def)

lemma drives_when: "(c \<Longrightarrow> drives J P m (\<lambda>_. Q)) \<Longrightarrow> (\<And>x. \<not> c \<Longrightarrow> J x \<Longrightarrow> P x \<Longrightarrow> Q x) \<Longrightarrow> drives J P (whenS c m) (\<lambda>_. Q)"
  by (cases c) (simp_all add: whenS_def drives_return)

lemma drives_catch:
  "drives J P m Q \<Longrightarrow> (\<And>e. drives J (\<lambda>_. True) (h e) Q) \<Longrightarrow> drives J P (catchS m h) Q"
  unfolding drives_def catchS_def by (auto split: prod.splits sum.splits)

lemma drives_finally:
  "drives J P m Q \<Longrightarrow> (\<And>x. drives J (Q x) f (\<lambda>_. Q x)) \<Longrightarrow> drives J (\<lambda>_. True) f (\<lambda>_ _. True) \<Longrightarrow>
   drives J P (finallyS m f) Q"
  unfolding drives_def finallyS_def
  by (auto split: prod.splits sum.splits) (metis fst_conv snd_conv)+

lemma drives_swallow [drives_rules]: "drives J P (close_monitor env) (\<lambda>_. P)"
  by (simp add: drives_def close_monitor_def catchS_def envS_def returnS_def split: prod.splits sum.splits)

lemma drivesD: "drives J P m Q \<Longrightarrow> J (core s) \<Longrightarrow> P (core s) \<Longrightarrow> m s = (r, s') \<Longrightarrow>
   J (core s') \<and> (\<forall>x. r = Inr x \<longrightarrow> Q x (core s'))"
  unfolding drives_def by (metis fst_conv snd_conv)

text \<open>Actions that touch neither the session nor the effects.\<close>

definition quiet :: "('w, 'a) exec \<Rightarrow> bool" where
  "quiet m = (\<forall>s. core (snd (m s)) = core s)"

lemma drives_quiet: "quiet m \<Longrightarrow> drives J P m (\<lambda>_. P)"
  by (simp add: drives_def quiet_def)

named_theorems quiet_rules \<open>actions that leave session and effects alone\<close>

lemma quiet_bind [quiet_rules]: "quiet m \<Longrightarrow> (\<And>x. quiet (k x)) \<Longrightarrow> quiet (bindS m k)"
  unfolding quiet_def bindS_def by (auto split: prod.splits sum.splits) (metis snd_conv)+

lemma quiet_basic [quiet_rules]:
  "quiet (envS m)" "quiet (returnS x)" "quiet (raiseS e)" "quiet (liftS r)" "quiet (getS f)"
  "quiet (requireS b e)" "quiet (checkE b cls code m')" "quiet (raiseE cls code m')"
  by (simp_all add: quiet_def envS_def returnS_def raiseS_def liftS_def getS_def requireS_def
      checkE_def raiseE_def split: prod.splits)

lemma quiet_catch [quiet_rules]: "quiet m \<Longrightarrow> (\<And>e. quiet (h e)) \<Longrightarrow> quiet (catchS m h)"
  unfolding quiet_def catchS_def by (auto split: prod.splits sum.splits) (metis snd_conv)+

lemma quiet_each [quiet_rules]: "(\<And>x. quiet (f x)) \<Longrightarrow> quiet (eachS f xs)"
  by (induction xs) (simp_all add: quiet_rules)

lemma quiet_sha [quiet_rules]: "quiet (exec_file_sha env p)"
  unfolding exec_file_sha_def
  by (intro quiet_rules) (auto intro: quiet_rules split: exec_exn.splits)

lemma quiet_artifacts [quiet_rules]: "quiet (verify_artifacts env p)" "quiet (validate_planS env p)"
  unfolding verify_artifacts_def validate_planS_def verify_file_def Let_def
  by (auto intro!: quiet_rules split: prod.splits)

subsection \<open>The invariant\<close>

definition media_safe :: "media_candidate \<Rightarrow> bool" where
  "media_safe m = (\<not> mc_system_disk m \<and> mc_removable m \<and> \<not> mc_read_only m
     \<and> py_lower (mc_filesystem m) = ''vfat'')"

definition readback_matches :: "session \<Rightarrow> bool" where
  "readback_matches s = (se_readback_hash s = at_final_sha256 (dp_transformation (se_plan s))
     \<and> se_readback_size s = ba_size_bytes (dp_artifact (se_plan s)))"

definition safely_ejected :: "session \<Rightarrow> bool" where
  "safely_ejected s = (case se_safe_eject s of Some r \<Rightarrow> er_status r = Eject_EJECTED | None \<Rightarrow> False)"

definition session_ok :: "session \<Rightarrow> bool" where
  "session_ok s =
     ((MEDIA_VERIFIED \<le> se_state s \<longrightarrow> (\<exists>m. se_selected_media s = Some m \<and> media_safe m))
      \<and> (COPY_VERIFIED \<le> se_state s \<longrightarrow> readback_matches s)
      \<and> (EJECTED \<le> se_state s \<longrightarrow> safely_ejected s)
      \<and> (WAITING_FOR_MCU_REENUMERATION \<le> se_state s \<longrightarrow> se_manual_confirmation s)
      \<and> (MCU_REENUMERATED \<le> se_state s \<longrightarrow> se_observed_mcu s \<noteq> None)
      \<and> (se_state s = VERIFIED \<longrightarrow>
           firmware_version_matches (se_observed_fingerprint s) (expected_fingerprint (se_plan s))))"

definition effect_ok :: "effect \<times> session \<Rightarrow> bool" where
  "effect_ok e = (case e of (x, s) \<Rightarrow> (case x of
     Copied_to m destination \<Rightarrow> se_state s = MEDIA_VERIFIED \<and> se_selected_media s = Some m \<and> media_safe m
       \<and> destination = path_join (mc_mount_path m) (at_final_filename (dp_transformation (se_plan s)))
   | Ejecting m \<Rightarrow> se_state s = COPY_VERIFIED \<and> readback_matches s
   | Emitted ev \<Rightarrow> ev_state ev = se_state s \<and> ev_workflow_id ev = dp_deployment_id (se_plan s)))"

definition good :: "core \<Rightarrow> bool" where
  "good c = (session_ok (fst c) \<and> list_all effect_ok (snd c))"

text \<open>The parts of a session that neither a transition nor an event changes.\<close>

definition same_data :: "session \<Rightarrow> session \<Rightarrow> bool" where
  "same_data s s' = (se_plan s' = se_plan s \<and> se_selected_media s' = se_selected_media s
     \<and> se_readback_hash s' = se_readback_hash s \<and> se_readback_size s' = se_readback_size s
     \<and> se_safe_eject s' = se_safe_eject s \<and> se_manual_confirmation s' = se_manual_confirmation s
     \<and> se_observed_mcu s' = se_observed_mcu s \<and> se_observed_fingerprint s' = se_observed_fingerprint s)"

lemma session_ok_same: "same_data s s' \<Longrightarrow> se_state s' = se_state s \<Longrightarrow> session_ok s' = session_ok s"
  by (simp add: same_data_def session_ok_def readback_matches_def safely_ejected_def)

lemma drives_emit: 
  assumes "\<And>s l e. P (s, l) \<Longrightarrow> P (s, l @ [e])"
  shows "drives good P (emit env d) (\<lambda>_. P)"
proof -
  have noted: "drives good (\<lambda>c. P c \<and> x = fst c) (note_effect (Emitted ev)) (\<lambda>_. P)"
    if "ev_state ev = se_state x" "ev_workflow_id ev = dp_deployment_id (se_plan x)" for x ev
    using that assms by (intro drives_note) (auto simp: good_def effect_ok_def)
  show ?thesis
    unfolding emit_def Let_def
    by (rule drives_rules noted | simp)+
qed

lemma drives_transition:
  assumes ok: "\<And>s l. good (s, l) \<Longrightarrow> P (s, l) \<Longrightarrow> st = FAILED \<or> st \<in> set (allowed_transitions (se_state s)) \<Longrightarrow>
      session_ok (s\<lparr>se_state := st\<rparr>)"
  shows "drives good P (transition env st d) (\<lambda>_ c. se_state (fst c) = st
     \<and> (\<exists>s l. good (s, l) \<and> P (s, l) \<and> (st = FAILED \<or> st \<in> set (allowed_transitions (se_state s))) \<and> same_data s (fst c)))"
proof -
  define Q where "Q c = (se_state (fst c) = st
     \<and> (\<exists>s l. good (s, l) \<and> P (s, l) \<and> (st = FAILED \<or> st \<in> set (allowed_transitions (se_state s))) \<and> same_data s (fst c)))"
    for c :: core
  have set_state: "drives good (\<lambda>c. (P c \<and> x = fst c) \<and> (st = FAILED \<or> st \<in> set (allowed_transitions (se_state x))))
      (on_session (se_state_update (\<lambda>_. st))) (\<lambda>_. Q)" for x
  proof (rule drives_on_session)
    fix s l assume g: "good (s, l)" and p: "(P (s, l) \<and> x = fst (s, l)) \<and> (st = FAILED \<or> st \<in> set (allowed_transitions (se_state x)))"
    then have "session_ok (s\<lparr>se_state := st\<rparr>)" by (intro ok) auto
    with g p show "good (s\<lparr>se_state := st\<rparr>, l) \<and> Q (s\<lparr>se_state := st\<rparr>, l)"
      by (auto simp: good_def Q_def same_data_def)
  qed
  have keep: "drives good Q (on_session f) (\<lambda>_. Q)" if "\<And>s. same_data s (f s) \<and> se_state (f s) = se_state s" for f
  proof (rule drives_on_session)
    fix s l assume g: "good (s, l)" and q: "Q (s, l)"
    have sd: "same_data a (f s)" if "same_data a s" for a
      using that \<open>\<And>s. same_data s (f s) \<and> se_state (f s) = se_state s\<close> [of s] by (simp add: same_data_def)
    from g q that [of s] show "good (f s, l) \<and> Q (f s, l)"
      using session_ok_same [of s "f s"] sd by (auto simp: good_def Q_def)
  qed
  have em: "drives good Q (emit env d) (\<lambda>_. Q)"
    by (rule drives_emit) (simp add: Q_def)
  have "drives good P (transition env st d) (\<lambda>_. Q)"
    unfolding transition_def
    by (rule drives_rules set_state em keep drives_when | simp add: same_data_def)+
  then show ?thesis unfolding Q_def .
qed

lemma drives_advance:
  assumes "\<And>s l. good (s, l) \<Longrightarrow> P (s, l) \<Longrightarrow> st = FAILED \<or> st \<in> set (allowed_transitions (se_state s)) \<Longrightarrow>
      session_ok (s\<lparr>se_state := st\<rparr>)"
    and "\<And>s l s' l'. P (s, l) \<Longrightarrow> same_data s s' \<Longrightarrow> se_state s' = st \<Longrightarrow> R (s', l')"
  shows "drives good P (transition env st d) (\<lambda>_. R)"
proof (rule drives_post [OF drives_transition])
  fix c :: core assume "se_state (fst c) = st \<and> (\<exists>s l. good (s, l) \<and> P (s, l)
      \<and> (st = FAILED \<or> st \<in> set (allowed_transitions (se_state s))) \<and> same_data s (fst c))"
  with assms(2) show "R c" by (cases c) auto
qed (use assms(1) in blast)

lemma session_ok_failed: "session_ok (s\<lparr>se_state := FAILED\<rparr>)"
  by (simp add: session_ok_def less_eq_deployment_state_def)

lemma drives_fail: "drives good (\<lambda>_. True) (fail_session env e code cls) Q"
proof -
  have errs: "drives good (\<lambda>_. True) (on_session (se_errors_update f)) (\<lambda>_ _. True)" for f
  proof (rule drives_on_session)
    fix s l assume g: "good (s, l)"
    have "session_ok (se_errors_update f s) = session_ok s"
      by (rule session_ok_same) (simp_all add: same_data_def)
    with g show "good (se_errors_update f s, l) \<and> True" by (simp add: good_def)
  qed
  have tr: "drives good P (transition env FAILED m) (\<lambda>_ _. True)" for P m
    by (rule drives_advance) (simp_all add: session_ok_failed)
  show ?thesis
    unfolding fail_session_def Let_def
    by (rule drives_rules errs tr drives_when TrueI)+
qed

text \<open>Updates of fields the invariant does not read.\<close>

lemma drives_data:
  assumes "\<And>s l. good (s, l) \<Longrightarrow> P (s, l) \<Longrightarrow> session_ok (f s) \<and> R (f s, l)"
  shows "drives good P (on_session f) (\<lambda>_. R)"
  using assms by (intro drives_on_session) (auto simp: good_def)

subsection \<open>The steps\<close>

definition sd_target :: "build_target \<Rightarrow> bool" where
  "sd_target t = (recipe_wf (bt_flash t) \<and> fr_strategy (bt_flash t) = SD_CARD)"

lemma vfat_only: "is_vfat_list v \<Longrightarrow> v = py_get (fr_options r) ''required_filesystems'' \<Longrightarrow>
   set (required_filesystems r) \<subseteq> {''vfat''}"
proof -
  assume v: "is_vfat_list v" "v = py_get (fr_options r) ''required_filesystems''"
  obtain xs where xs: "py_get (fr_options r) ''required_filesystems'' = PList xs"
    "list_all (\<lambda>x. x = PStr ''vfat'') xs"
    using v by (auto simp: is_vfat_list_def split: pyval.splits)
  have "py_lower ''vfat'' = ''vfat''"
    by (simp add: py_lower_def lower_char_def is_upper_def code_of_def)
  with xs show ?thesis
    by (auto simp: required_filesystems_def List.map_filter_def list_all_iff)
qed

lemma sd_target_policy:
  assumes "sd_target t"
  shows "py_truthy (py_get (fr_options (bt_flash t)) ''require_removable'')"
    "set (required_filesystems (bt_flash t)) \<subseteq> {''vfat''}"
  using assms vfat_only [OF _ refl, of "bt_flash t"]
  by (auto simp: sd_target_def recipe_wf_def py_truthy_def)

lemma drives_verify_media:
  assumes "sd_target t"
  shows "drives good P (verify_media env m t n b) (\<lambda>_ c. P c \<and> media_safe m)"
  unfolding verify_media_def Let_def
  by (rule drives_bind, rule drives_check)+
     (rule drives_bind, rule drives_env, rule drives_bind, rule drives_get, rule drives_bind, rule drives_check,
      rule drives_post, rule drives_check,
      use sd_target_policy [OF assms] in \<open>auto simp: media_safe_def\<close>)

lemma drives_refresh: "drives good P (refresh_same env m) (\<lambda>_. P)"
proof -
  have got: "drives good P (case r of None \<Rightarrow> raiseE Media_verification_error x y
      | Some n \<Rightarrow> bindS (getS (f n)) (\<lambda>same. bindS (media_err same u v) (\<lambda>_. returnS n))) (\<lambda>_. P)" for r x y f u v
    by (cases r) (simp_all, (rule drives_rules drives_return | simp)+)
  show ?thesis unfolding refresh_same_def by (rule drives_bind, rule drives_env, rule got)
qed

definition facts :: "deployment_state \<Rightarrow> deployment_plan \<Rightarrow> core \<Rightarrow> bool" where
  "facts st p c = (se_state (fst c) = st \<and> se_plan (fst c) = p)"

definition holds_media :: "deployment_state \<Rightarrow> deployment_plan \<Rightarrow> media_candidate \<Rightarrow> core \<Rightarrow> bool" where
  "holds_media st p m c = (facts st p c \<and> se_selected_media (fst c) = Some m \<and> media_safe m)"

lemmas session_defs = session_ok_def readback_matches_def safely_ejected_def less_eq_deployment_state_def
  state_stage_def

lemma drives_select:
  assumes t: "sd_target t"
  shows "drives good (facts PREPARED p) (select_step env p t sel) (\<lambda>m. holds_media MEDIA_VERIFIED p m)"
proof -
  have pick: "drives good (\<lambda>c. facts PREPARED p c \<and> r = Inr x) (on_session (se_selected_media_update (\<lambda>_. Some m)))
      (\<lambda>_ c. facts PREPARED p c \<and> se_selected_media (fst c) = Some m)" for r m and x :: media_candidate
    by (rule drives_data) (simp add: facts_def session_defs good_def)
  have tr1: "drives good (\<lambda>c. facts PREPARED p c \<and> se_selected_media (fst c) = Some m)
      (transition env MEDIA_SELECTED d) (\<lambda>_ c. facts MEDIA_SELECTED p c)" for m d
    by (rule drives_advance) (simp_all add: facts_def session_defs same_data_def)
  have repick: "drives good (\<lambda>c. facts MEDIA_SELECTED p c \<and> safe) (on_session (se_selected_media_update (\<lambda>_. Some m)))
      (\<lambda>_ c. facts MEDIA_SELECTED p c \<and> se_selected_media (fst c) = Some m)" for m safe
    by (rule drives_data) (simp add: facts_def session_defs good_def)
  have tr2: "drives good (\<lambda>c. (facts MEDIA_SELECTED p c \<and> se_selected_media (fst c) = Some m) \<and> media_safe m)
      (transition env MEDIA_VERIFIED d) (\<lambda>_. holds_media MEDIA_VERIFIED p m)" for m d
    by (rule drives_advance) (simp_all add: facts_def holds_media_def session_defs same_data_def)
  have check: "drives good (facts PREPARED p) (checkE b cls code m) (\<lambda>_. facts PREPARED p)" for b cls code m
    by (rule drives_post [OF drives_check(1)]) simp
  show ?thesis
    unfolding select_step_def
    by (rule drives_bind, rule check, rule drives_bind, rule drives_env, rule drives_bind, rule drives_env,
        rule drives_bind, rule drives_lift, rule drives_bind, rule pick, rule drives_bind, rule tr1,
        rule drives_bind, rule drives_verify_media [OF t], rule drives_bind, rule drives_refresh,
        rule drives_bind, rule repick, rule drives_bind, rule drives_verify_media [OF t],
        rule drives_bind, rule tr2, rule drives_return)
qed

lemma drives_copy:
  assumes t: "sd_target t"
  shows "drives good (holds_media MEDIA_VERIFIED p m) (copy_step env p t m)
     (\<lambda>x c. holds_media COPIED p (fst x) c)"
proof -
  let ?H = "holds_media MEDIA_VERIFIED p"
  have pick: "drives good (\<lambda>c. ?H m c \<and> media_safe n) (on_session (se_selected_media_update (\<lambda>_. Some n))) (\<lambda>_. ?H n)" for n m
    by (rule drives_data) (simp add: facts_def holds_media_def session_defs)
  have noted: "drives good (\<lambda>c. ?H n c \<and> b)
      (note_effect (Copied_to n (path_join (mc_mount_path n) (at_final_filename (dp_transformation p))))) (\<lambda>_. ?H n)" for n b
    by (rule drives_note) (auto simp: good_def effect_ok_def holds_media_def facts_def)
  have tr: "drives good (?H n) (transition env COPIED d) (\<lambda>_. holds_media COPIED p n)" for n d
    by (rule drives_advance) (auto simp: facts_def holds_media_def session_defs same_data_def good_def)
  have q: "drives good P (validate_planS env p) (\<lambda>_. P)" "drives good P (verify_artifacts env p) (\<lambda>_. P)" for P
    by (rule drives_quiet, rule quiet_rules)+
  have ret: "drives good (holds_media COPIED p n) (returnS (n, d)) (\<lambda>x c. holds_media COPIED p (fst x) c)" for n d
    by (rule drives_return) simp
  have body: "drives good (?H m) (bindS (refresh_same env m) (\<lambda>again.
     bindS (verify_media env again t (ba_size_bytes (dp_artifact p)) True) (\<lambda>_.
     bindS (on_session (se_selected_media_update (\<lambda>_. Some again))) (\<lambda>_.
     bindS (getS (\<lambda>s. en_resolve env (xs_world s) (mc_mount_path again))) (\<lambda>parent.
     bindS (media_err (parent = mc_mount_path again) ''DESTINATION_ESCAPE''
       ''firmware destination escapes the selected media root'') (\<lambda>_.
     bindS (note_effect (Copied_to again (path_join (mc_mount_path again) (at_final_filename (dp_transformation p))))) (\<lambda>_.
     bindS (envS (en_copy env staged (path_join (mc_mount_path again) (at_final_filename (dp_transformation p)))
         (dp_deployment_id p))) (\<lambda>_.
     bindS (refresh_same env again) (\<lambda>after_copy.
     bindS (verify_media env after_copy t (ba_size_bytes (dp_artifact p)) False) (\<lambda>_.
     bindS (on_session (se_selected_media_update (\<lambda>_. Some after_copy))) (\<lambda>_.
     bindS (transition env COPIED ''copied to selected media root'') (\<lambda>_.
     returnS (after_copy, path_join (mc_mount_path again) (at_final_filename (dp_transformation p)))))))))))))))
     (\<lambda>x c. holds_media COPIED p (fst x) c)" for staged
    by (rule drives_bind, rule drives_refresh, rule drives_bind, rule drives_verify_media [OF t],
        rule drives_bind, rule pick, rule drives_bind, rule drives_get, rule drives_bind, rule drives_check,
        rule drives_bind, rule noted, rule drives_bind, rule drives_env, rule drives_bind, rule drives_refresh,
        rule drives_bind, rule drives_verify_media [OF t], rule drives_bind, rule pick,
        rule drives_bind, rule tr, rule ret)
  show ?thesis
    unfolding copy_step_def Let_def
    by (rule drives_bind, rule q, rule drives_bind, rule q, clarsimp split: prod.splits, rule body)
qed

lemma drives_readback:
  "drives good (holds_media COPIED p m) (readback_step env p d) (\<lambda>_. facts COPY_VERIFIED p)"
proof -
  let ?H = "holds_media COPIED p m"
  have upd: "drives good (\<lambda>c. ?H c \<and> b) (on_session (se_readback_size_update (\<lambda>_. n)))
      (\<lambda>_ c. ?H c \<and> se_readback_size (fst c) = n)" for n b
    by (rule drives_data) (simp add: facts_def holds_media_def session_defs)
  have upd': "drives good (\<lambda>c. ?H c \<and> se_readback_size (fst c) = n) (on_session (se_readback_hash_update (\<lambda>_. x)))
      (\<lambda>_ c. ?H c \<and> se_readback_size (fst c) = n \<and> se_readback_hash (fst c) = x)" for n x
    by (rule drives_data) (simp add: facts_def holds_media_def session_defs)
  have sha: "drives good P (exec_file_sha env d) (\<lambda>_. P)" for P
    by (rule drives_quiet, rule quiet_rules)
  have tr: "drives good (\<lambda>c. ((?H c \<and> se_readback_size (fst c) = n \<and> se_readback_hash (fst c) = x)
         \<and> n = ba_size_bytes (dp_artifact p)) \<and> x = at_final_sha256 (dp_transformation p))
      (transition env COPY_VERIFIED e) (\<lambda>_. facts COPY_VERIFIED p)" for n x e
    by (rule drives_advance) (auto simp: facts_def holds_media_def session_defs same_data_def)
  show ?thesis
    unfolding readback_step_def
    by (rule drives_bind, rule drives_env, rule drives_bind, rule drives_check, rule drives_bind, rule drives_env,
        rule drives_bind, rule upd, rule drives_bind, rule sha, rule drives_bind, rule upd',
        rule drives_bind, rule drives_check, rule drives_bind, rule drives_check, rule tr)
qed

lemma drives_eject:
  "drives good (facts COPY_VERIFIED p) (eject_step env m) (\<lambda>_. facts WAITING_FOR_MANUAL_POWER_CYCLE p)"
proof -
  let ?F = "facts COPY_VERIFIED p"
  have noted: "drives good ?F (note_effect (Ejecting m)) (\<lambda>_. ?F)"
    by (rule drives_note) (auto simp: good_def effect_ok_def facts_def session_defs)
  have upd: "drives good ?F (on_session (se_safe_eject_update (\<lambda>_. Some r)))
      (\<lambda>_ c. ?F c \<and> se_safe_eject (fst c) = Some r)" for r
    by (rule drives_data) (simp add: facts_def session_defs good_def)
  have tr: "drives good (\<lambda>c. (?F c \<and> se_safe_eject (fst c) = Some r) \<and> er_status r = Eject_EJECTED)
      (transition env EJECTED d) (\<lambda>_. facts EJECTED p)" for r d
    by (rule drives_advance) (auto simp: facts_def session_defs same_data_def good_def)
  have tr': "drives good (facts EJECTED p) (transition env WAITING_FOR_MANUAL_POWER_CYCLE d)
      (\<lambda>_. facts WAITING_FOR_MANUAL_POWER_CYCLE p)" for d
    by (rule drives_advance) (auto simp: facts_def session_defs same_data_def good_def)
  show ?thesis
    unfolding eject_step_def
    by (rule drives_bind, rule noted, rule drives_bind, rule drives_env, rule drives_bind, rule upd,
        rule drives_bind, rule drives_check, rule drives_bind, rule tr, rule tr')
qed

lemma drives_media_steps:
  assumes t: "sd_target t"
  shows "drives good (facts PREPARED p) (media_steps env p t sel) (\<lambda>_. facts WAITING_FOR_MANUAL_POWER_CYCLE p)"
  unfolding media_steps_def
  by (rule drives_bind, rule drives_select [OF t], rule drives_bind, rule drives_copy [OF t], clarsimp split: prod.splits,
      rule drives_bind, rule drives_readback, rule drives_eject)

subsection \<open>The operations\<close>

definition env_ok :: "'w sd_env \<Rightarrow> bool" where
  "env_ok env = (catalog_valid (en_nfkc env) (en_catalog env)
     \<and> list_all (contract_wf (en_sha env)) (catalog_contracts (en_catalog env)))"

lemma validated_sd_target:
  assumes env: "env_ok env" and v: "validate_plan env r p = Inr (c, t)"
  shows "sd_target t"
proof -
  from v have id: "by_id (en_nfkc env) (en_catalog env) (dp_board_id p) = Some c"
    and val: "validate_deployment_plan (en_sha env) r c p = Inr t" and strat: "fr_strategy (bt_flash t) = SD_CARD"
    by (auto simp: validate_plan_def result_simps split: option.splits)
  from id_directory.lookup_sound [OF _ id] env have "contract_wf (en_sha env) c"
    by (auto simp: env_ok_def list_all_iff)
  moreover from val obtain v' where "find_target c (dp_hardware_variant_id p) (dp_build_target_id p) = Inr (v', t)"
    by (auto simp: validate_deployment_plan_def result_simps Let_def)
  then have "v' \<in> set (bc_hardware_variants c)" "t \<in> set (hv_build_targets v')"
    by (auto simp: find_target_def split: option.splits dest: contract_variant_Some variant_target_Some)
  ultimately have "recipe_wf (bt_flash t)"
    by (auto simp: contract_wf_def variant_wf_def target_wf_def list_all_iff)
  with strat show ?thesis by (simp add: sd_target_def)
qed

lemma session_ok_fresh: "session_ok (fresh_session p t u)"
  by (simp add: fresh_session_def session_defs)

lemma drives_prepare:
  assumes env: "env_ok env"
  shows "drives good (\<lambda>_. True) (prepare_media env p sel)
     (\<lambda>s c. s = fst c \<and> facts WAITING_FOR_MANUAL_POWER_CYCLE p c)"
proof -
  have valid: "drives good (\<lambda>_. True) (validate_planS env p) (\<lambda>x _. sd_target (snd x))"
    by (auto simp: validate_planS_def drives_def bindS_def getS_def liftS_def dest: validated_sd_target [OF env])
  have arts: "drives good P (verify_artifacts env p) (\<lambda>_. P)" for P
    by (rule drives_quiet, rule quiet_rules)
  have fresh: "drives good P (on_session (\<lambda>_. fresh_session p t u)) (\<lambda>_. facts PREPARED p)" for P t u
    by (rule drives_data) (simp add: session_ok_fresh, simp add: facts_def fresh_session_def)
  have em: "drives good (facts PREPARED p) (emit env d) (\<lambda>_. facts PREPARED p)" for d
    by (rule drives_emit) (simp add: facts_def)
  have body: "drives good (facts PREPARED p) (bindS (media_steps env p t sel) (\<lambda>_. the_session))
      (\<lambda>s c. s = fst c \<and> facts WAITING_FOR_MANUAL_POWER_CYCLE p c)" if "sd_target t" for t
    by (rule drives_bind, rule drives_media_steps [OF that], rule drives_post, rule drives_session) auto
  have rest: "drives good (\<lambda>_. True) (bindS (verify_artifacts env p) (\<lambda>_.
      bindS (envS (en_clock env)) (\<lambda>started_at.
      bindS (envS (en_clock env)) (\<lambda>first_at.
      bindS (on_session (\<lambda>_. fresh_session p started_at first_at)) (\<lambda>_.
      bindS (emit env ''DeploymentPlan and staged artifact validated'') (\<lambda>_.
      catchS (bindS (media_steps env p t sel) (\<lambda>_. the_session)) (\<lambda>e. case e of
         Exec cls code m \<Rightarrow> fail_session env e code cls
       | _ \<Rightarrow> fail_session env e ''MEDIA_PREPARATION_FAILED'' Execution_error)))))))
      (\<lambda>s c. s = fst c \<and> facts WAITING_FOR_MANUAL_POWER_CYCLE p c)" if "sd_target t" for t
    by (rule drives_bind, rule arts, rule drives_bind, rule drives_env, rule drives_bind, rule drives_env,
        rule drives_bind, rule fresh, rule drives_bind, rule em, rule drives_catch, rule body [OF that])
       (auto split: exec_exn.splits intro: drives_fail)
  show ?thesis
    unfolding prepare_media_def
    by (rule drives_bind, rule valid, clarsimp split: prod.splits)
       (simp add: drives_def rest [unfolded drives_def, rule_format])
qed

lemma drives_gate: "drives good P (at_gate code m) (\<lambda>_ c. P c \<and> se_state (fst c) = WAITING_FOR_MANUAL_POWER_CYCLE)"
  unfolding at_gate_def
  by (rule drives_bind, rule drives_session, rule drives_post, rule drives_check) auto

lemma drives_unread:
  assumes "\<And>s. same_data s (f s) \<and> se_state (f s) = se_state s" and "\<And>s l. P (s, l) \<Longrightarrow> P (f s, l)"
  shows "drives good P (on_session f) (\<lambda>_. P)"
proof (rule drives_data)
  fix s l assume "good (s, l)" "P (s, l)"
  with assms(2) session_ok_same [of s "f s"] assms(1) [of s] show "session_ok (f s) \<and> P (f s, l)"
    by (simp add: good_def)
qed

lemma drives_record:
  "drives good (\<lambda>_. True) (record_power_observation x) (\<lambda>s c. s = fst c \<and> se_state s = WAITING_FOR_MANUAL_POWER_CYCLE)"
  unfolding record_power_observation_def
  by (rule drives_bind, rule drives_gate, rule drives_bind, rule drives_unread)
     (auto simp: same_data_def intro!: drives_post [OF drives_session])

lemma drives_to_failed: "drives good P (transition env FAILED d) (\<lambda>_ c. se_state (fst c) = FAILED)"
  by (rule drives_advance) (auto simp: session_ok_failed)

lemma drives_cancel:
  "drives good (\<lambda>_. True) (cancel_at_manual_gate env reason) (\<lambda>_ c. se_state (fst c) = FAILED)"
  unfolding cancel_at_manual_gate_def Let_def
  by (rule drives_bind, rule drives_gate, rule drives_bind, rule drives_unread)
     (auto simp: same_data_def intro!: drives_bind [OF drives_to_failed] drives_bind [OF drives_swallow]
       drives_bind [OF drives_session] drives_return)

lemma drives_reenumerate:
  "drives good (\<lambda>c. facts WAITING_FOR_MANUAL_POWER_CYCLE p c \<and> se_manual_confirmation (fst c)) (reenumerate_step env)
     (\<lambda>_. facts MCU_REENUMERATED p)"
proof -
  let ?W = "facts WAITING_FOR_MCU_REENUMERATION p"
  have tr: "drives good (\<lambda>c. facts WAITING_FOR_MANUAL_POWER_CYCLE p c \<and> se_manual_confirmation (fst c))
      (transition env WAITING_FOR_MCU_REENUMERATION d) (\<lambda>_. ?W)" for d
    by (rule drives_advance) (auto simp: facts_def session_defs same_data_def good_def)
  have seen: "drives good ?W (on_session (se_observed_mcu_update (\<lambda>_. Some m)))
      (\<lambda>_ c. ?W c \<and> se_observed_mcu (fst c) \<noteq> None)" for m
    by (rule drives_data) (auto simp: facts_def session_defs good_def)
  have result: "drives good (\<lambda>c. ?W c \<and> se_observed_mcu (fst c) \<noteq> None) (on_session (se_reenumeration_result_update f))
      (\<lambda>_ c. ?W c \<and> se_observed_mcu (fst c) \<noteq> None)" for f
    by (rule drives_unread) (auto simp: same_data_def facts_def)
  have tr': "drives good (\<lambda>c. ?W c \<and> se_observed_mcu (fst c) \<noteq> None) (transition env MCU_REENUMERATED d)
      (\<lambda>_. facts MCU_REENUMERATED p)" for d
    by (rule drives_advance) (auto simp: facts_def session_defs same_data_def good_def)
  show ?thesis
    unfolding reenumerate_step_def
    by (rule drives_bind, rule tr, rule drives_bind, rule drives_env, rule drives_bind, rule seen,
        rule drives_bind, rule result, rule tr')
qed

lemma drives_verify:
  "drives good (facts MCU_REENUMERATED p) (verify_step env) (\<lambda>_. facts VERIFIED p)"
proof -
  let ?W = "facts WAITING_FOR_KLIPPER p" and ?V = "facts VERIFYING_FIRMWARE p"
  have tr: "drives good (facts MCU_REENUMERATED p) (transition env WAITING_FOR_KLIPPER d) (\<lambda>_. ?W)" for d
    by (rule drives_advance) (auto simp: facts_def session_defs same_data_def good_def)
  have obs: "drives good (\<lambda>c. ?W c \<and> x = fst c) (on_session (\<lambda>s. s\<lparr>se_klipper_result := d, se_observed_fingerprint := v\<rparr>))
      (\<lambda>_ c. (?W c \<and> se_observed_fingerprint (fst c) = v) \<and> se_plan x = p)" for x d v
    by (rule drives_data) (auto simp: facts_def session_defs good_def)
  have tr': "drives good (\<lambda>c. ((?W c \<and> se_observed_fingerprint (fst c) = v) \<and> se_plan x = p) \<and> b)
      (transition env VERIFYING_FIRMWARE d) (\<lambda>_ c. (?V c \<and> se_observed_fingerprint (fst c) = v) \<and> se_plan x = p)" for v x b d
    by (rule drives_advance) (auto simp: facts_def session_defs same_data_def good_def)
  have fin: "drives good (\<lambda>c. ((?V c \<and> se_observed_fingerprint (fst c) = v) \<and> se_plan x = p)
         \<and> firmware_version_matches v (expected_fingerprint (se_plan x)))
      (transition env VERIFIED d) (\<lambda>_. facts VERIFIED p)" for v x d
    by (rule drives_advance) (auto simp: facts_def session_defs same_data_def good_def)
  show ?thesis
    unfolding verify_step_def Let_def
    by (rule drives_bind, rule tr, rule drives_bind, rule drives_session, rule drives_bind, rule drives_env,
        rule drives_bind, rule obs, rule drives_bind, rule drives_check, rule drives_bind, rule tr',
        rule drives_bind, rule drives_check, rule fin)
qed

text \<open>The states in which a confirmation can return a proof.\<close>

definition confirmed_state :: "bool \<Rightarrow> bool \<Rightarrow> deployment_state" where
  "confirmed_state confirmed defer = (if \<not> confirmed then WAITING_FOR_MANUAL_POWER_CYCLE
     else if defer then MCU_REENUMERATED else VERIFIED)"

lemma drives_confirm:
  "drives good (\<lambda>_. True) (confirm_manual_power_cycle env confirmed defer)
     (\<lambda>r c. r = session_proof (fst c) \<and> se_state (fst c) = confirmed_state confirmed defer)"
proof -
  let ?Q = "\<lambda>r c. r = session_proof (fst c) \<and> se_state (fst c) = confirmed_state confirmed defer"
  let ?G = "\<lambda>c. se_state (fst c) = WAITING_FOR_MANUAL_POWER_CYCLE \<and> se_manual_confirmation (fst c)"
  have conf: "drives good (\<lambda>c. True \<and> se_state (fst c) = WAITING_FOR_MANUAL_POWER_CYCLE)
      (on_session (se_manual_confirmation_update (\<lambda>_. True))) (\<lambda>_. ?G)"
    by (rule drives_data) (auto simp: session_defs good_def)
  have at: "drives good ?G (on_session (se_manual_confirmation_at_update f)) (\<lambda>_. ?G)" for f
    by (rule drives_unread) (auto simp: same_data_def)
  have pending: "drives good (facts MCU_REENUMERATED p) (on_session (se_klipper_result_update f)) (\<lambda>_. facts MCU_REENUMERATED p)" for f p
    by (rule drives_unread) (auto simp: same_data_def facts_def)
  have body: "drives good (\<lambda>c. ?G c \<and> se_plan (fst c) = p)
      (bindS (reenumerate_step env) (\<lambda>_.
       bindS (if defer then on_session (se_klipper_result_update f) else verify_step env) (\<lambda>_.
       bindS the_session (\<lambda>s. returnS (session_proof s))))) ?Q" if "confirmed" for p f
  proof -
    have fin: "drives good (facts (confirmed_state confirmed defer) p) (bindS the_session (\<lambda>s. returnS (session_proof s))) ?Q"
      by (rule drives_bind, rule drives_session, rule drives_return) (auto simp: facts_def)
    have mid: "drives good (facts MCU_REENUMERATED p)
        (if defer then on_session (se_klipper_result_update f) else verify_step env)
        (\<lambda>_. facts (confirmed_state confirmed defer) p)"
      using that pending drives_verify by (cases "defer") (simp_all add: confirmed_state_def)
    show ?thesis
      by (rule drives_pre [OF drives_bind [OF drives_reenumerate [of p] drives_bind [OF mid fin]]])
         (auto simp: facts_def)
  qed
  have body': "drives good ?G (bindS (reenumerate_step env) (\<lambda>_.
       bindS (if defer then on_session (se_klipper_result_update f) else verify_step env) (\<lambda>_.
       bindS the_session (\<lambda>s. returnS (session_proof s))))) ?Q" if "confirmed" for f
    using body [OF that] unfolding drives_def by blast
  have failed: "drives good (\<lambda>_. True) (post_flash_failure env e) ?Q" for e
    unfolding post_flash_failure_def by (cases e) (auto intro: drives_fail)
  have closed: "drives good P (close_when_final env) (\<lambda>_. P)" for P
  proof -
    have "drives good (\<lambda>c. P c \<and> x = fst c) (whenS b (close_monitor env)) (\<lambda>_. P)" for x b
      by (rule drives_when) (auto intro: drives_post [OF drives_swallow])
    then show ?thesis
      unfolding close_when_final_def by (rule drives_bind [OF drives_session])
  qed
  show ?thesis
  proof (cases confirmed)
    case False
    then show ?thesis
      unfolding confirm_manual_power_cycle_def
      by simp (rule drives_bind, rule drives_gate, rule drives_bind, rule drives_session, rule drives_return,
        simp add: confirmed_state_def)
  next
    case True
    show ?thesis
      unfolding confirm_manual_power_cycle_def
      by (rule drives_bind, rule drives_gate, subst if_not_P, simp add: True, rule drives_bind, rule conf, rule drives_bind, rule drives_env,
        rule drives_bind, rule at, rule drives_finally, rule drives_catch, rule body' [OF True], rule failed,
        rule closed, rule closed)
  qed
qed

end
