(* ===== verification/Sd_Properties.thy ===== *)
theory Sd_Properties
  imports Sd_Safety Build_Properties
begin

text \<open>
  Properties of the SD executor: what every reachable state of a deployment satisfies, what was
  written and ejected on the way, how failures end, the numbering of events, the history a proof
  records, and that a deployment on cooperative collaborators ends verified.
\<close>

subsection \<open>Reachable deployments\<close>

text \<open>
  One operation of the executor, returned or raised, or a change of the world outside it.  An
  executor starts without an active session and with no recorded effect.
\<close>

inductive executor_step :: "'w sd_env \<Rightarrow> 'w exec_state \<Rightarrow> 'w exec_state \<Rightarrow> bool" for env where
  prepared: "prepare_media env p sel s = (r, s') \<Longrightarrow> executor_step env s s'"
| observed: "record_power_observation x s = (r, s') \<Longrightarrow> executor_step env s s'"
| cancelled: "cancel_at_manual_gate env reason s = (r, s') \<Longrightarrow> executor_step env s s'"
| confirmed: "confirm_manual_power_cycle env b d s = (r, s') \<Longrightarrow> executor_step env s s'"
| outside: "executor_step env s (s\<lparr>xs_world := w\<rparr>)"

definition executor_start :: "'w exec_state \<Rightarrow> bool" where
  "executor_start s = (se_state (xs_session s) = FAILED \<and> xs_effects s = [] \<and> xs_sequences s = [])"

inductive reachable :: "'w sd_env \<Rightarrow> 'w exec_state \<Rightarrow> bool" for env where
  start: "executor_start s \<Longrightarrow> reachable env s"
| step: "reachable env s \<Longrightarrow> executor_step env s s' \<Longrightarrow> reachable env s'"

lemma start_good: "executor_start s \<Longrightarrow> good (core s)"
  by (simp add: executor_start_def good_def core_def session_ok_def less_eq_deployment_state_def)

lemma step_good:
  assumes env: "env_ok env" and "executor_step env s s'" and "good (core s)"
  shows "good (core s')"
  using assms(2,3)
proof cases
  case (prepared p sel r)
  with assms(3) drivesD [OF drives_prepare [OF env]] show ?thesis by blast
next
  case (observed x r)
  with assms(3) drivesD [OF drives_record] show ?thesis by blast
next
  case (cancelled reason r)
  with assms(3) drivesD [OF drives_cancel] show ?thesis by blast
next
  case (confirmed b d r)
  with assms(3) drivesD [OF drives_confirm] show ?thesis by blast
qed (use assms(3) in simp)

lemma reachable_good: "reachable env s \<Longrightarrow> env_ok env \<Longrightarrow> good (core s)"
  by (induction rule: reachable.induct) (auto intro: start_good step_good)

lemma reachable_prepare:
  "reachable env s \<Longrightarrow> prepare_media env p sel s = (r, s') \<Longrightarrow> reachable env s'"
  by (rule reachable.step, assumption, rule executor_step.prepared)

lemma reachable_confirm:
  "reachable env s \<Longrightarrow> confirm_manual_power_cycle env b d s = (r, s') \<Longrightarrow> reachable env s'"
  by (rule reachable.step, assumption, rule executor_step.confirmed)

subsection \<open>Actions that do not raise\<close>

definition succeeds :: "(session \<Rightarrow> bool) \<Rightarrow> ('w, 'a) exec \<Rightarrow> (session \<Rightarrow> bool) \<Rightarrow> bool" where
  "succeeds P m Q = (\<forall>s. P (xs_session s) \<longrightarrow> (\<exists>x s'. m s = (Inr x, s') \<and> Q (xs_session s')))"

lemma succeeds_bind: "succeeds P m Q \<Longrightarrow> (\<And>x. succeeds Q (k x) R) \<Longrightarrow> succeeds P (bindS m k) R"
  unfolding succeeds_def bindS_def by fastforce

lemma succeeds_return: "succeeds P (returnS x) P"
  by (simp add: succeeds_def returnS_def)

lemma succeeds_session: "succeeds P the_session P"
  by (simp add: succeeds_def the_session_def getS_def)

lemma succeeds_get: "(\<And>x. P x \<Longrightarrow> succeeds P (k x) Q) \<Longrightarrow> succeeds P (bindS the_session k) Q"
  by (simp add: succeeds_def the_session_def getS_def bindS_def)

lemma succeeds_on: "(\<And>s. P s \<Longrightarrow> Q (f s)) \<Longrightarrow> succeeds P (on_session f) Q"
  by (simp add: succeeds_def on_session_def modifyS_def)

lemma succeeds_note: "succeeds P (note_effect e) P"
  by (simp add: succeeds_def note_effect_def modifyS_def)

lemma succeeds_catch: "succeeds P m Q \<Longrightarrow> succeeds P (catchS m h) Q"
  unfolding succeeds_def catchS_def by fastforce

lemma succeeds_finally: "succeeds P m Q \<Longrightarrow> succeeds Q f R \<Longrightarrow> succeeds P (finallyS m f) R"
  unfolding succeeds_def finallyS_def by fastforce

definition stands :: "deployment_plan \<Rightarrow> deployment_state \<Rightarrow> session \<Rightarrow> bool" where
  "stands p st s = (se_plan s = p \<and> se_state s = st)"

text \<open>
  Collaborators that cooperate: one safe medium, intact files, canonical paths, a monitor and a
  verifier that answer, and the expected firmware running afterwards.
\<close>

record cooperation =
  co_target :: build_target
  co_contract :: board_contract
  co_medium :: media_candidate
  co_mcu :: mcu_evidence
  co_result :: firmware_result
  co_content :: bytes
  co_time :: string

definition plan_files :: "deployment_plan \<Rightarrow> media_candidate \<Rightarrow> string list" where
  "plan_files p m = [ba_path (dp_artifact p), at_final_path (dp_transformation p),
     path_join (mc_mount_path m) (at_final_filename (dp_transformation p))]"

definition plan_intact :: "'w sd_env \<Rightarrow> deployment_plan \<Rightarrow> bytes \<Rightarrow> bool" where
  "plan_intact env p content = (let a = dp_artifact p; x = dp_transformation p in
     path_name (ba_path a) = ba_native_filename a \<and> path_name (at_final_path x) = at_final_filename x
     \<and> ba_size_bytes a = int (length content) \<and> at_size_bytes x = int (length content)
     \<and> ba_sha256 a = en_sha_bytes env content \<and> at_final_sha256 x = en_sha_bytes env content)"

definition medium_accepted :: "deployment_plan \<Rightarrow> build_target \<Rightarrow> media_candidate \<Rightarrow> bool" where
  "medium_accepted p t m =
     (\<not> mc_system_disk m \<and> mc_removable m \<and> \<not> mc_read_only m
      \<and> py_lower (mc_filesystem m) \<in> set (required_filesystems (bt_flash t))
      \<and> py_get (fr_options (bt_flash t)) ''destination'' = PStr ''sd-card-root''
      \<and> ba_size_bytes (dp_artifact p) \<le> mc_free_bytes m)"

definition cooperative :: "'w sd_env \<Rightarrow> deployment_plan \<Rightarrow> cooperation \<Rightarrow> bool" where
  "cooperative env p co = (let m = co_medium co in
     validate_plan env (\<lambda>q. q) p = Inr (co_contract co, co_target co)
     \<and> plan_intact env p (co_content co) \<and> medium_accepted p (co_target co) m
     \<and> en_has_monitor env \<and> en_has_verifier env \<and> en_clock env = returnS (co_time co)
     \<and> (\<forall>e. en_event_sink env e = returnS ()) \<and> en_arm env = returnS () \<and> en_close env = returnS ()
     \<and> en_wait_for_present env = returnS (co_mcu co) \<and> (\<forall>v. en_wait_for_firmware env v = returnS (co_result co))
     \<and> en_list_candidates env = returnS [m] \<and> en_refresh env m = returnS (Some m)
     \<and> (\<forall>a b i. en_copy env a b i = returnS ())
     \<and> (\<exists>r. en_eject env m = returnS r \<and> er_status r = Eject_EJECTED)
     \<and> (\<forall>q \<in> set (plan_files p m). en_is_file env q = returnS True \<and> en_read env q = returnS (co_content co)
          \<and> en_size env q = returnS (int (length (co_content co))))
     \<and> en_is_dir env (mc_mount_path m) = returnS True \<and> (\<forall>w q. en_resolve env w q = q)
     \<and> fv_klipper_connected (co_result co)
     \<and> firmware_version_matches (fv_observed_fingerprint (co_result co)) (expected_fingerprint p))"

lemma envS_return: "envS (returnS x) = returnS x"
  by (rule ext) (simp add: envS_def returnS_def)

lemma getS_const: "getS (\<lambda>_. x) = returnS x"
  by (rule ext) (simp add: getS_def returnS_def)

lemmas coop_simps = envS_return getS_const checkE_def media_err_def action_simps

lemma coop_env:
  assumes "cooperative env p co"
  shows "en_has_monitor env" "en_has_verifier env" "en_clock env = returnS (co_time co)"
    "en_event_sink env e = returnS ()" "en_arm env = returnS ()" "en_close env = returnS ()"
    "en_wait_for_present env = returnS (co_mcu co)" "en_wait_for_firmware env v = returnS (co_result co)"
    "en_list_candidates env = returnS [co_medium co]" "en_refresh env (co_medium co) = returnS (Some (co_medium co))"
    "en_copy env a b i = returnS ()" "en_is_dir env (mc_mount_path (co_medium co)) = returnS True"
    "en_resolve env w q = q" "fv_klipper_connected (co_result co)"
    "firmware_version_matches (fv_observed_fingerprint (co_result co)) (expected_fingerprint p)"
  using assms by (simp_all add: cooperative_def Let_def)

lemma coop_file:
  assumes "cooperative env p co" and "q \<in> set (plan_files p (co_medium co))"
  shows "en_is_file env q = returnS True" "en_size env q = returnS (int (length (co_content co)))"
    "exec_file_sha env q = returnS (en_sha_bytes env (co_content co))"
  using assms by (simp_all add: cooperative_def Let_def exec_file_sha_def coop_simps)

lemma calm_emit:
  assumes "cooperative env p co"
  shows "succeeds (stands p st) (emit env d) (stands p st)"
  unfolding emit_def Let_def
  by (simp add: succeeds_def bindS_def getS_def modifyS_def note_effect_def returnS_def the_session_def
      stands_def coop_env [OF assms] coop_simps)

lemma calm_transition:
  assumes coop: "cooperative env p co" and "b \<in> set (allowed_transitions a)"
  shows "succeeds (stands p a) (transition env b d) (stands p b)"
proof -
  have allowed: "succeeds (stands p a) (bindS the_session (\<lambda>s.
      requireS (b = FAILED \<or> b \<in> set (allowed_transitions (se_state s))) e)) (stands p a)" for e
    using assms(2) by (simp add: succeeds_def bindS_def the_session_def getS_def requireS_def returnS_def stands_def)
  have split: "transition env b d = bindS (bindS the_session (\<lambda>s.
      requireS (b = FAILED \<or> b \<in> set (allowed_transitions (se_state s)))
        (Runtime_exn ''invalid contractual deployment transition''))) (\<lambda>_.
     bindS (on_session (se_state_update (\<lambda>_. b))) (\<lambda>_.
     bindS (on_session (se_steps_update (\<lambda>xs. xs @ [\<lparr>sr_state = b, sr_timestamp = co_time co, sr_detail = d\<rparr>]))) (\<lambda>_.
     bindS (whenS (b = VERIFIED \<or> b = FAILED) (on_session (se_finished_at_update (\<lambda>_. co_time co)))) (\<lambda>_.
     emit env d))))"
    by (simp add: transition_def bindS_assoc coop_env [OF coop] coop_simps)
  have upd: "succeeds (stands p a) (on_session (se_state_update (\<lambda>_. b))) (stands p b)"
    "succeeds (stands p b) (on_session (se_steps_update f)) (stands p b)"
    "succeeds (stands p b) (whenS c (on_session (se_finished_at_update f'))) (stands p b)" for f f' c
    by (cases c; auto intro!: succeeds_on succeeds_return simp: stands_def whenS_def)+
  show ?thesis
    unfolding split
    by (rule succeeds_bind, rule allowed, rule succeeds_bind, rule upd, rule succeeds_bind, rule upd,
        rule succeeds_bind, rule upd, rule calm_emit [OF coop])
qed

lemma calm_on: "(\<And>s. se_plan (f s) = se_plan s \<and> se_state (f s) = se_state s) \<Longrightarrow>
   succeeds (stands p st) (on_session f) (stands p st)"
  by (rule succeeds_on) (simp add: stands_def)

lemma calm_media:
  assumes "cooperative env p co"
  shows "verify_media env (co_medium co) (co_target co) (ba_size_bytes (dp_artifact p)) c = returnS ()"
    and "refresh_same env (co_medium co) = returnS (co_medium co)"
    and "select_media [co_medium co] [] = Inr (co_medium co)"
proof -
  have "medium_accepted p (co_target co) (co_medium co)"
    using assms by (simp add: cooperative_def Let_def)
  then show "verify_media env (co_medium co) (co_target co) (ba_size_bytes (dp_artifact p)) c = returnS ()"
    by (simp add: verify_media_def Let_def coop_simps coop_env [OF assms] medium_accepted_def)
  show "refresh_same env (co_medium co) = returnS (co_medium co)"
    by (simp add: refresh_same_def coop_simps coop_env [OF assms] same_physical_medium_def)
  show "select_media [co_medium co] [] = Inr (co_medium co)"
    by (simp add: select_media_def require_def)
qed

lemma calm_plan:
  assumes "cooperative env p co"
  shows "validate_planS env p = returnS (co_contract co, co_target co)"
    and "verify_artifacts env p = returnS (ba_path (dp_artifact p), at_final_path (dp_transformation p))"
proof -
  have v: "validate_plan env (\<lambda>q. q) p = Inr (co_contract co, co_target co)" and i: "plan_intact env p (co_content co)"
    using assms by (simp_all add: cooperative_def Let_def)
  have canonical: "en_resolve env w = (\<lambda>q. q)" for w
    by (rule ext) (rule coop_env(13) [OF assms])
  from v show "validate_planS env p = returnS (co_contract co, co_target co)"
    unfolding validate_planS_def by (intro ext) (simp add: bindS_def getS_def liftS_def returnS_def canonical)
  from i show "verify_artifacts env p = returnS (ba_path (dp_artifact p), at_final_path (dp_transformation p))"
    by (simp add: verify_artifacts_def Let_def verify_file_def coop_file [OF assms] plan_files_def plan_intact_def coop_simps)
qed

lemma calm_prepare:
  assumes coop: "cooperative env p co"
  shows "succeeds (\<lambda>_. True) (prepare_media env p []) (stands p WAITING_FOR_MANUAL_POWER_CYCLE)"
proof -
  let ?m = "co_medium co"
  note simps = coop_env [OF coop] coop_simps calm_media [OF coop] calm_plan [OF coop]
  note tr = calm_transition [OF coop]
  obtain er where er: "en_eject env ?m = returnS er" "er_status er = Eject_EJECTED"
    using coop by (auto simp: cooperative_def Let_def)
  have copied: "en_is_file env (path_join (mc_mount_path ?m) (at_final_filename (dp_transformation p))) = returnS True"
    "en_size env (path_join (mc_mount_path ?m) (at_final_filename (dp_transformation p))) = returnS (int (length (co_content co)))"
    "exec_file_sha env (path_join (mc_mount_path ?m) (at_final_filename (dp_transformation p)))
       = returnS (en_sha_bytes env (co_content co))"
    by (rule coop_file [OF coop], simp add: plan_files_def)+
  have intact: "ba_size_bytes (dp_artifact p) = int (length (co_content co))"
    "at_final_sha256 (dp_transformation p) = en_sha_bytes env (co_content co)"
    using coop by (simp_all add: cooperative_def plan_intact_def Let_def)
  have steps: "succeeds (stands p PREPARED) (media_steps env p (co_target co) []) (stands p WAITING_FOR_MANUAL_POWER_CYCLE)"
    unfolding media_steps_def select_step_def copy_step_def readback_step_def eject_step_def
    by (simp add: simps bindS_assoc copied er Let_def del: bindS_raise, simp add: intact,
        (rule succeeds_bind, (rule calm_on, simp | rule tr, simp add: allowed_transitions_def | rule succeeds_note))+,
        rule tr, simp add: allowed_transitions_def)
  have fresh: "succeeds (\<lambda>_. True) (on_session (\<lambda>_. fresh_session p a b)) (stands p PREPARED)" for a b
    by (rule succeeds_on) (simp add: stands_def fresh_session_def)
  show ?thesis
    unfolding prepare_media_def
    by (simp add: simps, rule succeeds_bind, rule fresh, rule succeeds_bind, rule calm_emit [OF coop],
        rule succeeds_catch, rule succeeds_bind, rule steps, rule succeeds_session)
qed

lemma calm_confirm:
  assumes coop: "cooperative env p co"
  shows "succeeds (stands p WAITING_FOR_MANUAL_POWER_CYCLE) (confirm_manual_power_cycle env True False) (stands p VERIFIED)"
proof -
  note simps = coop_env [OF coop] coop_simps
  note tr = calm_transition [OF coop]
  have gate: "succeeds (stands p WAITING_FOR_MANUAL_POWER_CYCLE) (at_gate c d) (stands p WAITING_FOR_MANUAL_POWER_CYCLE)" for c d
    by (simp add: succeeds_def at_gate_def bindS_def the_session_def getS_def stands_def simps returnS_def)
  have re: "succeeds (stands p WAITING_FOR_MANUAL_POWER_CYCLE) (reenumerate_step env) (stands p MCU_REENUMERATED)"
    unfolding reenumerate_step_def
    by (simp add: simps, rule succeeds_bind, rule tr, simp add: allowed_transitions_def,
        rule succeeds_bind, rule calm_on, simp, rule succeeds_bind, rule calm_on, simp,
        rule tr, simp add: allowed_transitions_def)
  have ver: "succeeds (stands p MCU_REENUMERATED) (verify_step env) (stands p VERIFIED)"
    unfolding verify_step_def Let_def
    by (rule succeeds_bind, rule tr, simp add: allowed_transitions_def, rule succeeds_get,
        simp add: simps stands_def [of p WAITING_FOR_KLIPPER], rule succeeds_bind,
        rule calm_on [unfolded stands_def [of p WAITING_FOR_KLIPPER]], simp, fold stands_def,
        rule succeeds_bind, rule tr, simp add: allowed_transitions_def, rule tr, simp add: allowed_transitions_def)
  have close: "succeeds P (close_when_final env) P" for P
    unfolding close_when_final_def close_monitor_def
    by (rule succeeds_get) (simp add: simps whenS_def succeeds_return)
  show ?thesis
    unfolding confirm_manual_power_cycle_def
    by (rule succeeds_bind, rule gate, simp add: simps, rule succeeds_bind, rule calm_on, simp,
        rule succeeds_bind, rule calm_on, simp, rule succeeds_finally, rule succeeds_catch,
        rule succeeds_bind, rule re, rule succeeds_bind, rule ver, rule succeeds_bind, rule succeeds_session,
        rule succeeds_return, rule close)
qed

subsection \<open>A concrete deployment\<close>

definition ex_medium :: media_candidate where
  "ex_medium = \<lparr>mc_stable_id = ''usb-1'', mc_device_path = ''/dev/sda1'', mc_parent_device = ''/dev/sda'',
     mc_mount_path = ''/m/sd'', mc_filesystem = ''vfat'', mc_size_bytes = 1000000, mc_free_bytes = 500000,
     mc_removable = True, mc_system_disk = False, mc_read_only = False, mc_label = ''SD'', mc_model = ''Reader'',
     mc_serial = ''1''\<rparr>"

definition ex_mcu :: mcu_evidence where
  "ex_mcu = \<lparr>me_configured_path = ''/dev/serial/by-id/usb-x'', me_device_node = ''/dev/ttyUSB0'', me_devpath = ''/d'',
     me_serial = ''1'', me_physical_path = ''1-1'', me_vendor_id = ''1a86'', me_model_id = ''7523'',
     me_physical_port = ''1-1'', me_by_path = [], me_vid_pid = ''1a86:7523''\<rparr>"

definition ex_answer :: firmware_result where
  "ex_answer = \<lparr>fv_klipper_connected = True, fv_observed_fingerprint = ex_fingerprint, fv_observed_versions = [],
     fv_detail = ''ready''\<rparr>"

definition ex_sd :: "unit sd_env" where
  "ex_sd = \<lparr>en_clock = returnS ''t'', en_event_sink = (\<lambda>_. returnS ()), en_has_monitor = True, en_has_verifier = True,
     en_arm = returnS (), en_close = returnS (), en_wait_for_present = returnS ex_mcu,
     en_wait_for_firmware = (\<lambda>_. returnS ex_answer), en_list_candidates = returnS [ex_medium],
     en_refresh = (\<lambda>m. returnS (Some m)), en_copy = (\<lambda>_ _ _. returnS ()),
     en_eject = (\<lambda>m. returnS \<lparr>er_status = Eject_EJECTED, er_device_path = mc_device_path m, er_detail = [], er_timestamp = ''t''\<rparr>),
     en_is_file = (\<lambda>_. returnS True), en_is_dir = (\<lambda>_. returnS True),
     en_size = (\<lambda>_. returnS (int (length ex_content))), en_read = (\<lambda>_. returnS ex_content),
     en_resolve = (\<lambda>_ q. q), en_sha = ex_sha, en_sha_bytes = (\<lambda>_. ex_digest), en_nfkc = ex_nfkc,
     en_catalog = ex_catalog\<rparr>"

definition ex_start :: "unit exec_state" where
  "ex_start = \<lparr>xs_world = (), xs_sequences = [],
     xs_session = (fresh_session undefined [] [])\<lparr>se_state := FAILED\<rparr>, xs_effects = []\<rparr>"

lemma ex_executor_start: "executor_start ex_start"
  by (simp add: executor_start_def ex_start_def)

lemma ex_env_ok: "env_ok ex_sd"
proof -
  have "catalog_contracts ex_catalog = [ex_contract]"
    by code_simp
  then show ?thesis by (simp add: env_ok_def ex_sd_def ex_catalog_valid ex_contract_wf)
qed

lemma validated_transformation:
  assumes "validate_deployment_plan sha r c p = Inr t"
  shows "path_name (at_final_path (dp_transformation p)) = at_final_filename (dp_transformation p)"
    and "at_final_sha256 (dp_transformation p) = ba_sha256 (dp_artifact p)"
    and "at_size_bytes (dp_transformation p) = ba_size_bytes (dp_artifact p)"
  using assms by (auto simp: validate_deployment_plan_def check_transformation_def result_simps Let_def)

lemma ex_cooperates: "\<exists>p co. cooperative ex_sd p co"
proof -
  obtain f where a: "build_artifact_from_proof ex_tools ex_host ex_proof ex_contract = returnS (ex_artifact_with f)"
    and rv: "bi_reported_version f = ex_fingerprint"
    using ex_bridged by blast
  from ex_planned [of f] obtain p w where p: "create_deployment_plan ex_tools ex_host ex_contract (ex_artifact_with f) ''/o'' [] () = (Inr p, w)"
    unfolding returns_def by blast
  have tools: "tl_sha ex_tools = ex_sha" "sha256_re (tl_sha_bytes ex_tools c)" for c
    by (simp_all add: ex_tools_def ex_digests)
  have commit: "commit_re (um_validated_commit (bc_upstream ex_contract))" by (simp add: ex_fields ex_texts)
  have "build_artifact_from_proof ex_tools ex_host ex_proof ex_contract () = (Inr (ex_artifact_with f), ())"
    by (simp add: a returnS_def)
  from bridged_consistent [OF this _ commit] tools have idn: "identity_consistent ex_contract (ex_artifact_with f)" by auto
  have "resolves_by ex_host (\<lambda>p. p)" by (simp add: resolves_by_def returnS_def)
  from planned_native_path [OF p this] created_plan_validates [OF p idn, of "\<lambda>p. p"] tools
  obtain t where v: "validate_deployment_plan ex_sha (\<lambda>p. p) ex_contract p = Inr t" by auto
  have fields: "dp_artifact p = ex_artifact_with f" "dp_hardware_variant_id p = ''stm32f103''"
    "dp_build_target_id p = ''sd-usart1''" "dp_board_id p = ''acme.one''"
    using p by (auto simp: create_deployment_plan_def state_simps Let_def ex_artifact_with_def ex_fields)
  with v have t: "t = ex_target"
    by (auto simp: validate_deployment_plan_def result_simps ex_find Let_def)
  have board: "by_id ex_nfkc ex_catalog ''acme.one'' = Some ex_contract"
    "fr_strategy (bt_flash ex_target) = SD_CARD" "bt_support_status ex_target = RUNTIME_SUPPORTED"
    "tr_kind (bt_transport ex_target) = UART" "mc_free_bytes ex_medium = 500000"
    by code_simp+
  have sd: "en_nfkc ex_sd = ex_nfkc" "en_catalog ex_sd = ex_catalog" "en_sha ex_sd = ex_sha"
    by (simp_all add: ex_sd_def)
  have valid: "validate_plan ex_sd (\<lambda>q. q) p = Inr (ex_contract, ex_target)"
    by (simp add: validate_plan_def sd fields board v t require_def)
  have intact: "plan_intact ex_sd p ex_content"
    using validated_transformation [OF v]
    by (simp add: plan_intact_def fields ex_artifact_with_def path_name_join ex_content_size ex_sd_def Let_def)
  have medium: "medium_accepted p ex_target ex_medium"
  proof -
    have "py_lower (mc_filesystem ex_medium) \<in> set (required_filesystems (bt_flash ex_target))"
      "py_get (fr_options (bt_flash ex_target)) ''destination'' = PStr ''sd-card-root''"
      "\<not> mc_system_disk ex_medium" "mc_removable ex_medium" "\<not> mc_read_only ex_medium"
      by code_simp+
    then show ?thesis by (simp add: medium_accepted_def board fields ex_artifact_with_def)
  qed
  have "firmware_version_matches ex_fingerprint ex_fingerprint" by code_simp
  moreover have "\<exists>r. en_eject ex_sd ex_medium = returnS r \<and> er_status r = Eject_EJECTED"
    by (rule exI [of _ "\<lparr>er_status = Eject_EJECTED, er_device_path = mc_device_path ex_medium, er_detail = [],
        er_timestamp = ''t''\<rparr>"]) (simp add: ex_sd_def)
  ultimately have "cooperative ex_sd p \<lparr>co_target = ex_target, co_contract = ex_contract, co_medium = ex_medium, co_mcu = ex_mcu,
     co_result = ex_answer, co_content = ex_content, co_time = ''t''\<rparr>"
    using valid intact medium
    by (simp add: cooperative_def Let_def)
       (simp add: ex_sd_def ex_answer_def expected_fingerprint_def fields ex_artifact_with_def rv)
  then show ?thesis by blast
qed

subsection \<open>Event numbers\<close>

definition event_numbers :: "string \<Rightarrow> (effect \<times> session) list \<Rightarrow> nat list" where
  "event_numbers wid l = concat (map (\<lambda>(e, _). case e of
     Emitted ev \<Rightarrow> if ev_workflow_id ev = wid then [ev_sequence ev] else [] | _ \<Rightarrow> []) l)"

definition numbered :: "'w exec_state \<Rightarrow> bool" where
  "numbered s = (\<forall>wid. event_numbers wid (xs_effects s) =
     [1..<Suc (case dict_get (xs_sequences s) wid of Some n \<Rightarrow> n | None \<Rightarrow> 0)])"

lemma numbered_basic [keeps_intros]: "keeps numbered (envS m)" "keeps numbered (on_session f)" "keeps numbered the_session"
  "keeps numbered (raiseE cls code d)" "keeps numbered (checkE b cls code d)" "keeps numbered (media_err b code d)"
  by (simp_all add: keeps_def envS_def on_session_def the_session_def getS_def modifyS_def numbered_def raiseE_def
      raiseS_def checkE_def media_err_def requireS_def returnS_def split: prod.splits)

lemma numbered_note: "(case e of Emitted _ \<Rightarrow> False | _ \<Rightarrow> True) \<Longrightarrow> keeps numbered (note_effect e)"
  by (auto simp: keeps_def note_effect_def modifyS_def numbered_def event_numbers_def split: effect.splits)

lemma numbered_emit [keeps_intros]: "keeps numbered (emit env d)"
proof -
  have "numbered (s\<lparr>xs_sequences := dict_set (xs_sequences s) wid n,
      xs_effects := xs_effects s @ [(Emitted ev, xs_session s)]\<rparr>)"
    if s: "numbered s" and n: "n = (case dict_get (xs_sequences s) wid of Some n \<Rightarrow> n | None \<Rightarrow> 0) + 1"
      and ev: "ev_workflow_id ev = wid" "ev_sequence ev = n"
    for s :: "'a exec_state" and wid n ev
    using s unfolding numbered_def by (auto simp: n ev event_numbers_def dict_get_set)
  then have "numbered (snd (emit env d s))" if "numbered s" for s
    using that by (simp add: emit_def Let_def bindS_def the_session_def getS_def modifyS_def note_effect_def numbered_def envS_def
        split: prod.splits sum.splits)
  then show ?thesis by (simp add: keeps_def)
qed

lemma numbered_quiet [keeps_intros]: "keeps numbered (validate_planS env p)" "keeps numbered (exec_file_sha env q)"
  "keeps numbered (close_monitor env)" "keeps numbered (at_gate c d)"
  unfolding validate_planS_def exec_file_sha_def close_monitor_def at_gate_def
  by (auto intro!: keeps_intros split: exec_exn.splits)

lemma numbered_transition [keeps_intros]: "keeps numbered (transition env st d)"
  unfolding transition_def by (intro keeps_intros)

lemma numbered_fail [keeps_intros]: "keeps numbered (fail_session env e code cls)"
  unfolding fail_session_def Let_def by (intro keeps_intros)

lemma numbered_media [keeps_intros]: "keeps numbered (verify_artifacts env p)" "keeps numbered (verify_media env m t n b)"
  "keeps numbered (refresh_same env m)"
  unfolding verify_artifacts_def verify_media_def refresh_same_def verify_file_def Let_def
  by (auto intro!: keeps_intros split: option.splits prod.splits)

lemma numbered_steps [keeps_intros]: "keeps numbered (select_step env p t sel)" "keeps numbered (copy_step env p t m)"
  "keeps numbered (readback_step env p q)" "keeps numbered (eject_step env m)"
  unfolding select_step_def copy_step_def readback_step_def eject_step_def Let_def
  by (auto intro!: keeps_intros numbered_note)

lemma numbered_prepare: "keeps numbered (prepare_media env p sel)"
  unfolding prepare_media_def media_steps_def
  by (auto intro!: keeps_intros split: exec_exn.splits prod.splits)

lemma numbered_manual: "keeps numbered (record_power_observation x)" "keeps numbered (cancel_at_manual_gate env reason)"
  unfolding record_power_observation_def cancel_at_manual_gate_def Let_def by (intro keeps_intros)+

lemma numbered_confirm: "keeps numbered (confirm_manual_power_cycle env b d)"
  unfolding confirm_manual_power_cycle_def reenumerate_step_def verify_step_def post_flash_failure_def
    close_when_final_def Let_def
  by (auto intro!: keeps_intros split: exec_exn.splits)

lemma numbered_outside: "numbered s \<Longrightarrow> numbered (s\<lparr>xs_world := w\<rparr>)"
  by (simp add: numbered_def)

lemma numbered_step: "executor_step env s s' \<Longrightarrow> numbered s \<Longrightarrow> numbered s'"
  by (induction rule: executor_step.induct)
     (blast intro: numbered_outside dest: keepsD [OF numbered_prepare] keepsD [OF numbered_manual(1)]
       keepsD [OF numbered_manual(2)] keepsD [OF numbered_confirm])+

lemma numbered_start: "executor_start s \<Longrightarrow> numbered s"
  by (simp add: executor_start_def numbered_def event_numbers_def dict_get_def)

lemma reachable_numbered: "reachable env s \<Longrightarrow> numbered s"
  by (induction rule: reachable.induct) (auto intro: numbered_start numbered_step)

subsection \<open>The recorded history\<close>

definition history :: "core \<Rightarrow> bool" where
  "history c = (deployment_machine.run (map sr_state (se_steps (fst c)))
     \<and> last (map sr_state (se_steps (fst c))) = se_state (fst c))"

definition follows :: "('w, 'a) exec \<Rightarrow> bool" where
  "follows m = drives (\<lambda>_. True) history m (\<lambda>_. history)"

named_theorems follows_intros \<open>actions that keep the history a run\<close>

lemma follows_bind [follows_intros]: "follows m \<Longrightarrow> (\<And>x. follows (k x)) \<Longrightarrow> follows (bindS m k)"
  unfolding follows_def by (rule drives_bind)

lemma follows_quiet: "quiet m \<Longrightarrow> follows m"
  unfolding follows_def by (rule drives_quiet)

lemma follows_basic [follows_intros]: "follows (envS m)" "follows (returnS x)" "follows (raiseS e)" "follows (liftS r)"
  "follows (getS f)" "follows (requireS b e)" "follows (checkE b cls code d)" "follows (raiseE cls code d)"
  "follows (media_err b code d)" "follows the_session" "follows (validate_planS env p)" "follows (exec_file_sha env q)"
  "follows (verify_artifacts env p)" "follows (note_effect ef)"
proof -
  show "follows (media_err b code d)" "follows the_session"
    by (simp_all add: follows_quiet quiet_rules media_err_def the_session_def)
  show "follows (note_effect ef)"
    unfolding follows_def by (rule drives_note) (simp add: history_def)
qed (intro follows_quiet quiet_rules)+

lemma follows_on: "(\<And>s. se_steps (f s) = se_steps s \<and> se_state (f s) = se_state s) \<Longrightarrow> follows (on_session f)"
  unfolding follows_def by (rule drives_on_session) (simp add: history_def)

lemma run_snoc:
  assumes "deployment_machine.run xs" and "b \<in> set (allowed_transitions (last xs))"
  shows "deployment_machine.run (xs @ [b])"
proof -
  have ne: "xs \<noteq> []" using assms(1) by (simp add: deployment_machine.run_def)
  have "(xs @ [b]) ! Suc i \<in> set (allowed_transitions ((xs @ [b]) ! i))" if "Suc i < length (xs @ [b])" for i
  proof (cases "Suc i < length xs")
    case True
    with assms(1) show ?thesis by (simp add: deployment_machine.run_def nth_append)
  next
    case False
    with that have "i = length xs - 1" "Suc i = length xs" by auto
    with ne assms(2) show ?thesis by (simp add: nth_append last_conv_nth)
  qed
  with ne assms(1) show ?thesis by (simp add: deployment_machine.run_def)
qed

lemma follows_sequences [follows_intros]: "follows (modifyS (\<lambda>s. s\<lparr>xs_sequences := q s\<rparr>))"
  unfolding follows_def by (rule drives_sequences)

lemma follows_emit [follows_intros]: "follows (emit env d)"
  unfolding emit_def Let_def by (intro follows_intros)

lemma follows_transition [follows_intros]: "st \<noteq> FAILED \<Longrightarrow> follows (transition env st d)"
proof -
  assume st: "st \<noteq> FAILED"
  let ?mid = "\<lambda>c. se_state (fst c) = st \<and> (\<exists>a. deployment_machine.run (map sr_state (se_steps (fst c)))
     \<and> last (map sr_state (se_steps (fst c))) = a \<and> st \<in> set (allowed_transitions a))"
  have set_state: "drives (\<lambda>_. True) (\<lambda>c. (history c \<and> x = fst c) \<and> (st = FAILED \<or> st \<in> set (allowed_transitions (se_state x))))
      (on_session (se_state_update (\<lambda>_. st))) (\<lambda>_. ?mid)" for x
    by (rule drives_on_session) (use st in \<open>auto simp: history_def\<close>)
  have logged: "drives (\<lambda>_. True) ?mid
      (on_session (se_steps_update (\<lambda>xs. xs @ [\<lparr>sr_state = st, sr_timestamp = t, sr_detail = d\<rparr>]))) (\<lambda>_. history)" for t
    by (rule drives_on_session) (auto simp: history_def run_snoc)
  have rest: "follows (bindS (whenS b (bindS (envS (en_clock env)) (\<lambda>t'. on_session (se_finished_at_update (\<lambda>_. t')))))
      (\<lambda>_. emit env d))" for b
    unfolding whenS_def by (auto intro!: follows_intros follows_on)
  show ?thesis
    unfolding transition_def follows_def
    by (rule drives_bind, rule drives_session, rule drives_bind, rule drives_check, rule drives_bind, rule set_state,
        rule drives_bind, rule drives_env, rule drives_bind, rule logged, rule rest [unfolded follows_def])
qed

lemma fail_raises: "fail_session env e code cls s \<noteq> (Inr x, s')"
  by (auto simp: fail_session_def Let_def state_simps raiseE_def)

lemma follows_fail [follows_intros]: "drives (\<lambda>_. True) P (fail_session env e code cls) Q"
  using fail_raises unfolding drives_def by (metis prod.collapse)

lemma follows_media [follows_intros]: "follows (verify_media env m t n b)" "follows (refresh_same env m)"
  unfolding verify_media_def refresh_same_def Let_def
  by (auto intro!: follows_intros split: option.splits)

lemma follows_steps [follows_intros]: "follows (select_step env p t sel)" "follows (copy_step env p t m)"
  "follows (readback_step env p q)" "follows (eject_step env m)"
  unfolding select_step_def copy_step_def readback_step_def eject_step_def Let_def
  by (auto intro!: follows_intros follows_on split: prod.splits)

lemma follows_post [follows_intros]: "follows (reenumerate_step env)" "follows (verify_step env)" "follows (at_gate c d)"
  unfolding reenumerate_step_def verify_step_def at_gate_def Let_def
  by (auto intro!: follows_intros follows_on)

text \<open>Preparation is the media steps on a fresh session; a failure never returns.\<close>

lemma drives_any: "drives (\<lambda>_. True) P m (\<lambda>_ _. True)"
  by (simp add: drives_def)

lemma prepare_drives:
  fixes env :: "'w sd_env"
  assumes fresh: "\<And>a b. drives (\<lambda>_. True) (\<lambda>_. True) (on_session (\<lambda>_. fresh_session p a b) :: ('w, unit) exec) (\<lambda>_. P)"
    and em: "\<And>d. drives (\<lambda>_. True) P (emit env d) (\<lambda>_. P)"
    and steps: "\<And>t. drives (\<lambda>_. True) P (bindS (media_steps env p t sel) (\<lambda>_. the_session)) (\<lambda>_. Q)"
  shows "drives (\<lambda>_. True) (\<lambda>_. True) (prepare_media env p sel) (\<lambda>_. Q)"
proof -
  have rest: "drives (\<lambda>_. True) (\<lambda>_. True) (bindS (verify_artifacts env p) (\<lambda>_.
      bindS (envS (en_clock env)) (\<lambda>started_at.
      bindS (envS (en_clock env)) (\<lambda>first_at.
      bindS (on_session (\<lambda>_. fresh_session p started_at first_at)) (\<lambda>_.
      bindS (emit env ''DeploymentPlan and staged artifact validated'') (\<lambda>_.
      catchS (bindS (media_steps env p t sel) (\<lambda>_. the_session)) (\<lambda>e. case e of
         Exec cls code m \<Rightarrow> fail_session env e code cls
       | _ \<Rightarrow> fail_session env e ''MEDIA_PREPARATION_FAILED'' Execution_error)))))))
      (\<lambda>_. Q)" for t
    by (rule drives_bind, rule drives_any, rule drives_bind, rule drives_any, rule drives_bind, rule drives_any,
        rule drives_bind, rule fresh, rule drives_bind, rule em, rule drives_catch, rule steps)
       (auto split: exec_exn.splits intro: follows_fail)
  show ?thesis
    unfolding prepare_media_def
    by (rule drives_bind, rule drives_any) (auto split: prod.splits intro: rest)
qed

lemma history_prepare: "drives (\<lambda>_. True) (\<lambda>_. True) (prepare_media env p sel) (\<lambda>_. history)"
proof (rule prepare_drives)
  show "drives (\<lambda>_. True) (\<lambda>_. True) (on_session (\<lambda>_. fresh_session p a b)) (\<lambda>_. history)" for a b
  proof (rule drives_on_session)
    have "hd state_order = PREPARED" by (simp add: state_order_def)
    then show "True \<and> history (fresh_session p a b, l)" for l
      by (simp add: history_def fresh_session_def deployment_machine.run_def)
  qed
  show "drives (\<lambda>_. True) history (emit env d) (\<lambda>_. history)" for d
    by (rule follows_emit [unfolded follows_def])
  have "follows (bindS (media_steps env p t sel) (\<lambda>_. the_session))" for t
    unfolding media_steps_def by (auto intro!: follows_intros split: prod.splits)
  then show "drives (\<lambda>_. True) history (bindS (media_steps env p t sel) (\<lambda>_. the_session)) (\<lambda>_. history)" for t
    by (simp add: follows_def)
qed

lemma history_confirm: "follows (confirm_manual_power_cycle env b d)"
proof -
  have close: "follows (close_when_final env)"
    unfolding close_when_final_def close_monitor_def whenS_def follows_def
    by (rule drives_bind, rule drives_session)
       (auto simp: drives_def catchS_def envS_def returnS_def history_def core_def split: prod.splits sum.splits)
  have body: "follows (bindS (reenumerate_step env) (\<lambda>_.
       bindS (if d then on_session (se_klipper_result_update f) else verify_step env) (\<lambda>_.
       bindS the_session (\<lambda>s. returnS (session_proof s)))))" for f
    by (auto intro!: follows_intros follows_on)
  have whole: "follows (finallyS (catchS m (post_flash_failure env)) (close_when_final env))"
    if "follows m" for m :: "('a, deployment_proof) exec"
  proof -
    have "drives (\<lambda>_. True) (\<lambda>_. True) (post_flash_failure env e) (\<lambda>_. history)"
      for e :: exec_exn
      unfolding post_flash_failure_def by (cases e) (simp_all add: follows_fail)
    moreover have "drives (\<lambda>_. True) (\<lambda>_. True) (close_when_final env) (\<lambda>_ _. True)"
      by (simp add: drives_def)
    ultimately show ?thesis
      using that close unfolding follows_def by (intro drives_finally drives_catch)
  qed
  show ?thesis
    unfolding confirm_manual_power_cycle_def
    by (auto intro!: follows_intros follows_on whole body)
qed

subsection \<open>Failures\<close>

definition state_in :: "deployment_state set \<Rightarrow> 'w exec_state \<Rightarrow> bool" where
  "state_in A s = (se_state (xs_session s) \<in> A)"

lemma keeps_quiet: "quiet m \<Longrightarrow> keeps (\<lambda>s. P (core s)) m"
  by (simp add: keeps_def quiet_def)

lemma state_basic [keeps_intros]: "keeps (state_in A) (envS m)" "keeps (state_in A) the_session"
  "keeps (state_in A) (raiseE cls code d)" "keeps (state_in A) (checkE b cls code d)"
  "keeps (state_in A) (media_err b code d)" "keeps (state_in A) (note_effect ef)"
  "keeps (state_in A) (modifyS (\<lambda>s. s\<lparr>xs_sequences := q s\<rparr>))"
  by (simp_all add: keeps_def envS_def the_session_def getS_def modifyS_def state_in_def raiseE_def
      raiseS_def checkE_def media_err_def requireS_def returnS_def note_effect_def split: prod.splits)

lemma state_on: "(\<And>s. se_state (f s) = se_state s) \<Longrightarrow> keeps (state_in A) (on_session f)"
  by (simp add: keeps_def on_session_def modifyS_def state_in_def)

lemma state_emit [keeps_intros]: "keeps (state_in A) (emit env d)"
  unfolding emit_def Let_def by (intro keeps_intros)

text \<open>What follows the assignment of the new state inside a transition.\<close>

lemma state_transition [keeps_intros]:
  assumes "st \<in> A"
  shows "keeps (state_in A) (transition env st d)"
proof -
  have "keeps (state_in A) (on_session (se_state_update (\<lambda>_. st)))"
    using assms by (simp add: keeps_def on_session_def modifyS_def state_in_def)
  then show ?thesis
    unfolding transition_def by (intro keeps_bind state_basic keeps_require keeps_when state_emit) (auto intro: state_on)
qed

lemma transition_failed: "transition env FAILED d s = (r, s') \<Longrightarrow> state_in {FAILED} s'"
proof -
  assume t: "transition env FAILED d s = (r, s')"
  let ?s = "s\<lparr>xs_session := (xs_session s)\<lparr>se_state := FAILED\<rparr>\<rparr>"
  let ?rest = "bindS (envS (en_clock env)) (\<lambda>t.
     bindS (on_session (se_steps_update (\<lambda>xs. xs @ [\<lparr>sr_state = FAILED, sr_timestamp = t, sr_detail = d\<rparr>]))) (\<lambda>_.
     bindS (bindS (envS (en_clock env)) (\<lambda>t'. on_session (se_finished_at_update (\<lambda>_. t')))) (\<lambda>_. emit env d)))"
  have k: "keeps (state_in {FAILED}) ?rest"
    by (intro keeps_intros state_on) simp_all
  have "transition env FAILED d s = ?rest ?s"
    by (simp add: transition_def bindS_def the_session_def getS_def requireS_def returnS_def on_session_def modifyS_def
        whenS_def)
  with t have run: "?rest ?s = (r, s')" by simp
  show ?thesis by (rule keepsD [OF k _ run]) (simp add: state_in_def)
qed

lemma fail_settles: "fail_session env e code cls s = (r, s') \<Longrightarrow> state_in {FAILED, VERIFIED} s'"
proof -
  assume f: "fail_session env e code cls s = (r, s')"
  let ?s = "s\<lparr>xs_session := se_errors_update (\<lambda>xs. xs @ [exn_text e]) (xs_session s)\<rparr>"
  let ?rest = "bindS (close_monitor env) (\<lambda>_. raiseE cls code (exn_text e))"
  have tail: "keeps (state_in {FAILED, VERIFIED}) ?rest"
    unfolding close_monitor_def by (intro keeps_intros)
  have step: "fail_session env e code cls s =
      bindS (whenS (se_state (xs_session s) \<noteq> FAILED \<and> se_state (xs_session s) \<noteq> VERIFIED)
        (transition env FAILED (exn_text e))) (\<lambda>_. ?rest) ?s"
    by (simp add: fail_session_def Let_def bindS_def the_session_def getS_def on_session_def modifyS_def)
  show ?thesis
  proof (cases "se_state (xs_session s) = FAILED \<or> se_state (xs_session s) = VERIFIED")
    case True
    then have run: "?rest ?s = (r, s')" and st: "state_in {FAILED, VERIFIED} ?s"
      using f by (auto simp: step whenS_def state_in_def)
    show ?thesis by (rule keepsD [OF tail st run])
  next
    case False
    obtain r1 s1 where t: "transition env FAILED (exn_text e) ?s = (r1, s1)" by fastforce
    then have st: "state_in {FAILED, VERIFIED} s1"
      using transition_failed by (force simp: state_in_def)
    show ?thesis
    proof (cases r1)
      case (Inl x)
      with f t False st show ?thesis by (simp add: step whenS_def bindS_def)
    next
      case (Inr x)
      with f t False have run: "?rest s1 = (r, s')" by (simp add: step whenS_def bindS_def [of "transition _ _ _"])
      show ?thesis by (rule keepsD [OF tail st run])
    qed
  qed
qed

lemma bindS_raises: "bindS m k s = (Inl e, s') \<longleftrightarrow>
   m s = (Inl e, s') \<or> (\<exists>x s1. m s = (Inr x, s1) \<and> k x s1 = (Inl e, s'))"
  by (auto simp: bindS_def split: prod.splits sum.splits)

lemma catchS_raises: "catchS m h s = (Inl e, s') \<longleftrightarrow> (\<exists>e' s1. m s = (Inl e', s1) \<and> h e' s1 = (Inl e, s'))"
  by (auto simp: catchS_def split: prod.splits sum.splits)

lemma quiet_session: "quiet m \<Longrightarrow> m s = (r, s') \<Longrightarrow> xs_session s' = xs_session s"
  unfolding quiet_def core_def by (metis prod.inject snd_conv)

lemma state_quiet: "quiet m \<Longrightarrow> keeps (state_in A) m"
  unfolding keeps_def state_in_def quiet_def core_def by (metis prod.inject)

lemma state_checks [keeps_intros]: "keeps (state_in A) (validate_planS env p)" "keeps (state_in A) (verify_artifacts env p)"
  "keeps (state_in A) (exec_file_sha env q)"
  by (intro state_quiet quiet_rules)+

lemma unverified_media [keeps_intros]:
  "keeps (state_in (- {VERIFIED})) (verify_media env m t n b)" "keeps (state_in (- {VERIFIED})) (refresh_same env m)"
  unfolding verify_media_def refresh_same_def Let_def by (auto intro!: keeps_intros split: option.splits)

lemma unverified_steps: "keeps (state_in (- {VERIFIED})) (bindS (media_steps env p t sel) (\<lambda>_. the_session))"
  unfolding media_steps_def select_step_def copy_step_def readback_step_def eject_step_def Let_def
  by (auto intro!: keeps_intros state_on split: prod.splits)

lemma unverified_fail: "keeps (state_in (- {VERIFIED})) (fail_session env e code cls)"
  unfolding fail_session_def close_monitor_def Let_def by (auto intro!: keeps_intros state_on)

lemma prepare_settles:
  assumes "prepare_media env p sel s = (Inl e, s')"
  shows "xs_session s' = xs_session s \<or> se_state (xs_session s') \<in> {PREPARED, FAILED}"
proof -
  have handled: "state_in {FAILED} s2" if st: "state_in (- {VERIFIED}) s1" and
    h: "(case e' of Exec cls code m \<Rightarrow> fail_session env e' code cls
       | _ \<Rightarrow> fail_session env e' ''MEDIA_PREPARATION_FAILED'' Execution_error) s1 = (r, s2)" for e' s1 s2 r
  proof -
    obtain code cls where f: "fail_session env e' code cls s1 = (r, s2)"
      using h by (auto split: exec_exn.splits)
    from fail_settles [OF this] keepsD [OF unverified_fail st f] show ?thesis by (auto simp: state_in_def)
  qed
  have raised: "state_in {FAILED} s2" if st: "state_in {PREPARED} s1" and
    h: "catchS (bindS (media_steps env p t sel) (\<lambda>_. the_session)) (\<lambda>e'. case e' of
       Exec cls code m \<Rightarrow> fail_session env e' code cls
     | _ \<Rightarrow> fail_session env e' ''MEDIA_PREPARATION_FAILED'' Execution_error) s1 = (Inl x, s2)" for t s1 s2 x
  proof -
    from st have "state_in (- {VERIFIED}) s1" by (simp add: state_in_def)
    with h handled keepsD [OF unverified_steps this] show ?thesis unfolding catchS_raises by blast
  qed
  have fresh: "on_session (\<lambda>_. fresh_session p a b) s1 = (r, s2) \<Longrightarrow> state_in {PREPARED} s2 \<and> r = Inr ()" for a b s1 r s2
    by (auto simp: on_session_def modifyS_def state_in_def fresh_session_def)
  have emitted: "emit env d s1 = (r, s2) \<Longrightarrow> state_in {PREPARED} s1 \<Longrightarrow> state_in {PREPARED} s2" for d s1 r s2
    using keepsD [OF state_emit] by blast
  have q: "quiet (validate_planS env p)" "quiet (verify_artifacts env p)" "quiet (envS (en_clock env))"
    by (intro quiet_rules)+
  from assms show ?thesis
    unfolding prepare_media_def
    by (auto simp: bindS_raises split: prod.splits dest!: quiet_session [OF q(1)] quiet_session [OF q(2)] quiet_session [OF q(3)])
       (force simp: state_in_def dest: fresh emitted raised)+
qed

lemma on_session_bind: "bindS (on_session f) k s = k () (s\<lparr>xs_session := f (xs_session s)\<rparr>)"
  by (simp add: bindS_def on_session_def modifyS_def)

lemma quiet_gate: "quiet (at_gate c d)"
  unfolding at_gate_def the_session_def by (intro quiet_rules)

lemma confirm_settles:
  assumes "confirm_manual_power_cycle env b d s = (Inl e, s')"
  shows "se_state (xs_session s') \<in> {se_state (xs_session s), FAILED, VERIFIED}"
proof -
  let ?A = "{se_state (xs_session s)}"
  have gate: "state_in ?A s1" if "at_gate c x s = (r, s1)" for c x r s1
    using quiet_session [OF quiet_gate that] by (simp add: state_in_def)
  have clock: "state_in ?A s2" if "envS (en_clock env) s1 = (r, s2)" "state_in ?A s1" for s1 r s2
    using quiet_session [OF quiet_basic(1) that(1)] that(2) by (simp add: state_in_def)
  have close: "close_when_final env s1 = (r, s2) \<Longrightarrow> r = Inr () \<and> state_in {se_state (xs_session s1)} s2" for s1 r s2
    by (auto simp: close_when_final_def bindS_def the_session_def getS_def whenS_def returnS_def close_monitor_def
        catchS_def envS_def state_in_def split: if_splits prod.splits sum.splits)
  have post: "state_in {FAILED, VERIFIED} s2" if "post_flash_failure env x s1 = (r, s2)" for x s1 s2 r
    using that by (auto simp: post_flash_failure_def split: exec_exn.splits dest: fail_settles)
  have raised: "state_in {FAILED, VERIFIED} s2"
    if h: "finallyS (catchS m (post_flash_failure env)) (close_when_final env) s1 = (Inl x, s2)"
    for m :: "('a, deployment_proof) exec" and s1 s2 x
  proof -
    obtain r s3 where c: "catchS m (post_flash_failure env) s1 = (r, s3)" by fastforce
    obtain r' s4 where f: "close_when_final env s3 = (r', s4)" by fastforce
    from close [OF f] h c f have "r = Inl x" "s4 = s2" by (simp_all add: finallyS_def)
    with c have "state_in {FAILED, VERIFIED} s3" using post by (auto simp: catchS_raises)
    with close [OF f] \<open>s4 = s2\<close> show ?thesis by (auto simp: state_in_def)
  qed
  let ?fin = "finallyS (catchS (bindS (reenumerate_step env) (\<lambda>_.
       bindS (if d then on_session (se_klipper_result_update (\<lambda>_.
           ''pending configuration activation and firmware verification'')) else verify_step env) (\<lambda>_.
       bindS the_session (\<lambda>s. returnS (session_proof s))))) (post_flash_failure env)) (close_when_final env)"
  have rest: "state_in (?A \<union> {FAILED, VERIFIED}) s'"
    if g: "state_in ?A s1" and r: "(if \<not> b then bindS the_session (\<lambda>s. returnS (session_proof s)) else
       bindS (on_session (se_manual_confirmation_update (\<lambda>_. True))) (\<lambda>_.
       bindS (envS (en_clock env)) (\<lambda>t.
       bindS (on_session (se_manual_confirmation_at_update (\<lambda>_. t))) (\<lambda>_. ?fin)))) s1 = (Inl e, s')" for s1
  proof (cases b)
    case False
    with r show ?thesis by (simp add: bindS_def the_session_def getS_def returnS_def)
  next
    case True
    let ?s2 = "s1\<lparr>xs_session := (xs_session s1)\<lparr>se_manual_confirmation := True\<rparr>\<rparr>"
    from True r have r2: "bindS (envS (en_clock env)) (\<lambda>t.
         bindS (on_session (se_manual_confirmation_at_update (\<lambda>_. t))) (\<lambda>_. ?fin)) ?s2 = (Inl e, s')"
      by (simp add: on_session_bind)
    have s2: "state_in ?A ?s2" using g by (simp add: state_in_def)
    from r2 consider "envS (en_clock env) ?s2 = (Inl e, s')" | s4 where "?fin s4 = (Inl e, s')"
      by (auto simp: bindS_raises [of "envS _"] on_session_bind)
    then show ?thesis
    proof cases
      case 1
      then show ?thesis using clock [OF _ s2] by (auto simp: state_in_def)
    next
      case 2
      then show ?thesis using raised by (fastforce simp: state_in_def)
    qed
  qed
  obtain r1 s1 where g: "at_gate ''MANUAL_GATE_NOT_ACTIVE''
      ''deployment is not waiting for manual power-cycle confirmation'' s = (r1, s1)" by fastforce
  show ?thesis
  proof (cases r1)
    case (Inl x)
    with assms g have "s1 = s'" by (simp add: confirm_manual_power_cycle_def bindS_def [of "at_gate _ _"])
    with gate [OF g] show ?thesis by (simp add: state_in_def)
  next
    case (Inr x)
    from assms have "state_in (?A \<union> {FAILED, VERIFIED}) s'"
      unfolding confirm_manual_power_cycle_def bindS_def [of "at_gate _ _"] g Inr prod.case sum.case
      by (rule rest [OF gate [OF g]])
    then show ?thesis by (auto simp: state_in_def)
  qed
qed

subsection \<open>Properties\<close>

lemma calm_deployment:
  assumes "cooperative env p co"
  obtains x s1 pf s2 where "prepare_media env p [] s = (Inr x, s1)"
    and "confirm_manual_power_cycle env True False s1 = (Inr pf, s2)"
    and "stands p VERIFIED (xs_session s2)"
proof -
  from calm_prepare [OF assms] obtain x s1 where p: "prepare_media env p [] s = (Inr x, s1)"
    and st: "stands p WAITING_FOR_MANUAL_POWER_CYCLE (xs_session s1)"
    unfolding succeeds_def by blast
  with calm_confirm [OF assms] that show ?thesis unfolding succeeds_def by blast
qed

lemma ex_deploys:
  obtains p x s1 pf s2 where "prepare_media ex_sd p [] ex_start = (Inr x, s1)"
    and "confirm_manual_power_cycle ex_sd True False s1 = (Inr pf, s2)" and "stands p VERIFIED (xs_session s2)"
    and "reachable ex_sd s1" and "reachable ex_sd s2"
proof -
  obtain p co where "cooperative ex_sd p co" using ex_cooperates by blast
  then obtain x s1 pf s2 where run: "prepare_media ex_sd p [] ex_start = (Inr x, s1)"
    "confirm_manual_power_cycle ex_sd True False s1 = (Inr pf, s2)" "stands p VERIFIED (xs_session s2)"
    by (rule calm_deployment)
  have "reachable ex_sd s1" by (rule reachable_prepare [OF reachable.start [OF ex_executor_start] run(1)])
  with run that reachable_confirm [OF this run(2)] show ?thesis by blast
qed

text \<open>
  C4. Whatever the collaborators did, a deployment that reached VERIFIED was confirmed by the user at the
  manual gate, went to a removable, writable FAT medium that is not the system disk, was read back with
  the digest and the size of the planned artifact, was ejected safely, and the firmware that answered
  carries the fingerprint of the planned build.
\<close>

theorem verified_deployment_sound:
  assumes "env_ok env" and "reachable env s" and "se_state (xs_session s) = VERIFIED"
  shows "se_manual_confirmation (xs_session s)
     \<and> (\<exists>m. se_selected_media (xs_session s) = Some m \<and> \<not> mc_system_disk m \<and> mc_removable m
          \<and> \<not> mc_read_only m \<and> py_lower (mc_filesystem m) = ''vfat'')
     \<and> se_readback_hash (xs_session s) = at_final_sha256 (dp_transformation (se_plan (xs_session s)))
     \<and> se_readback_size (xs_session s) = ba_size_bytes (dp_artifact (se_plan (xs_session s)))
     \<and> (\<exists>r. se_safe_eject (xs_session s) = Some r \<and> er_status r = Eject_EJECTED)
     \<and> se_observed_mcu (xs_session s) \<noteq> None
     \<and> firmware_version_matches (se_observed_fingerprint (xs_session s))
          (expected_fingerprint (se_plan (xs_session s)))"
  using reachable_good [OF assms(2,1)] assms(3)
  by (auto simp: good_def core_def session_ok_def media_safe_def readback_matches_def safely_ejected_def
      less_eq_deployment_state_def state_stage_def split: option.splits)

theorem verified_deployment_sound_witness:
  "\<exists>s. reachable ex_sd s \<and> se_state (xs_session s) = VERIFIED \<and> se_manual_confirmation (xs_session s)"
proof (rule ex_deploys)
  fix p x s1 pf s2 assume st: "stands p VERIFIED (xs_session s2)" and r: "reachable ex_sd s2"
  then have "se_state (xs_session s2) = VERIFIED" by (simp add: stands_def)
  with verified_deployment_sound [OF ex_env_ok r] r show ?thesis by blast
qed

text \<open>An effect once recorded stays recorded.\<close>

definition recorded :: "effect \<times> session \<Rightarrow> 'w exec_state \<Rightarrow> bool" where
  "recorded e s = (e \<in> set (xs_effects s))"

lemma recorded_basic [keeps_intros]: "keeps (recorded e) (envS m)" "keeps (recorded e) the_session"
  "keeps (recorded e) (raiseE cls code d)" "keeps (recorded e) (checkE b cls code d)"
  "keeps (recorded e) (media_err b code d)" "keeps (recorded e) (note_effect ef)" "keeps (recorded e) (on_session f)"
  "keeps (recorded e) (modifyS (\<lambda>s. s\<lparr>xs_sequences := q s\<rparr>))"
  by (simp_all add: keeps_def envS_def the_session_def getS_def modifyS_def recorded_def raiseE_def on_session_def
      raiseS_def checkE_def media_err_def requireS_def returnS_def note_effect_def split: prod.splits)

lemma recorded_transition [keeps_intros]: "keeps (recorded e) (transition env st d)" "keeps (recorded e) (emit env d)"
  unfolding transition_def emit_def Let_def by (intro keeps_intros)+

lemma quiet_recorded: "quiet m \<Longrightarrow> keeps (recorded e) m"
  unfolding keeps_def recorded_def quiet_def core_def by (metis prod.inject)

lemma recorded_checks [keeps_intros]: "keeps (recorded e) (exec_file_sha env q)" "keeps (recorded e) (verify_media env m t n b)"
  "keeps (recorded e) (refresh_same env m)"
  unfolding verify_media_def refresh_same_def Let_def
  by (auto intro!: keeps_intros quiet_recorded [OF quiet_sha] split: option.splits)

definition has_copy :: "core \<Rightarrow> bool" where
  "has_copy c = (\<exists>m q x. (Copied_to m q, x) \<in> set (snd c))"

lemma has_copy_kept: "(\<And>e. keeps (recorded e) m) \<Longrightarrow> drives (\<lambda>_. True) has_copy m (\<lambda>_. has_copy)"
  unfolding keeps_def recorded_def drives_def has_copy_def core_def by fastforce

lemma recorded_later [keeps_intros]: "keeps (recorded e) (readback_step env p q)" "keeps (recorded e) (eject_step env m)"
  unfolding readback_step_def eject_step_def by (intro keeps_intros)+

lemma copies_once_prepared:
  "drives (\<lambda>_. True) (\<lambda>_. True) (prepare_media env p sel) (\<lambda>_. has_copy)"
proof (rule prepare_drives)
  have noted: "drives (\<lambda>_. True) (\<lambda>_. True) (note_effect (Copied_to m d)) (\<lambda>_. has_copy)" for m d
    by (rule drives_note) (auto simp: has_copy_def)
  have copy: "drives (\<lambda>_. True) (\<lambda>_. True) (copy_step env p t m) (\<lambda>_. has_copy)" for t m
    unfolding copy_step_def Let_def
    by (rule drives_bind, rule drives_any, rule drives_bind, rule drives_any, clarsimp split: prod.splits,
        rule drives_bind, rule drives_any, rule drives_bind, rule drives_any, rule drives_bind, rule drives_any,
        rule drives_bind, rule drives_any, rule drives_bind, rule drives_any,
        rule drives_bind, rule noted, rule has_copy_kept, intro keeps_intros)
  show "drives (\<lambda>_. True) (\<lambda>_. True) (bindS (media_steps env p t sel) (\<lambda>_. the_session)) (\<lambda>_. has_copy)" for t
    unfolding media_steps_def bindS_assoc
    by (rule drives_bind, rule drives_any, rule drives_bind, rule copy, clarsimp split: prod.splits, rule has_copy_kept,
        intro keeps_intros)
qed (rule drives_any)+

text \<open>
  C5. Nothing is written or ejected out of order: every copy the executor asked for happened in
  MEDIA_VERIFIED, onto the selected medium, which was removable, writable, FAT and not the system disk,
  under the final name of the plan at its mount root; every ejection in COPY_VERIFIED, after the readback
  matched; and every event told the state of that moment.
\<close>

theorem effects_in_order:
  assumes "env_ok env" and "reachable env s" and "(ef, x) \<in> set (xs_effects s)"
  shows "case ef of
       Copied_to m destination \<Rightarrow> se_state x = MEDIA_VERIFIED \<and> se_selected_media x = Some m
         \<and> \<not> mc_system_disk m \<and> mc_removable m \<and> \<not> mc_read_only m \<and> py_lower (mc_filesystem m) = ''vfat''
         \<and> destination = path_join (mc_mount_path m) (at_final_filename (dp_transformation (se_plan x)))
     | Ejecting m \<Rightarrow> se_state x = COPY_VERIFIED
         \<and> se_readback_hash x = at_final_sha256 (dp_transformation (se_plan x))
         \<and> se_readback_size x = ba_size_bytes (dp_artifact (se_plan x))
     | Emitted ev \<Rightarrow> ev_state ev = se_state x \<and> ev_workflow_id ev = dp_deployment_id (se_plan x)"
proof -
  from reachable_good [OF assms(2,1)] assms(3) have "effect_ok (ef, x)"
    by (auto simp: good_def core_def list_all_iff)
  then show ?thesis
    by (simp add: effect_ok_def media_safe_def readback_matches_def split: effect.splits)
qed

theorem effects_in_order_witness:
  "\<exists>s x m q. (Copied_to m q, x) \<in> set (xs_effects s) \<and> reachable ex_sd s \<and> se_state x = MEDIA_VERIFIED \<and> mc_removable m"
proof (rule ex_deploys)
  fix p x s1 assume r: "reachable ex_sd s1" and "prepare_media ex_sd p [] ex_start = (Inr x, s1)"
  with drivesD [OF copies_once_prepared] have "has_copy (core s1)" by blast
  then obtain m q y where "(Copied_to m q, y) \<in> set (xs_effects s1)" by (auto simp: has_copy_def core_def)
  from effects_in_order [OF ex_env_ok r this] this r show ?thesis by auto
qed

text \<open>
  A confirmation that returns, returns the proof of the session as it is, and its final state is the
  gate when the user did not confirm, the re-enumerated MCU when verification was deferred, and
  VERIFIED otherwise: no other state is ever reported as success.
\<close>

theorem confirmation_final_state:
  assumes "env_ok env" and "reachable env s"
    and "confirm_manual_power_cycle env is_confirmed deferred s = (Inr pf, s')"
  shows "pf = session_proof (xs_session s')
     \<and> pf_final_state pf = (if \<not> is_confirmed then WAITING_FOR_MANUAL_POWER_CYCLE
          else if deferred then MCU_REENUMERATED else VERIFIED)"
proof -
  from drivesD [OF drives_confirm reachable_good [OF assms(2,1)] _ assms(3)]
  have "pf = session_proof (xs_session s')" "se_state (xs_session s') = confirmed_state is_confirmed deferred"
    by (simp_all add: core_def)
  then show ?thesis by (simp add: session_proof_def Let_def confirmed_state_def)
qed

theorem confirmation_final_state_witness: "\<exists>s pf s'. confirm_manual_power_cycle ex_sd True False s = (Inr pf, s')
   \<and> pf_final_state pf = VERIFIED"
proof (rule ex_deploys)
  fix p x s1 pf s2 assume r: "reachable ex_sd s1" and c: "confirm_manual_power_cycle ex_sd True False s1 = (Inr pf, s2)"
  from confirmation_final_state [OF ex_env_ok r c] c show ?thesis by auto
qed



text \<open>
  Failures settle: when preparing raises, the session is untouched, or still PREPARED before any
  medium was looked at, or FAILED; when a confirmation raises, the state is the one before it, FAILED, or
  VERIFIED if only the recording of the last step raised.  No session is left between two stages.
\<close>

theorem failures_settle:
  assumes "prepare_media env p sel s = (Inl e, s1)"
    and "confirm_manual_power_cycle env is_confirmed deferred t = (Inl e', t1)"
  shows "(xs_session s1 = xs_session s \<or> se_state (xs_session s1) \<in> {PREPARED, FAILED})
     \<and> se_state (xs_session t1) \<in> {se_state (xs_session t), FAILED, VERIFIED}"
  using prepare_settles [OF assms(1)] confirm_settles [OF assms(2)] by simp

theorem failures_settle_witness:
  "\<exists>p e s1 e' t1. prepare_media ex_sd p [] ex_start = (Inl e, s1)
     \<and> confirm_manual_power_cycle ex_sd True False ex_start = (Inl e', t1)
     \<and> se_state (xs_session t1) \<in> {FAILED, VERIFIED}"
proof -
  let ?p = "se_plan (xs_session ex_start)\<lparr>dp_board_id := ''none''\<rparr>"
  have "by_id ex_nfkc ex_catalog ''none'' = None" by code_simp
  then have p: "\<exists>e s1. prepare_media ex_sd ?p [] ex_start = (Inl e, s1)"
    by (simp add: prepare_media_def validate_planS_def validate_plan_def bindS_def getS_def liftS_def ex_sd_def)
  have c: "\<exists>e t1. confirm_manual_power_cycle ex_sd True False ex_start = (Inl e, t1)"
    by (simp add: confirm_manual_power_cycle_def at_gate_def bindS_def the_session_def getS_def checkE_def requireS_def
        raiseS_def ex_start_def)
  from p c failures_settle [where s = ex_start and t = ex_start and env = ex_sd and p = ?p] show ?thesis
    by (fastforce simp: ex_start_def)
qed

text \<open>
  The events of every workflow are numbered 1, 2, 3, ... without a gap, in the order they were sent,
  over all deployments of one executor and on every failing path.
\<close>

theorem event_sequence_consecutive:
  assumes "reachable env s"
  shows "\<exists>n. event_numbers wid (xs_effects s) = [1..<Suc n]"
  using reachable_numbered [OF assms] by (auto simp: numbered_def)

theorem event_sequence_consecutive_witness: "\<exists>n. event_numbers ''w'' (xs_effects ex_start) = [1..<Suc n]"
  by (rule event_sequence_consecutive [OF reachable.start [OF ex_executor_start]])

text \<open>
  C34. On collaborators that cooperate (one acceptable medium, intact files, an MCU that returns and
  firmware with the expected fingerprint) the deployment goes through from any earlier state: preparation
  returns, the confirmation returns, and the plan ends VERIFIED.
\<close>

theorem cooperative_deployment_verifies:
  assumes "cooperative env p co"
  shows "\<exists>x s1 pf s2. prepare_media env p [] s = (Inr x, s1)
     \<and> confirm_manual_power_cycle env True False s1 = (Inr pf, s2)
     \<and> se_state (xs_session s2) = VERIFIED \<and> se_plan (xs_session s2) = p"
  by (rule calm_deployment [OF assms, of s]) (auto simp: stands_def)

theorem cooperative_deployment_verifies_witness:
  "\<exists>p x s1 pf s2. prepare_media ex_sd p [] ex_start = (Inr x, s1)
     \<and> confirm_manual_power_cycle ex_sd True False s1 = (Inr pf, s2) \<and> se_state (xs_session s2) = VERIFIED"
proof -
  obtain p co where "cooperative ex_sd p co" using ex_cooperates by blast
  from cooperative_deployment_verifies [OF this, of ex_start] show ?thesis by blast
qed

end
