(* ===== verification/Mcu_Monitor.thy ===== *)
theory Mcu_Monitor
  imports Py_Numerals Py_State
begin

text \<open>
  \<open>core/mcu_monitor.py\<close>: the udev identity of a serial MCU, the assessment of a device that
  reappears, and the monitor that latches removal and re-addition.  The host (file system,
  \<open>udevadm\<close>, the event thread) is the record \<open>mcu_host\<close>; times are readings of the monotonic
  clock.  One udev event and one turn of the waiting loop are each one step.
\<close>

subsection \<open>Identities\<close>

record mcu_identity =
  mi_configured_path :: string
  mi_device_node :: string
  mi_devpath :: string
  mi_serial :: string
  mi_physical_path :: string
  mi_vendor_id :: string
  mi_model_id :: string
  mi_physical_port :: string
  mi_by_path :: "string list"

definition vid_pid :: "mcu_identity \<Rightarrow> string" where
  "vid_pid i = (if mi_vendor_id i = [] \<or> mi_model_id i = [] then []
     else py_lower (mi_vendor_id i) @ '':'' @ py_lower (mi_model_id i))"

definition has_topology :: "mcu_identity \<Rightarrow> bool" where
  "has_topology i = (mi_physical_port i \<noteq> [] \<or> mi_by_path i \<noteq> [] \<or> mi_physical_path i \<noteq> [] \<or> mi_devpath i \<noteq> [])"

text \<open>Both texts are present and equal.\<close>

definition same_text :: "string \<Rightarrow> string \<Rightarrow> bool" where
  "same_text a b = (a \<noteq> [] \<and> b \<noteq> [] \<and> a = b)"

definition share_alias :: "mcu_identity \<Rightarrow> mcu_identity \<Rightarrow> bool" where
  "share_alias i j = list_ex (\<lambda>p. p \<in> set (mi_by_path j)) (mi_by_path i)"

definition occupies_same_slot :: "mcu_identity \<Rightarrow> mcu_identity \<Rightarrow> bool" where
  "occupies_same_slot i j =
     (if mi_physical_port i \<noteq> [] \<and> mi_physical_port j \<noteq> [] then mi_physical_port i = mi_physical_port j
      else if mi_by_path i \<noteq> [] \<and> mi_by_path j \<noteq> [] then share_alias i j
      else if mi_physical_path i \<noteq> [] \<and> mi_physical_path j \<noteq> [] then mi_physical_path i = mi_physical_path j
      else if mi_devpath i \<noteq> [] \<and> mi_devpath j \<noteq> [] then mi_devpath i = mi_devpath j
      else mi_device_node i = mi_device_node j)"

definition identity_matches :: "mcu_identity \<Rightarrow> mcu_identity \<Rightarrow> bool" where
  "identity_matches i j =
     (if \<not> occupies_same_slot i j then False
      else if vid_pid i \<noteq> [] \<and> vid_pid j \<noteq> [] \<and> vid_pid i \<noteq> vid_pid j then False
      else if mi_serial i \<noteq> [] \<and> mi_serial j \<noteq> [] \<and> mi_serial i \<noteq> mi_serial j then False
      else True)"

subsection \<open>Assessment\<close>

datatype mcu_verdict = Verdict_MATCH | Verdict_AMBIGUOUS | Verdict_MISMATCH | Verdict_TRANSIENT | Verdict_UNRELATED

record mcu_assessment =
  as_verdict :: mcu_verdict
  as_baseline :: mcu_identity
  as_candidate :: mcu_identity
  as_reasons :: "string list"
  as_topology :: "string list"
  as_expected :: "string list"
  as_score :: int

definition verdict_name :: "mcu_verdict \<Rightarrow> string" where
  "verdict_name v = (case v of Verdict_MATCH \<Rightarrow> ''match'' | Verdict_AMBIGUOUS \<Rightarrow> ''ambiguous''
     | Verdict_MISMATCH \<Rightarrow> ''mismatch'' | Verdict_TRANSIENT \<Rightarrow> ''transient'' | Verdict_UNRELATED \<Rightarrow> ''unrelated'')"

definition describe :: "mcu_assessment \<Rightarrow> string" where
  "describe a = (let d = join_with ''; '' (as_reasons a) in if d = [] then verdict_name (as_verdict a) else d)"

text \<open>\<open>tuple(dict.fromkeys(...))\<close> keeps the first of equal texts.\<close>

definition normalized_vid_pids :: "string list \<Rightarrow> string list" where
  "normalized_vid_pids vs = rev (remdups (rev (map (\<lambda>v. py_lower (py_strip v)) (filter (\<lambda>v. v \<noteq> []) vs))))"

definition topology_of :: "mcu_identity \<Rightarrow> mcu_identity \<Rightarrow> string list" where
  "topology_of b c =
     (if same_text (mi_physical_port b) (mi_physical_port c) then [''physical_port''] else [])
     @ (if mi_by_path b \<noteq> [] \<and> mi_by_path c \<noteq> [] \<and> share_alias b c then [''by_path''] else [])
     @ (if same_text (mi_physical_path b) (mi_physical_path c) then [''udev_id_path''] else [])
     @ (if same_text (mi_devpath b) (mi_devpath c) then [''devpath''] else [])"

definition topology_score :: "string list \<Rightarrow> int" where
  "topology_score t =
     (if ''physical_port'' \<in> set t \<or> ''by_path'' \<in> set t then 60
      else if ''udev_id_path'' \<in> set t then 55 else if ''devpath'' \<in> set t then 50 else 0)"

definition serial_conflict :: "mcu_identity \<Rightarrow> mcu_identity \<Rightarrow> bool" where
  "serial_conflict b c = (mi_serial b \<noteq> [] \<and> mi_serial c \<noteq> [] \<and> mi_serial b \<noteq> mi_serial c)"

definition identity_score :: "mcu_identity \<Rightarrow> mcu_identity \<Rightarrow> string list \<Rightarrow> int" where
  "identity_score b c expected =
     (let s = topology_score (topology_of b c) + (if expected \<noteq> [] \<and> vid_pid c \<in> set expected then 30 else 0) in
      if same_text (mi_serial b) (mi_serial c) then s + 10
      else if serial_conflict b c then max 0 (s - 20) else s)"

text \<open>The decision: the verdict and the reasons given with it.\<close>

definition assess_verdict :: "mcu_identity \<Rightarrow> mcu_identity \<Rightarrow> string list \<Rightarrow> string list \<Rightarrow> mcu_verdict \<times> string list" where
  "assess_verdict b c expected bootloader =
     (let observed = vid_pid c; serial_match = same_text (mi_serial b) (mi_serial c) in
      if topology_of b c \<noteq> [] then
        (if observed \<noteq> [] \<and> observed \<in> set bootloader \<and> observed \<notin> set expected then
           (Verdict_TRANSIENT, [''declared bootloader VID:PID '' @ observed @ '' appeared on the expected physical port''])
         else if expected = [] then
           (Verdict_AMBIGUOUS, [''physical topology matches but no application VID:PID contract was supplied''])
         else if observed = [] then
           (Verdict_AMBIGUOUS, [''physical topology matches but candidate VID:PID is unavailable''])
         else if observed \<notin> set expected then
           (Verdict_MISMATCH, [''candidate VID:PID '' @ observed @ '' is not allowed; expected '' @ join_with '', '' expected])
         else if serial_conflict b c then
           (Verdict_AMBIGUOUS, [''physical topology and VID:PID match but the reported serial changed''])
         else if identity_score b c expected < 90 then
           (Verdict_AMBIGUOUS, [''identity evidence score '' @ show_int (identity_score b c expected)
              @ '' is below the automatic threshold 90''])
         else
           (Verdict_MATCH,
              [''candidate reappeared on the same physical USB topology'',
               ''candidate VID:PID '' @ observed @ '' matches the board profile'']
              @ (if serial_match then [''reported serial remained stable'']
                 else if mi_serial b = [] \<or> mi_serial c = [] then [''serial evidence is unavailable and was not used'']
                 else [])))
      else if expected \<noteq> [] \<and> observed \<in> set expected then
        (Verdict_AMBIGUOUS, ''candidate has an expected VID:PID but not the captured physical topology''
           # (if serial_match then [''reported serial matches but cannot override the port mismatch''] else []))
      else if serial_match then
        (Verdict_AMBIGUOUS, [''reported serial matches but physical topology and expected VID:PID do not prove identity''])
      else
        (Verdict_UNRELATED, [''candidate does not match the captured physical topology or expected board identity'']))"

definition assess_mcu_identity ::
    "mcu_identity \<Rightarrow> mcu_identity \<Rightarrow> string list \<Rightarrow> string list \<Rightarrow> mcu_assessment" where
  "assess_mcu_identity b c expected_vid_pids bootloader_vid_pids =
     (let expected = normalized_vid_pids expected_vid_pids;
          (v, reasons) = assess_verdict b c expected (normalized_vid_pids bootloader_vid_pids) in
      \<lparr>as_verdict = v, as_baseline = b, as_candidate = c, as_reasons = reasons,
       as_topology = topology_of b c, as_expected = expected, as_score = identity_score b c expected\<rparr>)"

subsection \<open>Reading an identity\<close>

datatype mcu_exn =
    Mcu_error string | Mcu_unavailable string | Mcu_mismatch string | Mcu_ambiguous string
  | Mcu_cancelled string | Mcu_timeout string | Mcu_value string | Mcu_os string

text \<open>\<open>McuMonitorError\<close> and its subclasses.\<close>

definition is_monitor_error :: "mcu_exn \<Rightarrow> bool" where
  "is_monitor_error e = (case e of Mcu_timeout _ \<Rightarrow> False | Mcu_value _ \<Rightarrow> False | Mcu_os _ \<Rightarrow> False | _ \<Rightarrow> True)"

type_synonym properties = "(string, string) dict"

definition prop_get :: "properties \<Rightarrow> string \<Rightarrow> string \<Rightarrow> string" where
  "prop_get d k v = (case dict_get d k of Some x \<Rightarrow> x | None \<Rightarrow> v)"

definition interface_numbers :: "string \<Rightarrow> bool" where
  "interface_numbers s = (case split_char CHR ''.'' s of
     [a, b] \<Rightarrow> a \<noteq> [] \<and> b \<noteq> [] \<and> list_all is_digit a \<and> list_all is_digit b | _ \<Rightarrow> False)"

text \<open>\<open>\d+\.\d+(?:-port\d+)?\<close> as a full match.\<close>

definition interface_suffix :: "string \<Rightarrow> bool" where
  "interface_suffix s = (interface_numbers s \<or>
     (let t = rev (takeWhile is_digit (rev s)); u = take (length s - length t) s in
      t \<noteq> [] \<and> ends_with ''-port'' u \<and> interface_numbers (take (length u - 5) u)))"

text \<open>
  \<open>re.sub(r":\d+\.\d+(?:-port\d+)?$", "", s)\<close> and \<open>re.sub(r"/[^/]+:\d+\.\d+(?:/.*)?$", "", s)\<close> on
  property values, which come from split lines and hold no line end.
\<close>

fun strip_interface :: "string \<Rightarrow> string" where
  "strip_interface [] = []"
| "strip_interface (c # s) = (if c = CHR '':'' \<and> interface_suffix s then [] else c # strip_interface s)"

fun names_interface :: "bool \<Rightarrow> string \<Rightarrow> bool" where
  "names_interface started [] = False"
| "names_interface started (c # s) = ((started \<and> c = CHR '':'' \<and> interface_numbers s) \<or> names_interface True s)"

fun strip_device :: "string \<Rightarrow> string" where
  "strip_device [] = []"
| "strip_device (c # s) =
     (if c = CHR ''/'' \<and> names_interface False (takeWhile (\<lambda>x. x \<noteq> CHR ''/'') s) then [] else c # strip_device s)"

definition physical_port_of :: "string \<Rightarrow> string \<Rightarrow> string" where
  "physical_port_of physical_path devpath =
     (if physical_path \<noteq> [] then strip_interface physical_path
      else if devpath \<noteq> [] then strip_device devpath else [])"

definition identity_from_properties :: "properties \<Rightarrow> string \<Rightarrow> string \<Rightarrow> string list \<Rightarrow> mcu_identity" where
  "identity_from_properties d configured_path device_node by_path =
     (let node = (if prop_get d ''DEVNAME'' [] \<noteq> [] then prop_get d ''DEVNAME'' [] else device_node);
          physical_path = prop_get d ''ID_PATH'' []; devpath = prop_get d ''DEVPATH'' [] in
      \<lparr>mi_configured_path = (if configured_path \<noteq> [] then configured_path else node), mi_device_node = node,
       mi_devpath = devpath, mi_serial = prop_get d ''ID_SERIAL_SHORT'' [], mi_physical_path = physical_path,
       mi_vendor_id = prop_get d ''ID_VENDOR_ID'' [], mi_model_id = prop_get d ''ID_MODEL_ID'' [],
       mi_physical_port = physical_port_of physical_path devpath, mi_by_path = by_path\<rparr>)"

text \<open>\<open>line.partition("=")\<close>: the key, whether the separator was there, the value.\<close>

definition partition_eq :: "string \<Rightarrow> string \<times> bool \<times> string" where
  "partition_eq l = (let k = takeWhile (\<lambda>c. c \<noteq> CHR ''='') l; r = drop (length k) l in (k, r \<noteq> [], drop 1 r))"

definition property_keys :: "string list" where
  "property_keys = [''DEVNAME'', ''DEVPATH'', ''ID_SERIAL_SHORT'', ''ID_PATH'', ''ID_VENDOR_ID'', ''ID_MODEL_ID'']"

definition parse_properties :: "string \<Rightarrow> string \<Rightarrow> properties" where
  "parse_properties device_node out =
     (let d = fold (\<lambda>l d. case partition_eq l of (k, sep, v) \<Rightarrow>
            if sep \<and> k \<in> set property_keys then dict_set d k v else d) (py_splitlines out) [] in
      if dict_get d ''DEVNAME'' = None then dict_set d ''DEVNAME'' device_node else d)"

record 'w mcu_host =
  mh_expanduser :: "string \<Rightarrow> string"
  mh_exists :: "string \<Rightarrow> ('w, mcu_exn, bool) action"
  mh_realpath :: "string \<Rightarrow> ('w, mcu_exn, string) action"
  mh_has_udevadm :: "('w, mcu_exn, bool) action"
  mh_udevadm :: "string \<Rightarrow> ('w, mcu_exn, int \<times> string \<times> string) action"
  mh_by_path :: "('w, mcu_exn, string list) action"
  mh_start :: "('w, mcu_exn, unit) action"
  mh_stop :: "('w, mcu_exn, unit) action"

definition udevadm_properties :: "'w mcu_host \<Rightarrow> string \<Rightarrow> ('w, mcu_exn, properties) action" where
  "udevadm_properties h device_node =
     bindS (mh_has_udevadm h) (\<lambda>found.
     bindS (requireS found (Mcu_unavailable ''udevadm is required for safe MCU identity monitoring'')) (\<lambda>_.
     bindS (catchS (mh_udevadm h device_node) (\<lambda>e. case e of
        Mcu_os m \<Rightarrow> raiseS (Mcu_unavailable (''could not query MCU identity: '' @ m)) | _ \<Rightarrow> raiseS e)) (\<lambda>(rc, out, err).
     bindS (requireS (rc = 0) (Mcu_unavailable (''udevadm could not identify '' @ device_node @ '': '' @ py_strip err))) (\<lambda>_.
     returnS (parse_properties device_node out)))))"

text \<open>An alias whose link cannot be resolved is skipped.\<close>

fun resolving_aliases :: "'w mcu_host \<Rightarrow> string \<Rightarrow> string list \<Rightarrow> ('w, mcu_exn, string list) action" where
  "resolving_aliases h device_node [] = returnS []"
| "resolving_aliases h device_node (a # as) =
     bindS (catchS (bindS (mh_realpath h a) (\<lambda>p. returnS (p = device_node)))
        (\<lambda>e. case e of Mcu_os _ \<Rightarrow> returnS False | _ \<Rightarrow> raiseS e)) (\<lambda>same.
     bindS (resolving_aliases h device_node as) (\<lambda>rest. returnS (if same then a # rest else rest)))"

definition by_path_aliases :: "'w mcu_host \<Rightarrow> string \<Rightarrow> string \<Rightarrow> ('w, mcu_exn, string list) action" where
  "by_path_aliases h device_node configured_path =
     bindS (mh_by_path h) (\<lambda>found.
     bindS (resolving_aliases h device_node found) (\<lambda>aliases.
     returnS (sort (remdups
       ((if starts_with ''/dev/serial/by-path/'' configured_path then [configured_path] else []) @ aliases)))))"

definition read_identity :: "'w mcu_host \<Rightarrow> string \<Rightarrow> ('w, mcu_exn, mcu_identity option) action" where
  "read_identity h configured_path =
     (let path = mh_expanduser h configured_path in
      if path = [] then returnS None
      else bindS (mh_exists h path) (\<lambda>there.
        if \<not> there then returnS None
        else bindS (mh_realpath h path) (\<lambda>device_node.
          bindS (udevadm_properties h device_node) (\<lambda>d.
          bindS (by_path_aliases h device_node path) (\<lambda>aliases.
          returnS (Some (identity_from_properties d path device_node aliases)))))))"

subsection \<open>The udev event stream\<close>

text \<open>
  \<open>_read_events\<close> over the lines of \<open>udevadm monitor\<close>: the property sets handed to the callback, and
  whether the readiness event was set.
\<close>

record stream_state =
  ts_properties :: properties
  ts_ready :: bool
  ts_events :: "properties list"

definition flush_event :: "stream_state \<Rightarrow> stream_state" where
  "flush_event s = (if prop_get (ts_properties s) ''ACTION'' [] \<noteq> []
     then s\<lparr>ts_events := ts_events s @ [ts_properties s]\<rparr> else s)"

definition stream_line :: "stream_state \<Rightarrow> string \<Rightarrow> stream_state" where
  "stream_line s raw =
     (let line = py_strip raw in
      if line \<noteq> [] \<and> contains ''monitor will print'' (py_lower line) then s\<lparr>ts_ready := True\<rparr>
      else if line = [] then (flush_event s)\<lparr>ts_properties := []\<rparr>
      else (case partition_eq line of (k, sep, v) \<Rightarrow>
        if sep then s\<lparr>ts_ready := True, ts_properties := dict_set (ts_properties s) k v\<rparr> else s))"

definition read_events :: "string list \<Rightarrow> stream_state" where
  "read_events lines = flush_event (foldl stream_line \<lparr>ts_properties = [], ts_ready = False, ts_events = []\<rparr> lines)"

subsection \<open>The monitor\<close>

record monitor =
  mo_configured_path :: string
  mo_expected :: "string list"
  mo_bootloader :: "string list"
  mo_baseline :: "mcu_identity option"
  mo_reconnected :: "mcu_identity option"
  mo_last_assessment :: "mcu_assessment option"
  mo_manual_confirmation :: bool
  mo_absent :: bool
  mo_present :: bool
  mo_ambiguous :: bool
  mo_mismatch :: bool
  mo_mismatched :: "mcu_identity option"
  mo_ambiguous_identity :: "mcu_identity option"
  mo_ambiguous_assessment :: "mcu_assessment option"
  mo_armed :: bool

definition new_monitor :: "string \<Rightarrow> string list \<Rightarrow> string list \<Rightarrow> monitor" where
  "new_monitor configured_path expected bootloader =
     \<lparr>mo_configured_path = configured_path, mo_expected = normalized_vid_pids expected,
      mo_bootloader = normalized_vid_pids bootloader, mo_baseline = None, mo_reconnected = None,
      mo_last_assessment = None, mo_manual_confirmation = False, mo_absent = False, mo_present = False,
      mo_ambiguous = False, mo_mismatch = False, mo_mismatched = None, mo_ambiguous_identity = None,
      mo_ambiguous_assessment = None, mo_armed = False\<rparr>"

record 'w monitor_run =
  mr_world :: 'w
  mr_monitor :: monitor

type_synonym ('w, 'a) watch = "('w monitor_run, mcu_exn, 'a) action"

definition hostM :: "('w, mcu_exn, 'a) action \<Rightarrow> ('w, 'a) watch" where
  "hostM m s = (case m (mr_world s) of (r, w) \<Rightarrow> (r, s\<lparr>mr_world := w\<rparr>))"

definition on_monitor :: "(monitor \<Rightarrow> monitor) \<Rightarrow> ('w, unit) watch" where
  "on_monitor f = modifyS (\<lambda>s. s\<lparr>mr_monitor := f (mr_monitor s)\<rparr>)"

definition the_monitor :: "('w, monitor) watch" where
  "the_monitor = getS mr_monitor"

definition caught :: "mcu_exn \<Rightarrow> bool" where
  "caught e = (is_monitor_error e \<or> (case e of Mcu_os _ \<Rightarrow> True | _ \<Rightarrow> False))"

definition mcu_text :: "mcu_exn \<Rightarrow> string" where
  "mcu_text e = (case e of Mcu_error m \<Rightarrow> m | Mcu_unavailable m \<Rightarrow> m | Mcu_mismatch m \<Rightarrow> m | Mcu_ambiguous m \<Rightarrow> m
     | Mcu_cancelled m \<Rightarrow> m | Mcu_timeout m \<Rightarrow> m | Mcu_value m \<Rightarrow> m | Mcu_os m \<Rightarrow> m)"

definition arm :: "'w mcu_host \<Rightarrow> ('w, mcu_identity) watch" where
  "arm h =
     bindS the_monitor (\<lambda>mo.
     bindS (hostM (read_identity h (mo_configured_path mo))) (\<lambda>r. case r of
       None \<Rightarrow> raiseS (Mcu_unavailable (''MCU is not present at the configured path: '' @ mo_configured_path mo))
     | Some baseline \<Rightarrow>
         bindS (requireS (has_topology baseline \<or> mi_serial baseline \<noteq> [])
           (Mcu_unavailable ''MCU identity is incomplete: udev did not provide physical topology, by-path, or serial evidence'')) (\<lambda>_.
         bindS (on_monitor (\<lambda>m. m\<lparr>mo_baseline := Some baseline, mo_armed := True\<rparr>)) (\<lambda>_.
         bindS (catchS (hostM (mh_start h)) (\<lambda>e.
           bindS (on_monitor (mo_armed_update (\<lambda>_. False))) (\<lambda>_. raiseS e))) (\<lambda>_.
         bindS (catchS (hostM (read_identity h (mo_configured_path mo))) (\<lambda>e.
           if caught e then
             bindS (hostM (mh_stop h)) (\<lambda>_.
             bindS (on_monitor (mo_armed_update (\<lambda>_. False))) (\<lambda>_.
             raiseS (Mcu_unavailable (''could not verify MCU presence after arming the monitor: '' @ mcu_text e))))
           else raiseS e)) (\<lambda>current.
         bindS (whenS (current = None) (on_monitor (mo_absent_update (\<lambda>_. True)))) (\<lambda>_.
         returnS baseline)))))))"

text \<open>The device the event names is read again when it exists; a failed read keeps the event's own identity.\<close>

definition event_candidate :: "'w mcu_host \<Rightarrow> properties \<Rightarrow> ('w, mcu_identity) watch" where
  "event_candidate h d =
     (let node = prop_get d ''DEVNAME'' []; own = identity_from_properties d [] [] [] in
      if node = [] then returnS own
      else bindS (hostM (mh_exists h node)) (\<lambda>there.
        if \<not> there then returnS own
        else bindS (catchS (hostM (read_identity h node)) (\<lambda>e. if caught e then returnS None else raiseS e)) (\<lambda>r.
          returnS (case r of Some i \<Rightarrow> i | None \<Rightarrow> own))))"

definition record_assessment :: "mcu_identity \<Rightarrow> mcu_assessment \<Rightarrow> monitor \<Rightarrow> monitor" where
  "record_assessment c a m = (case as_verdict a of
     Verdict_MATCH \<Rightarrow> m\<lparr>mo_reconnected := Some c, mo_last_assessment := Some a, mo_present := True\<rparr>
   | Verdict_AMBIGUOUS \<Rightarrow> m\<lparr>mo_ambiguous_identity := Some c, mo_ambiguous_assessment := Some a, mo_ambiguous := True\<rparr>
   | Verdict_MISMATCH \<Rightarrow> m\<lparr>mo_mismatched := Some c, mo_last_assessment := Some a, mo_mismatch := True\<rparr>
   | _ \<Rightarrow> m)"

definition on_event :: "'w mcu_host \<Rightarrow> properties \<Rightarrow> ('w, unit) watch" where
  "on_event h d =
     bindS the_monitor (\<lambda>mo. case mo_baseline mo of
       None \<Rightarrow> returnS ()
     | Some b \<Rightarrow>
       if \<not> mo_armed mo then returnS ()
       else
         (let kind = py_lower (prop_get d ''ACTION'' []); c = identity_from_properties d [] [] [] in
          if kind = ''remove'' \<and> (identity_matches b c \<or> occupies_same_slot b c)
          then on_monitor (mo_absent_update (\<lambda>_. True))
          else if kind \<noteq> ''add'' \<or> \<not> mo_absent mo then returnS ()
          else bindS (event_candidate h d) (\<lambda>candidate.
            on_monitor (record_assessment candidate
              (assess_mcu_identity b candidate (mo_expected mo) (mo_bootloader mo))))))"

subsection \<open>Waiting\<close>

text \<open>
  One turn of a waiting loop: the events the reader thread delivers during the 0.1 s wait, whether
  the user cancelled, and the clock after it.  A loop over a finite schedule of turns that has not
  ended is still waiting, \<open>None\<close>.  An event whose handling raises ends the reader thread, so that a
  schedule holds no events after it.
\<close>

record turn =
  tn_events :: "properties list"
  tn_cancelled :: bool
  tn_now :: int

definition deliver :: "'w mcu_host \<Rightarrow> turn \<Rightarrow> ('w, unit) watch" where
  "deliver h t = catchS (eachS (on_event h) (tn_events t)) (\<lambda>_. returnS ())"

text \<open>\<open>_wait\<close> on the absence event.\<close>

fun wait_event :: "'w mcu_host \<Rightarrow> (monitor \<Rightarrow> bool) \<Rightarrow> int \<Rightarrow> turn list \<Rightarrow> ('w, bool option) watch" where
  "wait_event h flag deadline [] = returnS None"
| "wait_event h flag deadline (t # ts) =
     bindS (deliver h t) (\<lambda>_.
     bindS the_monitor (\<lambda>mo.
     if flag mo then returnS (Some True)
     else bindS (requireS (\<not> tn_cancelled t) (Mcu_cancelled ''MCU wait cancelled by user'')) (\<lambda>_.
       if deadline \<le> tn_now t then returnS (Some False) else wait_event h flag deadline ts)))"

definition check_timeout :: "int \<Rightarrow> ('w, unit) watch" where
  "check_timeout timeout = requireS (0 < timeout) (Mcu_value ''MCU wait timeout must be a finite positive number'')"

definition check_armed :: "('w, unit) watch" where
  "check_armed = bindS the_monitor (\<lambda>mo. requireS (mo_armed mo) (Mcu_error ''MCU monitor was not armed''))"

definition wait_for_absent :: "'w mcu_host \<Rightarrow> int \<Rightarrow> int \<Rightarrow> turn list \<Rightarrow> ('w, unit option) watch" where
  "wait_for_absent h now timeout ts =
     bindS check_armed (\<lambda>_.
     bindS (check_timeout timeout) (\<lambda>_.
     bindS (wait_event h mo_absent (now + timeout) ts) (\<lambda>r. case r of
       None \<Rightarrow> returnS None
     | Some gone \<Rightarrow> bindS (requireS gone (Mcu_timeout ''MCU did not disappear before the configured deadline'')) (\<lambda>_.
         returnS (Some ())))))"

text \<open>
  The checks at the head of a turn of \<open>wait_for_present\<close>: what it returns if the loop ends here.  The
  user's answer to an ambiguous identity is the parameter \<open>resolver\<close>.
\<close>

definition present_check :: "(mcu_assessment \<Rightarrow> bool) option \<Rightarrow> ('w, mcu_identity option option) watch" where
  "present_check resolver =
     bindS the_monitor (\<lambda>mo.
     bindS (requireS (\<not> mo_mismatch mo) (Mcu_mismatch (''a different MCU appeared at ''
        @ (case mo_mismatched mo of Some c \<Rightarrow> mi_device_node c | None \<Rightarrow> []) @ '': ''
        @ (case mo_last_assessment mo of Some a \<Rightarrow> describe a | None \<Rightarrow> ''identity mismatch'')))) (\<lambda>_.
     if mo_present mo then returnS (Some (mo_reconnected mo))
     else if mo_ambiguous mo then
       bindS (on_monitor (mo_ambiguous_update (\<lambda>_. False))) (\<lambda>_.
       case (mo_ambiguous_assessment mo, mo_ambiguous_identity mo) of
         (Some a, Some c) \<Rightarrow>
           (case resolver of
              None \<Rightarrow> raiseS (Mcu_ambiguous (describe a))
            | Some answer \<Rightarrow>
                bindS (requireS (answer a) (Mcu_cancelled ''ambiguous MCU identity was not confirmed'')) (\<lambda>_.
                bindS (on_monitor (\<lambda>m. m\<lparr>mo_reconnected := Some c, mo_last_assessment := Some a,
                   mo_manual_confirmation := True, mo_present := True\<rparr>)) (\<lambda>_.
                returnS (Some (Some c)))))
       | _ \<Rightarrow> raiseS (Mcu_ambiguous ''MCU identity evidence became unavailable''))
     else returnS None))"

fun present_loop :: "'w mcu_host \<Rightarrow> (mcu_assessment \<Rightarrow> bool) option \<Rightarrow> int \<Rightarrow> turn list
   \<Rightarrow> ('w, mcu_identity option option) watch" where
  "present_loop h resolver deadline [] = returnS None"
| "present_loop h resolver deadline (t # ts) =
     bindS (present_check resolver) (\<lambda>r. case r of
       Some i \<Rightarrow> returnS (Some i)
     | None \<Rightarrow>
         bindS (deliver h t) (\<lambda>_.
         bindS the_monitor (\<lambda>mo.
         if mo_present mo then returnS (Some (mo_reconnected mo))
         else bindS (requireS (\<not> tn_cancelled t) (Mcu_cancelled ''MCU wait cancelled by user'')) (\<lambda>_.
           if deadline \<le> tn_now t then raiseS (Mcu_timeout ''MCU did not reappear before the configured deadline'')
           else present_loop h resolver deadline ts))))"

definition wait_for_present ::
    "'w mcu_host \<Rightarrow> (mcu_assessment \<Rightarrow> bool) option \<Rightarrow> int \<Rightarrow> int \<Rightarrow> turn list
     \<Rightarrow> ('w, mcu_identity option option) watch" where
  "wait_for_present h resolver now timeout ts =
     bindS check_armed (\<lambda>_.
     bindS (check_timeout timeout) (\<lambda>_.
     present_loop h resolver (now + timeout) ts))"

subsection \<open>What a match means\<close>

lemma topology_strong: "60 \<le> topology_score (topology_of b c) \<longleftrightarrow>
   same_text (mi_physical_port b) (mi_physical_port c) \<or> (mi_by_path b \<noteq> [] \<and> mi_by_path c \<noteq> [] \<and> share_alias b c)"
  by (auto simp: topology_score_def topology_of_def)

lemma topology_score_cases: "topology_score t \<in> {0, 50, 55, 60}"
  by (simp add: topology_score_def)

text \<open>
  An automatic MATCH is never built from partial evidence: the device shows a VID:PID the board
  allows, its serial does not contradict the recorded one, and it sits on the same physical port or
  by-path alias, or else on the same udev or device path with an equal serial.
\<close>

theorem match_evidence:
  assumes "as_verdict (assess_mcu_identity b c expected bootloader) = Verdict_MATCH"
  shows "vid_pid c \<noteq> [] \<and> vid_pid c \<in> set (normalized_vid_pids expected)
     \<and> \<not> serial_conflict b c
     \<and> (same_text (mi_physical_port b) (mi_physical_port c) \<or> share_alias b c
        \<or> ((same_text (mi_physical_path b) (mi_physical_path c) \<or> same_text (mi_devpath b) (mi_devpath c))
           \<and> same_text (mi_serial b) (mi_serial c)))"
proof -
  let ?e = "normalized_vid_pids expected"
  have m: "fst (assess_verdict b c ?e (normalized_vid_pids bootloader)) = Verdict_MATCH"
    using assms by (simp add: assess_mcu_identity_def Let_def split: prod.splits)
  then have base: "vid_pid c \<noteq> []" "vid_pid c \<in> set ?e" "\<not> serial_conflict b c" "topology_of b c \<noteq> []"
    "90 \<le> identity_score b c ?e"
    by (auto simp: assess_verdict_def Let_def split: if_splits)
  have score: "identity_score b c ?e = topology_score (topology_of b c) + 30
     + (if same_text (mi_serial b) (mi_serial c) then 10 else 0)"
    using base by (auto simp: identity_score_def Let_def)
  have "same_text (mi_physical_port b) (mi_physical_port c) \<or> share_alias b c
        \<or> same_text (mi_physical_path b) (mi_physical_path c) \<or> same_text (mi_devpath b) (mi_devpath c)"
    using base(4) by (auto simp: topology_of_def split: if_splits)
  moreover have "60 \<le> topology_score (topology_of b c)" if "\<not> same_text (mi_serial b) (mi_serial c)"
    using that base(5) topology_score_cases [of "topology_of b c"] by (simp add: score)
  ultimately show ?thesis
    using base topology_strong [of b c] by blast
qed

subsection \<open>The monitor's invariant\<close>

definition accepted :: "(mcu_assessment \<Rightarrow> bool) option \<Rightarrow> mcu_assessment \<Rightarrow> bool" where
  "accepted resolver a = (as_verdict a = Verdict_MATCH
     \<or> (as_verdict a = Verdict_AMBIGUOUS \<and> (\<exists>answer. resolver = Some answer \<and> answer a)))"

definition monitor_ok :: "(mcu_assessment \<Rightarrow> bool) option \<Rightarrow> mcu_identity \<Rightarrow> string list \<Rightarrow> string list \<Rightarrow> monitor \<Rightarrow> bool" where
  "monitor_ok resolver b e bl m =
     (mo_baseline m = Some b \<and> mo_expected m = e \<and> mo_bootloader m = bl
      \<and> (mo_present m \<longrightarrow> mo_absent m
           \<and> (\<exists>i. mo_reconnected m = Some i \<and> accepted resolver (assess_mcu_identity b i e bl)))
      \<and> (mo_ambiguous m \<longrightarrow> mo_absent m)
      \<and> (\<forall>a. mo_ambiguous_assessment m = Some a \<longrightarrow> as_verdict a = Verdict_AMBIGUOUS
           \<and> (\<exists>c. mo_ambiguous_identity m = Some c \<and> a = assess_mcu_identity b c e bl)))"

lemma monitor_ok_record:
  assumes "monitor_ok r b e bl m" and "mo_absent m"
  shows "monitor_ok r b e bl (record_assessment c (assess_mcu_identity b c e bl) m)"
  using assms by (auto simp: record_assessment_def monitor_ok_def accepted_def split: mcu_verdict.splits)

lemma record_absent [simp]: "mo_absent (record_assessment c a m) = mo_absent m"
  by (simp add: record_assessment_def split: mcu_verdict.splits)

abbreviation run_ok :: "(mcu_assessment \<Rightarrow> bool) option \<Rightarrow> mcu_identity \<Rightarrow> string list \<Rightarrow> string list \<Rightarrow> 'w monitor_run \<Rightarrow> bool" where
  "run_ok r b e bl s \<equiv> monitor_ok r b e bl (mr_monitor s)"

lemma keeps_host [keeps_intros]: "keeps (\<lambda>s. P (mr_monitor s)) (hostM m)"
  by (simp add: keeps_def hostM_def split: prod.splits)

lemma keeps_on_monitor: "(\<And>m. P m \<Longrightarrow> P (f m)) \<Longrightarrow> keeps (\<lambda>s. P (mr_monitor s)) (on_monitor f)"
  by (simp add: keeps_def on_monitor_def modifyS_def)

lemma bind_monitor: "bindS the_monitor k s = k (mr_monitor s) s"
  by (simp add: bindS_def the_monitor_def getS_def)

lemma keeps_monitor: "(\<And>s. P (mr_monitor s) \<Longrightarrow> P (mr_monitor (snd (k (mr_monitor s) s)))) \<Longrightarrow>
   keeps (\<lambda>s. P (mr_monitor s)) (bindS the_monitor k)"
  by (simp add: keeps_def bindS_def the_monitor_def getS_def)

lemma keeps_candidate [keeps_intros]: "keeps (\<lambda>s. P (mr_monitor s)) (event_candidate h d)"
  unfolding event_candidate_def Let_def by (auto intro!: keeps_intros)

lemma event_ok [keeps_intros]: "keeps (run_ok r b e bl) (on_event h d)"
  unfolding on_event_def
proof (rule keeps_monitor)
  fix s :: "'a monitor_run" assume ok: "run_ok r b e bl s"
  let ?m = "mr_monitor s"
  have b: "mo_baseline ?m = Some b" "mo_expected ?m = e" "mo_bootloader ?m = bl" using ok by (simp_all add: monitor_ok_def)
  have later: "keeps (\<lambda>s. run_ok r b e bl s \<and> mo_absent (mr_monitor s)) (bindS (event_candidate h d) (\<lambda>candidate.
      on_monitor (record_assessment candidate (assess_mcu_identity b candidate e bl))))"
    by (intro keeps_intros keeps_on_monitor) (simp add: monitor_ok_record)
  have gone: "keeps (run_ok r b e bl) (on_monitor (mo_absent_update (\<lambda>_. True)) :: ('a, unit) watch)"
    by (rule keeps_on_monitor) (auto simp: monitor_ok_def)
  show "run_ok r b e bl (snd ((case mo_baseline ?m of
       None \<Rightarrow> returnS ()
     | Some b \<Rightarrow>
       if \<not> mo_armed ?m then returnS ()
       else
         (let kind = py_lower (prop_get d ''ACTION'' []); c = identity_from_properties d [] [] [] in
          if kind = ''remove'' \<and> (identity_matches b c \<or> occupies_same_slot b c)
          then on_monitor (mo_absent_update (\<lambda>_. True))
          else if kind \<noteq> ''add'' \<or> \<not> mo_absent ?m then returnS ()
          else bindS (event_candidate h d) (\<lambda>candidate.
            on_monitor (record_assessment candidate
              (assess_mcu_identity b candidate (mo_expected ?m) (mo_bootloader ?m)))))) s))"
    using ok later gone by (simp add: b Let_def keeps_def returnS_def)
qed

lemma deliver_ok [keeps_intros]: "keeps (run_ok r b e bl) (deliver h t)"
  unfolding deliver_def by (intro keeps_intros)

lemma on_monitor_bind: "bindS (on_monitor f) k s = k () (s\<lparr>mr_monitor := f (mr_monitor s)\<rparr>)"
  by (simp add: bindS_def on_monitor_def modifyS_def)

lemma check_ok: "keeps (run_ok r b e bl) (present_check r)"
  unfolding present_check_def
proof (rule keeps_monitor)
  fix s :: "'a monitor_run" assume ok: "run_ok r b e bl s"
  let ?m = "mr_monitor s"
  have cleared: "monitor_ok r b e bl (?m\<lparr>mo_ambiguous := False\<rparr>)"
    using ok by (simp add: monitor_ok_def)
  have chosen: "monitor_ok r b e bl (?m\<lparr>mo_ambiguous := False, mo_reconnected := Some c, mo_last_assessment := Some a,
      mo_manual_confirmation := True, mo_present := True\<rparr>)"
    if "mo_ambiguous ?m" "mo_ambiguous_assessment ?m = Some a" "mo_ambiguous_identity ?m = Some c" "r = Some answer" "answer a"
    for a c answer
    using ok that by (auto simp: monitor_ok_def accepted_def)
  from ok cleared chosen
  show "run_ok r b e bl (snd (bindS (requireS (\<not> mo_mismatch ?m) (Mcu_mismatch (''a different MCU appeared at ''
        @ (case mo_mismatched ?m of Some c \<Rightarrow> mi_device_node c | None \<Rightarrow> []) @ '': ''
        @ (case mo_last_assessment ?m of Some a \<Rightarrow> describe a | None \<Rightarrow> ''identity mismatch'')))) (\<lambda>_.
     if mo_present ?m then returnS (Some (mo_reconnected ?m))
     else if mo_ambiguous ?m then
       bindS (on_monitor (mo_ambiguous_update (\<lambda>_. False))) (\<lambda>_.
       case (mo_ambiguous_assessment ?m, mo_ambiguous_identity ?m) of
         (Some a, Some c) \<Rightarrow>
           (case r of
              None \<Rightarrow> raiseS (Mcu_ambiguous (describe a))
            | Some answer \<Rightarrow>
                bindS (requireS (answer a) (Mcu_cancelled ''ambiguous MCU identity was not confirmed'')) (\<lambda>_.
                bindS (on_monitor (\<lambda>m. m\<lparr>mo_reconnected := Some c, mo_last_assessment := Some a,
                   mo_manual_confirmation := True, mo_present := True\<rparr>)) (\<lambda>_.
                returnS (Some (Some c)))))
       | _ \<Rightarrow> raiseS (Mcu_ambiguous ''MCU identity evidence became unavailable''))
     else returnS None) s))"
    by (auto simp: bindS_def requireS_def returnS_def raiseS_def on_monitor_def modifyS_def
        split: option.splits if_splits)
qed

lemma check_result:
  assumes "present_check r s = (Inr (Some x), s')"
  shows "mo_present (mr_monitor s') \<and> x = mo_reconnected (mr_monitor s')"
  using assms unfolding present_check_def
  by (auto simp: state_simps the_monitor_def on_monitor_def split: if_splits option.splits)

lemma loop_result:
  assumes "present_loop h r deadline ts s = (Inr (Some x), s')" and "run_ok r b e bl s"
  shows "run_ok r b e bl s' \<and> mo_present (mr_monitor s') \<and> x = mo_reconnected (mr_monitor s')"
  using assms
proof (induction ts arbitrary: s)
  case Nil
  then show ?case by (simp add: state_simps)
next
  case (Cons t ts)
  from Cons.prems(1) obtain q s1 where c: "present_check r s = (Inr q, s1)"
    and rest: "(case q of Some i \<Rightarrow> returnS (Some i) | None \<Rightarrow>
         bindS (deliver h t) (\<lambda>_.
         bindS the_monitor (\<lambda>mo.
         if mo_present mo then returnS (Some (mo_reconnected mo))
         else bindS (requireS (\<not> tn_cancelled t) (Mcu_cancelled ''MCU wait cancelled by user'')) (\<lambda>_.
           if deadline \<le> tn_now t then raiseS (Mcu_timeout ''MCU did not reappear before the configured deadline'')
           else present_loop h r deadline ts)))) s1 = (Inr (Some x), s')"
    by (auto simp: bindS_eq)
  have ok1: "run_ok r b e bl s1" by (rule keepsD [OF check_ok Cons.prems(2) c])
  show ?case
  proof (cases q)
    case (Some i)
    with rest c ok1 check_result [of r s i s1] show ?thesis by (simp add: state_simps)
  next
    case None
    with rest obtain s2 where d: "deliver h t s1 = (Inr (), s2)"
      and r2: "(if mo_present (mr_monitor s2) then returnS (Some (mo_reconnected (mr_monitor s2)))
         else bindS (requireS (\<not> tn_cancelled t) (Mcu_cancelled ''MCU wait cancelled by user'')) (\<lambda>_.
           if deadline \<le> tn_now t then raiseS (Mcu_timeout ''MCU did not reappear before the configured deadline'')
           else present_loop h r deadline ts)) s2 = (Inr (Some x), s')"
      by (auto simp: bindS_eq [of "deliver _ _"] bind_monitor)
    have ok2: "run_ok r b e bl s2" by (rule keepsD [OF deliver_ok ok1 d])
    show ?thesis
      using r2 ok2 Cons.IH [of s2] by (auto simp: state_simps split: if_splits)
  qed
qed

lemma armed_ok:
  assumes "arm h s = (Inr b, s')" and "mr_monitor s = new_monitor path exp boot"
  shows "run_ok r b (normalized_vid_pids exp) (normalized_vid_pids boot) s'"
proof -
  let ?e = "normalized_vid_pids exp" and ?bl = "normalized_vid_pids boot"
  define rest :: "mcu_identity \<Rightarrow> ('a, mcu_identity) watch" where
    "rest b0 = bindS (catchS (hostM (mh_start h)) (\<lambda>e.
           bindS (on_monitor (mo_armed_update (\<lambda>_. False))) (\<lambda>_. raiseS e))) (\<lambda>_.
         bindS (catchS (hostM (read_identity h path)) (\<lambda>e.
           if caught e then
             bindS (hostM (mh_stop h)) (\<lambda>_.
             bindS (on_monitor (mo_armed_update (\<lambda>_. False))) (\<lambda>_.
             raiseS (Mcu_unavailable (''could not verify MCU presence after arming the monitor: '' @ mcu_text e))))
           else raiseS e)) (\<lambda>current.
         bindS (whenS (current = None) (on_monitor (mo_absent_update (\<lambda>_. True)))) (\<lambda>_.
         returnS b0)))" for b0
  have keep: "keeps (run_ok r b ?e ?bl) (rest x)" for x
    unfolding rest_def by (intro keeps_intros keeps_on_monitor) (auto simp: monitor_ok_def)
  have path: "mo_configured_path (mr_monitor s) = path" using assms(2) by (simp add: new_monitor_def)
  from assms(1) [unfolded arm_def bind_monitor path, THEN bindS_eq [THEN iffD1]] obtain q s1 where
    read: "hostM (read_identity h path) s = (Inr q, s1)" and
    k: "(case q of None \<Rightarrow> raiseS (Mcu_unavailable (''MCU is not present at the configured path: '' @ path))
     | Some b0 \<Rightarrow> bindS (requireS (has_topology b0 \<or> mi_serial b0 \<noteq> [])
           (Mcu_unavailable ''MCU identity is incomplete: udev did not provide physical topology, by-path, or serial evidence''))
        (\<lambda>_. bindS (on_monitor (\<lambda>m. m\<lparr>mo_baseline := Some b0, mo_armed := True\<rparr>)) (\<lambda>_. rest b0))) s1 = (Inr b, s')"
    unfolding rest_def by blast
  then obtain b0 where q: "q = Some b0" by (cases q) (simp_all add: raiseS_eq)
  from k [unfolded q option.case, THEN bindS_eq [THEN iffD1]]
  have run: "rest b0 (s1\<lparr>mr_monitor := (mr_monitor s1)\<lparr>mo_baseline := Some b0, mo_armed := True\<rparr>\<rparr>) = (Inr b, s')"
    by (auto simp: requireS_eq on_monitor_bind)
  have same: "mr_monitor s1 = new_monitor path exp boot"
    using read assms(2) by (auto simp: hostM_def split: prod.splits)
  have "b0 = b"
    using run by (auto simp: rest_def bindS_eq returnS_eq)
  then have ok: "run_ok r b ?e ?bl (s1\<lparr>mr_monitor := (mr_monitor s1)\<lparr>mo_baseline := Some b0, mo_armed := True\<rparr>\<rparr>)"
    by (simp add: same monitor_ok_def new_monitor_def)
  show ?thesis by (rule keepsD [OF keep ok run])
qed

lemma gate_ok [keeps_intros]: "keeps (run_ok r b e bl) check_armed" "keeps (run_ok r b e bl) (check_timeout t)"
  "keeps (run_ok r b e bl) the_monitor"
  unfolding check_armed_def check_timeout_def the_monitor_def by (intro keeps_intros)+

lemma wait_event_ok [keeps_intros]: "keeps (run_ok r b e bl) (wait_event h flag deadline ts)"
  by (induction ts) (auto intro!: keeps_intros)

lemma wait_absent_ok: "keeps (run_ok r b e bl) (wait_for_absent h now timeout ts)"
  unfolding wait_for_absent_def by (auto intro!: keeps_intros split: option.splits)

subsection \<open>A concrete device\<close>

definition ex_udev :: string where
  "ex_udev = join_with [CHR 0x0A] [''DEVNAME=/dev/ttyACM0'', ''ID_PATH=pci-0000:00:14.0-usb-0:1:1.0'',
     ''ID_VENDOR_ID=1d50'', ''ID_MODEL_ID=614e'', ''ID_SERIAL_SHORT=A1'']"

definition ex_mcu_host :: "unit mcu_host" where
  "ex_mcu_host = \<lparr>mh_expanduser = (\<lambda>p. p), mh_exists = (\<lambda>_. returnS True), mh_realpath = (\<lambda>_. returnS ''/dev/ttyACM0''),
     mh_has_udevadm = returnS True, mh_udevadm = (\<lambda>_. returnS (0, ex_udev, [])), mh_by_path = returnS [],
     mh_start = returnS (), mh_stop = returnS ()\<rparr>"

definition ex_udev_event :: "string \<Rightarrow> properties" where
  "ex_udev_event a = [(''ACTION'', a), (''DEVNAME'', ''/dev/ttyACM0''), (''ID_PATH'', ''pci-0000:00:14.0-usb-0:1:1.0'')]"

definition ex_turn :: "string list \<Rightarrow> int \<Rightarrow> turn" where
  "ex_turn kinds t = \<lparr>tn_events = map ex_udev_event kinds, tn_cancelled = False, tn_now = t\<rparr>"

definition ex_monitor_run :: "unit monitor_run" where
  "ex_monitor_run = \<lparr>mr_world = (), mr_monitor = new_monitor ''/dev/serial/by-id/usb-x'' [''1d50:614e''] []\<rparr>"

definition ex_watch :: "(unit, mcu_identity \<times> mcu_identity option option) watch" where
  "ex_watch = bindS (arm ex_mcu_host) (\<lambda>b.
     bindS (wait_for_absent ex_mcu_host 0 120 [ex_turn [''remove''] 1]) (\<lambda>_.
     bindS (wait_for_present ex_mcu_host None 1 120 [ex_turn [] 2, ex_turn [''add''] 3]) (\<lambda>x. returnS (b, x))))"

lemma ex_watched: "\<exists>b i s. ex_watch ex_monitor_run = (Inr (b, Some (Some i)), s)"
proof -
  have "case fst (ex_watch ex_monitor_run) of Inr (b, Some (Some i)) \<Rightarrow> True | _ \<Rightarrow> False"
    by code_simp
  then show ?thesis
    by (cases "ex_watch ex_monitor_run") (auto split: sum.splits option.splits)
qed

subsection \<open>Properties\<close>

theorem match_evidence_witness:
  "\<exists>b c. as_verdict (assess_mcu_identity b c [''1d50:614e''] []) = Verdict_MATCH \<and> \<not> serial_conflict b c"
proof -
  let ?i = "identity_from_properties (parse_properties ''/dev/ttyACM0'' ex_udev) [] [] []"
  have m: "as_verdict (assess_mcu_identity ?i ?i [''1d50:614e''] []) = Verdict_MATCH" by code_simp
  from match_evidence [OF m] m show ?thesis by blast
qed

text \<open>
  C35. The monitor reports a device only after the ordered removal and re-addition it was armed for: a
  wait that returns has seen the absence first, and the identity it returns was assessed against the
  baseline captured at arming as MATCH, or as AMBIGUOUS and explicitly confirmed by the user.
\<close>

theorem monitored_identity_accepted:
  assumes "mr_monitor s = new_monitor path expected bootloader" and "arm h s = (Inr b, s1)"
    and "wait_for_absent h now1 timeout1 ts1 s1 = (r, s2)"
    and "wait_for_present h resolver now2 timeout2 ts2 s2 = (Inr (Some x), s3)"
  shows "mo_absent (mr_monitor s3) \<and> (\<exists>i. x = Some i
     \<and> (let a = assess_mcu_identity b i (normalized_vid_pids expected) (normalized_vid_pids bootloader) in
        as_verdict a = Verdict_MATCH
        \<or> (as_verdict a = Verdict_AMBIGUOUS \<and> (\<exists>answer. resolver = Some answer \<and> answer a))))"
proof -
  let ?ok = "run_ok resolver b (normalized_vid_pids expected) (normalized_vid_pids bootloader)"
  have "?ok s1" by (rule armed_ok [OF assms(2,1)])
  then have "?ok s2" by (rule keepsD [OF wait_absent_ok _ assms(3)])
  moreover from assms(4) have "present_loop h resolver (now2 + timeout2) ts2 s2 = (Inr (Some x), s3)"
    by (auto simp: wait_for_present_def check_armed_def check_timeout_def state_simps the_monitor_def)
  ultimately have "?ok s3" "mo_present (mr_monitor s3)" "x = mo_reconnected (mr_monitor s3)"
    using loop_result by blast+
  then show ?thesis by (auto simp: monitor_ok_def accepted_def Let_def)
qed

theorem monitored_identity_accepted_witness:
  "\<exists>b i s3. ex_watch ex_monitor_run = (Inr (b, Some (Some i)), s3) \<and> mo_absent (mr_monitor s3)"
proof -
  obtain b i s3 where w: "ex_watch ex_monitor_run = (Inr (b, Some (Some i)), s3)"
    using ex_watched by blast
  then obtain s1 r s2 where run: "arm ex_mcu_host ex_monitor_run = (Inr b, s1)"
    "wait_for_absent ex_mcu_host 0 120 [ex_turn [''remove''] 1] s1 = (Inr r, s2)"
    "wait_for_present ex_mcu_host None 1 120 [ex_turn [] 2, ex_turn [''add''] 3] s2 = (Inr (Some (Some i)), s3)"
    by (auto simp: ex_watch_def state_simps)
  have "mr_monitor ex_monitor_run = new_monitor ''/dev/serial/by-id/usb-x'' [''1d50:614e''] []"
    by (simp add: ex_monitor_run_def)
  from monitored_identity_accepted [OF this run] have "mo_absent (mr_monitor s3)" by blast
  with w show ?thesis by blast
qed

text \<open>
  Waiting for the device ends: once the schedule reaches a turn at or past the deadline, or one in
  which the user cancelled, the wait has returned an identity or raised.
\<close>

theorem wait_for_present_ends:
  assumes "t \<in> set ts" and "now + timeout \<le> tn_now t \<or> tn_cancelled t"
  shows "fst (wait_for_present h resolver now timeout ts s) \<noteq> Inr None"
proof -
  have loop: "t \<notin> set ts" if "present_loop h resolver (now + timeout) ts s1 = (Inr None, s2)" for s1 s2
    using that
  proof (induction ts arbitrary: s1)
    case (Cons u us)
    then obtain s3 s4 where "\<not> tn_cancelled u" "tn_now u < now + timeout"
      "present_loop h resolver (now + timeout) us s4 = (Inr None, s2)"
      by (auto simp: state_simps the_monitor_def split: option.splits if_splits)
    with assms(2) Cons.IH show ?case by auto
  qed simp
  show ?thesis
  proof
    assume "fst (wait_for_present h resolver now timeout ts s) = Inr None"
    then obtain s2 where "wait_for_present h resolver now timeout ts s = (Inr None, s2)" by (metis prod.collapse)
    then obtain s1 where "present_loop h resolver (now + timeout) ts s1 = (Inr None, s2)"
      by (auto simp: wait_for_present_def bindS_eq)
    with loop assms(1) show False by blast
  qed
qed

theorem wait_for_present_ends_witness:
  "fst (wait_for_present ex_mcu_host None 0 10 [ex_turn [] 5, ex_turn [] 10] ex_monitor_run) \<noteq> Inr None"
  by (rule wait_for_present_ends [of "ex_turn [] 10"]) (simp_all add: ex_turn_def)

end
