(* ===== verification/Py_Poll.thy ===== *)
theory Py_Poll
  imports Py_State
begin

text \<open>
  Polling loops, \<open>while True\<close> with a deadline on a clock: one turn either ends the loop with a value
  or carries a loop state on.  The number of turns is bounded by fuel; \<open>poll_ends\<close> says how much of
  it is enough when every turn that goes on brings the deadline nearer.
\<close>

fun poll :: "nat \<Rightarrow> ('l \<Rightarrow> ('s, 'e, 'l + 'a) action) \<Rightarrow> 'l \<Rightarrow> ('s, 'e, 'a option) action" where
  "poll 0 turn l = returnS None"
| "poll (Suc n) turn l = bindS (turn l) (\<lambda>r. case r of Inr x \<Rightarrow> returnS (Some x) | Inl l' \<Rightarrow> poll n turn l')"

lemma poll_ends:
  assumes step: "\<And>l s l' s'. turn l s = (Inr (Inl l'), s') \<Longrightarrow> left s' < left s"
    and fuel: "left s < n"
  shows "poll n turn l s \<noteq> (Inr None, s')"
  using fuel
proof (induction n arbitrary: l s)
  case (Suc n)
  show ?case
  proof
    assume "poll (Suc n) turn l s = (Inr None, s')"
    then obtain r s1 where "turn l s = (Inr r, s1)"
      and "(case r of Inr x \<Rightarrow> returnS (Some x) | Inl l' \<Rightarrow> poll n turn l') s1 = (Inr None, s')"
      by (auto simp: bindS_eq)
    then obtain l' where t: "turn l s = (Inr (Inl l'), s1)" and p: "poll n turn l' s1 = (Inr None, s')"
      by (cases r) (simp_all add: returnS_eq)
    from step [OF t] Suc.prems have "left s1 < n" by simp
    with Suc.IH p show False by blast
  qed
qed simp

text \<open>The same with a measure on the loop state, which an invariant may bound.\<close>

lemma poll_ends_inv:
  assumes step: "\<And>l s l' s'. ok l \<Longrightarrow> turn l s = (Inr (Inl l'), s') \<Longrightarrow> ok l' \<and> left l' < left l"
    and start: "ok l" and fuel: "left l < n"
  shows "poll n turn l s \<noteq> (Inr None, s')"
  using start fuel
proof (induction n arbitrary: l s)
  case (Suc n)
  show ?case
  proof
    assume "poll (Suc n) turn l s = (Inr None, s')"
    then obtain r s1 where "turn l s = (Inr r, s1)"
      and "(case r of Inr x \<Rightarrow> returnS (Some x) | Inl l' \<Rightarrow> poll n turn l') s1 = (Inr None, s')"
      by (auto simp: bindS_eq)
    then obtain l' where t: "turn l s = (Inr (Inl l'), s1)" and p: "poll n turn l' s1 = (Inr None, s')"
      by (cases r) (simp_all add: returnS_eq)
    from step [OF Suc.prems(1) t] Suc.prems have "ok l'" "left l' < n" by auto
    with Suc.IH p show False by blast
  qed
qed simp

text \<open>And with an invariant of the loop state and a measure on the state.\<close>

lemma poll_ends_while:
  assumes step: "\<And>l s l' s'. ok l \<Longrightarrow> turn l s = (Inr (Inl l'), s') \<Longrightarrow> ok l' \<and> left s' < left s"
    and start: "ok l" and fuel: "left s < n"
  shows "poll n turn l s \<noteq> (Inr None, s')"
  using start fuel
proof (induction n arbitrary: l s)
  case (Suc n)
  show ?case
  proof
    assume "poll (Suc n) turn l s = (Inr None, s')"
    then obtain r s1 where "turn l s = (Inr r, s1)"
      and "(case r of Inr x \<Rightarrow> returnS (Some x) | Inl l' \<Rightarrow> poll n turn l') s1 = (Inr None, s')"
      by (auto simp: bindS_eq)
    then obtain l' where t: "turn l s = (Inr (Inl l'), s1)" and p: "poll n turn l' s1 = (Inr None, s')"
      by (cases r) (simp_all add: returnS_eq)
    from step [OF Suc.prems(1) t] Suc.prems have "ok l'" "left s1 < n" by auto
    with Suc.IH p show False by blast
  qed
qed simp

text \<open>What holds of every value a loop returns: the turn that returned it, from a state the turns before left.\<close>

lemma poll_returns:
  assumes "poll n turn l s = (Inr (Some x), s')"
  obtains l0 s0 where "turn l0 s0 = (Inr (Inr x), s')"
  using assms
proof (induction n arbitrary: l s)
  case (Suc n)
  from Suc.prems(2) obtain r s1 where t: "turn l s = (Inr r, s1)"
    and k: "(case r of Inr x \<Rightarrow> returnS (Some x) | Inl l' \<Rightarrow> poll n turn l') s1 = (Inr (Some x), s')"
    by (auto simp: bindS_eq)
  show ?case
  proof (cases r)
    case (Inl l')
    with k Suc.IH Suc.prems(1) show ?thesis by simp
  next
    case (Inr y)
    with k t Suc.prems(1) show ?thesis by (simp add: returnS_eq)
  qed
qed (simp add: state_simps)

lemma keeps_poll [keeps_intros]: "(\<And>l. keeps P (turn l)) \<Longrightarrow> keeps P (poll n turn l)"
proof (induction n arbitrary: l)
  case (Suc n)
  have "keeps P (case r of Inr x \<Rightarrow> returnS (Some x) | Inl l' \<Rightarrow> poll n turn l')" for r
    using Suc by (cases r) (simp_all add: keeps_intros)
  with Suc.prems show ?case by (simp add: keeps_bind)
qed (simp add: keeps_intros)

named_theorems yields_intros \<open>what an action returns, by its structure\<close>

lemma yields_bind [yields_intros]: "(\<And>x. yields (k x) Q) \<Longrightarrow> yields (bindS m k) Q"
  unfolding yields_def by (auto simp: bindS_eq)

lemma yields_return [yields_intros]: "Q x \<Longrightarrow> yields (returnS x) Q"
  by (simp add: yields_def returnS_eq)

lemma yields_raise [yields_intros]: "yields (raiseS e) Q"
  by (simp add: yields_def raiseS_eq)

lemma yields_if [yields_intros]: "(c \<Longrightarrow> yields m Q) \<Longrightarrow> (\<not> c \<Longrightarrow> yields n Q) \<Longrightarrow> yields (if c then m else n) Q"
  by simp

lemma yields_option [yields_intros]:
  "(q = None \<Longrightarrow> yields m Q) \<Longrightarrow> (\<And>x. q = Some x \<Longrightarrow> yields (f x) Q) \<Longrightarrow> yields (case q of None \<Rightarrow> m | Some x \<Rightarrow> f x) Q"
  by (cases q) simp_all

lemma yields_poll: "(\<And>l. yields (turn l) (\<lambda>r. \<forall>x. r = Inr x \<longrightarrow> Q x)) \<Longrightarrow> yields (poll n turn l) (\<lambda>r. \<forall>x. r = Some x \<longrightarrow> Q x)"
  unfolding yields_def by (metis poll_returns)

end
