(* ===== verification/Sd_Media.thy ===== *)
theory Sd_Media
  imports Sd_Executor Mcu_Monitor Py_Poll
begin

text \<open>
  The collaborators of \<open>firmware/boards/executor.py\<close> on a Linux host: the discovery of removable
  media from the JSON of \<open>lsblk\<close>, the safe ejection, the atomic copy and the wait for Klipper.  The
  processes and file operations they call are the fields of \<open>media_host\<close>; \<open>mj_json\<close> is
  \<open>json.loads\<close> and \<open>mj_repr\<close> the text Python gives a float or a container.
\<close>

record command_output =
  co_returncode :: int
  co_stdout :: string
  co_stderr :: string

record 'w media_host =
  mj_posix :: bool
  mj_json :: "string \<Rightarrow> pyval option"
  mj_repr :: "pyval \<Rightarrow> string"
  mj_run :: "string list \<Rightarrow> ('w, exec_exn, command_output) action"
  mj_resolve :: "string \<Rightarrow> ('w, exec_exn, string) action"
  mj_is_dir :: "string \<Rightarrow> ('w, exec_exn, bool) action"
  mj_disk_free :: "string \<Rightarrow> ('w, exec_exn, int) action"
  mj_which :: "string \<Rightarrow> ('w, exec_exn, string) action"
  mj_is_mount :: "string \<Rightarrow> ('w, exec_exn, bool) action"
  mj_now :: "('w, exec_exn, string) action"
  mj_exists :: "string \<Rightarrow> ('w, exec_exn, bool) action"
  mj_is_symlink :: "string \<Rightarrow> ('w, exec_exn, bool) action"
  mj_create_copy :: "string \<Rightarrow> string \<Rightarrow> ('w, exec_exn, unit) action"
  mj_replace :: "string \<Rightarrow> string \<Rightarrow> ('w, exec_exn, unit) action"
  mj_sync_directory :: "string \<Rightarrow> ('w, exec_exn, unit) action"
  mj_unlink :: "string \<Rightarrow> ('w, exec_exn, unit) action"
  mj_monotonic :: "('w, exec_exn, int) action"
  mj_sleep :: "int \<Rightarrow> ('w, exec_exn, unit) action"
  mj_klipper_state :: "('w, exec_exn, string) action"
  mj_mcu_versions :: "('w, exec_exn, (string, string) dict) action"

subsection \<open>Values of the JSON document\<close>

definition str_of :: "(pyval \<Rightarrow> string) \<Rightarrow> pyval \<Rightarrow> string" where
  "str_of repr v = (case v of PStr s \<Rightarrow> s | PInt i \<Rightarrow> show_int i | PBool b \<Rightarrow> (if b then ''True'' else ''False'')
     | PNone \<Rightarrow> ''None'' | _ \<Rightarrow> repr v)"

text \<open>\<open>str(value or "")\<close>, \<open>value or other\<close> and \<open>int(value or 0)\<close>; a text that is no numeral raises.\<close>

definition text_or_empty :: "(pyval \<Rightarrow> string) \<Rightarrow> pyval \<Rightarrow> string" where
  "text_or_empty repr v = (if py_truthy v then str_of repr v else [])"

definition value_or :: "pyval \<Rightarrow> pyval \<Rightarrow> pyval" where
  "value_or a b = (if py_truthy a then a else b)"

definition int_or_zero :: "pyval \<Rightarrow> (exec_exn, int) res" where
  "int_or_zero v = (if \<not> py_truthy v then Inr 0 else
     (case v of PInt i \<Rightarrow> Inr i | PBool b \<Rightarrow> Inr 1
      | PStr s \<Rightarrow> (case integer_re (py_strip s) of Some i \<Rightarrow> Inr i
          | None \<Rightarrow> Inl (Runtime_exn ''invalid literal for int()''))
      | _ \<Rightarrow> Inl (Runtime_exn ''int() argument'')))"

definition truth :: "(pyval \<Rightarrow> string) \<Rightarrow> pyval \<Rightarrow> bool" where
  "truth repr v = (py_lower (py_strip (if py_truthy v then str_of repr v else ''0'')) \<in> {''1'', ''true'', ''yes''})"

definition mountpoints :: "(pyval \<Rightarrow> string) \<Rightarrow> pydict \<Rightarrow> string list" where
  "mountpoints repr node = (case py_get_or node ''mountpoints'' (PList []) of
     PStr s \<Rightarrow> if s = [] then [] else [s]
   | PList xs \<Rightarrow> map (str_of repr) (filter py_truthy xs)
   | _ \<Rightarrow> [])"

subsection \<open>Discovery\<close>

definition lsblk_argv :: "string list" where
  "lsblk_argv = [''lsblk'', ''--json'', ''--bytes'', ''--output'',
     ''NAME,PATH,TYPE,RM,RO,SIZE,FSTYPE,MOUNTPOINTS,UUID,PARTUUID,PKNAME,MODEL,SERIAL,TRAN,LABEL'']"

lemma dict_get_size: "dict_get d k = Some v \<Longrightarrow> size v < size (PDict d)"
proof (induction d)
  case (Cons p d)
  then show ?case by (cases p) (auto simp: dict_get_def split: if_splits)
qed (simp add: dict_get_def)

lemma child_size: "dict_get d k = Some (PList xs) \<Longrightarrow> x \<in> set xs \<Longrightarrow> size x < size (PDict d)"
  using dict_get_size [of d k "PList xs"] size_list_estimation' [of x xs "size x" size] by simp

text \<open>
  \<open>visit(node, root)\<close>: the dictionaries of the tree in order; \<open>None\<close> where iterating over the
  children raises \<open>TypeError\<close>.  Keys and characters of a child that is a dictionary or a text are
  no dictionaries and add nothing.
\<close>

function tree_nodes :: "pyval \<Rightarrow> pydict list option" where
  "tree_nodes v = (case v of
     PDict d \<Rightarrow> (case dict_get d (KStr ''children'') of
        None \<Rightarrow> Some [d]
      | Some c \<Rightarrow> (case c of
           PList xs \<Rightarrow> map_option (\<lambda>ns. d # concat ns) (those (map tree_nodes xs))
         | PDict _ \<Rightarrow> Some [d] | PStr _ \<Rightarrow> Some [d]
         | _ \<Rightarrow> if py_truthy c then None else Some [d]))
   | _ \<Rightarrow> Some [])"
  by pat_completeness auto
termination
  by (relation "measure size") (auto simp del: pyval.size dest: child_size)

declare tree_nodes.simps [simp del]

text \<open>The trees below \<open>blockdevices\<close>: every root with its nodes.\<close>

definition device_trees :: "pyval \<Rightarrow> (pydict \<times> pydict list) list option" where
  "device_trees roots = (case roots of
     PList xs \<Rightarrow> those (List.map_filter (\<lambda>r. case r of
        PDict d \<Rightarrow> Some (map_option (\<lambda>ns. (d, ns)) (tree_nodes r)) | _ \<Rightarrow> None) xs)
   | _ \<Rightarrow> Some [])"

definition root_path :: "(pyval \<Rightarrow> string) \<Rightarrow> pydict \<Rightarrow> string" where
  "root_path repr root = text_or_empty repr (py_get root ''path'')"

definition system_roots :: "(pyval \<Rightarrow> string) \<Rightarrow> (pydict \<times> pydict list) list \<Rightarrow> string list" where
  "system_roots repr trees = map (\<lambda>(root, _). root_path repr root)
     (filter (\<lambda>(_, nodes). list_ex (\<lambda>n. ''/'' \<in> set (mountpoints repr n)) nodes) trees)"

definition stable_id_of :: "(pyval \<Rightarrow> string) \<Rightarrow> pydict \<Rightarrow> string \<Rightarrow> string \<Rightarrow> string option" where
  "stable_id_of repr node serial device_path =
     (let partuuid = text_or_empty repr (py_get node ''partuuid''); uuid = text_or_empty repr (py_get node ''uuid'') in
      if partuuid \<noteq> [] then Some (''partuuid:'' @ py_lower partuuid)
      else if uuid \<noteq> [] then Some (''uuid:'' @ py_lower uuid)
      else if serial \<noteq> [] \<and> device_path \<noteq> [] then Some (''serial-path:'' @ py_lower serial @ '':'' @ device_path)
      else None)"

definition make_candidate :: "media_candidate \<Rightarrow> (exec_exn, media_candidate) res" where
  "make_candidate m = require (candidate_ok m) (Runtime_exn ''media candidate'') (Inr m)"

definition node_device :: "(pyval \<Rightarrow> string) \<Rightarrow> pydict \<Rightarrow> string" where
  "node_device repr node = text_or_empty repr (py_get node ''path'')"

definition node_parent :: "(pyval \<Rightarrow> string) \<Rightarrow> pydict \<Rightarrow> pydict \<Rightarrow> string" where
  "node_parent repr root node =
     (let p = py_get root ''path'' in if py_truthy p then str_of repr p else node_device repr node)"

definition node_serial :: "(pyval \<Rightarrow> string) \<Rightarrow> pydict \<Rightarrow> pydict \<Rightarrow> string" where
  "node_serial repr root node = text_or_empty repr (value_or (py_get root ''serial'') (py_get node ''serial''))"

definition candidate_of ::
    "(pyval \<Rightarrow> string) \<Rightarrow> string list \<Rightarrow> pydict \<Rightarrow> pydict \<Rightarrow> string \<Rightarrow> string \<Rightarrow> int \<Rightarrow> int \<Rightarrow> media_candidate" where
  "candidate_of r systems root node stable_id mount_path size_bytes free =
     \<lparr>mc_stable_id = stable_id, mc_device_path = node_device r node, mc_parent_device = node_parent r root node,
      mc_mount_path = mount_path, mc_filesystem = py_lower (text_or_empty r (py_get node ''fstype'')),
      mc_size_bytes = size_bytes, mc_free_bytes = free,
      mc_removable = (truth r (py_get node ''rm'') \<or> truth r (py_get root ''rm'')),
      mc_system_disk = (node_parent r root node \<in> set systems),
      mc_read_only = (truth r (py_get node ''ro'') \<or> truth r (py_get root ''ro'')),
      mc_label = text_or_empty r (py_get node ''label''),
      mc_model = py_strip (text_or_empty r (value_or (py_get root ''model'') (py_get node ''model''))),
      mc_serial = node_serial r root node\<rparr>"

definition media_node ::
    "'w media_host \<Rightarrow> string list \<Rightarrow> pydict \<Rightarrow> pydict \<Rightarrow> ('w, exec_exn, media_candidate option) action" where
  "media_node h systems root node =
     (let r = mj_repr h; mounts = mountpoints r node in
      if text_or_empty r (py_get node ''type'') \<notin> {''part'', ''disk''} then returnS None
      else if length mounts \<noteq> 1 \<or> hd mounts = ''/'' then returnS None
      else (case stable_id_of r node (node_serial r root node) (node_device r node) of
        None \<Rightarrow> returnS None
      | Some stable_id \<Rightarrow>
          bindS (mj_resolve h (hd mounts)) (\<lambda>mount_path.
          bindS (mj_is_dir h mount_path) (\<lambda>dir.
          if \<not> dir then returnS None
          else bindS (catchS (bindS (mj_disk_free h mount_path) (\<lambda>n. returnS (Some n)))
                (\<lambda>e. case e of Os_exn _ \<Rightarrow> returnS None | _ \<Rightarrow> raiseS e)) (\<lambda>free. case free of
            None \<Rightarrow> returnS None
          | Some n \<Rightarrow>
              bindS (liftS (int_or_zero (py_get node ''size''))) (\<lambda>size_bytes.
              bindS (liftS (make_candidate (candidate_of r systems root node stable_id mount_path size_bytes n)))
                (\<lambda>m. returnS (Some m))))))))"

definition discovery_failed :: exec_exn where
  "discovery_failed = Exec Media_selection_error ''MEDIA_DISCOVERY_FAILED'' ''lsblk returned invalid JSON''"

definition list_media ::
    "'w media_host \<Rightarrow> (pydict \<times> pydict list) list \<Rightarrow> ('w, exec_exn, media_candidate list) action" where
  "list_media h trees =
     bindS (mapS (\<lambda>(root, node). media_node h (system_roots (mj_repr h) trees) root node)
        (concat (map (\<lambda>(root, nodes). map (Pair root) nodes) trees))) (\<lambda>found.
     returnS (sort_key mc_stable_id (List.map_filter (\<lambda>x. x) found)))"

definition list_candidates :: "'w media_host \<Rightarrow> ('w, exec_exn, media_candidate list) action" where
  "list_candidates h =
     bindS (requireS (mj_posix h) (Exec Media_selection_error ''MEDIA_DISCOVERY_UNSUPPORTED''
       ''real removable-media discovery is supported only on the KACE Linux host'')) (\<lambda>_.
     bindS (mj_run h lsblk_argv) (\<lambda>completed.
     bindS (requireS (co_returncode completed = 0) (Exec Media_selection_error ''MEDIA_DISCOVERY_FAILED''
       (''lsblk failed: '' @ co_stderr completed))) (\<lambda>_.
     bindS (liftS (case mj_json h (co_stdout completed) of
         Some (PDict payload) \<Rightarrow> (case dict_get payload (KStr ''blockdevices'') of
            Some roots \<Rightarrow> Inr roots | None \<Rightarrow> Inl discovery_failed)
       | _ \<Rightarrow> Inl discovery_failed)) (\<lambda>roots.
     bindS (liftS (case device_trees roots of
         Some trees \<Rightarrow> Inr trees | None \<Rightarrow> Inl (Runtime_exn ''object is not iterable''))) (\<lambda>trees.
     list_media h trees)))))"

definition refresh_candidate :: "'w media_host \<Rightarrow> media_candidate \<Rightarrow> ('w, exec_exn, media_candidate option) action" where
  "refresh_candidate h chosen =
     bindS (list_candidates h) (\<lambda>cs. returnS (find (\<lambda>c. mc_stable_id c = mc_stable_id chosen) cs))"

subsection \<open>Ejection\<close>

definition or_text :: "string \<Rightarrow> string \<Rightarrow> string" where
  "or_text a b = (if a = [] then b else a)"

definition eject_medium :: "'w media_host \<Rightarrow> media_candidate \<Rightarrow> ('w, exec_exn, eject_result) action" where
  "eject_medium h m =
     bindS (mj_now h) (\<lambda>timestamp.
     bindS (mj_which h ''udisksctl'') (\<lambda>executable.
     let res = (\<lambda>status detail. \<lparr>er_status = status, er_device_path = mc_device_path m, er_detail = detail,
           er_timestamp = timestamp\<rparr>) in
     if \<not> mj_posix h \<or> executable = [] then
       returnS (res Eject_UNSUPPORTED ''udisksctl is unavailable on this platform'')
     else
       bindS (mj_run h [executable, ''unmount'', ''--block-device'', mc_device_path m, ''--no-user-interaction'']) (\<lambda>completed.
       if co_returncode completed \<noteq> 0 then
         returnS (res Eject_FAILED (py_strip (or_text (co_stderr completed) ''udisksctl failed'')))
       else bindS (mj_is_mount h (mc_mount_path m)) (\<lambda>mounted.
         if mounted then returnS (res Eject_FAILED ''selected filesystem still appears mounted after udisksctl'')
         else returnS (res Eject_EJECTED (py_strip (or_text (co_stdout completed) ''unmounted'')))))))"

subsection \<open>The writer\<close>

definition parent_of :: "string \<Rightarrow> string" where
  "parent_of p = join_with ''/'' (butlast (split_char CHR ''/'' p))"

definition copy_firmware :: "'w media_host \<Rightarrow> string \<Rightarrow> string \<Rightarrow> string \<Rightarrow> ('w, exec_exn, unit) action" where
  "copy_firmware h source destination deployment_id =
     bindS (mj_exists h destination) (\<lambda>there.
     bindS (if there then mj_is_symlink h destination else returnS False) (\<lambda>link.
     bindS (requireS (\<not> link) (Os_exn ''destination firmware path is a symbolic link'')) (\<lambda>_.
     let temporary = path_join (parent_of destination) (''.kace-'' @ deployment_id @ ''.part'') in
     bindS (mj_exists h temporary) (\<lambda>stale.
     bindS (requireS (\<not> stale) (Os_exn (''stale KACE temporary file exists: '' @ path_name temporary))) (\<lambda>_.
     finallyS
       (bindS (mj_create_copy h source temporary) (\<lambda>_.
        bindS (mj_replace h temporary destination) (\<lambda>_.
        mj_sync_directory h (parent_of destination))))
       (bindS (mj_exists h temporary) (\<lambda>left. whenS left (mj_unlink h temporary))))))))"

subsection \<open>Waiting for Klipper\<close>

definition firmware_turn ::
    "'w media_host \<Rightarrow> string \<Rightarrow> int \<Rightarrow> string \<times> (string, string) dict
     \<Rightarrow> ('w, exec_exn, (string \<times> (string, string) dict) + firmware_result) action" where
  "firmware_turn h mcu_name deadline seen =
     bindS (mj_monotonic h) (\<lambda>now.
     if \<not> now < deadline then
       returnS (Inr \<lparr>fv_klipper_connected = False,
         fv_observed_fingerprint = (case dict_get (snd seen) mcu_name of Some v \<Rightarrow> v | None \<Rightarrow> []),
         fv_observed_versions = snd seen,
         fv_detail = ''Klipper/MCU verification timed out (state='' @ fst seen @ '')''\<rparr>)
     else
       bindS (mj_klipper_state h) (\<lambda>state.
       if state = ''ready'' then
         bindS (mj_mcu_versions h) (\<lambda>versions.
         case dict_get versions mcu_name of
           Some v \<Rightarrow>
             if v \<noteq> [] then returnS (Inr \<lparr>fv_klipper_connected = True, fv_observed_fingerprint = v,
               fv_observed_versions = versions, fv_detail = ''Klipper Ready and expected MCU object registered''\<rparr>)
             else bindS (mj_sleep h 500) (\<lambda>_. returnS (Inl (state, versions)))
         | None \<Rightarrow> bindS (mj_sleep h 500) (\<lambda>_. returnS (Inl (state, versions))))
       else bindS (mj_sleep h 500) (\<lambda>_. returnS (Inl (state, snd seen)))))"

text \<open>Times are milliseconds; the fuel bounds the number of turns of the loop.\<close>

definition wait_for_firmware ::
    "nat \<Rightarrow> 'w media_host \<Rightarrow> string \<Rightarrow> int \<Rightarrow> ('w, exec_exn, firmware_result option) action" where
  "wait_for_firmware fuel h mcu_name timeout =
     (if mcu_name = [] then returnS (Some \<lparr>fv_klipper_connected = False, fv_observed_fingerprint = [],
        fv_observed_versions = [], fv_detail = ''MCU object name is empty''\<rparr>)
      else bindS (mj_monotonic h) (\<lambda>now.
        poll fuel (firmware_turn h mcu_name (now + timeout)) (''disconnected'', [])))"

text \<open>\<open>McuIdentityEvidence.capture\<close> of an identity.\<close>

definition capture_evidence :: "mcu_identity \<Rightarrow> mcu_evidence" where
  "capture_evidence i =
     \<lparr>me_configured_path = mi_configured_path i, me_device_node = mi_device_node i, me_devpath = mi_devpath i,
      me_serial = mi_serial i, me_physical_path = mi_physical_path i, me_vendor_id = mi_vendor_id i,
      me_model_id = mi_model_id i, me_physical_port = mi_physical_port i, me_by_path = mi_by_path i,
      me_vid_pid = vid_pid i\<rparr>"

subsection \<open>What is listed\<close>

lemma mapS_members: "mapS f xs s = (Inr ys, s') \<Longrightarrow> y \<in> set ys \<Longrightarrow> \<exists>x \<in> set xs. \<exists>s1 s2. f x s1 = (Inr y, s2)"
proof (induction xs arbitrary: s ys)
  case (Cons x xs)
  then obtain z zs s1 where "f x s = (Inr z, s1)" "mapS f xs s1 = (Inr zs, s')" "ys = z # zs"
    by (auto simp: state_simps)
  with Cons.IH [of s1 zs] Cons.prems(2) show ?case by auto
qed (simp add: state_simps)

lemma listed_node:
  assumes "media_node h systems root node s = (Inr (Some c), s')"
  shows "length (mountpoints (mj_repr h) node) = 1 \<and> hd (mountpoints (mj_repr h) node) \<noteq> ''/''
    \<and> mc_system_disk c = (mc_parent_device c \<in> set systems)
    \<and> (root_path (mj_repr h) root \<noteq> [] \<longrightarrow> mc_parent_device c = root_path (mj_repr h) root)"
proof -
  let ?r = "mj_repr h"
  have one: "\<not> (length (mountpoints ?r node) \<noteq> 1 \<or> hd (mountpoints ?r node) = ''/'')"
    using assms by (auto simp: media_node_def Let_def returnS_eq split: if_splits)
  have "\<exists>i p n k. c = candidate_of ?r systems root node i p n k"
    using assms one by (auto simp: media_node_def Let_def state_simps make_candidate_def result_simps split: if_splits option.splits)
       blast+
  then have "mc_parent_device c = node_parent ?r root node" "mc_system_disk c = (mc_parent_device c \<in> set systems)"
    by (auto simp: candidate_of_def)
  moreover have "root_path ?r root \<noteq> [] \<Longrightarrow> node_parent ?r root node = root_path ?r root"
    by (simp add: root_path_def text_or_empty_def node_parent_def Let_def split: if_splits)
  ultimately show ?thesis using one by auto
qed

text \<open>
  A mounted system disk is never offered as a plain medium: whatever lsblk and the file system
  answered, every listed candidate has exactly one mount point, which is not the root, and when the
  block device it belongs to carries the root file system anywhere in its tree, the candidate is marked
  as system disk, which the executor rejects.
\<close>

theorem listed_media_flag_system_disk:
  assumes "list_media h trees s = (Inr cs, s')" and "c \<in> set cs"
  shows "\<exists>root nodes node. (root, nodes) \<in> set trees \<and> node \<in> set nodes
     \<and> length (mountpoints (mj_repr h) node) = 1 \<and> hd (mountpoints (mj_repr h) node) \<noteq> ''/''
     \<and> (root_path (mj_repr h) root \<noteq> [] \<and> list_ex (\<lambda>n. ''/'' \<in> set (mountpoints (mj_repr h) n)) nodes
        \<longrightarrow> mc_system_disk c)"
proof -
  let ?f = "\<lambda>(root, node). media_node h (system_roots (mj_repr h) trees) root node"
  from assms obtain found where m: "mapS ?f (concat (map (\<lambda>(root, nodes). map (Pair root) nodes) trees)) s = (Inr found, s')"
    and c: "Some c \<in> set found"
    by (auto simp: list_media_def state_simps List.map_filter_def)
  from mapS_members [OF m c] obtain x s1 s2 where
    "x \<in> set (concat (map (\<lambda>(root, nodes). map (Pair root) nodes) trees))" "?f x s1 = (Inr (Some c), s2)" by blast
  then obtain root node where
    mem: "(root, node) \<in> set (concat (map (\<lambda>(root, nodes). map (Pair root) nodes) trees))"
    and n: "media_node h (system_roots (mj_repr h) trees) root node s1 = (Inr (Some c), s2)" by (cases x rule: prod.exhaust) simp
  from mem obtain nodes where t: "(root, nodes) \<in> set trees" "node \<in> set nodes" by auto
  from listed_node [OF n] have l: "length (mountpoints (mj_repr h) node) = 1" "hd (mountpoints (mj_repr h) node) \<noteq> ''/''"
    "mc_system_disk c = (mc_parent_device c \<in> set (system_roots (mj_repr h) trees))"
    "root_path (mj_repr h) root \<noteq> [] \<longrightarrow> mc_parent_device c = root_path (mj_repr h) root" by simp_all
  moreover have "root_path (mj_repr h) root \<in> set (system_roots (mj_repr h) trees)"
    if "list_ex (\<lambda>n. ''/'' \<in> set (mountpoints (mj_repr h) n)) nodes"
    using that t(1) by (force simp: system_roots_def)
  ultimately show ?thesis using t by (intro exI [of _ root] exI [of _ nodes] exI [of _ node]) auto
qed

definition ex_media_host :: "unit media_host" where
  "ex_media_host = \<lparr>mj_posix = True, mj_json = (\<lambda>_. None), mj_repr = (\<lambda>_. []),
     mj_run = (\<lambda>_. returnS \<lparr>co_returncode = 0, co_stdout = [], co_stderr = []\<rparr>), mj_resolve = returnS,
     mj_is_dir = (\<lambda>_. returnS True), mj_disk_free = (\<lambda>_. returnS 1000), mj_which = returnS,
     mj_is_mount = (\<lambda>_. returnS False), mj_now = returnS ''t'', mj_exists = (\<lambda>_. returnS False),
     mj_is_symlink = (\<lambda>_. returnS False), mj_create_copy = (\<lambda>_ _. returnS ()), mj_replace = (\<lambda>_ _. returnS ()),
     mj_sync_directory = (\<lambda>_. returnS ()), mj_unlink = (\<lambda>_. returnS ()), mj_monotonic = returnS 0,
     mj_sleep = (\<lambda>_. returnS ()), mj_klipper_state = returnS ''ready'', mj_mcu_versions = returnS [(''mcu'', ''v1'')]\<rparr>"

definition ex_disk :: pydict where
  "ex_disk = [(KStr ''path'', PStr ''/dev/sda''), (KStr ''type'', PStr ''disk''), (KStr ''mountpoints'', PList [PNone])]"

definition ex_partition :: "string \<Rightarrow> string \<Rightarrow> pydict" where
  "ex_partition p mount = [(KStr ''path'', PStr p), (KStr ''type'', PStr ''part''), (KStr ''uuid'', PStr p),
     (KStr ''fstype'', PStr ''vfat''), (KStr ''rm'', PBool True), (KStr ''mountpoints'', PList [PStr mount])]"

definition ex_trees :: "(pydict \<times> pydict list) list" where
  "ex_trees = [(ex_disk, [ex_disk, ex_partition ''/dev/sda1'' ''/'', ex_partition ''/dev/sda2'' ''/boot''])]"

theorem listed_media_flag_system_disk_witness:
  "\<exists>c. fst (list_media ex_media_host ex_trees ()) = Inr [c] \<and> mc_system_disk c"
proof -
  have "case fst (list_media ex_media_host ex_trees ()) of Inr [c] \<Rightarrow> True | _ \<Rightarrow> False"
    by code_simp
  then obtain c where "fst (list_media ex_media_host ex_trees ()) = Inr [c]"
    by (auto split: sum.splits list.splits)
  then have run: "list_media ex_media_host ex_trees () = (Inr [c], ())"
    by (metis prod.collapse unit.exhaust)
  have "root_path (mj_repr ex_media_host) ex_disk \<noteq> []"
    "list_ex (\<lambda>n. ''/'' \<in> set (mountpoints (mj_repr ex_media_host) n))
       [ex_disk, ex_partition ''/dev/sda1'' ''/'', ex_partition ''/dev/sda2'' ''/boot'']"
    by code_simp+
  with listed_media_flag_system_disk [OF run] run show ?thesis
    by (auto simp: ex_trees_def)
qed

subsection \<open>Waiting ends\<close>

text \<open>
  The host's monotonic clock: \<open>now\<close> reads it, sleeping takes at least the time asked for, and the
  queries do not turn it back.
\<close>

definition clock_runs :: "'w media_host \<Rightarrow> ('w \<Rightarrow> int) \<Rightarrow> bool" where
  "clock_runs h now =
     (mj_monotonic h = getS now
      \<and> (\<forall>d s r s'. mj_sleep h d s = (r, s') \<longrightarrow> now s + d \<le> now s')
      \<and> (\<forall>s r s'. mj_klipper_state h s = (r, s') \<longrightarrow> now s \<le> now s')
      \<and> (\<forall>s r s'. mj_mcu_versions h s = (r, s') \<longrightarrow> now s \<le> now s'))"

lemma firmware_turn_advances:
  assumes h: "clock_runs h now" and t: "firmware_turn h mcu deadline l s = (Inr (Inl l'), s')"
  shows "nat (deadline - now s') < nat (deadline - now s)"
proof -
  have clock: "mj_monotonic h = getS now" using h by (simp add: clock_runs_def)
  have slept: "now w + 500 \<le> now w'" if "bindS (mj_sleep h 500) (\<lambda>_. returnS x) w = (Inr y, w')" for w w' x and y :: "'c + 'd"
    using h that by (auto simp: clock_runs_def state_simps)
  from t have d: "now s < deadline"
    by (auto simp: firmware_turn_def clock state_simps split: if_splits)
  with t obtain st s1 where k: "mj_klipper_state h s = (Inr st, s1)"
    and r: "(if st = ''ready'' then bindS (mj_mcu_versions h) (\<lambda>versions.
         case dict_get versions mcu of
           Some v \<Rightarrow>
             if v \<noteq> [] then returnS (Inr \<lparr>fv_klipper_connected = True, fv_observed_fingerprint = v,
               fv_observed_versions = versions, fv_detail = ''Klipper Ready and expected MCU object registered''\<rparr>)
             else bindS (mj_sleep h 500) (\<lambda>_. returnS (Inl (st, versions)))
         | None \<Rightarrow> bindS (mj_sleep h 500) (\<lambda>_. returnS (Inl (st, versions))))
       else bindS (mj_sleep h 500) (\<lambda>_. returnS (Inl (st, snd l)))) s1 = (Inr (Inl l'), s')"
    by (auto simp: firmware_turn_def clock bindS_eq [of "getS _"] bindS_eq [of "mj_klipper_state _"] getS_eq)
  have a: "now s \<le> now s1" using h k by (simp add: clock_runs_def)
  have "now s1 + 500 \<le> now s'"
  proof (cases "st = ''ready''")
    case True
    with r obtain vs s2 where v: "mj_mcu_versions h s1 = (Inr vs, s2)"
      and q: "bindS (mj_sleep h 500) (\<lambda>_. returnS (Inl (st, vs))) s2 = (Inr (Inl l' :: _ + firmware_result), s')"
      by (auto simp: bindS_eq [of "mj_mcu_versions _"] returnS_eq split: option.splits if_splits)
    have "now s1 \<le> now s2" using h v by (simp add: clock_runs_def)
    with slept [OF q] show ?thesis by simp
  next
    case False
    with r slept show ?thesis by simp
  qed
  with a d show ?thesis by auto
qed

text \<open>
  The wait for the firmware ends: with a running clock, fuel above the timeout in milliseconds is never
  used up, and a result that reports a connection carries the nonempty version that Klipper registered
  for exactly this MCU.
\<close>

theorem wait_for_firmware_ends:
  assumes "clock_runs h now" and "nat timeout < fuel"
  shows "fst (wait_for_firmware fuel h mcu timeout s) \<noteq> Inr None
     \<and> yields (wait_for_firmware fuel h mcu timeout) (\<lambda>r. \<forall>v. r = Some v \<and> fv_klipper_connected v \<longrightarrow>
          fv_observed_fingerprint v \<noteq> [] \<and> dict_get (fv_observed_versions v) mcu = Some (fv_observed_fingerprint v))"
proof
  have clock: "mj_monotonic h = getS now" using assms(1) by (simp add: clock_runs_def)
  have ends: "poll fuel (firmware_turn h mcu (now s + timeout)) l s \<noteq> (Inr None, s')" for l s'
    by (rule poll_ends [where left = "\<lambda>w. nat (now s + timeout - now w)", OF firmware_turn_advances [OF assms(1)]])
       (use assms(2) in simp_all)
  show "fst (wait_for_firmware fuel h mcu timeout s) \<noteq> Inr None"
  proof
    assume "fst (wait_for_firmware fuel h mcu timeout s) = Inr None"
    then obtain s' where "wait_for_firmware fuel h mcu timeout s = (Inr None, s')" by (metis prod.collapse)
    then have "poll fuel (firmware_turn h mcu (now s + timeout)) (''disconnected'', []) s = (Inr None, s')"
      by (auto simp: wait_for_firmware_def clock state_simps split: if_splits)
    with ends show False by blast
  qed
  let ?Q = "\<lambda>v. fv_klipper_connected v \<longrightarrow>
      fv_observed_fingerprint v \<noteq> [] \<and> dict_get (fv_observed_versions v) mcu = Some (fv_observed_fingerprint v)"
  have "yields (firmware_turn h mcu deadline l) (\<lambda>r. \<forall>v. r = Inr v \<longrightarrow> ?Q v)" for deadline l
    unfolding firmware_turn_def by (intro yields_intros) simp_all
  then have "yields (wait_for_firmware fuel h mcu timeout) (\<lambda>r. \<forall>v. r = Some v \<longrightarrow> ?Q v)"
    unfolding wait_for_firmware_def by (intro yields_intros yields_poll) simp_all
  then show "yields (wait_for_firmware fuel h mcu timeout) (\<lambda>r. \<forall>v. r = Some v \<and> fv_klipper_connected v \<longrightarrow>
      fv_observed_fingerprint v \<noteq> [] \<and> dict_get (fv_observed_versions v) mcu = Some (fv_observed_fingerprint v))"
    by (simp add: yields_def)
qed

definition ex_firmware_host :: "int media_host" where
  "ex_firmware_host = \<lparr>mj_posix = True, mj_json = (\<lambda>_. None), mj_repr = (\<lambda>_. []),
     mj_run = (\<lambda>_. returnS \<lparr>co_returncode = 0, co_stdout = [], co_stderr = []\<rparr>), mj_resolve = returnS,
     mj_is_dir = (\<lambda>_. returnS True), mj_disk_free = (\<lambda>_. returnS 1000), mj_which = returnS,
     mj_is_mount = (\<lambda>_. returnS False), mj_now = returnS ''t'', mj_exists = (\<lambda>_. returnS False),
     mj_is_symlink = (\<lambda>_. returnS False), mj_create_copy = (\<lambda>_ _. returnS ()), mj_replace = (\<lambda>_ _. returnS ()),
     mj_sync_directory = (\<lambda>_. returnS ()), mj_unlink = (\<lambda>_. returnS ()), mj_monotonic = getS (\<lambda>t. t),
     mj_sleep = (\<lambda>d. modifyS (\<lambda>t. t + d)), mj_klipper_state = returnS ''startup'', mj_mcu_versions = returnS []\<rparr>"

theorem wait_for_firmware_ends_witness:
  "\<exists>r s. wait_for_firmware 2001 ex_firmware_host ''mcu'' 2000 0 = (r, s) \<and> r \<noteq> Inr None"
proof -
  have "clock_runs ex_firmware_host (\<lambda>t. t)"
    by (auto simp: clock_runs_def ex_firmware_host_def modifyS_def returnS_def)
  from wait_for_firmware_ends [OF this, of 2000 2001 "''mcu''" 0] show ?thesis
    by (cases "wait_for_firmware 2001 ex_firmware_host ''mcu'' 2000 0") auto
qed

end
