(* ===== verification/Power_Control.thy ===== *)
theory Power_Control
  imports Deployment_Plan Py_Poll
begin

text \<open>
  \<open>core/power_config.py\<close> and \<open>core/power_controller.py\<close>: the versioned desired state of the printer's
  power relay, the controller that switches it through Moonraker and confirms the result, and the
  operator's view of it.  The Power API, the clock and the file are the fields of \<open>power_host\<close>.
\<close>

subsection \<open>Configuration\<close>

datatype power_error = Power_config_error string | Power_file_missing

text \<open>The values as they come from the JSON document; \<open>validated\<close> checks their types.\<close>

record power_config =
  pc_schema :: pyval
  pc_revision :: pyval
  pc_enabled :: pyval
  pc_device :: pyval
  pc_pin :: pyval
  pc_active_low :: pyval
  pc_initial_state :: pyval
  pc_restart_klipper :: pyval
  pc_off_when_shutdown :: pyval
  pc_legacy :: bool

definition power_schema :: pyval where
  "power_schema = PStr ''kace-power/v1''"

definition default_power_config :: power_config where
  "default_power_config = \<lparr>pc_schema = power_schema, pc_revision = PInt 1, pc_enabled = PBool False,
     pc_device = PNone, pc_pin = PNone, pc_active_low = PBool False, pc_initial_state = PStr ''off'',
     pc_restart_klipper = PBool False, pc_off_when_shutdown = PBool True, pc_legacy = False\<rparr>"

definition alnum :: "char \<Rightarrow> bool" where
  "alnum c = (is_digit c \<or> is_lower c \<or> is_upper c)"

text \<open>\<open>^[A-Za-z0-9][A-Za-z0-9_-]*$\<close> and \<open>^gpiochip[0-9]+/gpio[0-9]{1,3}$\<close>.\<close>

definition device_re :: "string \<Rightarrow> bool" where
  "device_re s = (case s of [] \<Rightarrow> False
     | c # cs \<Rightarrow> alnum c \<and> list_all (\<lambda>x. alnum x \<or> x = CHR ''_'' \<or> x = CHR ''-'') cs)"

definition pin_re :: "string \<Rightarrow> bool" where
  "pin_re s = (case split_char CHR ''/'' s of
     [a, b] \<Rightarrow> starts_with ''gpiochip'' a \<and> length a > 8 \<and> list_all is_digit (drop 8 a)
       \<and> starts_with ''gpio'' b \<and> length b \<in> {5, 6, 7} \<and> list_all is_digit (drop 4 b)
   | _ \<Rightarrow> False)"

definition valid_device :: "pyval \<Rightarrow> bool" where
  "valid_device v = (case v of PStr s \<Rightarrow> device_re s | _ \<Rightarrow> False)"

definition valid_pin :: "pyval \<Rightarrow> bool" where
  "valid_pin v = (case v of PStr s \<Rightarrow> pin_re s | _ \<Rightarrow> False)"

definition is_bool :: "pyval \<Rightarrow> bool" where
  "is_bool v = (case v of PBool _ \<Rightarrow> True | _ \<Rightarrow> False)"

definition positive_int :: "pyval \<Rightarrow> bool" where
  "positive_int v = (case v of PInt i \<Rightarrow> 1 \<le> i | _ \<Rightarrow> False)"

definition validated :: "power_config \<Rightarrow> bool \<Rightarrow> (power_error, power_config) res" where
  "validated c allow_legacy =
     (if pc_legacy c then
        require allow_legacy (Power_config_error ''legacy power configuration must be reconciled before use'')
        (require (\<not> (py_truthy (pc_enabled c) \<and> \<not> valid_device (pc_device c)))
          (Power_config_error ''legacy POWER_DEVICE is missing or invalid'')
        (Inr c))
      else
        require (pc_schema c = power_schema) (Power_config_error ''unsupported power schema'')
        (require (positive_int (pc_revision c)) (Power_config_error ''power revision must be a positive integer'')
        (require (pc_initial_state c \<in> {PStr ''on'', PStr ''off''})
          (Power_config_error (''initial_state must be '' @ CHR 0x27 # ''on'' @ CHR 0x27 # '' or '' @ CHR 0x27 # ''off'' @ [CHR 0x27]))
        (require (is_bool (pc_enabled c)) (Power_config_error ''enabled must be a boolean'')
        (require (is_bool (pc_active_low c)) (Power_config_error ''active_low must be a boolean'')
        (require (is_bool (pc_restart_klipper c)) (Power_config_error ''restart_klipper_when_powered must be a boolean'')
        (require (is_bool (pc_off_when_shutdown c)) (Power_config_error ''off_when_shutdown must be a boolean'')
        (if py_truthy (pc_enabled c) then
           require (valid_device (pc_device c)) (Power_config_error ''POWER_DEVICE is missing or invalid'')
           (require (valid_pin (pc_pin c)) (Power_config_error ''pin must use gpiochipN/gpioN syntax'')
           (Inr c))
         else
           require (\<not> (pc_device c \<noteq> PNone \<or> pc_pin c \<noteq> PNone))
             (Power_config_error ''disabled power configuration must not name a device or pin'')
           (Inr c)))))))))"

definition power_fields :: "string list" where
  "power_fields = [''schema'', ''revision'', ''enabled'', ''device'', ''pin'', ''active_low'', ''initial_state'',
     ''restart_klipper_when_powered'', ''off_when_shutdown'']"

definition power_to_mapping :: "power_config \<Rightarrow> pydict" where
  "power_to_mapping c = zip (map KStr power_fields)
     [pc_schema c, pc_revision c, pc_enabled c, pc_device c, pc_pin c, pc_active_low c, pc_initial_state c,
      pc_restart_klipper c, pc_off_when_shutdown c]"

definition moonraker_pin :: "power_config \<Rightarrow> (power_error, string) res" where
  "moonraker_pin c = (case pc_pin c of
     PStr p \<Rightarrow> require (py_truthy (pc_enabled c)) (Power_config_error ''disabled power configuration has no Moonraker pin'')
        (Inr (if py_truthy (pc_active_low c) then ''!'' @ p else p))
   | _ \<Rightarrow> Inl (Power_config_error ''disabled power configuration has no Moonraker pin''))"

text \<open>\<open>value == 1\<close> also holds of \<open>True\<close> and of the float \<open>1.0\<close>.\<close>

definition equals_one :: "pyval \<Rightarrow> bool" where
  "equals_one v = (v \<in> {PInt 1, PBool True, PFloat ''1.0''})"

definition power_config_from_mapping :: "pyval \<Rightarrow> bool \<Rightarrow> (power_error, power_config) res" where
  "power_config_from_mapping v allow_legacy = (case v of
     PDict d \<Rightarrow>
       if equals_one (py_get d ''schema'') then
         require (is_bool (py_get d ''enabled'')) (Power_config_error ''legacy enabled must be a boolean'')
         (validated (default_power_config
            \<lparr>pc_schema := PStr ''1'', pc_revision := PInt 0, pc_enabled := py_get d ''enabled'',
             pc_device := (if py_truthy (py_get d ''enabled'') then py_get d ''device'' else PNone),
             pc_pin := PNone, pc_legacy := True\<rparr>) allow_legacy)
       else
         (let missing = filter (\<lambda>k. dict_get d (KStr k) = None) (sort power_fields) in
          require (missing = []) (Power_config_error (''power configuration is missing: '' @ join_with '', '' missing))
          (validated
            \<lparr>pc_schema = py_get d ''schema'', pc_revision = py_get d ''revision'', pc_enabled = py_get d ''enabled'',
             pc_device = py_get d ''device'', pc_pin = py_get d ''pin'', pc_active_low = py_get d ''active_low'',
             pc_initial_state = py_get d ''initial_state'',
             pc_restart_klipper = py_get d ''restart_klipper_when_powered'',
             pc_off_when_shutdown = py_get d ''off_when_shutdown'', pc_legacy = False\<rparr> False))
   | _ \<Rightarrow> Inl (Power_config_error ''KACE power configuration must be a JSON object''))"

text \<open>What reading and parsing the file gave: its value, its absence, or a failure.\<close>

datatype file_read = File_value pyval | File_missing | File_unreadable string

definition load_power_config :: "file_read \<Rightarrow> bool \<Rightarrow> (power_error, power_config) res" where
  "load_power_config f missing_disabled = (case f of
     File_missing \<Rightarrow> if missing_disabled then Inr default_power_config else Inl Power_file_missing
   | File_unreadable m \<Rightarrow> Inl (Power_config_error (''could not read power configuration: '' @ m))
   | File_value v \<Rightarrow> power_config_from_mapping v True)"

subsection \<open>The controller\<close>

datatype power_exn = Power_controller_error string | Power_os string | Power_timeout string | Power_other string

record 'w power_host =
  ph_devices :: "('w, power_exn, bool \<times> string \<times> pyval list) action"
  ph_set :: "string \<Rightarrow> string \<Rightarrow> ('w, power_exn, bool \<times> string) action"
  ph_monotonic :: "('w, power_exn, int) action"
  ph_sleep :: "int \<Rightarrow> ('w, power_exn, unit) action"
  ph_timestamp :: "('w, power_exn, string) action"

record power_controller =
  po_device :: string
  po_poll_interval :: int

definition valid_states :: "string list" where
  "valid_states = [''on'', ''off'', ''init'', ''error'']"

definition make_controller :: "string \<Rightarrow> int \<Rightarrow> (power_exn, power_controller) res" where
  "make_controller device interval =
     require (device_re device) (Power_other ''POWER_DEVICE is missing or invalid'')
       (Inr \<lparr>po_device = device, po_poll_interval = interval\<rparr>)"

definition status_text :: "pyval \<Rightarrow> string" where
  "status_text v = (case v of PStr s \<Rightarrow> py_lower s | _ \<Rightarrow> ''error'')"

text \<open>A name in single quotes, as the messages give it.\<close>

definition quoted :: "string \<Rightarrow> string" where
  "quoted s = CHR 0x27 # s @ [CHR 0x27]"

definition device_error :: "power_controller \<Rightarrow> power_exn" where
  "device_error pc = Power_controller_error (''Moonraker power device '' @ quoted (po_device pc) @ '' entered error state'')"

text \<open>The first entry of the list that names the device; a status that is no text is no valid state.\<close>

definition device_status :: "power_controller \<Rightarrow> pyval list \<Rightarrow> (power_exn, string) res" where
  "device_status pc devices =
     (case find (\<lambda>v. case v of PDict d \<Rightarrow> py_get d ''device'' = PStr (po_device pc) | _ \<Rightarrow> False) devices of
       Some (PDict d) \<Rightarrow>
         (let s = status_text (py_get_or d ''status'' (PStr ''error'')) in
          Inr (if s \<in> set valid_states then s else ''error''))
     | _ \<Rightarrow> Inl (Power_controller_error (''POWER_DEVICE '' @ quoted (po_device pc) @ '' is not configured in Moonraker'')))"

definition get_status :: "'w power_host \<Rightarrow> power_controller \<Rightarrow> ('w, power_exn, string) action" where
  "get_status h pc =
     bindS (ph_devices h) (\<lambda>(ok, detail, devices).
     bindS (requireS ok (Power_controller_error (''Moonraker Power API unavailable: '' @ detail))) (\<lambda>_.
     liftS (device_status pc devices)))"

definition ready_turn :: "'w power_host \<Rightarrow> power_controller \<Rightarrow> int \<Rightarrow> unit \<Rightarrow> ('w, power_exn, unit + string) action" where
  "ready_turn h pc deadline u =
     bindS (get_status h pc) (\<lambda>status.
     bindS (requireS (status \<noteq> ''error'') (device_error pc)) (\<lambda>_.
     if status \<noteq> ''init'' then returnS (Inr status)
     else bindS (ph_monotonic h) (\<lambda>now.
       bindS (requireS (\<not> deadline \<le> now) (Power_controller_error
         (''timed out waiting for power device '' @ quoted (po_device pc) @ '' to leave init''))) (\<lambda>_.
       bindS (ph_sleep h (po_poll_interval pc)) (\<lambda>_. returnS (Inl ()))))))"

definition wait_until_ready :: "nat \<Rightarrow> 'w power_host \<Rightarrow> power_controller \<Rightarrow> int \<Rightarrow> ('w, power_exn, string option) action" where
  "wait_until_ready fuel h pc timeout =
     bindS (ph_monotonic h) (\<lambda>now. poll fuel (ready_turn h pc (now + timeout)) ())"

definition reach_turn ::
    "'w power_host \<Rightarrow> power_controller \<Rightarrow> string \<Rightarrow> int \<Rightarrow> unit \<Rightarrow> ('w, power_exn, unit + string) action" where
  "reach_turn h pc target deadline u =
     bindS (get_status h pc) (\<lambda>status.
     if status = target then returnS (Inr status)
     else bindS (requireS (status \<noteq> ''error'') (device_error pc)) (\<lambda>_.
       bindS (ph_monotonic h) (\<lambda>now.
       bindS (requireS (\<not> deadline \<le> now) (Power_controller_error
         (''power device '' @ quoted (po_device pc) @ '' did not reach '' @ target))) (\<lambda>_.
       bindS (ph_sleep h (po_poll_interval pc)) (\<lambda>_. returnS (Inl ()))))))"

definition set_and_confirm ::
    "nat \<Rightarrow> 'w power_host \<Rightarrow> power_controller \<Rightarrow> string \<Rightarrow> int \<Rightarrow> ('w, power_exn, string option) action" where
  "set_and_confirm fuel h pc target timeout =
     bindS (wait_until_ready fuel h pc timeout) (\<lambda>r. case r of
       None \<Rightarrow> returnS None
     | Some _ \<Rightarrow>
         bindS (ph_set h (po_device pc) target) (\<lambda>(ok, detail).
         bindS (requireS ok (Power_controller_error
           (''could not switch power device '' @ quoted (po_device pc) @ '' '' @ target @ '': '' @ detail))) (\<lambda>_.
         bindS (ph_monotonic h) (\<lambda>now. poll fuel (reach_turn h pc target (now + timeout)) ()))))"

definition power_on :: "nat \<Rightarrow> 'w power_host \<Rightarrow> power_controller \<Rightarrow> int \<Rightarrow> ('w, power_exn, string option) action" where
  "power_on fuel h pc timeout = set_and_confirm fuel h pc ''on'' timeout"

definition power_off :: "nat \<Rightarrow> 'w power_host \<Rightarrow> power_controller \<Rightarrow> int \<Rightarrow> ('w, power_exn, string option) action" where
  "power_off fuel h pc timeout = set_and_confirm fuel h pc ''off'' timeout"

subsection \<open>The operator's view\<close>

datatype printer_power = Power_ON | Power_OFF | Power_UNKNOWN

record manual_power_result =
  mp_state :: printer_power
  mp_timestamp :: string
  mp_detail :: string
  mp_requested_action :: string
  mp_confirmed :: bool

definition power_state_of :: "string \<Rightarrow> printer_power" where
  "power_state_of s = (let l = py_lower s in if l = ''on'' then Power_ON else if l = ''off'' then Power_OFF else Power_UNKNOWN)"

definition power_message :: "power_exn \<Rightarrow> string" where
  "power_message e = (case e of Power_controller_error m \<Rightarrow> m | Power_os m \<Rightarrow> m | Power_timeout m \<Rightarrow> m | Power_other m \<Rightarrow> m)"

definition power_caught :: "power_exn \<Rightarrow> bool" where
  "power_caught e = (case e of Power_other _ \<Rightarrow> False | _ \<Rightarrow> True)"

definition refresh_power :: "'w power_host \<Rightarrow> power_controller \<Rightarrow> ('w, power_exn, manual_power_result) action" where
  "refresh_power h pc =
     bindS (catchS (bindS (get_status h pc) (\<lambda>raw.
        let state = power_state_of raw in
        returnS (state, if state \<noteq> Power_UNKNOWN then ''Moonraker confirmed '' @ raw
          else ''Moonraker reported non-terminal state '' @ quoted raw)))
       (\<lambda>e. if power_caught e then returnS (Power_UNKNOWN, power_message e) else raiseS e)) (\<lambda>(state, detail).
     bindS (ph_timestamp h) (\<lambda>t.
     returnS \<lparr>mp_state = state, mp_timestamp = t, mp_detail = detail, mp_requested_action = [], mp_confirmed = False\<rparr>))"

definition request_power ::
    "nat \<Rightarrow> 'w power_host \<Rightarrow> power_controller \<Rightarrow> bool \<Rightarrow> int \<Rightarrow> ('w, power_exn, manual_power_result option) action" where
  "request_power fuel h pc on timeout =
     (let wanted = (if on then ''ON'' else ''OFF''); expected = (if on then Power_ON else Power_OFF) in
      bindS (catchS
        (bindS (if on then power_on fuel h pc timeout else power_off fuel h pc timeout) (\<lambda>r. case r of
           None \<Rightarrow> returnS None
         | Some _ \<Rightarrow>
             bindS (get_status h pc) (\<lambda>observed.
             let state = power_state_of observed in
             returnS (Some (state, state = expected,
               if state = expected then ''Moonraker confirmed relay '' @ wanted
               else ''relay command returned but Moonraker reports '' @ quoted observed)))))
        (\<lambda>e. if power_caught e then returnS (Some (Power_UNKNOWN, False, power_message e)) else raiseS e)) (\<lambda>r.
      case r of None \<Rightarrow> returnS None
      | Some (state, ok, detail) \<Rightarrow>
          bindS (ph_timestamp h) (\<lambda>t.
          returnS (Some \<lparr>mp_state = state, mp_timestamp = t, mp_detail = detail, mp_requested_action = wanted,
            mp_confirmed = ok\<rparr>))))"

definition configured_power_controller :: "file_read \<Rightarrow> (power_exn, power_controller option) res" where
  "configured_power_controller f = (case load_power_config f True of
     Inl (Power_config_error m) \<Rightarrow> Inl (Power_controller_error (''could not read power configuration: '' @ m))
   | Inl Power_file_missing \<Rightarrow> Inl (Power_controller_error ''could not read power configuration'')
   | Inr c \<Rightarrow>
       if \<not> py_truthy (pc_enabled c) then Inr None
       else (case pc_device c of
         PStr d \<Rightarrow> bindE (make_controller d 500) (\<lambda>pc. Inr (Some pc))
       | _ \<Rightarrow> Inl (Power_other ''POWER_DEVICE is missing or invalid'')))"

subsection \<open>Loaded configurations\<close>

definition power_wf :: "power_config \<Rightarrow> bool" where
  "power_wf c = (is_bool (pc_enabled c) \<and> (pc_enabled c = PBool True \<longrightarrow> valid_device (pc_device c))
     \<and> (\<not> pc_legacy c \<longrightarrow> pc_schema c = power_schema \<and> positive_int (pc_revision c)
          \<and> pc_initial_state c \<in> {PStr ''on'', PStr ''off''} \<and> is_bool (pc_active_low c)
          \<and> is_bool (pc_restart_klipper c) \<and> is_bool (pc_off_when_shutdown c)
          \<and> (pc_enabled c = PBool True \<longrightarrow> valid_pin (pc_pin c))
          \<and> (pc_enabled c = PBool False \<longrightarrow> pc_device c = PNone \<and> pc_pin c = PNone)))"

lemma truthy_bool: "is_bool v \<Longrightarrow> py_truthy v = (v = PBool True)"
  by (auto simp: is_bool_def py_truthy_def split: pyval.splits)

lemma validated_wf: "validated c a = Inr c' \<Longrightarrow> is_bool (pc_enabled c) \<Longrightarrow> power_wf c' \<and> c' = c"
  by (auto simp: validated_def power_wf_def result_simps truthy_bool split: if_splits)

lemma validated_bool: "validated c a = Inr c' \<Longrightarrow> \<not> pc_legacy c \<Longrightarrow> is_bool (pc_enabled c)"
  by (auto simp: validated_def result_simps split: if_splits)

lemma wf_validated: "power_wf c \<Longrightarrow> \<not> pc_legacy c \<Longrightarrow> validated c a = Inr c"
  by (auto simp: validated_def power_wf_def truthy_bool is_bool_def split: pyval.splits)

lemma loaded_power_wf: "load_power_config f m = Inr c \<Longrightarrow> power_wf c"
proof -
  assume l: "load_power_config f m = Inr c"
  show ?thesis
  proof (cases f)
    case (File_value v)
    with l obtain d where d: "v = PDict d" by (cases v) (simp_all add: load_power_config_def power_config_from_mapping_def)
    show ?thesis
    proof (cases "equals_one (py_get d ''schema'')")
      case True
      with l d File_value show ?thesis
        by (auto simp: load_power_config_def power_config_from_mapping_def result_simps dest!: validated_wf)
    next
      case False
      with l d File_value obtain c0 where "validated c0 False = Inr c" "\<not> pc_legacy c0"
        by (auto simp: load_power_config_def power_config_from_mapping_def result_simps Let_def)
      with validated_bool validated_wf show ?thesis by blast
    qed
  qed (use l in \<open>auto simp: load_power_config_def default_power_config_def power_wf_def is_bool_def positive_int_def
         power_schema_def split: if_splits\<close>)
qed

lemma missing_fields: "filter (\<lambda>k. dict_get (power_to_mapping c) (KStr k) = None) (sort power_fields) = []"
  by (simp add: power_to_mapping_def power_fields_def dict_get_def)

lemma mapping_fields:
  "py_get (power_to_mapping c) ''schema'' = pc_schema c" "py_get (power_to_mapping c) ''revision'' = pc_revision c"
  "py_get (power_to_mapping c) ''enabled'' = pc_enabled c" "py_get (power_to_mapping c) ''device'' = pc_device c"
  "py_get (power_to_mapping c) ''pin'' = pc_pin c" "py_get (power_to_mapping c) ''active_low'' = pc_active_low c"
  "py_get (power_to_mapping c) ''initial_state'' = pc_initial_state c"
  "py_get (power_to_mapping c) ''restart_klipper_when_powered'' = pc_restart_klipper c"
  "py_get (power_to_mapping c) ''off_when_shutdown'' = pc_off_when_shutdown c"
  by (simp_all add: power_to_mapping_def power_fields_def py_get_def dict_get_def)

text \<open>
  The persisted form is faithful: whatever current configuration was loaded, writing its mapping and
  reading it back gives the same configuration, and a loaded one that is enabled names a well-formed
  device and pin while a disabled one names neither.
\<close>

theorem power_mapping_roundtrip:
  assumes "load_power_config f missing_disabled = Inr c" and "\<not> pc_legacy c"
  shows "power_config_from_mapping (PDict (power_to_mapping c)) allow_legacy = Inr c
     \<and> (if pc_enabled c = PBool True then valid_device (pc_device c) \<and> valid_pin (pc_pin c)
        else pc_device c = PNone \<and> pc_pin c = PNone)"
proof -
  from loaded_power_wf [OF assms(1)] have wf: "power_wf c" .
  with assms(2) have s: "\<not> equals_one (pc_schema c)"
    by (auto simp: power_wf_def equals_one_def power_schema_def)
  have "c = \<lparr>pc_schema = pc_schema c, pc_revision = pc_revision c, pc_enabled = pc_enabled c, pc_device = pc_device c,
     pc_pin = pc_pin c, pc_active_low = pc_active_low c, pc_initial_state = pc_initial_state c,
     pc_restart_klipper = pc_restart_klipper c, pc_off_when_shutdown = pc_off_when_shutdown c, pc_legacy = False\<rparr>"
    using assms(2) by simp
  with s wf_validated [OF wf assms(2), of False]
  have "power_config_from_mapping (PDict (power_to_mapping c)) allow_legacy = Inr c"
    by (simp add: power_config_from_mapping_def mapping_fields missing_fields Let_def)
  moreover have "pc_enabled c = PBool True \<or> pc_enabled c = PBool False"
    using wf by (auto simp: power_wf_def is_bool_def split: pyval.splits)
  ultimately show ?thesis using wf assms(2) by (auto simp: power_wf_def)
qed

theorem power_mapping_roundtrip_witness:
  "power_config_from_mapping (PDict (power_to_mapping (default_power_config \<lparr>pc_enabled := PBool True,
      pc_device := PStr ''relay'', pc_pin := PStr ''gpiochip0/gpio17''\<rparr>))) False =
    Inr (default_power_config \<lparr>pc_enabled := PBool True, pc_device := PStr ''relay'', pc_pin := PStr ''gpiochip0/gpio17''\<rparr>)"
proof -
  let ?c = "default_power_config \<lparr>pc_enabled := PBool True, pc_device := PStr ''relay'', pc_pin := PStr ''gpiochip0/gpio17''\<rparr>"
  have "load_power_config (File_value (PDict (power_to_mapping ?c))) True = Inr ?c" by code_simp
  from power_mapping_roundtrip [OF this, of False] show ?thesis by (simp add: default_power_config_def)
qed

subsection \<open>Switching ends and is confirmed\<close>

definition power_clock :: "'w power_host \<Rightarrow> ('w \<Rightarrow> int) \<Rightarrow> bool" where
  "power_clock h now =
     (ph_monotonic h = getS now
      \<and> (\<forall>d s r s'. ph_sleep h d s = (r, s') \<longrightarrow> now s + d \<le> now s')
      \<and> (\<forall>s r s'. ph_devices h s = (r, s') \<longrightarrow> now s \<le> now s'))"

lemma status_clock: "power_clock h now \<Longrightarrow> get_status h pc s = (Inr x, s') \<Longrightarrow> now s \<le> now s'"
  by (auto simp: power_clock_def get_status_def state_simps)

lemma turns_advance:
  assumes h: "power_clock h now" and p: "0 < po_poll_interval pc"
  shows "ready_turn h pc deadline u s = (Inr (Inl u'), s') \<Longrightarrow> nat (deadline - now s') < nat (deadline - now s)"
    and "reach_turn h pc target deadline u s = (Inr (Inl u'), s') \<Longrightarrow> nat (deadline - now s') < nat (deadline - now s)"
proof -
  have m: "ph_monotonic h = getS now" using h by (simp add: power_clock_def)
  have slept: "nat (deadline - now s') < nat (deadline - now s)"
    if "get_status h pc s = (Inr x, s1)" "\<not> deadline \<le> now s1" "ph_sleep h (po_poll_interval pc) s1 = (Inr (), s')" for s x s1 s'
  proof -
    have "now s \<le> now s1" by (rule status_clock [OF h that(1)])
    moreover have "now s1 + po_poll_interval pc \<le> now s'" using h that(3) by (simp add: power_clock_def)
    ultimately show ?thesis using p that(2) by simp
  qed
  show "ready_turn h pc deadline u s = (Inr (Inl u'), s') \<Longrightarrow> nat (deadline - now s') < nat (deadline - now s)"
    using slept by (auto simp: ready_turn_def m state_simps simp del: zless_nat_conj nat_less_iff split: if_splits)
  show "reach_turn h pc target deadline u s = (Inr (Inl u'), s') \<Longrightarrow> nat (deadline - now s') < nat (deadline - now s)"
    using slept by (auto simp: reach_turn_def m state_simps simp del: zless_nat_conj nat_less_iff split: if_splits)
qed

lemma power_poll_ends:
  assumes h: "power_clock h now" and p: "0 < po_poll_interval pc" and fuel: "nat timeout < fuel"
  shows "poll fuel (ready_turn h pc (now s + timeout)) u s \<noteq> (Inr None, s')"
    and "poll fuel (reach_turn h pc target (now s + timeout)) u s \<noteq> (Inr None, s')"
  by (rule poll_ends [where left = "\<lambda>w. nat (now s + timeout - now w)"],
      erule turns_advance [OF h p], use fuel in simp)+

text \<open>
  Switching the relay ends and is never reported on trust: with a running clock, fuel above the
  timeout in milliseconds suffices, and the call returns only the state it was asked for, as read back
  from Moonraker; every other outcome is an exception.
\<close>

theorem power_switch_confirmed:
  assumes "power_clock h now" and "0 < po_poll_interval pc" and "nat timeout < fuel"
  shows "fst (set_and_confirm fuel h pc target timeout s) \<noteq> Inr None
     \<and> yields (set_and_confirm fuel h pc target timeout) (\<lambda>r. \<forall>x. r = Some x \<longrightarrow> x = target)"
proof
  have m: "ph_monotonic h = getS now" using assms(1) by (simp add: power_clock_def)
  have ready: "wait_until_ready fuel h pc timeout s0 \<noteq> (Inr None, s1)" for s0 s1
    using power_poll_ends(1) [OF assms] by (simp add: wait_until_ready_def m bindS_def getS_def)
  show "fst (set_and_confirm fuel h pc target timeout s) \<noteq> Inr None"
  proof
    assume "fst (set_and_confirm fuel h pc target timeout s) = Inr None"
    then obtain s' where "set_and_confirm fuel h pc target timeout s = (Inr None, s')" by (metis prod.collapse)
    then obtain q s1 where w: "wait_until_ready fuel h pc timeout s = (Inr q, s1)"
      and k: "(case q of None \<Rightarrow> returnS None
     | Some _ \<Rightarrow>
         bindS (ph_set h (po_device pc) target) (\<lambda>(ok, detail).
         bindS (requireS ok (Power_controller_error
           (''could not switch power device '' @ quoted (po_device pc) @ '' '' @ target @ '': '' @ detail))) (\<lambda>_.
         bindS (ph_monotonic h) (\<lambda>now. poll fuel (reach_turn h pc target (now + timeout)) ())))) s1 = (Inr None, s')"
      by (auto simp: set_and_confirm_def bindS_eq [of "wait_until_ready _ _ _ _"])
    from w ready obtain y where "q = Some y" by (cases q) auto
    with k obtain s2 where "poll fuel (reach_turn h pc target (now s2 + timeout)) () s2 = (Inr None, s')"
      by (auto simp: m bindS_eq requireS_eq getS_eq)
    with power_poll_ends(2) [OF assms] show False by blast
  qed
  have "yields (reach_turn h pc target deadline u) (\<lambda>r. \<forall>x. r = Inr x \<longrightarrow> x = target)" for deadline u
    unfolding reach_turn_def by (intro yields_intros) simp_all
  then show "yields (set_and_confirm fuel h pc target timeout) (\<lambda>r. \<forall>x. r = Some x \<longrightarrow> x = target)"
    unfolding set_and_confirm_def by (auto intro!: yields_intros yields_poll split: prod.splits)
qed

definition ex_power_host :: "(int \<times> string) power_host" where
  "ex_power_host = \<lparr>ph_devices = bindS (getS snd) (\<lambda>st. returnS (True, [],
       [PDict [(KStr ''device'', PStr ''relay''), (KStr ''status'', PStr st)]])),
     ph_set = (\<lambda>d a. bindS (modifyS (\<lambda>(t, _). (t, a))) (\<lambda>_. returnS (True, []))),
     ph_monotonic = getS fst, ph_sleep = (\<lambda>d. modifyS (\<lambda>(t, st). (t + d, st))), ph_timestamp = returnS ''t''\<rparr>"

theorem power_switch_confirmed_witness:
  "fst (set_and_confirm 3 ex_power_host \<lparr>po_device = ''relay'', po_poll_interval = 1\<rparr> ''on'' 2 (0, ''off'')) \<noteq> Inr None"
proof -
  have "power_clock ex_power_host fst"
    by (auto simp: power_clock_def ex_power_host_def bindS_def getS_def returnS_def modifyS_def)
  from power_switch_confirmed [OF this, of "\<lparr>po_device = ''relay'', po_poll_interval = 1\<rparr>" 2 3] show ?thesis by simp
qed

end
