(* ===== verification/Posix_Path.thy ===== *)
theory Posix_Path
  imports Py_Text
begin

text \<open>
  The path functions of \<open>posixpath\<close> the configuration code calls, and when a normalised relative
  path stays below the directory it is resolved against.
\<close>

definition path_sep :: char where "path_sep = CHR ''/''"

definition rooted :: "string \<Rightarrow> bool" where
  "rooted p = starts_with ''/'' p"

text \<open>\<open>posixpath.join(a, b)\<close>, \<open>posixpath.dirname\<close>, \<open>posixpath.normpath\<close>.\<close>

definition posix_join :: "string \<Rightarrow> string \<Rightarrow> string" where
  "posix_join a b = (if rooted b then b else if a = [] \<or> ends_with ''/'' a then a @ b else a @ ''/'' @ b)"

definition posix_dirname :: "string \<Rightarrow> string" where
  "posix_dirname p =
     (let parts = split_char path_sep p; up = concat (map (\<lambda>w. w @ ''/'') (butlast parts)) in
      if list_all (\<lambda>c. c = path_sep) up then up else rev (dropWhile (\<lambda>c. c = path_sep) (rev up)))"

definition norm_step :: "bool \<Rightarrow> string list \<Rightarrow> string \<Rightarrow> string list" where
  "norm_step absolute seen w =
     (if w = [] \<or> w = ''.'' then seen
      else if w \<noteq> ''..'' \<or> (\<not> absolute \<and> seen = []) \<or> (seen \<noteq> [] \<and> last seen = ''..'') then seen @ [w]
      else if seen \<noteq> [] then butlast seen else seen)"

definition norm_parts :: "bool \<Rightarrow> string \<Rightarrow> string list" where
  "norm_parts absolute p = foldl (norm_step absolute) [] (split_char path_sep p)"

definition norm_slashes :: "string \<Rightarrow> string" where
  "norm_slashes p = (if \<not> rooted p then [] else if starts_with ''//'' p \<and> \<not> starts_with ''///'' p then ''//'' else ''/'')"

definition posix_normpath :: "string \<Rightarrow> string" where
  "posix_normpath p =
     (if p = [] then ''.''
      else (let r = norm_slashes p @ join_with ''/'' (norm_parts (rooted p) p) in
        if r = [] then ''.'' else r))"

text \<open>A relative path none of whose parts leads upwards.\<close>

definition confined :: "string \<Rightarrow> bool" where
  "confined p = (\<not> rooted p \<and> ''..'' \<notin> set (split_char path_sep p))"

subsection \<open>Normalised parts\<close>

text \<open>Of a relative path: upward parts first, then ordinary ones.\<close>

definition ordinary :: "string \<Rightarrow> bool" where
  "ordinary w = (w \<noteq> [] \<and> w \<noteq> ''.'' \<and> w \<noteq> ''..'' \<and> path_sep \<notin> set w)"

lemma norm_step_shape:
  assumes "path_sep \<notin> set w" and "list_all ordinary ws"
  obtains m vs where "norm_step absolute (replicate k ''..'' @ ws) w = replicate m ''..'' @ vs" "list_all ordinary vs"
proof (cases "w = [] \<or> w = ''.''")
  case True
  then show ?thesis using that [of k ws] assms(2) by (simp add: norm_step_def)
next
  case ne: False
  show ?thesis
  proof (cases "w = ''..''")
    case False
    then have "norm_step absolute (replicate k ''..'' @ ws) w = replicate k ''..'' @ (ws @ [w])"
      using ne by (simp add: norm_step_def)
    moreover have "list_all ordinary (ws @ [w])" using False ne assms by (simp add: ordinary_def)
    ultimately show ?thesis by (rule that)
  next
    case up: True
    show ?thesis
    proof (cases ws rule: rev_cases)
      case Nil
      have "norm_step absolute (replicate k ''..'' @ ws) w = replicate (Suc k) ''..'' @ [] \<or>
            norm_step absolute (replicate k ''..'' @ ws) w = [] @ []"
        using up Nil by (cases k) (auto simp: norm_step_def replicate_append_same)
      then show ?thesis using that [of "Suc k" "[]"] that [of 0 "[]"] by auto
    next
      case (snoc us u)
      then have "u \<noteq> ''..''" using assms(2) by (simp add: ordinary_def)
      then have "norm_step absolute (replicate k ''..'' @ ws) w = replicate k ''..'' @ us"
        using up snoc by (simp add: norm_step_def butlast_append)
      moreover have "list_all ordinary us" using assms(2) snoc by simp
      ultimately show ?thesis by (rule that)
    qed
  qed
qed

lemma norm_parts_shape:
  obtains k ws where "norm_parts absolute p = replicate k ''..'' @ ws" "list_all ordinary ws"
proof -
  have "\<exists>m vs. foldl (norm_step absolute) (replicate k ''..'' @ ws) xs = replicate m ''..'' @ vs \<and> list_all ordinary vs"
    if "\<forall>w \<in> set xs. path_sep \<notin> set w" and "list_all ordinary ws" for k ws xs
    using that
  proof (induction xs arbitrary: k ws)
    case (Cons w xs)
    from Cons.prems obtain m vs where "norm_step absolute (replicate k ''..'' @ ws) w = replicate m ''..'' @ vs"
      and "list_all ordinary vs" by (metis norm_step_shape list.set_intros(1))
    with Cons show ?case by (simp add: Cons.IH)
  qed auto
  from this [of "split_char path_sep p" "[]" 0] show ?thesis
    using that split_char_no_sep by (auto simp: norm_parts_def)
qed

lemma split_join:
  assumes "ws \<noteq> []" and "\<forall>w \<in> set ws. c \<notin> set w"
  shows "split_char c (join_with [c] ws) = ws"
  using assms
proof (induction "[c]" ws rule: join_with.induct)
  case (2 w)
  have "split_char c w = [w]" if "c \<notin> set w" for w
    using that by (induction w) auto
  with 2 show ?case by simp
next
  case (3 w v vs)
  have "split_char c (u @ c # z) = u # split_char c z" if "c \<notin> set u" for u z
    using that by (induction u) auto
  with 3 show ?case by simp
qed simp

lemma join_not_rooted: "list_all ordinary ws \<Longrightarrow> \<not> rooted (join_with ''/'' (replicate k ''..'' @ ws))"
proof (cases "replicate k ''..'' @ ws")
  case (Cons w vs)
  assume o: "list_all ordinary ws"
  with Cons have "w = ''..'' \<or> ordinary w" by (cases k) auto
  then have "w \<noteq> [] \<and> hd w \<noteq> path_sep" by (cases w) (auto simp: ordinary_def path_sep_def)
  then show ?thesis using Cons by (cases vs; cases w) (auto simp: rooted_def path_sep_def)
qed (simp add: rooted_def)

text \<open>The check made after normalising: a relative path that neither is nor begins with an upward part.\<close>

lemma normpath_confined:
  assumes "\<not> rooted p" and "posix_normpath p \<noteq> ''..''" and "\<not> starts_with ''../'' (posix_normpath p)"
  shows "confined (posix_normpath p)"
proof (cases "norm_parts False p = []")
  case True
  then have "posix_normpath p = ''.''" using assms(1) by (simp add: posix_normpath_def norm_slashes_def)
  then show ?thesis by (simp add: confined_def rooted_def path_sep_def)
next
  case ne: False
  obtain k ws where s: "norm_parts False p = replicate k ''..'' @ ws" "list_all ordinary ws"
    by (rule norm_parts_shape)
  have p: "p \<noteq> []" using ne by (auto simp: norm_parts_def norm_step_def)
  have j: "join_with ''/'' (norm_parts False p) \<noteq> []"
    using s ne by (cases k; cases ws; cases "tl (norm_parts False p)") (auto simp: ordinary_def neq_Nil_conv)
  have n: "posix_normpath p = join_with ''/'' (replicate k ''..'' @ ws)"
    using assms(1) p j s by (simp add: posix_normpath_def norm_slashes_def)
  have k0: "k = 0"
  proof (cases k)
    case (Suc m)
    show ?thesis
    proof (cases "replicate m ''..'' @ ws")
      case Nil
      with n Suc assms(2) show ?thesis by simp
    next
      case (Cons v vs)
      with n Suc have "posix_normpath p = ''../'' @ join_with ''/'' (v # vs)" by simp
      with assms(3) show ?thesis by simp
    qed
  qed simp
  have "split_char path_sep (join_with [path_sep] ws) = ws"
    using s ne k0 by (intro split_join) (auto simp: list_all_iff ordinary_def)
  then have "split_char path_sep (posix_normpath p) = ws" using n k0 by (simp add: path_sep_def)
  moreover have "''..'' \<notin> set ws" using s(2) by (auto simp: list_all_iff ordinary_def)
  ultimately show ?thesis using join_not_rooted [OF s(2), of k] n by (simp add: confined_def)
qed

lemma rooted_append: "rooted y \<Longrightarrow> rooted (y @ z)"
  by (auto simp: rooted_def starts_with_iff)

lemma join_relative: "\<not> rooted a \<Longrightarrow> \<not> rooted b \<Longrightarrow> \<not> rooted (posix_join a b)"
  by (cases a) (auto simp: posix_join_def rooted_def)

lemma dirname_relative: "\<not> rooted p \<Longrightarrow> \<not> rooted (posix_dirname p)"
proof -
  assume r: "\<not> rooted p"
  define up where "up = concat (map (\<lambda>w. w @ ''/'') (butlast (split_char path_sep p)))"
  have join: "\<exists>z. concat (map (\<lambda>w. w @ ''/'') (butlast ws)) @ z = join_with [path_sep] ws" for ws
    by (induction "[path_sep]" ws rule: join_with.induct) (auto simp: path_sep_def)
  have "\<exists>z. p = up @ z" using join [of "split_char path_sep p"] by (metis up_def join_split_char)
  then have u: "\<not> rooted up" using r rooted_append by blast
  have pre: "\<exists>z. up = rev (dropWhile Q (rev up)) @ z" for Q
    by (metis rev_append rev_rev_ident takeWhile_dropWhile_id)
  have "\<not> rooted (rev (dropWhile Q (rev up)))" for Q
    using pre [of Q] u rooted_append by metis
  then show ?thesis using u by (simp add: posix_dirname_def Let_def up_def)
qed

end
