(* ===== verification/Py_Logic.thy ===== *)
theory Py_Logic
  imports Py_Poll
begin

text \<open>
  Weakest preconditions for actions: \<open>wp core m Q E c\<close> says that from every state whose core is
  \<open>c\<close> the action either returns \<open>x\<close> and leaves a core with \<open>Q x\<close>, or raises \<open>e\<close> and leaves one
  with \<open>E e\<close>.  The core is the part of the state an outside world cannot touch.  The rules are
  read backwards, so that \<open>intro wp_intros\<close> walks through a program.
\<close>

definition wp :: "('s \<Rightarrow> 'c) \<Rightarrow> ('s, 'e, 'a) action \<Rightarrow> ('a \<Rightarrow> 'c \<Rightarrow> bool) \<Rightarrow> ('e \<Rightarrow> 'c \<Rightarrow> bool) \<Rightarrow> 'c \<Rightarrow> bool" where
  "wp core m Q E c = (\<forall>s. core s = c \<longrightarrow>
     (case m s of (Inl e, s') \<Rightarrow> E e (core s') | (Inr x, s') \<Rightarrow> Q x (core s')))"

text \<open>Actions that never change the core.\<close>

definition silent :: "('s \<Rightarrow> 'c) \<Rightarrow> ('s, 'e, 'a) action \<Rightarrow> bool" where
  "silent core m = (\<forall>s. core (snd (m s)) = core s)"

named_theorems wp_intros \<open>weakest preconditions, by the structure of the action\<close>
named_theorems silent_intros \<open>actions that leave the core alone\<close>

lemma wp_return [wp_intros]: "Q x c \<Longrightarrow> wp core (returnS x) Q E c"
  by (simp add: wp_def returnS_def)

lemma wp_raise [wp_intros]: "E e c \<Longrightarrow> wp core (raiseS e) Q E c"
  by (simp add: wp_def raiseS_def)

lemma wp_bind [wp_intros]: "wp core m (\<lambda>x. wp core (k x) Q E) E c \<Longrightarrow> wp core (bindS m k) Q E c"
  unfolding wp_def bindS_def by (auto split: prod.splits sum.splits)

lemma wp_lift [wp_intros]:
  "(\<And>x. r = Inr x \<Longrightarrow> Q x c) \<Longrightarrow> (\<And>e. r = Inl e \<Longrightarrow> E e c) \<Longrightarrow> wp core (liftS r) Q E c"
  by (simp add: wp_def liftS_def split: sum.splits)

lemma wp_get: "(\<And>s. core s = c \<Longrightarrow> Q (f s) c) \<Longrightarrow> wp core (getS f) Q E c"
  by (simp add: wp_def getS_def)

lemma wp_modify: "(\<And>s. core s = c \<Longrightarrow> Q () (core (f s))) \<Longrightarrow> wp core (modifyS f) Q E c"
  by (simp add: wp_def modifyS_def)

lemma wp_require [wp_intros]: "(b \<Longrightarrow> Q () c) \<Longrightarrow> (\<not> b \<Longrightarrow> E e c) \<Longrightarrow> wp core (requireS b e) Q E c"
  by (simp add: requireS_def wp_intros)

lemma wp_when [wp_intros]: "(b \<Longrightarrow> wp core m Q E c) \<Longrightarrow> (\<not> b \<Longrightarrow> Q () c) \<Longrightarrow> wp core (whenS b m) Q E c"
  by (simp add: whenS_def wp_intros)

lemma wp_catch [wp_intros]: "wp core m Q (\<lambda>e. wp core (h e) Q E) c \<Longrightarrow> wp core (catchS m h) Q E c"
  unfolding wp_def catchS_def by (auto split: prod.splits sum.splits)

lemma wp_finally [wp_intros]:
  "wp core m (\<lambda>x. wp core f (\<lambda>_. Q x) E) (\<lambda>e. wp core f (\<lambda>_. E e) E) c \<Longrightarrow> wp core (finallyS m f) Q E c"
  unfolding wp_def finallyS_def by (auto split: prod.splits sum.splits)

lemma wp_if [wp_intros]: "(b \<Longrightarrow> wp core m Q E c) \<Longrightarrow> (\<not> b \<Longrightarrow> wp core n Q E c) \<Longrightarrow> wp core (if b then m else n) Q E c"
  by simp

lemma wp_option [wp_intros]:
  "(q = None \<Longrightarrow> wp core m Q E c) \<Longrightarrow> (\<And>x. q = Some x \<Longrightarrow> wp core (f x) Q E c) \<Longrightarrow>
   wp core (case q of None \<Rightarrow> m | Some x \<Rightarrow> f x) Q E c"
  by (cases q) simp_all

lemma wp_sum [wp_intros]:
  "(\<And>x. q = Inl x \<Longrightarrow> wp core (f x) Q E c) \<Longrightarrow> (\<And>x. q = Inr x \<Longrightarrow> wp core (g x) Q E c) \<Longrightarrow>
   wp core (case q of Inl x \<Rightarrow> f x | Inr x \<Rightarrow> g x) Q E c"
  by (cases q) simp_all

lemma wp_prod [wp_intros]: "(\<And>a b. p = (a, b) \<Longrightarrow> wp core (f a b) Q E c) \<Longrightarrow> wp core (case p of (a, b) \<Rightarrow> f a b) Q E c"
  by (cases p) simp

lemma wp_let [wp_intros]: "wp core (f v) Q E c \<Longrightarrow> wp core (let x = v in f x) Q E c"
  by simp

text \<open>A specification proved before, and the loops with an invariant.\<close>

lemma wp_conseq:
  assumes "wp core m Q E c" and "\<And>x c'. Q x c' \<Longrightarrow> Q' x c'" and "\<And>e c'. E e c' \<Longrightarrow> E' e c'"
  shows "wp core m Q' E' c"
  using assms unfolding wp_def by (auto split: prod.splits sum.splits)

lemma wp_conj: "wp core m Q E c \<Longrightarrow> wp core m Q' E' c \<Longrightarrow> wp core m (\<lambda>x c. Q x c \<and> Q' x c) (\<lambda>e c. E e c \<and> E' e c) c"
  unfolding wp_def by (auto split: prod.splits sum.splits)

lemma wp_each:
  assumes "I c" and "\<And>x c. x \<in> set xs \<Longrightarrow> I c \<Longrightarrow> wp core (f x) (\<lambda>_. I) E c" and "\<And>c. I c \<Longrightarrow> Q () c"
  shows "wp core (eachS f xs) Q E c"
  using assms
proof (induction xs arbitrary: c)
  case (Cons x xs)
  have "wp core (eachS f xs) Q E c'" if "I c'" for c'
    using that Cons.prems(2,3) by (intro Cons.IH) auto
  then have "wp core (f x) (\<lambda>_. wp core (eachS f xs) Q E) E c"
    using Cons.prems(1,2) by (auto intro: wp_conseq)
  then show ?case by (simp add: wp_bind)
qed (simp add: wp_return)

lemma wp_each_steps:
  assumes "I [] c" and "\<And>x ys zs c. xs = ys @ x # zs \<Longrightarrow> I ys c \<Longrightarrow> wp core (f x) (\<lambda>_. I (ys @ [x])) E c"
    and "\<And>c. I xs c \<Longrightarrow> Q () c"
  shows "wp core (eachS f xs) Q E c"
proof -
  have "wp core (eachS f zs) Q E c'" if "xs = ys @ zs" "I ys c'" for ys zs c'
    using that
  proof (induction zs arbitrary: ys c')
    case Nil
    then show ?case using assms(3) by (simp add: wp_return)
  next
    case (Cons z zs)
    have "wp core (eachS f zs) Q E c2" if "I (ys @ [z]) c2" for c2
      using Cons.IH [of "ys @ [z]" c2] Cons.prems(1) that by simp
    then have "wp core (f z) (\<lambda>_. wp core (eachS f zs) Q E) E c'"
      using assms(2) [OF Cons.prems] by (auto intro: wp_conseq)
    then show ?case by (simp add: wp_bind)
  qed
  then show ?thesis using assms(1) by simp
qed

lemma wp_poll:
  assumes "I l c" and "\<And>l c. I l c \<Longrightarrow> wp core (turn l) (\<lambda>r c. case r of Inl l' \<Rightarrow> I l' c | Inr x \<Rightarrow> Q (Some x) c) E c"
    and "\<And>l c. I l c \<Longrightarrow> Q None c"
  shows "wp core (poll n turn l) Q E c"
  using assms(1)
proof (induction n arbitrary: l c)
  case (Suc n)
  have "wp core (turn l) (\<lambda>r. wp core (case r of Inr x \<Rightarrow> returnS (Some x) | Inl l' \<Rightarrow> poll n turn l') Q E) E c"
    using assms(2) [OF Suc.prems] by (rule wp_conseq) (auto intro: wp_return Suc.IH split: sum.splits)
  then show ?case by (simp add: wp_bind)
qed (simp add: wp_return assms(3))

lemma wpD: "wp core m Q E (core s) \<Longrightarrow> m s = (Inr x, s') \<Longrightarrow> Q x (core s')"
  by (auto simp: wp_def dest: spec [of _ s])

lemma wpE: "wp core m Q E (core s) \<Longrightarrow> m s = (Inl e, s') \<Longrightarrow> E e (core s')"
  by (auto simp: wp_def dest: spec [of _ s])

subsection \<open>Silent actions\<close>

lemma wp_silent: "silent core m \<Longrightarrow> (\<And>x. Q x c) \<Longrightarrow> (\<And>e. E e c) \<Longrightarrow> wp core m Q E c"
  unfolding wp_def silent_def by (auto split: prod.splits sum.splits) (metis snd_conv)+

lemma silent_wp: "(\<And>c. wp core m (\<lambda>_ c'. c' = c) (\<lambda>_ c'. c' = c) c) \<Longrightarrow> silent core m"
  unfolding wp_def silent_def by (metis (mono_tags, lifting) case_prod_beta old.sum.exhaust old.sum.simps(5,6))

lemma silent_basic [silent_intros]:
  "silent core (returnS x)" "silent core (raiseS e)" "silent core (liftS r)" "silent core (getS f)"
  "silent core (requireS b e)"
  by (simp_all add: silent_def returnS_def raiseS_def liftS_def getS_def requireS_def)

lemma silent_bind [silent_intros]: "silent core m \<Longrightarrow> (\<And>x. silent core (k x)) \<Longrightarrow> silent core (bindS m k)"
  unfolding silent_def bindS_def by (auto split: prod.splits sum.splits) (metis snd_conv)+

lemma silent_when [silent_intros]: "silent core m \<Longrightarrow> silent core (whenS b m)"
  by (simp add: whenS_def silent_intros)

lemma silent_catch [silent_intros]: "silent core m \<Longrightarrow> (\<And>e. silent core (h e)) \<Longrightarrow> silent core (catchS m h)"
  unfolding silent_def catchS_def by (auto split: prod.splits sum.splits) (metis snd_conv)+

lemma silent_finally [silent_intros]: "silent core m \<Longrightarrow> silent core f \<Longrightarrow> silent core (finallyS m f)"
  unfolding silent_def finallyS_def by (auto split: prod.splits sum.splits) (metis snd_conv)+

lemma silent_cases [silent_intros]:
  "silent core m \<Longrightarrow> silent core n \<Longrightarrow> silent core (if b then m else n)"
  "silent core m \<Longrightarrow> (\<And>x. silent core (f x)) \<Longrightarrow> silent core (case q of None \<Rightarrow> m | Some x \<Rightarrow> f x)"
  "(\<And>x. silent core (f' x)) \<Longrightarrow> (\<And>x. silent core (g x)) \<Longrightarrow> silent core (case r of Inl x \<Rightarrow> f' x | Inr x \<Rightarrow> g x)"
  "(\<And>a b. silent core (h a b)) \<Longrightarrow> silent core (case p of (a, b) \<Rightarrow> h a b)"
  "(\<And>x. silent core (k x)) \<Longrightarrow> silent core (let x = v in k x)"
  by (auto split: option.splits sum.splits prod.splits)

lemma silent_each [silent_intros]: "(\<And>x. silent core (f x)) \<Longrightarrow> silent core (eachS f xs)"
  by (induction xs) (auto intro: silent_intros)

lemma silent_map [silent_intros]: "(\<And>x. silent core (f x)) \<Longrightarrow> silent core (mapS f xs)"
  by (induction xs) (auto intro: silent_intros)

lemma silent_poll [silent_intros]: "(\<And>l. silent core (turn l)) \<Longrightarrow> silent core (poll n turn l)"
  by (induction n arbitrary: l) (auto intro: silent_intros)

end
