(* ===== verification/Config_Plan.thy ===== *)
theory Config_Plan
  imports Posix_Path Py_Logic Firmware_Image
begin

text \<open>
  The reviewed state of a configuration deployment: the planned artifacts of
  \<open>core/managed_config.py\<close>, the includes a configuration file names, and \<open>read_config_state\<close> of
  \<open>core/config_transaction.py\<close>, which reads every file the printer will load before anything is
  planned.  The text of a file, decoded and split into lines, is a parameter.
\<close>

text \<open>
  The exceptions of the deployment of configuration and firmware.  \<open>Os_failed\<close> stands for \<open>OSError\<close>
  with its other subclasses, network errors among them.  \<open>Keyboard_interrupt\<close> is no \<open>Exception\<close>; \<open>Still_running\<close> is not
  an exception of the code: it is what a wait that has used up its fuel leaves, and no handler
  catches it.
\<close>

datatype tx_class =
    Conflict_error | Firmware_failed | Os_failed | Not_found | Value_failed | Key_failed
  | Runtime_failed | Other_failed | Timed_out | Monitor_cancelled | Monitor_mismatch | Monitor_failed
  | Keyboard_interrupt | Still_running

datatype tx_exn = Tx tx_class string

definition tx_text :: "tx_exn \<Rightarrow> string" where
  "tx_text e = (case e of Tx c m \<Rightarrow> m)"

definition tx_kind :: "tx_exn \<Rightarrow> tx_class" where
  "tx_kind e = (case e of Tx c m \<Rightarrow> c)"

definition is_exception :: "tx_exn \<Rightarrow> bool" where
  "is_exception e = (tx_kind e \<notin> {Keyboard_interrupt, Still_running})"

definition is_os_error :: "tx_exn \<Rightarrow> bool" where
  "is_os_error e = (tx_kind e \<in> {Os_failed, Not_found, Timed_out})"

subsection \<open>Plans\<close>

definition hardware_remote :: string where "hardware_remote = ''kace/generated-hardware.cfg''"
definition macros_remote :: string where "macros_remote = ''kace/generated-macros.cfg''"
definition legacy_macros_remote :: string where "legacy_macros_remote = ''macros.cfg''"
definition root_remote :: string where "root_remote = ''printer.cfg''"
definition moonraker_remote :: string where "moonraker_remote = ''moonraker.conf''"

definition candidates :: "string list" where
  "candidates = [root_remote, moonraker_remote, hardware_remote, macros_remote, legacy_macros_remote]"

lemmas remote_defs = hardware_remote_def macros_remote_def legacy_macros_remote_def root_remote_def moonraker_remote_def

record plan_artifact =
  pa_remote_name :: string
  pa_content :: bytes
  pa_previous :: "bytes option"

definition pa_changed :: "plan_artifact \<Rightarrow> bool" where
  "pa_changed a = (pa_previous a \<noteq> Some (pa_content a))"

record config_plan =
  cp_artifacts :: "plan_artifact list"
  cp_legacy_migration :: bool
  cp_warnings :: "string list"
  cp_source_files :: "(string \<times> bytes option) list"

definition changed_artifacts :: "config_plan \<Rightarrow> plan_artifact list" where
  "changed_artifacts p = filter pa_changed (cp_artifacts p)"

text \<open>\<open>{item.remote_name: item.content for item in ...}\<close>.\<close>

definition artifact_files :: "plan_artifact list \<Rightarrow> (string, bytes option) dict" where
  "artifact_files as = dict_update [] (map (\<lambda>a. (pa_remote_name a, Some (pa_content a))) as)"

abbreviation planned_files :: "config_plan \<Rightarrow> (string, bytes option) dict" where
  "planned_files p \<equiv> artifact_files (cp_artifacts p)"

definition dry_run_diff :: "(plan_artifact \<Rightarrow> string) \<Rightarrow> config_plan \<Rightarrow> string" where
  "dry_run_diff unified p = join_with [CHR 0x0A] (filter (\<lambda>d. d \<noteq> []) (map unified (cp_artifacts p)))"

text \<open>Includes first, \<open>printer.cfg\<close> last: Python's sort by \<open>(name == root, name)\<close>.\<close>

definition ordered_artifacts :: "config_plan \<Rightarrow> plan_artifact list" where
  "ordered_artifacts p = sort_key (\<lambda>a. (pa_remote_name a = root_remote, pa_remote_name a)) (changed_artifacts p)"

subsection \<open>Includes\<close>

text \<open>The specification in \<open>[include ...]\<close> at the start of a line, the comment cut off.\<close>

definition include_spec :: "string \<Rightarrow> string option" where
  "include_spec line =
     (let s = takeWhile (\<lambda>c. c \<noteq> CHR ''#'') line; rest = drop 9 s; body = takeWhile (\<lambda>c. c \<noteq> CHR '']'') rest in
      if starts_with ''[include '' s \<and> body \<noteq> [] \<and> length body < length rest then Some (py_strip body) else None)"

definition include_of :: "string \<Rightarrow> string \<Rightarrow> (tx_exn, string option) res" where
  "include_of source line = (case include_spec line of
     None \<Rightarrow> Inr None
   | Some spec \<Rightarrow>
       let name = posix_normpath (posix_join (posix_dirname source) spec) in
       if spec = [] \<or> rooted spec \<or> CHR 0x5C \<in> set spec \<or> name = ''..'' \<or> starts_with ''../'' name
          \<or> CHR '':'' \<in> set spec \<or> (\<exists>c \<in> {CHR ''*'', CHR ''?'', CHR ''[''}. c \<in> set spec)
       then Inl (Tx Value_failed (''Include '' @ CHR 0x27 # spec @ CHR 0x27 # '' in '' @ source
         @ '' cannot be reviewed safely; use explicit files inside the config root''))
       else Inr (Some name))"

definition config_includes :: "(bytes \<Rightarrow> (tx_exn, string list) res) \<Rightarrow> bytes \<Rightarrow> string \<Rightarrow> (tx_exn, (string \<times> string) list) res" where
  "config_includes decode content source =
     bindE (decode content) (\<lambda>lines.
     bindE (mapE (\<lambda>l. bindE (include_of source l) (\<lambda>n. Inr (l, n))) lines) (\<lambda>ps.
     Inr [(l, the n). (l, n) \<leftarrow> ps, n \<noteq> None]))"

lemma include_of_confined:
  assumes "include_of source line = Inr (Some name)" and "\<not> rooted source"
  shows "confined name"
proof -
  obtain spec where "include_spec line = Some spec" and n: "name = posix_normpath (posix_join (posix_dirname source) spec)"
    and "\<not> rooted spec" "name \<noteq> ''..''" "\<not> starts_with ''../'' name"
    using assms(1) by (auto simp: include_of_def Let_def split: option.splits if_splits)
  moreover have "\<not> rooted (posix_join (posix_dirname source) spec)"
    using calculation assms(2) by (simp add: join_relative dirname_relative)
  ultimately show ?thesis by (simp add: normpath_confined)
qed

subsection \<open>Reading the reviewed state\<close>

type_synonym file_state = "(string, bytes option) dict"
type_synonym 'w reader = "string list \<Rightarrow> ('w, tx_exn, file_state) action"

text \<open>\<open>remote[name]\<close>: an omitted entry is an error, never an absence.\<close>

definition entry :: "file_state \<Rightarrow> string \<Rightarrow> (tx_exn, bytes option) res" where
  "entry d name = (case dict_get d name of Some v \<Rightarrow> Inr v | None \<Rightarrow> Inl (Tx Key_failed name))"

definition read_names :: "'w reader \<Rightarrow> string list \<Rightarrow> ('w, tx_exn, file_state) action" where
  "read_names reader names =
     bindS (reader names) (\<lambda>remote.
     liftS (mapE (\<lambda>n. bindE (entry remote n) (\<lambda>v. Inr (n, v))) names))"

definition read_one :: "'w reader \<Rightarrow> string \<Rightarrow> ('w, tx_exn, bytes option) action" where
  "read_one reader name = bindS (reader [name]) (\<lambda>remote. liftS (entry remote name))"

definition review_file_limit :: nat where "review_file_limit = 256"
definition review_byte_limit :: int where "review_byte_limit = 8 * 1024 * 1024"

text \<open>
  The loop keeps the stack of files still to expand (its top first), those already expanded, their
  total size and the state read so far.
\<close>

type_synonym pending = "(string \<times> bytes option) list"

fun expand_lines :: "'w reader \<Rightarrow> string \<Rightarrow> string list \<Rightarrow> pending \<Rightarrow> file_state \<Rightarrow> ('w, tx_exn, pending \<times> file_state) action" where
  "expand_lines reader source [] stack files = returnS (stack, files)"
| "expand_lines reader source (line # ls) stack files =
     bindS (liftS (include_of source line)) (\<lambda>inc. case inc of
       None \<Rightarrow> expand_lines reader source ls stack files
     | Some name \<Rightarrow>
         (case dict_get files name of
           Some v \<Rightarrow> expand_lines reader source ls ((name, v) # stack) files
         | None \<Rightarrow>
             bindS (read_one reader name) (\<lambda>v.
             expand_lines reader source ls ((name, v) # stack) (dict_set files name v))))"

record review_state =
  rv_pending :: pending
  rv_visited :: "(string \<times> bytes) list"
  rv_total :: int
  rv_files :: file_state

definition review_turn ::
    "'w reader \<Rightarrow> (bytes \<Rightarrow> (tx_exn, string list) res) \<Rightarrow> review_state \<Rightarrow> ('w, tx_exn, review_state + file_state) action" where
  "review_turn reader decode r = (case rv_pending r of
     [] \<Rightarrow> returnS (Inr (rv_files r))
   | (source, content) # stack \<Rightarrow>
       (case content of
         None \<Rightarrow> returnS (Inl (r\<lparr>rv_pending := stack\<rparr>))
       | Some c \<Rightarrow>
           if (source, c) \<in> set (rv_visited r) then returnS (Inl (r\<lparr>rv_pending := stack\<rparr>))
           else
             (let total = rv_total r + int (length c) in
              bindS (requireS (\<not> (length (rv_files r) > review_file_limit \<or> total > review_byte_limit))
                (Tx Value_failed ''configuration include graph exceeds review limits'')) (\<lambda>_.
              bindS (liftS (decode c)) (\<lambda>ls.
              bindS (expand_lines reader source ls stack (rv_files r)) (\<lambda>(stack', files).
              returnS (Inl \<lparr>rv_pending = stack', rv_visited = (source, c) # rv_visited r, rv_total = total,
                rv_files = files\<rparr>)))))))"

definition read_config_state ::
    "nat \<Rightarrow> 'w reader \<Rightarrow> (bytes \<Rightarrow> (tx_exn, string list) res) \<Rightarrow> bytes \<Rightarrow> bytes option \<Rightarrow> ('w, tx_exn, file_state option) action" where
  "read_config_state fuel reader decode hardware macros =
     bindS (read_names reader candidates) (\<lambda>files.
     poll fuel (review_turn reader decode)
       \<lparr>rv_pending = [(root_remote, the (dict_get files root_remote)), (macros_remote, macros), (root_remote, Some hardware)],
        rv_visited = [], rv_total = 0, rv_files = files\<rparr>)"

subsection \<open>The review reads confined names only and ends\<close>

definition review_ok :: "review_state \<Rightarrow> bool" where
  "review_ok r = ((\<forall>p \<in> set (rv_pending r). confined (fst p)) \<and> (\<forall>p \<in> set (rv_files r). confined (fst p))
     \<and> rv_total r \<le> review_byte_limit)"

lemma confined_relative: "confined n \<Longrightarrow> \<not> rooted n"
  by (simp add: confined_def)

lemma set_dict_set: "p \<in> set (dict_set d k v) \<Longrightarrow> p = (k, v) \<or> p \<in> set d"
  by (induction d k v rule: dict_set.induct) (auto split: if_splits)

lemma expand_lines_ok:
  assumes "expand_lines reader source ls stack files s = (Inr (stack', files'), s')" and "confined source"
    and "\<forall>p \<in> set stack. confined (fst p)" and "\<forall>p \<in> set files. confined (fst p)"
  shows "(\<forall>p \<in> set stack'. confined (fst p)) \<and> (\<forall>p \<in> set files'. confined (fst p))
     \<and> length stack' \<le> length stack + length ls"
  using assms
proof (induction ls arbitrary: stack files s)
  case (Cons line ls)
  obtain n s1 where n: "liftS (include_of source line) s = (Inr n, s1)"
    and run1: "(case n of None \<Rightarrow> expand_lines reader source ls stack files
     | Some name \<Rightarrow>
         (case dict_get files name of
           Some v \<Rightarrow> expand_lines reader source ls ((name, v) # stack) files
         | None \<Rightarrow>
             bindS (read_one reader name) (\<lambda>v.
             expand_lines reader source ls ((name, v) # stack) (dict_set files name v)))) s1 = (Inr (stack', files'), s')"
    using iffD1 [OF bindS_eq, OF Cons.prems(1) [unfolded expand_lines.simps]] by blast
  have inc: "include_of source line = Inr n" and s1: "s1 = s" using n by (simp_all add: liftS_def)
  show ?case
  proof (cases n)
    case None
    with Cons.IH [of stack files s1] Cons.prems run1 show ?thesis by auto
  next
    case (Some name)
    have c: "confined name" using include_of_confined inc Some confined_relative [OF Cons.prems(2)] by blast
    obtain v files2 s2 where run2: "expand_lines reader source ls ((name, v) # stack) files2 s2 = (Inr (stack', files'), s')"
      and f: "files2 = files \<or> files2 = dict_set files name v"
    proof (cases "dict_get files name")
      case None
      then show ?thesis using run1 \<open>n = Some name\<close> that by (auto simp: bindS_eq)
    next
      case (Some v)
      then show ?thesis using run1 \<open>n = Some name\<close> that by auto
    qed
    have "\<forall>p \<in> set files2. confined (fst p)" using f c Cons.prems(4) by (auto dest: set_dict_set)
    with Cons.IH [OF run2 Cons.prems(2)] c Cons.prems(3) show ?thesis by auto
  qed
qed (simp add: returnS_eq)

text \<open>The files waiting and the bytes that may still be read: what every turn uses up.\<close>

definition review_left :: "review_state \<Rightarrow> nat" where
  "review_left r = length (rv_pending r) + nat (review_byte_limit - rv_total r)"

lemma review_turn_ok:
  assumes t: "review_turn reader decode r s = (Inr (Inl r'), s')" and ok: "review_ok r"
    and lines: "\<And>c ls. decode c = Inr ls \<Longrightarrow> length ls \<le> length c"
  shows "review_ok r' \<and> review_left r' < review_left r"
proof (cases "rv_pending r")
  case Nil
  with t show ?thesis by (simp add: review_turn_def returnS_eq)
next
  case (Cons p stack)
  obtain source content where p: "p = (source, content)" by fastforce
  have skip: "review_ok (r\<lparr>rv_pending := stack\<rparr>)" using ok Cons by (simp add: review_ok_def)
  show ?thesis
  proof (cases "content = None \<or> (\<exists>c. content = Some c \<and> (source, c) \<in> set (rv_visited r))")
    case True
    then have "r' = r\<lparr>rv_pending := stack\<rparr>"
      using t Cons p by (auto simp: review_turn_def returnS_eq split: option.splits)
    with skip Cons show ?thesis by (simp add: review_left_def)
  next
    case False
    then obtain c where c: "content = Some c" "(source, c) \<notin> set (rv_visited r)" by (cases content) auto
    obtain ls stack' files where lim: "rv_total r + int (length c) \<le> review_byte_limit" and ls: "decode c = Inr ls"
      and e: "expand_lines reader source ls stack (rv_files r) s = (Inr (stack', files), s')"
      and r': "r' = \<lparr>rv_pending = stack', rv_visited = (source, c) # rv_visited r, rv_total = rv_total r + int (length c), rv_files = files\<rparr>"
      using t Cons p c by (auto simp: review_turn_def Let_def state_simps split: prod.splits)
    have "(\<forall>p \<in> set stack'. confined (fst p)) \<and> (\<forall>p \<in> set files. confined (fst p)) \<and> length stack' \<le> length stack + length ls"
      using ok Cons p by (intro expand_lines_ok [OF e]) (auto simp: review_ok_def)
    moreover have "length ls \<le> length c" using lines ls by blast
    ultimately show ?thesis using lim r' Cons by (auto simp: review_ok_def review_left_def)
  qed
qed

lemma read_names_keys: "read_names reader names s = (Inr files, s') \<Longrightarrow> map fst files = names"
proof -
  have "mapE (\<lambda>n. bindE (entry remote n) (\<lambda>v. Inr (n, v))) names = Inr files \<Longrightarrow> map fst files = names" for remote names files
    by (induction names arbitrary: files) (auto simp: result_simps)
  then show "read_names reader names s = (Inr files, s') \<Longrightarrow> map fst files = names"
    by (auto simp: read_names_def state_simps)
qed

lemma candidates_confined: "\<forall>n \<in> set candidates. confined n"
  by (simp add: candidates_def remote_defs confined_def rooted_def path_sep_def)

lemma review_start_ok:
  assumes "read_names reader candidates s = (Inr files, s')"
  shows "review_ok \<lparr>rv_pending = [(root_remote, v), (macros_remote, w), (root_remote, u)], rv_visited = [], rv_total = 0, rv_files = files\<rparr>"
proof -
  have "fst p \<in> set candidates" if "p \<in> set files" for p
    using that read_names_keys [OF assms] by (metis in_set_conv_nth length_map nth_map)
  moreover have "confined root_remote" "confined macros_remote" using candidates_confined by (auto simp: candidates_def)
  ultimately show ?thesis using candidates_confined by (auto simp: review_ok_def review_byte_limit_def)
qed

text \<open>
  C37. Reading the reviewed state ends and never leaves the configuration directory: fuel above the
  eight megabytes of the review limit is never used up, whatever the files include, and every file
  it has consulted has a relative name without upward parts.
\<close>

theorem review_ends_confined:
  assumes lines: "\<And>c ls. decode c = Inr ls \<Longrightarrow> length ls \<le> length c" and fuel: "8388611 < fuel"
  shows "fst (read_config_state fuel reader decode hardware macros s) \<noteq> Inr None
     \<and> (\<forall>files s'. read_config_state fuel reader decode hardware macros s = (Inr (Some files), s')
          \<longrightarrow> (\<forall>n \<in> set (dict_keys files). confined n))"
proof -
  let ?start = "\<lambda>files. \<lparr>rv_pending = [(root_remote, the (dict_get files root_remote)), (macros_remote, macros), (root_remote, Some hardware)],
        rv_visited = [], rv_total = 0, rv_files = files\<rparr>"
  have turn: "review_ok l' \<and> review_left l' < review_left l"
    if "review_ok l" "review_turn reader decode l s1 = (Inr (Inl l'), s2)" for l l' s1 s2
    by (rule review_turn_ok [OF that(2,1)]) (rule lines)
  have ends: "poll fuel (review_turn reader decode) (?start files) s1 \<noteq> (Inr None, s')"
    if "read_names reader candidates s0 = (Inr files, s1)" for files s0 s1 s'
  proof (rule poll_ends_inv [where ok = review_ok and left = review_left])
    show "review_left (?start files) < fuel" using fuel by (simp add: review_left_def review_byte_limit_def)
  qed (use turn review_start_ok [OF that] in blast)+
  have keys: "\<forall>n \<in> set (dict_keys files'). confined n"
    if r: "poll n (review_turn reader decode) r0 s1 = (Inr (Some files'), s')" and ok: "review_ok r0" for n r0 files' s1 s'
    using r ok
  proof (induction n arbitrary: r0 s1)
    case (Suc n)
    from Suc.prems(1) obtain q s2 where q: "review_turn reader decode r0 s1 = (Inr q, s2)"
      and k: "(case q of Inr x \<Rightarrow> returnS (Some x) | Inl l \<Rightarrow> poll n (review_turn reader decode) l) s2 = (Inr (Some files'), s')"
      by (auto simp: bindS_eq [of "review_turn _ _ _"])
    show ?case
    proof (cases q)
      case (Inl l)
      with q k turn [OF Suc.prems(2)] Suc.IH show ?thesis by auto
    next
      case (Inr x)
      with q have "x = rv_files r0"
        by (auto simp: review_turn_def Let_def state_simps split: list.splits option.splits if_splits prod.splits)
      with Inr k Suc.prems(2) show ?thesis by (auto simp: returnS_eq review_ok_def dict_keys_def)
    qed
  qed (simp add: returnS_eq)
  show ?thesis
  proof (intro conjI allI impI)
    show "fst (read_config_state fuel reader decode hardware macros s) \<noteq> Inr None"
    proof
      assume "fst (read_config_state fuel reader decode hardware macros s) = Inr None"
      then obtain s' where "read_config_state fuel reader decode hardware macros s = (Inr None, s')" by (metis prod.collapse)
      then have "\<exists>f0 s1. read_names reader candidates s = (Inr f0, s1)
        \<and> poll fuel (review_turn reader decode) (?start f0) s1 = (Inr None, s')"
        unfolding read_config_state_def by (rule iffD1 [OF bindS_eq])
      then show False using ends by blast
    qed
    fix files s' assume "read_config_state fuel reader decode hardware macros s = (Inr (Some files), s')"
    then have "\<exists>f0 s1. read_names reader candidates s = (Inr f0, s1)
      \<and> poll fuel (review_turn reader decode) (?start f0) s1 = (Inr (Some files), s')"
      unfolding read_config_state_def by (rule iffD1 [OF bindS_eq])
    then show "\<forall>n \<in> set (dict_keys files). confined n"
      by (elim exE conjE) (erule keys, erule review_start_ok)
  qed
qed

text \<open>A printer whose root file includes a second one, which is absent.\<close>

definition ex_reader :: "unit reader" where
  "ex_reader ns = returnS (map (\<lambda>n. (n, if n = root_remote then Some [1] else None)) ns)"

definition ex_decode :: "bytes \<Rightarrow> (tx_exn, string list) res" where
  "ex_decode c = Inr (if c = [1] then [''[include ./macros/../mainsail.cfg] # ui''] else [])"

lemma ex_review: "case fst (read_config_state 6 ex_reader ex_decode [] None ()) of
   Inr (Some files) \<Rightarrow> dict_get files ''mainsail.cfg'' = Some None | _ \<Rightarrow> False"
  by code_simp

theorem review_ends_confined_witness:
  "fst (read_config_state 8388612 ex_reader ex_decode [] None ()) \<noteq> Inr None"
  using review_ends_confined [of ex_decode 8388612 ex_reader "[]" None "()"] by (simp add: ex_decode_def)

end
