(* ===== verification/Snapshot.thy ===== *)
theory Snapshot
  imports Config_Plan Py_Values
begin

text \<open>
  \<open>core/snapshot.py\<close>: the durable record of the files a deployment is about to replace, its
  publication by one directory rename, the recovery postcondition, and the explicit restoration.
  The file system, the clock and the Moonraker calls are the fields of the host records.
\<close>

record snapshot =
  sn_deployment_id :: string
  sn_timestamp :: string
  sn_board :: string
  sn_kace_version :: string
  sn_firmware_fingerprint :: string
  sn_mcus :: "string list"
  sn_dev_deploy :: bool
  sn_config_files :: "(string, bytes) dict"
  sn_missing_files :: "string list"
  sn_storage_path :: string

subsection \<open>JSON with the default separators\<close>

text \<open>\<open>json.dumps(value, sort_keys=True)\<close>: everything outside U+0020 to U+007E is escaped.\<close>

definition ascii_string :: "string \<Rightarrow> string" where
  "ascii_string s = CHR 0x22 # concat (map (\<lambda>c. if code_of c < 127 then json_escape c
     else [CHR 0x5C, CHR ''u''] @ hex4 (code_of c)) s) @ [CHR 0x22]"

definition dumps_entry :: "pkey \<times> string \<Rightarrow> string" where
  "dumps_entry e = (case fst e of KStr s \<Rightarrow> ascii_string s | KInt i \<Rightarrow> CHR 0x22 # show_int i @ [CHR 0x22])
     @ '': '' @ snd e"

fun dumps :: "pyval \<Rightarrow> string option" where
  "dumps PNone = Some ''null''"
| "dumps (PBool b) = Some (if b then ''true'' else ''false'')"
| "dumps (PInt i) = Some (show_int i)"
| "dumps (PFloat t) = Some t"
| "dumps PNonFinite = Some ''NaN''"
| "dumps (PStr s) = Some (ascii_string s)"
| "dumps (PList xs) = map_option (\<lambda>ts. ''['' @ join_with '', '' ts @ '']'') (those (map dumps xs))"
| "dumps (PDict kvs) =
     Option.bind (those (map (\<lambda>(k, v). map_option (Pair k) (dumps v)) kvs))
       (\<lambda>es. map_option (\<lambda>es'. ''{'' @ join_with '', '' (map dumps_entry es') @ ''}'') (sort_entries es))"
| "dumps (POpaque s) = None"

subsection \<open>Publishing a snapshot\<close>

record 'w store_host =
  sh_posix :: bool
  sh_expanduser :: "string \<Rightarrow> string"
  sh_encode :: "string \<Rightarrow> bytes"
  sh_sha :: "bytes \<Rightarrow> string"
  sh_clock :: "('w, tx_exn, string) action"
  sh_uuid :: "('w, tx_exn, string) action"
  sh_uuid_hex :: "('w, tx_exn, string) action"
  sh_makedirs :: "string \<Rightarrow> bool \<Rightarrow> ('w, tx_exn, unit) action"
  sh_chmod :: "string \<Rightarrow> int \<Rightarrow> ('w, tx_exn, unit) action"
  sh_mkstemp :: "string \<Rightarrow> string \<Rightarrow> ('w, tx_exn, string) action"
  sh_write_sync :: "string \<Rightarrow> bytes \<Rightarrow> ('w, tx_exn, unit) action"
  sh_replace :: "string \<Rightarrow> string \<Rightarrow> ('w, tx_exn, unit) action"
  sh_unlink :: "string \<Rightarrow> ('w, tx_exn, unit) action"
  sh_rmtree :: "string \<Rightarrow> ('w, tx_exn, unit) action"
  sh_sync_dir :: "string \<Rightarrow> ('w, tx_exn, unit) action"

text \<open>\<open>except BaseException: cleanup; raise\<close>, and \<open>except FileNotFoundError: pass\<close>.\<close>

definition on_failure :: "('s, tx_exn, 'a) action \<Rightarrow> ('s, tx_exn, unit) action \<Rightarrow> ('s, tx_exn, 'a) action" where
  "on_failure m cleanup = catchS m (\<lambda>e. bindS cleanup (\<lambda>_. raiseS e))"

text \<open>\<open>try: ... except Exception\<close>: the exception becomes a value; others pass.\<close>

definition attempt :: "('s, tx_exn, 'a) action \<Rightarrow> ('s, tx_exn, tx_exn + 'a) action" where
  "attempt m = catchS (bindS m (\<lambda>x. returnS (Inr x))) (\<lambda>e. if is_exception e then returnS (Inl e) else raiseS e)"

lemma wp_attempt [wp_intros]:
  "wp core m (\<lambda>x. Q (Inr x)) (\<lambda>e c. if is_exception e then Q (Inl e) c else E e c) c \<Longrightarrow> wp core (attempt m) Q E c"
  unfolding attempt_def by (intro wp_catch wp_bind, erule wp_conseq) (auto intro!: wp_return wp_raise)

definition missing_ok :: "('s, tx_exn, unit) action \<Rightarrow> ('s, tx_exn, unit) action" where
  "missing_ok m = catchS m (\<lambda>e. if tx_kind e = Not_found then returnS () else raiseS e)"

definition snapshot_id_re :: "string \<Rightarrow> bool" where
  "snapshot_id_re s = (let alnum = (\<lambda>c. is_lower c \<or> is_upper c \<or> is_digit c) in
     s \<noteq> [] \<and> alnum (hd s) \<and> list_all (\<lambda>c. alnum c \<or> c \<in> {CHR ''.'', CHR ''_'', CHR ''-''}) (tl s))"

definition fsync_directory :: "'w store_host \<Rightarrow> string \<Rightarrow> ('w, tx_exn, unit) action" where
  "fsync_directory h p = whenS (sh_posix h) (sh_sync_dir h p)"

definition publish_file :: "'w store_host \<Rightarrow> string \<Rightarrow> string \<Rightarrow> bytes \<Rightarrow> ('w, tx_exn, unit) action" where
  "publish_file h staging name payload =
     bindS (sh_mkstemp h (''.'' @ name @ ''.'') staging) (\<lambda>temporary.
     on_failure
       (bindS (sh_write_sync h temporary payload) (\<lambda>_.
        bindS (sh_chmod h temporary 0x180) (\<lambda>_.
        sh_replace h temporary (posix_join staging name))))
       (missing_ok (sh_unlink h temporary)))"

text \<open>\<open>remote_name.replace("/", "__")\<close>.\<close>

definition stored_name :: "string \<Rightarrow> string" where
  "stored_name n = concat (map (\<lambda>c. if c = path_sep then ''__'' else [c]) n)"

definition existing_files :: "file_state \<Rightarrow> (string, bytes) dict" where
  "existing_files originals = [(n, the d). (n, d) \<leftarrow> originals, d \<noteq> None]"

definition absent_files :: "file_state \<Rightarrow> string list" where
  "absent_files originals = [n. (n, d) \<leftarrow> originals, d = None]"

definition snapshot_metadata :: "'w store_host \<Rightarrow> string \<Rightarrow> string \<Rightarrow> string \<Rightarrow> string \<Rightarrow> file_state \<Rightarrow> pyval" where
  "snapshot_metadata h tid captured board version originals =
     (let existing = existing_files originals; ordered = sort_key fst existing in
      PDict [(KStr ''schema'', PStr ''kace-config-snapshot/v1''), (KStr ''deployment_id'', PStr tid),
        (KStr ''timestamp'', PStr captured), (KStr ''board'', PStr board), (KStr ''kace_version'', PStr version),
        (KStr ''files'', PList (map (\<lambda>e. PStr (fst e)) ordered)),
        (KStr ''sha256'', PDict (map (\<lambda>e. (KStr (fst e), PStr (sh_sha h (snd e)))) ordered)),
        (KStr ''missing_files'', PList (map PStr (absent_files originals)))])"

definition publish_snapshot :: "'w store_host \<Rightarrow> string \<Rightarrow> string \<Rightarrow> string \<Rightarrow> file_state \<Rightarrow> pyval \<Rightarrow> ('w, tx_exn, unit) action" where
  "publish_snapshot h root staging directory originals metadata =
     on_failure
       (bindS (eachS (\<lambda>(n, d). publish_file h staging (stored_name n) d) (existing_files originals)) (\<lambda>_.
        bindS (publish_file h staging ''snapshot.json'' (sh_encode h (the (dumps metadata)) @ [10])) (\<lambda>_.
        bindS (fsync_directory h staging) (\<lambda>_.
        bindS (sh_replace h staging directory) (\<lambda>_.
        fsync_directory h root)))))
       (catchS (sh_rmtree h staging) (\<lambda>_. returnS ()))"

definition create_snapshot ::
    "'w store_host \<Rightarrow> file_state \<Rightarrow> string \<Rightarrow> string \<Rightarrow> string \<Rightarrow> string \<Rightarrow> ('w, tx_exn, snapshot) action" where
  "create_snapshot h originals tid board version persist_root =
     bindS (requireS (snapshot_id_re tid) (Tx Value_failed ''deployment_id is not a safe snapshot directory name'')) (\<lambda>_.
     bindS (sh_clock h) (\<lambda>captured.
     let root = sh_expanduser h (if persist_root = [] then ''~/kace/snapshots'' else persist_root);
         directory = posix_join root tid in
     bindS (sh_uuid_hex h) (\<lambda>hex.
     let staging = posix_join root (''.'' @ tid @ ''.tmp-'' @ hex) in
     bindS (sh_makedirs h root True) (\<lambda>_.
     bindS (sh_makedirs h staging False) (\<lambda>_.
     bindS (sh_chmod h staging 0x1C0) (\<lambda>_.
     bindS (publish_snapshot h root staging directory originals (snapshot_metadata h tid captured board version originals)) (\<lambda>_.
     returnS \<lparr>sn_deployment_id = tid, sn_timestamp = captured, sn_board = board, sn_kace_version = version,
       sn_firmware_fingerprint = [], sn_mcus = [], sn_dev_deploy = False,
       sn_config_files = existing_files originals, sn_missing_files = absent_files originals,
       sn_storage_path = directory\<rparr>)))))))"

subsection \<open>Recovery checks\<close>

definition rollback_file_owned :: "string \<Rightarrow> bytes option \<Rightarrow> bytes option \<Rightarrow> bytes \<Rightarrow> (tx_exn, bool) res" where
  "rollback_file_owned name current original written =
     (if current = original then Inr False
      else if current = Some written then Inr True
      else Inl (Tx Runtime_failed (''concurrent modification of '' @ name @ ''; current content preserved'')))"

definition check_restored :: "snapshot \<Rightarrow> file_state \<Rightarrow> string \<Rightarrow> (tx_exn, unit) res" where
  "check_restored sn current name = (case dict_get current name of
     None \<Rightarrow> Inl (Tx Runtime_failed (''rollback has no current-state evidence for '' @ name))
   | Some v \<Rightarrow>
       (case dict_get (sn_config_files sn) name of
         Some d \<Rightarrow> require (v = Some d) (Tx Runtime_failed (''rollback checksum mismatch for '' @ name)) (Inr ())
       | None \<Rightarrow>
           if name \<in> set (sn_missing_files sn)
           then require (v = None) (Tx Runtime_failed (''rollback did not remove newly created '' @ name)) (Inr ())
           else Inl (Tx Runtime_failed (''rollback has no original state for '' @ name))))"

definition verify_snapshot_restored :: "snapshot \<Rightarrow> file_state \<Rightarrow> string list \<Rightarrow> (tx_exn, unit) res" where
  "verify_snapshot_restored sn current names = bindE (mapE (check_restored sn current) names) (\<lambda>_. Inr ())"

subsection \<open>Best-effort capture and explicit restoration\<close>

text \<open>
  The Moonraker calls: a download gives its success and, when it is one, the bytes; an upload, a
  deletion and a restart give their success.
\<close>

record 'w snapshot_net =
  nt_download :: "string \<Rightarrow> ('w, tx_exn, bool \<times> bytes option) action"
  nt_upload :: "string \<Rightarrow> string \<Rightarrow> ('w, tx_exn, bool) action"
  nt_delete :: "string \<Rightarrow> ('w, tx_exn, bool) action"
  nt_restart :: "('w, tx_exn, bool) action"
  nt_read :: "'w reader"
  nt_temporary :: "('w, tx_exn, string) action"
  nt_write :: "string \<Rightarrow> bytes \<Rightarrow> ('w, tx_exn, unit) action"
  nt_remove :: "string \<Rightarrow> ('w, tx_exn, unit) action"
  nt_uuid :: "('w, tx_exn, string) action"
  nt_clock :: "('w, tx_exn, string) action"

definition capture_one :: "'w snapshot_net \<Rightarrow> string \<Rightarrow> ('w, tx_exn, (string \<times> bytes) option) action" where
  "capture_one n name =
     bindS (attempt (nt_download n name)) (\<lambda>r. returnS (case r of
       Inr (True, Some d) \<Rightarrow> Some (name, d) | _ \<Rightarrow> None))"

definition capture_snapshot ::
    "'w snapshot_net \<Rightarrow> string list \<Rightarrow> string list \<Rightarrow> bool \<Rightarrow> string \<Rightarrow> string \<Rightarrow> string \<Rightarrow> ('w, tx_exn, snapshot option) action" where
  "capture_snapshot n names mcus dev_deploy board version fingerprint =
     bindS (mapS (capture_one n) names) (\<lambda>rs.
     let captured = dict_update [] [the r. r \<leftarrow> rs, r \<noteq> None] in
     if names \<noteq> [] \<and> captured = [] then returnS None
     else bindS (nt_uuid n) (\<lambda>u. bindS (nt_clock n) (\<lambda>t.
       returnS (Some \<lparr>sn_deployment_id = u, sn_timestamp = t, sn_board = board, sn_kace_version = version,
         sn_firmware_fingerprint = fingerprint, sn_mcus = mcus, sn_dev_deploy = dev_deploy,
         sn_config_files = captured, sn_missing_files = [], sn_storage_path = []\<rparr>))))"

definition failure_of :: "string \<Rightarrow> tx_exn + bool \<Rightarrow> string list" where
  "failure_of name r = (case r of
     Inl e \<Rightarrow> [name @ '': '' @ tx_text e] | Inr ok \<Rightarrow> if ok then [] else [name])"

definition restore_one :: "'w snapshot_net \<Rightarrow> string \<times> bytes \<Rightarrow> ('w, tx_exn, string list) action" where
  "restore_one n f =
     bindS (attempt (nt_temporary n)) (\<lambda>r. case r of
       Inl e \<Rightarrow> returnS (failure_of (fst f) (Inl e))
     | Inr p \<Rightarrow>
         finallyS
           (bindS (attempt (bindS (nt_write n p (snd f)) (\<lambda>_. nt_upload n p (fst f)))) (\<lambda>r.
            returnS (failure_of (fst f) r)))
           (catchS (nt_remove n p) (\<lambda>e. if is_os_error e then returnS () else raiseS e)))"

definition delete_one :: "'w snapshot_net \<Rightarrow> string \<Rightarrow> ('w, tx_exn, string list) action" where
  "delete_one n name = bindS (attempt (nt_delete n name)) (\<lambda>r. returnS (failure_of name r))"

text \<open>Includes first, \<open>printer.cfg\<close> last.\<close>

definition restore_order :: "snapshot \<Rightarrow> (string \<times> bytes) list" where
  "restore_order sn = filter (\<lambda>f. fst f \<noteq> root_remote) (sn_config_files sn)
     @ filter (\<lambda>f. fst f = root_remote) (sn_config_files sn)"

text \<open>With \<open>expected\<close>, the files a transaction wrote, nothing is written back: the state is only compared.\<close>

definition restore_snapshot ::
    "'w snapshot_net \<Rightarrow> snapshot \<Rightarrow> bool \<Rightarrow> (string, bytes) dict option \<Rightarrow> ('w, tx_exn, string list) action" where
  "restore_snapshot n sn issue_restart expected = (case expected of
     Some d \<Rightarrow>
       bindS (attempt (bindS (nt_read n (dict_keys d)) (\<lambda>current.
         liftS (verify_snapshot_restored sn current (dict_keys d))))) (\<lambda>r. returnS (case r of
       Inr _ \<Rightarrow> []
     | Inl e \<Rightarrow> [''rollback conflict or automatic rollback unavailable: Moonraker has no atomic conditional restore; ''
         @ ''current files preserved; manual recovery from '' @ sn_storage_path sn @ '': '' @ tx_text e]))
   | None \<Rightarrow>
       bindS (mapS (restore_one n) (restore_order sn)) (\<lambda>fs.
       bindS (mapS (delete_one n) (sn_missing_files sn)) (\<lambda>ds.
       if issue_restart then
         bindS (attempt (nt_restart n)) (\<lambda>r. returnS (concat fs @ concat ds @ (if r = Inr True then [] else [''<restart>''])))
       else returnS (concat fs @ concat ds))))"

subsection \<open>What a snapshot records\<close>

text \<open>The original a snapshot records: present bytes, a confirmed absence, or nothing.\<close>

definition original_of :: "snapshot \<Rightarrow> string \<Rightarrow> bytes option option" where
  "original_of sn name = (case dict_get (sn_config_files sn) name of
     Some d \<Rightarrow> Some (Some d) | None \<Rightarrow> if name \<in> set (sn_missing_files sn) then Some None else None)"

lemma check_restored_iff: "check_restored sn current name = Inr () \<longleftrightarrow> (\<exists>v. dict_get current name = Some v \<and> original_of sn name = Some v)"
  by (auto simp: check_restored_def original_of_def require_def split: option.splits if_splits)

lemma verify_restored_iff:
  "verify_snapshot_restored sn current names = Inr () \<longleftrightarrow>
     (\<forall>n \<in> set names. \<exists>v. dict_get current n = Some v \<and> original_of sn n = Some v)"
proof -
  have "(\<exists>us. mapE (check_restored sn current) names = Inr us) \<longleftrightarrow> (\<forall>n \<in> set names. check_restored sn current n = Inr ())"
    by (induction names) (auto simp: result_simps)
  then show ?thesis by (auto simp: verify_snapshot_restored_def check_restored_iff result_simps)
qed

lemma existing_simps [simp]:
  "existing_files [] = []" "existing_files ((m, None) # ds) = existing_files ds"
  "existing_files ((m, Some d) # ds) = (m, d) # existing_files ds"
  by (simp_all add: existing_files_def)

lemma dict_get_existing:
  "dict_ok originals \<Longrightarrow> dict_get (existing_files originals) n = (case dict_get originals n of Some (Some d) \<Rightarrow> Some d | _ \<Rightarrow> None)"
proof (induction originals)
  case (Cons p originals)
  obtain m d where p: "p = (m, d)" by fastforce
  have "dict_get originals m = None" using Cons.prems p by (simp add: dict_get_def map_of_eq_None_iff)
  with Cons p show ?case by (cases d) auto
qed simp

lemma absent_iff: "dict_ok originals \<Longrightarrow> n \<in> set (absent_files originals) \<longleftrightarrow> dict_get originals n = Some None"
  by (auto simp: absent_files_def dict_get_def map_of_eq_Some_iff)

text \<open>A created snapshot records exactly the originals it was given.\<close>

lemma create_snapshot_original:
  assumes "create_snapshot h originals tid board version root w = (Inr sn, w')" and "dict_ok originals"
  shows "original_of sn n = dict_get originals n"
proof -
  have "sn_config_files sn = existing_files originals" "sn_missing_files sn = absent_files originals"
    using assms(1) by (auto simp: create_snapshot_def Let_def state_simps)
  with assms(2) show ?thesis
    by (auto simp: original_of_def dict_get_existing absent_iff split: option.splits)
qed

end
