(* ===== verification/Config_Transaction.thy ===== *)
theory Config_Transaction
  imports Snapshot
begin

text \<open>
  \<open>ConfigDeploymentTransaction\<close> of \<open>core/config_transaction.py\<close>: review, snapshot, conditional
  upload, verification, activation and the read-only rollback.  The transport, the callbacks, the
  planner and the semantic review are the fields of \<open>tx_env\<close> over an arbitrary world; each may
  raise.  \<open>tc_log\<close> records what was accepted, written and observed; the code has no such list.
\<close>

record validation =
  va_errors :: "(string \<times> string) list"
  va_warnings :: "(string \<times> string) list"

record config_review =
  cr_validation :: validation
  cr_summary :: "(string \<times> string) list"
  cr_changed_files :: "string list"
  cr_important_changes :: "string list"
  cr_diff :: string

definition valid :: "validation \<Rightarrow> bool" where
  "valid v = (va_errors v = [])"

record 'w tx_env =
  te_read :: "'w reader"
  te_validate_target :: "('w, tx_exn, unit) action"
  te_supports :: "bytes option \<Rightarrow> bool"
  te_upload :: "string \<Rightarrow> bytes \<Rightarrow> bytes option \<Rightarrow> ('w, tx_exn, unit) action"
  te_restart :: "string \<Rightarrow> ('w, tx_exn, unit) action"
  te_restart_moonraker :: "('w, tx_exn, unit) action"
  te_online :: "('w, tx_exn, bool) action"
  te_klipper_state :: "('w, tx_exn, string) action"
  te_verify_active :: "(config_plan \<Rightarrow> ('w, tx_exn, unit) action) option"
  te_destination_key :: "('w, tx_exn, string list) action"
  te_lock :: "string list \<Rightarrow> ('w, tx_exn, unit) action"
  te_unlock :: "string list \<Rightarrow> ('w, tx_exn, unit) action"
  te_destination_lock :: "(('w, tx_exn, unit) action \<times> ('w, tx_exn, unit) action) option"
  te_monotonic :: "('w, tx_exn, int) action"
  te_sleep :: "int \<Rightarrow> ('w, tx_exn, unit) action"
  te_store :: "'w store_host"
  te_decode :: "bytes \<Rightarrow> (tx_exn, string list) res"
  te_check_display :: "bytes \<Rightarrow> bytes option \<Rightarrow> file_state option \<Rightarrow> (tx_exn, unit) res"
  te_check_board :: "bytes \<Rightarrow> (tx_exn, unit) res"
  te_planner :: "bytes \<Rightarrow> bytes option \<Rightarrow> file_state \<Rightarrow> (tx_exn, config_plan) res"
  te_unified :: "plan_artifact \<Rightarrow> string"
  te_build_review :: "config_plan \<Rightarrow> ('w, tx_exn, config_review) action"
  te_validate :: "config_plan \<Rightarrow> ('w, tx_exn, validation) action"
  te_confirm :: "string \<Rightarrow> ('w, tx_exn, bool) action"
  te_output :: "string \<Rightarrow> ('w, tx_exn, unit) action"
  te_review :: "(config_review \<Rightarrow> ('w, tx_exn, bool) action) option"
  te_selector :: "('w, tx_exn, string) action option"
  te_sink :: "(string \<Rightarrow> string \<Rightarrow> ('w, tx_exn, unit) action) option"
  te_verify_firmware :: "('w, tx_exn, unit) action option"
  te_hardware :: bytes
  te_macros :: "bytes option"
  te_snapshot_root :: string
  te_board :: string
  te_kace_version :: string
  te_timeout :: int
  te_poll_interval :: int
  te_transaction_id :: string
  te_verify_existing :: bool
  te_has_reservations :: bool
  te_has_board :: bool
  te_review_fuel :: nat
  te_wait_fuel :: nat

datatype tx_effect =
    Accepted config_review | Snapshotted "snapshot option" | Uploading string bytes "bytes option"
  | Plan_checked file_state | Klipper_ready | Firmware_checked | Restarted string
  | Originals_checked file_state

record tx_core =
  tc_plan :: "config_plan option"
  tc_snapshot :: "snapshot option"
  tc_expected :: file_state
  tc_written :: "string list"
  tc_activation :: string
  tc_log :: "tx_effect list"

type_synonym ('w, 'a) tx = "('w \<times> tx_core, tx_exn, 'a) action"

definition activation_modes :: "string list" where
  "activation_modes = [''firmware'', ''service'', ''none'']"

text \<open>A new transaction; an unsupported activation is refused.\<close>

definition new_transaction :: "string \<Rightarrow> (tx_exn, tx_core) res" where
  "new_transaction activation =
     require (activation \<in> set activation_modes) (Tx Value_failed (''Unsupported activation mode: '' @ activation))
       (Inr \<lparr>tc_plan = None, tc_snapshot = None, tc_expected = [], tc_written = [], tc_activation = activation, tc_log = []\<rparr>)"

datatype tx_state =
    PRECONDITION_FAILED | CANCELLED | SNAPSHOT_FAILED | UPLOAD_FAILED | VERIFY_FAILED
  | ACTIVATION_FAILED | FIRMWARE_FAILED | ROLLBACK_FAILED | DEPLOYED_PENDING_ACTIVATION | COMMITTED

record tx_result =
  tr_state :: tx_state
  tr_detail :: string
  tr_transaction_id :: string
  tr_snapshot :: "snapshot option"
  tr_rollback :: "bool option"

definition result_ok :: "tx_result \<Rightarrow> bool" where
  "result_ok r = (tr_state r = COMMITTED)"

definition result_pending :: "tx_result \<Rightarrow> bool" where
  "result_pending r = (tr_state r = DEPLOYED_PENDING_ACTIVATION)"

definition tx_result_of :: "'w tx_env \<Rightarrow> tx_state \<Rightarrow> string \<Rightarrow> snapshot option \<Rightarrow> tx_result" where
  "tx_result_of env st detail sn =
     \<lparr>tr_state = st, tr_detail = detail, tr_transaction_id = te_transaction_id env, tr_snapshot = sn, tr_rollback = None\<rparr>"

subsection \<open>The state of a transaction\<close>

definition outside :: "('w, tx_exn, 'a) action \<Rightarrow> ('w, 'a) tx" where
  "outside m s = (case m (fst s) of (r, w) \<Rightarrow> (r, (w, snd s)))"

definition the_core :: "(tx_core \<Rightarrow> 'a) \<Rightarrow> ('w, 'a) tx" where
  "the_core f = getS (\<lambda>s. f (snd s))"

definition on_core :: "(tx_core \<Rightarrow> tx_core) \<Rightarrow> ('w, unit) tx" where
  "on_core f = modifyS (\<lambda>s. (fst s, f (snd s)))"

definition log_effect :: "tx_effect \<Rightarrow> ('w, unit) tx" where
  "log_effect e = on_core (tc_log_update (\<lambda>l. l @ [e]))"

text \<open>A wait that used up its fuel has not returned.\<close>

definition waited :: "('w, tx_exn, 'a option) action \<Rightarrow> ('w, 'a) tx" where
  "waited m = bindS (outside m) (\<lambda>r. case r of Some x \<Rightarrow> returnS x | None \<Rightarrow> raiseS (Tx Still_running []))"

definition the_plan :: "('w, config_plan) tx" where
  "the_plan = bindS (the_core tc_plan) (\<lambda>p. case p of Some x \<Rightarrow> returnS x | None \<Rightarrow> raiseS (Tx Other_failed ''AssertionError''))"

definition emit_state :: "'w tx_env \<Rightarrow> string \<Rightarrow> string \<Rightarrow> ('w, unit) tx" where
  "emit_state env st detail = (case te_sink env of
     None \<Rightarrow> returnS ()
   | Some f \<Rightarrow> bindS (attempt (outside (f st detail))) (\<lambda>_. returnS ()))"

definition check_firmware :: "'w tx_env \<Rightarrow> ('w, unit) tx" where
  "check_firmware env =
     bindS (case te_verify_firmware env of
       None \<Rightarrow> returnS ()
     | Some f \<Rightarrow> catchS (outside f) (\<lambda>e. if is_exception e then raiseS (Tx Firmware_failed (tx_text e)) else raiseS e)) (\<lambda>_.
     log_effect Firmware_checked)"

subsection \<open>Waiting\<close>

text \<open>Two ready samples in a row; a sample in shutdown or error ends the wait.\<close>

definition ready_turn ::
    "'w tx_env \<Rightarrow> int \<Rightarrow> string \<times> nat \<Rightarrow> ('w, tx_exn, (string \<times> nat) + (bool \<times> string)) action" where
  "ready_turn env deadline seen =
     bindS (te_monotonic env) (\<lambda>now.
     if \<not> now < deadline then returnS (Inr (False, fst seen))
     else bindS (te_online env) (\<lambda>online.
       if \<not> online then bindS (te_sleep env (te_poll_interval env)) (\<lambda>_. returnS (Inl (fst seen, 0)))
       else bindS (te_klipper_state env) (\<lambda>st.
         if st = ''ready'' then
           if snd seen + 1 \<ge> 2 then returnS (Inr (True, st))
           else bindS (te_sleep env (te_poll_interval env)) (\<lambda>_. returnS (Inl (st, snd seen + 1)))
         else if st \<in> {''shutdown'', ''error''} then returnS (Inr (False, st))
         else bindS (te_sleep env (te_poll_interval env)) (\<lambda>_. returnS (Inl (st, 0))))))"

definition wait_ready :: "'w tx_env \<Rightarrow> ('w, bool \<times> string) tx" where
  "wait_ready env =
     bindS (waited (bindS (te_monotonic env) (\<lambda>now.
       poll (te_wait_fuel env) (ready_turn env (now + te_timeout env)) (''disconnected'', 0)))) (\<lambda>r.
     bindS (whenS (fst r) (log_effect Klipper_ready)) (\<lambda>_.
     returnS r))"

definition online_turn :: "'w tx_env \<Rightarrow> int \<Rightarrow> nat \<Rightarrow> ('w, tx_exn, nat + bool) action" where
  "online_turn env deadline samples =
     bindS (te_monotonic env) (\<lambda>now.
     if \<not> now < deadline then returnS (Inr False)
     else bindS (te_online env) (\<lambda>online.
       if online \<and> samples + 1 \<ge> 2 then returnS (Inr True)
       else bindS (te_sleep env (te_poll_interval env)) (\<lambda>_. returnS (Inl (if online then samples + 1 else 0)))))"

definition wait_moonraker :: "'w tx_env \<Rightarrow> ('w, bool) tx" where
  "wait_moonraker env =
     waited (bindS (te_monotonic env) (\<lambda>now. poll (te_wait_fuel env) (online_turn env (now + te_timeout env)) 0))"

subsection \<open>Comparing with the reviewed state\<close>

definition changed_names :: "file_state \<Rightarrow> file_state \<Rightarrow> (tx_exn, string list) res" where
  "changed_names reviewed current =
     bindE (mapE (\<lambda>(n, v). bindE (entry current n) (\<lambda>c. Inr (if c \<noteq> v then [n] else []))) reviewed) (\<lambda>xs. Inr (concat xs))"

definition conflict :: "string list \<Rightarrow> tx_exn" where
  "conflict names = Tx Conflict_error (''concurrent configuration modification detected: '' @ join_with '', '' names)"

definition revalidate :: "'w tx_env \<Rightarrow> file_state \<Rightarrow> ('w, file_state) tx" where
  "revalidate env reviewed =
     bindS (attempt (outside (bindS (te_validate_target env) (\<lambda>_. read_names (te_read env) (dict_keys reviewed))))) (\<lambda>r. case r of
       Inl e \<Rightarrow> raiseS (Tx Conflict_error (''configuration revalidation failed: '' @ tx_text e))
     | Inr current \<Rightarrow>
         bindS (liftS (changed_names reviewed current)) (\<lambda>changed.
         bindS (requireS (changed = []) (conflict changed)) (\<lambda>_.
         returnS current)))"

definition require_conditional_writes :: "'w tx_env \<Rightarrow> config_plan \<Rightarrow> ('w, unit) tx" where
  "require_conditional_writes env p =
     (let unsupported = filter (\<lambda>a. \<not> te_supports env (pa_previous a)) (changed_artifacts p) in
      whenS (unsupported \<noteq> [])
        (outside (bindS (sh_uuid (te_store env)) (\<lambda>u.
          bindS (create_snapshot (te_store env) (planned_files p) (u @ ''-proposed'') [] ''unknown'' (te_snapshot_root env)) (\<lambda>proposal.
          raiseS (Tx Conflict_error (''transport cannot atomically condition these writes on reviewed content: ''
            @ join_with '', '' (map pa_remote_name unsupported)
            @ ''; live files preserved; manually apply reviewed proposal from '' @ sn_storage_path proposal)))))))"

text \<open>Every planned file must read back as planned, every other reviewed file unchanged.\<close>

definition check_planned :: "file_state \<Rightarrow> string \<times> bytes option \<Rightarrow> (tx_exn, unit) res" where
  "check_planned current a =
     bindE (entry current (fst a)) (\<lambda>c.
     require (c \<noteq> None) (Tx Runtime_failed (''uploaded file disappeared: '' @ fst a))
     (require (c = snd a) (Tx Runtime_failed (''checksum mismatch for '' @ fst a)) (Inr ())))"

definition check_plan :: "config_plan \<Rightarrow> file_state \<Rightarrow> file_state \<Rightarrow> (tx_exn, unit) res" where
  "check_plan p expected current =
     bindE (mapE (check_planned current) (planned_files p)) (\<lambda>_.
     bindE (changed_names (filter (\<lambda>(n, v). dict_get (planned_files p) n = None) expected) current) (\<lambda>changed.
     require (changed = []) (conflict changed) (Inr ())))"

definition verify_plan :: "'w tx_env \<Rightarrow> ('w, unit) tx" where
  "verify_plan env =
     bindS the_plan (\<lambda>p.
     bindS (outside (te_validate_target env)) (\<lambda>_.
     bindS (the_core tc_expected) (\<lambda>expected.
     bindS (outside (te_read env (dict_keys expected))) (\<lambda>current.
     bindS (liftS (check_plan p expected current)) (\<lambda>_.
     log_effect (Plan_checked current))))))"

subsection \<open>Rollback\<close>

definition check_owned :: "'w tx_env \<Rightarrow> config_plan \<Rightarrow> snapshot \<Rightarrow> string \<Rightarrow> ('w, unit) tx" where
  "check_owned env p sn name =
     bindS (outside (read_one (te_read env) name)) (\<lambda>current.
     (case dict_get (artifact_files (changed_artifacts p)) name of
       Some (Some written) \<Rightarrow>
         liftS (bindE (rollback_file_owned name current (dict_get (sn_config_files sn) name) written) (\<lambda>_. Inr ()))
     | _ \<Rightarrow> raiseS (Tx Key_failed name)))"

definition check_restoration :: "'w tx_env \<Rightarrow> snapshot \<Rightarrow> string list \<Rightarrow> ('w, unit) tx" where
  "check_restoration env sn names =
     bindS (outside (te_read env names)) (\<lambda>current.
     bindS (liftS (verify_snapshot_restored sn current names)) (\<lambda>_.
     log_effect (Originals_checked current)))"

definition reactivate :: "'w tx_env \<Rightarrow> snapshot \<Rightarrow> string list \<Rightarrow> ('w, bool \<times> string) tx" where
  "reactivate env sn names =
     bindS (check_restoration env sn names) (\<lambda>_.
     bindS (the_core tc_activation) (\<lambda>activation.
     if activation = ''none'' then returnS (True, ''rollback restored byte-identical inactive files'')
     else
       bindS (if original_of sn moonraker_remote \<noteq> None
         then bindS (outside (te_restart_moonraker env)) (\<lambda>_. wait_moonraker env) else returnS True) (\<lambda>online.
       if \<not> online then returnS (False, ''Moonraker did not recover after rollback'')
       else
         bindS (outside (te_restart env activation)) (\<lambda>_.
         bindS (log_effect (Restarted activation)) (\<lambda>_.
         bindS (wait_ready env) (\<lambda>(ready, st).
         if \<not> ready then returnS (False, ''Klipper did not become Ready after rollback (state='' @ st @ '')'')
         else bindS (check_restoration env sn names) (\<lambda>_.
           returnS (True, ''rollback restored byte-identical state and Klipper Ready''))))))))"

text \<open>None of the transports can restore conditionally: the files are only compared with the snapshot.\<close>

definition reactivation_result :: "tx_exn + bool \<times> string \<Rightarrow> bool option \<times> string" where
  "reactivation_result r = (case r of
     Inl e \<Rightarrow> (Some False, ''rollback verification or activation failed: '' @ tx_text e)
   | Inr (ok, detail) \<Rightarrow> (Some ok, detail))"

definition restore_stage :: "'w tx_env \<Rightarrow> snapshot \<Rightarrow> string list \<Rightarrow> ('w, bool option \<times> string) tx" where
  "restore_stage env sn names =
     bindS (attempt (check_restoration env sn names)) (\<lambda>r. case r of
       Inl _ \<Rightarrow> returnS (Some False, ''automatic rollback unavailable: transport has no atomic conditional restore; ''
         @ ''current files preserved; manual recovery from snapshot '' @ sn_storage_path sn)
     | Inr _ \<Rightarrow> bindS (attempt (reactivate env sn names)) (\<lambda>r. returnS (reactivation_result r)))"

definition rollback :: "'w tx_env \<Rightarrow> ('w, bool option \<times> string) tx" where
  "rollback env =
     bindS (the_core tc_written) (\<lambda>names.
     if names = [] then returnS (None, ''rollback not required: the failed upload created no remote file'')
     else bindS (the_core tc_snapshot) (\<lambda>snap. case snap of
       None \<Rightarrow> returnS (Some False, ''no snapshot is available'')
     | Some sn \<Rightarrow>
         bindS the_plan (\<lambda>p.
         bindS (attempt (eachS (check_owned env p sn) names)) (\<lambda>r. case r of
           Inl e \<Rightarrow> returnS (Some False, ''rollback conflict; current files preserved: '' @ tx_text e
             @ ''; manual recovery from '' @ sn_storage_path sn)
         | Inr _ \<Rightarrow> restore_stage env sn names))))"

end
