(* ===== verification/Config_Run.thy ===== *)
theory Config_Run
  imports Config_Transaction
begin

text \<open>
  \<open>_run_locked\<close> and \<open>run\<close> of the configuration transaction in their stages: the preflight, the
  decision and the snapshot, the recheck before the first write, the publication with its
  failure handler, and the locks around them.
\<close>

subsection \<open>Preflight\<close>

record preflight =
  pf_remote :: file_state
  pf_plan :: config_plan
  pf_review :: config_review
  pf_diff :: string
  pf_accepted :: bool

definition show_review :: "'w tx_env \<Rightarrow> string \<Rightarrow> config_review \<Rightarrow> ('w, tx_exn, unit) action" where
  "show_review env diff review =
     bindS (te_output env (if diff = [] then ''No configuration changes are required.'' else diff)) (\<lambda>_.
     bindS (eachS (\<lambda>w. te_output env (''WARNING: '' @ snd w)) (va_warnings (cr_validation review))) (\<lambda>_.
     eachS (\<lambda>e. te_output env (''ERROR: '' @ snd e)) (va_errors (cr_validation review))))"

definition preflight :: "'w tx_env \<Rightarrow> ('w, preflight) tx" where
  "preflight env =
     bindS (liftS (te_check_display env (te_hardware env) (te_macros env) None)) (\<lambda>_.
     bindS (liftS (te_check_board env (te_hardware env))) (\<lambda>_.
     bindS (outside (te_validate_target env)) (\<lambda>_.
     bindS (waited (read_config_state (te_review_fuel env) (te_read env) (te_decode env) (te_hardware env) (te_macros env))) (\<lambda>remote.
     bindS (liftS (te_planner env (te_hardware env) (te_macros env) remote)) (\<lambda>p.
     let expected = dict_update remote (planned_files p) in
     bindS (on_core (\<lambda>c. c\<lparr>tc_plan := Some p, tc_expected := expected\<rparr>)) (\<lambda>_.
     bindS (liftS (te_check_display env (te_hardware env) (te_macros env) (Some expected))) (\<lambda>_.
     let diff = dry_run_diff (te_unified env) p in
     bindS (outside (te_build_review env p)) (\<lambda>review.
     bindS (require_conditional_writes env p) (\<lambda>_.
     bindS (case te_review env of
         None \<Rightarrow> bindS (outside (show_review env diff review)) (\<lambda>_. returnS False)
       | Some f \<Rightarrow> outside (f review)) (\<lambda>accepted.
     returnS \<lparr>pf_remote = remote, pf_plan = p, pf_review = review, pf_diff = diff, pf_accepted = accepted\<rparr>))))))))))"

subsection \<open>Decision and snapshot\<close>

text \<open>\<open>_preserve_proposal\<close> keeps the reviewed proposal beside the snapshots.\<close>

definition preserve_proposal :: "'w tx_env \<Rightarrow> ('w, unit) tx" where
  "preserve_proposal env =
     bindS (the_core tc_plan) (\<lambda>p. case p of
       None \<Rightarrow> returnS ()
     | Some q \<Rightarrow> bindS (outside (create_snapshot (te_store env) (planned_files q)
         (te_transaction_id env @ ''-proposed'') [] ''unknown'' (te_snapshot_root env))) (\<lambda>_. returnS ()))"

definition choose_activation :: "'w tx_env \<Rightarrow> config_plan \<Rightarrow> ('w, unit) tx" where
  "choose_activation env p = (case te_selector env of
     None \<Rightarrow> returnS ()
   | Some f \<Rightarrow>
       whenS (changed_artifacts p \<noteq> [] \<or> \<not> te_verify_existing env)
         (bindS (outside f) (\<lambda>chosen.
          bindS (requireS (chosen \<in> set activation_modes) (Tx Value_failed (''Unsupported activation mode: '' @ chosen))) (\<lambda>_.
          on_core (tc_activation_update (\<lambda>_. chosen))))))"

definition originals_of :: "config_plan \<Rightarrow> file_state \<Rightarrow> (tx_exn, file_state) res" where
  "originals_of p current =
     bindE (mapE (\<lambda>a. bindE (entry current (pa_remote_name a)) (\<lambda>v. Inr (pa_remote_name a, v))) (changed_artifacts p))
       (\<lambda>es. Inr (dict_update [] es))"

definition take_snapshot :: "'w tx_env \<Rightarrow> file_state \<Rightarrow> ('w, unit) tx" where
  "take_snapshot env originals =
     bindS (if originals = [] then returnS None
       else bindS (outside (create_snapshot (te_store env) originals (te_transaction_id env) (te_board env)
         (te_kace_version env) (te_snapshot_root env))) (\<lambda>sn. returnS (Some sn))) (\<lambda>sn.
     bindS (on_core (tc_snapshot_update (\<lambda>_. sn))) (\<lambda>_.
     log_effect (Snapshotted sn)))"

definition decide :: "'w tx_env \<Rightarrow> preflight \<Rightarrow> ('w, tx_result + file_state) tx" where
  "decide env pf =
     bindS (if te_review env \<noteq> None then returnS (pf_accepted pf) else outside (te_confirm env (pf_diff pf))) (\<lambda>yes.
     if \<not> yes then returnS (Inl (tx_result_of env CANCELLED ''deployment cancelled after dry-run diff'' None))
     else
       bindS (log_effect (Accepted (pf_review pf))) (\<lambda>_.
       bindS (choose_activation env (pf_plan pf)) (\<lambda>_.
       bindS (revalidate env (pf_remote pf)) (\<lambda>current.
       bindS (require_conditional_writes env (pf_plan pf)) (\<lambda>_.
       bindS (liftS (originals_of (pf_plan pf) current)) (\<lambda>originals.
       bindS (take_snapshot env originals) (\<lambda>_.
       returnS (Inr current))))))))"

text \<open>The handlers around the decision: a conflict keeps the proposal, anything else is a failed snapshot.\<close>

definition decided :: "'w tx_env \<Rightarrow> preflight \<Rightarrow> ('w, tx_result + file_state) tx" where
  "decided env pf =
     bindS (attempt (decide env pf)) (\<lambda>r. case r of
       Inr x \<Rightarrow> returnS x
     | Inl e \<Rightarrow>
         if tx_kind e = Conflict_error then
           bindS (preserve_proposal env) (\<lambda>_.
           returnS (Inl (tx_result_of env PRECONDITION_FAILED (tx_text e @ ''; no configuration files were written'') None)))
         else returnS (Inl (tx_result_of env SNAPSHOT_FAILED (''snapshot could not be completed: '' @ tx_text e) None)))"

subsection \<open>Recheck\<close>

definition recheck :: "'w tx_env \<Rightarrow> config_plan \<Rightarrow> file_state \<Rightarrow> ('w, unit) tx" where
  "recheck env p current =
     bindS (revalidate env current) (\<lambda>_.
     whenS (te_has_reservations env \<or> te_has_board env)
       (bindS (outside (te_validate env p)) (\<lambda>v.
        requireS (valid v) (Tx Conflict_error (''configuration validation changed before publication: ''
          @ join_with ''; '' (map snd (va_errors v)))))))"

text \<open>Only a conflict is handled here; any other exception leaves \<open>_run_locked\<close>.\<close>

definition rechecked :: "'w tx_env \<Rightarrow> config_plan \<Rightarrow> file_state \<Rightarrow> ('w, tx_result + unit) tx" where
  "rechecked env p current =
     catchS (bindS (recheck env p current) (\<lambda>_. returnS (Inr ()))) (\<lambda>e.
       if tx_kind e = Conflict_error then
         bindS (preserve_proposal env) (\<lambda>_.
         bindS (the_core tc_snapshot) (\<lambda>sn.
         returnS (Inl (tx_result_of env PRECONDITION_FAILED (tx_text e @ ''; no configuration files were written'') sn))))
       else raiseS e)"

subsection \<open>Publication\<close>

definition mark_written :: "string \<Rightarrow> ('w, unit) tx" where
  "mark_written name = on_core (tc_written_update (\<lambda>ns. if name \<in> set ns then ns else ns @ [name]))"

text \<open>A failed upload counts as a write unless the remote bytes are known to be the original ones.\<close>

definition record_possible_write :: "'w tx_env \<Rightarrow> string \<Rightarrow> ('w, unit) tx" where
  "record_possible_write env name =
     bindS (the_core tc_snapshot) (\<lambda>snap. case snap of
       None \<Rightarrow> raiseS (Tx Other_failed ''AssertionError'')
     | Some sn \<Rightarrow>
         bindS (catchS (bindS (outside (te_read env [name])) (\<lambda>remote. returnS (Some (dict_get remote name))))
           (\<lambda>e. if tx_kind e = Still_running then raiseS e else returnS None)) (\<lambda>r. case r of
         None \<Rightarrow> mark_written name
       | Some observed \<Rightarrow>
           (let current = (case observed of Some v \<Rightarrow> v | None \<Rightarrow> None) in
            if name \<in> set (sn_missing_files sn) \<and> current = None then returnS ()
            else if dict_get (sn_config_files sn) name \<noteq> None \<and> current = dict_get (sn_config_files sn) name then returnS ()
            else mark_written name)))"

definition upload_one :: "'w tx_env \<Rightarrow> file_state \<Rightarrow> plan_artifact \<Rightarrow> ('w, unit) tx" where
  "upload_one env current a =
     bindS (liftS (entry current (pa_remote_name a))) (\<lambda>previous.
     bindS (revalidate env [(pa_remote_name a, previous)]) (\<lambda>_.
     bindS (log_effect (Uploading (pa_remote_name a) (pa_content a) previous)) (\<lambda>_.
     catchS
       (bindS (outside (te_upload env (pa_remote_name a) (pa_content a) previous)) (\<lambda>_. mark_written (pa_remote_name a)))
       (\<lambda>e. if tx_kind e = Still_running then raiseS e
            else bindS (record_possible_write env (pa_remote_name a)) (\<lambda>_. raiseS e)))))"

definition not_ready :: "string \<Rightarrow> tx_exn" where
  "not_ready st = Tx Runtime_failed (''Klipper did not become Ready (state='' @ st @ '')'')"

definition finish_existing :: "'w tx_env \<Rightarrow> config_plan \<Rightarrow> ('w, tx_result) tx" where
  "finish_existing env p =
     bindS (wait_ready env) (\<lambda>(ready, st).
     bindS (requireS ready (not_ready st)) (\<lambda>_.
     bindS (check_firmware env) (\<lambda>_.
     bindS (case te_verify_active env of None \<Rightarrow> returnS () | Some f \<Rightarrow> outside (f p)) (\<lambda>_.
     bindS (verify_plan env) (\<lambda>_.
     bindS (emit_state env ''DONE'' ''configuration already installed; Klipper Ready'') (\<lambda>_.
     returnS (tx_result_of env COMMITTED ''configuration already installed; Klipper Ready and firmware verified'' None)))))))"

definition restart_moonraker_first :: "'w tx_env \<Rightarrow> config_plan \<Rightarrow> ('w, unit) tx" where
  "restart_moonraker_first env p =
     whenS (\<exists>a \<in> set (changed_artifacts p). pa_remote_name a = moonraker_remote)
       (bindS (emit_state env ''WAITING_MOONRAKER'' ''restarting Moonraker before Klipper activation'') (\<lambda>_.
        bindS (outside (te_restart_moonraker env)) (\<lambda>_.
        bindS (wait_moonraker env) (\<lambda>online.
        requireS online (Tx Runtime_failed ''Moonraker did not recover after restart'')))))"

definition activate :: "'w tx_env \<Rightarrow> config_plan \<Rightarrow> ('w, tx_result) tx" where
  "activate env p =
     bindS (outside (te_validate_target env)) (\<lambda>_.
     bindS (restart_moonraker_first env p) (\<lambda>_.
     bindS (emit_state env ''FIRMWARE_RESTART'' ''restarting Klipper to activate configuration'') (\<lambda>_.
     bindS (the_core tc_activation) (\<lambda>activation.
     bindS (outside (te_restart env activation)) (\<lambda>_.
     bindS (log_effect (Restarted activation)) (\<lambda>_.
     bindS (emit_state env ''VERIFYING_CONFIG'' ''waiting for Klipper Ready after restart'') (\<lambda>_.
     bindS (wait_ready env) (\<lambda>(ready, st).
     bindS (requireS ready (not_ready st)) (\<lambda>_.
     bindS (check_firmware env) (\<lambda>_.
     bindS (verify_plan env) (\<lambda>_.
     bindS (emit_state env ''DONE'' ''configuration activated and Klipper Ready'') (\<lambda>_.
     bindS (the_core tc_snapshot) (\<lambda>sn.
     returnS (tx_result_of env COMMITTED ''configuration checksums verified and Klipper Ready'' sn))))))))))))))"

definition publish :: "'w tx_env \<Rightarrow> config_plan \<Rightarrow> file_state \<Rightarrow> ('w, tx_result) tx" where
  "publish env p current =
     bindS (eachS (upload_one env current) (ordered_artifacts p)) (\<lambda>_.
     bindS (emit_state env ''VERIFYING_UPLOAD'' ''verifying uploaded configuration checksums'') (\<lambda>_.
     bindS (verify_plan env) (\<lambda>_.
     if changed_artifacts p = [] \<and> te_verify_existing env then finish_existing env p
     else
       bindS (the_core (\<lambda>c. (tc_activation c, tc_snapshot c))) (\<lambda>(activation, sn).
       if activation = ''none'' then
         returnS (tx_result_of env DEPLOYED_PENDING_ACTIVATION ''checksums verified; configuration requires an explicit restart'' sn)
       else activate env p))))"

definition failure_state :: "tx_exn \<Rightarrow> tx_state" where
  "failure_state e =
     (if tx_kind e = Firmware_failed then FIRMWARE_FAILED
      else if contains ''Ready'' (tx_text e) \<or> contains ''restart'' (py_lower (tx_text e)) then ACTIVATION_FAILED
      else if contains ''checksum'' (tx_text e) then VERIFY_FAILED else UPLOAD_FAILED)"

definition failure_label :: "tx_state \<Rightarrow> string" where
  "failure_label st = (case st of FIRMWARE_FAILED \<Rightarrow> ''firmware verification error''
     | ACTIVATION_FAILED \<Rightarrow> ''activation error'' | VERIFY_FAILED \<Rightarrow> ''verification error'' | _ \<Rightarrow> ''upload error'')"

definition failed_result :: "'w tx_env \<Rightarrow> tx_exn \<Rightarrow> snapshot option \<Rightarrow> bool option \<times> string \<Rightarrow> tx_result" where
  "failed_result env e sn rb =
     (let st = failure_state e; label = failure_label st @ '': '' @ tx_text e in
      \<lparr>tr_state = (if fst rb = Some False then ROLLBACK_FAILED else st),
       tr_detail = label @ (case fst rb of Some False \<Rightarrow> ''; rollback error: '' | Some True \<Rightarrow> ''; rollback succeeded: '' | None \<Rightarrow> ''; '') @ snd rb,
       tr_transaction_id = te_transaction_id env, tr_snapshot = sn, tr_rollback = fst rb\<rparr>)"

definition published :: "'w tx_env \<Rightarrow> config_plan \<Rightarrow> file_state \<Rightarrow> ('w, tx_result) tx" where
  "published env p current =
     bindS (attempt (publish env p current)) (\<lambda>r. case r of
       Inr x \<Rightarrow> returnS x
     | Inl e \<Rightarrow>
         bindS (preserve_proposal env) (\<lambda>_.
         bindS (emit_state env ''CONFIG_ERROR'' (tx_text e)) (\<lambda>_.
         bindS (rollback env) (\<lambda>rb.
         bindS (the_core tc_snapshot) (\<lambda>sn.
         returnS (failed_result env e sn rb))))))"

subsection \<open>The run\<close>

text \<open>After the preflight: a plan that fails the semantic validation is refused before anyone is asked.\<close>

definition proceed :: "'w tx_env \<Rightarrow> preflight \<Rightarrow> ('w, tx_result) tx" where
  "proceed env pf =
     (if \<not> valid (cr_validation (pf_review pf)) then
        returnS (tx_result_of env PRECONDITION_FAILED (''semantic configuration validation failed: ''
          @ join_with ''; '' (map snd (va_errors (cr_validation (pf_review pf))))) None)
      else
        bindS (decided env pf) (\<lambda>d. case d of
          Inl r \<Rightarrow> returnS r
        | Inr current \<Rightarrow>
            bindS (emit_state env ''APPLYING_CONFIG'' ''uploading reconciled configuration'') (\<lambda>_.
            bindS (rechecked env (pf_plan pf) current) (\<lambda>d. case d of
              Inl r \<Rightarrow> returnS r
            | Inr _ \<Rightarrow> published env (pf_plan pf) current))))"

definition run_locked :: "'w tx_env \<Rightarrow> ('w, tx_result) tx" where
  "run_locked env =
     bindS (emit_state env ''BACKUP'' ''validating configuration and preparing snapshot'') (\<lambda>_.
     bindS (attempt (preflight env)) (\<lambda>r. case r of
       Inl e \<Rightarrow> returnS (tx_result_of env PRECONDITION_FAILED (''configuration preflight failed: '' @ tx_text e) None)
     | Inr pf \<Rightarrow> proceed env pf))"

definition interrupted :: "'w tx_env \<Rightarrow> ('w, tx_result) tx" where
  "interrupted env =
     bindS (the_core tc_written) (\<lambda>names.
     bindS (if names = [] then returnS (None, ''no configuration files were written'')
       else catchS (rollback env) (\<lambda>e.
         if tx_kind e = Keyboard_interrupt then returnS (Some False, ''rollback interrupted by user'')
         else if is_exception e then returnS (Some False, ''rollback failed: '' @ tx_text e)
         else raiseS e)) (\<lambda>rb.
     bindS (the_core tc_snapshot) (\<lambda>sn.
     returnS \<lparr>tr_state = (if fst rb = Some False then ROLLBACK_FAILED else CANCELLED),
       tr_detail = ''cancelled by user; '' @ (case fst rb of Some False \<Rightarrow> ''rollback error: ''
         | Some True \<Rightarrow> ''rollback succeeded: '' | None \<Rightarrow> []) @ snd rb,
       tr_transaction_id = te_transaction_id env, tr_snapshot = sn, tr_rollback = fst rb\<rparr>)))"

definition run_held :: "'w tx_env \<Rightarrow> ('w, tx_result) tx" where
  "run_held env =
     catchS
       (case te_destination_lock env of
         None \<Rightarrow> run_locked env
       | Some (acquire, release) \<Rightarrow> bindS (outside acquire) (\<lambda>_. finallyS (run_locked env) (outside release)))
       (\<lambda>e. if tx_kind e = Keyboard_interrupt then interrupted env
            else if is_os_error e \<or> tx_kind e = Conflict_error then
              bindS (the_core tc_snapshot) (\<lambda>sn.
              returnS (tx_result_of env PRECONDITION_FAILED (''local publication could not be secured: '' @ tx_text e) sn))
            else raiseS e)"

text \<open>\<open>config_destination_lock\<close>: the process-wide lock of the destination, found by its key.\<close>

definition destination_key :: "'w tx_env \<Rightarrow> ('w, string list) tx" where
  "destination_key env =
     bindS (outside (te_destination_key env)) (\<lambda>k.
     bindS (requireS (k \<noteq> []) (Tx Value_failed ''configuration destination identity is unavailable'')) (\<lambda>_.
     returnS k))"

definition run_transaction :: "'w tx_env \<Rightarrow> ('w, tx_result) tx" where
  "run_transaction env =
     bindS (attempt (destination_key env)) (\<lambda>r. case r of
       Inl e \<Rightarrow> returnS (tx_result_of env PRECONDITION_FAILED (''configuration destination could not be identified: '' @ tx_text e) None)
     | Inr k \<Rightarrow>
         bindS (outside (te_lock env k)) (\<lambda>_.
         finallyS (run_held env) (outside (te_unlock env k))))"

end
