(* ===== verification/Config_Safety.thy ===== *)
theory Config_Safety
  imports Config_Run
begin

text \<open>
  Safety of the configuration transaction: what must have happened before a file is written, what a
  committed result has observed, which results exclude any write, and when a rollback may claim
  success.
\<close>

subsection \<open>Rules for the transaction's actions\<close>

lemma wp_outside [wp_intros]: "(\<And>x. Q x c) \<Longrightarrow> (\<And>e. E e c) \<Longrightarrow> wp snd (outside m) Q E c"
  by (simp add: wp_def outside_def split: prod.splits sum.splits)

lemma wp_the_core [wp_intros]: "Q (f c) c \<Longrightarrow> wp snd (the_core f) Q E c"
  unfolding the_core_def by (rule wp_get) simp

lemma wp_on_core [wp_intros]: "Q () (f c) \<Longrightarrow> wp snd (on_core f) Q E c"
  unfolding on_core_def by (rule wp_modify) simp

lemma wp_log [wp_intros]: "Q () (c\<lparr>tc_log := tc_log c @ [e]\<rparr>) \<Longrightarrow> wp snd (log_effect e) Q E c"
  unfolding log_effect_def by (rule wp_on_core) (cases c; simp)

lemma wp_waited [wp_intros]: "(\<And>x. Q x c) \<Longrightarrow> (\<And>e. E e c) \<Longrightarrow> wp snd (waited m) Q E c"
  unfolding waited_def by (intro wp_intros)

lemma wp_emit_state [wp_intros]: "Q () c \<Longrightarrow> (\<And>e. E e c) \<Longrightarrow> wp snd (emit_state env st d) Q E c"
  unfolding emit_state_def by (intro wp_intros) (auto intro: wp_intros)

lemma wp_the_plan [wp_intros]:
  "(\<And>p. tc_plan c = Some p \<Longrightarrow> Q p c) \<Longrightarrow> (\<And>e. tc_plan c = None \<Longrightarrow> E e c) \<Longrightarrow> wp snd the_plan Q E c"
  unfolding the_plan_def by (intro wp_intros) auto

subsection \<open>Actions that write nothing\<close>

definition is_upload :: "tx_effect \<Rightarrow> bool" where
  "is_upload e = (case e of Uploading _ _ _ \<Rightarrow> True | _ \<Rightarrow> False)"

text \<open>A later state with the same transaction data and further effects, none of them a write.\<close>

definition later :: "tx_core \<Rightarrow> tx_core \<Rightarrow> bool" where
  "later c c' = (\<exists>ext. c' = c\<lparr>tc_log := tc_log c @ ext\<rparr> \<and> list_all (\<lambda>e. \<not> is_upload e) ext)"

lemma later_refl [simp]: "later c c"
  by (auto simp: later_def intro: exI [of _ "[]"])

lemma later_log: "later c c' \<Longrightarrow> \<not> is_upload e \<Longrightarrow> later c (c'\<lparr>tc_log := tc_log c' @ [e]\<rparr>)"
  unfolding later_def by (elim exE conjE) (auto intro!: exI [of _ "_ @ [e]"])

lemma later_trans: "later c1 c2 \<Longrightarrow> later c2 c3 \<Longrightarrow> later c1 c3"
  unfolding later_def by (elim exE conjE) (auto intro!: exI [of _ "_ @ _"])

lemma later_fields:
  "later c c' \<Longrightarrow> tc_plan c' = tc_plan c \<and> tc_snapshot c' = tc_snapshot c \<and> tc_expected c' = tc_expected c
     \<and> tc_written c' = tc_written c \<and> tc_activation c' = tc_activation c"
  by (auto simp: later_def)

definition quiet_tx :: "('w, 'a) tx \<Rightarrow> bool" where
  "quiet_tx m = (\<forall>c. wp snd m (\<lambda>_ c'. later c c') (\<lambda>_ c'. later c c') c)"

named_theorems quiet_intros \<open>actions of the transaction that write nothing\<close>

lemma quiet_wp: "quiet_tx m \<Longrightarrow> (\<And>x c'. later c c' \<Longrightarrow> Q x c') \<Longrightarrow> (\<And>e c'. later c c' \<Longrightarrow> E e c') \<Longrightarrow> wp snd m Q E c"
  unfolding quiet_tx_def by (blast intro: wp_conseq)

lemma quiet_tx_bind [quiet_intros]: "quiet_tx m \<Longrightarrow> (\<And>x. quiet_tx (k x)) \<Longrightarrow> quiet_tx (bindS m k)"
  unfolding quiet_tx_def
  by (intro allI wp_bind) (blast intro: wp_conseq later_trans)

lemma quiet_tx_catch [quiet_intros]: "quiet_tx m \<Longrightarrow> (\<And>e. quiet_tx (h e)) \<Longrightarrow> quiet_tx (catchS m h)"
  unfolding quiet_tx_def
  by (intro allI wp_catch) (blast intro: wp_conseq later_trans)

lemma quiet_finally [quiet_intros]: "quiet_tx m \<Longrightarrow> quiet_tx f \<Longrightarrow> quiet_tx (finallyS m f)"
  unfolding quiet_tx_def
  by (intro allI wp_finally) (blast intro: wp_conseq later_trans)

lemma quiet_tx_basic [quiet_intros]:
  "quiet_tx (returnS x)" "quiet_tx (raiseS e)" "quiet_tx (liftS r)" "quiet_tx (requireS b e)"
  "quiet_tx (outside a)" "quiet_tx (the_core f)" "quiet_tx (waited m)" "quiet_tx (emit_state env st d)" "quiet_tx the_plan"
  by (auto simp: quiet_tx_def intro!: wp_intros)

lemma quiet_log [quiet_intros]: "\<not> is_upload e \<Longrightarrow> quiet_tx (log_effect e)"
  by (auto simp: quiet_tx_def intro!: wp_intros later_log)

lemma quiet_attempt [quiet_intros]: "quiet_tx m \<Longrightarrow> quiet_tx (attempt m)"
  unfolding attempt_def by (intro quiet_intros) (auto intro: quiet_intros)

lemma quiet_cases [quiet_intros]:
  "quiet_tx m \<Longrightarrow> quiet_tx n \<Longrightarrow> quiet_tx (if b then m else n)"
  "quiet_tx m \<Longrightarrow> (\<And>x. quiet_tx (f x)) \<Longrightarrow> quiet_tx (case q of None \<Rightarrow> m | Some x \<Rightarrow> f x)"
  "(\<And>x. quiet_tx (g x)) \<Longrightarrow> (\<And>x. quiet_tx (h x)) \<Longrightarrow> quiet_tx (case r of Inl x \<Rightarrow> g x | Inr x \<Rightarrow> h x)"
  "(\<And>a b. quiet_tx (k a b)) \<Longrightarrow> quiet_tx (case z of (a, b) \<Rightarrow> k a b)"
  "quiet_tx u \<Longrightarrow> quiet_tx (whenS b u)"
  "(\<And>x. quiet_tx (l x)) \<Longrightarrow> quiet_tx (let x = v in l x)"
  by (auto simp: whenS_def intro: quiet_intros split: option.splits sum.splits prod.splits)

lemma quiet_tx_each [quiet_intros]: "(\<And>x. quiet_tx (f x)) \<Longrightarrow> quiet_tx (eachS f xs)"
  by (induction xs) (auto intro: quiet_intros)

lemma effects_quiet [simp]:
  "\<not> is_upload (Accepted rv)" "\<not> is_upload (Snapshotted sn)" "\<not> is_upload (Plan_checked d)" "\<not> is_upload Klipper_ready"
  "\<not> is_upload Firmware_checked" "\<not> is_upload (Restarted m)" "\<not> is_upload (Originals_checked d)" "is_upload (Uploading n d' v)"
  by (simp_all add: is_upload_def)

lemma quiet_parts [quiet_intros]:
  "quiet_tx (check_firmware env)" "quiet_tx (wait_ready env)" "quiet_tx (wait_moonraker env)" "quiet_tx (revalidate env d)"
  "quiet_tx (require_conditional_writes env p)" "quiet_tx (verify_plan env)" "quiet_tx (check_owned env p sn n)"
  "quiet_tx (check_restoration env sn ns)" "quiet_tx (preserve_proposal env)"
  unfolding check_firmware_def wait_ready_def wait_moonraker_def revalidate_def require_conditional_writes_def verify_plan_def
    check_owned_def check_restoration_def preserve_proposal_def
  by (intro quiet_intros; simp)+

lemma quiet_reactivate [quiet_intros]: "quiet_tx (reactivate env sn ns)"
  unfolding reactivate_def by (intro quiet_intros; simp)

lemma quiet_rollback [quiet_intros]: "quiet_tx (rollback env)"
  unfolding rollback_def restore_stage_def by (intro quiet_intros)

lemma quiet_finish [quiet_intros]: "quiet_tx (finish_existing env p)" "quiet_tx (activate env p)"
  unfolding finish_existing_def activate_def restart_moonraker_first_def by (intro quiet_intros; simp)+

lemma quiet_recheck [quiet_intros]: "quiet_tx (rechecked env p current)"
  unfolding rechecked_def recheck_def by (intro quiet_intros)

subsection \<open>What precedes a write\<close>

definition uploads :: "tx_effect list \<Rightarrow> (string \<times> bytes) list" where
  "uploads l = concat (map (\<lambda>e. case e of Uploading n d v \<Rightarrow> [(n, d)] | _ \<Rightarrow> []) l)"

definition planned_uploads :: "config_plan \<Rightarrow> (string \<times> bytes) list" where
  "planned_uploads p = map (\<lambda>a. (pa_remote_name a, pa_content a)) (ordered_artifacts p)"

text \<open>
  Before every write a valid review was accepted and a snapshot was taken that records the very
  content the write expects to replace.
\<close>

definition justified :: "tx_effect list \<Rightarrow> string \<Rightarrow> bytes option \<Rightarrow> bool" where
  "justified before n previous = ((\<exists>rv. Accepted rv \<in> set before \<and> valid (cr_validation rv))
     \<and> (\<exists>sn. Snapshotted (Some sn) \<in> set before \<and> original_of sn n = Some previous))"

lemma justified_append: "justified l n v \<Longrightarrow> justified (l @ l') n v"
  by (auto simp: justified_def)

definition covered :: "tx_effect list \<Rightarrow> bool" where
  "covered l = (\<forall>before n d v after. l = before @ Uploading n d v # after \<longrightarrow> justified before n v)"

definition written_as_planned :: "config_plan \<Rightarrow> tx_effect list \<Rightarrow> bool" where
  "written_as_planned p l = (covered l \<and> (\<exists>k. uploads l = take k (planned_uploads p)))"

lemma uploads_append [simp]: "uploads (l @ l') = uploads l @ uploads l'"
  by (simp add: uploads_def)

lemma uploads_simps [simp]: "uploads [] = []" "\<not> is_upload e \<Longrightarrow> uploads (e # l) = uploads l" "uploads (Uploading n d v # l) = (n, d) # uploads l"
  by (auto simp: uploads_def is_upload_def split: tx_effect.splits)

lemma uploads_none: "list_all (\<lambda>e. \<not> is_upload e) l \<Longrightarrow> uploads l = []"
  by (induction l) auto

lemma no_uploads: "uploads l = [] \<Longrightarrow> list_all (\<lambda>e. \<not> is_upload e) l"
  by (induction l) (auto simp: uploads_def is_upload_def split: tx_effect.splits)

lemma covered_snoc: "covered l \<Longrightarrow> (\<And>n d v. e = Uploading n d v \<Longrightarrow> justified l n v) \<Longrightarrow> covered (l @ [e])"
  unfolding covered_def by (metis append_eq_append_conv_if append_Cons append_eq_appendI butlast.simps(2) butlast_append butlast_snoc
      last_snoc list.distinct(1) append_self_conv2 last_ConsL last_appendR append_Nil2 last.simps)

lemma covered_quiet: "covered l \<Longrightarrow> list_all (\<lambda>e. \<not> is_upload e) ext \<Longrightarrow> covered (l @ ext)"
proof (induction ext rule: rev_induct)
  case (snoc e ext)
  then have "covered (l @ ext)" "\<not> is_upload e" by auto
  then have "covered ((l @ ext) @ [e])" by (intro covered_snoc) auto
  then show ?case by simp
qed simp

lemma fresh_covered: "uploads l = [] \<Longrightarrow> covered l"
  using covered_quiet [of "[]" l] no_uploads by (simp add: covered_def)

lemma later_written: "later c c' \<Longrightarrow> written_as_planned p (tc_log c) \<Longrightarrow> written_as_planned p (tc_log c')"
  unfolding later_def written_as_planned_def by (auto simp: covered_quiet uploads_none)

lemma later_uploads: "later c c' \<Longrightarrow> uploads (tc_log c') = uploads (tc_log c)"
  unfolding later_def by (auto simp: uploads_none)

text \<open>\<open>printer.cfg\<close> is written after everything it includes.\<close>

lemma root_written_last:
  assumes "planned_uploads p = xs @ (n, d) # ys" and "n = root_remote"
  shows "\<forall>y \<in> set ys. fst y = root_remote"
proof -
  let ?key = "\<lambda>a. (pa_remote_name a = root_remote, pa_remote_name a)"
  obtain as a bs where o: "ordered_artifacts p = as @ a # bs" and a: "pa_remote_name a = n"
    and ys: "ys = map (\<lambda>a. (pa_remote_name a, pa_content a)) bs"
    using assms(1) by (auto simp: planned_uploads_def map_eq_append_conv map_eq_Cons_conv)
  have "sorted (map ?key (ordered_artifacts p))" by (simp add: ordered_artifacts_def)
  then have "\<forall>b \<in> set bs. ?key a \<le> ?key b" by (simp add: o sorted_append)
  then have "\<forall>b \<in> set bs. pa_remote_name b = root_remote" using a assms(2) by (auto simp: less_eq_prod_def)
  then show ?thesis by (simp add: ys)
qed

end
