(* ===== verification/Config_Properties.thy ===== *)
theory Config_Properties
  imports Config_Safety
begin

text \<open>
  The properties of the configuration transaction, stage by stage and for the whole run.
\<close>

subsection \<open>The stages\<close>

lemma wp_outside_value: "(\<And>w x w'. m w = (Inr x, w') \<Longrightarrow> Q x c) \<Longrightarrow> (\<And>e. E e c) \<Longrightarrow> wp snd (outside m) Q E c"
  by (auto simp: wp_def outside_def split: prod.splits sum.splits)

definition fresh :: "tx_core \<Rightarrow> bool" where
  "fresh c = (uploads (tc_log c) = [])"

lemma later_fresh: "later c c' \<Longrightarrow> fresh c' = fresh c"
  by (simp add: fresh_def later_uploads)

lemma preflight_spec:
  assumes "fresh c"
  shows "wp snd (preflight env) (\<lambda>pf c'. fresh c' \<and> tc_plan c' = Some (pf_plan pf)) (\<lambda>_. fresh) c"
proof -
  have guard: "wp snd (require_conditional_writes env p) Q E c'" if "\<And>x. Q x c'" "\<And>e. E e c'" for p Q E c'
    unfolding require_conditional_writes_def Let_def using that by (auto intro!: wp_when wp_outside)
  show ?thesis
    unfolding preflight_def Let_def
    by (intro wp_intros guard) (use assms in \<open>auto simp: fresh_def intro!: wp_intros\<close>)
qed

lemma dict_get_artifacts:
  assumes "\<forall>e \<in> set es. f (fst e) = Some (snd e)" and "(n, v) \<in> set es"
  shows "dict_get (dict_update [] es) n = Some v"
proof -
  have "map_of (dict_update [] es) n = map_of (rev es) n" by (simp add: map_of_dict_update)
  moreover obtain v' where "map_of (rev es) n = Some v'" using assms(2) by (metis set_rev weak_map_of_SomeI)
  moreover from this have "(n, v') \<in> set es" by (auto dest: map_of_SomeD)
  moreover from this have "v' = v" using bspec [OF assms(1), of "(n, v')"] bspec [OF assms(1), of "(n, v)"] assms(2) by simp
  ultimately show ?thesis by (simp add: dict_get_def)
qed

lemma originals_of_spec:
  assumes "originals_of p current = Inr os"
  shows "dict_ok os \<and> (\<forall>a \<in> set (changed_artifacts p). \<exists>v. entry current (pa_remote_name a) = Inr v \<and> dict_get os (pa_remote_name a) = Some v)"
proof -
  obtain es where m: "mapE (\<lambda>a. bindE (entry current (pa_remote_name a)) (\<lambda>v. Inr (pa_remote_name a, v))) (changed_artifacts p) = Inr es"
    and os: "os = dict_update [] es"
    using assms by (auto simp: originals_of_def result_simps)
  have es: "(\<forall>e \<in> set es. entry current (fst e) = Inr (snd e))
     \<and> (\<forall>a \<in> set as. \<exists>v. (pa_remote_name a, v) \<in> set es \<and> entry current (pa_remote_name a) = Inr v)"
    if "mapE (\<lambda>a. bindE (entry current (pa_remote_name a)) (\<lambda>v. Inr (pa_remote_name a, v))) as = Inr es" for as es
    using that by (induction as arbitrary: es) (force simp: result_simps)+
  let ?f = "\<lambda>n. case entry current n of Inr v \<Rightarrow> Some v | Inl _ \<Rightarrow> None"
  have "\<forall>e \<in> set es. ?f (fst e) = Some (snd e)" using es [OF m] by auto
  then show ?thesis using es [OF m] dict_get_artifacts [of es ?f] by (auto simp: os dict_ok_update)
qed

lemma take_snapshot_spec:
  assumes "dict_ok originals"
  shows "wp snd (take_snapshot env originals)
     (\<lambda>_ c'. \<exists>sn. c' = c\<lparr>tc_snapshot := sn, tc_log := tc_log c @ [Snapshotted sn]\<rparr>
        \<and> (originals \<noteq> [] \<longrightarrow> (\<exists>s. sn = Some s \<and> (\<forall>n. original_of s n = dict_get originals n))))
     (\<lambda>_ c'. c' = c) c"
  unfolding take_snapshot_def
  by (intro wp_intros wp_outside_value) (auto dest: create_snapshot_original [OF _ assms])

text \<open>What the decision has established when it lets the publication start.\<close>

definition ready_to_write :: "config_plan \<Rightarrow> file_state \<Rightarrow> tx_core \<Rightarrow> bool" where
  "ready_to_write p current c = (fresh c \<and> tc_plan c = Some p
     \<and> (\<forall>a \<in> set (changed_artifacts p). \<forall>v. entry current (pa_remote_name a) = Inr v \<longrightarrow> justified (tc_log c) (pa_remote_name a) v))"

lemma later_ready: "later c c' \<Longrightarrow> ready_to_write p current c \<Longrightarrow> ready_to_write p current c'"
  unfolding ready_to_write_def using later_fresh [of c c'] by (auto simp: later_def justified_append)

lemma choose_activation_spec:
  "(\<And>m. Q () (c\<lparr>tc_activation := m\<rparr>)) \<Longrightarrow> Q () c \<Longrightarrow> (\<And>e. E e c) \<Longrightarrow> wp snd (choose_activation env p) Q E c"
  unfolding choose_activation_def by (intro wp_intros) auto

lemma snapshot_ready:
  assumes "originals_of p current = Inr os" and "fresh c" and "tc_plan c = Some p"
    and "Accepted rv \<in> set (tc_log c)" and "valid (cr_validation rv)"
    and "os \<noteq> [] \<longrightarrow> (\<exists>s. sn = Some s \<and> (\<forall>n. original_of s n = dict_get os n))"
  shows "ready_to_write p current (c\<lparr>tc_snapshot := sn, tc_log := tc_log c @ [Snapshotted sn]\<rparr>)"
proof -
  have "justified (tc_log c @ [Snapshotted sn]) (pa_remote_name a) v"
    if "a \<in> set (changed_artifacts p)" "entry current (pa_remote_name a) = Inr v" for a v
  proof -
    have g: "dict_get os (pa_remote_name a) = Some v" using originals_of_spec [OF assms(1)] that by fastforce
    then obtain s where "sn = Some s" "\<forall>n. original_of s n = dict_get os n" using assms(6) by fastforce
    with g assms(4,5) show ?thesis by (auto simp: justified_def)
  qed
  then show ?thesis using assms(2,3) by (simp add: ready_to_write_def fresh_def)
qed

lemma decide_spec:
  assumes "fresh c" and "tc_plan c = Some (pf_plan pf)" and "valid (cr_validation (pf_review pf))"
  shows "wp snd (decide env pf)
     (\<lambda>d c'. case d of Inl r \<Rightarrow> fresh c' \<and> tr_state r = CANCELLED \<and> tr_rollback r = None | Inr current \<Rightarrow> ready_to_write (pf_plan pf) current c')
     (\<lambda>_. fresh) c"
proof -
  let ?Q = "\<lambda>d c'. case d of Inl r \<Rightarrow> fresh c' \<and> tr_state r = CANCELLED \<and> tr_rollback r = None | Inr current \<Rightarrow> ready_to_write (pf_plan pf) current c'"
  let ?P = "\<lambda>c'. fresh c' \<and> tc_plan c' = Some (pf_plan pf) \<and> Accepted (pf_review pf) \<in> set (tc_log c')"
  have snap: "wp snd (take_snapshot env os) (\<lambda>_. wp snd (returnS (Inr current)) ?Q (\<lambda>_. fresh)) (\<lambda>_. fresh) c'"
    if P: "?P c'" and os: "originals_of (pf_plan pf) current = Inr os" for c' os current
  proof (rule wp_conseq [OF take_snapshot_spec])
    show "dict_ok os" using originals_of_spec [OF os] by simp
  next
    fix x c2
    assume "\<exists>sn. c2 = c'\<lparr>tc_snapshot := sn, tc_log := tc_log c' @ [Snapshotted sn]\<rparr>
        \<and> (os \<noteq> [] \<longrightarrow> (\<exists>s. sn = Some s \<and> (\<forall>n. original_of s n = dict_get os n)))"
    then show "wp snd (returnS (Inr current)) ?Q (\<lambda>_. fresh) c2"
      using snapshot_ready [OF os _ _ _ assms(3)] P by (auto intro!: wp_return)
  qed (use P in simp)
  have later_P: "?P c'" if "?P c0" "later c0 c'" for c0 c'
    using that(1) later_fresh [OF that(2)] that(2) by (auto simp: later_def)
  have guarded: "wp snd (bindS (require_conditional_writes env (pf_plan pf)) (\<lambda>_.
       bindS (liftS (originals_of (pf_plan pf) current)) (\<lambda>originals.
       bindS (take_snapshot env originals) (\<lambda>_. returnS (Inr current))))) ?Q (\<lambda>_. fresh) c'" if P: "?P c'" for c' current
  proof (rule wp_bind, rule quiet_wp [OF quiet_parts(5)])
    fix x c2
    assume "later c' c2"
    from later_P [OF P this] have "?P c2" .
    then show "wp snd (bindS (liftS (originals_of (pf_plan pf) current)) (\<lambda>originals.
       bindS (take_snapshot env originals) (\<lambda>_. returnS (Inr current)))) ?Q (\<lambda>_. fresh) c2"
      by (intro wp_bind wp_lift snap) auto
  qed (use later_P [OF P] in blast)
  have rest: "wp snd (bindS (revalidate env (pf_remote pf)) (\<lambda>current.
       bindS (require_conditional_writes env (pf_plan pf)) (\<lambda>_.
       bindS (liftS (originals_of (pf_plan pf) current)) (\<lambda>originals.
       bindS (take_snapshot env originals) (\<lambda>_. returnS (Inr current)))))) ?Q (\<lambda>_. fresh) c'" if P: "?P c'" for c'
  proof (rule wp_bind, rule quiet_wp [OF quiet_parts(4)])
    show "wp snd (bindS (require_conditional_writes env (pf_plan pf)) (\<lambda>_.
       bindS (liftS (originals_of (pf_plan pf) current)) (\<lambda>originals.
       bindS (take_snapshot env originals) (\<lambda>_. returnS (Inr current))))) ?Q (\<lambda>_. fresh) c2" if "later c' c2" for current c2
      by (rule guarded) (rule later_P [OF P that])
  qed (use later_P [OF P] in blast)
  have "?P (c\<lparr>tc_log := tc_log c @ [Accepted (pf_review pf)]\<rparr>)" using assms by (simp add: fresh_def)
  then show ?thesis
    unfolding decide_def
    by (intro wp_intros choose_activation_spec rest)
       (use assms in \<open>auto simp: fresh_def tx_result_of_def intro!: wp_return\<close>)
qed

lemma decided_spec:
  assumes "fresh c" and "tc_plan c = Some (pf_plan pf)" and "valid (cr_validation (pf_review pf))"
  shows "wp snd (decided env pf)
     (\<lambda>d c'. case d of Inl r \<Rightarrow> fresh c' \<and> tr_state r \<in> {CANCELLED, PRECONDITION_FAILED, SNAPSHOT_FAILED} \<and> tr_rollback r = None
        | Inr current \<Rightarrow> ready_to_write (pf_plan pf) current c')
     (\<lambda>_. fresh) c"
  unfolding decided_def
proof (rule wp_bind, rule wp_attempt, rule wp_conseq [OF decide_spec [OF assms]])
  fix e c' assume "fresh c'"
  then have keep: "wp snd (preserve_proposal env) (\<lambda>_. fresh) (\<lambda>_. fresh) c'"
    by (intro quiet_wp [OF quiet_parts(9)]) (simp_all add: later_fresh)
  then show "if is_exception e then
       wp snd (case Inl e of Inl e \<Rightarrow>
         if tx_kind e = Conflict_error then
           bindS (preserve_proposal env) (\<lambda>_.
           returnS (Inl (tx_result_of env PRECONDITION_FAILED (tx_text e @ ''; no configuration files were written'') None)))
         else returnS (Inl (tx_result_of env SNAPSHOT_FAILED (''snapshot could not be completed: '' @ tx_text e) None))
       | Inr x \<Rightarrow> returnS x)
       (\<lambda>d c'. case d of Inl r \<Rightarrow> fresh c' \<and> tr_state r \<in> {CANCELLED, PRECONDITION_FAILED, SNAPSHOT_FAILED} \<and> tr_rollback r = None
        | Inr current \<Rightarrow> ready_to_write (pf_plan pf) current c') (\<lambda>_. fresh) c'
     else fresh c'"
    using \<open>fresh c'\<close>
    by (auto simp: tx_result_of_def intro!: wp_bind wp_return wp_conseq [OF keep])
qed (auto intro!: wp_return split: sum.splits)

lemma wp_mark: "(\<And>ws. Q () (c\<lparr>tc_written := ws\<rparr>)) \<Longrightarrow> wp snd (mark_written n) Q E c"
  unfolding mark_written_def by (rule wp_on_core) (cases c; simp)

lemma record_possible_write_spec:
  "(\<And>ws. Q () (c\<lparr>tc_written := ws\<rparr>)) \<Longrightarrow> Q () c \<Longrightarrow> (\<And>e. E e c) \<Longrightarrow> wp snd (record_possible_write env n) Q E c"
  unfolding record_possible_write_def
  by (intro wp_intros) (auto intro!: wp_intros wp_mark simp: Let_def)

text \<open>The uploads of the artifacts so far, each justified.\<close>

definition uploading :: "config_plan \<Rightarrow> file_state \<Rightarrow> plan_artifact list \<Rightarrow> tx_core \<Rightarrow> bool" where
  "uploading p current done c = (tc_plan c = Some p \<and> covered (tc_log c)
     \<and> uploads (tc_log c) = map (\<lambda>a. (pa_remote_name a, pa_content a)) done
     \<and> (\<forall>a \<in> set (changed_artifacts p). \<forall>v. entry current (pa_remote_name a) = Inr v \<longrightarrow> justified (tc_log c) (pa_remote_name a) v))"

definition as_planned :: "config_plan \<Rightarrow> tx_core \<Rightarrow> bool" where
  "as_planned p c = (tc_plan c = Some p \<and> written_as_planned p (tc_log c))"

lemma uploading_fields [simp]:
  "uploading p current done (c\<lparr>tc_written := ws\<rparr>) = uploading p current done c"
  "as_planned p (c\<lparr>tc_written := ws\<rparr>) = as_planned p c"
  by (simp_all add: uploading_def as_planned_def)

lemma later_uploading: "later c c' \<Longrightarrow> uploading p current done c \<Longrightarrow> uploading p current done c'"
  unfolding uploading_def by (auto simp: later_def covered_quiet uploads_none justified_append)

lemma later_as_planned: "later c c' \<Longrightarrow> as_planned p c \<Longrightarrow> as_planned p c'"
  unfolding as_planned_def using later_fields later_written by metis

lemma uploading_planned: "uploading p current ys c \<Longrightarrow> ordered_artifacts p = ys @ zs \<Longrightarrow> as_planned p c"
  unfolding uploading_def as_planned_def written_as_planned_def planned_uploads_def
  by (auto intro: exI [of _ "length ys"])

lemma upload_one_spec:
  assumes o: "ordered_artifacts p = ys @ a # zs" and u: "uploading p current ys c"
  shows "wp snd (upload_one env current a) (\<lambda>_. uploading p current (ys @ [a])) (\<lambda>_. as_planned p) c"
proof -
  have a: "a \<in> set (changed_artifacts p)"
    using o by (metis in_set_conv_decomp ordered_artifacts_def set_sort)
  have step: "uploading p current (ys @ [a]) (c'\<lparr>tc_log := tc_log c' @ [Uploading (pa_remote_name a) (pa_content a) v]\<rparr>)"
    if "uploading p current ys c'" "entry current (pa_remote_name a) = Inr v" for c' v
    using that a by (auto simp: uploading_def justified_append intro!: covered_snoc)
  have planned: "as_planned p c'" if "uploading p current (ys @ [a]) c'" for c'
    using uploading_planned [OF that] o by simp
  show ?thesis
    unfolding upload_one_def
  proof (intro wp_bind wp_lift quiet_wp [OF quiet_parts(4)] wp_log wp_catch wp_outside)
    fix v e c' assume v: "entry current (pa_remote_name a) = Inr v" and l: "later c c'"
    let ?c = "c'\<lparr>tc_log := tc_log c' @ [Uploading (pa_remote_name a) (pa_content a) v]\<rparr>"
    have s: "uploading p current (ys @ [a]) ?c" by (rule step [OF later_uploading [OF l u] v])
    show "wp snd (if tx_kind e = Still_running then raiseS e
        else bindS (record_possible_write env (pa_remote_name a)) (\<lambda>_. raiseS e))
        (\<lambda>_. uploading p current (ys @ [a])) (\<lambda>_. as_planned p) ?c"
      using planned [OF s] by (intro wp_if wp_bind record_possible_write_spec wp_raise) auto
    show "wp snd (mark_written (pa_remote_name a))
        (\<lambda>_. uploading p current (ys @ [a]))
        (\<lambda>e. wp snd (if tx_kind e = Still_running then raiseS e
          else bindS (record_possible_write env (pa_remote_name a)) (\<lambda>_. raiseS e))
          (\<lambda>_. uploading p current (ys @ [a])) (\<lambda>_. as_planned p)) ?c"
      using s by (intro wp_mark) simp
  qed (use uploading_planned [OF later_uploading [OF _ u] o] uploading_planned [OF u o] in auto)
qed

subsection \<open>What a committed result has observed\<close>

text \<open>
  The last effects of a committed run: Klipper was ready, the firmware check passed, and then the
  files read back as planned, every other reviewed file unchanged.
\<close>

definition committed_on :: "tx_core \<Rightarrow> bool" where
  "committed_on c = (\<exists>before p current. tc_log c = before @ [Klipper_ready, Firmware_checked, Plan_checked current]
     \<and> tc_plan c = Some p \<and> check_plan p (tc_expected c) current = Inr ())"

definition verified_on :: "tx_core \<Rightarrow> bool" where
  "verified_on c = (\<exists>before p current. tc_log c = before @ [Plan_checked current]
     \<and> tc_plan c = Some p \<and> check_plan p (tc_expected c) current = Inr ())"

lemma wp_verify_plan:
  "(\<And>p current. tc_plan c = Some p \<Longrightarrow> check_plan p (tc_expected c) current = Inr () \<Longrightarrow>
     Q () (c\<lparr>tc_log := tc_log c @ [Plan_checked current]\<rparr>)) \<Longrightarrow> (\<And>e. E e c) \<Longrightarrow> wp snd (verify_plan env) Q E c"
  unfolding verify_plan_def by (intro wp_intros) auto

lemma wp_wait_ready:
  "(\<And>st. Q (True, st) (c\<lparr>tc_log := tc_log c @ [Klipper_ready]\<rparr>)) \<Longrightarrow> (\<And>st. Q (False, st) c) \<Longrightarrow> (\<And>e. E e c) \<Longrightarrow>
   wp snd (wait_ready env) Q E c"
  unfolding wait_ready_def by (intro wp_intros) (simp_all add: split_paired_all)

lemma wp_check_firmware:
  "Q () (c\<lparr>tc_log := tc_log c @ [Firmware_checked]\<rparr>) \<Longrightarrow> (\<And>e. E e c) \<Longrightarrow> wp snd (check_firmware env) Q E c"
  unfolding check_firmware_def by (intro wp_intros) (auto intro!: wp_intros)

lemma finish_existing_spec: "wp snd (finish_existing env p) (\<lambda>r c'. tr_state r = COMMITTED \<and> tr_rollback r = None \<and> committed_on c') (\<lambda>_ _. True) c"
  unfolding finish_existing_def
  by (intro wp_bind wp_wait_ready wp_prod wp_require wp_check_firmware wp_option wp_return wp_outside wp_verify_plan wp_emit_state)
     (auto simp: tx_result_of_def committed_on_def)

lemma activate_spec: "wp snd (activate env p) (\<lambda>r c'. tr_state r = COMMITTED \<and> tr_rollback r = None \<and> committed_on c') (\<lambda>_ _. True) c"
  unfolding activate_def restart_moonraker_first_def wait_moonraker_def
  by (intro wp_bind wp_wait_ready wp_prod wp_require wp_check_firmware wp_when wp_return wp_outside wp_waited wp_verify_plan
      wp_emit_state wp_the_core wp_log)
     (auto simp: tx_result_of_def committed_on_def)

text \<open>The result of a publication, with the state it leaves.\<close>

definition published_ok :: "config_plan \<Rightarrow> tx_result \<Rightarrow> tx_core \<Rightarrow> bool" where
  "published_ok p r c = (as_planned p c \<and> tr_rollback r = None
     \<and> (tr_state r = COMMITTED \<and> committed_on c \<or> tr_state r = DEPLOYED_PENDING_ACTIVATION \<and> verified_on c))"

lemma finished_spec:
  assumes "as_planned p c" and "quiet_tx m" and "wp snd m (\<lambda>r c'. tr_state r = COMMITTED \<and> tr_rollback r = None \<and> committed_on c') (\<lambda>_ _. True) c"
  shows "wp snd m (published_ok p) (\<lambda>_. as_planned p) c"
proof -
  have "wp snd m (\<lambda>_. as_planned p) (\<lambda>_. as_planned p) c"
    using assms(1) later_as_planned by (intro quiet_wp [OF assms(2)]) blast+
  from wp_conj [OF this assms(3)] show ?thesis by (rule wp_conseq) (auto simp: published_ok_def)
qed

lemma publish_spec:
  assumes "ready_to_write p current c"
  shows "wp snd (publish env p current) (published_ok p) (\<lambda>_. as_planned p) c"
proof -
  have start: "uploading p current [] c"
    using assms by (auto simp: uploading_def ready_to_write_def fresh_def fresh_covered)
  have checked: "as_planned p (c'\<lparr>tc_log := tc_log c' @ [Plan_checked d]\<rparr>)" if "as_planned p c'" for c' d
    by (rule later_as_planned [OF later_log [OF later_refl] that]) simp
  have tail: "wp snd (bindS (emit_state env ''VERIFYING_UPLOAD'' ''verifying uploaded configuration checksums'') (\<lambda>_.
     bindS (verify_plan env) (\<lambda>_.
     if changed_artifacts p = [] \<and> te_verify_existing env then finish_existing env p
     else
       bindS (the_core (\<lambda>c. (tc_activation c, tc_snapshot c))) (\<lambda>(activation, sn).
       if activation = ''none'' then
         returnS (tx_result_of env DEPLOYED_PENDING_ACTIVATION ''checksums verified; configuration requires an explicit restart'' sn)
       else activate env p)))) (published_ok p) (\<lambda>_. as_planned p) c'"
    if "as_planned p c'" for c'
    using that checked [OF that]
    by (intro wp_bind wp_emit_state wp_verify_plan wp_if finished_spec quiet_finish finish_existing_spec activate_spec
        wp_the_core wp_prod wp_return)
       (auto simp: published_ok_def verified_on_def tx_result_of_def)
  show ?thesis
    unfolding publish_def
  proof (rule wp_bind, rule wp_each_steps [where I = "uploading p current"])
    show "wp snd (upload_one env current a) (\<lambda>_. uploading p current (ys @ [a])) (\<lambda>_. as_planned p) c'"
      if "ordered_artifacts p = ys @ a # zs" "uploading p current ys c'" for a ys zs c'
      using that by (rule upload_one_spec)
    show "wp snd (bindS (emit_state env ''VERIFYING_UPLOAD'' ''verifying uploaded configuration checksums'') (\<lambda>_.
     bindS (verify_plan env) (\<lambda>_.
     if changed_artifacts p = [] \<and> te_verify_existing env then finish_existing env p
     else
       bindS (the_core (\<lambda>c. (tc_activation c, tc_snapshot c))) (\<lambda>(activation, sn).
       if activation = ''none'' then
         returnS (tx_result_of env DEPLOYED_PENDING_ACTIVATION ''checksums verified; configuration requires an explicit restart'' sn)
       else activate env p)))) (published_ok p) (\<lambda>_. as_planned p) c'"
      if "uploading p current (ordered_artifacts p) c'" for c'
      by (rule tail) (rule uploading_planned [OF that, of "[]"], simp)
  qed (rule start)
qed

subsection \<open>The run\<close>

definition tx_inv :: "tx_core \<Rightarrow> bool" where
  "tx_inv c = (fresh c \<or> (\<exists>p. as_planned p c))"

text \<open>The evidence for a claimed rollback: the written files read back as the snapshot records them.\<close>

definition restored_on :: "tx_core \<Rightarrow> bool" where
  "restored_on c = (\<exists>sn current. tc_snapshot c = Some sn \<and> Originals_checked current \<in> set (tc_log c)
     \<and> verify_snapshot_restored sn current (tc_written c) = Inr ())"

lemma later_restored: "later c c' \<Longrightarrow> restored_on c \<Longrightarrow> restored_on c'"
  by (auto simp: later_def restored_on_def)

lemma wp_check_restoration:
  "(\<And>current. verify_snapshot_restored sn current ns = Inr () \<Longrightarrow> Q () (c\<lparr>tc_log := tc_log c @ [Originals_checked current]\<rparr>)) \<Longrightarrow>
   (\<And>e. E e c) \<Longrightarrow> wp snd (check_restoration env sn ns) Q E c"
  unfolding check_restoration_def by (intro wp_intros) auto

lemma reactivate_spec:
  assumes "tc_snapshot c = Some sn"
  shows "wp snd (reactivate env sn (tc_written c)) (\<lambda>r c'. later c c' \<and> restored_on c') (\<lambda>_ c'. later c c') c"
proof -
  have rest: "wp snd (reactivate env sn (tc_written c)) (\<lambda>_. restored_on) (\<lambda>_ _. True) c"
    unfolding reactivate_def
  proof (rule wp_bind, rule wp_check_restoration)
    fix current assume v: "verify_snapshot_restored sn current (tc_written c) = Inr ()"
    have "restored_on (c\<lparr>tc_log := tc_log c @ [Originals_checked current]\<rparr>)"
      using v assms by (auto simp: restored_on_def)
    then show "wp snd (bindS (the_core tc_activation) (\<lambda>activation.
     if activation = ''none'' then returnS (True, ''rollback restored byte-identical inactive files'')
     else
       bindS (if original_of sn moonraker_remote \<noteq> None
         then bindS (outside (te_restart_moonraker env)) (\<lambda>_. wait_moonraker env) else returnS True) (\<lambda>online.
       if \<not> online then returnS (False, ''Moonraker did not recover after rollback'')
       else
         bindS (outside (te_restart env activation)) (\<lambda>_.
         bindS (log_effect (Restarted activation)) (\<lambda>_.
         bindS (wait_ready env) (\<lambda>(ready, st).
         if \<not> ready then returnS (False, ''Klipper did not become Ready after rollback (state='' @ st @ '')'')
         else bindS (check_restoration env sn (tc_written c)) (\<lambda>_.
           returnS (True, ''rollback restored byte-identical state and Klipper Ready'')))))))) (\<lambda>_. restored_on) (\<lambda>_ _. True)
       (c\<lparr>tc_log := tc_log c @ [Originals_checked current]\<rparr>)"
      by (intro quiet_wp [of _ _ "\<lambda>_. restored_on"] quiet_intros) (auto dest: later_restored)
  qed simp
  have "wp snd (reactivate env sn (tc_written c)) (\<lambda>_. later c) (\<lambda>_. later c) c"
    by (rule quiet_wp [OF quiet_reactivate])
  from wp_conj [OF this rest] show ?thesis by (rule wp_conseq) auto
qed

lemma restore_stage_spec:
  assumes "tc_snapshot c = Some sn"
  shows "wp snd (restore_stage env sn (tc_written c)) (\<lambda>rb c'. fst rb = Some True \<longrightarrow> restored_on c') (\<lambda>_ _. True) c"
proof -
  have r: "wp snd (reactivate env sn (tc_written c)) (\<lambda>_. restored_on) (\<lambda>_ _. True) c'" if "later c c'" for c'
    using reactivate_spec [of c' sn env] later_fields [OF that] assms by (auto elim: wp_conseq)
  have "wp snd (attempt (reactivate env sn (tc_written c)))
      (\<lambda>r. wp snd (returnS (reactivation_result r)) (\<lambda>rb c'. fst rb = Some True \<longrightarrow> restored_on c') (\<lambda>_ _. True))
      (\<lambda>_ _. True) c'" if "later c c'" for c'
    by (rule wp_attempt, rule wp_conseq [OF r [OF that]])
       (auto simp: reactivation_result_def intro!: wp_return)
  then show ?thesis
    unfolding restore_stage_def
    by (intro wp_bind quiet_wp [OF quiet_attempt [OF quiet_parts(8)]] wp_sum wp_return) auto
qed

lemma rollback_spec: "wp snd (rollback env) (\<lambda>rb c'. later c c' \<and> (fst rb = Some True \<longrightarrow> restored_on c')) (\<lambda>_. later c) c"
proof -
  have stage: "wp snd (restore_stage env sn (tc_written c)) (\<lambda>rb c'. fst rb = Some True \<longrightarrow> restored_on c') (\<lambda>_ _. True) c'"
    if "later c c'" "tc_snapshot c = Some sn" for c' sn
    using restore_stage_spec [of c' sn env] later_fields [OF that(1)] that(2) by simp
  have "wp snd (rollback env) (\<lambda>rb c'. fst rb = Some True \<longrightarrow> restored_on c') (\<lambda>_ _. True) c"
    unfolding rollback_def
    by (intro wp_bind wp_the_core wp_if wp_return wp_option wp_the_plan wp_sum
        quiet_wp [OF quiet_attempt [OF quiet_tx_each [OF quiet_parts(7)]]] stage) auto
  moreover have "wp snd (rollback env) (\<lambda>_. later c) (\<lambda>_. later c) c"
    by (rule quiet_wp [OF quiet_rollback])
  ultimately show ?thesis by (auto intro: wp_conseq [OF wp_conj])
qed

text \<open>States that exclude any write, whatever the transport did.\<close>

definition run_ok :: "tx_result \<Rightarrow> tx_core \<Rightarrow> bool" where
  "run_ok r c = (tx_inv c
     \<and> (tr_state r \<in> {PRECONDITION_FAILED, SNAPSHOT_FAILED, CANCELLED} \<longrightarrow> fresh c)
     \<and> (tr_state r = COMMITTED \<longrightarrow> committed_on c)
     \<and> (tr_state r = DEPLOYED_PENDING_ACTIVATION \<longrightarrow> verified_on c)
     \<and> (tr_rollback r = Some True \<longrightarrow> restored_on c))"

lemma later_inv: "later c c' \<Longrightarrow> tx_inv c \<Longrightarrow> tx_inv c'"
  unfolding tx_inv_def using later_fresh later_as_planned by blast

lemma failed_state: "tr_state (failed_result env e sn rb) \<in> {ROLLBACK_FAILED, FIRMWARE_FAILED, ACTIVATION_FAILED, VERIFY_FAILED, UPLOAD_FAILED}"
  by (simp add: failed_result_def failure_state_def Let_def)

lemma failed_rollback [simp]: "tr_rollback (failed_result env e sn rb) = fst rb"
  by (simp add: failed_result_def Let_def)

lemma published_spec:
  assumes "ready_to_write p current c"
  shows "wp snd (published env p current) run_ok (\<lambda>_. tx_inv) c"
proof -
  have handler: "wp snd (bindS (preserve_proposal env) (\<lambda>_.
         bindS (emit_state env ''CONFIG_ERROR'' (tx_text e)) (\<lambda>_.
         bindS (rollback env) (\<lambda>rb.
         bindS (the_core tc_snapshot) (\<lambda>sn. returnS (failed_result env e sn rb)))))) run_ok (\<lambda>_. tx_inv) c'"
    if i: "as_planned p c'" for e c'
  proof -
    have inv: "tx_inv c2" if "later c' c2" for c2
      using later_as_planned [OF that i] by (auto simp: tx_inv_def)
    have fin: "run_ok (failed_result env e sn rb) c2"
      if "later c' c2" "fst rb = Some True \<longrightarrow> restored_on c2" for c2 sn rb
      using inv [OF that(1)] failed_state [of env e sn rb] that(2)
      by (auto simp: run_ok_def)
    show ?thesis
      by (rule wp_bind, rule quiet_wp [OF quiet_parts(9)], rule wp_bind, rule wp_emit_state, rule wp_bind,
          rule wp_conseq [OF rollback_spec], rule wp_bind, rule wp_the_core, rule wp_return)
         (blast intro: fin inv dest: later_trans)+
  qed
  show ?thesis
    unfolding published_def
    by (rule wp_bind, rule wp_attempt, rule wp_conseq [OF publish_spec [OF assms]])
       (auto simp: published_ok_def run_ok_def tx_inv_def intro!: wp_return handler)
qed

lemma rechecked_spec:
  assumes "ready_to_write p current c"
  shows "wp snd (rechecked env p current)
     (\<lambda>d c'. case d of Inl r \<Rightarrow> run_ok r c' | Inr _ \<Rightarrow> ready_to_write p current c') (\<lambda>_. tx_inv) c"
proof -
  have fresh: "fresh c'" if "later c c'" for c' using assms later_fresh [OF that] by (simp add: ready_to_write_def)
  have ok: "run_ok (tx_result_of env PRECONDITION_FAILED m sn) c'" if "later c c'" for c' m sn
    using fresh [OF that] by (simp add: run_ok_def tx_inv_def tx_result_of_def)
  have "quiet_tx (recheck env p current)" unfolding recheck_def by (intro quiet_intros)
  then show ?thesis
    unfolding rechecked_def
    by (intro wp_catch wp_bind, elim quiet_wp)
       (auto intro!: wp_return wp_raise wp_bind wp_the_core quiet_wp [OF quiet_parts(9)] ok
         intro: later_ready [OF _ assms] later_trans fresh [OF later_trans] simp: tx_inv_def fresh)
qed

lemma proceed_spec:
  assumes "fresh c" and "tc_plan c = Some (pf_plan pf)"
  shows "wp snd (proceed env pf) run_ok (\<lambda>_. tx_inv) c"
proof -
  have stop: "run_ok r c'" if "fresh c'" "tr_state r \<in> {CANCELLED, PRECONDITION_FAILED, SNAPSHOT_FAILED}" "tr_rollback r = None" for c' r
    using that by (auto simp: run_ok_def tx_inv_def)
  have inv: "tx_inv c'" if "fresh c'" for c' using that by (simp add: tx_inv_def)
  have after: "wp snd (bindS (emit_state env ''APPLYING_CONFIG'' ''uploading reconciled configuration'') (\<lambda>_.
        bindS (rechecked env (pf_plan pf) current) (\<lambda>d. case d of
          Inl r \<Rightarrow> returnS r
        | Inr _ \<Rightarrow> published env (pf_plan pf) current))) run_ok (\<lambda>_. tx_inv) c2"
    if r: "ready_to_write (pf_plan pf) current c2" for current c2
  proof (rule wp_bind, rule wp_emit_state, rule wp_bind, rule wp_conseq [OF rechecked_spec [OF r]])
    show "tx_inv c2" using r by (simp add: ready_to_write_def inv)
  qed (auto intro!: wp_return published_spec split: sum.splits)
  show ?thesis
    unfolding proceed_def
  proof (rule wp_if)
    show "wp snd (returnS (tx_result_of env PRECONDITION_FAILED (''semantic configuration validation failed: ''
          @ join_with ''; '' (map snd (va_errors (cr_validation (pf_review pf))))) None)) run_ok (\<lambda>_. tx_inv) c"
      using assms(1) by (intro wp_return stop) (simp_all add: tx_result_of_def)
    assume v: "\<not> \<not> valid (cr_validation (pf_review pf))"
    show "wp snd (bindS (decided env pf) (\<lambda>d. case d of
          Inl r \<Rightarrow> returnS r
        | Inr current \<Rightarrow>
            bindS (emit_state env ''APPLYING_CONFIG'' ''uploading reconciled configuration'') (\<lambda>_.
            bindS (rechecked env (pf_plan pf) current) (\<lambda>d. case d of
              Inl r \<Rightarrow> returnS r
            | Inr _ \<Rightarrow> published env (pf_plan pf) current)))) run_ok (\<lambda>_. tx_inv) c"
    proof (rule wp_bind, rule wp_conseq [OF decided_spec [OF assms]])
      show "valid (cr_validation (pf_review pf))" using v by simp
    qed (auto intro!: wp_sum wp_return after stop inv)
  qed
qed

lemma run_locked_spec:
  assumes "fresh c"
  shows "wp snd (run_locked env) run_ok (\<lambda>_. tx_inv) c"
proof -
  have inv: "tx_inv c'" if "fresh c'" for c' using that by (simp add: tx_inv_def)
  have stop: "run_ok (tx_result_of env PRECONDITION_FAILED m None) c'" if "fresh c'" for c' m
    using that by (simp add: run_ok_def tx_inv_def tx_result_of_def)
  show ?thesis
    unfolding run_locked_def
    by (rule wp_bind, rule wp_emit_state, rule wp_bind, rule wp_attempt, rule wp_conseq [OF preflight_spec [OF assms]])
       (auto intro!: wp_return stop inv proceed_spec simp: assms)
qed

text \<open>
  The handlers of \<open>run\<close>: a result of \<open>_run_locked\<close> passes; an interrupt is rolled back; an
  \<open>OSError\<close> or conflict that left \<open>_run_locked\<close> becomes a failed precondition without evidence
  about the files.
\<close>

definition settled :: "tx_result \<Rightarrow> tx_core \<Rightarrow> bool" where
  "settled r c = (run_ok r c \<or> (tx_inv c \<and> tr_state r \<in> {PRECONDITION_FAILED, ROLLBACK_FAILED, CANCELLED}
     \<and> (tr_rollback r = Some True \<longrightarrow> restored_on c)))"

lemma interrupted_spec:
  assumes "tx_inv c"
  shows "wp snd (interrupted env) settled (\<lambda>_. tx_inv) c"
proof -
  let ?m = "if tc_written c = [] then returnS (None, ''no configuration files were written'')
       else catchS (rollback env) (\<lambda>e.
         if tx_kind e = Keyboard_interrupt then returnS (Some False, ''rollback interrupted by user'')
         else if is_exception e then returnS (Some False, ''rollback failed: '' @ tx_text e)
         else raiseS e)"
  have m: "wp snd ?m (\<lambda>rb c'. later c c' \<and> (fst rb = Some True \<longrightarrow> restored_on c')) (\<lambda>_. later c) c"
    by (intro wp_if wp_return wp_catch wp_conseq [OF rollback_spec])
       (auto intro!: wp_return wp_raise)
  show ?thesis
    unfolding interrupted_def
    by (rule wp_bind, rule wp_the_core, rule wp_bind, rule wp_conseq [OF m])
       (auto intro!: wp_bind wp_the_core wp_return later_inv [OF _ assms] simp: settled_def)
qed

lemma run_held_spec:
  assumes "fresh c"
  shows "wp snd (run_held env) settled (\<lambda>_. tx_inv) c"
proof -
  have inv: "tx_inv c" using assms by (simp add: tx_inv_def)
  let ?m = "case te_destination_lock env of None \<Rightarrow> run_locked env
     | Some (acquire, release) \<Rightarrow> bindS (outside acquire) (\<lambda>_. finallyS (run_locked env) (outside release))"
  have "wp snd (finallyS (run_locked env) (outside release)) run_ok (\<lambda>_. tx_inv) c" for release
    by (rule wp_finally, rule wp_conseq [OF run_locked_spec [OF assms]]) (auto intro!: wp_outside simp: run_ok_def)
  then have m: "wp snd ?m run_ok (\<lambda>_. tx_inv) c"
    using inv run_locked_spec [OF assms]
    by (auto intro!: wp_bind wp_outside split: option.splits prod.splits)
  show ?thesis
    unfolding run_held_def
    by (rule wp_catch, rule wp_conseq [OF m])
       (auto intro!: wp_bind wp_the_core wp_return wp_raise interrupted_spec simp: settled_def tx_result_of_def)
qed

lemma run_spec:
  assumes "fresh c"
  shows "wp snd (run_transaction env) settled (\<lambda>_. tx_inv) c"
proof -
  have inv: "tx_inv c" using assms by (simp add: tx_inv_def)
  have held: "wp snd (finallyS (run_held env) (outside release)) settled (\<lambda>_. tx_inv) c" for release
    by (rule wp_finally, rule wp_conseq [OF run_held_spec [OF assms]])
       (auto intro!: wp_outside simp: settled_def run_ok_def)
  have key: "wp snd (destination_key env) (\<lambda>_ c'. c' = c) (\<lambda>_ c'. c' = c) c"
    unfolding destination_key_def by (intro wp_intros) auto
  show ?thesis
    unfolding run_transaction_def
    by (rule wp_bind, rule wp_attempt, rule wp_conseq [OF key])
       (use inv assms in \<open>auto intro!: wp_return wp_bind wp_outside held simp: settled_def tx_result_of_def\<close>)
qed

end
