(* ===== verification/Config_Claims.thy ===== *)
theory Config_Claims
  imports Config_Properties
begin

text \<open>
  A concrete printer for the configuration transaction, and the properties of the whole run with
  their instances on it.
\<close>

subsection \<open>A concrete transport\<close>

text \<open>The world is a clock and the files; the snapshot store refuses to publish below \<open>refused\<close>.\<close>

type_synonym printer = "int \<times> file_state"

definition no_op :: "(printer, tx_exn, unit) action" where
  "no_op = returnS ()"

definition ex_store :: "string \<Rightarrow> printer store_host" where
  "ex_store refused = \<lparr>sh_posix = True, sh_expanduser = (\<lambda>p. p), sh_encode = (\<lambda>_. []), sh_sha = (\<lambda>_. []),
     sh_clock = returnS ''t'', sh_uuid = returnS ''u'', sh_uuid_hex = returnS ''h'', sh_makedirs = (\<lambda>_ _. no_op),
     sh_chmod = (\<lambda>_ _. no_op), sh_mkstemp = (\<lambda>_ _. returnS ''tmp''), sh_write_sync = (\<lambda>_ _. no_op),
     sh_replace = (\<lambda>_ target. if target = refused then raiseS (Tx Os_failed ''Directory not empty'') else no_op),
     sh_unlink = (\<lambda>_. no_op), sh_rmtree = (\<lambda>_. no_op), sh_sync_dir = (\<lambda>_. no_op)\<rparr>"

definition ex_read :: "printer reader" where
  "ex_read ns = getS (\<lambda>w. map (\<lambda>n. (n, case dict_get (snd w) n of Some v \<Rightarrow> v | None \<Rightarrow> None)) ns)"

definition ex_upload :: "string \<Rightarrow> bytes \<Rightarrow> bytes option \<Rightarrow> (printer, tx_exn, unit) action" where
  "ex_upload n d previous = modifyS (\<lambda>w. (fst w, dict_set (snd w) n (Some d)))"

definition ex_plan :: "file_state \<Rightarrow> config_plan" where
  "ex_plan remote = \<lparr>cp_artifacts = [\<lparr>pa_remote_name = root_remote, pa_content = [1, 2], pa_previous = the (dict_get remote root_remote)\<rparr>,
       \<lparr>pa_remote_name = macros_remote, pa_content = [3], pa_previous = the (dict_get remote macros_remote)\<rparr>],
     cp_legacy_migration = False, cp_warnings = [], cp_source_files = remote\<rparr>"

definition ex_validation :: validation where
  "ex_validation = \<lparr>va_errors = [], va_warnings = []\<rparr>"

definition ex_tx_env :: "string \<Rightarrow> (printer, tx_exn, string) action \<Rightarrow> bool \<Rightarrow> printer tx_env" where
  "ex_tx_env refused klipper yes =
     \<lparr>te_read = ex_read, te_validate_target = no_op, te_supports = (\<lambda>_. True), te_upload = ex_upload,
      te_restart = (\<lambda>_. no_op), te_restart_moonraker = no_op, te_online = returnS True, te_klipper_state = klipper,
      te_verify_active = None, te_destination_key = returnS [''local''], te_lock = (\<lambda>_. no_op), te_unlock = (\<lambda>_. no_op),
      te_destination_lock = None, te_monotonic = getS fst, te_sleep = (\<lambda>d. modifyS (\<lambda>w. (fst w + d, snd w))),
      te_store = ex_store refused, te_decode = (\<lambda>_. Inr []), te_check_display = (\<lambda>_ _ _. Inr ()), te_check_board = (\<lambda>_. Inr ()),
      te_planner = (\<lambda>_ _ remote. Inr (ex_plan remote)), te_unified = (\<lambda>a. pa_remote_name a),
      te_build_review = (\<lambda>_. returnS \<lparr>cr_validation = ex_validation, cr_summary = [], cr_changed_files = [],
        cr_important_changes = [], cr_diff = []\<rparr>),
      te_validate = (\<lambda>_. returnS ex_validation), te_confirm = (\<lambda>_. returnS yes), te_output = (\<lambda>_. no_op), te_review = None,
      te_selector = None, te_sink = None, te_verify_firmware = None, te_hardware = [7], te_macros = None,
      te_snapshot_root = ''/s'', te_board = [], te_kace_version = ''1'', te_timeout = 90,
      te_poll_interval = 1, te_transaction_id = ''a'', te_verify_existing = False, te_has_reservations = False,
      te_has_board = False, te_review_fuel = 5, te_wait_fuel = 4\<rparr>"

definition ex_core :: tx_core where
  "ex_core = \<lparr>tc_plan = None, tc_snapshot = None, tc_expected = [], tc_written = [], tc_activation = ''firmware'', tc_log = []\<rparr>"

definition ex_files :: file_state where
  "ex_files = [(root_remote, Some [9])]"

lemma ex_core_new: "new_transaction ''firmware'' = Inr ex_core"
  by (simp add: new_transaction_def require_def activation_modes_def ex_core_def)

definition ex_run :: "string \<Rightarrow> (printer, tx_exn, string) action \<Rightarrow> bool \<Rightarrow> (tx_exn + tx_result) \<times> printer \<times> tx_core" where
  "ex_run refused klipper yes = run_transaction (ex_tx_env refused klipper yes) ((0, ex_files), ex_core)"


lemma returned_run: "(case x of (Inr r, v, c) \<Rightarrow> P r c | _ \<Rightarrow> False) \<Longrightarrow> \<exists>r v c. x = (Inr r, (v, c)) \<and> P r c"
  by (auto split: prod.splits sum.splits)

lemma ex_runs:
  "case ex_run [] (returnS ''ready'') True of (Inr r, _, c) \<Rightarrow>
     tr_state r = COMMITTED \<and> uploads (tc_log c) = [(macros_remote, [3]), (root_remote, [1, 2])] | _ \<Rightarrow> False"
  "case ex_run [] (returnS ''error'') True of (Inr r, _, c) \<Rightarrow>
     tr_state r = ROLLBACK_FAILED \<and> tr_rollback r = Some False | _ \<Rightarrow> False"
  "case run_locked (ex_tx_env [] (returnS ''ready'') False) ((0, ex_files), ex_core) of (Inr r, _, c) \<Rightarrow> tr_state r = CANCELLED | _ \<Rightarrow> False"
  by code_simp+

lemma new_transaction_fresh: "new_transaction activation = Inr c \<Longrightarrow> fresh c"
  by (auto simp: new_transaction_def require_def fresh_def split: if_splits)

subsection \<open>Properties\<close>





text \<open>
  C23. A refusal writes nothing: when the locked run ends with a failed precondition, a failed snapshot
  or a cancellation, no file of the printer was written or attempted.
\<close>

theorem refused_run_writes_nothing:
  assumes "new_transaction activation = Inr c0" and "run_locked env (w, c0) = (Inr r, (w', c))"
    and "tr_state r \<in> {PRECONDITION_FAILED, SNAPSHOT_FAILED, CANCELLED}"
  shows "uploads (tc_log c) = []"
proof -
  have "wp snd (run_locked env) run_ok (\<lambda>_. tx_inv) (snd (w, c0))"
    using run_locked_spec [OF new_transaction_fresh [OF assms(1)]] by simp
  from wpD [OF this assms(2)] assms(3) show ?thesis by (auto simp: run_ok_def fresh_def)
qed

theorem refused_run_writes_nothing_witness:
  "\<exists>r w' c. run_locked (ex_tx_env [] (returnS ''ready'') False) ((0, ex_files), ex_core) = (Inr r, (w', c)) \<and> uploads (tc_log c) = []"
proof -
  let ?run = "run_locked (ex_tx_env [] (returnS ''ready'') False) ((0, ex_files), ex_core)"
  obtain r w' c where run: "?run = (Inr r, (w', c))" and st: "tr_state r = CANCELLED"
    using ex_runs(3) by (cases ?run) (auto split: sum.splits prod.splits)
  with refused_run_writes_nothing [OF ex_core_new run] show ?thesis by simp
qed


text \<open>
  C22. A rollback claims success only on evidence: when a run reports a successful rollback, the files
  it may have written were read back and each equals the original the snapshot records, content or
  absence.
\<close>

theorem rollback_success_restored:
  assumes "new_transaction activation = Inr c0" and "run_transaction env (w, c0) = (Inr r, (w', c))"
    and "tr_rollback r = Some True"
  shows "\<exists>sn current. tc_snapshot c = Some sn \<and> Originals_checked current \<in> set (tc_log c)
     \<and> (\<forall>n \<in> set (tc_written c). \<exists>v. dict_get current n = Some v \<and> original_of sn n = Some v)"
proof -
  have "wp snd (run_transaction env) settled (\<lambda>_. tx_inv) (snd (w, c0))"
    using run_spec [OF new_transaction_fresh [OF assms(1)]] by simp
  from wpD [OF this assms(2)] assms(3) have "restored_on c" by (auto simp: settled_def run_ok_def)
  then show ?thesis by (auto simp: restored_on_def verify_restored_iff)
qed

text \<open>A server that acknowledges uploads without storing them.\<close>

definition ex_lost :: "(tx_exn + tx_result) \<times> printer \<times> tx_core" where
  "ex_lost = run_transaction ((ex_tx_env [] (returnS ''ready'') True)\<lparr>te_upload := \<lambda>_ _ _. no_op\<rparr>)
     ((0, ex_files), ex_core\<lparr>tc_activation := ''none''\<rparr>)"

lemma ex_lost_rolled_back:
  "case ex_lost of (Inr r, _, c) \<Rightarrow> tr_rollback r = Some True \<and> tc_written c = [macros_remote, root_remote] | _ \<Rightarrow> False"
  by code_simp

theorem rollback_success_restored_witness:
  "\<exists>r w' c sn current. ex_lost = (Inr r, (w', c)) \<and> tc_snapshot c = Some sn
     \<and> (\<exists>v. dict_get current root_remote = Some v \<and> original_of sn root_remote = Some v)"
proof -
  obtain r w' c where run: "ex_lost = (Inr r, (w', c))" and st: "tr_rollback r = Some True"
    and ws: "tc_written c = [macros_remote, root_remote]"
    using returned_run [OF ex_lost_rolled_back] by blast
  have "new_transaction ''none'' = Inr (ex_core\<lparr>tc_activation := ''none''\<rparr>)"
    by (simp add: new_transaction_def require_def activation_modes_def ex_core_def)
  from rollback_success_restored [OF this run [unfolded ex_lost_def] st] obtain sn current
    where "tc_snapshot c = Some sn" "\<forall>n \<in> set (tc_written c). \<exists>v. dict_get current n = Some v \<and> original_of sn n = Some v"
    by blast
  with run ws show ?thesis by (metis list.set_intros(1,2))
qed

end
