(* ===== verification/Py_Settles.thy ===== *)
theory Py_Settles
  imports Snapshot
begin

text \<open>
  Actions that never stop for lack of fuel: \<open>settles m\<close> says that no outcome of \<open>m\<close> is
  \<open>Still_running\<close>.  The deployments prove their termination with it.
\<close>

subsection \<open>Actions that settle\<close>

definition calm :: "(tx_exn, 'a) res \<Rightarrow> bool" where
  "calm r = (\<forall>e. r = Inl e \<longrightarrow> tx_kind e \<noteq> Still_running)"

definition settles :: "('s, tx_exn, 'a) action \<Rightarrow> bool" where
  "settles m = (\<forall>s. calm (fst (m s)))"

named_theorems settles_intros \<open>actions that never stop for lack of fuel\<close>

lemma calm_simps [simp]: "calm (Inr x)" "calm (Inl e) \<longleftrightarrow> tx_kind e \<noteq> Still_running"
  by (simp_all add: calm_def)

lemma kind_Tx [simp]: "tx_kind (Tx k m) = k"
  by (simp add: tx_kind_def)

lemma calm_bindE: "calm r \<Longrightarrow> (\<And>x. calm (k x)) \<Longrightarrow> calm (bindE r k)"
  by (cases r) (auto simp: bindE_def)

lemma calm_mapE: "(\<And>x. calm (f x)) \<Longrightarrow> calm (mapE f xs)"
  by (induction xs) (auto simp: calm_bindE)

lemma calm_require: "tx_kind e \<noteq> Still_running \<Longrightarrow> calm r \<Longrightarrow> calm (require b e r)"
  by (simp add: require_def)

lemma calm_prod: "(\<And>a b. calm (f a b)) \<Longrightarrow> calm (case p of (a, b) \<Rightarrow> f a b)"
  by (cases p) simp

lemma calm_entry: "calm (entry d n)"
  by (simp add: entry_def split: option.splits)

lemma calm_restored: "calm (verify_snapshot_restored sn d ns)"
  unfolding verify_snapshot_restored_def check_restored_def
  by (auto intro!: calm_bindE calm_mapE calm_require split: option.splits)

lemmas calm_intros = calm_bindE calm_mapE calm_require calm_prod calm_entry calm_simps(1)

lemma settles_basic [settles_intros]:
  "settles (returnS x)" "tx_kind e \<noteq> Still_running \<Longrightarrow> settles (raiseS e)" "calm r \<Longrightarrow> settles (liftS r)"
  "tx_kind e \<noteq> Still_running \<Longrightarrow> settles (requireS b e)" "settles (getS f)" "settles (modifyS g)"
  by (simp_all add: settles_def returnS_def raiseS_def liftS_def requireS_def getS_def modifyS_def)

lemma settles_bind [settles_intros]: "settles m \<Longrightarrow> (\<And>x. settles (k x)) \<Longrightarrow> settles (bindS m k)"
  unfolding settles_def bindS_def by (auto split: prod.splits sum.splits) (metis fst_conv calm_simps(2))+

lemma settles_catch [settles_intros]:
  "settles m \<Longrightarrow> (\<And>e. tx_kind e \<noteq> Still_running \<Longrightarrow> settles (h e)) \<Longrightarrow> settles (catchS m h)"
  unfolding settles_def catchS_def by (auto split: prod.splits sum.splits) (metis fst_conv calm_simps(2))+

lemma settles_finally [settles_intros]: "settles m \<Longrightarrow> settles f \<Longrightarrow> settles (finallyS m f)"
  unfolding settles_def finallyS_def by (auto split: prod.splits sum.splits) (metis fst_conv calm_simps(2))+

lemma settles_cases [settles_intros]:
  "settles m \<Longrightarrow> settles n \<Longrightarrow> settles (if b then m else n)"
  "(q = None \<Longrightarrow> settles m) \<Longrightarrow> (\<And>x. q = Some x \<Longrightarrow> settles (f x)) \<Longrightarrow> settles (case q of None \<Rightarrow> m | Some x \<Rightarrow> f x)"
  "(\<And>x. settles (g x)) \<Longrightarrow> (\<And>x. settles (h x)) \<Longrightarrow> settles (case r of Inl x \<Rightarrow> g x | Inr x \<Rightarrow> h x)"
  "(\<And>a b. z = (a, b) \<Longrightarrow> settles (k a b)) \<Longrightarrow> settles (case z of (a, b) \<Rightarrow> k a b)"
  "settles u \<Longrightarrow> settles (whenS b' u)"
  "(\<And>x. settles (l x)) \<Longrightarrow> settles (let x = v in l x)"
  by (auto simp: whenS_def intro: settles_basic split: option.splits sum.splits prod.splits)

lemma settles_each [settles_intros]: "(\<And>x. settles (f x)) \<Longrightarrow> settles (eachS f xs)"
  by (induction xs) (auto intro: settles_intros)

lemma settles_poll [settles_intros]: "(\<And>l. settles (turn l)) \<Longrightarrow> settles (poll n turn l)"
  by (induction n arbitrary: l) (auto intro!: settles_intros)

lemma settles_attempt [settles_intros]: "settles m \<Longrightarrow> settles (attempt m)"
  unfolding attempt_def by (intro settles_intros) (auto intro: settles_intros)

lemma settles_cleanup [settles_intros]:
  "settles m \<Longrightarrow> settles n \<Longrightarrow> settles (on_failure m n)" "settles u \<Longrightarrow> settles (missing_ok u)"
  unfolding on_failure_def missing_ok_def by (intro settles_intros; simp)+

end
