(* ===== verification/Config_Liveness.thy ===== *)
theory Config_Liveness
  imports Config_Claims Py_Settles
begin

text \<open>
  The configuration transaction ends: with enough fuel no run is left waiting, whatever the
  transport answers.
\<close>

subsection \<open>The transaction's own actions\<close>

lemma calm_checks:
  "calm (changed_names d d')" "calm (check_plan p d d')" "calm (originals_of p d)" "calm (verify_snapshot_restored sn d ns)"
  "calm (rollback_file_owned n v w b)" "calm (include_of source l)"
  unfolding changed_names_def check_plan_def check_planned_def originals_of_def verify_snapshot_restored_def
    check_restored_def rollback_file_owned_def conflict_def include_of_def Let_def
  by (auto intro!: calm_intros split: option.splits)

lemma settles_outside [settles_intros]: "settles m \<Longrightarrow> settles (outside m)"
  unfolding settles_def outside_def by (auto split: prod.splits) (metis fst_conv)

lemma settles_core [settles_intros]: "settles (the_core f)" "settles (on_core g)" "settles (log_effect e)"
  by (simp_all add: the_core_def on_core_def log_effect_def settles_intros)

lemma settles_plan [settles_intros]: "settles the_plan"
  unfolding the_plan_def by (intro settles_intros) simp

lemma settles_waited [settles_intros]:
  assumes "settles m" and "\<And>s s'. m s \<noteq> (Inr None, s')"
  shows "settles (waited m)"
proof -
  have "calm (fst (waited m s))" for s
  proof (cases "m (fst s)")
    case (Pair r w)
    have "calm r" using assms(1) Pair by (metis settles_def fst_conv)
    moreover have "r \<noteq> Inr None" using assms(2) [of "fst s" w] Pair by auto
    ultimately show ?thesis using Pair
      by (cases r) (auto simp: waited_def bindS_def outside_def returnS_def raiseS_def split: option.splits)
  qed
  then show ?thesis by (simp add: settles_def)
qed

subsection \<open>Environments that answer\<close>

text \<open>The operations outside return or raise; running out of fuel is not one of their exceptions.\<close>

definition store_answers :: "'w store_host \<Rightarrow> bool" where
  "store_answers h = (settles (sh_clock h) \<and> settles (sh_uuid h) \<and> settles (sh_uuid_hex h)
     \<and> (\<forall>p b. settles (sh_makedirs h p b)) \<and> (\<forall>p n. settles (sh_chmod h p n)) \<and> (\<forall>p q. settles (sh_mkstemp h p q))
     \<and> (\<forall>p d. settles (sh_write_sync h p d)) \<and> (\<forall>p q. settles (sh_replace h p q)) \<and> (\<forall>p. settles (sh_unlink h p))
     \<and> (\<forall>p. settles (sh_rmtree h p)) \<and> (\<forall>p. settles (sh_sync_dir h p)))"

definition transport_answers :: "'w tx_env \<Rightarrow> bool" where
  "transport_answers env = ((\<forall>ns. settles (te_read env ns)) \<and> settles (te_validate_target env)
     \<and> (\<forall>n d p. settles (te_upload env n d p)) \<and> (\<forall>m. settles (te_restart env m)) \<and> settles (te_restart_moonraker env)
     \<and> settles (te_online env) \<and> settles (te_klipper_state env)
     \<and> (\<forall>f p. te_verify_active env = Some f \<longrightarrow> settles (f p)) \<and> settles (te_destination_key env)
     \<and> (\<forall>k. settles (te_lock env k)) \<and> (\<forall>k. settles (te_unlock env k))
     \<and> (\<forall>a r. te_destination_lock env = Some (a, r) \<longrightarrow> settles a \<and> settles r)
     \<and> settles (te_monotonic env) \<and> (\<forall>d. settles (te_sleep env d)))"

definition callbacks_answer :: "'w tx_env \<Rightarrow> bool" where
  "callbacks_answer env = ((\<forall>c. calm (te_decode env c)) \<and> (\<forall>h m fs. calm (te_check_display env h m fs))
     \<and> (\<forall>h. calm (te_check_board env h)) \<and> (\<forall>h m fs. calm (te_planner env h m fs))
     \<and> (\<forall>p. settles (te_build_review env p)) \<and> (\<forall>p. settles (te_validate env p)) \<and> (\<forall>d. settles (te_confirm env d))
     \<and> (\<forall>l. settles (te_output env l)) \<and> (\<forall>f r. te_review env = Some f \<longrightarrow> settles (f r))
     \<and> (\<forall>f. te_selector env = Some f \<longrightarrow> settles f) \<and> (\<forall>f s d. te_sink env = Some f \<longrightarrow> settles (f s d))
     \<and> (\<forall>f. te_verify_firmware env = Some f \<longrightarrow> settles f))"

definition answers :: "'w tx_env \<Rightarrow> bool" where
  "answers env = (store_answers (te_store env) \<and> transport_answers env \<and> callbacks_answer env)"

text \<open>A clock the other operations do not turn back, and fuel beyond the timeout and the review limit.\<close>

definition clock_advances :: "'w tx_env \<Rightarrow> ('w \<Rightarrow> int) \<Rightarrow> bool" where
  "clock_advances env now = (te_monotonic env = getS now \<and> 0 < te_poll_interval env
     \<and> (\<forall>d w. now w + d \<le> now (snd (te_sleep env d w)))
     \<and> (\<forall>w. now w \<le> now (snd (te_online env w))) \<and> (\<forall>w. now w \<le> now (snd (te_klipper_state env w)))
     \<and> nat (te_timeout env) < te_wait_fuel env)"

definition lines_bounded :: "'w tx_env \<Rightarrow> bool" where
  "lines_bounded env = ((\<forall>c ls. te_decode env c = Inr ls \<longrightarrow> length ls \<le> length c) \<and> 8388611 < te_review_fuel env)"

lemma turn_advances:
  assumes c: "clock_advances env now"
    and t: "ready_turn env deadline l w = (Inr (Inl l'), w') \<or> online_turn env deadline m w = (Inr (Inl m'), w')"
  shows "nat (deadline - now w') < nat (deadline - now w)"
proof -
  have mono: "te_monotonic env = getS now" and pos: "0 < te_poll_interval env"
    using c by (simp_all add: clock_advances_def)
  have sleep: "now v + te_poll_interval env \<le> now v'" if "te_sleep env (te_poll_interval env) v = (r, v')" for v v' r
    using c that by (metis clock_advances_def snd_conv)
  have online: "now v \<le> now v'" if "te_online env v = (r, v')" for v v' r
    using c that by (metis clock_advances_def snd_conv)
  have klipper: "now v \<le> now v'" if "te_klipper_state env v = (r, v')" for v v' r
    using c that by (metis clock_advances_def snd_conv)
  have "now w < deadline \<and> now w + te_poll_interval env \<le> now w'"
    using t
  proof
    assume r: "ready_turn env deadline l w = (Inr (Inl l'), w')"
    then have d: "now w < deadline"
      by (auto simp: ready_turn_def mono getS_def bindS_def [of "getS _"] returnS_eq split: if_splits)
    then obtain o1 w1 where o1: "te_online env w = (Inr o1, w1)"
      and k: "(if \<not> o1 then bindS (te_sleep env (te_poll_interval env)) (\<lambda>_. returnS (Inl (fst l, 0)))
       else bindS (te_klipper_state env) (\<lambda>st.
         if st = ''ready'' then
           if snd l + 1 \<ge> 2 then returnS (Inr (True, st))
           else bindS (te_sleep env (te_poll_interval env)) (\<lambda>_. returnS (Inl (st, snd l + 1)))
         else if st \<in> {''shutdown'', ''error''} then returnS (Inr (False, st))
         else bindS (te_sleep env (te_poll_interval env)) (\<lambda>_. returnS (Inl (st, 0))))) w1 = (Inr (Inl l'), w')"
      using r by (auto simp: ready_turn_def mono bindS_eq [of "getS _"] bindS_eq [of "te_online _"] getS_eq)
    show ?thesis
    proof (cases o1)
      case False
      with k obtain x where "te_sleep env (te_poll_interval env) w1 = (Inr x, w')" by (auto simp: bindS_eq returnS_eq)
      with sleep online [OF o1] d show ?thesis by fastforce
    next
      case True
      with k obtain st w2 x where "te_klipper_state env w1 = (Inr st, w2)" "te_sleep env (te_poll_interval env) w2 = (Inr x, w')"
        by (auto simp: bindS_eq returnS_eq split: if_splits)
      with sleep klipper online [OF o1] d show ?thesis by fastforce
    qed
  next
    assume r: "online_turn env deadline m w = (Inr (Inl m'), w')"
    then have d: "now w < deadline"
      by (auto simp: online_turn_def mono getS_def bindS_def [of "getS _"] returnS_eq split: if_splits)
    then obtain o1 w1 x where o1: "te_online env w = (Inr o1, w1)" and "te_sleep env (te_poll_interval env) w1 = (Inr x, w')"
      using r by (auto simp: online_turn_def mono bindS_eq getS_eq returnS_eq split: if_splits)
    with sleep online [OF o1] show ?thesis using d by fastforce
  qed
  with pos show ?thesis by simp
qed

lemma wait_turns_end:
  assumes "clock_advances env now"
  shows "poll (te_wait_fuel env) (ready_turn env (now w + te_timeout env)) l w \<noteq> (Inr None, w')"
    and "poll (te_wait_fuel env) (online_turn env (now w + te_timeout env)) m w \<noteq> (Inr None, w')"
proof -
  have fuel: "nat (now w + te_timeout env - now w) < te_wait_fuel env" using assms by (simp add: clock_advances_def)
  show "poll (te_wait_fuel env) (ready_turn env (now w + te_timeout env)) l w \<noteq> (Inr None, w')"
    by (rule poll_ends [where left = "\<lambda>v. nat (now w + te_timeout env - now v)", OF turn_advances [OF assms] fuel]) blast
  show "poll (te_wait_fuel env) (online_turn env (now w + te_timeout env)) m w \<noteq> (Inr None, w')"
    by (rule poll_ends [where left = "\<lambda>v. nat (now w + te_timeout env - now v)", OF turn_advances [OF assms] fuel]) blast
qed

subsection \<open>The operations settle\<close>

lemma settles_snapshot [settles_intros]: "store_answers h \<Longrightarrow> settles (create_snapshot h fs tid board version root)"
  unfolding create_snapshot_def publish_snapshot_def publish_file_def fsync_directory_def store_answers_def
  by (intro settles_intros; (simp add: settles_intros)?)

lemma settles_reads:
  assumes "transport_answers env"
  shows "settles (read_names (te_read env) ns)" "settles (read_one (te_read env) n)"
  using assms unfolding read_names_def read_one_def transport_answers_def
  by (auto intro!: settles_intros calm_intros)

lemma settles_expand:
  "transport_answers env \<Longrightarrow> settles (expand_lines (te_read env) source ls stack files)"
  by (induction ls arbitrary: stack files) (auto intro!: settles_intros settles_reads calm_checks)

lemma settles_review: "answers env \<Longrightarrow> settles (review_turn (te_read env) (te_decode env) r)"
  unfolding review_turn_def answers_def callbacks_answer_def
  by (auto intro!: settles_intros settles_expand split: list.splits option.splits)

definition answering :: "'w tx_env \<Rightarrow> ('w \<Rightarrow> int) \<Rightarrow> bool" where
  "answering env now = (answers env \<and> clock_advances env now \<and> lines_bounded env)"

lemma answering_parts:
  assumes "answering env now"
  shows "transport_answers env" "store_answers (te_store env)" "callbacks_answer env" "te_monotonic env = getS now"
  using assms by (simp_all add: answering_def answers_def clock_advances_def)

lemma waits_settle:
  assumes a: "answering env now"
  shows "settles (wait_ready env)" "settles (wait_moonraker env)"
proof -
  have clock: "clock_advances env now" using a by (simp add: answering_def)
  have r: "settles (ready_turn env d l)" and o: "settles (online_turn env d n)" for d l n
    using answering_parts(1) [OF a] unfolding ready_turn_def online_turn_def transport_answers_def
    by (auto intro!: settles_intros)
  show "settles (wait_ready env)"
    unfolding wait_ready_def answering_parts(4) [OF a]
    by (intro settles_intros r) (auto simp: bindS_eq getS_eq wait_turns_end [OF clock])
  show "settles (wait_moonraker env)"
    unfolding wait_moonraker_def answering_parts(4) [OF a]
    by (intro settles_intros o) (auto simp: bindS_eq getS_eq wait_turns_end [OF clock])
qed

lemma review_settles:
  assumes a: "answering env now"
  shows "settles (waited (read_config_state (te_review_fuel env) (te_read env) (te_decode env) (te_hardware env) (te_macros env)))"
proof (rule settles_waited)
  show "settles (read_config_state (te_review_fuel env) (te_read env) (te_decode env) (te_hardware env) (te_macros env))"
    unfolding read_config_state_def
    by (intro settles_intros settles_reads settles_review answering_parts [OF a]) (use a in \<open>simp add: answering_def\<close>)
  have "\<And>c ls. te_decode env c = Inr ls \<Longrightarrow> length ls \<le> length c" "8388611 < te_review_fuel env"
    using a by (simp_all add: answering_def lines_bounded_def)
  from review_ends_confined [OF this]
  show "read_config_state (te_review_fuel env) (te_read env) (te_decode env) (te_hardware env) (te_macros env) s \<noteq> (Inr None, s')" for s s'
    by (metis fst_conv)
qed

lemma callbacks_settle:
  assumes "answering env now"
  shows "settles (emit_state env st d)" "settles (check_firmware env)"
  using answering_parts(3) [OF assms] unfolding emit_state_def check_firmware_def callbacks_answer_def
  by (auto intro!: settles_intros)

lemma checks_settle:
  assumes "answering env now"
  shows "settles (revalidate env fs)" "settles (verify_plan env)" "settles (check_restoration env sn ns)" "settles (check_owned env p sn n)"
    "settles (require_conditional_writes env p)" "settles (preserve_proposal env)"
  using settles_reads [OF answering_parts(1) [OF assms]] answering_parts(1,2) [OF assms]
  unfolding revalidate_def verify_plan_def check_restoration_def check_owned_def require_conditional_writes_def preserve_proposal_def
    transport_answers_def
  by (auto intro!: settles_intros calm_checks calm_intros simp: conflict_def store_answers_def split: option.splits)

lemma rollback_settles:
  assumes a: "answering env now"
  shows "settles (rollback env)"
proof -
  have t: "settles (te_restart env m)" "settles (te_restart_moonraker env)" for m
    using answering_parts(1) [OF a] by (simp_all add: transport_answers_def)
  have "settles (reactivate env sn ns)" for sn ns
    unfolding reactivate_def by (intro settles_intros checks_settle [OF a] waits_settle [OF a] t)
  then show ?thesis
    unfolding rollback_def restore_stage_def by (intro settles_intros checks_settle [OF a])
qed

lemma publication_settles:
  assumes a: "answering env now"
  shows "settles (published env p current)"
proof -
  have t: "settles (te_validate_target env)" "settles (te_restart env m)" "settles (te_restart_moonraker env)"
    "settles (te_upload env n d v)" "settles (te_read env ns)" "te_verify_active env = Some f \<Longrightarrow> settles (f p)" for m n d v f ns
    using answering_parts(1) [OF a] by (simp_all add: transport_answers_def)
  have kinds: "tx_kind (not_ready st) \<noteq> Still_running" for st by (simp add: not_ready_def)
  have "settles (record_possible_write env n)" for n
    unfolding record_possible_write_def mark_written_def by (intro settles_intros t; simp)
  then have "settles (upload_one env current x)" for x
    unfolding upload_one_def mark_written_def
    by (intro settles_intros t calm_entry checks_settle [OF a])
  moreover have "settles (finish_existing env p)"
    unfolding finish_existing_def
    by (intro settles_intros t kinds waits_settle [OF a] callbacks_settle [OF a] checks_settle [OF a])
  moreover have "settles (activate env p)"
    unfolding activate_def restart_moonraker_first_def
    by (intro settles_intros t kinds waits_settle [OF a] callbacks_settle [OF a] checks_settle [OF a]) simp
  ultimately have "settles (publish env p current)"
    unfolding publish_def by (intro settles_intros callbacks_settle [OF a] checks_settle [OF a])
  then show ?thesis
    unfolding published_def
    by (intro settles_intros callbacks_settle [OF a] checks_settle [OF a] rollback_settles [OF a])
qed

lemma preflight_settles:
  assumes a: "answering env now"
  shows "settles (preflight env)"
proof -
  have t: "settles (te_validate_target env)" using answering_parts(1) [OF a] by (simp add: transport_answers_def)
  have c: "calm (te_check_display env h m fs)" "calm (te_check_board env h)" "calm (te_planner env h m ds)"
    "settles (te_build_review env p)" "te_review env = Some f \<Longrightarrow> settles (f rv)" "settles (te_output env l)" for h m fs ds p f rv l
    using answering_parts(3) [OF a] by (simp_all add: callbacks_answer_def)
  show ?thesis
    unfolding preflight_def show_review_def
    by (intro settles_intros t c review_settles [OF a] checks_settle [OF a])
qed

lemma decision_settles:
  assumes a: "answering env now"
  shows "settles (decided env pf)"
proof -
  have c: "settles (te_confirm env d)" "te_selector env = Some g \<Longrightarrow> settles g" for d g
    using answering_parts(3) [OF a] by (simp_all add: callbacks_answer_def)
  have "settles (take_snapshot env fs)" for fs
    unfolding take_snapshot_def by (intro settles_intros answering_parts(2) [OF a])
  then have "settles (decide env pf)"
    unfolding decide_def choose_activation_def
    by (intro settles_intros c checks_settle [OF a] calm_checks) simp_all
  then show ?thesis
    unfolding decided_def by (intro settles_intros checks_settle [OF a])
qed

lemma locked_settles:
  assumes a: "answering env now"
  shows "settles (run_locked env)"
proof -
  have v: "settles (te_validate env p)" for p using answering_parts(3) [OF a] by (simp add: callbacks_answer_def)
  have "settles (rechecked env p fs)" for p fs
    unfolding rechecked_def recheck_def by (intro settles_intros v checks_settle [OF a]) simp_all
  then show ?thesis
    unfolding run_locked_def proceed_def
    by (intro settles_intros callbacks_settle [OF a] preflight_settles [OF a] decision_settles [OF a] publication_settles [OF a])
qed

text \<open>
  C21. A configuration deployment always ends: with a transport that answers, a clock that its answers
  do not turn back, fuel beyond the timeout for the two waits and beyond the review limit for the
  include graph, every run returns a result or raises; it is never left waiting, in the rollback and
  in the handlers of an interrupt neither.
\<close>

theorem transaction_ends:
  assumes a: "answering env now"
  shows "fst (run_transaction env s) \<noteq> Inl (Tx Still_running m)"
proof -
  have t: "settles (te_destination_key env)" "settles (te_lock env k)" "settles (te_unlock env k)"
    "te_destination_lock env = Some (x, y) \<Longrightarrow> settles x" "te_destination_lock env = Some (x, y) \<Longrightarrow> settles y" for k x y
    using answering_parts(1) [OF a] by (auto simp: transport_answers_def)
  have "settles (interrupted env)"
    unfolding interrupted_def by (intro settles_intros rollback_settles [OF a])
  then have "settles (run_held env)"
    unfolding run_held_def by (intro settles_intros locked_settles [OF a] t) simp_all
  then have "settles (run_transaction env)"
    unfolding run_transaction_def destination_key_def by (intro settles_intros t) simp_all
  then show ?thesis by (metis settles_def calm_simps(2) kind_Tx)
qed

definition ex_patient :: "printer tx_env" where
  "ex_patient = (ex_tx_env [] (returnS ''startup'') True)\<lparr>te_review_fuel := 8388612, te_wait_fuel := 91\<rparr>"

theorem transaction_ends_witness:
  "fst (run_transaction ex_patient ((0, ex_files), ex_core)) \<noteq> Inl (Tx Still_running [])"
proof (rule transaction_ends)
  show "answering ex_patient fst"
    by (simp add: answering_def answers_def store_answers_def transport_answers_def callbacks_answer_def clock_advances_def
        lines_bounded_def ex_patient_def ex_tx_env_def ex_store_def no_op_def ex_read_def ex_upload_def settles_intros
        modifyS_def returnS_def)
qed

end
