(* ===== verification/Moonraker_Api.thy ===== *)
theory Moonraker_Api
  imports Snapshot Deployment_Plan
begin

text \<open>
  \<open>core/moonraker.py\<close>: the HTTP client of a printer.  One exchange with the server, the decoding of
  JSON, UTF-8 and the random boundary are the parameters; building the request, reading the answer
  and turning failures into results are the code's.  An answer of an unexpected shape raises, as
  \<open>dict.get\<close> does on a value that is no dictionary.
\<close>

datatype http_outcome =
    Http_answer bytes | Http_status int string "bytes option" | Url_failed string | Http_failed string | Http_interrupted

record http_request =
  hr_url :: string
  hr_method :: string
  hr_headers :: "(string \<times> string) list"
  hr_data :: "bytes option"

record 'w http_host =
  ht_open :: "http_request \<Rightarrow> 'w \<Rightarrow> http_outcome \<times> 'w"
  ht_loads :: "bytes \<Rightarrow> (string, pyval) res"
  ht_loads_strict :: "bytes \<Rightarrow> (string, pyval) res"
  ht_encode :: "string \<Rightarrow> bytes"
  ht_show :: "pyval \<Rightarrow> string"
  ht_boundary :: "('w, tx_exn, string) action"
  ht_bracketed_ok :: "string \<Rightarrow> bool"
  ht_expanduser :: "string \<Rightarrow> string"
  ht_isfile :: "string \<Rightarrow> ('w, tx_exn, bool) action"
  ht_read_file :: "string \<Rightarrow> ('w, tx_exn, bytes) action"

record endpoint =
  ep_host :: string
  ep_port :: int
  ep_api_key :: "string option"

subsection \<open>URLs\<close>

text \<open>\<open>str.partition\<close> and \<open>str.rpartition\<close> at one character.\<close>

definition after_char :: "char \<Rightarrow> string \<Rightarrow> string" where
  "after_char c s = drop 1 (dropWhile (\<lambda>x. x \<noteq> c) s)"

definition before_char :: "char \<Rightarrow> string \<Rightarrow> string" where
  "before_char c s = takeWhile (\<lambda>x. x \<noteq> c) s"

definition after_last :: "char \<Rightarrow> string \<Rightarrow> string" where
  "after_last c s = rev (takeWhile (\<lambda>x. x \<noteq> c) (rev s))"

definition rstrip_char :: "char \<Rightarrow> string \<Rightarrow> string" where
  "rstrip_char c s = rev (dropWhile (\<lambda>x. x = c) (rev s))"

definition attribute_error :: tx_exn where "attribute_error = Tx Other_failed ''AttributeError''"
definition value_error :: "string \<Rightarrow> tx_exn" where "value_error m = Tx Value_failed m"

record split_url =
  su_hostname :: "string option"
  su_port :: "string option"
  su_path :: string

text \<open>\<open>urlsplit\<close> of a URL with a scheme, then \<open>hostname\<close>, the text of the port and \<open>path\<close>.\<close>

definition urlsplit :: "'w http_host \<Rightarrow> string \<Rightarrow> (tx_exn, split_url) res" where
  "urlsplit h u =
     (let clean = filter (\<lambda>c. c \<notin> {CHR 0x09, CHR 0x0A, CHR 0x0D}) u;
          rest = drop 2 (after_char CHR '':'' clean);
          netloc = takeWhile (\<lambda>c. c \<notin> {CHR ''/'', CHR ''?'', CHR ''#''}) rest;
          path = takeWhile (\<lambda>c. c \<notin> {CHR ''?'', CHR ''#''}) (drop (length netloc) rest);
          info = after_last CHR ''@'' netloc;
          open_br = CHR ''['' \<in> set netloc; close_br = CHR '']'' \<in> set netloc in
      require (open_br = close_br) (value_error ''Invalid IPv6 URL'') (
      require (open_br \<longrightarrow> ht_bracketed_ok h netloc) (value_error ''Invalid IPv6 URL'') (
      let name = (if CHR ''['' \<in> set info then before_char CHR '']'' (after_char CHR ''['' info) else before_char CHR '':'' info);
          port = (if CHR ''['' \<in> set info then after_char CHR '':'' (after_char CHR '']'' (after_char CHR ''['' info))
                  else after_char CHR '':'' info);
          zone = dropWhile (\<lambda>c. c \<noteq> CHR ''%'') name in
      Inr \<lparr>su_hostname = (if name = [] then None else Some (py_lower (before_char CHR ''%'' name) @ zone)),
           su_port = (if port = [] then None else Some port), su_path = path\<rparr>)))"

text \<open>The property \<open>port\<close>.\<close>

definition url_port :: "split_url \<Rightarrow> (tx_exn, int option) res" where
  "url_port s = (case su_port s of
     None \<Rightarrow> Inr None
   | Some p \<Rightarrow>
       require (list_all is_digit p) (value_error ''Port could not be cast to integer value'') (
       require (dec_val p \<le> 65535) (value_error ''Port out of range 0-65535'') (
       Inr (Some (int (dec_val p))))))"

definition base_url :: "'w http_host \<Rightarrow> string \<Rightarrow> int \<Rightarrow> (tx_exn, string) res" where
  "base_url h host port =
     (let trimmed = rstrip_char CHR ''/'' (py_strip host);
          full = (if starts_with ''http://'' trimmed \<or> starts_with ''https://'' trimmed then trimmed else ''http://'' @ trimmed) in
      bindE (urlsplit h full) (\<lambda>s. bindE (url_port s) (\<lambda>p.
      Inr (if p \<noteq> None then full else full @ '':'' @ show_int port))))"

definition server_url :: "'w http_host \<Rightarrow> endpoint \<Rightarrow> string \<Rightarrow> ('w, tx_exn, string) action" where
  "server_url h e path = bindS (liftS (base_url h (ep_host e) (ep_port e))) (\<lambda>u. returnS (u @ path))"

text \<open>\<open>urllib.parse.quote(text, safe="")\<close>.\<close>

definition quote_safe :: "nat \<Rightarrow> bool" where
  "quote_safe n = (n < 128 \<and> (is_lower (char_of n) \<or> is_upper (char_of n) \<or> is_digit (char_of n)
     \<or> char_of n \<in> {CHR ''_'', CHR ''.'', CHR ''-'', CHR ''~''}))"

definition quote_byte :: "8 word \<Rightarrow> string" where
  "quote_byte b = (if quote_safe (unat b) then [char_of (unat b)]
     else CHR ''%'' # py_upper [hex_digit_char (unat b div 16), hex_digit_char (unat b mod 16)])"

definition url_quote :: "'w http_host \<Rightarrow> string \<Rightarrow> string" where
  "url_quote h s = concat (map quote_byte (ht_encode h s))"

subsection \<open>Requests\<close>

definition key_header :: "endpoint \<Rightarrow> (string \<times> string) list" where
  "key_header e = (case ep_api_key e of Some k \<Rightarrow> if k = [] then [] else [(''X-Api-Key'', k)] | None \<Rightarrow> [])"

definition exchange :: "'w http_host \<Rightarrow> http_request \<Rightarrow> ('w, tx_exn, http_outcome) action" where
  "exchange h r w = (case ht_open h r w of
     (Http_interrupted, w') \<Rightarrow> (Inl (Tx Keyboard_interrupt []), w')
   | (x, w') \<Rightarrow> (Inr x, w'))"

type_synonym answer = "bool \<times> string \<times> pyval"

definition failed_answer :: "string \<Rightarrow> answer" where
  "failed_answer m = (False, m, PDict [])"

definition parsed :: "(string, pyval) res \<Rightarrow> answer" where
  "parsed r = (case r of Inr v \<Rightarrow> (True, ''OK'', v) | Inl t \<Rightarrow> failed_answer (''Unexpected error: '' @ t))"

definition answer_of :: "(bytes \<Rightarrow> (string, pyval) res) \<Rightarrow> (string \<Rightarrow> bytes option \<Rightarrow> string) \<Rightarrow> http_outcome \<Rightarrow> answer" where
  "answer_of loads detail x = (case x of
     Http_answer b \<Rightarrow> parsed (loads b)
   | Http_status code reason b \<Rightarrow> failed_answer (''HTTP '' @ show_int code @ '': '' @ detail reason b)
   | Url_failed reason \<Rightarrow> failed_answer (''Connection error: '' @ reason)
   | Http_failed t \<Rightarrow> failed_answer (''Unexpected error: '' @ t)
   | Http_interrupted \<Rightarrow> failed_answer [])"

definition get_json :: "'w http_host \<Rightarrow> endpoint \<Rightarrow> string \<Rightarrow> ('w, tx_exn, answer) action" where
  "get_json h e url =
     bindS (exchange h \<lparr>hr_url = url, hr_method = ''GET'', hr_headers = (''Accept'', ''application/json'') # key_header e,
       hr_data = None\<rparr>) (\<lambda>x. returnS (answer_of (ht_loads h) (\<lambda>reason _. reason) x))"

text \<open>\<open>detail.get("error", {}).get("message", e.reason)\<close>, and the reason when that raises.\<close>

definition error_message :: "'w http_host \<Rightarrow> string \<Rightarrow> bytes option \<Rightarrow> string" where
  "error_message h reason body = (case body of
     None \<Rightarrow> reason
   | Some b \<Rightarrow> (case ht_loads h b of
       Inr (PDict d) \<Rightarrow> (case py_get_or d ''error'' (PDict []) of
           PDict m \<Rightarrow> ht_show h (py_get_or m ''message'' (PStr reason)) | _ \<Rightarrow> reason)
     | _ \<Rightarrow> reason))"

definition post :: "'w http_host \<Rightarrow> endpoint \<Rightarrow> string \<Rightarrow> bytes \<Rightarrow> string \<Rightarrow> ('w, tx_exn, answer) action" where
  "post h e url data content_type =
     bindS (exchange h \<lparr>hr_url = url, hr_method = ''POST'',
       hr_headers = [(''Content-Type'', content_type), (''Accept'', ''application/json'')] @ key_header e,
       hr_data = Some data\<rparr>) (\<lambda>x. returnS (answer_of (ht_loads h) (error_message h) x))"

definition delete_request :: "'w http_host \<Rightarrow> endpoint \<Rightarrow> string \<Rightarrow> ('w, tx_exn, answer) action" where
  "delete_request h e url =
     bindS (exchange h \<lparr>hr_url = url, hr_method = ''DELETE'', hr_headers = (''Accept'', ''application/json'') # key_header e,
       hr_data = None\<rparr>) (\<lambda>x.
     returnS (answer_of (\<lambda>b. if b = [] then Inr (PDict []) else ht_loads_strict h b) (\<lambda>reason _. reason) x))"

definition multipart_parts :: "'w http_host \<Rightarrow> string \<Rightarrow> string \<Rightarrow> string \<Rightarrow> bytes \<Rightarrow> string \<Rightarrow> string option \<Rightarrow> bytes list" where
  "multipart_parts h boundary field name content root path =
     (let enc = ht_encode h; mark = enc (''--'' @ boundary); q = [CHR 0x22] in
      [mark, enc (''Content-Disposition: form-data; name='' @ q @ ''root'' @ q), [], enc root]
      @ (case path of Some p \<Rightarrow> if p = [] then [] else
           [mark, enc (''Content-Disposition: form-data; name='' @ q @ ''path'' @ q), [], enc p] | None \<Rightarrow> [])
      @ [mark, enc (''Content-Disposition: form-data; name='' @ q @ field @ q @ ''; filename='' @ q @ name @ q),
         enc ''Content-Type: text/plain; charset=utf-8'', [], content, enc (''--'' @ boundary @ ''--'')])"

fun join_bytes :: "bytes \<Rightarrow> bytes list \<Rightarrow> bytes" where
  "join_bytes sep [] = []"
| "join_bytes sep [b] = b"
| "join_bytes sep (b # bs) = b @ sep @ join_bytes sep bs"

definition post_multipart ::
    "'w http_host \<Rightarrow> endpoint \<Rightarrow> string \<Rightarrow> string \<Rightarrow> string \<Rightarrow> bytes \<Rightarrow> string \<Rightarrow> string option \<Rightarrow> ('w, tx_exn, answer) action" where
  "post_multipart h e url field name content root path =
     bindS (ht_boundary h) (\<lambda>boundary.
     post h e url (join_bytes [13, 10] (multipart_parts h boundary field name content root path))
       (''multipart/form-data; boundary='' @ boundary))"

subsection \<open>Reading an answer\<close>

text \<open>\<open>value.get(key, default)\<close>, and iterating over a value.\<close>

definition obj_get :: "pyval \<Rightarrow> string \<Rightarrow> pyval \<Rightarrow> (tx_exn, pyval) res" where
  "obj_get v k d0 = (case v of PDict d \<Rightarrow> Inr (py_get_or d k d0) | _ \<Rightarrow> Inl attribute_error)"

definition result_of :: "pyval \<Rightarrow> pyval \<Rightarrow> (tx_exn, pyval) res" where
  "result_of body d0 = obj_get body ''result'' d0"

definition key_value :: "pkey \<Rightarrow> pyval" where
  "key_value k = (case k of KStr s \<Rightarrow> PStr s | KInt i \<Rightarrow> PInt i)"

definition py_iter :: "pyval \<Rightarrow> (tx_exn, pyval list) res" where
  "py_iter v = (case v of PList xs \<Rightarrow> Inr xs | PDict d \<Rightarrow> Inr (map (key_value \<circ> fst) d)
     | PStr s \<Rightarrow> Inr (map (\<lambda>c. PStr [c]) s) | _ \<Rightarrow> Inl (Tx Other_failed ''TypeError''))"

definition path_entry :: "pyval \<Rightarrow> pyval option" where
  "path_entry f = (case f of PDict d \<Rightarrow> dict_get d (KStr ''path'') | _ \<Rightarrow> None)"

subsection \<open>The calls\<close>

definition check_moonraker :: "'w http_host \<Rightarrow> endpoint \<Rightarrow> ('w, tx_exn, bool \<times> string) action" where
  "check_moonraker h e =
     bindS (server_url h e ''/server/info'') (\<lambda>u. bindS (get_json h e u) (\<lambda>(ok, m, body).
     if \<not> ok then returnS (False, m)
     else bindS (liftS (bindE (result_of body (PDict [])) (\<lambda>r. obj_get r ''moonraker_version'' (PStr ''unknown'')))) (\<lambda>v.
       returnS (True, ''Moonraker '' @ ht_show h v))))"

definition get_power_devices :: "'w http_host \<Rightarrow> endpoint \<Rightarrow> ('w, tx_exn, bool \<times> string \<times> pyval list) action" where
  "get_power_devices h e =
     bindS (server_url h e ''/machine/device_power/devices'') (\<lambda>u. bindS (get_json h e u) (\<lambda>(ok, m, body).
     if \<not> ok then returnS (False, m, [])
     else bindS (liftS (bindE (result_of body (PDict [])) (\<lambda>r. obj_get r ''devices'' (PList [])))) (\<lambda>v.
       returnS (case v of PList ds \<Rightarrow> (True, ''OK'', ds)
         | _ \<Rightarrow> (False, ''Moonraker returned an invalid power device list'', [])))))"

definition set_power_device :: "'w http_host \<Rightarrow> endpoint \<Rightarrow> string \<Rightarrow> string \<Rightarrow> ('w, tx_exn, bool \<times> string) action" where
  "set_power_device h e device act =
     (if act \<noteq> ''on'' \<and> act \<noteq> ''off'' then returnS (False, ''Invalid power action: '' @ act)
      else bindS (server_url h e ''/machine/device_power/device'') (\<lambda>u.
        bindS (post h e u (ht_encode h (''{'' @ ascii_string ''device'' @ '': '' @ ascii_string device @ '', ''
            @ ascii_string ''action'' @ '': '' @ ascii_string act @ ''}'')) ''application/json'') (\<lambda>(ok, m, _).
        returnS (ok, m))))"

definition upload_to :: "'w http_host \<Rightarrow> endpoint \<Rightarrow> string \<Rightarrow> bytes \<Rightarrow> ('w, tx_exn, bool \<times> string) action" where
  "upload_to h e filename content =
     (let remote = map (\<lambda>c. if c = CHR 0x5C then path_sep else c) filename;
          up = posix_dirname remote; name = after_last path_sep remote in
      if name = [] then returnS (False, ''Invalid remote filename: '' @ filename)
      else bindS (server_url h e ''/server/files/upload'') (\<lambda>u.
        bindS (post_multipart h e u ''file'' name content ''config'' (if up = [] then None else Some up)) (\<lambda>(ok, m, body).
        if \<not> ok then returnS (False, m)
        else bindS (liftS (bindE (result_of body (PDict [])) (\<lambda>r. bindE (obj_get r ''item'' (PDict [])) (\<lambda>i.
               obj_get i ''path'' (PStr ''printer.cfg''))))) (\<lambda>v. returnS (True, ht_show h v)))))"

definition upload_printer_cfg :: "'w http_host \<Rightarrow> endpoint \<Rightarrow> string \<Rightarrow> string \<Rightarrow> ('w, tx_exn, bool \<times> string) action" where
  "upload_printer_cfg h e cfg_path filename =
     (let path = ht_expanduser h cfg_path in
      bindS (ht_isfile h path) (\<lambda>there.
      if \<not> there then returnS (False, ''Config file not found: '' @ path)
      else bindS (catchS (bindS (ht_read_file h path) (\<lambda>b. returnS (Inr b)))
             (\<lambda>x. if is_os_error x then returnS (Inl (tx_text x)) else raiseS x)) (\<lambda>r. case r of
          Inl t \<Rightarrow> returnS (False, ''Could not read config file: '' @ t)
        | Inr content \<Rightarrow> upload_to h e (if filename = [] then after_last path_sep path else filename) content)))"

definition post_command :: "'w http_host \<Rightarrow> endpoint \<Rightarrow> string \<Rightarrow> string \<Rightarrow> ('w, tx_exn, bool \<times> string) action" where
  "post_command h e path issued =
     bindS (server_url h e path) (\<lambda>u. bindS (post h e u (ht_encode h ''{}'') ''application/json'') (\<lambda>(ok, m, _).
     returnS (if ok then (True, issued) else (False, m))))"

definition restart_firmware :: "'w http_host \<Rightarrow> endpoint \<Rightarrow> ('w, tx_exn, bool \<times> string) action" where
  "restart_firmware h e = post_command h e ''/printer/restart'' ''RESTART issued''"

definition restart_klipper_service :: "'w http_host \<Rightarrow> endpoint \<Rightarrow> ('w, tx_exn, bool \<times> string) action" where
  "restart_klipper_service h e =
     post_command h e ''/machine/services/restart?service=klipper'' ''Klipper service restart issued''"

definition restart_moonraker_service :: "'w http_host \<Rightarrow> endpoint \<Rightarrow> ('w, tx_exn, bool \<times> string) action" where
  "restart_moonraker_service h e =
     post_command h e ''/machine/services/restart?service=moonraker'' ''Moonraker service restart issued''"

text \<open>\<open>str\<close> of the exception a download ends with.\<close>

definition download_result :: "'w http_host \<Rightarrow> http_outcome \<Rightarrow> bool \<times> bytes" where
  "download_result h x = (case x of
     Http_answer b \<Rightarrow> (True, b)
   | Http_status code reason _ \<Rightarrow> (False, ht_encode h (''HTTP Error '' @ show_int code @ '': '' @ reason))
   | Url_failed reason \<Rightarrow> (False, ht_encode h (''<urlopen error '' @ reason @ ''>''))
   | Http_failed t \<Rightarrow> (False, ht_encode h t)
   | Http_interrupted \<Rightarrow> (False, []))"

definition download_printer_cfg :: "'w http_host \<Rightarrow> endpoint \<Rightarrow> string \<Rightarrow> ('w, tx_exn, bool \<times> bytes) action" where
  "download_printer_cfg h e filename =
     bindS (server_url h e (''/server/files/config/'' @ filename)) (\<lambda>u.
     bindS (exchange h \<lparr>hr_url = u, hr_method = ''GET'', hr_headers = key_header e, hr_data = None\<rparr>) (\<lambda>x.
     returnS (download_result h x)))"

definition delete_config_file :: "'w http_host \<Rightarrow> endpoint \<Rightarrow> string \<Rightarrow> ('w, tx_exn, bool \<times> string) action" where
  "delete_config_file h e filename =
     bindS (server_url h e (''/server/files/config/'' @ join_with ''/'' (map (url_quote h) (split_char path_sep filename)))) (\<lambda>u.
     bindS (delete_request h e u) (\<lambda>(ok, m, _). returnS (ok, m)))"

definition check_klipper_ready :: "'w http_host \<Rightarrow> endpoint \<Rightarrow> ('w, tx_exn, bool \<times> string) action" where
  "check_klipper_ready h e =
     bindS (server_url h e ''/printer/info'') (\<lambda>u. bindS (get_json h e u) (\<lambda>(ok, m, body).
     if \<not> ok then returnS (False, ''Moonraker /printer/info request failed: '' @ m)
     else bindS (liftS (result_of body (PDict []))) (\<lambda>r.
       bindS (liftS (obj_get r ''state'' (PStr ''unknown''))) (\<lambda>st.
       bindS (liftS (obj_get r ''state_message'' (PStr []))) (\<lambda>msg.
       returnS (if st = PStr ''ready'' then (True, ''ready'')
         else (False, ''state is '' @ CHR 0x27 # ht_show h st @ [CHR 0x27]
           @ (if py_truthy msg then '' ('' @ ht_show h msg @ '')'' else []))))))))"

definition get_klipper_state :: "'w http_host \<Rightarrow> endpoint \<Rightarrow> ('w, tx_exn, pyval) action" where
  "get_klipper_state h e =
     bindS (server_url h e ''/printer/info'') (\<lambda>u. bindS (get_json h e u) (\<lambda>(ok, m, body).
     if \<not> ok then returnS (PStr ''disconnected'')
     else liftS (bindE (result_of body (PDict [])) (\<lambda>r. obj_get r ''state'' (PStr ''unknown'')))))"

subsection \<open>MCU versions and files\<close>

definition is_mcu_name :: "pyval \<Rightarrow> (tx_exn, bool) res" where
  "is_mcu_name v = (case v of PStr s \<Rightarrow> Inr (s = ''mcu'' \<or> starts_with ''mcu '' s) | _ \<Rightarrow> Inl attribute_error)"

definition mcu_names_of :: "pyval \<Rightarrow> (tx_exn, string list) res" where
  "mcu_names_of body =
     bindE (result_of body (PDict [])) (\<lambda>r. bindE (obj_get r ''objects'' (PList [])) (\<lambda>v. bindE (py_iter v) (\<lambda>os.
     bindE (mapE (\<lambda>x. bindE (is_mcu_name x) (\<lambda>b. Inr (x, b))) os) (\<lambda>ps.
     Inr [s. (PStr s, b) \<leftarrow> ps, b]))))"

definition mcu_version_of :: "pyval \<Rightarrow> string \<Rightarrow> (tx_exn, (string \<times> pyval) option) res" where
  "mcu_version_of status name =
     bindE (obj_get status name (PDict [])) (\<lambda>d. bindE (obj_get d ''mcu_version'' PNone) (\<lambda>v.
     Inr (if py_truthy v then Some (name, v) else None)))"

definition get_mcu_versions :: "'w http_host \<Rightarrow> endpoint \<Rightarrow> ('w, tx_exn, (string, pyval) dict) action" where
  "get_mcu_versions h e =
     bindS (server_url h e ''/printer/objects/list'') (\<lambda>u. bindS (get_json h e u) (\<lambda>(ok, _, body).
     if \<not> ok then returnS []
     else bindS (liftS (mcu_names_of body)) (\<lambda>names.
       if names = [] then returnS []
       else bindS (server_url h e (''/printer/objects/query?''
              @ join_with ''&'' (map (\<lambda>n. url_quote h n @ ''=mcu_version'') names))) (\<lambda>q.
         bindS (get_json h e q) (\<lambda>(ok, _, answer).
         if \<not> ok then returnS []
         else liftS (bindE (result_of answer (PDict [])) (\<lambda>r. bindE (obj_get r ''status'' (PDict [])) (\<lambda>status.
           bindE (mapE (mcu_version_of status) names) (\<lambda>vs.
           Inr (dict_update [] [the v. v \<leftarrow> vs, v \<noteq> None]))))))))))"

definition files_url :: string where "files_url = ''/server/files/list?root=config''"

definition verify_remote_file_exists :: "'w http_host \<Rightarrow> endpoint \<Rightarrow> string \<Rightarrow> ('w, tx_exn, bool) action" where
  "verify_remote_file_exists h e filename =
     bindS (server_url h e files_url) (\<lambda>u. bindS (get_json h e u) (\<lambda>(ok, _, body).
     if \<not> ok then returnS False
     else liftS (bindE (result_of body (PList [])) (\<lambda>v. bindE (py_iter v) (\<lambda>fs.
       Inr (list_ex (\<lambda>f. path_entry f = Some (PStr filename)) fs))))))"

definition list_config_files :: "'w http_host \<Rightarrow> endpoint \<Rightarrow> ('w, tx_exn, pyval list) action" where
  "list_config_files h e =
     bindS (server_url h e files_url) (\<lambda>u. bindS (get_json h e u) (\<lambda>(ok, _, body).
     if \<not> ok then returnS []
     else liftS (bindE (result_of body (PList [])) (\<lambda>v. bindE (py_iter v) (\<lambda>fs.
       Inr [p. Some p \<leftarrow> map path_entry fs])))))"

definition list_config_files_checked :: "'w http_host \<Rightarrow> endpoint \<Rightarrow> ('w, tx_exn, bool \<times> string \<times> string list) action" where
  "list_config_files_checked h e =
     bindS (server_url h e files_url) (\<lambda>u. bindS (get_json h e u) (\<lambda>(ok, m, body).
     if \<not> ok then returnS (False, m, [])
     else bindS (liftS (result_of body (PList []))) (\<lambda>v. returnS (case v of
         PList fs \<Rightarrow> (True, ''OK'', [p. Some (PStr p) \<leftarrow> map path_entry fs])
       | _ \<Rightarrow> (False, ''Moonraker returned an invalid config file list'', [])))))"

end
