(* ===== verification/Firmware_Deployer.thy ===== *)
theory Firmware_Deployer
  imports Moonraker_Api Firmware_Identity
begin

text \<open>
  \<open>core/moonraker_deployer.py\<close>: the state machine of a deployment of firmware and configuration, from
  the backup over the physical power cycle to the verified configuration, with its rollback.  The
  printer's client, the MCU monitor, the prompts, the firmware action and the clock are fields of
  \<open>dep_env\<close> over an arbitrary world; each may raise.  Time is counted in eighths of a second, which
  makes the intervals of the waits (1, 1.5, 2.25, 3.375, 5, 5, ...) whole numbers.
\<close>

subsection \<open>States, manifest and results\<close>

datatype deploy_state =
    INIT | BACKUP | MEDIA_PREPARED | AWAITING_MEDIA_INSTALLATION | AWAITING_BOOTLOADER | FLASHING
  | AWAITING_POWER_CYCLE | AWAITING_REENUMERATION | AWAITING_MCU_CONFIRMATION | MCU_IDENTITY_CONFIRMED
  | COPYING_FIRMWARE | FIRMWARE_COPIED | MONITOR_ARMED | AWAITING_DISCONNECT | MCU_ABSENT
  | AWAITING_RECONNECT | MCU_PRESENT | WAITING_MOONRAKER | MOONRAKER_ONLINE | WAITING_KLIPPER_READY
  | KLIPPER_READY | WAITING_MCU_REGISTRATION | MCU_REGISTERED | VERIFYING_FIRMWARE | FIRMWARE_VERIFIED
  | APPLYING_CONFIG | VERIFYING_UPLOAD | FIRMWARE_RESTART | VERIFYING_CONFIG | ROLLING_BACK
  | VERIFYING_ROLLBACK | DONE | FAILED_FLASH | TIMEOUT | CONFIG_ERROR | CANCELLED | ABORTED
  | FAILED_UPLOAD | FAILED_MONITOR | FAILED_PRECONDITION

text \<open>\<open>auto()\<close> numbers the states in this order; only the states from \<open>APPLYING_CONFIG\<close> on are compared.\<close>

definition from_applying :: "deploy_state list" where
  "from_applying = [APPLYING_CONFIG, VERIFYING_UPLOAD, FIRMWARE_RESTART, VERIFYING_CONFIG, ROLLING_BACK,
     VERIFYING_ROLLBACK, DONE, FAILED_FLASH, TIMEOUT, CONFIG_ERROR, CANCELLED, ABORTED, FAILED_UPLOAD,
     FAILED_MONITOR, FAILED_PRECONDITION]"

record mcu_target =
  mt_name :: string
  mt_expected_version :: string
  mt_firmware_identity :: "(pkey \<times> pyval) list option"

record config_artifact =
  ca_local_path :: string
  ca_remote_name :: string

record manifest =
  mf_targets :: "mcu_target list"
  mf_printer_cfg_path :: string
  mf_macros_cfg_path :: "string option"
  mf_auxiliary_files :: "config_artifact list"
  mf_config_artifacts :: "config_artifact list option"

record deploy_result =
  dr_state :: deploy_state
  dr_detail :: string
  dr_mcu_versions :: "(string, string) dict"
  dr_snapshot :: "snapshot option"
  dr_workflow_id :: string
  dr_rollback :: "bool option"

definition deploy_ok :: "deploy_result \<Rightarrow> bool" where
  "deploy_ok r = (dr_state r = DONE)"

record deploy_event =
  ev_workflow_id :: string
  ev_sequence :: int
  ev_state :: deploy_state
  ev_detail :: string
  ev_data :: "(pkey \<times> pyval) list"

subsection \<open>Timeouts\<close>

record timeouts =
  to_mcu_disconnect :: int
  to_mcu_reenumeration :: int
  to_moonraker :: int
  to_klipper_ready :: int
  to_mcu_registration :: int

definition default_timeouts :: timeouts where
  "default_timeouts = \<lparr>to_mcu_disconnect = 960, to_mcu_reenumeration = 1440, to_moonraker = 720,
     to_klipper_ready = 960, to_mcu_registration = 960\<rparr>"

text \<open>What \<open>float(raw)\<close> gives: nothing, a value that is not finite, or a number of eighths of a second.\<close>

datatype seconds = Not_a_number | Not_finite | Seconds int

definition timeout_error :: "string \<Rightarrow> tx_exn" where
  "timeout_error name = value_error (name @ '' must be a finite positive number'')"

definition timeout_raw :: "(string \<rightharpoonup> string) \<Rightarrow> (string \<Rightarrow> seconds) \<Rightarrow> string \<Rightarrow> int \<Rightarrow> (tx_exn, seconds) res" where
  "timeout_raw env to_float name d0 = (case env name of
     None \<Rightarrow> Inr (Seconds d0)
   | Some raw \<Rightarrow> require (to_float raw \<noteq> Not_a_number) (timeout_error name) (Inr (to_float raw)))"

text \<open>\<open>__post_init__\<close> of one field.\<close>

definition checked_timeout :: "string \<Rightarrow> seconds \<Rightarrow> (tx_exn, int) res" where
  "checked_timeout name v = (case v of
     Seconds s \<Rightarrow> require (0 < s) (timeout_error name) (Inr s) | _ \<Rightarrow> Inl (timeout_error name))"

definition env_names :: "string list" where
  "env_names = [''KACE_TIMEOUT_MCU_DISCONNECT_S'', ''KACE_TIMEOUT_MCU_REENUMERATION_S'', ''KACE_TIMEOUT_MOONRAKER_S'',
     ''KACE_TIMEOUT_KLIPPER_READY_S'', ''KACE_TIMEOUT_MCU_REGISTRATION_S'']"

definition timeouts_of :: "seconds list \<Rightarrow> (tx_exn, timeouts) res" where
  "timeouts_of vs = bindE (mapE (\<lambda>(n, v). checked_timeout n v) (zip env_names vs)) (\<lambda>ts.
     Inr \<lparr>to_mcu_disconnect = ts ! 0, to_mcu_reenumeration = ts ! 1, to_moonraker = ts ! 2, to_klipper_ready = ts ! 3,
       to_mcu_registration = ts ! 4\<rparr>)"

definition timeouts_from_env :: "(string \<rightharpoonup> string) \<Rightarrow> (string \<Rightarrow> seconds) \<Rightarrow> (tx_exn, timeouts) res" where
  "timeouts_from_env env to_float =
     (let d = default_timeouts in
      bindE (mapE (\<lambda>(n, d0). timeout_raw env to_float n d0) (zip env_names
        [to_mcu_disconnect d, to_mcu_reenumeration d, to_moonraker d, to_klipper_ready d, to_mcu_registration d])) timeouts_of)"

subsection \<open>The environment and the state of a deployment\<close>

record 'w deploy_client =
  cl_online :: "('w, tx_exn, bool) action"
  cl_klippy_state :: "('w, tx_exn, string) action"
  cl_mcu_versions :: "('w, tx_exn, (string, string) dict) action"
  cl_download :: "string \<Rightarrow> ('w, tx_exn, bool \<times> bytes option) action"
  cl_read :: "'w reader"
  cl_supports :: "bytes option \<Rightarrow> ('w, tx_exn, bool) action"
  cl_upload :: "bytes \<Rightarrow> string \<Rightarrow> bytes option \<Rightarrow> ('w, tx_exn, unit) action"
  cl_restore :: "snapshot \<Rightarrow> (string, bytes) dict \<Rightarrow> ('w, tx_exn, string list) action"
  cl_restart_moonraker :: "('w, tx_exn, unit) action"
  cl_firmware_restart :: "('w, tx_exn, unit) action"

text \<open>
  While the monitor waits for the board it may ask the deployer to confirm an ambiguous identity; the
  question is a value the wait returns, and \<open>mn_resume\<close> goes on with the answer.
\<close>

datatype present_reply = Recognised string pyval | Ambiguous pyval

record 'w deploy_monitor =
  mn_arm :: "('w, tx_exn, pyval option) action"
  mn_wait_absent :: "int \<Rightarrow> ('w, tx_exn, unit) action"
  mn_wait_present :: "int \<Rightarrow> ('w, tx_exn, present_reply) action"
  mn_resume :: "bool \<Rightarrow> ('w, tx_exn, string \<times> pyval) action"
  mn_assessment :: "('w, tx_exn, pyval) action"
  mn_manual :: "('w, tx_exn, bool) action"
  mn_close :: "('w, tx_exn, unit) action"

datatype firmware_outcome = Outcome_bool bool | Outcome_status string string

record 'w dep_env =
  de_client :: "'w deploy_client"
  de_manifest :: manifest
  de_verify_firmware :: bool
  de_monitor :: "'w deploy_monitor option"
  de_power_prompt :: "('w, tx_exn, bool) action option"
  de_media_prompt :: "('w, tx_exn, bool) action option"
  de_identity_prompt :: "(pyval \<Rightarrow> ('w, tx_exn, bool) action) option"
  de_power_off :: "('w, tx_exn, unit) action option"
  de_power_on :: "('w, tx_exn, unit) action option"
  de_cancelled :: "('w, tx_exn, bool) action"
  de_wait :: "int \<Rightarrow> ('w, tx_exn, bool) action"
  de_sink :: "deploy_event \<Rightarrow> ('w, tx_exn, unit) action"
  de_close_sink :: "('w, tx_exn, unit) action option"
  de_snapshot_loader :: "('w, tx_exn, snapshot option) action option"
  de_before_upload :: "('w, tx_exn, unit) action option"
  de_verify_config :: "('w, tx_exn, unit) action option"
  de_firmware_copy :: "('w, tx_exn, firmware_outcome) action option"
  de_firmware_deploy :: "('w, tx_exn, firmware_outcome) action option"
  de_monitor_first :: bool
  de_already_copied :: bool
  de_timeouts :: timeouts
  de_workflow_id :: string
  de_monotonic :: "('w, tx_exn, int) action"
  de_isfile :: "string \<Rightarrow> ('w, tx_exn, bool) action"
  de_read_file :: "string \<Rightarrow> ('w, tx_exn, bytes) action"
  de_sha :: "bytes \<Rightarrow> string"
  de_fuel :: nat

datatype dep_effect =
    Entered deploy_state | Confirmed string | Powered bool | Absent | Accepted string | Moonraker_up | Klipper_up
  | Registered "string list" | Versions_match | Reviewed_again | Seen string "bytes option" | Writing string bytes "bytes option"
  | Uploads_match "(string \<times> string) list" | Bytes_restored file_state

text \<open>\<open>dc_versions\<close> and \<open>dc_started\<close> are the local variables of \<open>run\<close> its handlers read; \<open>dc_log\<close> is not in the code.\<close>

record dep_core =
  dc_state :: deploy_state
  dc_sequence :: int
  dc_snapshot :: "snapshot option"
  dc_attempted :: "(string, bytes) dict"
  dc_started :: bool
  dc_versions :: "(string, string) dict"
  dc_log :: "dep_effect list"

type_synonym ('w, 'a) dep = "('w \<times> dep_core, tx_exn, 'a) action"

definition world :: "('w, tx_exn, 'a) action \<Rightarrow> ('w, 'a) dep" where
  "world m s = (case m (fst s) of (r, w) \<Rightarrow> (r, (w, snd s)))"

definition the_dep :: "(dep_core \<Rightarrow> 'a) \<Rightarrow> ('w, 'a) dep" where
  "the_dep f = getS (\<lambda>s. f (snd s))"

definition on_dep :: "(dep_core \<Rightarrow> dep_core) \<Rightarrow> ('w, unit) dep" where
  "on_dep f = modifyS (\<lambda>s. (fst s, f (snd s)))"

definition log_dep :: "dep_effect \<Rightarrow> ('w, unit) dep" where
  "log_dep e = on_dep (dc_log_update (\<lambda>l. l @ [e]))"

text \<open>\<open>return\<close> inside a method: \<open>Inl\<close> is the result returned early, \<open>Inr\<close> the way on.\<close>

definition bindR :: "('s, 'e, 'r + 'a) action \<Rightarrow> ('a \<Rightarrow> ('s, 'e, 'r + 'b) action) \<Rightarrow> ('s, 'e, 'r + 'b) action" where
  "bindR m k = bindS m (\<lambda>r. case r of Inl x \<Rightarrow> returnS (Inl x) | Inr a \<Rightarrow> k a)"

definition goS :: "('s, 'e, 'a) action \<Rightarrow> ('s, 'e, 'r + 'a) action" where
  "goS m = bindS m (\<lambda>x. returnS (Inr x))"

fun eachR :: "('a \<Rightarrow> ('s, 'e, 'r + unit) action) \<Rightarrow> 'a list \<Rightarrow> ('s, 'e, 'r + unit) action" where
  "eachR f [] = returnS (Inr ())"
| "eachR f (x # xs) = bindR (f x) (\<lambda>_. eachR f xs)"

subsection \<open>Events and results\<close>

definition transition_with :: "'w dep_env \<Rightarrow> deploy_state \<Rightarrow> string \<Rightarrow> (pkey \<times> pyval) list \<Rightarrow> ('w, unit) dep" where
  "transition_with env st detail data =
     bindS (on_dep (\<lambda>c. c\<lparr>dc_state := st, dc_sequence := dc_sequence c + 1, dc_log := dc_log c @ [Entered st]\<rparr>)) (\<lambda>_.
     bindS (the_dep dc_sequence) (\<lambda>n.
     world (de_sink env \<lparr>ev_workflow_id = de_workflow_id env, ev_sequence = n, ev_state = st, ev_detail = detail, ev_data = data\<rparr>)))"

abbreviation enter :: "'w dep_env \<Rightarrow> deploy_state \<Rightarrow> string \<Rightarrow> ('w, unit) dep" where
  "enter env st detail \<equiv> transition_with env st detail []"

definition result_with ::
    "'w dep_env \<Rightarrow> deploy_state \<Rightarrow> string \<Rightarrow> (string, string) dict \<Rightarrow> bool option \<Rightarrow> ('w, deploy_result) dep" where
  "result_with env st detail versions rollback =
     bindS (enter env st detail) (\<lambda>_. bindS (the_dep dc_snapshot) (\<lambda>sn.
     returnS \<lparr>dr_state = st, dr_detail = detail, dr_mcu_versions = versions, dr_snapshot = sn,
       dr_workflow_id = de_workflow_id env, dr_rollback = rollback\<rparr>))"

definition stop :: "'w dep_env \<Rightarrow> deploy_state \<Rightarrow> string \<Rightarrow> ('w, deploy_result + 'a) dep" where
  "stop env st detail = bindS (result_with env st detail [] None) (\<lambda>r. returnS (Inl r))"

definition stop_with :: "'w dep_env \<Rightarrow> deploy_state \<Rightarrow> string \<Rightarrow> bool option \<Rightarrow> ('w, deploy_result + 'a) dep" where
  "stop_with env st detail rollback =
     bindS (the_dep dc_versions) (\<lambda>v. bindS (result_with env st detail v rollback) (\<lambda>r. returnS (Inl r)))"

text \<open>The line protocol of \<open>JsonEventSink\<close>.\<close>

fun deploy_state_name :: "deploy_state \<Rightarrow> string" where
  "deploy_state_name INIT = ''INIT''"
| "deploy_state_name BACKUP = ''BACKUP''"
| "deploy_state_name MEDIA_PREPARED = ''MEDIA_PREPARED''"
| "deploy_state_name AWAITING_MEDIA_INSTALLATION = ''AWAITING_MEDIA_INSTALLATION''"
| "deploy_state_name AWAITING_BOOTLOADER = ''AWAITING_BOOTLOADER''"
| "deploy_state_name FLASHING = ''FLASHING''"
| "deploy_state_name AWAITING_POWER_CYCLE = ''AWAITING_POWER_CYCLE''"
| "deploy_state_name AWAITING_REENUMERATION = ''AWAITING_REENUMERATION''"
| "deploy_state_name AWAITING_MCU_CONFIRMATION = ''AWAITING_MCU_CONFIRMATION''"
| "deploy_state_name MCU_IDENTITY_CONFIRMED = ''MCU_IDENTITY_CONFIRMED''"
| "deploy_state_name COPYING_FIRMWARE = ''COPYING_FIRMWARE''"
| "deploy_state_name FIRMWARE_COPIED = ''FIRMWARE_COPIED''"
| "deploy_state_name MONITOR_ARMED = ''MONITOR_ARMED''"
| "deploy_state_name AWAITING_DISCONNECT = ''AWAITING_DISCONNECT''"
| "deploy_state_name MCU_ABSENT = ''MCU_ABSENT''"
| "deploy_state_name AWAITING_RECONNECT = ''AWAITING_RECONNECT''"
| "deploy_state_name MCU_PRESENT = ''MCU_PRESENT''"
| "deploy_state_name WAITING_MOONRAKER = ''WAITING_MOONRAKER''"
| "deploy_state_name MOONRAKER_ONLINE = ''MOONRAKER_ONLINE''"
| "deploy_state_name WAITING_KLIPPER_READY = ''WAITING_KLIPPER_READY''"
| "deploy_state_name KLIPPER_READY = ''KLIPPER_READY''"
| "deploy_state_name WAITING_MCU_REGISTRATION = ''WAITING_MCU_REGISTRATION''"
| "deploy_state_name MCU_REGISTERED = ''MCU_REGISTERED''"
| "deploy_state_name VERIFYING_FIRMWARE = ''VERIFYING_FIRMWARE''"
| "deploy_state_name FIRMWARE_VERIFIED = ''FIRMWARE_VERIFIED''"
| "deploy_state_name APPLYING_CONFIG = ''APPLYING_CONFIG''"
| "deploy_state_name VERIFYING_UPLOAD = ''VERIFYING_UPLOAD''"
| "deploy_state_name FIRMWARE_RESTART = ''FIRMWARE_RESTART''"
| "deploy_state_name VERIFYING_CONFIG = ''VERIFYING_CONFIG''"
| "deploy_state_name ROLLING_BACK = ''ROLLING_BACK''"
| "deploy_state_name VERIFYING_ROLLBACK = ''VERIFYING_ROLLBACK''"
| "deploy_state_name DONE = ''DONE''"
| "deploy_state_name FAILED_FLASH = ''FAILED_FLASH''"
| "deploy_state_name TIMEOUT = ''TIMEOUT''"
| "deploy_state_name CONFIG_ERROR = ''CONFIG_ERROR''"
| "deploy_state_name CANCELLED = ''CANCELLED''"
| "deploy_state_name ABORTED = ''ABORTED''"
| "deploy_state_name FAILED_UPLOAD = ''FAILED_UPLOAD''"
| "deploy_state_name FAILED_MONITOR = ''FAILED_MONITOR''"
| "deploy_state_name FAILED_PRECONDITION = ''FAILED_PRECONDITION''"

definition event_value :: "deploy_event \<Rightarrow> pyval" where
  "event_value e = PDict ([(KStr ''schema'', PInt 1), (KStr ''workflow_id'', PStr (ev_workflow_id e)),
     (KStr ''sequence'', PInt (ev_sequence e)), (KStr ''state'', PStr (deploy_state_name (ev_state e))),
     (KStr ''detail'', PStr (ev_detail e))]
     @ (if ev_data e = [] then [] else [(KStr ''data'', PDict (ev_data e))]))"

definition event_line :: "deploy_event \<Rightarrow> string option" where
  "event_line e = map_option (\<lambda>t. ''=== KACE_WORKFLOW_EVENT: '' @ t @ '' ==='') (dumps (event_value e))"

subsection \<open>Waits\<close>

definition poll_interval :: int where "poll_interval = 8"

text \<open>\<open>min(interval * 1.5, 5.0)\<close>; the first value the integer division would round is beyond the maximum.\<close>

definition backoff :: "int \<Rightarrow> int" where
  "backoff i = min (i * 3 div 2) 40"

definition monitor_cancelled :: tx_exn where
  "monitor_cancelled = Tx Monitor_cancelled ''cancelled''"

definition pause :: "'w dep_env \<Rightarrow> int \<Rightarrow> ('w, tx_exn, unit) action" where
  "pause env i = bindS (de_wait env i) (\<lambda>c. requireS (\<not> c) monitor_cancelled)"

definition network_or :: "'a \<Rightarrow> ('s, tx_exn, 'a) action \<Rightarrow> ('s, tx_exn, 'a) action" where
  "network_or d m = catchS m (\<lambda>e. if is_os_error e then returnS d else raiseS e)"

text \<open>The head of a turn: the deadline, then the cancellation.\<close>

definition wait_turn :: "'w dep_env \<Rightarrow> int \<Rightarrow> 'a \<Rightarrow> ('w, tx_exn, 'l + 'a) action \<Rightarrow> ('w, tx_exn, 'l + 'a) action" where
  "wait_turn env deadline expired body =
     bindS (de_monotonic env) (\<lambda>now.
     if deadline \<le> now then returnS (Inr expired)
     else bindS (de_cancelled env) (\<lambda>c. bindS (requireS (\<not> c) monitor_cancelled) (\<lambda>_. body)))"

definition moonraker_turn :: "'w dep_env \<Rightarrow> int \<Rightarrow> int \<times> int \<Rightarrow> ('w, tx_exn, (int \<times> int) + bool) action" where
  "moonraker_turn env deadline l = (case l of (interval, samples) \<Rightarrow>
     wait_turn env deadline False
       (bindS (network_or False (cl_online (de_client env))) (\<lambda>up.
        if up \<and> 2 \<le> samples + 1 then returnS (Inr True)
        else bindS (pause env interval) (\<lambda>_. returnS (Inl (backoff interval, if up then samples + 1 else 0))))))"

definition klipper_turn ::
    "'w dep_env \<Rightarrow> bool \<Rightarrow> int \<Rightarrow> int \<times> int \<times> string \<Rightarrow> ('w, tx_exn, (int \<times> int \<times> string) + (bool \<times> string)) action" where
  "klipper_turn env fail_on_error deadline l = (case l of (interval, samples, seen) \<Rightarrow>
     wait_turn env deadline (False, seen)
       (bindS (network_or ''disconnected'' (cl_klippy_state (de_client env))) (\<lambda>st.
        if st = ''ready'' \<and> 2 \<le> samples + 1 then returnS (Inr (True, st))
        else if fail_on_error \<and> st \<in> {''shutdown'', ''error''} then returnS (Inr (False, st))
        else bindS (pause env interval) (\<lambda>_. returnS (Inl (backoff interval, if st = ''ready'' then samples + 1 else 0, st))))))"

definition registration_turn ::
    "'w dep_env \<Rightarrow> int \<Rightarrow> int \<Rightarrow> ('w, tx_exn, int + (string, string) dict option) action" where
  "registration_turn env deadline interval =
     wait_turn env deadline None
       (bindS (network_or [] (cl_mcu_versions (de_client env))) (\<lambda>versions.
        if set (map mt_name (mf_targets (de_manifest env))) \<subseteq> set (dict_keys versions) then returnS (Inr (Some versions))
        else bindS (pause env interval) (\<lambda>_. returnS (Inl (backoff interval)))))"

text \<open>A wait that used up its fuel has not returned.\<close>

definition wait_for :: "'w dep_env \<Rightarrow> int \<Rightarrow> (int \<Rightarrow> 'l \<Rightarrow> ('w, tx_exn, 'l + 'a) action) \<Rightarrow> 'l \<Rightarrow> ('w, 'a) dep" where
  "wait_for env timeout turn l =
     bindS (world (bindS (de_monotonic env) (\<lambda>now. poll (de_fuel env) (turn (now + timeout)) l))) (\<lambda>r. case r of
       Some x \<Rightarrow> returnS x | None \<Rightarrow> raiseS (Tx Still_running []))"

definition await_moonraker :: "'w dep_env \<Rightarrow> ('w, bool) dep" where
  "await_moonraker env =
     bindS (wait_for env (to_moonraker (de_timeouts env)) (moonraker_turn env) (poll_interval, 0)) (\<lambda>up.
     bindS (whenS up (log_dep Moonraker_up)) (\<lambda>_. returnS up))"

definition await_klipper :: "'w dep_env \<Rightarrow> bool \<Rightarrow> ('w, bool \<times> string) dep" where
  "await_klipper env fail_on_error =
     bindS (wait_for env (to_klipper_ready (de_timeouts env)) (klipper_turn env fail_on_error)
       (poll_interval, 0, ''disconnected'')) (\<lambda>(ready, st).
     bindS (whenS ready (log_dep Klipper_up)) (\<lambda>_. returnS (ready, st)))"

definition await_registration :: "'w dep_env \<Rightarrow> ('w, (string, string) dict option) dep" where
  "await_registration env =
     bindS (wait_for env (to_mcu_registration (de_timeouts env)) (registration_turn env) poll_interval) (\<lambda>v.
     bindS (case v of None \<Rightarrow> returnS () | Some d \<Rightarrow> log_dep (Registered (dict_keys d))) (\<lambda>_. returnS v))"

subsection \<open>Checks\<close>

definition check_versions :: "manifest \<Rightarrow> (string, string) dict \<Rightarrow> string list \<times> string list" where
  "check_versions m actual =
     ([mt_name t. t \<leftarrow> mf_targets m, \<exists>v \<in> set_option (dict_get actual (mt_name t)). \<not> firmware_version_matches v (mt_expected_version t)],
      [mt_name t. t \<leftarrow> mf_targets m, dict_get actual (mt_name t) = None])"

definition identity_summaries :: "manifest \<Rightarrow> pyval" where
  "identity_summaries m = PList [PDict ((KStr ''mcu'', PStr (mt_name t))
       # map (\<lambda>k. (KStr k, py_get i k)) [''build_id'', ''input_sha256'', ''artifact_sha256'', ''artifact_build_id'']).
     t \<leftarrow> mf_targets m, i \<leftarrow> (case mt_firmware_identity t of Some i \<Rightarrow> [i] | None \<Rightarrow> [])]"

text \<open>\<open>manifest.artifacts()\<close> looks at the file system each time it is called.\<close>

definition the_artifacts :: "'w dep_env \<Rightarrow> ('w, config_artifact list) dep" where
  "the_artifacts env =
     (let m = de_manifest env in
      case mf_config_artifacts m of
        Some as \<Rightarrow> returnS as
      | None \<Rightarrow>
          bindS (case mf_macros_cfg_path m of
              None \<Rightarrow> returnS []
            | Some p \<Rightarrow> if p = [] then returnS [] else
                bindS (world (de_isfile env p)) (\<lambda>there. returnS (if there
                  then [\<lparr>ca_local_path = p, ca_remote_name = legacy_macros_remote\<rparr>] else []))) (\<lambda>macros.
          returnS (\<lparr>ca_local_path = mf_printer_cfg_path m, ca_remote_name = root_remote\<rparr> # macros @ mf_auxiliary_files m)))"

definition verify_one :: "'w dep_env \<Rightarrow> config_artifact \<Rightarrow> ('w, (bool \<times> string) + unit) dep" where
  "verify_one env a =
     bindS (world (cl_download (de_client env) (ca_remote_name a))) (\<lambda>(ok, remote).
     case (ok, remote) of
       (True, Some d) \<Rightarrow>
         bindS (world (de_read_file env (ca_local_path a))) (\<lambda>local.
         returnS (if de_sha env d \<noteq> de_sha env local then Inl (False, ''checksum mismatch for '' @ ca_remote_name a) else Inr ()))
     | _ \<Rightarrow> returnS (Inl (False, ''could not download '' @ ca_remote_name a @ '' after upload'')))"

definition check_uploads :: "'w dep_env \<Rightarrow> ('w, bool \<times> string) dep" where
  "check_uploads env =
     bindS (the_artifacts env) (\<lambda>as.
     bindS (eachR (verify_one env) as) (\<lambda>r. case r of
       Inl x \<Rightarrow> returnS x
     | Inr _ \<Rightarrow> bindS (log_dep (Uploads_match (map (\<lambda>a. (ca_local_path a, ca_remote_name a)) as))) (\<lambda>_. returnS (True, []))))"

definition verify_uploads :: "'w dep_env \<Rightarrow> ('w, bool \<times> string) dep" where
  "verify_uploads env =
     bindS (case de_verify_config env of None \<Rightarrow> returnS (Inr ()) | Some f \<Rightarrow> attempt (world f)) (\<lambda>r. case r of
       Inl e \<Rightarrow> returnS (False, ''configuration verification failed: '' @ tx_text e)
     | Inr _ \<Rightarrow> check_uploads env)"

subsection \<open>Rollback\<close>

definition verify_rollback_bytes :: "'w dep_env \<Rightarrow> snapshot \<Rightarrow> ('w, unit) dep" where
  "verify_rollback_bytes env sn =
     bindS (the_dep dc_attempted) (\<lambda>d.
     bindS (world (cl_read (de_client env) (dict_keys d))) (\<lambda>current.
     bindS (liftS (verify_snapshot_restored sn current (dict_keys d))) (\<lambda>_.
     log_dep (Bytes_restored current))))"

text \<open>A stage of the rollback whose exception becomes its failure.\<close>

definition stage :: "string \<Rightarrow> ('w, 'a) dep \<Rightarrow> ('w, (bool \<times> string) + 'a) dep" where
  "stage label m = bindS (attempt m) (\<lambda>r. returnS (case r of Inl e \<Rightarrow> Inl (False, label @ tx_text e) | Inr x \<Rightarrow> Inr x))"

definition restart_after_restore :: "'w dep_env \<Rightarrow> snapshot \<Rightarrow> ('w, (bool \<times> string) + (bool \<times> string)) dep" where
  "restart_after_restore env sn =
     bindR (if moonraker_remote \<in> set (dict_keys (sn_config_files sn)) \<union> set (sn_missing_files sn)
            then stage ''Moonraker rollback restart failed: '' (world (cl_restart_moonraker (de_client env)))
            else returnS (Inr ())) (\<lambda>_.
     bindS (await_moonraker env) (\<lambda>up.
     if \<not> up then returnS (Inl (False, ''Moonraker did not recover after rollback''))
     else bindR (stage ''Klipper rollback restart failed: '' (world (cl_firmware_restart (de_client env)))) (\<lambda>_.
       bindS (await_klipper env True) (\<lambda>(ready, st).
       if \<not> ready then returnS (Inl (False, ''Klipper did not become Ready after rollback (state='' @ st @ '')''))
       else bindR (stage ''rollback verification failed after restart: '' (verify_rollback_bytes env sn)) (\<lambda>_.
         returnS (Inr (True, ''rollback restored byte-identical configuration and Klipper Ready'')))))))"

definition roll_back :: "'w dep_env \<Rightarrow> ('w, bool \<times> string) dep" where
  "roll_back env =
     bindS (the_dep dc_snapshot) (\<lambda>s. case s of
       None \<Rightarrow> returnS (False, ''no pre-deployment snapshot is available'')
     | Some sn \<Rightarrow>
         bindS (enter env ROLLING_BACK ''restoring previous configuration'') (\<lambda>_.
         bindS (the_dep dc_attempted) (\<lambda>d.
         bindS (bindR (stage ''rollback failed: '' (world (cl_restore (de_client env) sn d))) (\<lambda>failed.
           if failed \<noteq> [] then returnS (Inl (False, ''rollback upload failed: '' @ join_with '', '' failed))
           else bindS (enter env VERIFYING_ROLLBACK ''verifying restored bytes and Klipper Ready'') (\<lambda>_.
             bindR (stage ''rollback verification failed: '' (verify_rollback_bytes env sn)) (\<lambda>_.
             restart_after_restore env sn)))) (\<lambda>r.
         returnS (case r of Inl x \<Rightarrow> x | Inr x \<Rightarrow> x)))))"

subsection \<open>Before the board is touched\<close>

definition backup_stage :: "'w dep_env \<Rightarrow> ('w, deploy_result + unit) dep" where
  "backup_stage env = (case de_snapshot_loader env of
     None \<Rightarrow> returnS (Inr ())
   | Some load \<Rightarrow>
       bindS (enter env BACKUP ''capturing pre-deployment configuration'') (\<lambda>_.
       bindS (world load) (\<lambda>sn.
       bindS (on_dep (dc_snapshot_update (\<lambda>_. sn))) (\<lambda>_.
       bindS (the_artifacts env) (\<lambda>as.
       if as \<noteq> [] \<and> sn = None
       then stop env FAILED_PRECONDITION ''configuration backup failed; firmware deployment was not started''
       else returnS (Inr ()))))))"

text \<open>\<open>set(snapshot.config_files) | set(snapshot.missing_files)\<close> and the recorded bytes.\<close>

definition recorded :: "snapshot option \<Rightarrow> string \<Rightarrow> bool" where
  "recorded s n = (case s of None \<Rightarrow> False | Some sn \<Rightarrow> n \<in> set (dict_keys (sn_config_files sn)) \<union> set (sn_missing_files sn))"

definition recorded_bytes :: "snapshot option \<Rightarrow> string \<Rightarrow> bytes option" where
  "recorded_bytes s n = (case s of None \<Rightarrow> None | Some sn \<Rightarrow> dict_get (sn_config_files sn) n)"

definition publishable :: "'w dep_env \<Rightarrow> config_artifact \<Rightarrow> ('w, deploy_result + unit) dep" where
  "publishable env a =
     bindS (the_dep dc_snapshot) (\<lambda>s.
     bindS (if \<not> recorded s (ca_remote_name a) then returnS False
            else world (cl_supports (de_client env) (recorded_bytes s (ca_remote_name a)))) (\<lambda>ok.
     if \<not> ok then stop env FAILED_PRECONDITION
       ''atomic conditional config upload unavailable; firmware deployment was not started''
     else returnS (Inr ())))"

definition capability_stage :: "'w dep_env \<Rightarrow> ('w, deploy_result + unit) dep" where
  "capability_stage env = bindS (the_artifacts env) (eachR (publishable env))"

subsection \<open>The firmware\<close>

text \<open>\<open>Inr armed\<close>: whether the monitor was armed.\<close>

definition early_arm :: "'w dep_env \<Rightarrow> ('w, deploy_result + bool) dep" where
  "early_arm env = (case de_monitor env of
     Some mn \<Rightarrow>
       if de_monitor_first env then
         bindS (world (mn_arm mn)) (\<lambda>_.
         bindS (enter env MONITOR_ARMED ''physical MCU monitor armed'') (\<lambda>_.
         bindS (enter env AWAITING_BOOTLOADER ''waiting for the automatic deployment backend to enter the bootloader'') (\<lambda>_.
         bindS (enter env FLASHING ''automatic firmware flashing started'') (\<lambda>_. returnS (Inr True)))))
       else returnS (Inr False)
   | None \<Rightarrow> returnS (Inr False))"

definition outcome_status :: "bool \<Rightarrow> firmware_outcome \<Rightarrow> string" where
  "outcome_status legacy_copy out = (case out of
     Outcome_bool b \<Rightarrow> if b \<and> legacy_copy then ''MEDIA_PREPARED'' else if \<not> b then ''FAILED'' else []
   | Outcome_status st _ \<Rightarrow> st)"

definition outcome_detail :: "string \<Rightarrow> firmware_outcome \<Rightarrow> string" where
  "outcome_detail d0 out = (case out of Outcome_bool _ \<Rightarrow> d0 | Outcome_status _ d \<Rightarrow> if d = [] then d0 else d)"

text \<open>\<open>Inr prepared\<close>: whether firmware media is prepared.\<close>

definition judge_outcome :: "'w dep_env \<Rightarrow> bool \<Rightarrow> firmware_outcome \<Rightarrow> ('w, deploy_result + bool) dep" where
  "judge_outcome env legacy_copy out =
     (let st = outcome_status legacy_copy out in
      if st = ''CANCELLED'' then stop env CANCELLED (outcome_detail ''firmware deployment cancelled'' out)
      else if st = ''ACTION_REQUIRED'' then stop env FAILED_PRECONDITION
        (outcome_detail ''firmware deployment still requires an unresolved action'' out)
      else if st = ''FAILED'' then stop env FAILED_FLASH (outcome_detail ''firmware deployment method failed'' out)
      else if st = ''MEDIA_PREPARED'' then
        bindS (enter env MEDIA_PREPARED (outcome_detail ''firmware media prepared'' out)) (\<lambda>_. returnS (Inr True))
      else if st = ''FLASHED'' then
        bindS (whenS (\<not> de_monitor_first env) (enter env FLASHING (outcome_detail ''firmware flashing completed'' out)))
          (\<lambda>_. returnS (Inr False))
      else stop env FAILED_PRECONDITION (outcome_detail ''firmware deployment returned an unknown state'' out))"

definition firmware_stage :: "'w dep_env \<Rightarrow> ('w, deploy_result + bool) dep" where
  "firmware_stage env = (case (de_firmware_deploy env, de_firmware_copy env) of
     (None, None) \<Rightarrow>
       if de_already_copied env then
         bindS (enter env MEDIA_PREPARED ''firmware media prepared'') (\<lambda>_. returnS (Inr True))
       else returnS (Inr False)
   | (deploy, copy) \<Rightarrow>
       bindS (whenS (\<not> de_monitor_first env) (enter env COPYING_FIRMWARE ''preparing firmware media'')) (\<lambda>_.
       bindS (world (case deploy of Some f \<Rightarrow> f | None \<Rightarrow> the copy)) (judge_outcome env (deploy = None))))"

subsection \<open>The power cycle\<close>

text \<open>A prompt must answer exactly \<open>True\<close>.\<close>

definition ask :: "'w dep_env \<Rightarrow> string \<Rightarrow> ('w, tx_exn, bool) action option \<Rightarrow> string \<Rightarrow> string \<Rightarrow> ('w, deploy_result + unit) dep" where
  "ask env what prompt missing refused = (case prompt of
     None \<Rightarrow> stop env FAILED_PRECONDITION missing
   | Some f \<Rightarrow> bindS (world f) (\<lambda>yes.
       if \<not> yes then stop env CANCELLED refused else bindS (log_dep (Confirmed what)) (\<lambda>_. returnS (Inr ()))))"

definition before_disconnect :: "'w dep_env \<Rightarrow> ('w, deploy_result + unit) dep" where
  "before_disconnect env = (case de_power_off env of
     Some off \<Rightarrow>
       bindS (enter env AWAITING_POWER_CYCLE ''waiting for permission to power off before media installation'') (\<lambda>_.
       bindR (ask env ''power off'' (de_power_prompt env) ''relay power cycle requires explicit user confirmation''
         ''manual firmware installation cancelled before power off'') (\<lambda>_.
       bindS (log_dep (Powered False)) (\<lambda>_. goS (world off))))
   | None \<Rightarrow>
       bindS (enter env AWAITING_MEDIA_INSTALLATION ''waiting for manual power-off and media installation'') (\<lambda>_.
       bindR (ask env ''media'' (case de_media_prompt env of Some f \<Rightarrow> Some f | None \<Rightarrow> de_power_prompt env)
         ''manual firmware installation requires explicit user confirmation''
         ''manual firmware installation cancelled at physical prompt'') (\<lambda>_.
       goS (enter env AWAITING_POWER_CYCLE ''waiting for the manually requested printer power cycle''))))"

definition after_disconnect :: "'w dep_env \<Rightarrow> ('w, deploy_result + unit) dep" where
  "after_disconnect env =
     bindR (case de_power_off env of
         None \<Rightarrow> returnS (Inr ())
       | Some _ \<Rightarrow>
           bindS (enter env AWAITING_MEDIA_INSTALLATION ''printer is off; waiting for confirmation that media is installed'') (\<lambda>_.
           ask env ''media'' (de_media_prompt env) ''media installation requires confirmation before power on''
             ''manual firmware installation cancelled while printer was off'')) (\<lambda>_.
     goS (bindS (enter env AWAITING_BOOTLOADER ''waiting for the controller bootloader to consume prepared media'') (\<lambda>_.
       bindS (case de_power_on env of
           None \<Rightarrow> returnS () | Some on \<Rightarrow> bindS (log_dep (Powered True)) (\<lambda>_. world on)) (\<lambda>_.
       enter env FLASHING ''bootloader firmware installation in progress''))))"

text \<open>The question of the monitor: \<open>_confirm_ambiguous_identity\<close> when a prompt is given.\<close>

definition confirm_ambiguous :: "'w dep_env \<Rightarrow> pyval \<Rightarrow> ('w, bool) dep" where
  "confirm_ambiguous env assessment = (case de_identity_prompt env of
     None \<Rightarrow> returnS False
   | Some f \<Rightarrow>
       bindS (transition_with env AWAITING_MCU_CONFIRMATION ''physical MCU identity requires explicit confirmation''
         [(KStr ''identity_assessment'', assessment)]) (\<lambda>_.
       bindS (world (f assessment)) (\<lambda>yes.
       bindS (whenS yes (bindS (log_dep (Confirmed ''identity'')) (\<lambda>_.
         transition_with env MCU_IDENTITY_CONFIRMED ''operator physically confirmed the ambiguous MCU identity''
           [(KStr ''identity_assessment'', assessment)]))) (\<lambda>_. returnS yes))))"

definition await_present :: "'w dep_env \<Rightarrow> 'w deploy_monitor \<Rightarrow> ('w, unit) dep" where
  "await_present env mn =
     bindS (enter env AWAITING_REENUMERATION ''waiting for the same physical MCU to reenumerate'') (\<lambda>_.
     bindS (world (mn_wait_present mn (to_mcu_reenumeration (de_timeouts env)))) (\<lambda>r.
     bindS (case r of
         Recognised dev data \<Rightarrow> returnS (dev, data)
       | Ambiguous a \<Rightarrow> bindS (confirm_ambiguous env a) (\<lambda>yes. world (mn_resume mn yes))) (\<lambda>(dev, data).
     bindS (log_dep (Accepted dev)) (\<lambda>_.
     bindS (world (mn_assessment mn)) (\<lambda>assessment. bindS (world (mn_manual mn)) (\<lambda>manual.
     transition_with env MCU_PRESENT ''physical MCU identity accepted''
       [(KStr ''device'', PStr dev), (KStr ''identity'', data), (KStr ''identity_assessment'', assessment),
        (KStr ''manually_confirmed'', PBool manual)]))))))"

definition late_arm :: "'w dep_env \<Rightarrow> 'w deploy_monitor \<Rightarrow> ('w, unit) dep" where
  "late_arm env mn = bindS (world (mn_arm mn)) (\<lambda>baseline.
     transition_with env MONITOR_ARMED ''physical MCU monitor armed''
       (case baseline of None \<Rightarrow> [] | Some b \<Rightarrow> if py_truthy b then [(KStr ''baseline_identity'', b)] else []))"

definition disconnect_stage :: "'w dep_env \<Rightarrow> 'w deploy_monitor \<Rightarrow> bool \<Rightarrow> ('w, deploy_result + unit) dep" where
  "disconnect_stage env mn prepared =
     bindS (enter env AWAITING_DISCONNECT ''waiting for physical MCU removal'') (\<lambda>_.
     bindS (world (mn_wait_absent mn (to_mcu_disconnect (de_timeouts env)))) (\<lambda>_.
     bindS (log_dep Absent) (\<lambda>_.
     bindS (enter env MCU_ABSENT ''physical MCU absent'') (\<lambda>_.
     bindR (if prepared then after_disconnect env else returnS (Inr ())) (\<lambda>_.
     goS (await_present env mn))))))"

definition power_cycle_stage :: "'w dep_env \<Rightarrow> bool \<Rightarrow> bool \<Rightarrow> ('w, deploy_result + unit) dep" where
  "power_cycle_stage env armed prepared = (case de_monitor env of
     None \<Rightarrow>
       if prepared then stop env FAILED_PRECONDITION
         ''prepared firmware media cannot be installed without physical MCU monitoring''
       else returnS (Inr ())
   | Some mn \<Rightarrow>
       bindS (whenS (\<not> armed) (late_arm env mn)) (\<lambda>_.
       bindR (if prepared then before_disconnect env else returnS (Inr ())) (\<lambda>_.
       disconnect_stage env mn prepared)))"

subsection \<open>The printer comes back\<close>

definition versions_value :: "(string, string) dict \<Rightarrow> pyval" where
  "versions_value d = PDict (map (\<lambda>(k, v). (KStr k, PStr v)) d)"

definition firmware_problem :: "string list \<times> string list \<Rightarrow> string" where
  "firmware_problem p = join_with ''; ''
     ((if fst p = [] then [] else [''wrong firmware: '' @ join_with '', '' (fst p)])
      @ (if snd p = [] then [] else [''missing MCU: '' @ join_with '', '' (snd p)]))"

definition check_firmware_stage :: "'w dep_env \<Rightarrow> (string, string) dict \<Rightarrow> ('w, deploy_result + unit) dep" where
  "check_firmware_stage env versions =
     (let m = de_manifest env; problem = check_versions m versions; ids = [(KStr ''identities'', identity_summaries m)] in
      bindS (transition_with env VERIFYING_FIRMWARE ''verifying firmware build identity'' ids) (\<lambda>_.
      bindR (if de_verify_firmware env \<and> problem \<noteq> ([], []) then stop_with env FAILED_FLASH (firmware_problem problem) None
             else goS (whenS (de_verify_firmware env) (log_dep Versions_match))) (\<lambda>_.
      goS (transition_with env FIRMWARE_VERIFIED ''firmware build identity verified'' ids))))"

definition online_stage :: "'w dep_env \<Rightarrow> ('w, deploy_result + unit) dep" where
  "online_stage env =
     bindS (enter env WAITING_MOONRAKER ''waiting for Moonraker'') (\<lambda>_.
     bindS (await_moonraker env) (\<lambda>up.
     if \<not> up then stop env TIMEOUT ''Moonraker wait expired''
     else bindS (enter env MOONRAKER_ONLINE ''Moonraker reachable'') (\<lambda>_.
       bindS (enter env WAITING_KLIPPER_READY ''waiting for Klipper Ready'') (\<lambda>_.
       bindS (await_klipper env False) (\<lambda>(ready, st).
       if \<not> ready then stop env TIMEOUT (''Klipper Ready wait expired (state='' @ st @ '')'')
       else bindS (enter env KLIPPER_READY ''Klipper Ready'') (\<lambda>_.
         bindS (enter env WAITING_MCU_REGISTRATION ''waiting for MCU registration'') (\<lambda>_.
         bindS (await_registration env) (\<lambda>v. case v of
           None \<Rightarrow> stop env TIMEOUT ''MCU registration wait expired''
         | Some versions \<Rightarrow>
             bindS (on_dep (dc_versions_update (\<lambda>_. versions))) (\<lambda>_.
             bindS (transition_with env MCU_REGISTERED ''all expected MCUs registered'' [(KStr ''versions'', versions_value versions)]) (\<lambda>_.
             check_firmware_stage env versions))))))))))"

subsection \<open>The configuration\<close>

definition give_up :: "'w dep_env \<Rightarrow> deploy_state \<Rightarrow> string \<Rightarrow> ('w, deploy_result + 'a) dep" where
  "give_up env st detail =
     bindS (roll_back env) (\<lambda>(ok, rollback_detail). stop_with env st (detail @ ''; '' @ rollback_detail) (Some ok))"

definition final_review :: "'w dep_env \<Rightarrow> ('w, deploy_result + unit) dep" where
  "final_review env =
     bindS (case de_before_upload env of None \<Rightarrow> returnS (Inr ()) | Some f \<Rightarrow> attempt (world f)) (\<lambda>r. case r of
       Inl e \<Rightarrow> stop_with env FAILED_PRECONDITION (tx_text e @ ''; no configuration files were written'') None
     | Inr _ \<Rightarrow> bindS (log_dep Reviewed_again) (\<lambda>_. returnS (Inr ())))"

definition write_one :: "'w dep_env \<Rightarrow> config_artifact \<Rightarrow> ('w, unit) dep" where
  "write_one env a =
     (let name = ca_remote_name a in
      bindS (the_dep dc_snapshot) (\<lambda>sn.
      bindS (requireS (recorded sn name) (Tx Runtime_failed (''No original configuration evidence for '' @ name))) (\<lambda>_.
      bindS (world (read_one (cl_read (de_client env)) name)) (\<lambda>current.
      bindS (log_dep (Seen name current)) (\<lambda>_.
      bindS (requireS (current = recorded_bytes sn name)
        (Tx Runtime_failed (''Concurrent configuration modification detected: '' @ name))) (\<lambda>_.
      bindS (on_dep (dc_started_update (\<lambda>_. True))) (\<lambda>_.
      bindS (world (de_read_file env (ca_local_path a))) (\<lambda>content.
      bindS (on_dep (dc_attempted_update (\<lambda>d. dict_set d name content))) (\<lambda>_.
      bindS (log_dep (Writing name content (recorded_bytes sn name))) (\<lambda>_.
      world (cl_upload (de_client env) content name (recorded_bytes sn name))))))))))))"

definition upload_order :: "config_artifact list \<Rightarrow> config_artifact list" where
  "upload_order as = sort_key (\<lambda>a. (ca_remote_name a = root_remote, ca_remote_name a)) as"

definition write_stage :: "'w dep_env \<Rightarrow> ('w, deploy_result + unit) dep" where
  "write_stage env =
     bindS (the_artifacts env) (\<lambda>as.
     bindS (eachS (write_one env) (upload_order as)) (\<lambda>_.
     bindS (enter env VERIFYING_UPLOAD ''verifying uploaded checksums'') (\<lambda>_.
     bindS (verify_uploads env) (\<lambda>(ok, detail).
     if \<not> ok then give_up env FAILED_UPLOAD detail else returnS (Inr ())))))"

definition upload_stage :: "'w dep_env \<Rightarrow> ('w, deploy_result + unit) dep" where
  "upload_stage env =
     bindS (enter env APPLYING_CONFIG ''uploading configuration'') (\<lambda>_.
     bindR (final_review env) (\<lambda>_. write_stage env))"

definition moonraker_stage :: "'w dep_env \<Rightarrow> ('w, deploy_result + unit) dep" where
  "moonraker_stage env =
     bindS (the_artifacts env) (\<lambda>as.
     if \<not> list_ex (\<lambda>a. ca_remote_name a = moonraker_remote) as then returnS (Inr ())
     else bindS (world (cl_restart_moonraker (de_client env))) (\<lambda>_.
       bindS (enter env WAITING_MOONRAKER ''waiting for Moonraker after config reconciliation'') (\<lambda>_.
       bindS (await_moonraker env) (\<lambda>up.
       if \<not> up then give_up env CONFIG_ERROR ''Moonraker did not recover after config reconciliation''
       else returnS (Inr ())))))"

definition recheck_firmware :: "'w dep_env \<Rightarrow> ('w, deploy_result + unit) dep" where
  "recheck_firmware env =
     (if \<not> de_verify_firmware env then returnS (Inr ())
      else bindS (world (network_or [] (cl_mcu_versions (de_client env)))) (\<lambda>versions.
        bindS (on_dep (dc_versions_update (\<lambda>_. versions))) (\<lambda>_.
        if check_versions (de_manifest env) versions \<noteq> ([], [])
        then give_up env FAILED_FLASH ''firmware identity changed or is unavailable after activation''
        else goS (log_dep Versions_match))))"

definition activation_stage :: "'w dep_env \<Rightarrow> ('w, deploy_result + unit) dep" where
  "activation_stage env =
     bindS (the_artifacts env) (\<lambda>as.
     bindS (whenS (as \<noteq> []) (bindS (enter env FIRMWARE_RESTART ''restarting Klipper'') (\<lambda>_.
       world (cl_firmware_restart (de_client env))))) (\<lambda>_.
     bindS (enter env VERIFYING_CONFIG ''waiting for second Klipper Ready'') (\<lambda>_.
     bindS (await_moonraker env) (\<lambda>up.
     if \<not> up then give_up env CONFIG_ERROR ''Moonraker did not recover''
     else bindS (await_klipper env True) (\<lambda>(ready, st).
       if \<not> ready then give_up env CONFIG_ERROR (''new configuration state='' @ st)
       else recheck_firmware env)))))"

definition closing_stage :: "'w dep_env \<Rightarrow> ('w, deploy_result + deploy_result) dep" where
  "closing_stage env =
     bindS (verify_uploads env) (\<lambda>(ok, detail).
     if \<not> ok then give_up env FAILED_UPLOAD detail
     else bindS (the_dep dc_versions) (\<lambda>v. goS (result_with env DONE ''deployment validated'' v None)))"

subsection \<open>The run\<close>

definition deploy_body :: "'w dep_env \<Rightarrow> ('w, deploy_result) dep" where
  "deploy_body env =
     bindS
       (bindR (backup_stage env) (\<lambda>_.
        bindR (capability_stage env) (\<lambda>_.
        bindR (early_arm env) (\<lambda>armed.
        bindR (firmware_stage env) (\<lambda>prepared.
        bindR (power_cycle_stage env armed prepared) (\<lambda>_.
        bindR (online_stage env) (\<lambda>_.
        bindR (upload_stage env) (\<lambda>_.
        bindR (moonraker_stage env) (\<lambda>_.
        bindR (activation_stage env) (\<lambda>_.
        closing_stage env)))))))))) (\<lambda>r. returnS (case r of Inl x \<Rightarrow> x | Inr x \<Rightarrow> x))"

definition last_versions :: "'w dep_env \<Rightarrow> deploy_state \<Rightarrow> string \<Rightarrow> bool option \<Rightarrow> ('w, deploy_result) dep" where
  "last_versions env st detail rollback = bindS (the_dep dc_versions) (\<lambda>v. result_with env st detail v rollback)"

definition guarded_roll_back :: "'w dep_env \<Rightarrow> bool \<Rightarrow> ('w, bool \<times> string) dep" where
  "guarded_roll_back env interruptible =
     catchS (roll_back env) (\<lambda>e.
       if interruptible \<and> tx_kind e = Keyboard_interrupt then returnS (False, ''rollback interrupted by user'')
       else if is_exception e then returnS (False, ''rollback failed: '' @ tx_text e)
       else raiseS e)"

definition on_cancel :: "'w dep_env \<Rightarrow> ('w, deploy_result) dep" where
  "on_cancel env =
     bindS (the_dep dc_started) (\<lambda>started.
     if \<not> started then last_versions env CANCELLED ''cancelled by user'' None
     else bindS (guarded_roll_back env True) (\<lambda>(ok, d).
       last_versions env (if ok then CANCELLED else CONFIG_ERROR) (''cancelled by user; '' @ d) (Some ok)))"

definition on_error :: "'w dep_env \<Rightarrow> tx_exn \<Rightarrow> ('w, deploy_result) dep" where
  "on_error env e =
     bindS (the_dep dc_state) (\<lambda>st.
     if st \<in> set from_applying \<and> st \<notin> {ROLLING_BACK, VERIFYING_ROLLBACK} then
       bindS (guarded_roll_back env False) (\<lambda>(ok, d).
       last_versions env CONFIG_ERROR (tx_text e @ ''; '' @ d) (Some ok))
     else last_versions env FAILED_PRECONDITION (tx_text e) None)"

definition deploy_handler :: "'w dep_env \<Rightarrow> tx_exn \<Rightarrow> ('w, deploy_result) dep" where
  "deploy_handler env e =
     (if tx_kind e \<in> {Keyboard_interrupt, Monitor_cancelled} then on_cancel env
      else if tx_kind e \<in> {Monitor_mismatch, Monitor_failed} then last_versions env FAILED_MONITOR (tx_text e) None
      else if tx_kind e = Timed_out then last_versions env TIMEOUT (tx_text e) None
      else if is_exception e then on_error env e
      else raiseS e)"

definition deploy_cleanup :: "'w dep_env \<Rightarrow> ('w, unit) dep" where
  "deploy_cleanup env =
     finallyS (case de_monitor env of None \<Rightarrow> returnS () | Some mn \<Rightarrow> world (mn_close mn))
       (case de_close_sink env of None \<Rightarrow> returnS () | Some f \<Rightarrow> world f)"

definition new_deployment :: "snapshot option \<Rightarrow> dep_core" where
  "new_deployment sn = \<lparr>dc_state = INIT, dc_sequence = 0, dc_snapshot = sn, dc_attempted = [], dc_started = False,
     dc_versions = [], dc_log = []\<rparr>"

definition run_deployment :: "'w dep_env \<Rightarrow> ('w, deploy_result) dep" where
  "run_deployment env = finallyS (catchS (deploy_body env) (deploy_handler env)) (deploy_cleanup env)"

end
