(* ===== verification/Deployer_Safety.thy ===== *)
theory Deployer_Safety
  imports Firmware_Deployer
begin

text \<open>
  Rules for the actions of the firmware deployer, and how its log grows: \<open>grows P m\<close> says that every
  effect an action adds satisfies \<open>P\<close>, on every path.
\<close>

subsection \<open>Rules for the deployer's actions\<close>

lemma wp_world [wp_intros]: "(\<And>x. Q x c) \<Longrightarrow> (\<And>e. E e c) \<Longrightarrow> wp snd (world m) Q E c"
  by (simp add: wp_def world_def split: prod.splits sum.splits)

lemma wp_the_dep [wp_intros]: "Q (f c) c \<Longrightarrow> wp snd (the_dep f) Q E c"
  unfolding the_dep_def by (rule wp_get) simp

lemma wp_on_dep [wp_intros]: "Q () (f c) \<Longrightarrow> wp snd (on_dep f) Q E c"
  unfolding on_dep_def by (rule wp_modify) simp

lemma wp_log_dep [wp_intros]: "Q () (c\<lparr>dc_log := dc_log c @ [e]\<rparr>) \<Longrightarrow> wp snd (log_dep e) Q E c"
  unfolding log_dep_def by (rule wp_on_dep) (cases c; simp)

lemma wp_bindR [wp_intros]:
  "wp core m (\<lambda>r. case r of Inl x \<Rightarrow> Q (Inl x) | Inr a \<Rightarrow> wp core (k a) Q E) E c \<Longrightarrow> wp core (bindR m k) Q E c"
  unfolding bindR_def by (rule wp_bind, erule wp_conseq) (auto intro: wp_return split: sum.splits)

lemma wp_goS [wp_intros]: "wp core m (\<lambda>x. Q (Inr x)) E c \<Longrightarrow> wp core (goS m) Q E c"
  unfolding goS_def by (rule wp_bind, erule wp_conseq) (auto intro: wp_return)

lemma wp_stage [wp_intros]:
  "wp core m (\<lambda>x. Q (Inr x)) (\<lambda>e c. if is_exception e then Q (Inl (False, label @ tx_text e)) c else E e c) c \<Longrightarrow>
   wp core (stage label m) Q E c"
  for core :: "'w \<times> dep_core \<Rightarrow> 'c"
  unfolding stage_def by (intro wp_intros, erule wp_conseq) (auto intro!: wp_return)

definition entered :: "deploy_state \<Rightarrow> dep_core \<Rightarrow> dep_core" where
  "entered st c = c\<lparr>dc_state := st, dc_sequence := dc_sequence c + 1, dc_log := dc_log c @ [Entered st]\<rparr>"

lemma entered_fields [simp]:
  "dc_state (entered st c) = st" "dc_log (entered st c) = dc_log c @ [Entered st]" "dc_snapshot (entered st c) = dc_snapshot c"
  "dc_attempted (entered st c) = dc_attempted c" "dc_started (entered st c) = dc_started c"
  "dc_versions (entered st c) = dc_versions c" "dc_sequence (entered st c) = dc_sequence c + 1"
  by (simp_all add: entered_def)

lemma wp_transition [wp_intros]:
  "(\<And>u. Q u (entered st c)) \<Longrightarrow> (\<And>e. E e (entered st c)) \<Longrightarrow> wp snd (transition_with env st d data) Q E c"
  unfolding transition_with_def entered_def by (intro wp_intros) auto

lemma wp_result [wp_intros]:
  "(\<And>r. dr_state r = st \<Longrightarrow> dr_detail r = d \<Longrightarrow> dr_mcu_versions r = v \<Longrightarrow> dr_snapshot r = dc_snapshot c
      \<Longrightarrow> dr_rollback r = b \<Longrightarrow> Q r (entered st c)) \<Longrightarrow>
   (\<And>e. E e (entered st c)) \<Longrightarrow> wp snd (result_with env st d v b) Q E c"
  unfolding result_with_def by (intro wp_intros) auto

lemma wp_stop [wp_intros]:
  "(\<And>r. dr_state r = st \<Longrightarrow> dr_snapshot r = dc_snapshot c \<Longrightarrow> dr_rollback r = None \<Longrightarrow> Q (Inl r) (entered st c)) \<Longrightarrow>
   (\<And>e. E e (entered st c)) \<Longrightarrow> wp snd (stop env st d) Q E c"
  unfolding stop_def by (intro wp_intros) auto

lemma wp_stop_with [wp_intros]:
  "(\<And>r. dr_state r = st \<Longrightarrow> dr_snapshot r = dc_snapshot c \<Longrightarrow> dr_rollback r = b \<Longrightarrow> dr_mcu_versions r = dc_versions c
      \<Longrightarrow> Q (Inl r) (entered st c)) \<Longrightarrow>
   (\<And>e. E e (entered st c)) \<Longrightarrow> wp snd (stop_with env st d b) Q E c"
  unfolding stop_with_def by (intro wp_intros) auto

lemma wp_wait_for [wp_intros]: "(\<And>x. Q x c) \<Longrightarrow> (\<And>e. E e c) \<Longrightarrow> wp snd (wait_for env t turn l) Q E c"
  unfolding wait_for_def by (intro wp_intros) auto

lemma wp_await_moonraker [wp_intros]:
  "Q True (c\<lparr>dc_log := dc_log c @ [Moonraker_up]\<rparr>) \<Longrightarrow> Q False c \<Longrightarrow> (\<And>e. E e c) \<Longrightarrow> wp snd (await_moonraker env) Q E c"
  unfolding await_moonraker_def by (intro wp_intros) auto

lemma wp_await_klipper [wp_intros]:
  "(\<And>st. Q (True, st) (c\<lparr>dc_log := dc_log c @ [Klipper_up]\<rparr>)) \<Longrightarrow> (\<And>st. Q (False, st) c) \<Longrightarrow> (\<And>e. E e c) \<Longrightarrow>
   wp snd (await_klipper env b) Q E c"
  unfolding await_klipper_def by (intro wp_intros) auto

subsection \<open>How the log grows\<close>

definition extends :: "(dep_effect \<Rightarrow> bool) \<Rightarrow> dep_core \<Rightarrow> dep_core \<Rightarrow> bool" where
  "extends P c c' = (\<exists>es. dc_log c' = dc_log c @ es \<and> list_all P es)"

definition grows :: "(dep_effect \<Rightarrow> bool) \<Rightarrow> ('w, 'a) dep \<Rightarrow> bool" where
  "grows P m = (\<forall>c. wp snd m (\<lambda>_. extends P c) (\<lambda>_. extends P c) c)"

named_theorems grows_intros \<open>what an action may add to the log, by its structure\<close>

lemma extends_refl [simp]: "extends P c c"
  by (simp add: extends_def)

lemma extends_trans: "extends P c1 c2 \<Longrightarrow> extends P c2 c3 \<Longrightarrow> extends P c1 c3"
  unfolding extends_def by fastforce

lemma extends_set: "extends P c c' \<Longrightarrow> set (dc_log c) \<subseteq> set (dc_log c')"
  by (auto simp: extends_def)

lemma grows_wp: "grows P m \<Longrightarrow> (\<And>x c'. extends P c c' \<Longrightarrow> Q x c') \<Longrightarrow> (\<And>e c'. extends P c c' \<Longrightarrow> E e c') \<Longrightarrow> wp snd m Q E c"
  unfolding grows_def by (blast intro: wp_conseq)

lemma grows_bind [grows_intros]: "grows P m \<Longrightarrow> (\<And>x. grows P (k x)) \<Longrightarrow> grows P (bindS m k)"
  unfolding grows_def by (intro allI wp_bind) (blast intro: wp_conseq extends_trans)

lemma grows_catch [grows_intros]: "grows P m \<Longrightarrow> (\<And>e. grows P (h e)) \<Longrightarrow> grows P (catchS m h)"
  unfolding grows_def by (intro allI wp_catch) (blast intro: wp_conseq extends_trans)

lemma grows_finally [grows_intros]: "grows P m \<Longrightarrow> grows P f \<Longrightarrow> grows P (finallyS m f)"
  unfolding grows_def by (intro allI wp_finally) (blast intro: wp_conseq extends_trans)

lemma grows_basic [grows_intros]:
  "grows P (returnS x)" "grows P (raiseS e)" "grows P (liftS r)" "grows P (requireS b e)" "grows P (world m)"
  "grows P (the_dep f)" "grows P (wait_for env t turn l)"
  by (auto simp: grows_def intro!: wp_intros)

lemma grows_on [grows_intros]: "(\<And>c. dc_log (f c) = dc_log c) \<Longrightarrow> grows P (on_dep f)"
  by (auto simp: grows_def extends_def intro!: wp_intros)

lemma grows_log [grows_intros]: "P e \<Longrightarrow> grows P (log_dep e)"
  by (auto simp: grows_def extends_def intro!: wp_intros)

lemma grows_cases [grows_intros]:
  "(b \<Longrightarrow> grows P m) \<Longrightarrow> (\<not> b \<Longrightarrow> grows P n) \<Longrightarrow> grows P (if b then m else n)"
  "(q = None \<Longrightarrow> grows P m) \<Longrightarrow> (\<And>x. q = Some x \<Longrightarrow> grows P (f x)) \<Longrightarrow> grows P (case q of None \<Rightarrow> m | Some x \<Rightarrow> f x)"
  "(\<And>x. grows P (g x)) \<Longrightarrow> (\<And>x. grows P (h x)) \<Longrightarrow> grows P (case r of Inl x \<Rightarrow> g x | Inr x \<Rightarrow> h x)"
  "(\<And>a b. grows P (k a b)) \<Longrightarrow> grows P (case z of (a, b) \<Rightarrow> k a b)"
  "(b \<Longrightarrow> grows P u) \<Longrightarrow> grows P (whenS b u)"
  "(\<And>x. grows P (l x)) \<Longrightarrow> grows P (let x = v in l x)"
  "(b \<Longrightarrow> grows P m) \<Longrightarrow> (\<not> b \<Longrightarrow> grows P n) \<Longrightarrow> grows P (case b of True \<Rightarrow> m | False \<Rightarrow> n)"
  by (auto simp: whenS_def intro: grows_intros split: option.splits sum.splits prod.splits bool.splits)

lemma grows_early [grows_intros]:
  "grows P m \<Longrightarrow> (\<And>x. grows P (k x)) \<Longrightarrow> grows P (bindR m k)" "grows P m' \<Longrightarrow> grows P (goS m')" "grows P m'' \<Longrightarrow> grows P (attempt m'')"
  "grows P m3 \<Longrightarrow> grows P (stage label m3)"
  unfolding bindR_def goS_def stage_def attempt_def by (intro grows_intros; simp)+

lemma grows_each [grows_intros]: "(\<And>x. grows P (f x)) \<Longrightarrow> grows P (eachS f xs)" "(\<And>x. grows P (g x)) \<Longrightarrow> grows P (eachR g xs)"
  by (induction xs) (auto intro: grows_intros)

lemma grows_enter [grows_intros]: "P (Entered st) \<Longrightarrow> grows P (transition_with env st d data)"
  by (auto simp: grows_def extends_def intro!: wp_intros)

lemma grows_results [grows_intros]:
  "P (Entered st) \<Longrightarrow> grows P (result_with env st d v b)" "P (Entered st) \<Longrightarrow> grows P (stop env st d)"
  "P (Entered st) \<Longrightarrow> grows P (stop_with env st d b)" "P (Entered st) \<Longrightarrow> grows P (last_versions env st d b)"
  unfolding result_with_def stop_def stop_with_def last_versions_def by (intro grows_intros; simp)+

subsection \<open>Stages and the effects they may add\<close>

text \<open>
  Only the upload adds \<open>Writing\<close>, only the power cycle adds \<open>Powered\<close>; every other effect is an
  ordinary one.  \<open>ordinary_effects\<close> proves once, for any predicate that admits the ordinary effects,
  what the stages add.
\<close>

definition is_write :: "dep_effect \<Rightarrow> bool" where
  "is_write e = (case e of Writing _ _ _ \<Rightarrow> True | _ \<Rightarrow> False)"

definition is_power :: "dep_effect \<Rightarrow> bool" where
  "is_power e = (case e of Powered _ \<Rightarrow> True | _ \<Rightarrow> False)"

locale ordinary_effects =
  fixes P :: "dep_effect \<Rightarrow> bool"
  assumes ordinary: "\<not> is_write e \<Longrightarrow> \<not> is_power e \<Longrightarrow> P e"
begin

lemma admits [simp]:
  "P (Entered st)" "P (Confirmed s)" "P Absent" "P (Accepted s)" "P Moonraker_up" "P Klipper_up" "P (Registered ns)"
  "P Versions_match" "P Reviewed_again" "P (Seen n v)" "P (Uploads_match as)" "P (Bytes_restored f)"
  by (simp_all add: ordinary is_write_def is_power_def)

lemma still_waits [grows_intros]:
  "grows P (await_moonraker env)" "grows P (await_klipper env b)" "grows P (await_registration env)"
  unfolding await_moonraker_def await_klipper_def await_registration_def by (intro grows_intros; simp)+

lemma still_artifacts [grows_intros]: "grows P (the_artifacts env)"
  unfolding the_artifacts_def Let_def by (intro grows_intros)

lemma still_verify_one [grows_intros]: "grows P (verify_one env a)"
  unfolding verify_one_def by (intro grows_intros)

lemma still_verify [grows_intros]: "grows P (verify_uploads env)" "grows P (verify_rollback_bytes env sn)"
  unfolding verify_uploads_def check_uploads_def verify_rollback_bytes_def by (intro grows_intros; simp)+

lemma still_restart [grows_intros]: "grows P (restart_after_restore env sn)"
  unfolding restart_after_restore_def by (intro grows_intros; simp)

lemma still_roll_back [grows_intros]: "grows P (roll_back env)"
  unfolding roll_back_def by (intro grows_intros; simp)

lemma still_give_up [grows_intros]: "grows P (guarded_roll_back env b)" "grows P (give_up env st d)"
  unfolding guarded_roll_back_def give_up_def by (intro grows_intros; simp)+

lemma still_preparation [grows_intros]:
  "grows P (backup_stage env)" "grows P (early_arm env)" "grows P (publishable env a)"
  unfolding backup_stage_def early_arm_def publishable_def by (intro grows_intros; simp)+

lemma still_capability [grows_intros]: "grows P (capability_stage env)"
  unfolding capability_stage_def by (intro grows_intros)

lemma still_outcome [grows_intros]: "grows P (judge_outcome env b out)"
  unfolding judge_outcome_def Let_def by (intro grows_intros; simp)

lemma still_firmware [grows_intros]: "grows P (firmware_stage env)"
  unfolding firmware_stage_def by (auto split: option.splits intro!: grows_intros)

lemma still_ask [grows_intros]: "grows P (ask env what p a b)"
  unfolding ask_def by (intro grows_intros; simp)

lemma still_confirm [grows_intros]: "grows P (confirm_ambiguous env x)"
  unfolding confirm_ambiguous_def by (intro grows_intros; simp)

lemma still_monitor [grows_intros]: "grows P (late_arm env mn)" "grows P (await_present env mn)"
proof -
  have "grows P (case r of Recognised dev data \<Rightarrow> returnS (dev, data)
     | Ambiguous a \<Rightarrow> bindS (confirm_ambiguous env a) (\<lambda>yes. world (mn_resume mn yes)))" for r
    by (cases r) (auto intro: grows_intros)
  then show "grows P (late_arm env mn)" "grows P (await_present env mn)"
    unfolding late_arm_def await_present_def by (intro grows_intros; simp)+
qed

lemma still_online [grows_intros]: "grows P (check_firmware_stage env v)" "grows P (final_review env)"
  unfolding check_firmware_stage_def final_review_def Let_def by (intro grows_intros; simp)+

lemma still_online_stage [grows_intros]: "grows P (online_stage env)"
  unfolding online_stage_def by (intro grows_intros; simp)

lemma still_activation [grows_intros]: "grows P (moonraker_stage env)" "grows P (recheck_firmware env)" "grows P (closing_stage env)"
  unfolding moonraker_stage_def recheck_firmware_def closing_stage_def by (intro grows_intros; simp)+

lemma still_activation_stage [grows_intros]: "grows P (activation_stage env)"
  unfolding activation_stage_def by (intro grows_intros; simp)

lemma still_handlers [grows_intros]: "grows P (on_cancel env)" "grows P (on_error env e)" "grows P (deploy_cleanup env)"
  unfolding on_cancel_def on_error_def deploy_cleanup_def by (intro grows_intros; simp)+

lemma still_handler [grows_intros]: "grows P (deploy_handler env e)"
  unfolding deploy_handler_def by (intro grows_intros; simp)

end

text \<open>A predicate that admits the power effects too: the power cycle adds no other.\<close>

locale power_effects = ordinary_effects +
  assumes power [simp]: "P (Powered b)"
begin

lemma still_cycle [grows_intros]: "grows P (before_disconnect env)" "grows P (after_disconnect env)"
  unfolding before_disconnect_def after_disconnect_def by (intro grows_intros; simp)+

lemma still_disconnect [grows_intros]: "grows P (disconnect_stage env mn prepared)"
  unfolding disconnect_stage_def by (intro grows_intros; simp)

lemma still_power_cycle [grows_intros]: "grows P (power_cycle_stage env armed prepared)"
  unfolding power_cycle_stage_def by (intro grows_intros; simp)

end

text \<open>And one that admits the writes: the upload adds no power effect.\<close>

locale write_effects = ordinary_effects +
  assumes writing [simp]: "P (Writing n d v)"
begin

lemma still_write_one [grows_intros]: "grows P (write_one env a)"
  unfolding write_one_def Let_def by (intro grows_intros; simp)

lemma still_write_stage [grows_intros]: "grows P (write_stage env)"
  unfolding write_stage_def by (intro grows_intros; simp)

lemma still_upload [grows_intros]: "grows P (upload_stage env)"
  unfolding upload_stage_def by (intro grows_intros; simp)

end

interpretation writes: power_effects "\<lambda>e. \<not> is_write e"
  by unfold_locales (auto simp: is_write_def)

interpretation powers: write_effects "\<lambda>e. \<not> is_power e"
  by unfold_locales (auto simp: is_power_def)

abbreviation still :: "('w, 'a) dep \<Rightarrow> bool" where
  "still \<equiv> grows (\<lambda>e. \<not> is_write e)"

lemma is_write_simps [simp]: "is_write (Writing n d v)" "is_power (Powered b)" "\<not> is_write (Seen n v)"
  by (simp_all add: is_write_def is_power_def)

subsection \<open>Effects and what precedes them\<close>

text \<open>Every effect of the log satisfies \<open>J\<close> with the effects before it.\<close>

definition supported :: "(dep_effect list \<Rightarrow> dep_effect \<Rightarrow> bool) \<Rightarrow> dep_effect list \<Rightarrow> bool" where
  "supported J l = (\<forall>pre e post. l = pre @ e # post \<longrightarrow> J pre e)"

fun supported_from :: "(dep_effect list \<Rightarrow> dep_effect \<Rightarrow> bool) \<Rightarrow> dep_effect list \<Rightarrow> dep_effect list \<Rightarrow> bool" where
  "supported_from J l [] = True"
| "supported_from J l (e # es) = (J l e \<and> supported_from J (l @ [e]) es)"

lemma supported_Nil [simp]: "supported J []"
  by (simp add: supported_def)

lemma supported_snoc: "supported J (l @ [e]) \<longleftrightarrow> supported J l \<and> J l e"
proof
  assume *: "supported J (l @ [e])"
  have "J pre e'" if "l = pre @ e' # post" for pre e' post
    using * that unfolding supported_def by (metis append.assoc append_Cons)
  moreover have "J l e" using * unfolding supported_def by blast
  ultimately show "supported J l \<and> J l e" unfolding supported_def by blast
next
  assume *: "supported J l \<and> J l e"
  have "J pre e'" if "l @ [e] = pre @ e' # post" for pre e' post
    using * that by (cases post rule: rev_cases) (auto simp: supported_def)
  then show "supported J (l @ [e])" unfolding supported_def by blast
qed

lemma supported_append [simp]: "supported J (l @ es) \<longleftrightarrow> supported J l \<and> supported_from J l es"
proof (induction es arbitrary: l)
  case (Cons e es)
  from Cons.IH [of "l @ [e]"] show ?case by (simp add: supported_snoc)
qed simp

lemma supported_from_all: "list_all P es \<Longrightarrow> (\<And>l e. P e \<Longrightarrow> J l e) \<Longrightarrow> supported_from J l es"
  by (induction es arbitrary: l) auto

lemma supported_extends: "extends P c c' \<Longrightarrow> (\<And>l e. P e \<Longrightarrow> J l e) \<Longrightarrow> supported J (dc_log c) \<Longrightarrow> supported J (dc_log c')"
  by (auto simp: extends_def supported_from_all)

text \<open>An action that keeps the log supported, and a run of such actions.\<close>

lemma grows_supported:
  "grows P m \<Longrightarrow> (\<And>l e. P e \<Longrightarrow> J l e) \<Longrightarrow> supported J (dc_log c) \<Longrightarrow> (\<And>x c'. supported J (dc_log c') \<Longrightarrow> Q x c') \<Longrightarrow>
   (\<And>e c'. supported J (dc_log c') \<Longrightarrow> E e c') \<Longrightarrow> wp snd m Q E c"
  by (erule grows_wp) (blast intro: supported_extends)+

end
