(* ===== verification/Deployer_Properties.thy ===== *)
theory Deployer_Properties
  imports Deployer_Safety
begin

text \<open>
  What a deployment promises: when configuration is written, when the printer is powered, what a
  successful result and a successful rollback have observed, and what its events say.
\<close>

subsection \<open>What the stages before the configuration establish\<close>

definition target_names :: "'w dep_env \<Rightarrow> string set" where
  "target_names env = set (map mt_name (mf_targets (de_manifest env)))"

definition board_back :: "'w dep_env \<Rightarrow> dep_effect list \<Rightarrow> bool" where
  "board_back env l = (de_monitor env \<noteq> None \<longrightarrow> Absent \<in> set l \<and> (\<exists>dev. Accepted dev \<in> set l))"

definition printer_up :: "'w dep_env \<Rightarrow> dep_effect list \<Rightarrow> bool" where
  "printer_up env l = (Moonraker_up \<in> set l \<and> Klipper_up \<in> set l \<and> (\<exists>ns. Registered ns \<in> set l \<and> target_names env \<subseteq> set ns)
     \<and> (de_verify_firmware env \<longrightarrow> Versions_match \<in> set l))"

lemma facts_extend:
  "extends P c c' \<Longrightarrow> board_back env (dc_log c) \<Longrightarrow> board_back env (dc_log c')"
  "extends P c c' \<Longrightarrow> printer_up env (dc_log c) \<Longrightarrow> printer_up env (dc_log c')"
  "extends P c c' \<Longrightarrow> e \<in> set (dc_log c) \<Longrightarrow> e \<in> set (dc_log c')"
  by (auto simp: board_back_def printer_up_def dest!: extends_set)

lemma wp_grows:
  "grows P m \<Longrightarrow> wp snd m Q E c \<Longrightarrow> wp snd m (\<lambda>x c'. Q x c' \<and> extends P c c') (\<lambda>e c'. E e c' \<and> extends P c c') c"
  unfolding grows_def by (rule wp_conj) auto

text \<open>A wait returns what its last turn returned.\<close>

lemma wp_wait_yields:
  assumes "\<And>deadline l. yields (turn deadline l) (\<lambda>r. \<forall>x. r = Inr x \<longrightarrow> R x)"
    and "\<And>x. R x \<Longrightarrow> Q x c" and "\<And>e. E e c"
  shows "wp snd (wait_for env t turn l) Q E c"
proof -
  let ?m = "bindS (de_monotonic env) (\<lambda>now. poll (de_fuel env) (turn (now + t)) l)"
  have y: "yields ?m (\<lambda>r. \<forall>x. r = Some x \<longrightarrow> R x)"
    by (intro yields_bind yields_poll assms(1))
  have "wp snd (world ?m) (\<lambda>r c'. (\<forall>x. r = Some x \<longrightarrow> R x) \<and> c' = c) (\<lambda>e c'. c' = c) c"
    using y by (auto simp: wp_def world_def yields_def split: prod.splits sum.splits)
  then have "wp snd (world ?m) (\<lambda>r. wp snd (case r of Some x \<Rightarrow> returnS x | None \<Rightarrow> raiseS (Tx Still_running [])) Q E) E c"
    by (rule wp_conseq) (auto intro!: wp_return wp_raise assms(2,3) split: option.splits)
  then show ?thesis unfolding wait_for_def by (rule wp_bind)
qed

lemma yields_wait_turn:
  "yields body (\<lambda>r. \<forall>x. r = Inr x \<longrightarrow> R x) \<Longrightarrow> R expired \<Longrightarrow> yields (wait_turn env deadline expired body) (\<lambda>r. \<forall>x. r = Inr x \<longrightarrow> R x)"
  unfolding wait_turn_def by (intro yields_intros) auto

lemma wp_await_registration:
  assumes "\<And>v. target_names env \<subseteq> set (dict_keys v) \<Longrightarrow> Q (Some v) (c\<lparr>dc_log := dc_log c @ [Registered (dict_keys v)]\<rparr>)"
    and "Q None c" and "\<And>e. E e c"
  shows "wp snd (await_registration env) Q E c"
proof -
  have "yields (registration_turn env deadline i) (\<lambda>r. \<forall>x. r = Inr x \<longrightarrow> (\<forall>v. x = Some v \<longrightarrow> target_names env \<subseteq> set (dict_keys v)))"
    for deadline i
    unfolding registration_turn_def target_names_def
    by (rule yields_wait_turn, intro yields_intros) simp_all
  note y = this
  show ?thesis
    unfolding await_registration_def
    by (rule wp_bind, rule wp_wait_yields, rule y) (auto intro!: wp_intros assms split: option.splits)
qed

text \<open>Where the action goes on, \<open>F\<close> holds of the log.\<close>

definition reaches :: "('w, 'r + 'a) dep \<Rightarrow> (dep_effect list \<Rightarrow> bool) \<Rightarrow> dep_core \<Rightarrow> bool" where
  "reaches m F c = wp snd m (\<lambda>r c'. \<forall>u. r = Inr u \<longrightarrow> F (dc_log c')) (\<lambda>_ _. True) c"

named_theorems reaches_intros \<open>what holds where an action goes on\<close>

lemma reaches_bind:
  "grows P m \<Longrightarrow> (\<And>x c'. extends P c c' \<Longrightarrow> reaches (k x) F c') \<Longrightarrow> reaches (bindS m k) F c"
  unfolding reaches_def by (rule wp_bind, erule grows_wp) auto

lemma reaches_bindR:
  "grows P m \<Longrightarrow> (\<And>x c'. extends P c c' \<Longrightarrow> reaches (k x) F c') \<Longrightarrow> reaches (bindR m k) F c"
  unfolding reaches_def by (rule wp_bindR, erule grows_wp) (auto split: sum.splits)

text \<open>The same when the first action writes nothing.\<close>

lemmas still_then = reaches_bind [where P = "\<lambda>e. \<not> is_write e"] reaches_bindR [where P = "\<lambda>e. \<not> is_write e"]

lemma reaches_log [reaches_intros]: "reaches (k ()) F (c\<lparr>dc_log := dc_log c @ [e]\<rparr>) \<Longrightarrow> reaches (bindS (log_dep e) k) F c"
  unfolding reaches_def by (intro wp_intros)

lemma reaches_ends [reaches_intros]:
  "reaches (stop env st d) F c" "reaches (stop_with env st d b) F c" "F (dc_log c) \<Longrightarrow> reaches (returnS r) F c"
  unfolding reaches_def by (intro wp_intros; simp)+

lemma reaches_cases [reaches_intros]:
  "(b \<Longrightarrow> reaches m F c) \<Longrightarrow> (\<not> b \<Longrightarrow> reaches n F c) \<Longrightarrow> reaches (if b then m else n) F c"
  "(q = None \<Longrightarrow> reaches m F c) \<Longrightarrow> (\<And>x. q = Some x \<Longrightarrow> reaches (f x) F c) \<Longrightarrow> reaches (case q of None \<Rightarrow> m | Some x \<Rightarrow> f x) F c"
  "(\<And>x. r = Inl x \<Longrightarrow> reaches (g x) F c) \<Longrightarrow> (\<And>x. r = Inr x \<Longrightarrow> reaches (h x) F c) \<Longrightarrow> reaches (case r of Inl x \<Rightarrow> g x | Inr x \<Rightarrow> h x) F c"
  "(\<And>a b. z = (a, b) \<Longrightarrow> reaches (k a b) F c) \<Longrightarrow> reaches (case z of (a, b) \<Rightarrow> k a b) F c"
  by (auto split: option.splits sum.splits prod.splits)

lemma reaches_go: "wp snd m (\<lambda>_ c'. F (dc_log c')) (\<lambda>_ _. True) c \<Longrightarrow> reaches (goS m) F c"
  unfolding reaches_def by (intro wp_goS) (auto elim: wp_conseq)

lemma await_present_accepts:
  "wp snd (await_present env mn) (\<lambda>_ c'. \<exists>dev. Accepted dev \<in> set (dc_log c')) (\<lambda>_ _. True) c"
  unfolding await_present_def
proof (intro wp_bind [where m = "enter _ _ _"] wp_transition wp_bind [where m = "world _"] wp_world)
  fix r and c1 :: dep_core
  have "still (case r of Recognised dev data \<Rightarrow> returnS (dev, data)
     | Ambiguous a \<Rightarrow> bindS (confirm_ambiguous env a) (\<lambda>yes. world (mn_resume mn yes)))"
    by (cases r) (auto intro: grows_intros)
  then show "wp snd (bindS (case r of Recognised dev data \<Rightarrow> returnS (dev, data)
     | Ambiguous a \<Rightarrow> bindS (confirm_ambiguous env a) (\<lambda>yes. world (mn_resume mn yes))) (\<lambda>(dev, data).
     bindS (log_dep (Accepted dev)) (\<lambda>_.
     bindS (world (mn_assessment mn)) (\<lambda>assessment. bindS (world (mn_manual mn)) (\<lambda>manual.
     transition_with env MCU_PRESENT ''physical MCU identity accepted''
       [(KStr ''device'', PStr dev), (KStr ''identity'', data), (KStr ''identity_assessment'', assessment),
        (KStr ''manually_confirmed'', PBool manual)])))))
     (\<lambda>_ c'. \<exists>dev. Accepted dev \<in> set (dc_log c')) (\<lambda>_ _. True) (entered AWAITING_REENUMERATION c)"
    by (intro wp_bind [where k = "case_prod _"], elim grows_wp) (auto intro!: wp_intros)
qed simp_all

lemma power_cycle_board_back: "reaches (power_cycle_stage env armed prepared) (board_back env) c"
proof (cases "de_monitor env")
  case None
  then show ?thesis by (auto simp: power_cycle_stage_def board_back_def intro!: reaches_intros)
next
  case (Some mn)
  have last: "reaches (goS (await_present env mn)) (board_back env) c1" if "Absent \<in> set (dc_log c1)" for c1 :: dep_core
    by (rule reaches_go, rule wp_conseq [OF wp_grows [OF writes.still_monitor(2) await_present_accepts]])
      (use that in \<open>auto simp: board_back_def dest: facts_extend(3)\<close>)
  show ?thesis
    unfolding power_cycle_stage_def disconnect_stage_def Some option.case
    by (rule still_then, (intro grows_intros)[1], rule still_then, (intro grows_intros)[1],
        rule still_then, (intro grows_intros; simp)[1], rule still_then, (intro grows_intros; simp)[1],
        rule reaches_log, rule still_then, (intro grows_intros; simp)[1], rule still_then, (intro grows_intros)[1],
        rule last) (auto dest: facts_extend(3))
qed


lemma firmware_checked:
  assumes "Moonraker_up \<in> set (dc_log c)" "Klipper_up \<in> set (dc_log c)"
    and "Registered ns \<in> set (dc_log c)" "target_names env \<subseteq> set ns"
  shows "reaches (check_firmware_stage env v) (printer_up env) c"
  using assms unfolding check_firmware_stage_def Let_def reaches_def printer_up_def
  by (intro wp_intros) (auto simp: whenS_def intro!: wp_intros)

lemma online_printer_up: "reaches (online_stage env) (printer_up env) c"
  unfolding online_stage_def reaches_def
  by (intro wp_intros wp_await_registration firmware_checked [unfolded reaches_def]) auto

subsection \<open>When configuration is written\<close>

definition write_backed :: "'w dep_env \<Rightarrow> dep_effect list \<Rightarrow> string \<Rightarrow> bytes option \<Rightarrow> bool" where
  "write_backed env pre n v = (pre \<noteq> [] \<and> last pre = Seen n v \<and> Entered APPLYING_CONFIG \<in> set pre \<and> Reviewed_again \<in> set pre
     \<and> board_back env pre \<and> printer_up env pre)"

definition write_case :: "'w dep_env \<Rightarrow> dep_effect list \<Rightarrow> dep_effect \<Rightarrow> bool" where
  "write_case env pre e = (case e of Writing n d v \<Rightarrow> write_backed env pre n v | _ \<Rightarrow> True)"

lemma write_case_other: "\<not> is_write e \<Longrightarrow> write_case env pre e"
  by (simp add: write_case_def is_write_def split: dep_effect.splits)

lemma write_case_simps [simp]: "write_case env pre (Writing n d v) \<longleftrightarrow> write_backed env pre n v" "write_case env pre (Entered st)"
    "write_case env pre (Seen n' v')" "write_case env pre Reviewed_again"
  by (simp_all add: write_case_def)

abbreviation backed :: "'w dep_env \<Rightarrow> dep_core \<Rightarrow> bool" where
  "backed env c \<equiv> supported (write_case env) (dc_log c)"

lemma still_backed: "still m \<Longrightarrow> backed env c \<Longrightarrow> (\<And>x c'. backed env c' \<Longrightarrow> Q x c') \<Longrightarrow> (\<And>e c'. backed env c' \<Longrightarrow> E e c') \<Longrightarrow> wp snd m Q E c"
  by (erule grows_supported) (auto intro: write_case_other)

lemma backed_extends: "extends (\<lambda>e. \<not> is_write e) c c' \<Longrightarrow> backed env c \<Longrightarrow> backed env c'"
  by (erule supported_extends) (auto intro: write_case_other)

definition cleared :: "'w dep_env \<Rightarrow> dep_effect list \<Rightarrow> bool" where
  "cleared env l = (Entered APPLYING_CONFIG \<in> set l \<and> Reviewed_again \<in> set l \<and> board_back env l \<and> printer_up env l)"

lemma cleared_append: "cleared env l \<Longrightarrow> cleared env (l @ es)"
  by (auto simp: cleared_def board_back_def printer_up_def)

lemma write_one_backed:
  assumes "backed env c" and "cleared env (dc_log c)"
  shows "wp snd (write_one env a) (\<lambda>_ c'. backed env c' \<and> cleared env (dc_log c')) (\<lambda>_. backed env) c"
proof -
  have "write_backed env (dc_log c @ [Seen n v]) n v" for n v
    using assms(2) cleared_append [OF assms(2), of "[Seen n v]"] by (simp add: write_backed_def cleared_def)
  then show ?thesis
    unfolding write_one_def Let_def by (intro wp_intros) (use assms in \<open>auto simp: cleared_append\<close>)
qed

lemma write_stage_backed:
  assumes b: "backed env c" and k: "cleared env (dc_log c)"
  shows "wp snd (write_stage env) (\<lambda>_. backed env) (\<lambda>_. backed env) c"
proof -
  have as: "wp snd (the_artifacts env) (\<lambda>_ c'. backed env c' \<and> cleared env (dc_log c')) (\<lambda>_. backed env) c"
    by (rule grows_wp [OF writes.still_artifacts]) (use b k in \<open>auto simp: extends_def supported_from_all write_case_other cleared_append\<close>)
  have writes: "wp snd (eachS (write_one env) as) (\<lambda>_. backed env) (\<lambda>_. backed env) c1"
    if "backed env c1 \<and> cleared env (dc_log c1)" for as c1
    using that by (intro wp_each [where I = "\<lambda>c. backed env c \<and> cleared env (dc_log c)"]) (auto intro: write_one_backed)
  show ?thesis unfolding write_stage_def
    by (rule wp_bind, rule wp_conseq [OF as], rule wp_bind, erule wp_conseq [OF writes])
      (auto intro!: still_backed grows_intros)
qed

lemma upload_stage_backed:
  assumes "backed env c" and "board_back env (dc_log c)" and "printer_up env (dc_log c)"
  shows "wp snd (upload_stage env) (\<lambda>_. backed env) (\<lambda>_. backed env) c"
proof -
  have "cleared env (dc_log c @ [Entered APPLYING_CONFIG, Reviewed_again])"
    using assms(2,3) by (auto simp: cleared_def board_back_def printer_up_def)
  then have "wp snd (final_review env) (\<lambda>r c'. \<forall>u. r = Inr u \<longrightarrow> cleared env (dc_log c')) (\<lambda>_ _. True) (entered APPLYING_CONFIG c)"
    unfolding final_review_def by (intro wp_intros) (auto intro!: wp_intros)
  from wp_grows [OF writes.still_online(2) this]
  have review: "wp snd (final_review env) (\<lambda>r c'. backed env c' \<and> (\<forall>u. r = Inr u \<longrightarrow> cleared env (dc_log c'))) (\<lambda>_. backed env)
      (entered APPLYING_CONFIG c)"
    by (rule wp_conseq) (use assms(1) in \<open>auto elim!: backed_extends\<close>)
  show ?thesis unfolding upload_stage_def
    by (intro wp_bind wp_transition wp_bindR, rule wp_conseq [OF review])
      (use assms(1) in \<open>auto intro: write_stage_backed split: sum.splits\<close>)
qed

text \<open>Stages one after the other, each adding only effects that need no support.\<close>

lemma then_supported:
  assumes "grows P m" and other: "\<And>l e. P e \<Longrightarrow> J l e" and "supported J (dc_log c)"
    and "\<And>a c'. supported J (dc_log c') \<Longrightarrow> extends P c c' \<Longrightarrow> wp snd (k a) (\<lambda>_ c. supported J (dc_log c)) (\<lambda>_ c. supported J (dc_log c)) c'"
  shows "wp snd (bindR m k) (\<lambda>_ c. supported J (dc_log c)) (\<lambda>_ c. supported J (dc_log c)) c"
proof -
  have "supported J (dc_log c')" if "extends P c c'" for c'
    using that other assms(3) by (rule supported_extends)
  with assms(4) show ?thesis
    by (intro wp_bindR grows_wp [OF assms(1)]) (auto split: sum.splits)
qed

lemma then_reaches:
  assumes "grows P m" and "reaches m F c" and other: "\<And>l e. P e \<Longrightarrow> J l e" and "supported J (dc_log c)"
    and "\<And>a c'. supported J (dc_log c') \<Longrightarrow> extends P c c' \<Longrightarrow> F (dc_log c') \<Longrightarrow>
      wp snd (k a) (\<lambda>_ c. supported J (dc_log c)) (\<lambda>_ c. supported J (dc_log c)) c'"
  shows "wp snd (bindR m k) (\<lambda>_ c. supported J (dc_log c)) (\<lambda>_ c. supported J (dc_log c)) c"
proof -
  have "supported J (dc_log c')" if "extends P c c'" for c'
    using that other assms(4) by (rule supported_extends)
  with assms(5) show ?thesis
    by (intro wp_bindR, intro wp_conseq [OF wp_grows [OF assms(1) assms(2) [unfolded reaches_def]]])
      (auto split: sum.splits)
qed

lemma run_supported:
  assumes body: "wp snd (deploy_body env) (\<lambda>_ c. supported J (dc_log c)) (\<lambda>_ c. supported J (dc_log c)) (new_deployment sn)"
    and ends: "\<And>e. grows P (deploy_handler env e)" "grows P (deploy_cleanup env)" and other: "\<And>l e. P e \<Longrightarrow> J l e"
    and run: "run_deployment env (w, new_deployment sn) = (r, (w', c))"
  shows "supported J (dc_log c)"
proof -
  have "wp snd (run_deployment env) (\<lambda>_ c. supported J (dc_log c)) (\<lambda>_ c. supported J (dc_log c)) (snd (w, new_deployment sn))"
    unfolding run_deployment_def snd_conv
    by (intro wp_finally wp_catch, rule wp_conseq [OF body])
      (auto intro!: grows_supported [OF ends(1) other] grows_supported [OF ends(2) other])
  from wpD [OF this] wpE [OF this] run show ?thesis by (cases r) auto
qed

lemma deploy_body_backed: "wp snd (deploy_body env) (\<lambda>_. backed env) (\<lambda>_. backed env) (new_deployment sn)"
proof -
  note step = then_supported [OF _ write_case_other] and reach = then_reaches [OF _ _ write_case_other]
  have tail: "wp snd (bindR (upload_stage env) (\<lambda>_. bindR (moonraker_stage env) (\<lambda>_. bindR (activation_stage env) (\<lambda>_.
      closing_stage env)))) (\<lambda>_. backed env) (\<lambda>_. backed env) c1"
    if "backed env c1" "board_back env (dc_log c1)" "printer_up env (dc_log c1)" for c1
    by (intro wp_bindR, rule wp_conseq [OF upload_stage_backed [OF that]])
      (auto split: sum.splits intro!: still_backed grows_intros)
  show ?thesis unfolding deploy_body_def
    by (rule wp_bind, rule wp_conseq, rule step, rule writes.still_preparation, assumption, simp add: new_deployment_def,
        rule step, rule writes.still_capability, assumption, assumption,
        rule step, rule writes.still_preparation, assumption, assumption, rule step, rule writes.still_firmware, assumption,
        assumption, rule reach, rule writes.still_power_cycle, rule power_cycle_board_back, assumption, assumption,
        rule reach, rule writes.still_online_stage, rule online_printer_up, assumption, assumption, rule tail)
      (auto dest: facts_extend(1) intro: wp_return)
qed

subsection \<open>When the relay is switched\<close>

definition power_case :: "'w dep_env \<Rightarrow> dep_effect list \<Rightarrow> dep_effect \<Rightarrow> bool" where
  "power_case env pre e = (case e of
     Powered on \<Rightarrow>
       if on then Absent \<in> set pre \<and> Confirmed ''media'' \<in> set pre \<and> (de_power_off env \<noteq> None \<longrightarrow> Powered False \<in> set pre)
       else Confirmed ''power off'' \<in> set pre
   | _ \<Rightarrow> True)"

lemma power_case_other: "\<not> is_power e \<Longrightarrow> power_case env pre e"
  by (simp add: power_case_def is_power_def split: dep_effect.splits)

abbreviation powered_well :: "'w dep_env \<Rightarrow> dep_core \<Rightarrow> bool" where
  "powered_well env c \<equiv> supported (power_case env) (dc_log c)"

definition released :: "'w dep_env \<Rightarrow> dep_effect list \<Rightarrow> bool" where
  "released env l = (case de_power_off env of None \<Rightarrow> Confirmed ''media'' \<in> set l | Some _ \<Rightarrow> Powered False \<in> set l)"

lemma power_case_simps [simp]:
  "power_case env pre (Entered st)" "power_case env pre (Confirmed x)" "power_case env pre Absent"
  "power_case env pre (Powered False) \<longleftrightarrow> Confirmed ''power off'' \<in> set pre"
  "power_case env pre (Powered True) \<longleftrightarrow>
     Absent \<in> set pre \<and> Confirmed ''media'' \<in> set pre \<and> (de_power_off env \<noteq> None \<longrightarrow> Powered False \<in> set pre)"
  by (simp_all add: power_case_def)

lemma wp_ask [wp_intros]:
  "Q (Inr ()) (c\<lparr>dc_log := dc_log c @ [Confirmed what]\<rparr>) \<Longrightarrow> (\<And>r st. Q (Inl r) (entered st c)) \<Longrightarrow> (\<And>e. E e c) \<Longrightarrow>
   (\<And>st e. E e (entered st c)) \<Longrightarrow> wp snd (ask env what p a b) Q E c"
  unfolding ask_def by (intro wp_intros) auto

lemma before_disconnect_powered:
  assumes "powered_well env c"
  shows "wp snd (before_disconnect env) (\<lambda>r c'. powered_well env c' \<and> (\<forall>u. r = Inr u \<longrightarrow> released env (dc_log c')))
     (\<lambda>_. powered_well env) c"
  unfolding before_disconnect_def by (intro wp_intros) (use assms in \<open>auto simp: released_def intro!: wp_intros\<close>)

lemma after_disconnect_powered:
  assumes "powered_well env c" and "released env (dc_log c)" and "Absent \<in> set (dc_log c)"
  shows "wp snd (after_disconnect env) (\<lambda>_. powered_well env) (\<lambda>_. powered_well env) c"
  unfolding after_disconnect_def
  by (intro wp_intros) (use assms in \<open>auto simp: released_def intro!: wp_intros split: option.splits\<close>)

lemma disconnect_powered:
  assumes "powered_well env c" and "prepared \<longrightarrow> released env (dc_log c)"
  shows "wp snd (disconnect_stage env mn prepared) (\<lambda>_. powered_well env) (\<lambda>_. powered_well env) c"
proof -
  have present: "wp snd (goS (await_present env mn)) (\<lambda>_. powered_well env) (\<lambda>_. powered_well env) c1"
    if "powered_well env c1" for c1
    by (rule grows_supported [OF _ power_case_other that]) (auto intro: grows_intros)
  have r: "released env (dc_log c1 @ l)" if "released env (dc_log c1)" for c1 l
    using that by (auto simp: released_def split: option.splits)
  show ?thesis unfolding disconnect_stage_def
    by (intro wp_intros)
      (use assms r in \<open>auto intro!: present wp_return wp_conseq [OF after_disconnect_powered] split: sum.splits\<close>)
qed

lemma power_cycle_powered:
  assumes "powered_well env c"
  shows "wp snd (power_cycle_stage env armed prepared) (\<lambda>_. powered_well env) (\<lambda>_. powered_well env) c"
proof (cases "de_monitor env")
  case None
  with assms show ?thesis unfolding power_cycle_stage_def by (auto intro!: wp_intros)
next
  case (Some mn)
  have arm: "wp snd (whenS b (late_arm env mn)) (\<lambda>_. powered_well env) (\<lambda>_. powered_well env) c" for b
    by (rule grows_supported [OF _ power_case_other assms]) (auto intro: grows_intros)
  have cycle: "wp snd (if prepared then before_disconnect env else returnS (Inr ()))
      (\<lambda>r c'. powered_well env c' \<and> (\<forall>u. r = Inr u \<longrightarrow> prepared \<longrightarrow> released env (dc_log c'))) (\<lambda>_. powered_well env) c1"
    if "powered_well env c1" for c1
    using that by (auto intro!: wp_return wp_conseq [OF before_disconnect_powered])
  show ?thesis unfolding power_cycle_stage_def Some option.case
    by (rule wp_bind, rule wp_conseq [OF arm], rule wp_bindR, erule wp_conseq [OF cycle])
      (auto split: sum.splits intro: disconnect_powered)
qed

lemma deploy_body_powered:
  fixes env :: "'w dep_env"
  shows "wp snd (deploy_body env) (\<lambda>_. powered_well env) (\<lambda>_. powered_well env) (new_deployment sn)"
proof -
  note step = then_supported [OF _ power_case_other]
  have tail: "wp snd (bindR (power_cycle_stage env armed prepared) k) (\<lambda>_. powered_well env) (\<lambda>_. powered_well env) c1"
    if "powered_well env c1" "\<And>x. grows (\<lambda>e. \<not> is_power e) (k x)" for armed prepared c1
      and k :: "unit \<Rightarrow> ('w, deploy_result + deploy_result) dep"
    by (intro wp_bindR, rule wp_conseq [OF power_cycle_powered [OF that(1)]])
      (auto split: sum.splits intro!: grows_supported [OF that(2) power_case_other])
  show ?thesis unfolding deploy_body_def
    by (rule wp_bind, rule wp_conseq, rule step, rule powers.still_preparation, assumption, simp add: new_deployment_def,
        rule step, rule powers.still_capability, assumption, assumption,
        rule step, rule powers.still_preparation, assumption, assumption, rule step, rule powers.still_firmware, assumption,
        assumption, rule tail, assumption)
      (auto intro!: wp_return grows_intros)
qed

end
