(* ===== verification/Deployer_Results.thy ===== *)
theory Deployer_Results
  imports Deployer_Properties
begin

text \<open>
  What the result of a deployment says of the printer: \<open>ends_in R m\<close> states that every result an action
  returns early satisfies \<open>R\<close> with the state it leaves.
\<close>

subsection \<open>Checks leave the deployment alone\<close>

lemma silent_dep [silent_intros]: "silent snd (world m)" "silent snd (the_dep f)"
  by (simp_all add: silent_def world_def the_dep_def getS_def split: prod.splits)

lemma silent_bool [silent_intros]:
  "silent core m \<Longrightarrow> silent core n \<Longrightarrow> silent core (case b of True \<Rightarrow> m | False \<Rightarrow> n)"
  by (simp split: bool.splits)

lemma silent_bindR [silent_intros]: "silent core m \<Longrightarrow> (\<And>x. silent core (k x)) \<Longrightarrow> silent core (bindR m k)"
  unfolding bindR_def by (intro silent_intros)

lemma silent_early [silent_intros]:
  "silent core m \<Longrightarrow> silent core (goS m)" "silent core m \<Longrightarrow> silent core (attempt m)"
  unfolding goS_def attempt_def by (intro silent_intros; simp)+

lemma silent_eachR [silent_intros]: "(\<And>x. silent core (f x)) \<Longrightarrow> silent core (eachR f xs)"
  by (induction xs) (auto intro: silent_intros)

lemma silent_checks [silent_intros]: "silent snd (the_artifacts env)" "silent snd (verify_one env a)"
  unfolding the_artifacts_def verify_one_def Let_def by (intro silent_intros)+

lemma wp_yields: "yields m R \<Longrightarrow> wp core m (\<lambda>x _. R x) (\<lambda>_ _. True) c"
  by (auto simp: wp_def yields_def split: prod.splits sum.splits)

lemma yields_bindR:
  assumes "yields m (\<lambda>r. \<forall>x. r = Inl x \<longrightarrow> R x)" and "\<And>a. yields (k a) (\<lambda>r. \<forall>x. r = Inl x \<longrightarrow> R x)"
  shows "yields (bindR m k) (\<lambda>r. \<forall>x. r = Inl x \<longrightarrow> R x)"
proof (rule yieldsI)
  fix s r s' assume "bindR m k s = (Inr r, s')"
  then obtain y s1 where m: "m s = (Inr y, s1)" and k: "(case y of Inl x \<Rightarrow> returnS (Inl x) | Inr a \<Rightarrow> k a) s1 = (Inr r, s')"
    unfolding bindR_def bindS_eq by blast
  show "\<forall>x. r = Inl x \<longrightarrow> R x"
    using k yieldsD [OF assms(1) m] yieldsD [OF assms(2)] by (cases y) (auto simp: returnS_eq)
qed

lemma wp_verify_uploads [wp_intros]:
  assumes "\<And>as. Q (True, []) (c\<lparr>dc_log := dc_log c @ [Uploads_match as]\<rparr>)" and "\<And>d. Q (False, d) c" and "\<And>e. E e c"
  shows "wp snd (verify_uploads env) Q E c"
proof -
  have fails: "yields (verify_one env a) (\<lambda>r. \<forall>x. r = Inl x \<longrightarrow> \<not> fst x)" for a
    unfolding verify_one_def by (intro yields_intros) (auto intro!: yields_intros split: bool.splits option.splits if_splits)
  have each: "yields (eachR (verify_one env) as) (\<lambda>r. \<forall>x. r = Inl x \<longrightarrow> \<not> fst x)" for as
  proof (induction as)
    case (Cons a as)
    then show ?case unfolding eachR.simps by (intro yields_bindR fails)
  qed (simp add: yields_return)
  have checked: "wp snd (eachR (verify_one env) as) (\<lambda>r c'. c' = c \<and> (\<forall>x. r = Inl x \<longrightarrow> \<not> fst x)) (\<lambda>_ c'. c' = c) c" for as
    by (rule wp_conseq [OF wp_conj [OF wp_yields [OF each] wp_silent [OF silent_eachR [OF silent_checks(2)]],
        where Q' = "\<lambda>_ c'. c' = c" and E' = "\<lambda>_ c'. c' = c"]]) simp_all
  have k: "wp snd (case r of Inl x \<Rightarrow> returnS x | Inr _ \<Rightarrow> bindS (log_dep (Uploads_match l)) (\<lambda>_. returnS (True, []))) Q E c"
    if "\<forall>x. r = Inl x \<longrightarrow> \<not> fst x" for r :: "(bool \<times> string) + unit" and l
  proof (cases r)
    case (Inl x)
    with that obtain d where "x = (False, d)" by (cases x) auto
    with Inl assms(2) show ?thesis by (simp add: wp_return)
  next
    case (Inr u)
    then show ?thesis using assms(1) by (simp add: wp_intros)
  qed
  have rest: "wp snd (check_uploads env) Q E c" unfolding check_uploads_def
    by (rule wp_bind, rule wp_silent [OF silent_checks(1)], rule wp_bind, rule wp_conseq [OF checked])
      (simp_all add: k assms(3))
  show ?thesis unfolding verify_uploads_def
    by (intro wp_intros rest) (use assms in \<open>auto intro!: rest wp_return\<close>)
qed

subsection \<open>Early results\<close>

definition ends_in :: "('r \<Rightarrow> dep_core \<Rightarrow> bool) \<Rightarrow> ('w, 'r + 'a) dep \<Rightarrow> bool" where
  "ends_in R m = (\<forall>c. wp snd m (\<lambda>r c'. \<forall>x. r = Inl x \<longrightarrow> R x c') (\<lambda>_ _. True) c)"

named_theorems ends_intros \<open>early results, by the structure of the action\<close>

lemma wp_always: "wp core m (\<lambda>_ _. True) (\<lambda>_ _. True) c"
  by (simp add: wp_def split: prod.splits sum.splits)

lemma ends_bind [ends_intros]: "(\<And>x. ends_in R (k x)) \<Longrightarrow> ends_in R (bindS m k)"
  unfolding ends_in_def by (intro allI wp_bind, rule wp_conseq [OF wp_always]) auto

lemma ends_bindR [ends_intros]: "ends_in R m \<Longrightarrow> (\<And>x. ends_in R (k x)) \<Longrightarrow> ends_in R (bindR m k)"
  unfolding ends_in_def
  by (intro allI wp_bindR, erule allE, erule wp_conseq) (auto split: sum.splits)

lemma ends_basic [ends_intros]: "ends_in R (returnS (Inr x))" "ends_in R (raiseS e)" "ends_in R (goS m)"
  by (auto simp: ends_in_def intro!: wp_return wp_raise wp_goS wp_conseq [OF wp_always])

lemma ends_cases [ends_intros]:
  "(b \<Longrightarrow> ends_in R m) \<Longrightarrow> (\<not> b \<Longrightarrow> ends_in R n) \<Longrightarrow> ends_in R (if b then m else n)"
  "(q = None \<Longrightarrow> ends_in R m) \<Longrightarrow> (\<And>x. q = Some x \<Longrightarrow> ends_in R (f x)) \<Longrightarrow> ends_in R (case q of None \<Rightarrow> m | Some x \<Rightarrow> f x)"
  "(\<And>x. ends_in R (g x)) \<Longrightarrow> (\<And>x. ends_in R (h x)) \<Longrightarrow> ends_in R (case r of Inl x \<Rightarrow> g x | Inr x \<Rightarrow> h x)"
  "(\<And>a b. ends_in R (k a b)) \<Longrightarrow> ends_in R (case z of (a, b) \<Rightarrow> k a b)"
  by (auto split: option.splits sum.splits prod.splits)

lemma ends_each [ends_intros]: "(\<And>x. ends_in R (f x)) \<Longrightarrow> ends_in R (eachR f xs)"
  by (induction xs) (auto intro: ends_intros)

text \<open>A successful rollback read back every file the run had written, after Klipper was up again.\<close>

definition restored_bytes :: "dep_core \<Rightarrow> file_state \<Rightarrow> bool" where
  "restored_bytes c current = (\<exists>sn. dc_snapshot c = Some sn \<and>
     (\<forall>n \<in> set (dict_keys (dc_attempted c)). \<exists>v. dict_get current n = Some v \<and> original_of sn n = Some v))"

definition rolled_back :: "dep_core \<Rightarrow> bool" where
  "rolled_back c = (\<exists>pre current. dc_log c = pre @ [Moonraker_up, Klipper_up, Bytes_restored current] \<and> restored_bytes c current)"

definition result_agrees :: "deploy_result \<Rightarrow> dep_core \<Rightarrow> bool" where
  "result_agrees r c = (dc_state c = dr_state r \<and> dr_snapshot r = dc_snapshot c \<and>
     (\<exists>pre. dc_log c = pre @ [Entered (dr_state r)] \<and> (dr_rollback r = Some True \<longrightarrow> rolled_back (c\<lparr>dc_log := pre\<rparr>))))"

definition early_result :: "deploy_result \<Rightarrow> dep_core \<Rightarrow> bool" where
  "early_result r c = (dr_state r \<noteq> DONE \<and> result_agrees r c)"

lemma agrees_entered:
  "dr_state r = st \<Longrightarrow> dr_snapshot r = dc_snapshot c \<Longrightarrow> (dr_rollback r = Some True \<Longrightarrow> rolled_back c) \<Longrightarrow> result_agrees r (entered st c)"
  by (auto simp: result_agrees_def rolled_back_def restored_bytes_def)

lemma early_entered:
  "st \<noteq> DONE \<Longrightarrow> dr_state r = st \<Longrightarrow> dr_snapshot r = dc_snapshot c \<Longrightarrow> (dr_rollback r = Some True \<Longrightarrow> rolled_back c) \<Longrightarrow>
   early_result r (entered st c)"
  by (simp add: early_result_def agrees_entered)

lemmas early_entered_state = early_entered [OF _ refl]

lemma ends_stop [ends_intros]: "st \<noteq> DONE \<Longrightarrow> ends_in early_result (stop env st d)"
  unfolding ends_in_def by (intro allI wp_stop) (auto intro: early_entered)

lemma ends_stop_with [ends_intros]: "st \<noteq> DONE \<Longrightarrow> ends_in early_result (stop_with env st d None)"
  unfolding ends_in_def by (intro allI wp_stop_with) (auto intro: early_entered)

lemma wp_rollback_bytes:
  assumes "dc_snapshot c = Some sn"
    and "\<And>current. restored_bytes c current \<Longrightarrow> Q () (c\<lparr>dc_log := dc_log c @ [Bytes_restored current]\<rparr>)" and "\<And>e. E e c"
  shows "wp snd (verify_rollback_bytes env sn) Q E c"
  unfolding verify_rollback_bytes_def
  by (intro wp_intros) (use assms in \<open>auto simp: verify_restored_iff restored_bytes_def\<close>)

lemma roll_back_spec: "wp snd (roll_back env) (\<lambda>r c'. fst r \<longrightarrow> rolled_back c') (\<lambda>_ _. True) c"
proof -
  have restart: "wp snd (restart_after_restore env sn) (\<lambda>r c'. (\<forall>x. r = Inl x \<longrightarrow> \<not> fst x) \<and> (\<forall>x. r = Inr x \<longrightarrow> rolled_back c'))
      (\<lambda>_ _. True) c1" if "dc_snapshot c1 = Some sn" for sn c1
    unfolding restart_after_restore_def
    by (intro wp_intros wp_rollback_bytes) (use that in \<open>auto simp: rolled_back_def restored_bytes_def intro!: wp_intros wp_rollback_bytes\<close>)
  show ?thesis unfolding roll_back_def
    by (intro wp_intros wp_rollback_bytes)
      (auto intro!: wp_intros wp_rollback_bytes wp_conseq [OF restart] split: sum.splits)
qed

lemma wp_give_up:
  assumes "st \<noteq> DONE" and "\<And>x c'. early_result x c' \<Longrightarrow> Q (Inl x) c'" and "\<And>e c'. E e c'"
  shows "wp snd (give_up env st d) Q E c"
proof -
  have "wp snd (case r of (ok, d') \<Rightarrow> stop_with env st (d @ ''; '' @ d') (Some ok)) Q E c1"
    if "fst r \<longrightarrow> rolled_back c1" for r c1
    using that assms by (cases r) (auto intro!: wp_stop_with early_entered_state intro: assms(2))
  then show ?thesis unfolding give_up_def
    by (intro wp_bind, intro wp_conseq [OF roll_back_spec]) (simp_all add: assms(3))
qed

lemma ends_give_up [ends_intros]: "st \<noteq> DONE \<Longrightarrow> ends_in early_result (give_up env st d)"
  unfolding ends_in_def by (auto intro: wp_give_up)

lemma ends_before [ends_intros]:
  "ends_in early_result (backup_stage env)" "ends_in early_result (publishable env a)" "ends_in early_result (early_arm env)"
  "ends_in early_result (judge_outcome env b out)" "ends_in early_result (ask env what p x y)"
  unfolding backup_stage_def publishable_def early_arm_def judge_outcome_def ask_def Let_def by (intro ends_intros; simp)+

lemma ends_firmware [ends_intros]: "ends_in early_result (firmware_stage env)" "ends_in early_result (capability_stage env)"
proof -
  show "ends_in early_result (firmware_stage env)" unfolding firmware_stage_def
    by (auto split: option.splits intro!: ends_intros)
  show "ends_in early_result (capability_stage env)" unfolding capability_stage_def by (intro ends_intros)
qed

lemma ends_cycle [ends_intros]: "ends_in early_result (before_disconnect env)" "ends_in early_result (after_disconnect env)"
  unfolding before_disconnect_def after_disconnect_def by (intro ends_intros)+

lemma ends_disconnect [ends_intros]: "ends_in early_result (disconnect_stage env mn prepared)"
  unfolding disconnect_stage_def by (intro ends_intros)

lemma ends_power_cycle [ends_intros]: "ends_in early_result (power_cycle_stage env armed prepared)"
  unfolding power_cycle_stage_def by (intro ends_intros; simp)

lemma ends_check_firmware [ends_intros]: "ends_in early_result (check_firmware_stage env v)"
  unfolding check_firmware_stage_def Let_def by (intro ends_intros; simp)

lemma ends_online [ends_intros]: "ends_in early_result (online_stage env)"
  unfolding online_stage_def by (intro ends_intros; simp)

lemma ends_upload [ends_intros]: "ends_in early_result (final_review env)" "ends_in early_result (write_stage env)"
  unfolding final_review_def write_stage_def by (intro ends_intros; simp)+

lemma ends_upload_stage [ends_intros]: "ends_in early_result (upload_stage env)"
  unfolding upload_stage_def by (intro ends_intros)

lemma ends_activation [ends_intros]: "ends_in early_result (moonraker_stage env)" "ends_in early_result (recheck_firmware env)"
  unfolding moonraker_stage_def recheck_firmware_def by (intro ends_intros; simp)+

lemma ends_activation_stage [ends_intros]: "ends_in early_result (activation_stage env)"
  unfolding activation_stage_def by (intro ends_intros; simp)

subsection \<open>The successful result\<close>

definition firmware_matches :: "'w dep_env \<Rightarrow> (string, string) dict \<Rightarrow> bool" where
  "firmware_matches env versions = (\<forall>t \<in> set (mf_targets (de_manifest env)).
     \<exists>v. dict_get versions (mt_name t) = Some v \<and> firmware_version_matches v (mt_expected_version t))"

lemma option_all: "(\<exists>v. x = Some v \<and> Q v) \<longleftrightarrow> x \<noteq> None \<and> (\<forall>v \<in> set_option x. Q v)"
  by (cases x) auto

lemma no_entry: "[f t. t \<leftarrow> ts, Q t] = [] \<longleftrightarrow> (\<forall>t \<in> set ts. \<not> Q t)"
  by (induction ts) auto

lemma check_versions_iff: "check_versions (de_manifest env) versions = ([], []) \<longleftrightarrow> firmware_matches env versions"
  unfolding check_versions_def firmware_matches_def option_all prod.inject no_entry by blast

definition activated :: "'w dep_env \<Rightarrow> dep_core \<Rightarrow> bool" where
  "activated env c = ((\<exists>pre. dc_log c = pre @ [Entered VERIFYING_CONFIG, Moonraker_up, Klipper_up]
       @ (if de_verify_firmware env then [Versions_match] else []))
     \<and> (de_verify_firmware env \<longrightarrow> firmware_matches env (dc_versions c)))"

lemma wp_recheck:
  assumes "dc_log c = pre @ [Entered VERIFYING_CONFIG, Moonraker_up, Klipper_up]"
    and "\<And>c'. activated env c' \<Longrightarrow> Q (Inr ()) c'" and "\<And>x c'. early_result x c' \<Longrightarrow> Q (Inl x) c'" and "\<And>e c'. E e c'"
  shows "wp snd (recheck_firmware env) Q E c"
  unfolding recheck_firmware_def
  by (intro wp_intros wp_give_up) (use assms in \<open>auto simp: activated_def check_versions_iff intro!: wp_give_up wp_intros\<close>)

lemma wp_activation:
  assumes "\<And>c'. activated env c' \<Longrightarrow> Q (Inr ()) c'" and "\<And>x c'. early_result x c' \<Longrightarrow> Q (Inl x) c'" and "\<And>e c'. E e c'"
  shows "wp snd (activation_stage env) Q E c"
proof -
  have e: "E = (\<lambda>_ _. True)" using assms(3) by auto
  have verified: "wp snd (bindS (enter env VERIFYING_CONFIG ''waiting for second Klipper Ready'') (\<lambda>_.
     bindS (await_moonraker env) (\<lambda>up.
     if \<not> up then give_up env CONFIG_ERROR ''Moonraker did not recover''
     else bindS (await_klipper env True) (\<lambda>(ready, st).
       if \<not> ready then give_up env CONFIG_ERROR (''new configuration state='' @ st)
       else recheck_firmware env)))) Q E c1" for c1
    by (intro wp_intros) (use assms in \<open>auto intro!: wp_intros wp_give_up wp_recheck\<close>)
  show ?thesis unfolding activation_stage_def e
    by (intro wp_bind, rule wp_conseq [OF wp_always], intro wp_bind, rule wp_conseq [OF wp_always])
      (auto intro: verified [unfolded e])
qed

definition deployment_done :: "'w dep_env \<Rightarrow> deploy_result \<Rightarrow> dep_core \<Rightarrow> bool" where
  "deployment_done env r c =
     ((\<exists>pre as. dc_log c = pre @ [Entered VERIFYING_CONFIG, Moonraker_up, Klipper_up]
        @ (if de_verify_firmware env then [Versions_match] else []) @ [Uploads_match as, Entered DONE])
      \<and> (de_verify_firmware env \<longrightarrow> firmware_matches env (dr_mcu_versions r)))"

definition final_result :: "'w dep_env \<Rightarrow> deploy_result \<Rightarrow> dep_core \<Rightarrow> bool" where
  "final_result env r c = (result_agrees r c \<and> (dr_state r = DONE \<longrightarrow> deployment_done env r c))"

lemma early_final: "early_result r c \<Longrightarrow> final_result env r c"
  by (simp add: early_result_def final_result_def)

lemma closing_final:
  assumes "activated env c"
  shows "wp snd (closing_stage env) (\<lambda>r. final_result env (case r of Inl x \<Rightarrow> x | Inr x \<Rightarrow> x)) (\<lambda>_ _. True) c"
  unfolding closing_stage_def
  by (intro wp_intros) (use assms in \<open>auto intro!: wp_give_up early_final wp_goS wp_result wp_intros agrees_entered
    simp: activated_def final_result_def deployment_done_def\<close>)

lemma body_final:
  fixes env :: "'w dep_env"
  shows "wp snd (deploy_body env) (\<lambda>r. final_result env r) (\<lambda>_ _. True) c"
proof -
  let ?Q = "\<lambda>r. final_result env (case r of Inl x \<Rightarrow> x | Inr x \<Rightarrow> x)"
  have step: "wp snd (bindR m k) ?Q (\<lambda>_ _. True) c1"
    if "ends_in early_result m" "\<And>a c2. wp snd (k a) ?Q (\<lambda>_ _. True) c2"
    for m :: "('w, deploy_result + 'b) dep" and k c1
  proof (rule wp_bindR)
    have "wp snd m (\<lambda>r c'. \<forall>x. r = Inl x \<longrightarrow> early_result x c') (\<lambda>_ _. True) c1"
      using that(1) by (simp add: ends_in_def)
    then show "wp snd m (\<lambda>r. case r of Inl x \<Rightarrow> ?Q (Inl x) | Inr a \<Rightarrow> wp snd (k a) ?Q (\<lambda>_ _. True)) (\<lambda>_ _. True) c1"
      by (rule wp_conseq) (auto split: sum.splits intro: early_final that(2))
  qed
  have last: "wp snd (bindR (activation_stage env) (\<lambda>_. closing_stage env)) ?Q (\<lambda>_ _. True) c1" for c1
    by (intro wp_bindR wp_activation) (auto intro: closing_final early_final)
  show ?thesis unfolding deploy_body_def
    by (rule wp_bind, rule wp_conseq [where Q = ?Q], rule step [OF ends_before(1)], rule step [OF ends_firmware(2)],
        rule step [OF ends_before(3)], rule step [OF ends_firmware(1)], rule step [OF ends_power_cycle], rule step [OF ends_online],
        rule step [OF ends_upload_stage], rule step [OF ends_activation(1)], rule last) (auto intro: wp_return)
qed

text \<open>The handlers give results that agree with the state, too; the cleanup touches only the world.\<close>

lemma wp_last_versions:
  assumes "\<And>r. dr_state r = st \<Longrightarrow> dr_snapshot r = dc_snapshot c \<Longrightarrow> dr_rollback r = b \<Longrightarrow> Q r (entered st c)"
    and "\<And>e. E e (entered st c)"
  shows "wp snd (last_versions env st d b) Q E c"
  unfolding last_versions_def by (intro wp_intros assms)

lemma wp_guarded:
  assumes "\<And>r c'. (fst r \<longrightarrow> rolled_back c') \<Longrightarrow> Q r c'" and "\<And>e c'. E e c'"
  shows "wp snd (guarded_roll_back env b) Q E c"
  unfolding guarded_roll_back_def
  by (rule wp_catch, rule wp_conseq [OF roll_back_spec]) (auto intro!: wp_intros assms)

lemma handler_final: "wp snd (deploy_handler env e) (final_result env) (\<lambda>_ _. True) c"
proof -
  have last: "wp snd (last_versions env st d b) (final_result env) (\<lambda>_ _. True) c1"
    if "st \<noteq> DONE" "b = Some True \<longrightarrow> rolled_back c1" for st d b c1
    using that by (intro wp_last_versions) (auto intro!: early_final early_entered_state)
  show ?thesis
    unfolding deploy_handler_def on_cancel_def on_error_def
    by (intro wp_intros wp_guarded last) (auto intro!: wp_intros wp_guarded last split: prod.splits)
qed

lemma run_final:
  assumes "run_deployment env (w, new_deployment sn) = (Inr r, (w', c))"
  shows "final_result env r c"
proof -
  have cleanup: "silent snd (deploy_cleanup env)"
    unfolding deploy_cleanup_def by (intro silent_intros)
  have "wp snd (run_deployment env) (final_result env) (\<lambda>_ _. True) (snd (w, new_deployment sn))"
    unfolding run_deployment_def snd_conv
    by (intro wp_finally wp_catch, rule wp_conseq [OF body_final])
      (auto intro!: wp_silent [OF cleanup] wp_conseq [OF handler_final])
  from wpD [OF this] assms show ?thesis by simp
qed

end
