(* ===== verification/Deployer_Liveness.thy ===== *)
theory Deployer_Liveness
  imports Deployer_Results Py_Settles
begin

text \<open>
  A deployment ends: on a clock that is never turned back, every wait returns within its timeout, and
  no run is left waiting.
\<close>

subsection \<open>Time\<close>

text \<open>An action that returns leaves a clock at least as late.\<close>

definition forward :: "('w \<Rightarrow> int) \<Rightarrow> ('w, tx_exn, 'a) action \<Rightarrow> bool" where
  "forward now m = (\<forall>s x s'. m s = (Inr x, s') \<longrightarrow> now s \<le> now s')"

lemma network_forward:
  assumes "\<And>s r s'. m s = (r, s') \<Longrightarrow> now s \<le> now s'"
  shows "forward now (network_or d m)"
  unfolding forward_def network_or_def catchS_def
proof (intro allI impI)
  fix s x s'
  assume "(case m s of (Inl e, s1) \<Rightarrow> (if is_os_error e then returnS d else raiseS e) s1 | (Inr x, s1) \<Rightarrow> (Inr x, s1)) = (Inr x, s')"
  with assms [of s] show "now s \<le> now s'"
    by (cases "m s") (auto simp: returnS_eq raiseS_eq split: sum.splits if_splits)
qed

text \<open>The printer answers: the clock is not turned back, a pause takes its time, and the fuel exceeds the timeouts.\<close>

definition clock_runs :: "'w dep_env \<Rightarrow> ('w \<Rightarrow> int) \<Rightarrow> bool" where
  "clock_runs env now =
     (de_monotonic env = getS now
      \<and> (\<forall>i s s'. de_wait env i s = (Inr False, s') \<longrightarrow> now s + i \<le> now s')
      \<and> (\<forall>s r s'. de_cancelled env s = (r, s') \<longrightarrow> now s \<le> now s')
      \<and> (\<forall>s r s'. cl_online (de_client env) s = (r, s') \<longrightarrow> now s \<le> now s')
      \<and> (\<forall>s r s'. cl_klippy_state (de_client env) s = (r, s') \<longrightarrow> now s \<le> now s')
      \<and> (\<forall>s r s'. cl_mcu_versions (de_client env) s = (r, s') \<longrightarrow> now s \<le> now s')
      \<and> nat (to_moonraker (de_timeouts env)) < de_fuel env
      \<and> nat (to_klipper_ready (de_timeouts env)) < de_fuel env
      \<and> nat (to_mcu_registration (de_timeouts env)) < de_fuel env)"

lemma backoff_positive: "0 < i \<Longrightarrow> 0 < backoff i"
  by (simp add: backoff_def)

text \<open>A turn that goes on started before the deadline and ran its body.\<close>

lemma wait_turn_goes_on:
  assumes "clock_runs env now" and "wait_turn env deadline expired body s = (Inr (Inl l), s')"
  obtains s1 where "now s < deadline" "now s \<le> now s1" "body s1 = (Inr (Inl l), s')"
proof -
  have m: "de_monotonic env = getS now" using assms(1) by (simp add: clock_runs_def)
  have d: "now s < deadline"
  proof (rule ccontr)
    assume "\<not> now s < deadline"
    with assms(2) m show False by (auto simp: wait_turn_def bindS_eq [of "getS _"] getS_eq returnS_eq)
  qed
  then obtain c s1 where c: "de_cancelled env s = (Inr c, s1)" and "bindS (requireS (\<not> c) monitor_cancelled) (\<lambda>_. body) s1 = (Inr (Inl l), s')"
    using assms(2) m by (auto simp: wait_turn_def bindS_eq [of "getS _"] bindS_eq [of "de_cancelled _"] getS_eq)
  then have "body s1 = (Inr (Inl l), s')" by (auto simp: bindS_eq requireS_eq)
  moreover have "now s \<le> now s1" using assms(1) c by (simp add: clock_runs_def)
  ultimately show thesis using that d by blast
qed

lemma pause_takes: "clock_runs env now \<Longrightarrow> pause env i s = (Inr u, s') \<Longrightarrow> now s + i \<le> now s'"
  by (auto simp: clock_runs_def pause_def bindS_eq requireS_eq)

lemma asked_forward:
  assumes "clock_runs env now"
  shows "forward now (network_or False (cl_online (de_client env)))"
    "forward now (network_or ''disconnected'' (cl_klippy_state (de_client env)))"
    "forward now (network_or [] (cl_mcu_versions (de_client env)))"
  using assms by (auto intro!: network_forward simp: clock_runs_def)

lemma forwardD: "forward now m \<Longrightarrow> m s = (Inr x, s') \<Longrightarrow> now s \<le> now s'"
  by (simp add: forward_def)

lemma pause_then:
  "clock_runs env now \<Longrightarrow> bindS (pause env i) (\<lambda>_. returnS (Inl g)) s = (Inr (Inl l'), s') \<Longrightarrow> l' = g \<and> now s + i \<le> now s'"
  by (auto simp: bindS_eq returnS_eq dest: pause_takes)

lemma asked_then:
  assumes "forward now m" and "bindS m k s = (Inr (Inl l'), s')"
    and "\<And>x s1. k x s1 = (Inr (Inl l'), s') \<Longrightarrow> R l' \<and> now s1 + i \<le> now s'"
  shows "R l' \<and> now s + i \<le> now s'"
proof -
  from assms(2) obtain x s1 where m: "m s = (Inr x, s1)" and k: "k x s1 = (Inr (Inl l'), s')" by (auto simp: bindS_eq)
  with assms(3) [OF k] forwardD [OF assms(1) m] show ?thesis by simp
qed

text \<open>A turn that goes on brings the deadline nearer and keeps the interval positive.\<close>

lemma turn_nearer:
  assumes c: "clock_runs env now" and "0 < i" and t: "wait_turn env deadline expired (bindS m k) s = (Inr (Inl l'), s')"
    and m: "forward now m" and k: "\<And>x s1. k x s1 = (Inr (Inl l'), s') \<Longrightarrow> R l' \<and> now s1 + i \<le> now s'"
  shows "R l' \<and> nat (deadline - now s') < nat (deadline - now s)"
proof -
  from t obtain s1 where d: "now s < deadline" "now s \<le> now s1" and body: "bindS m k s1 = (Inr (Inl l'), s')"
    by (auto elim: wait_turn_goes_on [OF c])
  from asked_then [where R = R, OF m body k] d \<open>0 < i\<close> show ?thesis by fastforce
qed

lemma turns_go_on:
  assumes c: "clock_runs env now"
  shows "0 < fst l \<Longrightarrow> moonraker_turn env deadline l s = (Inr (Inl l'), s') \<Longrightarrow> 0 < fst l' \<and> nat (deadline - now s') < nat (deadline - now s)"
    and "0 < fst k \<Longrightarrow> klipper_turn env b deadline k s = (Inr (Inl k'), s') \<Longrightarrow> 0 < fst k' \<and> nat (deadline - now s') < nat (deadline - now s)"
    and "0 < i \<Longrightarrow> registration_turn env deadline i s = (Inr (Inl i'), s') \<Longrightarrow> 0 < i' \<and> nat (deadline - now s') < nat (deadline - now s)"
proof -
  assume p: "0 < fst l" and t: "moonraker_turn env deadline l s = (Inr (Inl l'), s')"
  show "0 < fst l' \<and> nat (deadline - now s') < nat (deadline - now s)"
    by (rule turn_nearer [where R = "\<lambda>l'. 0 < fst l'", OF c p t [unfolded moonraker_turn_def case_prod_beta] asked_forward(1) [OF c]])
      (use p in \<open>auto simp: returnS_eq split: if_splits dest!: pause_then [OF c] intro: backoff_positive\<close>)
next
  assume p: "0 < fst k" and t: "klipper_turn env b deadline k s = (Inr (Inl k'), s')"
  show "0 < fst k' \<and> nat (deadline - now s') < nat (deadline - now s)"
    by (rule turn_nearer [where R = "\<lambda>k'. 0 < fst k'", OF c p t [unfolded klipper_turn_def case_prod_beta] asked_forward(2) [OF c]])
      (use p in \<open>auto simp: returnS_eq split: if_splits dest!: pause_then [OF c] intro: backoff_positive\<close>)
next
  assume p: "0 < i" and t: "registration_turn env deadline i s = (Inr (Inl i'), s')"
  show "0 < i' \<and> nat (deadline - now s') < nat (deadline - now s)"
    by (rule turn_nearer [where R = "\<lambda>i'. 0 < i'", OF c p t [unfolded registration_turn_def] asked_forward(3) [OF c]])
      (use p in \<open>auto simp: returnS_eq split: if_splits dest!: pause_then [OF c] intro: backoff_positive\<close>)
qed

subsection \<open>The operations settle\<close>

definition client_answers :: "'w deploy_client \<Rightarrow> bool" where
  "client_answers cl = (settles (cl_online cl) \<and> settles (cl_klippy_state cl) \<and> settles (cl_mcu_versions cl)
     \<and> (\<forall>n. settles (cl_download cl n)) \<and> (\<forall>ns. settles (cl_read cl ns)) \<and> (\<forall>v. settles (cl_supports cl v))
     \<and> (\<forall>d n v. settles (cl_upload cl d n v)) \<and> (\<forall>sn d. settles (cl_restore cl sn d)) \<and> settles (cl_restart_moonraker cl)
     \<and> settles (cl_firmware_restart cl))"

definition monitor_answers :: "'w deploy_monitor \<Rightarrow> bool" where
  "monitor_answers mn = (settles (mn_arm mn) \<and> (\<forall>t. settles (mn_wait_absent mn t)) \<and> (\<forall>t. settles (mn_wait_present mn t))
     \<and> (\<forall>b. settles (mn_resume mn b)) \<and> settles (mn_assessment mn) \<and> settles (mn_manual mn) \<and> settles (mn_close mn))"

definition callbacks_return :: "'w dep_env \<Rightarrow> bool" where
  "callbacks_return env = ((\<forall>f. de_power_prompt env = Some f \<longrightarrow> settles f) \<and> (\<forall>f. de_media_prompt env = Some f \<longrightarrow> settles f)
     \<and> (\<forall>f a. de_identity_prompt env = Some f \<longrightarrow> settles (f a)) \<and> (\<forall>f. de_power_off env = Some f \<longrightarrow> settles f)
     \<and> (\<forall>f. de_power_on env = Some f \<longrightarrow> settles f) \<and> settles (de_cancelled env) \<and> (\<forall>i. settles (de_wait env i))
     \<and> (\<forall>ev. settles (de_sink env ev)) \<and> (\<forall>f. de_close_sink env = Some f \<longrightarrow> settles f)
     \<and> (\<forall>f. de_snapshot_loader env = Some f \<longrightarrow> settles f) \<and> (\<forall>f. de_before_upload env = Some f \<longrightarrow> settles f)
     \<and> (\<forall>f. de_verify_config env = Some f \<longrightarrow> settles f) \<and> (\<forall>f. de_firmware_copy env = Some f \<longrightarrow> settles f)
     \<and> (\<forall>f. de_firmware_deploy env = Some f \<longrightarrow> settles f) \<and> (\<forall>p. settles (de_isfile env p)) \<and> (\<forall>p. settles (de_read_file env p)))"

definition dep_answers :: "'w dep_env \<Rightarrow> ('w \<Rightarrow> int) \<Rightarrow> bool" where
  "dep_answers env now = (clock_runs env now \<and> client_answers (de_client env) \<and> callbacks_return env
     \<and> (\<forall>mn. de_monitor env = Some mn \<longrightarrow> monitor_answers mn))"

lemma settles_world [settles_intros]: "settles m \<Longrightarrow> settles (world m)"
  unfolding settles_def world_def by (auto split: prod.splits) (metis fst_conv)

lemma settles_dep [settles_intros]: "settles (the_dep f)" "settles (on_dep g)" "settles (log_dep e)"
  by (simp_all add: the_dep_def on_dep_def log_dep_def settles_intros)

lemma settles_early [settles_intros]:
  "settles m \<Longrightarrow> (\<And>x. settles (k x)) \<Longrightarrow> settles (bindR m k)" "settles u \<Longrightarrow> settles (goS u)"
  unfolding bindR_def goS_def by (intro settles_intros; simp)+

lemma settles_eachR [settles_intros]: "(\<And>x. settles (f x)) \<Longrightarrow> settles (eachR f xs)"
  by (induction xs) (auto intro: settles_intros)

lemma settles_stage [settles_intros]: "settles m \<Longrightarrow> settles (stage label m)"
  unfolding stage_def by (intro settles_intros)

lemma settles_network [settles_intros]: "settles m \<Longrightarrow> settles (network_or d m)"
  unfolding network_or_def by (intro settles_intros)

lemma settles_bool [settles_intros]: "settles m \<Longrightarrow> settles n \<Longrightarrow> settles (case b of True \<Rightarrow> m | False \<Rightarrow> n)"
  by (simp split: bool.splits)

lemma dep_client_settles:
  assumes "dep_answers env now"
  shows "settles (cl_online (de_client env))" "settles (cl_klippy_state (de_client env))" "settles (cl_mcu_versions (de_client env))"
    "settles (cl_download (de_client env) n)" "settles (cl_read (de_client env) ns)" "settles (cl_supports (de_client env) v)"
    "settles (cl_upload (de_client env) d n v)" "settles (cl_restore (de_client env) sn ds)"
    "settles (cl_restart_moonraker (de_client env))" "settles (cl_firmware_restart (de_client env))"
  using assms by (simp_all add: dep_answers_def client_answers_def)

lemma dep_callbacks_settle:
  assumes "dep_answers env now"
  shows "de_power_prompt env = Some f \<Longrightarrow> settles f" "de_media_prompt env = Some f \<Longrightarrow> settles f"
    "de_identity_prompt env = Some h \<Longrightarrow> settles (h a)" "de_power_off env = Some g \<Longrightarrow> settles g" "de_power_on env = Some g \<Longrightarrow> settles g"
    "settles (de_cancelled env)" "settles (de_wait env i)" "settles (de_sink env ev)" "de_close_sink env = Some g \<Longrightarrow> settles g"
    "de_snapshot_loader env = Some ld \<Longrightarrow> settles ld" "de_before_upload env = Some g \<Longrightarrow> settles g" "de_verify_config env = Some g \<Longrightarrow> settles g"
    "de_firmware_copy env = Some fw \<Longrightarrow> settles fw" "de_firmware_deploy env = Some fw \<Longrightarrow> settles fw"
    "settles (de_isfile env p)" "settles (de_read_file env p)"
  using assms by (simp_all add: dep_answers_def callbacks_return_def)

lemma dep_monitor_settles:
  assumes "dep_answers env now" and "de_monitor env = Some mn"
  shows "settles (mn_arm mn)" "settles (mn_wait_absent mn t)" "settles (mn_wait_present mn t)" "settles (mn_resume mn b)"
    "settles (mn_assessment mn)" "settles (mn_manual mn)" "settles (mn_close mn)"
  using assms by (auto simp: dep_answers_def monitor_answers_def)

lemma settles_transition:
  "dep_answers env now \<Longrightarrow> settles (transition_with env st d x)" "dep_answers env now \<Longrightarrow> settles (result_with env st d v b)"
  "dep_answers env now \<Longrightarrow> settles (stop env st d)" "dep_answers env now \<Longrightarrow> settles (stop_with env st d b)"
  "dep_answers env now \<Longrightarrow> settles (last_versions env st d b)"
  unfolding transition_with_def result_with_def stop_def stop_with_def last_versions_def
  by (intro settles_intros dep_callbacks_settle; assumption)+

text \<open>The waits.\<close>

lemma wait_settles:
  assumes a: "dep_answers env now" and turn: "\<And>d l. settles (turn d l)"
    and nearer: "\<And>d l s l' s'. ok l \<Longrightarrow> turn d l s = (Inr (Inl l'), s') \<Longrightarrow> ok l' \<and> nat (d - now s') < nat (d - now s)"
    and "ok l" and fuel: "nat timeout < de_fuel env"
  shows "settles (wait_for env timeout turn l)"
proof -
  have m: "de_monotonic env = getS now" using a by (simp add: dep_answers_def clock_runs_def)
  have "poll (de_fuel env) (turn (now s + timeout)) l s \<noteq> (Inr None, s')" for s s'
    by (rule poll_ends_while [where ok = ok and left = "\<lambda>v. nat (now s + timeout - now v)"])
      (use nearer \<open>ok l\<close> fuel in auto)
  then have ends: "bindS (getS now) (\<lambda>t. poll (de_fuel env) (turn (t + timeout)) l) s \<noteq> (Inr None, s')" for s s'
    by (auto simp: bindS_eq getS_eq)
  have w: "settles (bindS (getS now) (\<lambda>t. poll (de_fuel env) (turn (t + timeout)) l))"
    by (intro settles_intros turn)
  have "calm (fst (wait_for env timeout turn l s))" for s
  proof (cases "bindS (getS now) (\<lambda>t. poll (de_fuel env) (turn (t + timeout)) l) (fst s)")
    case (Pair r v)
    have "calm r" using w Pair by (metis settles_def fst_conv)
    moreover have "r \<noteq> Inr None" using ends [of "fst s" v] Pair by auto
    ultimately show ?thesis using Pair
      by (cases r) (auto simp: wait_for_def m bindS_def [of "world _"] world_def returnS_def raiseS_def split: option.splits)
  qed
  then show ?thesis by (simp add: settles_def)
qed

lemma waits_return:
  assumes a: "dep_answers env now"
  shows "settles (await_moonraker env)" "settles (await_klipper env b)" "settles (await_registration env)"
proof -
  have c: "clock_runs env now" using a by (simp add: dep_answers_def)
  note fuel = c [unfolded clock_runs_def]
  have w: "settles (wait_turn env d x body)" if "settles body" for d x body
    unfolding wait_turn_def conjunct1 [OF fuel] monitor_cancelled_def
    by (intro settles_intros dep_callbacks_settle(6) [OF a] that) simp
  have p: "settles (pause env i)" for i
    unfolding pause_def monitor_cancelled_def by (intro settles_intros dep_callbacks_settle [OF a]) simp
  have m: "settles (moonraker_turn env d l)" and k: "settles (klipper_turn env b d l')" and r: "settles (registration_turn env d i)" for d l l' i
    unfolding moonraker_turn_def klipper_turn_def registration_turn_def
    by (intro settles_intros w p dep_client_settles [OF a])+
  have "settles (wait_for env (to_moonraker (de_timeouts env)) (moonraker_turn env) (poll_interval, 0))"
    by (rule wait_settles [where ok = "\<lambda>l. 0 < fst l", OF a m turns_go_on(1) [OF c]]) (use fuel in \<open>simp_all add: poll_interval_def\<close>)
  then show "settles (await_moonraker env)" unfolding await_moonraker_def by (intro settles_intros)
  have "settles (wait_for env (to_klipper_ready (de_timeouts env)) (klipper_turn env b) (poll_interval, 0, ''disconnected''))"
    by (rule wait_settles [where ok = "\<lambda>l. 0 < fst l", OF a k turns_go_on(2) [OF c]]) (use fuel in \<open>simp_all add: poll_interval_def\<close>)
  then show "settles (await_klipper env b)" unfolding await_klipper_def by (intro settles_intros)
  have "settles (wait_for env (to_mcu_registration (de_timeouts env)) (registration_turn env) poll_interval)"
    by (rule wait_settles [where ok = "\<lambda>i. 0 < i", OF a r turns_go_on(3) [OF c]]) (use fuel in \<open>simp_all add: poll_interval_def\<close>)
  then show "settles (await_registration env)" unfolding await_registration_def by (intro settles_intros)
qed

lemma dep_checks_settle:
  assumes a: "dep_answers env now"
  shows "settles (the_artifacts env)" "settles (verify_rollback_bytes env sn)" "settles (verify_uploads env)"
proof -
  show art: "settles (the_artifacts env)"
    unfolding the_artifacts_def Let_def by (intro settles_intros dep_callbacks_settle [OF a])
  show "settles (verify_rollback_bytes env sn)"
    unfolding verify_rollback_bytes_def by (intro settles_intros calm_restored dep_client_settles [OF a])
  have "settles (verify_one env x)" for x
    unfolding verify_one_def by (intro settles_intros dep_callbacks_settle [OF a] dep_client_settles [OF a])
  then have "settles (check_uploads env)" unfolding check_uploads_def by (intro settles_intros art)
  then show "settles (verify_uploads env)"
    unfolding verify_uploads_def by (intro settles_intros dep_callbacks_settle [OF a])
qed

lemma dep_rollback_settles:
  assumes a: "dep_answers env now"
  shows "settles (roll_back env)" "settles (give_up env st d)" "settles (guarded_roll_back env b)"
proof -
  have "settles (restart_after_restore env sn)" for sn
    unfolding restart_after_restore_def
    by (intro settles_intros waits_return [OF a] dep_checks_settle [OF a] dep_client_settles [OF a])
  then show r: "settles (roll_back env)"
    unfolding roll_back_def
    by (intro settles_intros dep_checks_settle [OF a] dep_client_settles [OF a] settles_transition [OF a])
  show "settles (give_up env st d)" unfolding give_up_def by (intro settles_intros r settles_transition [OF a])
  show "settles (guarded_roll_back env b)" unfolding guarded_roll_back_def by (intro settles_intros r)
qed

lemma firmware_settles:
  assumes a: "dep_answers env now"
  shows "settles (backup_stage env)" "settles (capability_stage env)" "settles (early_arm env)" "settles (firmware_stage env)"
proof -
  show "settles (backup_stage env)" unfolding backup_stage_def
    by (intro settles_intros settles_transition [OF a] dep_callbacks_settle [OF a] dep_checks_settle [OF a])
  have "settles (publishable env x)" for x unfolding publishable_def
    by (intro settles_intros settles_transition [OF a] dep_client_settles [OF a])
  then show "settles (capability_stage env)" unfolding capability_stage_def by (intro settles_intros dep_checks_settle [OF a])
  show "settles (early_arm env)" unfolding early_arm_def
    by (intro settles_intros settles_transition [OF a] dep_monitor_settles [OF a])
  have "settles (judge_outcome env b out)" for b out unfolding judge_outcome_def Let_def
    by (intro settles_intros settles_transition [OF a])
  then show "settles (firmware_stage env)" unfolding firmware_stage_def
    by (auto intro!: settles_intros settles_transition [OF a] intro: dep_callbacks_settle(13,14) [OF a] split: option.splits)
qed

lemma cycle_settles:
  assumes a: "dep_answers env now"
  shows "settles (power_cycle_stage env armed prepared)"
proof -
  have ask: "settles (ask env what p x y)" if "\<And>f. p = Some f \<Longrightarrow> settles f" for what p x y
    unfolding ask_def by (intro settles_intros that settles_transition [OF a])
  have media: "settles f" if "(case de_media_prompt env of Some f \<Rightarrow> Some f | None \<Rightarrow> de_power_prompt env) = Some f" for f
    using that dep_callbacks_settle(1,2) [OF a] by (auto split: option.splits)
  have before: "settles (before_disconnect env)" unfolding before_disconnect_def
    by (intro settles_intros settles_transition [OF a] ask media dep_callbacks_settle [OF a])
  have after: "settles (after_disconnect env)" unfolding after_disconnect_def
    by (intro settles_intros settles_transition [OF a] ask dep_callbacks_settle [OF a])
  have present: "settles (await_present env mn)" if "de_monitor env = Some mn" for mn
  proof -
    have "settles (confirm_ambiguous env x)" for x unfolding confirm_ambiguous_def
      by (intro settles_intros settles_transition [OF a] dep_callbacks_settle [OF a])
    then have "settles (case r of Recognised dev data \<Rightarrow> returnS (dev, data)
       | Ambiguous x \<Rightarrow> bindS (confirm_ambiguous env x) (\<lambda>yes. world (mn_resume mn yes)))" for r
      by (cases r) (auto intro!: settles_intros dep_monitor_settles [OF a that])
    then show ?thesis unfolding await_present_def
      by (intro settles_intros settles_transition [OF a] dep_monitor_settles [OF a that])
  qed
  have disconnect: "settles (disconnect_stage env mn prepared)" if "de_monitor env = Some mn" for mn
    unfolding disconnect_stage_def
    by (intro settles_intros settles_transition [OF a] after present [OF that] dep_monitor_settles [OF a that])
  show ?thesis unfolding power_cycle_stage_def late_arm_def
    by (intro settles_intros settles_transition [OF a] before disconnect dep_monitor_settles [OF a])
qed

lemma configuration_settles:
  assumes a: "dep_answers env now"
  shows "settles (online_stage env)" "settles (upload_stage env)" "settles (moonraker_stage env)" "settles (activation_stage env)"
    "settles (closing_stage env)"
proof -
  show "settles (online_stage env)" unfolding online_stage_def check_firmware_stage_def Let_def
    by (intro settles_intros settles_transition [OF a] waits_return [OF a])
  have "settles (read_one (cl_read (de_client env)) n)" for n
    unfolding read_one_def by (intro settles_intros calm_entry dep_client_settles [OF a])
  then have "settles (write_one env x)" for x unfolding write_one_def Let_def
    by (intro settles_intros dep_callbacks_settle [OF a] dep_client_settles [OF a]; simp)
  then have "settles (write_stage env)" unfolding write_stage_def
    by (intro settles_intros settles_transition [OF a] dep_checks_settle [OF a] dep_rollback_settles [OF a])
  then show "settles (upload_stage env)" unfolding upload_stage_def final_review_def
    by (intro settles_intros settles_transition [OF a] dep_callbacks_settle [OF a])
  show "settles (moonraker_stage env)" unfolding moonraker_stage_def
    by (intro settles_intros settles_transition [OF a] dep_checks_settle [OF a] dep_rollback_settles [OF a] waits_return [OF a]
        dep_client_settles [OF a])
  show "settles (activation_stage env)" unfolding activation_stage_def recheck_firmware_def
    by (intro settles_intros settles_transition [OF a] dep_checks_settle [OF a] dep_rollback_settles [OF a] waits_return [OF a]
        dep_client_settles [OF a])
  show "settles (closing_stage env)" unfolding closing_stage_def
    by (intro settles_intros settles_transition [OF a] dep_checks_settle [OF a] dep_rollback_settles [OF a])
qed

lemma deployment_settles:
  assumes a: "dep_answers env now"
  shows "settles (run_deployment env)"
proof -
  have "settles (deploy_body env)" unfolding deploy_body_def
    by (intro settles_intros firmware_settles [OF a] cycle_settles [OF a] configuration_settles [OF a])
  moreover have "settles (deploy_handler env e)" if "tx_kind e \<noteq> Still_running" for e
    unfolding deploy_handler_def on_cancel_def on_error_def
    by (intro settles_intros dep_rollback_settles [OF a] settles_transition [OF a] that)
  moreover have "settles (deploy_cleanup env)" unfolding deploy_cleanup_def
    by (intro settles_intros dep_monitor_settles [OF a] dep_callbacks_settle [OF a])
  ultimately show ?thesis unfolding run_deployment_def by (intro settles_intros)
qed

end
