(* ===== verification/Deployer_Claims.thy ===== *)
theory Deployer_Claims
  imports Deployer_Liveness
begin

text \<open>
  The promises of a whole deployment, each with an instance on a printer whose relay, monitor and
  client answer.
\<close>

subsection \<open>A concrete printer\<close>

text \<open>The world is a clock and the files of the printer; local paths have fixed contents.\<close>

type_synonym bench = "int \<times> (string, bytes) dict"

definition bench_ok :: "(bench, tx_exn, unit) action" where
  "bench_ok = returnS ()"

definition bench_local :: "string \<Rightarrow> bytes" where
  "bench_local p = (if p = ''/p'' then [1, 2] else [3])"

definition bench_write :: "bytes \<Rightarrow> string \<Rightarrow> bytes option \<Rightarrow> (bench, tx_exn, unit) action" where
  "bench_write d n v = modifyS (\<lambda>w. (fst w, dict_set (snd w) n d))"

text \<open>The upload arrives, then the connection fails.\<close>

definition bench_late :: "tx_class \<Rightarrow> bytes \<Rightarrow> string \<Rightarrow> bytes option \<Rightarrow> (bench, tx_exn, unit) action" where
  "bench_late k d n v = bindS (bench_write d n v) (\<lambda>_. raiseS (Tx k ''lost''))"

text \<open>Moonraker answers with a body of another shape once it runs on the new \<open>moonraker.conf\<close>.\<close>

definition bench_odd :: "(bench, tx_exn, bool) action" where
  "bench_odd = bindS (getS (\<lambda>w. dict_get (snd w) moonraker_remote)) (\<lambda>v.
     if v = Some [3] then raiseS attribute_error else returnS True)"

definition bench_client ::
    "(bytes \<Rightarrow> string \<Rightarrow> bytes option \<Rightarrow> (bench, tx_exn, unit) action) \<Rightarrow> (bench, tx_exn, bool) action \<Rightarrow> string \<Rightarrow> bench deploy_client" where
  "bench_client up online version =
     \<lparr>cl_online = online, cl_klippy_state = returnS ''ready'', cl_mcu_versions = returnS [(''mcu'', version)],
      cl_download = (\<lambda>n. getS (\<lambda>w. (dict_get (snd w) n \<noteq> None, dict_get (snd w) n))),
      cl_read = (\<lambda>ns. getS (\<lambda>w. map (\<lambda>n. (n, dict_get (snd w) n)) ns)), cl_supports = (\<lambda>_. returnS True), cl_upload = up,
      cl_restore = (\<lambda>sn d. bindS (modifyS (\<lambda>w. (fst w, dict_update (snd w) (sn_config_files sn)))) (\<lambda>_. returnS [])),
      cl_restart_moonraker = bench_ok, cl_firmware_restart = bench_ok\<rparr>"

definition bench_monitor :: "bench deploy_monitor" where
  "bench_monitor = \<lparr>mn_arm = returnS None, mn_wait_absent = (\<lambda>_. bench_ok), mn_wait_present = (\<lambda>_. returnS (Ambiguous PNone)),
     mn_resume = (\<lambda>yes. if yes then returnS (''/dev/ttyACM0'', PNone) else raiseS (Tx Monitor_cancelled ''not confirmed'')),
     mn_assessment = returnS PNone, mn_manual = returnS True, mn_close = bench_ok\<rparr>"

definition bench_snapshot :: snapshot where
  "bench_snapshot = \<lparr>sn_deployment_id = ''a'', sn_timestamp = ''t'', sn_board = [], sn_kace_version = ''1'',
     sn_firmware_fingerprint = [], sn_mcus = [], sn_dev_deploy = False,
     sn_config_files = [(root_remote, [9]), (moonraker_remote, [8])], sn_missing_files = [], sn_storage_path = []\<rparr>"

definition bench_env ::
    "(bytes \<Rightarrow> string \<Rightarrow> bytes option \<Rightarrow> (bench, tx_exn, unit) action) \<Rightarrow> (bench, tx_exn, bool) action \<Rightarrow> string \<Rightarrow> bench dep_env" where
  "bench_env up online version =
     \<lparr>de_client = bench_client up online version,
      de_manifest = \<lparr>mf_targets = [\<lparr>mt_name = ''mcu'', mt_expected_version = ''v2'', mt_firmware_identity = None\<rparr>],
        mf_printer_cfg_path = ''/p'', mf_macros_cfg_path = None, mf_auxiliary_files = [],
        mf_config_artifacts = Some [\<lparr>ca_local_path = ''/p'', ca_remote_name = root_remote\<rparr>,
          \<lparr>ca_local_path = ''/m'', ca_remote_name = moonraker_remote\<rparr>]\<rparr>,
      de_verify_firmware = True, de_monitor = Some bench_monitor, de_power_prompt = Some (returnS True),
      de_media_prompt = Some (returnS True), de_identity_prompt = Some (\<lambda>_. returnS True), de_power_off = Some bench_ok,
      de_power_on = Some bench_ok, de_cancelled = returnS False,
      de_wait = (\<lambda>i. bindS (modifyS (\<lambda>w. (fst w + i, snd w))) (\<lambda>_. returnS False)), de_sink = (\<lambda>_. bench_ok), de_close_sink = None,
      de_snapshot_loader = Some (returnS (Some bench_snapshot)), de_before_upload = Some bench_ok, de_verify_config = None,
      de_firmware_copy = Some (returnS (Outcome_bool True)), de_firmware_deploy = None, de_monitor_first = False,
      de_already_copied = False, de_timeouts = default_timeouts, de_workflow_id = ''w'', de_monotonic = getS fst,
      de_isfile = (\<lambda>_. returnS True), de_read_file = (\<lambda>p. returnS (bench_local p)), de_sha = (\<lambda>d. if d = [1, 2] then ''p'' else if d = [3] then ''m'' else []),
      de_fuel = 3\<rparr>"

definition bench_run ::
    "(bytes \<Rightarrow> string \<Rightarrow> bytes option \<Rightarrow> (bench, tx_exn, unit) action) \<Rightarrow> (bench, tx_exn, bool) action \<Rightarrow> string
     \<Rightarrow> (tx_exn + deploy_result) \<times> bench \<times> dep_core" where
  "bench_run up online version =
     run_deployment (bench_env up online version) ((0, [(root_remote, [9]), (moonraker_remote, [8])]), new_deployment None)"

subsection \<open>Running it\<close>

text \<open>
  A run is evaluated from the outside in: the congruence rules keep the simplifier out of the
  continuation of a \<open>bindS\<close> until the first action has a result.
\<close>

lemma outside_in:
  "m = m' \<Longrightarrow> bindS m k s = bindS m' k s" "m2 = m2' \<Longrightarrow> bindR m2 k2 s2 = bindR m2' k2 s2"
  "m3 = m3' \<Longrightarrow> catchS m3 h3 s3 = catchS m3' h3 s3" "m4 = m4' \<Longrightarrow> finallyS m4 f4 s4 = finallyS m4' f4 s4"
  by simp_all

lemma bindR_run:
  "bindR m k s = (case m s of (Inl e, s1) \<Rightarrow> (Inl e, s1) | (Inr (Inl x), s1) \<Rightarrow> (Inr (Inl x), s1) | (Inr (Inr a), s1) \<Rightarrow> k a s1)"
  by (simp add: bindR_def bindS_def returnS_def split: prod.splits sum.splits)

lemmas step_defs = Let_def bindS_def bindR_run returnS_def raiseS_def getS_def modifyS_def catchS_def finallyS_def requireS_def
    whenS_def liftS_def attempt_def is_exception_def is_os_error_def tx_kind_def tx_text_def

lemmas deployer_defs =
    world_def the_dep_def on_dep_def log_dep_def bindR_def goS_def transition_with_def result_with_def stop_def 
    stop_with_def poll_interval_def backoff_def monitor_cancelled_def pause_def network_or_def wait_turn_def 
    moonraker_turn_def klipper_turn_def registration_turn_def wait_for_def await_moonraker_def await_klipper_def 
    await_registration_def the_artifacts_def verify_one_def check_uploads_def verify_uploads_def verify_rollback_bytes_def 
    stage_def restart_after_restore_def roll_back_def backup_stage_def recorded_def recorded_bytes_def publishable_def 
    capability_stage_def early_arm_def outcome_status_def outcome_detail_def judge_outcome_def firmware_stage_def ask_def 
    before_disconnect_def after_disconnect_def confirm_ambiguous_def await_present_def late_arm_def disconnect_stage_def 
    power_cycle_stage_def versions_value_def check_firmware_stage_def online_stage_def give_up_def final_review_def 
    write_one_def write_stage_def upload_stage_def moonraker_stage_def recheck_firmware_def activation_stage_def 
    closing_stage_def deploy_body_def last_versions_def guarded_roll_back_def on_cancel_def on_error_def deploy_handler_def 
    deploy_cleanup_def 

lemmas bench_defs = bench_run_def bench_env_def bench_client_def bench_monitor_def bench_ok_def bench_local_def bench_snapshot_def
    new_deployment_def run_deployment_def default_timeouts_def remote_defs dict_get_def dict_keys_def dict_update_def
    read_one_def entry_def

lemma bench_facts [simp]:
  "upload_order [\<lparr>ca_local_path = ''/p'', ca_remote_name = ''printer.cfg''\<rparr>, \<lparr>ca_local_path = ''/m'', ca_remote_name = ''moonraker.conf''\<rparr>] =
     [\<lparr>ca_local_path = ''/m'', ca_remote_name = ''moonraker.conf''\<rparr>, \<lparr>ca_local_path = ''/p'', ca_remote_name = ''printer.cfg''\<rparr>]"
  "firmware_version_matches ''v2'' ''v2''" "\<not> firmware_version_matches ''v1'' ''v2''"
  by code_simp+

lemma poll_numeral:
  "poll (numeral k) turn l = bindS (turn l) (\<lambda>r. case r of Inr x \<Rightarrow> returnS (Some x) | Inl l' \<Rightarrow> poll (pred_numeral k) turn l')"
  by (simp add: numeral_eq_Suc)

lemmas bench_run_simps = step_defs deployer_defs bench_defs bench_write_def bench_late_def bench_odd_def check_versions_def
    from_applying_def attribute_error_def poll_numeral

lemma bench_done:
  "\<exists>r v c. bench_run bench_write (returnS True) ''v2'' = (Inr r, (v, c)) \<and> dr_state r = DONE
     \<and> (\<exists>pre rest. dc_log c = pre @ Writing root_remote [1, 2] (Some [9]) # rest)
     \<and> (\<exists>pre rest. dc_log c = pre @ Powered True # rest)"
proof -
  have "\<exists>r v c. bench_run bench_write (returnS True) ''v2'' = (Inr r, (v, c)) \<and> dr_state r = DONE
     \<and> Writing root_remote [1, 2] (Some [9]) \<in> set (dc_log c) \<and> Powered True \<in> set (dc_log c)"
    by (simp add: bench_run_simps cong: outside_in option.case_cong_weak sum.case_cong_weak if_weak_cong)
  then show ?thesis by (meson split_list)
qed

lemma bench_restored:
  "\<exists>r v c. bench_run (bench_late Runtime_failed) (returnS True) ''v2'' = (Inr r, (v, c)) \<and> dr_rollback r = Some True
     \<and> dr_state r = CONFIG_ERROR \<and> dict_keys (dc_attempted c) = [moonraker_remote]"
  by (simp add: bench_run_simps verify_snapshot_restored_def check_restored_def mapE.simps bindE_def require_def
      cong: outside_in option.case_cong_weak sum.case_cong_weak if_weak_cong)

lemma bench_timed_out:
  "\<exists>r t c. bench_run (bench_late Timed_out) (returnS True) ''v2'' =
     (Inr r, ((t, [(root_remote, [9]), (moonraker_remote, [3])]), c)) \<and> dr_state r = TIMEOUT \<and> dr_rollback r = None"
  by (simp add: bench_run_simps cong: outside_in option.case_cong_weak sum.case_cong_weak if_weak_cong)

lemma bench_malformed:
  "\<exists>r t c. bench_run bench_write bench_odd ''v2'' =
     (Inr r, ((t, [(root_remote, [1, 2]), (moonraker_remote, [3])]), c)) \<and> dr_state r = FAILED_PRECONDITION \<and> dr_rollback r = None"
  by (simp add: bench_run_simps cong: outside_in option.case_cong_weak sum.case_cong_weak if_weak_cong)

subsection \<open>Properties\<close>

lemma supportedD: "supported case_of l \<Longrightarrow> l = pre @ e # rest \<Longrightarrow> case_of pre e"
  by (auto simp: supported_def)







text \<open>
  C8. A rollback that claims success restored the printer: after Moonraker and Klipper were up again
  it read every file the run had tried to write, and each had the bytes of the snapshot, or was absent
  where the snapshot records its absence.
\<close>

theorem rollback_read_back:
  assumes "run_deployment env (w, new_deployment sn) = (Inr r, (w', c))" and "dr_rollback r = Some True"
  shows "\<exists>pre current shot. dc_log c = pre @ [Moonraker_up, Klipper_up, Bytes_restored current, Entered (dr_state r)]
     \<and> dr_snapshot r = Some shot
     \<and> (\<forall>n \<in> set (dict_keys (dc_attempted c)). \<exists>v. dict_get current n = Some v \<and> original_of shot n = Some v)"
  using run_final [OF assms(1)] assms(2)
  by (force simp: final_result_def result_agrees_def rolled_back_def restored_bytes_def)

theorem rollback_read_back_witness:
  "\<exists>r v c pre current. bench_run (bench_late Runtime_failed) (returnS True) ''v2'' = (Inr r, (v, c))
     \<and> dc_log c = pre @ [Moonraker_up, Klipper_up, Bytes_restored current, Entered CONFIG_ERROR]
     \<and> (\<exists>shot v. dict_get current moonraker_remote = Some v \<and> original_of shot moonraker_remote = Some v)"
proof -
  obtain r v c where run: "bench_run (bench_late Runtime_failed) (returnS True) ''v2'' = (Inr r, (v, c))"
    and "dr_rollback r = Some True" "dr_state r = CONFIG_ERROR" "dict_keys (dc_attempted c) = [moonraker_remote]"
    using bench_restored by blast
  with rollback_read_back [OF run [unfolded bench_run_def]] show ?thesis by fastforce
qed


text \<open>
  C10. A deployment always ends: when client, monitor and prompts answer, the clock is not turned back
  and the fuel exceeds the timeouts, the run returns or raises, through every wait, the rollback and
  the handlers; it is never left waiting.
\<close>

theorem deployment_ends:
  assumes "dep_answers env now"
  shows "fst (run_deployment env s) \<noteq> Inl (Tx Still_running m)"
  using deployment_settles [OF assms] by (metis settles_def calm_simps(2) kind_Tx)

definition bench_patient :: "bench dep_env" where
  "bench_patient = (bench_env bench_write (returnS False) ''v2'')\<lparr>de_fuel := 961\<rparr>"

theorem deployment_ends_witness:
  "fst (run_deployment bench_patient ((0, []), new_deployment None)) \<noteq> Inl (Tx Still_running [])"
proof (rule deployment_ends)
  show "dep_answers bench_patient fst"
    by (auto simp: dep_answers_def clock_runs_def client_answers_def callbacks_return_def monitor_answers_def bench_patient_def
        bench_env_def bench_client_def bench_monitor_def bench_ok_def bench_write_def default_timeouts_def settles_intros
        bindS_def modifyS_def returnS_def)
qed

end
