(* ===== verification/Local_Disk.thy ===== *)
theory Local_Disk
  imports Snapshot Deployment_Plan
begin

text \<open>
  The calls of \<open>os\<close>, \<open>os.path\<close> and \<open>tempfile\<close> the local configuration transport makes, on a disk
  other programs use at the same time.  Every call takes one turn: first the edits of others happen,
  then the call succeeds, or fails with the turn's exception, an interrupt included; a failed write
  leaves any prefix of its bytes.  A node is found by the path the code passes; where a path leads
  through symbolic links (\<open>realpath\<close>) is a parameter.
\<close>

datatype node = Regular bytes int | Directory | Symlink string

type_synonym nodes = "(string, node) dict"

record turn =
  tn_edits :: "(string \<times> node option) list"
  tn_fault :: "(tx_exn \<times> nat) option"

record disk =
  dk_nodes :: nodes
  dk_turns :: "turn list"

definition without_node :: "nodes \<Rightarrow> string \<Rightarrow> nodes" where
  "without_node d p = filter (\<lambda>e. fst e \<noteq> p) d"

definition put_node :: "nodes \<Rightarrow> string \<times> node option \<Rightarrow> nodes" where
  "put_node d e = (case snd e of Some x \<Rightarrow> dict_set d (fst e) x | None \<Rightarrow> without_node d (fst e))"

definition node_at :: "disk \<Rightarrow> string \<Rightarrow> node option" where
  "node_at d p = dict_get (dk_nodes d) p"

definition set_node :: "string \<Rightarrow> node option \<Rightarrow> disk \<Rightarrow> disk" where
  "set_node p x d = d\<lparr>dk_nodes := put_node (dk_nodes d) (p, x)\<rparr>"

text \<open>The turn of the next call: what others did, and how the call is to fail.\<close>

definition next_turn :: "disk \<Rightarrow> (tx_exn \<times> nat) option \<times> disk" where
  "next_turn d = (case dk_turns d of
     [] \<Rightarrow> (None, d)
   | t # ts \<Rightarrow> (tn_fault t, \<lparr>dk_nodes = foldl put_node (dk_nodes d) (tn_edits t), dk_turns = ts\<rparr>))"

definition os_call :: "(nat \<Rightarrow> disk \<Rightarrow> disk) \<Rightarrow> (disk, tx_exn, 'a) action \<Rightarrow> (disk, tx_exn, 'a) action" where
  "os_call broken m d = (case next_turn d of
     (None, d1) \<Rightarrow> m d1
   | (Some (e, k), d1) \<Rightarrow> (Inl e, broken k d1))"

abbreviation plain_call :: "(disk, tx_exn, 'a) action \<Rightarrow> (disk, tx_exn, 'a) action" where
  "plain_call \<equiv> os_call (\<lambda>_ d. d)"

definition os_error :: "string \<Rightarrow> tx_exn" where "os_error m = Tx Os_failed m"
definition not_found :: "string \<Rightarrow> tx_exn" where "not_found p = Tx Not_found p"

subsection \<open>Looking\<close>

text \<open>The questions of \<open>os.path\<close> answer \<open>False\<close> when the system call fails.\<close>

definition os_ask :: "(disk \<Rightarrow> bool) \<Rightarrow> (disk, tx_exn, bool) action" where
  "os_ask q = catchS (plain_call (getS q)) (\<lambda>e. if is_os_error e \<or> tx_kind e = Value_failed then returnS False else raiseS e)"

definition os_lexists :: "string \<Rightarrow> (disk, tx_exn, bool) action" where
  "os_lexists p = os_ask (\<lambda>d. node_at d p \<noteq> None)"

definition is_link :: "node option \<Rightarrow> bool" where
  "is_link x = (case x of Some (Symlink _) \<Rightarrow> True | _ \<Rightarrow> False)"

definition os_islink :: "string \<Rightarrow> (disk, tx_exn, bool) action" where
  "os_islink p = os_ask (\<lambda>d. is_link (node_at d p))"

type_synonym resolver = "nodes \<Rightarrow> string \<Rightarrow> string"

definition followed :: "resolver \<Rightarrow> disk \<Rightarrow> string \<Rightarrow> node option" where
  "followed rp d p = (if is_link (node_at d p) then node_at d (rp (dk_nodes d) p) else node_at d p)"

definition os_isfile :: "resolver \<Rightarrow> string \<Rightarrow> (disk, tx_exn, bool) action" where
  "os_isfile rp p = os_ask (\<lambda>d. case followed rp d p of Some (Regular _ _) \<Rightarrow> True | _ \<Rightarrow> False)"

text \<open>\<open>os.path.realpath\<close> leaves what it cannot examine as it is.\<close>

definition os_realpath :: "resolver \<Rightarrow> string \<Rightarrow> (disk, tx_exn, string) action" where
  "os_realpath rp p = catchS (plain_call (getS (\<lambda>d. rp (dk_nodes d) p))) (\<lambda>e. if is_os_error e then returnS p else raiseS e)"

definition os_read :: "resolver \<Rightarrow> string \<Rightarrow> (disk, tx_exn, bytes) action" where
  "os_read rp p = plain_call (\<lambda>d. case followed rp d p of
     Some (Regular content _) \<Rightarrow> (Inr content, d)
   | None \<Rightarrow> (Inl (not_found p), d)
   | _ \<Rightarrow> (Inl (os_error p), d))"

text \<open>\<open>os.stat(path, follow_symlinks=False).st_mode & 0o777\<close>.\<close>

definition os_mode :: "string \<Rightarrow> (disk, tx_exn, int) action" where
  "os_mode p = plain_call (\<lambda>d. case node_at d p of
     Some (Regular _ m) \<Rightarrow> (Inr (m mod 512), d)
   | Some Directory \<Rightarrow> (Inr 493, d)
   | Some (Symlink _) \<Rightarrow> (Inr 511, d)
   | None \<Rightarrow> (Inl (not_found p), d))"

subsection \<open>Changing\<close>

definition os_write_sync :: "string \<Rightarrow> bytes \<Rightarrow> (disk, tx_exn, unit) action" where
  "os_write_sync p content = os_call (\<lambda>k. set_node p (Some (Regular (take k content) 384)))
     (modifyS (set_node p (Some (Regular content 384))))"

definition os_chmod :: "string \<Rightarrow> int \<Rightarrow> (disk, tx_exn, unit) action" where
  "os_chmod p mode = plain_call (\<lambda>d. case node_at d p of
     Some (Regular content _) \<Rightarrow> (Inr (), set_node p (Some (Regular content mode)) d)
   | None \<Rightarrow> (Inl (not_found p), d)
   | _ \<Rightarrow> (Inr (), d))"

definition os_remove :: "string \<Rightarrow> (disk, tx_exn, unit) action" where
  "os_remove p = plain_call (\<lambda>d. case node_at d p of
     None \<Rightarrow> (Inl (not_found p), d)
   | Some Directory \<Rightarrow> (Inl (os_error p), d)
   | _ \<Rightarrow> (Inr (), set_node p None d))"

text \<open>\<open>os.link\<close> never replaces an existing name, \<open>os.replace\<close> does in one step.\<close>

definition os_link :: "string \<Rightarrow> string \<Rightarrow> (disk, tx_exn, unit) action" where
  "os_link a b = plain_call (\<lambda>d. case node_at d a of
     None \<Rightarrow> (Inl (not_found a), d)
   | Some x \<Rightarrow> if node_at d b \<noteq> None then (Inl (os_error ''File exists''), d) else (Inr (), set_node b (Some x) d))"

definition os_replace :: "string \<Rightarrow> string \<Rightarrow> (disk, tx_exn, unit) action" where
  "os_replace a b = plain_call (\<lambda>d. case node_at d a of
     None \<Rightarrow> (Inl (not_found a), d)
   | Some x \<Rightarrow> if node_at d b = Some Directory then (Inl (os_error ''Is a directory''), d)
       else (Inr (), set_node a None (set_node b (Some x) d)))"

text \<open>\<open>os.makedirs(path, exist_ok=True)\<close> of an absolute path: the directories above it first.\<close>

definition path_prefixes :: "string \<Rightarrow> string list" where
  "path_prefixes p = (let ws = norm_parts True p in map (\<lambda>k. ''/'' @ join_with ''/'' (take (Suc k) ws)) [0 ..< length ws])"

fun make_dirs :: "resolver \<Rightarrow> string list \<Rightarrow> disk \<Rightarrow> (tx_exn + unit) \<times> disk" where
  "make_dirs rp [] d = (Inr (), d)"
| "make_dirs rp (p # ps) d = (case followed rp d p of
     None \<Rightarrow> make_dirs rp ps (set_node p (Some Directory) d)
   | Some Directory \<Rightarrow> make_dirs rp ps d
   | _ \<Rightarrow> (Inl (os_error p), d))"

definition os_makedirs :: "resolver \<Rightarrow> string \<Rightarrow> (disk, tx_exn, unit) action" where
  "os_makedirs rp p = os_call (\<lambda>k d. snd (make_dirs rp (take k (path_prefixes p)) d)) (make_dirs rp (path_prefixes p))"

text \<open>\<open>tempfile.mkstemp(prefix, dir)\<close> tries the names of a random source until one is new.\<close>

definition os_mkstemp :: "string list \<Rightarrow> string \<Rightarrow> string \<Rightarrow> (disk, tx_exn, string) action" where
  "os_mkstemp names prefix dir = plain_call (\<lambda>d.
     case filter (\<lambda>p. node_at d p = None) (map (\<lambda>n. posix_join dir (prefix @ n)) names) of
       [] \<Rightarrow> (Inl (os_error ''No usable temporary file name found''), d)
     | p # _ \<Rightarrow> (Inr p, set_node p (Some (Regular [] 384)) d))"

definition os_sync_dir :: "string \<Rightarrow> (disk, tx_exn, unit) action" where
  "os_sync_dir p = plain_call (returnS ())"

subsection \<open>What a call can change\<close>

lemma dict_get_without: "dict_get (without_node d p) q = (if q = p then None else dict_get d q)"
  by (induction d) (auto simp: without_node_def dict_get_def)

lemma dict_get_put: "dict_get (put_node d (p, x)) q = (if q = p then x else dict_get d q)"
  by (cases x) (auto simp: put_node_def dict_get_without dict_get_set)

lemma node_at_set [simp]: "node_at (set_node p x d) q = (if q = p then x else node_at d q)"
  by (simp add: node_at_def set_node_def dict_get_put)

lemma turns_set [simp]: "dk_turns (set_node p x d) = dk_turns d"
  by (simp add: set_node_def)

text \<open>Others leave the nodes of \<open>P\<close> alone.\<close>

definition undisturbed :: "(string \<Rightarrow> bool) \<Rightarrow> disk \<Rightarrow> bool" where
  "undisturbed P d = (\<forall>t \<in> set (dk_turns d). \<forall>e \<in> set (tn_edits t). \<not> P (fst e))"

text \<open>The watched part of a disk: whether it is left alone, and its nodes.\<close>

definition watched :: "(string \<Rightarrow> bool) \<Rightarrow> disk \<Rightarrow> bool \<times> (string \<Rightarrow> node option)" where
  "watched P d = (undisturbed P d, \<lambda>p. if P p then node_at d p else None)"

lemma edits_elsewhere: "\<forall>e \<in> set es. fst e \<noteq> p \<Longrightarrow> dict_get (foldl put_node d es) p = dict_get d p"
proof (induction es arbitrary: d)
  case (Cons e es)
  then show ?case by (cases e) (auto simp: dict_get_put)
qed simp

lemma watched_turn: "next_turn d = (q, d') \<Longrightarrow> watched P d = (True, f) \<Longrightarrow> watched P d' = (True, f)"
proof (cases "dk_turns d")
  case (Cons t ts)
  assume n: "next_turn d = (q, d')" and w: "watched P d = (True, f)"
  then have d': "d' = \<lparr>dk_nodes = foldl put_node (dk_nodes d) (tn_edits t), dk_turns = ts\<rparr>"
    using Cons by (simp add: next_turn_def)
  have "undisturbed P d" using w by (simp add: watched_def)
  then have "undisturbed P d'" and "\<forall>p. P p \<longrightarrow> (\<forall>e \<in> set (tn_edits t). fst e \<noteq> p)"
    using Cons by (auto simp: undisturbed_def d')
  then have "undisturbed P d'" and "\<And>p. P p \<Longrightarrow> node_at d' p = node_at d p"
    by (auto simp: node_at_def d' edits_elsewhere)
  then show ?thesis using w by (auto simp: watched_def)
qed (simp add: next_turn_def)

lemma watched_set: "watched P (set_node p x d) = (fst (watched P d), if P p then (snd (watched P d))(p := x) else snd (watched P d))"
  by (auto simp: watched_def undisturbed_def)

lemma watched_at: "watched P d = (b, f) \<Longrightarrow> P p \<Longrightarrow> node_at d p = f p"
  by (auto simp: watched_def)

subsection \<open>Rules\<close>

lemma wp_os_call:
  assumes "wp (watched P) m Q E (True, f)"
    and "\<And>e k d. watched P d = (True, f) \<Longrightarrow> E e (watched P (broken k d))"
  shows "wp (watched P) (os_call broken m) Q E (True, f)"
proof -
  have "case os_call broken m d of (Inl e, d') \<Rightarrow> E e (watched P d') | (Inr x, d') \<Rightarrow> Q x (watched P d')"
    if w: "watched P d = (True, f)" for d
  proof -
    obtain q d1 where n: "next_turn d = (q, d1)" by fastforce
    from watched_turn [OF n w] have w1: "watched P d1 = (True, f)" .
    show ?thesis using assms n w1 by (cases q) (auto simp: os_call_def wp_def)
  qed
  then show ?thesis by (simp add: wp_def)
qed

lemma wp_plain_call:
  "wp (watched P) m Q E (True, f) \<Longrightarrow> (\<And>e. E e (True, f)) \<Longrightarrow> wp (watched P) (plain_call m) Q E (True, f)"
  by (rule wp_os_call) auto

lemma wp_pick:
  assumes "\<And>d. watched P d = (True, f) \<Longrightarrow>
     (case m d of (Inl e, d') \<Rightarrow> E e (watched P d') | (Inr x, d') \<Rightarrow> Q x (watched P d'))"
  shows "wp (watched P) m Q E (True, f)"
  using assms by (simp add: wp_def)

text \<open>Calls that only look.\<close>

lemma wp_os_ask:
  "(\<And>b. Q b (True, f)) \<Longrightarrow> (\<And>e. E e (True, f)) \<Longrightarrow> wp (watched P) (os_ask q) Q E (True, f)"
  unfolding os_ask_def by (intro wp_catch wp_plain_call wp_get wp_if wp_return wp_raise) auto

lemma wp_os_looks:
  assumes "\<And>x. Q x (True, f)" and "\<And>e. E e (True, f)"
  shows "wp (watched P) (os_realpath rp p) Q E (True, f)"
  unfolding os_realpath_def by (intro wp_catch wp_plain_call wp_get wp_if wp_return wp_raise) (auto intro: assms)

lemma wp_os_mode:
  "(\<And>x. Q x (True, f)) \<Longrightarrow> (\<And>e. E e (True, f)) \<Longrightarrow> wp (watched P) (os_mode p) Q E (True, f)"
  unfolding os_mode_def by (intro wp_plain_call wp_pick) (auto split: option.splits node.splits)

lemma wp_os_sync_dir: "Q () (True, f) \<Longrightarrow> (\<And>e. E e (True, f)) \<Longrightarrow> wp (watched P) (os_sync_dir p) Q E (True, f)"
  unfolding os_sync_dir_def by (intro wp_plain_call wp_return)

text \<open>Reading a watched file that is no link.\<close>

lemma wp_os_read:
  assumes "P p" and "\<not> is_link (f p)"
    and "\<And>content m. f p = Some (Regular content m) \<Longrightarrow> Q content (True, f)" and "\<And>e. E e (True, f)"
  shows "wp (watched P) (os_read rp p) Q E (True, f)"
  unfolding os_read_def
proof (intro wp_plain_call wp_pick)
  fix d assume w: "watched P d = (True, f)"
  then have "followed rp d p = f p" using watched_at [OF w assms(1)] assms(2) by (simp add: followed_def)
  then show "case (case followed rp d p of Some (Regular content _) \<Rightarrow> (Inr content, d) | None \<Rightarrow> (Inl (not_found p), d)
      | _ \<Rightarrow> (Inl (os_error p), d)) of (Inl e, d') \<Rightarrow> E e (watched P d') | (Inr x, d') \<Rightarrow> Q x (watched P d')"
    using w assms(3,4) by (auto split: option.splits node.splits)
qed (rule assms(4))

text \<open>Calls that change one node.\<close>

lemma wp_os_write:
  assumes "Q () (True, if P p then f(p \<mapsto> Regular content 384) else f)"
    and "\<And>e k. E e (True, if P p then f(p \<mapsto> Regular (take k content) 384) else f)"
  shows "wp (watched P) (os_write_sync p content) Q E (True, f)"
  unfolding os_write_sync_def
  by (intro wp_os_call wp_modify) (use assms in \<open>auto simp: watched_set\<close>)

lemma wp_os_chmod:
  assumes "Q () (True, f)" and "\<And>content m. P p \<Longrightarrow> f p = Some (Regular content m) \<Longrightarrow> Q () (True, f(p \<mapsto> Regular content mode))"
    and "\<And>e. E e (True, f)"
  shows "wp (watched P) (os_chmod p mode) Q E (True, f)"
  unfolding os_chmod_def
  by (intro wp_plain_call wp_pick) (use assms in \<open>auto simp: watched_set dest: watched_at split: option.splits node.splits\<close>)

lemma wp_os_remove:
  assumes "\<And>x. P p \<Longrightarrow> f p = Some x \<Longrightarrow> Q () (True, f(p := None))" and "\<not> P p \<Longrightarrow> Q () (True, f)" and "\<And>e. E e (True, f)"
    and "P p \<Longrightarrow> f p = None \<Longrightarrow> E (not_found p) (True, f)"
  shows "wp (watched P) (os_remove p) Q E (True, f)"
  unfolding os_remove_def
  by (intro wp_plain_call wp_pick) (use assms in \<open>auto simp: watched_set dest: watched_at split: option.splits node.splits\<close>)

lemma wp_os_link:
  assumes "P a" and "P b" and "\<And>x. f a = Some x \<Longrightarrow> f b = None \<Longrightarrow> Q () (True, f(b := Some x))" and "\<And>e. E e (True, f)"
  shows "wp (watched P) (os_link a b) Q E (True, f)"
  unfolding os_link_def
proof (intro wp_plain_call wp_pick)
  fix d assume w: "watched P d = (True, f)"
  then show "case (case node_at d a of None \<Rightarrow> (Inl (not_found a), d)
      | Some x \<Rightarrow> if node_at d b \<noteq> None then (Inl (os_error ''File exists''), d) else (Inr (), set_node b (Some x) d)) of
      (Inl e, d') \<Rightarrow> E e (watched P d') | (Inr x, d') \<Rightarrow> Q x (watched P d')"
    using assms(2-4) watched_at [OF w assms(1)] watched_at [OF w assms(2)] by (auto simp: watched_set split: option.splits)
qed (rule assms(4))

lemma wp_os_replace:
  assumes "P a" and "P b" and "\<And>x. f a = Some x \<Longrightarrow> f b \<noteq> Some Directory \<Longrightarrow> Q () (True, (f(b := Some x))(a := None))"
    and "\<And>e. E e (True, f)"
  shows "wp (watched P) (os_replace a b) Q E (True, f)"
  unfolding os_replace_def
proof (intro wp_plain_call wp_pick)
  fix d assume w: "watched P d = (True, f)"
  then show "case (case node_at d a of None \<Rightarrow> (Inl (not_found a), d)
      | Some x \<Rightarrow> if node_at d b = Some Directory then (Inl (os_error ''Is a directory''), d)
          else (Inr (), set_node a None (set_node b (Some x) d))) of
      (Inl e, d') \<Rightarrow> E e (watched P d') | (Inr x, d') \<Rightarrow> Q x (watched P d')"
    using assms(1-4) watched_at [OF w assms(1)] watched_at [OF w assms(2)] by (auto simp: watched_set split: option.splits)
qed (rule assms(4))

text \<open>A new temporary file was not there before.\<close>

lemma wp_os_mkstemp:
  assumes "\<And>n. n \<in> set names \<Longrightarrow> P (posix_join dir (prefix @ n))"
    and "\<And>n. n \<in> set names \<Longrightarrow> f (posix_join dir (prefix @ n)) = None \<Longrightarrow>
      Q (posix_join dir (prefix @ n)) (True, f(posix_join dir (prefix @ n) \<mapsto> Regular [] 384))"
    and "\<And>e. E e (True, f)"
  shows "wp (watched P) (os_mkstemp names prefix dir) Q E (True, f)"
  unfolding os_mkstemp_def
proof (intro wp_plain_call wp_pick)
  fix d assume w: "watched P d = (True, f)"
  let ?free = "filter (\<lambda>p. node_at d p = None) (map (\<lambda>n. posix_join dir (prefix @ n)) names)"
  show "case (case ?free of [] \<Rightarrow> (Inl (os_error ''No usable temporary file name found''), d)
      | p # _ \<Rightarrow> (Inr p, set_node p (Some (Regular [] 384)) d)) of
      (Inl e, d') \<Rightarrow> E e (watched P d') | (Inr x, d') \<Rightarrow> Q x (watched P d')"
  proof (cases ?free)
    case (Cons p ps)
    then have "p \<in> set ?free" by (metis list.set_intros(1))
    then obtain n where n: "n \<in> set names" "p = posix_join dir (prefix @ n)" "node_at d p = None" by auto
    then have "f p = None" using watched_at [OF w] assms(1) by metis
    then show ?thesis using assms(1,2) n w Cons by (auto simp: watched_set)
  qed (use assms(3) w in simp)
qed (rule assms(3))

text \<open>Directories are made around the watched files, not in their place.\<close>

lemma make_dirs_watched:
  "\<forall>p \<in> set ps. \<not> P p \<Longrightarrow> watched P (snd (make_dirs rp ps d)) = watched P d"
  by (induction rp ps d rule: make_dirs.induct) (auto simp: watched_set split: option.splits node.splits)

lemma wp_os_makedirs:
  assumes "\<forall>q \<in> set (path_prefixes p). \<not> P q" and "Q () (True, f)" and "\<And>e. E e (True, f)"
  shows "wp (watched P) (os_makedirs rp p) Q E (True, f)"
  unfolding os_makedirs_def
proof (rule wp_os_call)
  show "wp (watched P) (make_dirs rp (path_prefixes p)) Q E (True, f)"
  proof (rule wp_pick)
    fix d assume w: "watched P d = (True, f)"
    obtain r d' where m: "make_dirs rp (path_prefixes p) d = (r, d')" by fastforce
    then have "watched P d' = (True, f)" using make_dirs_watched [OF assms(1), of rp d] w by simp
    then show "case make_dirs rp (path_prefixes p) d of (Inl e, d') \<Rightarrow> E e (watched P d') | (Inr x, d') \<Rightarrow> Q x (watched P d')"
      using m assms(2,3) by (cases r) auto
  qed
  have "\<forall>q \<in> set (take k (path_prefixes p)). \<not> P q" for k using assms(1) by (meson in_set_takeD)
  then show "watched P d = (True, f) \<Longrightarrow> E e (watched P (snd (make_dirs rp (take k (path_prefixes p)) d)))" for e k d
    using assms(3) by (simp add: make_dirs_watched)
qed

end
