(* ===== verification/Config_Transport.thy ===== *)
theory Config_Transport
  imports Local_Disk Moonraker_Api Config_Transaction
begin

text \<open>
  The transports of \<open>core/config_transaction.py\<close>: Moonraker, SFTP with Moonraker for the activation,
  a local directory, and the local directory of the printer KACE runs on; and the choice between them.
\<close>

subsection \<open>Moonraker\<close>

definition failed_runtime :: "string \<Rightarrow> string \<Rightarrow> tx_exn" where
  "failed_runtime what detail = Tx Runtime_failed (what @ '': '' @ detail)"

definition conflict_error :: "string \<Rightarrow> tx_exn" where "conflict_error m = Tx Conflict_error m"

definition absolute_text :: "pyval \<Rightarrow> string option" where
  "absolute_text v = (case v of PStr s \<Rightarrow> if rooted s then Some s else None | _ \<Rightarrow> None)"

definition active_config :: "'w http_host \<Rightarrow> endpoint \<Rightarrow> ('w, tx_exn, string) action" where
  "active_config h e =
     bindS (server_url h e ''/printer/info'') (\<lambda>u. bindS (get_json h e u) (\<lambda>(ok, detail, body).
     bindS (if ok then liftS (bindE (result_of body (PDict [])) (\<lambda>r. obj_get r ''config_file'' PNone)) else returnS PNone) (\<lambda>path.
     case absolute_text path of
       None \<Rightarrow> raiseS (conflict_error (''active Klipper config_file is unavailable: '' @ detail))
     | Some p \<Rightarrow> returnS (posix_normpath p))))"

definition config_root :: "pyval \<Rightarrow> (tx_exn, pyval list) res" where
  "config_root item = bindE (obj_get item ''name'' PNone) (\<lambda>n.
     if n = PStr ''config'' then bindE (obj_get item ''path'' PNone) (\<lambda>p. Inr [p]) else Inr [])"

definition config_roots :: "pyval \<Rightarrow> (tx_exn, pyval list) res" where
  "config_roots body = bindE (result_of body (PList [])) (\<lambda>v. bindE (py_iter v) (\<lambda>es. bindE (mapE config_root es) (\<lambda>ps. Inr (concat ps))))"

definition validate_moonraker_target :: "'w http_host \<Rightarrow> endpoint \<Rightarrow> ('w, tx_exn, unit) action" where
  "validate_moonraker_target h e =
     bindS (active_config h e) (\<lambda>active.
     bindS (server_url h e ''/server/files/roots'') (\<lambda>u. bindS (get_json h e u) (\<lambda>(ok, detail, body).
     bindS (if ok then liftS (config_roots body) else returnS []) (\<lambda>roots.
     requireS (case roots of [PStr r] \<Rightarrow> active = posix_join r root_remote | _ \<Rightarrow> False)
       (conflict_error ''Moonraker config root does not match active Klipper printer.cfg'')))))"

text \<open>
  \<open>verify_active_configuration\<close>: the sections and options \<open>RawConfigParser\<close> finds in the effective
  text of the plan are \<open>expected\<close>; Klipper must report each with the same raw text.
\<close>

type_synonym options = "(string, string) dict"

definition raw_option :: "pkey \<times> pyval \<Rightarrow> (string \<times> string) option" where
  "raw_option kv = (case kv of (KStr k, PStr v) \<Rightarrow> Some (k, v) | _ \<Rightarrow> None)"

definition raw_section :: "pkey \<times> pyval \<Rightarrow> (string \<times> options) option" where
  "raw_section kv = (case kv of (KStr s, PDict d) \<Rightarrow> map_option (Pair s) (those (map raw_option d)) | _ \<Rightarrow> None)"

fun nested_get :: "pyval \<Rightarrow> string list \<Rightarrow> pyval" where
  "nested_get v [] = v"
| "nested_get v (k # ks) = nested_get (case v of PDict d \<Rightarrow> py_get_or d k PNone | _ \<Rightarrow> PNone) ks"

definition active_sections :: "bool \<Rightarrow> pyval \<Rightarrow> (string, options) dict option" where
  "active_sections ok body = (case nested_get (if ok then body else PNone) [''result'', ''status'', ''configfile'', ''config''] of
     PDict d \<Rightarrow> those (map raw_section d) | _ \<Rightarrow> None)"

definition check_option :: "string \<Rightarrow> options \<Rightarrow> string \<times> string \<Rightarrow> (tx_exn, unit) res" where
  "check_option s actual kv = require (dict_get actual (fst kv) = Some (snd kv))
     (conflict_error (''active configuration differs at ['' @ s @ ''] '' @ fst kv @ ''; explicit activation is required'')) (Inr ())"

definition check_section :: "(string, options) dict \<Rightarrow> string \<times> options \<Rightarrow> (tx_exn, unit) res" where
  "check_section active so =
     (if starts_with ''include '' (fst so) then Inr ()
      else (case dict_get active (fst so) of
          None \<Rightarrow> Inl (conflict_error (''active configuration is missing ['' @ fst so @ '']; explicit activation is required''))
        | Some actual \<Rightarrow> bindE (mapE (check_option (fst so) actual) (snd so)) (\<lambda>_. Inr ())))"

definition verify_active ::
    "'w http_host \<Rightarrow> endpoint \<Rightarrow> (config_plan \<Rightarrow> (tx_exn, (string, options) dict) res) \<Rightarrow> config_plan \<Rightarrow> ('w, tx_exn, unit) action" where
  "verify_active h e expected plan =
     bindS (server_url h e ''/printer/objects/query?configfile'') (\<lambda>u. bindS (get_json h e u) (\<lambda>(ok, detail, body).
     case active_sections ok body of
       None \<Rightarrow> raiseS (conflict_error ''active configuration could not be verified; explicit activation is required'')
     | Some active \<Rightarrow> liftS (bindE (expected plan) (\<lambda>want. bindE (mapE (check_section active) want) (\<lambda>_. Inr ())))))"

definition moonraker_destination :: "'w http_host \<Rightarrow> endpoint \<Rightarrow> (tx_exn, string list) res" where
  "moonraker_destination h e =
     bindE (base_url h (ep_host e) (ep_port e)) (\<lambda>u. bindE (urlsplit h u) (\<lambda>s. bindE (url_port s) (\<lambda>p.
     (case (su_hostname s, p) of
       (Some name, Some port) \<Rightarrow>
         Inr [''moonraker'', rstrip_char CHR ''.'' (py_lower name), show_int port, rstrip_char path_sep (su_path s)]
     | _ \<Rightarrow> Inl (value_error ''Moonraker configuration destination is invalid'')))))"

definition moonraker_read :: "'w http_host \<Rightarrow> endpoint \<Rightarrow> 'w reader" where
  "moonraker_read h e names =
     bindS (list_config_files_checked h e) (\<lambda>(ok, detail, listed).
     bindS (requireS ok (Tx Os_failed detail)) (\<lambda>_.
     bindS (mapS (\<lambda>n.
         if n \<notin> set listed then returnS (n, None)
         else bindS (download_printer_cfg h e n) (\<lambda>(got, content).
           bindS (requireS got (Tx Os_failed (''could not back up '' @ n))) (\<lambda>_. returnS (n, Some content)))) names) (\<lambda>es.
     returnS (dict_update [] es))))"

text \<open>Files that only carry an upload to the network; their removal is not repeated.\<close>

record 'w staging_host =
  sg_mkstemp :: "string \<Rightarrow> ('w, tx_exn, string) action"
  sg_write_sync :: "string \<Rightarrow> bytes \<Rightarrow> ('w, tx_exn, unit) action"
  sg_remove :: "string \<Rightarrow> ('w, tx_exn, unit) action"
  sg_uuid_hex :: "('w, tx_exn, string) action"

definition moonraker_upload :: "'w http_host \<Rightarrow> 'w staging_host \<Rightarrow> endpoint \<Rightarrow> string \<Rightarrow> bytes \<Rightarrow> ('w, tx_exn, unit) action" where
  "moonraker_upload h g e name content =
     bindS (sg_mkstemp g ''kace-upload-'') (\<lambda>path.
     finallyS
       (bindS (sg_write_sync g path content) (\<lambda>_.
        bindS (upload_printer_cfg h e path name) (\<lambda>(ok, detail).
        requireS ok (failed_runtime (''upload failed for '' @ name) detail))))
       (missing_ok (sg_remove g path)))"

definition moonraker_delete :: "'w http_host \<Rightarrow> endpoint \<Rightarrow> string \<Rightarrow> ('w, tx_exn, unit) action" where
  "moonraker_delete h e name =
     bindS (delete_config_file h e name) (\<lambda>(ok, detail). requireS ok (failed_runtime (''delete failed for '' @ name) detail))"

definition transport_restart :: "'w http_host \<Rightarrow> endpoint \<Rightarrow> string \<Rightarrow> ('w, tx_exn, unit) action" where
  "transport_restart h e mode =
     bindS (if mode = ''firmware'' then restart_firmware h e else restart_klipper_service h e) (\<lambda>(ok, detail).
     requireS ok (failed_runtime ''restart failed'' detail))"

definition transport_restart_moonraker :: "'w http_host \<Rightarrow> endpoint \<Rightarrow> ('w, tx_exn, unit) action" where
  "transport_restart_moonraker h e =
     bindS (restart_moonraker_service h e) (\<lambda>(ok, detail). requireS ok (failed_runtime ''Moonraker restart failed'' detail))"

definition moonraker_online :: "'w http_host \<Rightarrow> endpoint \<Rightarrow> ('w, tx_exn, bool) action" where
  "moonraker_online h e = bindS (check_moonraker h e) (\<lambda>r. returnS (fst r))"

text \<open>The state is only compared with texts and printed.\<close>

definition text_of :: "'w http_host \<Rightarrow> pyval \<Rightarrow> string" where
  "text_of h v = (case v of PStr s \<Rightarrow> s | _ \<Rightarrow> ht_show h v)"

definition klipper_state :: "'w http_host \<Rightarrow> endpoint \<Rightarrow> ('w, tx_exn, string) action" where
  "klipper_state h e = bindS (get_klipper_state h e) (\<lambda>v. returnS (text_of h v))"

definition no_replacement :: "string \<Rightarrow> tx_exn" where
  "no_replacement what = conflict_error (what @ '' has no atomic conditional replacement'')"

text \<open>The fields of a transaction the Moonraker transport provides; the other fields stay as they are.\<close>

definition moonraker_transport ::
    "'w http_host \<Rightarrow> endpoint \<Rightarrow> (config_plan \<Rightarrow> (tx_exn, (string, options) dict) res) \<Rightarrow> 'w tx_env \<Rightarrow> 'w tx_env" where
  "moonraker_transport h e expected env = env\<lparr>
     te_read := moonraker_read h e,
     te_validate_target := validate_moonraker_target h e,
     te_supports := (\<lambda>_. False),
     te_upload := (\<lambda>_ _ _. raiseS (conflict_error ''Moonraker has no atomic conditional upload'')),
     te_restart := transport_restart h e,
     te_restart_moonraker := transport_restart_moonraker h e,
     te_online := moonraker_online h e,
     te_klipper_state := klipper_state h e,
     te_verify_active := Some (verify_active h e expected),
     te_destination_key := liftS (moonraker_destination h e),
     te_destination_lock := None\<rparr>"

subsection \<open>SFTP\<close>

text \<open>The client of the third-party library; a missing file is \<open>Not_found\<close> (\<open>errno\<close> 2).\<close>

record 'w sftp_client =
  sf_normalize :: "string \<Rightarrow> ('w, tx_exn, string) action"
  sf_stat :: "string \<Rightarrow> ('w, tx_exn, unit) action"
  sf_read_file :: "string \<Rightarrow> ('w, tx_exn, bytes) action"
  sf_mkdir :: "string \<Rightarrow> int \<Rightarrow> ('w, tx_exn, unit) action"
  sf_put :: "string \<Rightarrow> string \<Rightarrow> ('w, tx_exn, unit) action"
  sf_rename :: "(string \<Rightarrow> string \<Rightarrow> ('w, tx_exn, unit) action) option"
  sf_posix_rename :: "(string \<Rightarrow> string \<Rightarrow> ('w, tx_exn, unit) action) option"
  sf_remove :: "string \<Rightarrow> ('w, tx_exn, unit) action"

definition joined_path :: "string \<Rightarrow> string \<Rightarrow> string" where
  "joined_path base name = foldl posix_join base (split_char path_sep name)"

definition sftp_path :: "string \<Rightarrow> string \<Rightarrow> string" where
  "sftp_path config_dir name = joined_path (rstrip_char path_sep config_dir) name"

definition validate_sftp_target :: "'w http_host \<Rightarrow> endpoint \<Rightarrow> 'w sftp_client \<Rightarrow> string \<Rightarrow> ('w, tx_exn, unit) action" where
  "validate_sftp_target h e f dir =
     bindS (active_config h e) (\<lambda>active.
     bindS (sf_normalize f active) (\<lambda>a.
     bindS (sf_normalize f (sftp_path dir root_remote)) (\<lambda>b.
     requireS (a = b) (conflict_error ''SFTP destination does not match active Klipper printer.cfg''))))"

definition sftp_exists :: "'w sftp_client \<Rightarrow> string \<Rightarrow> ('w, tx_exn, bool) action" where
  "sftp_exists f path =
     catchS (bindS (sf_stat f path) (\<lambda>_. returnS True)) (\<lambda>e. if tx_kind e = Not_found then returnS False else raiseS e)"

definition sftp_read :: "'w sftp_client \<Rightarrow> string \<Rightarrow> 'w reader" where
  "sftp_read f dir names =
     bindS (mapS (\<lambda>n. bindS (sftp_exists f (sftp_path dir n)) (\<lambda>there.
       if there then bindS (sf_read_file f (sftp_path dir n)) (\<lambda>content. returnS (n, Some content))
       else returnS (n, None))) names) (\<lambda>es. returnS (dict_update [] es))"

text \<open>An empty part sends the walk back to the root directory.\<close>

fun ensure_parts :: "'w sftp_client \<Rightarrow> string \<Rightarrow> string list \<Rightarrow> ('w, tx_exn, unit) action" where
  "ensure_parts f current [] = returnS ()"
| "ensure_parts f current (w # ws) =
     (if w = [] then ensure_parts f ''/'' ws
      else let p = posix_join current w in
        bindS (sftp_exists f p) (\<lambda>there.
        bindS (whenS (\<not> there) (sf_mkdir f p 493)) (\<lambda>_.
        ensure_parts f p ws)))"

definition ensure_parent :: "'w sftp_client \<Rightarrow> string \<Rightarrow> ('w, tx_exn, unit) action" where
  "ensure_parent f path = (let parent = posix_dirname path in
     ensure_parts f (if rooted parent then [] else ''.'') (split_char path_sep parent))"

definition sftp_rename :: "'w sftp_client \<Rightarrow> bool \<Rightarrow> string \<Rightarrow> string \<Rightarrow> ('w, tx_exn, unit) action" where
  "sftp_rename f exclusive a b = (case (if exclusive then sf_rename f else sf_posix_rename f) of
     None \<Rightarrow> raiseS (Tx Runtime_failed (''SFTP server/client does not support atomic ''
       @ (if exclusive then ''no-replace'' else ''POSIX'') @ '' rename''))
   | Some rename \<Rightarrow> rename a b)"

definition sftp_upload :: "'w sftp_client \<Rightarrow> 'w staging_host \<Rightarrow> string \<Rightarrow> string \<Rightarrow> bytes \<Rightarrow> bool \<Rightarrow> ('w, tx_exn, unit) action" where
  "sftp_upload f g dir name content exclusive =
     (let remote = sftp_path dir name in
      bindS (sg_uuid_hex g) (\<lambda>hex.
      let temporary = remote @ ''.kace-part-'' @ hex in
      bindS (ensure_parent f remote) (\<lambda>_.
      bindS (sg_mkstemp g ''kace-sftp-'') (\<lambda>local_copy.
      finallyS
        (on_failure
          (bindS (sg_write_sync g local_copy content) (\<lambda>_.
           bindS (sf_put f local_copy temporary) (\<lambda>_.
           sftp_rename f exclusive temporary remote)))
          (catchS (sf_remove f temporary) (\<lambda>e. if is_exception e then returnS () else raiseS e)))
        (missing_ok (sg_remove g local_copy))))))"

definition sftp_upload_if_unchanged ::
    "'w sftp_client \<Rightarrow> 'w staging_host \<Rightarrow> string \<Rightarrow> string \<Rightarrow> bytes \<Rightarrow> bytes option \<Rightarrow> ('w, tx_exn, unit) action" where
  "sftp_upload_if_unchanged f g dir name content previous =
     (if previous \<noteq> None then raiseS (no_replacement ''SFTP'') else sftp_upload f g dir name content True)"

definition sftp_delete :: "'w sftp_client \<Rightarrow> string \<Rightarrow> string \<Rightarrow> ('w, tx_exn, unit) action" where
  "sftp_delete f dir name = missing_ok (sf_remove f (sftp_path dir name))"

definition sftp_transport ::
    "'w http_host \<Rightarrow> endpoint \<Rightarrow> (config_plan \<Rightarrow> (tx_exn, (string, options) dict) res) \<Rightarrow> 'w sftp_client \<Rightarrow> 'w staging_host
     \<Rightarrow> string \<Rightarrow> 'w tx_env \<Rightarrow> 'w tx_env" where
  "sftp_transport h e expected f g dir env = (moonraker_transport h e expected env)\<lparr>
     te_read := sftp_read f dir,
     te_validate_target := validate_sftp_target h e f dir,
     te_supports := (\<lambda>previous. previous = None),
     te_upload := sftp_upload_if_unchanged f g dir\<rparr>"

subsection \<open>A local directory\<close>

text \<open>\<open>os.path.commonpath\<close> of two absolute paths.\<close>

fun common_prefix :: "'a list \<Rightarrow> 'a list \<Rightarrow> 'a list" where
  "common_prefix (x # xs) (y # ys) = (if x = y then x # common_prefix xs ys else [])"
| "common_prefix xs ys = []"

definition path_parts :: "string \<Rightarrow> string list" where
  "path_parts p = filter (\<lambda>w. w \<noteq> [] \<and> w \<noteq> ''.'') (split_char path_sep p)"

definition common_path :: "string \<Rightarrow> string \<Rightarrow> string" where
  "common_path a b = ''/'' @ join_with ''/'' (common_prefix (path_parts a) (path_parts b))"

record local_site =
  ls_dir :: string
  ls_resolve :: resolver
  ls_names :: "string list"
  ls_posix :: bool

definition candidate_path :: "local_site \<Rightarrow> string \<Rightarrow> string" where
  "candidate_path s name = posix_normpath (joined_path (ls_dir s) name)"

definition local_path :: "local_site \<Rightarrow> string \<Rightarrow> (disk, tx_exn, string) action" where
  "local_path s name =
     bindS (requireS (name \<noteq> [] \<and> \<not> rooted name \<and> \<not> starts_with [CHR 0x5C] name)
       (value_error (''invalid relative config path: '' @ name))) (\<lambda>_.
     let candidate = candidate_path s name in
     bindS (requireS (common_path (ls_dir s) candidate = ls_dir s) (value_error (''config path escapes destination: '' @ name))) (\<lambda>_.
     bindS (os_realpath (ls_resolve s) candidate) (\<lambda>real.
     bindS (requireS (common_path (ls_dir s) real = ls_dir s) (conflict_error ''config path resolves outside destination'')) (\<lambda>_.
     returnS candidate))))"

definition refuse_irregular :: "local_site \<Rightarrow> string \<Rightarrow> (disk, tx_exn, unit) action" where
  "refuse_irregular s path =
     bindS (os_islink path) (\<lambda>link.
     bindS (if link then returnS False else os_isfile (ls_resolve s) path) (\<lambda>regular.
     requireS regular (os_error (''refusing non-regular config target: '' @ path))))"

definition local_read_one :: "local_site \<Rightarrow> string \<Rightarrow> (disk, tx_exn, string \<times> bytes option) action" where
  "local_read_one s name =
     bindS (local_path s name) (\<lambda>path.
     bindS (os_lexists path) (\<lambda>there.
     if \<not> there then returnS (name, None)
     else bindS (refuse_irregular s path) (\<lambda>_.
       bindS (os_read (ls_resolve s) path) (\<lambda>content. returnS (name, Some content)))))"

definition local_read :: "local_site \<Rightarrow> disk reader" where
  "local_read s names = bindS (mapS (local_read_one s) names) (\<lambda>es. returnS (dict_update [] es))"

text \<open>The nearest directory above that exists; the fuel is the length of the path.\<close>

fun existing_ancestor :: "nat \<Rightarrow> string \<Rightarrow> string \<Rightarrow> (disk, tx_exn, string) action" where
  "existing_ancestor 0 parent p = raiseS (Tx Still_running [])"
| "existing_ancestor (Suc n) parent p =
     bindS (os_lexists p) (\<lambda>there.
     if there then returnS p
     else if posix_dirname p = p then raiseS (os_error (''could not resolve config parent: '' @ parent))
     else existing_ancestor n parent (posix_dirname p))"

definition require_inside :: "local_site \<Rightarrow> string \<Rightarrow> string \<Rightarrow> (disk, tx_exn, unit) action" where
  "require_inside s parent p =
     bindS (os_realpath (ls_resolve s) p) (\<lambda>real.
     requireS (common_path (ls_dir s) real = ls_dir s) (os_error (''config parent resolves outside destination: '' @ parent)))"

definition prepare_parent :: "local_site \<Rightarrow> string \<Rightarrow> (disk, tx_exn, unit) action" where
  "prepare_parent s parent =
     bindS (existing_ancestor (Suc (length parent)) parent parent) (\<lambda>anc.
     bindS (os_islink anc) (\<lambda>link.
     bindS (requireS (\<not> link) (os_error (''refusing symlinked config parent: '' @ anc))) (\<lambda>_.
     bindS (require_inside s parent anc) (\<lambda>_.
     bindS (os_makedirs (ls_resolve s) parent) (\<lambda>_.
     require_inside s parent parent)))))"

definition target_mode :: "local_site \<Rightarrow> string \<Rightarrow> (disk, tx_exn, int) action" where
  "target_mode s path =
     bindS (os_lexists path) (\<lambda>there.
     bindS (whenS there (refuse_irregular s path)) (\<lambda>_.
     bindS (os_isfile (ls_resolve s) path) (\<lambda>regular.
     if regular then os_mode path else returnS 420)))"

text \<open>The file as it is just before it is replaced; no expectation when the caller gave none.\<close>

definition expect_unchanged :: "local_site \<Rightarrow> string \<Rightarrow> bytes option option \<Rightarrow> (disk, tx_exn, unit) action" where
  "expect_unchanged s name expected = (case expected of
     None \<Rightarrow> returnS ()
   | Some want \<Rightarrow>
       bindS (read_one (local_read s) name) (\<lambda>current.
       requireS (current = want) (conflict_error (''concurrent configuration modification detected: '' @ name))))"

definition install :: "bool \<Rightarrow> string \<Rightarrow> string \<Rightarrow> (disk, tx_exn, unit) action" where
  "install exclusive temporary path =
     (if exclusive then bindS (os_link temporary path) (\<lambda>_. os_remove temporary) else os_replace temporary path)"

definition local_upload ::
    "local_site \<Rightarrow> string \<Rightarrow> bytes \<Rightarrow> bool \<Rightarrow> bytes option option \<Rightarrow> (disk, tx_exn, unit) action" where
  "local_upload s name content exclusive expected =
     bindS (local_path s name) (\<lambda>path.
     let parent = posix_dirname path in
     bindS (prepare_parent s parent) (\<lambda>_.
     bindS (target_mode s path) (\<lambda>mode.
     bindS (os_mkstemp (ls_names s) ''.kace-part-'' parent) (\<lambda>temporary.
     on_failure
       (bindS (os_write_sync temporary content) (\<lambda>_.
        bindS (os_chmod temporary mode) (\<lambda>_.
        bindS (expect_unchanged s name expected) (\<lambda>_.
        bindS (install exclusive temporary path) (\<lambda>_.
        whenS (ls_posix s) (os_sync_dir parent))))))
       (missing_ok (os_remove temporary))))))"

definition local_upload_if_absent :: "local_site \<Rightarrow> string \<Rightarrow> bytes \<Rightarrow> bytes option \<Rightarrow> (disk, tx_exn, unit) action" where
  "local_upload_if_absent s name content previous =
     (if previous \<noteq> None then raiseS (no_replacement ''local filesystem'') else local_upload s name content True None)"

definition local_upload_if_unchanged :: "local_site \<Rightarrow> string \<Rightarrow> bytes \<Rightarrow> bytes option \<Rightarrow> (disk, tx_exn, unit) action" where
  "local_upload_if_unchanged s name content previous = local_upload s name content (previous = None) (Some previous)"

definition local_delete :: "local_site \<Rightarrow> string \<Rightarrow> (disk, tx_exn, unit) action" where
  "local_delete s name =
     bindS (local_path s name) (\<lambda>path.
     missing_ok (bindS (refuse_irregular s path) (\<lambda>_. os_remove path)))"

end
