(* ===== verification/Printer_Client.thy ===== *)
theory Printer_Client
  imports Config_Transport Firmware_Deployer
begin

text \<open>
  The transports of one printer: the local directory beside its Moonraker, the choice
  \<open>configuration_transport\<close> makes, and \<open>_MoonrakerClient\<close> of \<open>core/deployer.py\<close>, the client of the
  firmware deployer.  The world is a disk and the rest.
\<close>

type_synonym 'n printer_world = "disk \<times> 'n"

definition on_disk :: "(disk, tx_exn, 'a) action \<Rightarrow> ('n printer_world, tx_exn, 'a) action" where
  "on_disk m w = (case m (fst w) of (r, d) \<Rightarrow> (r, (d, snd w)))"

subsection \<open>Local transports\<close>

definition os_isdir :: "resolver \<Rightarrow> string \<Rightarrow> (disk, tx_exn, bool) action" where
  "os_isdir rp p = os_ask (\<lambda>d. followed rp d p = Some Directory)"

text \<open>\<open>LocalConfigTransport.__init__\<close>, with the working directory of the process.\<close>

definition open_site :: "resolver \<Rightarrow> string list \<Rightarrow> bool \<Rightarrow> string \<Rightarrow> string \<Rightarrow> (disk, tx_exn, local_site) action" where
  "open_site rp names posix cwd dir =
     bindS (os_realpath rp (posix_normpath (posix_join cwd dir))) (\<lambda>real.
     bindS (os_isdir rp real) (\<lambda>there.
     bindS (requireS there (os_error real)) (\<lambda>_.
     returnS \<lparr>ls_dir = real, ls_resolve = rp, ls_names = names, ls_posix = posix\<rparr>)))"

definition local_destination :: "local_site \<Rightarrow> string list" where
  "local_destination s = [''local'', ls_dir s]"

text \<open>An offline directory has nothing to restart.\<close>

definition offline_transport :: "local_site \<Rightarrow> 'n printer_world tx_env \<Rightarrow> 'n printer_world tx_env" where
  "offline_transport s env = env\<lparr>
     te_read := (\<lambda>names. on_disk (local_read s names)),
     te_validate_target := returnS (),
     te_supports := (\<lambda>previous. previous = None),
     te_upload := (\<lambda>name content previous. on_disk (local_upload_if_absent s name content previous)),
     te_restart := (\<lambda>_. raiseS (Tx Runtime_failed ''offline configuration cannot restart Klipper'')),
     te_restart_moonraker := raiseS (Tx Runtime_failed ''offline configuration cannot restart Moonraker''),
     te_online := returnS False,
     te_klipper_state := returnS ''disconnected'',
     te_verify_active := None,
     te_destination_key := returnS (local_destination s),
     te_destination_lock := None\<rparr>"

definition validate_local_target :: "'n printer_world http_host \<Rightarrow> endpoint \<Rightarrow> local_site \<Rightarrow> ('n printer_world, tx_exn, unit) action" where
  "validate_local_target h e s =
     bindS (validate_moonraker_target h e) (\<lambda>_.
     bindS (active_config h e) (\<lambda>active.
     requireS (active = posix_join (ls_dir s) root_remote) (conflict_error ''local destination does not match active Klipper printer.cfg'')))"

text \<open>\<open>exclusive_file_lock\<close> of \<open>core/workspace.py\<close>: taking and releasing the lock at a path.\<close>

record 'w file_lock =
  fl_acquire :: "string \<Rightarrow> ('w, tx_exn, unit) action"
  fl_release :: "string \<Rightarrow> ('w, tx_exn, unit) action"

definition lock_path :: "local_site \<Rightarrow> string" where
  "lock_path s = posix_join (ls_dir s) ''.kace-deploy.lock''"

definition destination_lock ::
    "'n printer_world file_lock \<Rightarrow> local_site \<Rightarrow> ('n printer_world, tx_exn, unit) action \<times> ('n printer_world, tx_exn, unit) action" where
  "destination_lock l s =
     (bindS (on_disk (os_islink (lock_path s))) (\<lambda>link.
      bindS (requireS (\<not> link) (conflict_error ''refusing a symlinked destination lock'')) (\<lambda>_. fl_acquire l (lock_path s))),
      fl_release l (lock_path s))"

definition local_printer_transport ::
    "'n printer_world http_host \<Rightarrow> endpoint \<Rightarrow> (config_plan \<Rightarrow> (tx_exn, (string, options) dict) res) \<Rightarrow> 'n printer_world file_lock
     \<Rightarrow> local_site \<Rightarrow> 'n printer_world tx_env \<Rightarrow> 'n printer_world tx_env" where
  "local_printer_transport h e expected l s env = (moonraker_transport h e expected env)\<lparr>
     te_read := (\<lambda>names. on_disk (local_read s names)),
     te_validate_target := validate_local_target h e s,
     te_supports := (\<lambda>_. True),
     te_upload := (\<lambda>name content previous. on_disk (local_upload_if_unchanged s name content previous)),
     te_destination_key := returnS (local_destination s),
     te_destination_lock := Some (destination_lock l s)\<rparr>"

subsection \<open>The choice\<close>

datatype transport = Remote_printer | Local_printer local_site

definition local_hosts :: "string list" where
  "local_hosts = [''localhost'', ''127.0.0.1'', ''::1'']"

definition configuration_transport ::
    "'n printer_world http_host \<Rightarrow> resolver \<Rightarrow> string list \<Rightarrow> bool \<Rightarrow> string \<Rightarrow> endpoint \<Rightarrow> ('n printer_world, tx_exn, transport) action" where
  "configuration_transport h rp names posix cwd e =
     bindS (liftS (bindE (base_url h (ep_host e) (ep_port e)) (urlsplit h))) (\<lambda>u.
     if posix \<and> (case su_hostname u of Some n \<Rightarrow> n \<in> set local_hosts | None \<Rightarrow> False) then
       bindS (validate_moonraker_target h e) (\<lambda>_.
       bindS (active_config h e) (\<lambda>active.
       bindS (on_disk (open_site rp names posix cwd (posix_dirname active))) (\<lambda>s.
       bindS (validate_local_target h e s) (\<lambda>_.
       returnS (Local_printer s)))))
     else returnS Remote_printer)"

definition with_transport ::
    "'n printer_world http_host \<Rightarrow> endpoint \<Rightarrow> (config_plan \<Rightarrow> (tx_exn, (string, options) dict) res) \<Rightarrow> 'n printer_world file_lock
     \<Rightarrow> transport \<Rightarrow> 'n printer_world tx_env \<Rightarrow> 'n printer_world tx_env" where
  "with_transport h e expected l t env = (case t of
     Remote_printer \<Rightarrow> moonraker_transport h e expected env
   | Local_printer s \<Rightarrow> local_printer_transport h e expected l s env)"

subsection \<open>The client of the deployer\<close>

definition moonraker_net ::
    "'w http_host \<Rightarrow> endpoint \<Rightarrow> 'w snapshot_net \<Rightarrow> 'w snapshot_net" where
  "moonraker_net h e n = n\<lparr>
     nt_download := (\<lambda>name. bindS (download_printer_cfg h e name) (\<lambda>(ok, content). returnS (ok, Some content))),
     nt_upload := (\<lambda>path name. bindS (upload_printer_cfg h e path name) (\<lambda>r. returnS (fst r))),
     nt_delete := (\<lambda>name. bindS (delete_config_file h e name) (\<lambda>r. returnS (fst r))),
     nt_restart := bindS (restart_firmware h e) (\<lambda>r. returnS (fst r)),
     nt_read := moonraker_read h e\<rparr>"

definition printer_versions :: "'w http_host \<Rightarrow> endpoint \<Rightarrow> ('w, tx_exn, (string, string) dict) action" where
  "printer_versions h e = bindS (get_mcu_versions h e) (\<lambda>d. returnS (map (\<lambda>(n, v). (n, text_of h v)) d))"

definition upload_config :: "'w http_host \<Rightarrow> endpoint \<Rightarrow> string \<Rightarrow> string \<Rightarrow> ('w, tx_exn, unit) action" where
  "upload_config h e path name =
     bindS (upload_printer_cfg h e path name) (\<lambda>(ok, detail). requireS ok (failed_runtime (''upload failed for '' @ name) detail))"

definition client_download :: "'w http_host \<Rightarrow> endpoint \<Rightarrow> 'w tx_env option \<Rightarrow> string \<Rightarrow> ('w, tx_exn, bool \<times> bytes option) action" where
  "client_download h e t name = (case t of
     Some env \<Rightarrow> bindS (read_one (te_read env) name) (\<lambda>v. returnS (v \<noteq> None, v))
   | None \<Rightarrow> bindS (download_printer_cfg h e name) (\<lambda>(ok, content). returnS (ok, Some content)))"

text \<open>The configuration transport of the client is optional.\<close>

definition moonraker_client :: "'w http_host \<Rightarrow> endpoint \<Rightarrow> 'w snapshot_net \<Rightarrow> 'w tx_env option \<Rightarrow> 'w deploy_client" where
  "moonraker_client h e n t =
     \<lparr>cl_online = moonraker_online h e,
      cl_klippy_state = klipper_state h e,
      cl_mcu_versions = printer_versions h e,
      cl_download = client_download h e t,
      cl_read = (case t of Some env \<Rightarrow> te_read env | None \<Rightarrow> moonraker_read h e),
      cl_supports = (\<lambda>previous. returnS (case t of Some env \<Rightarrow> te_supports env previous | None \<Rightarrow> False)),
      cl_upload = (\<lambda>content name previous. case t of Some env \<Rightarrow> te_upload env name content previous
        | None \<Rightarrow> raiseS (Tx Runtime_failed ''Moonraker has no atomic conditional config upload'')),
      cl_restore = (\<lambda>sn expected. restore_snapshot (moonraker_net h e n) sn False (Some expected)),
      cl_restart_moonraker = transport_restart_moonraker h e,
      cl_firmware_restart =
        bindS (restart_firmware h e) (\<lambda>(ok, detail). requireS ok (failed_runtime ''FIRMWARE_RESTART failed'' detail))\<rparr>"

end
