(* ===== verification/Transport_Properties.thy ===== *)
theory Transport_Properties
  imports Printer_Client Config_Claims
begin

text \<open>
  The local transport never leaves its directory and publishes a file in one step; a printer that is
  only reached through Moonraker is never written.
\<close>

subsection \<open>Paths below a directory\<close>

lemma norm_step_ordinary: "list_all ordinary seen \<Longrightarrow> path_sep \<notin> set w \<Longrightarrow> list_all ordinary (norm_step True seen w)"
  by (cases seen rule: rev_cases) (auto simp: norm_step_def ordinary_def)

lemma norm_parts_ordinary: "list_all ordinary (norm_parts True p)"
proof -
  have "list_all ordinary (foldl (norm_step True) seen ws)" if "list_all ordinary seen" "\<forall>w \<in> set ws. path_sep \<notin> set w" for seen ws
    using that by (induction ws arbitrary: seen) (auto simp: norm_step_ordinary)
  then show ?thesis by (simp add: norm_parts_def split_char_no_sep)
qed

text \<open>An absolute normalised path is the list of its parts.\<close>

definition path_of :: "string list \<Rightarrow> string" where
  "path_of ws = ''/'' @ join_with ''/'' ws"

lemma split_path_of: "list_all ordinary ws \<Longrightarrow> ws \<noteq> [] \<Longrightarrow> split_char path_sep (path_of ws) = [] # ws"
proof -
  assume o: "list_all ordinary ws" and ne: "ws \<noteq> []"
  have "split_char path_sep (join_with [path_sep] ws) = ws"
    using o ne by (intro split_join) (auto simp: list_all_iff ordinary_def)
  then show ?thesis by (simp add: path_of_def path_sep_def)
qed

lemma path_parts_of: "list_all ordinary ws \<Longrightarrow> path_parts (path_of ws) = ws"
proof (cases "ws = []")
  case False
  assume o: "list_all ordinary ws"
  with False show ?thesis by (auto simp: path_parts_def split_path_of list_all_iff ordinary_def filter_id_conv)
qed (simp add: path_of_def path_parts_def path_sep_def)

lemma normpath_absolute: "rooted p \<Longrightarrow> \<not> starts_with ''//'' p \<Longrightarrow> posix_normpath p = path_of (norm_parts True p)"
  by (auto simp: posix_normpath_def norm_slashes_def path_of_def rooted_def)

definition site_ok :: "local_site \<Rightarrow> bool" where
  "site_ok s = (\<exists>ws. ws \<noteq> [] \<and> list_all ordinary ws \<and> ls_dir s = path_of ws)"

lemma dir_start:
  assumes "site_ok s"
  obtains c cs where "ls_dir s = ''/'' @ c # cs" "c \<noteq> path_sep"
proof -
  obtain w ws where o: "list_all ordinary (w # ws)" and d: "ls_dir s = path_of (w # ws)"
    using assms by (metis site_ok_def list.exhaust)
  then obtain c cs where "w = c # cs" "c \<noteq> path_sep" by (cases w) (auto simp: ordinary_def)
  with that d show ?thesis by (cases ws) (auto simp: path_of_def)
qed

lemma joined_path_prefix: "\<forall>w \<in> set ws. path_sep \<notin> set w \<Longrightarrow> \<exists>z. foldl posix_join a ws = a @ z"
proof (induction ws arbitrary: a)
  case (Cons w ws)
  then have "\<not> rooted w" by (cases w) (auto simp: rooted_def path_sep_def)
  then have "\<exists>y. posix_join a w = a @ y" by (simp add: posix_join_def)
  then obtain y where "posix_join a w = a @ y" by blast
  moreover obtain z where "foldl posix_join (posix_join a w) ws = posix_join a w @ z" using Cons by fastforce
  ultimately show ?case by simp
qed simp

lemma candidate_parts:
  assumes "site_ok s"
  obtains ws where "candidate_path s name = path_of ws" "list_all ordinary ws"
proof -
  obtain c cs where d: "ls_dir s = ''/'' @ c # cs" "c \<noteq> path_sep" by (rule dir_start [OF assms])
  obtain z where "joined_path (ls_dir s) name = ls_dir s @ z"
    using joined_path_prefix [of "split_char path_sep name"] split_char_no_sep by (metis joined_path_def)
  then have "rooted (joined_path (ls_dir s) name)" "\<not> starts_with ''//'' (joined_path (ls_dir s) name)"
    using d by (auto simp: rooted_def path_sep_def)
  then show ?thesis using that norm_parts_ordinary by (simp add: candidate_path_def normpath_absolute)
qed

lemma common_prefix_self: "common_prefix xs ys = xs \<longleftrightarrow> (\<exists>zs. ys = xs @ zs)"
  by (induction xs ys rule: common_prefix.induct) auto

lemma common_prefix_ordinary: "list_all ordinary xs \<Longrightarrow> list_all ordinary (common_prefix xs ys)"
  by (induction xs ys rule: common_prefix.induct) auto

lemma path_of_inj: "list_all ordinary xs \<Longrightarrow> list_all ordinary ys \<Longrightarrow> path_of xs = path_of ys \<Longrightarrow> xs = ys"
  by (metis path_parts_of)

lemma join_append: "xs \<noteq> [] \<Longrightarrow> zs \<noteq> [] \<Longrightarrow> join_with s (xs @ zs) = join_with s xs @ s @ join_with s zs"
  by (induction s xs rule: join_with.induct) (auto simp: neq_Nil_conv)

lemma common_path_of:
  "list_all ordinary xs \<Longrightarrow> list_all ordinary ys \<Longrightarrow> common_path (path_of xs) (path_of ys) = path_of (common_prefix xs ys)"
  by (simp add: common_path_def path_parts_of) (simp add: path_of_def)

lemma common_path_inside:
  assumes "site_ok s" and "list_all ordinary ws" and "common_path (ls_dir s) (path_of ws) = ls_dir s"
  shows "path_of ws = ls_dir s \<or> starts_with (ls_dir s @ ''/'') (path_of ws)"
proof -
  obtain ds where d: "ds \<noteq> []" "list_all ordinary ds" "ls_dir s = path_of ds" using assms(1) by (auto simp: site_ok_def)
  then have "path_of (common_prefix ds ws) = path_of ds"
    using assms(2,3) by (simp add: common_path_of)
  then have "common_prefix ds ws = ds" using d(2) by (intro path_of_inj) (simp_all add: common_prefix_ordinary)
  then obtain zs where "ws = ds @ zs" by (auto simp: common_prefix_self)
  then show ?thesis using d by (cases "zs = []") (auto simp: path_of_def join_append starts_with_iff)
qed


subsection \<open>One publication\<close>

lemma wp_local_path:
  "(common_path (ls_dir s) (candidate_path s name) = ls_dir s \<Longrightarrow> Q (candidate_path s name) (True, f)) \<Longrightarrow>
   (\<And>e. E e (True, f)) \<Longrightarrow> wp (watched P) (local_path s name) Q E (True, f)"
  unfolding local_path_def by (intro wp_bind wp_require wp_let wp_os_looks wp_return) auto

lemma wp_refuse: "Q () (True, f) \<Longrightarrow> (\<And>e. E e (True, f)) \<Longrightarrow> wp (watched P) (refuse_irregular s path) Q E (True, f)"
  unfolding refuse_irregular_def os_islink_def os_isfile_def
  by (intro wp_bind wp_os_ask wp_if wp_return wp_require) auto

lemma wp_lexists: "(\<And>b. Q b (True, f)) \<Longrightarrow> (\<And>e. E e (True, f)) \<Longrightarrow> wp (watched P) (os_lexists p) Q E (True, f)"
  unfolding os_lexists_def by (rule wp_os_ask)

lemma wp_read_one:
  assumes "P (candidate_path s name)" and "\<not> is_link (f (candidate_path s name))"
    and "Q None (True, f)" and "\<And>content m. f (candidate_path s name) = Some (Regular content m) \<Longrightarrow> Q (Some content) (True, f)"
    and "\<And>e. E e (True, f)"
  shows "wp (watched P) (read_one (local_read s) name) Q E (True, f)"
  unfolding read_one_def local_read_def local_read_one_def
  by (simp add: entry_def dict_update_def)
     (intro wp_bind wp_local_path wp_lexists wp_if wp_return wp_refuse wp_os_read wp_lift; auto simp: assms)

lemma wp_ancestor:
  "(\<And>a. Q a (True, f)) \<Longrightarrow> (\<And>e. E e (True, f)) \<Longrightarrow> wp (watched P) (existing_ancestor n parent p) Q E (True, f)"
  by (induction n arbitrary: p) (auto intro!: wp_bind wp_lexists wp_if wp_return wp_raise)

lemma wp_prepare:
  assumes "\<forall>q \<in> set (path_prefixes parent). \<not> P q" and "Q () (True, f)" and "\<And>e. E e (True, f)"
  shows "wp (watched P) (prepare_parent s parent) Q E (True, f)"
  unfolding prepare_parent_def require_inside_def os_islink_def
  by (intro wp_bind wp_ancestor wp_os_ask wp_require wp_os_looks wp_os_makedirs assms)

lemma wp_target_mode:
  "(\<And>m. Q m (True, f)) \<Longrightarrow> (\<And>e. E e (True, f)) \<Longrightarrow> wp (watched P) (target_mode s path) Q E (True, f)"
  unfolding target_mode_def os_isfile_def
  by (intro wp_bind wp_lexists wp_when wp_refuse wp_os_ask wp_if wp_os_mode wp_return) auto

text \<open>The directory above a path, the directories on the way there, and a new file in it.\<close>

lemma parts_ordinary: "list_all ordinary ws \<Longrightarrow> norm_parts True (path_of ws) = ws"
proof -
  have fold: "foldl (norm_step True) vs ws = vs @ ws" if "list_all ordinary ws" for vs ws
    using that by (induction ws arbitrary: vs) (auto simp: norm_step_def ordinary_def)
  assume o: "list_all ordinary ws"
  show ?thesis
  proof (cases "ws = []")
    case False
    then show ?thesis using o fold [OF o, of "[]"] by (simp add: norm_parts_def split_path_of norm_step_def)
  qed (simp add: norm_parts_def path_of_def norm_step_def path_sep_def)
qed

lemma prefixes_of: "list_all ordinary vs \<Longrightarrow> q \<in> set (path_prefixes (path_of vs)) \<Longrightarrow> \<exists>k. q = path_of (take k vs)"
  using parts_ordinary [of vs] by (auto simp: path_prefixes_def Let_def) (auto simp: path_of_def)

lemma concat_slashes: "vs \<noteq> [] \<Longrightarrow> concat (map (\<lambda>w. w @ ''/'') vs) = join_with ''/'' vs @ ''/''"
  by (induction "''/''" vs rule: join_with.induct) auto

lemma join_last_not_slash:
  "list_all ordinary vs \<Longrightarrow> vs \<noteq> [] \<Longrightarrow> \<exists>z c. join_with ''/'' vs = z @ [c] \<and> c \<noteq> path_sep"
proof (induction "''/''" vs rule: join_with.induct)
  case (2 w)
  then show ?case by (cases w rule: rev_cases) (auto simp: ordinary_def)
next
  case (3 w v vs)
  then obtain z c where "join_with ''/'' (v # vs) = z @ [c]" "c \<noteq> path_sep" by auto
  then show ?case by (intro exI [of _ "w @ ''/'' @ z"] exI [of _ c]) simp
qed simp

lemma dirname_of: "list_all ordinary vs \<Longrightarrow> ordinary w \<Longrightarrow> posix_dirname (path_of (vs @ [w])) = path_of vs"
proof (cases "vs = []")
  case True
  assume o: "ordinary w"
  then have "split_char path_sep (path_of [w]) = [[], w]" using split_path_of [of "[w]"] by simp
  with True show ?thesis by (simp add: posix_dirname_def Let_def path_of_def path_sep_def)
next
  case False
  assume o: "list_all ordinary vs" "ordinary w"
  then have s: "split_char path_sep (path_of (vs @ [w])) = [] # vs @ [w]" by (simp add: split_path_of)
  have up: "concat (map (\<lambda>w. w @ ''/'') (butlast ([] # vs @ [w]))) = path_of vs @ ''/''"
    using False concat_slashes [OF False] by (simp add: path_of_def butlast_append)
  obtain z c where z: "join_with ''/'' vs = z @ [c]" "c \<noteq> path_sep" using join_last_not_slash [OF o(1) False] by blast
  then have "\<not> list_all (\<lambda>c. c = path_sep) (path_of vs @ ''/'')" by (simp add: path_of_def)
  moreover have "rev (dropWhile (\<lambda>c. c = path_sep) (rev (path_of vs @ ''/''))) = path_of vs"
    using z by (simp add: path_of_def path_sep_def)
  ultimately show ?thesis by (simp only: posix_dirname_def s up Let_def if_False)
qed

lemma join_of: "list_all ordinary vs \<Longrightarrow> ordinary w \<Longrightarrow> posix_join (path_of vs) w = path_of (vs @ [w])"
proof (cases "vs = []")
  case True
  assume "ordinary w"
  then have "\<not> rooted w" by (cases w) (auto simp: ordinary_def rooted_def path_sep_def)
  then show ?thesis using True by (simp add: posix_join_def path_of_def ends_with_def)
next
  case False
  assume o: "list_all ordinary vs" "ordinary w"
  then have "\<not> rooted w" by (cases w) (auto simp: ordinary_def rooted_def path_sep_def)
  moreover obtain z c where z: "join_with ''/'' vs = z @ [c]" "c \<noteq> path_sep" using join_last_not_slash [OF o(1) False] by blast
  then have "\<not> ends_with ''/'' (path_of vs)" by (simp add: path_of_def ends_with_def path_sep_def)
  ultimately show ?thesis using False by (simp add: posix_join_def path_of_def join_append)
qed

text \<open>The paths a publication of \<open>name\<close> touches: its target and the possible names of the new file.\<close>

definition part_files :: "local_site \<Rightarrow> string \<Rightarrow> string set" where
  "part_files s name = (\<lambda>n. posix_join (posix_dirname (candidate_path s name)) (''.kace-part-'' @ n)) ` set (ls_names s)"

definition touched :: "local_site \<Rightarrow> string \<Rightarrow> string \<Rightarrow> bool" where
  "touched s name p = (p = candidate_path s name \<or> p \<in> part_files s name)"

definition holds :: "node option \<Rightarrow> bytes option \<Rightarrow> bool" where
  "holds x v = (case v of None \<Rightarrow> x = None | Some content \<Rightarrow> (\<exists>m. x = Some (Regular content m)))"

lemma holds_simps [simp]: "holds (Some (Regular content m)) (Some content)" "holds None None"
  by (simp_all add: holds_def)

lemma outside_prefixes:
  assumes "site_ok s" and "common_path (ls_dir s) (candidate_path s name) = ls_dir s" and "\<forall>n \<in> set (ls_names s). path_sep \<notin> set n"
  shows "\<forall>q \<in> set (path_prefixes (posix_dirname (candidate_path s name))). \<not> touched s name q"
proof -
  obtain ws where c: "candidate_path s name = path_of ws" "list_all ordinary ws" by (rule candidate_parts [OF assms(1)])
  have "ws \<noteq> []"
  proof
    assume "ws = []"
    moreover obtain ds where "ds \<noteq> []" "list_all ordinary ds" "ls_dir s = path_of ds" using assms(1) by (auto simp: site_ok_def)
    ultimately show False using assms(2) c path_of_inj [of "[]" ds] by (auto simp: common_path_of)
  qed
  then obtain vs w where w: "ws = vs @ [w]" by (cases ws rule: rev_cases) auto
  then have o: "list_all ordinary vs" "ordinary w" using c(2) by auto
  have "\<not> touched s name q" if q: "q \<in> set (path_prefixes (path_of vs))" for q
  proof -
    obtain k where k: "q = path_of (take k vs)" using prefixes_of [OF o(1) q] by blast
    have t: "list_all ordinary (take k vs)" using o(1) by (auto simp: list_all_iff dest: in_set_takeD)
    have ne: "q \<noteq> path_of (vs @ [x])" if "ordinary x" for x
    proof
      assume "q = path_of (vs @ [x])"
      then have "take k vs = vs @ [x]" using k t o(1) that by (intro path_of_inj) auto
      then have "length (take k vs) = length (vs @ [x])" by (rule arg_cong)
      then show False by simp
    qed
    moreover have "ordinary (''.kace-part-'' @ n)" if "n \<in> set (ls_names s)" for n
      using assms(3) that by (auto simp: ordinary_def path_sep_def)
    ultimately show ?thesis
      using o by (auto simp: touched_def part_files_def c(1) w dirname_of join_of)
  qed
  then show ?thesis using o by (simp add: c(1) w dirname_of)
qed

lemma wp_install:
  assumes "P t" and "P path" and "t \<noteq> path" and "\<And>x. f t = Some x \<Longrightarrow> exclusive \<longrightarrow> f path = None \<Longrightarrow> Q () (True, f(path := Some x, t := None))"
    and "\<And>x e. f t = Some x \<Longrightarrow> exclusive \<longrightarrow> f path = None \<Longrightarrow> E e (True, f(path := Some x))" and "\<And>e. E e (True, f)"
  shows "wp (watched P) (install exclusive t path) Q E (True, f)"
  unfolding install_def
  by (intro wp_if wp_bind wp_os_link wp_os_remove wp_os_replace) (use assms in \<open>auto simp: fun_upd_twist\<close>)

text \<open>From the new file to the target: writing, rechecking and installing it.\<close>

lemma wp_stage_file:
  assumes P: "P t" "P path" "t \<noteq> path" and path: "path = candidate_path s name"
    and f: "\<not> is_link (f path)" and Q: "\<And>g x. g = f(path := Some x, t := None) \<Longrightarrow> holds (f path) previous \<Longrightarrow>
       (\<exists>m. x = Regular content m) \<Longrightarrow> Q () (True, g)"
    and E: "\<And>e g. g path = f path \<or> (holds (f path) previous \<and> (\<exists>m. g path = Some (Regular content m))) \<Longrightarrow> E e (True, g)"
  shows "wp (watched P)
     (bindS (os_write_sync t content) (\<lambda>_.
      bindS (os_chmod t mode) (\<lambda>_.
      bindS (expect_unchanged s name (Some previous)) (\<lambda>_.
      bindS (install (previous = None) t path) (\<lambda>_.
      whenS (ls_posix s) (os_sync_dir parent)))))) Q E (True, f)"
proof -
  have tail: "wp (watched P) (bindS (expect_unchanged s name (Some previous)) (\<lambda>_.
      bindS (install (previous = None) t path) (\<lambda>_.
      whenS (ls_posix s) (os_sync_dir parent)))) Q E (True, f(t \<mapsto> Regular content m))" for m
  proof -
    have fin: "Q () (True, f(path := Some (Regular content m), t := None)) \<and> (\<forall>e. E e (True, f(path := Some (Regular content m), t := None)))
        \<and> (\<forall>e. E e (True, f(t \<mapsto> Regular content m, path := Some (Regular content m))))"
      if "holds (f path) previous" using Q [OF refl that] E that P(3) by auto
    have same: "E e (True, f(t \<mapsto> Regular content m))" for e using E P(3) by simp
    have conf: "wp (watched P) (bindS (install (previous = None) t path) (\<lambda>_. whenS (ls_posix s) (os_sync_dir parent))) Q E
        (True, f(t \<mapsto> Regular content m))" if "previous \<noteq> None \<Longrightarrow> holds (f path) previous"
    proof -
      have h: "holds (f path) previous" if "previous = None \<longrightarrow> (f(t \<mapsto> Regular content m)) path = None"
        using that \<open>previous \<noteq> None \<Longrightarrow> holds (f path) previous\<close> P(3) by (cases previous) (auto simp: holds_def)
      show ?thesis
        by (intro wp_bind wp_install wp_when wp_os_sync_dir) (use P same fin h in \<open>auto simp: fun_upd_twist\<close>)
    qed
    show ?thesis
      unfolding expect_unchanged_def
      by (simp, intro wp_bind wp_read_one wp_require conf)
         (use P path f same in \<open>auto simp: holds_def\<close>)
  qed
  show ?thesis
    by (rule wp_bind, rule wp_os_write, rule wp_bind, rule wp_os_chmod) (use P E tail in auto)
qed

text \<open>
  C16. Publication of one file is atomic and conditional.  Others may do anything on the disk but touch
  the file and its temporary names; any call may fail or be interrupted, a write half way.  When the
  upload returns, the file had the expected content (or was absent) before and has exactly the new
  content after, and no temporary file is left; when it raises, the file is untouched, or it had the
  expected content and now has the new one: never part of it, and never over other content.
\<close>

theorem local_publication_atomic:
  assumes "site_ok s" and "\<forall>n \<in> set (ls_names s). path_sep \<notin> set n" and "path = candidate_path s name"
    and "path \<notin> part_files s name" and "undisturbed (touched s name) d" and "\<not> is_link (node_at d path)"
    and "local_upload_if_unchanged s name content previous d = (r, d')"
  shows "(r = Inr () \<longrightarrow> holds (node_at d path) previous \<and> holds (node_at d' path) (Some content)
       \<and> (\<forall>t \<in> part_files s name. node_at d' t = node_at d t))
     \<and> (\<forall>e. r = Inl e \<longrightarrow> node_at d' path = node_at d path
       \<or> (holds (node_at d path) previous \<and> holds (node_at d' path) (Some content)))"
proof -
  define f where "f = snd (watched (touched s name) d)"
  let ?P = "touched s name"
  let ?Q = "\<lambda>_ c. holds (f path) previous \<and> holds (snd c path) (Some content) \<and> (\<forall>t \<in> part_files s name. snd c t = f t)"
  let ?E = "\<lambda>e c. snd c path = f path \<or> (holds (f path) previous \<and> holds (snd c path) (Some content))"
  have P: "?P path" "\<And>t. t \<in> part_files s name \<Longrightarrow> ?P t" using assms(3) by (auto simp: touched_def)
  have w: "watched ?P d = (True, f)" and f: "\<not> is_link (f path)" using assms(5,6) P(1) by (auto simp: watched_def f_def)
  have stage: "wp (watched ?P) (on_failure
       (bindS (os_write_sync t content) (\<lambda>_.
        bindS (os_chmod t mode) (\<lambda>_.
        bindS (expect_unchanged s name (Some previous)) (\<lambda>_.
        bindS (install (previous = None) t path) (\<lambda>_.
        whenS (ls_posix s) (os_sync_dir (posix_dirname path)))))))
       (missing_ok (os_remove t))) ?Q ?E (True, f(t \<mapsto> Regular [] 384))"
    if t: "t \<in> part_files s name" "f t = None" for t mode
  proof -
    have ne: "t \<noteq> path" "path \<noteq> t" using t(1) assms(4) by auto
    have E: "?E e (True, g(t := None)) \<and> ?E e (True, g)"
      if "g path = (f(t \<mapsto> Regular [] 384)) path \<or> holds ((f(t \<mapsto> Regular [] 384)) path) previous \<and> (\<exists>m. g path = Some (Regular content m))" for e g
      using that ne by auto
    have parts: "\<forall>u \<in> part_files s name. (f(path \<mapsto> x, t := None)) u = f u" for x
      using t assms(4) by auto
    show ?thesis
      unfolding on_failure_def missing_ok_def
      by (intro wp_catch wp_stage_file [where path = path and previous = previous] wp_bind wp_os_remove wp_if wp_return wp_raise)
         (use t P ne assms(3) f E parts in \<open>auto simp del: fun_upd_apply simp: fun_upd_same fun_upd_other\<close>)
  qed
  have "wp (watched ?P) (local_upload_if_unchanged s name content previous) ?Q ?E (True, f)"
    unfolding local_upload_if_unchanged_def local_upload_def Let_def
  proof (rule wp_bind, rule wp_local_path)
    assume inside: "common_path (ls_dir s) (candidate_path s name) = ls_dir s"
    note outside_prefixes [OF assms(1) inside assms(2)]
    then show "wp (watched ?P) (bindS (prepare_parent s (posix_dirname (candidate_path s name))) (\<lambda>_.
     bindS (target_mode s (candidate_path s name)) (\<lambda>mode.
     bindS (os_mkstemp (ls_names s) ''.kace-part-'' (posix_dirname (candidate_path s name))) (\<lambda>temporary.
     on_failure
       (bindS (os_write_sync temporary content) (\<lambda>_.
        bindS (os_chmod temporary mode) (\<lambda>_.
        bindS (expect_unchanged s name (Some previous)) (\<lambda>_.
        bindS (install (previous = None) temporary (candidate_path s name)) (\<lambda>_.
        whenS (ls_posix s) (os_sync_dir (posix_dirname (candidate_path s name))))))))
       (missing_ok (os_remove temporary)))))) ?Q ?E (True, f)"
      by (intro wp_bind [of _ "prepare_parent s p" for p] wp_bind [of _ "target_mode s p" for p]
          wp_bind [of _ "os_mkstemp ns pre p" for ns pre p] wp_prepare wp_target_mode wp_os_mkstemp)
         (use stage P assms(3) in \<open>auto simp: part_files_def\<close>)
  qed simp
  then have "wp (watched ?P) (local_upload_if_unchanged s name content previous) ?Q ?E (watched ?P d)" by (simp add: w)
  moreover have "node_at d' p = snd (watched ?P d') p" if "?P p" for p using that by (simp add: watched_def)
  moreover have "node_at d p = f p" if "?P p" for p using that by (simp add: watched_def f_def)
  ultimately have s: "wp (watched ?P) (local_upload_if_unchanged s name content previous) ?Q ?E (watched ?P d)"
    and d': "\<And>p. ?P p \<Longrightarrow> snd (watched ?P d') p = node_at d' p" and d: "\<And>p. ?P p \<Longrightarrow> f p = node_at d p"
    by simp_all
  show ?thesis
  proof (cases r)
    case (Inl e)
    then have "local_upload_if_unchanged s name content previous d = (Inl e, d')" using assms(7) by simp
    from wpE [OF s this] show ?thesis using Inl d' [OF P(1)] d [OF P(1)] by simp
  next
    case (Inr u)
    then have "local_upload_if_unchanged s name content previous d = (Inr u, d')" using assms(7) by simp
    from wpD [OF s this] show ?thesis using Inr d' d P by simp
  qed
qed

subsection \<open>A concrete directory\<close>

definition ex_site :: local_site where
  "ex_site = \<lparr>ls_dir = ''/c'', ls_resolve = (\<lambda>_ p. p), ls_names = [''x''], ls_posix = True\<rparr>"

definition ex_disk :: "turn list \<Rightarrow> disk" where
  "ex_disk ts = \<lparr>dk_nodes = [(''/c'', Directory), (''/c/printer.cfg'', Regular [9] 420)], dk_turns = ts\<rparr>"

lemma ex_site_ok: "site_ok ex_site"
  unfolding site_ok_def by (rule exI [of _ "[''c'']"]) (simp add: ex_site_def path_of_def ordinary_def path_sep_def)

lemma ex_part_names: "\<forall>n \<in> set (ls_names ex_site). path_sep \<notin> set n"
  by (simp add: ex_site_def path_sep_def)

lemma ex_paths: "candidate_path ex_site root_remote = ''/c/printer.cfg''" "''/c/printer.cfg'' \<notin> part_files ex_site root_remote"
  unfolding part_files_def by code_simp+

text \<open>The upload goes through, or is interrupted after two bytes of the new file.\<close>

lemma ex_publication:
  "local_upload_if_unchanged ex_site root_remote [1, 2, 3] (Some [9]) (ex_disk []) =
     (Inr (), \<lparr>dk_nodes = [(''/c'', Directory), (''/c/printer.cfg'', Regular [1, 2, 3] 420)], dk_turns = []\<rparr>)"
  by code_simp


theorem local_publication_atomic_witness:
  "\<exists>d'. local_upload_if_unchanged ex_site root_remote [1, 2, 3] (Some [9]) (ex_disk []) = (Inr (), d')
     \<and> holds (node_at d' ''/c/printer.cfg'') (Some [1, 2, 3])"
proof -
  have "undisturbed (touched ex_site root_remote) (ex_disk [])" "\<not> is_link (node_at (ex_disk []) ''/c/printer.cfg'')"
    by (simp_all add: undisturbed_def ex_disk_def node_at_def is_link_def)
  with local_publication_atomic [OF ex_site_ok ex_part_names ex_paths(1) [symmetric] ex_paths(2) _ _ ex_publication] ex_publication
  show ?thesis by blast
qed

subsection \<open>A printer only Moonraker reaches\<close>

lemma keeps_bind_yields:
  "keeps P m \<Longrightarrow> yields m R \<Longrightarrow> (\<And>x. R x \<Longrightarrow> keeps P (k x)) \<Longrightarrow> keeps P (bindS m k)"
  unfolding keeps_def yields_def bindS_def by (auto split: prod.splits sum.splits) (metis snd_conv)+

abbreviation unwritten :: "'w \<times> tx_core \<Rightarrow> bool" where
  "unwritten s \<equiv> fresh (snd s)"

lemma keeps_unwritten: "quiet_tx m \<Longrightarrow> keeps unwritten m"
proof (unfold keeps_def, intro allI impI)
  fix s :: "'a \<times> tx_core" assume q: "quiet_tx m" and f: "unwritten s"
  have w: "wp snd m (\<lambda>_. fresh) (\<lambda>_. fresh) (snd s)"
    using q f by (rule_tac quiet_wp) (auto simp: later_fresh)
  obtain r s' where m: "m s = (r, s')" by (cases "m s")
  show "unwritten (snd (m s))"
    using wpD [OF w] wpE [OF w] m by (cases r) auto
qed

lemma keeps_on_core [keeps_intros]: "(\<And>c. uploads (tc_log (f c)) = uploads (tc_log c)) \<Longrightarrow> keeps unwritten (on_core f)"
  unfolding on_core_def by (rule keeps_modify) (simp add: fresh_def)

lemma keeps_attempt [keeps_intros]: "keeps P m \<Longrightarrow> keeps P (attempt m)"
  unfolding attempt_def by (intro keeps_intros)

lemma keeps_sum [keeps_intros]:
  "(\<And>x. keeps P (g x)) \<Longrightarrow> (\<And>x. keeps P (h x)) \<Longrightarrow> keeps P (case r of Inl x \<Rightarrow> g x | Inr x \<Rightarrow> h x)"
  by (cases r) simp_all

lemmas keeps_tx = keeps_unwritten [OF quiet_tx_basic(5)] keeps_unwritten [OF quiet_tx_basic(6)] keeps_unwritten [OF quiet_tx_basic(7)]
  keeps_unwritten [OF quiet_tx_basic(8)] keeps_unwritten [OF quiet_tx_basic(9)] keeps_unwritten [OF quiet_parts(4)] keeps_unwritten [OF quiet_parts(5)]
  keeps_unwritten [OF quiet_parts(6)] keeps_unwritten [OF quiet_parts(9)] keeps_unwritten [OF quiet_rollback] keeps_unwritten [OF quiet_finish(1)]
  keeps_unwritten [OF quiet_finish(2)] keeps_unwritten [OF quiet_recheck]

lemma preflight_nothing:
  assumes "\<And>v. \<not> te_supports env v"
  shows "yields (preflight env) (\<lambda>pf. changed_artifacts (pf_plan pf) = [])"
proof -
  have "changed_artifacts p = []" if "require_conditional_writes env p s = (Inr u, s')" for p s u s'
    using that assms by (auto simp: require_conditional_writes_def Let_def whenS_def outside_def state_simps
        split: if_splits prod.splits)
  then show ?thesis
    unfolding yields_def preflight_def Let_def by (auto simp: state_simps)
qed

lemma unsupported_unwritten:
  assumes "\<And>v. \<not> te_supports env v"
  shows "keeps unwritten (run_transaction env)"
proof -
  have pub: "keeps unwritten (publish env p current)" if "changed_artifacts p = []" for p current
    unfolding publish_def ordered_artifacts_def by (auto simp: that sort_key_def intro!: keeps_intros keeps_tx)
  have decided: "keeps unwritten (decided env pf)" for pf
    unfolding decided_def decide_def choose_activation_def take_snapshot_def
    by (intro keeps_intros keeps_tx keeps_unwritten [OF quiet_log]) (simp_all)
  have pre: "keeps unwritten (preflight env)"
    unfolding preflight_def by (intro keeps_intros keeps_tx) simp
  have proceed: "keeps unwritten (proceed env pf)" if "changed_artifacts (pf_plan pf) = []" for pf
    unfolding proceed_def published_def by (intro keeps_intros keeps_tx decided pub that)
  have no_change: "yields (attempt (preflight env)) (\<lambda>r. \<forall>pf. r = Inr pf \<longrightarrow> changed_artifacts (pf_plan pf) = [])"
    using preflight_nothing [OF assms]
    by (fastforce simp: attempt_def yields_def catchS_def bindS_def returnS_def raiseS_def split: prod.splits sum.splits if_splits)
  have locked: "keeps unwritten (run_locked env)"
    unfolding run_locked_def
  proof (rule keeps_bind)
    have "keeps unwritten (case r of
       Inl e \<Rightarrow> returnS (tx_result_of env PRECONDITION_FAILED (''configuration preflight failed: '' @ tx_text e) None)
     | Inr pf \<Rightarrow> proceed env pf)" if "\<forall>pf. r = Inr pf \<longrightarrow> changed_artifacts (pf_plan pf) = []" for r
      using that by (cases r) (simp_all add: keeps_return proceed)
    then show "keeps unwritten (bindS (attempt (preflight env)) (\<lambda>r. case r of
       Inl e \<Rightarrow> returnS (tx_result_of env PRECONDITION_FAILED (''configuration preflight failed: '' @ tx_text e) None)
     | Inr pf \<Rightarrow> proceed env pf))"
      by (rule keeps_bind_yields [OF keeps_attempt [OF pre] no_change])
  qed (rule keeps_tx)
  show ?thesis
    unfolding run_transaction_def destination_key_def run_held_def interrupted_def
    by (intro keeps_intros keeps_tx locked)
qed

text \<open>
  C17. A printer that is only reached through Moonraker is never written: its interface has no upload
  on condition, so whatever the plan, the review, the callbacks and the server do, a transaction on
  this transport, returned or raised, has uploaded nothing.
\<close>

theorem remote_moonraker_never_written:
  assumes "new_transaction activation = Inr c0"
    and "run_transaction (moonraker_transport h e expected env) (w, c0) = (r, (w', c))"
  shows "uploads (tc_log c) = []"
proof -
  have "keeps unwritten (run_transaction (moonraker_transport h e expected env))"
    by (rule unsupported_unwritten) (simp add: moonraker_transport_def)
  from keepsD [OF this _ assms(2)] new_transaction_fresh [OF assms(1)] show ?thesis by (simp add: fresh_def)
qed

text \<open>A server that does not answer.\<close>

definition ex_http :: "printer http_host" where
  "ex_http = \<lparr>ht_open = (\<lambda>_ w. (Url_failed ''refused'', w)), ht_loads = (\<lambda>_. Inl []), ht_loads_strict = (\<lambda>_. Inl []),
     ht_encode = (\<lambda>_. []), ht_show = (\<lambda>_. []), ht_boundary = returnS ''b'', ht_bracketed_ok = (\<lambda>_. True),
     ht_expanduser = (\<lambda>p. p), ht_isfile = (\<lambda>_. returnS False), ht_read_file = (\<lambda>_. returnS [])\<rparr>"

definition ex_remote_env :: "printer tx_env" where
  "ex_remote_env = moonraker_transport ex_http \<lparr>ep_host = ''printer'', ep_port = 7125, ep_api_key = None\<rparr> (\<lambda>_. Inr [])
     (ex_tx_env [] (returnS ''ready'') True)"

theorem remote_moonraker_never_written_witness:
  "\<exists>r w' c. run_transaction ex_remote_env ((0, ex_files), ex_core) = (r, (w', c)) \<and> uploads (tc_log c) = []"
proof -
  obtain r w' c where run: "run_transaction ex_remote_env ((0, ex_files), ex_core) = (r, (w', c))" by (metis prod.collapse)
  from remote_moonraker_never_written [OF ex_core_new run [unfolded ex_remote_env_def]] run show ?thesis by blast
qed

end
