(* ===== verification/Py_Repr.thy ===== *)
theory Py_Repr
  imports Py_Numerals
begin

text \<open>
  Python's \<open>repr\<close> of a text, which messages of the modelled sources print: double quotes only
  when the text has a single and no double quote, escapes for the quote, the backslash and
  the characters of the model's range that are not printable.
\<close>

definition repr_char :: "char \<Rightarrow> char \<Rightarrow> string" where
  "repr_char q c =
     (if c = q \<or> c = CHR 0x5C then [CHR 0x5C, c]
      else if c = CHR 0x0A then [CHR 0x5C, CHR ''n'']
      else if c = CHR 0x0D then [CHR 0x5C, CHR ''r'']
      else if c = CHR 0x09 then [CHR 0x5C, CHR ''t'']
      else if code_of c < 32 \<or> (127 \<le> code_of c \<and> code_of c \<le> 160) \<or> code_of c = 173
        then [CHR 0x5C, CHR ''x'', hex_digit_char (code_of c div 16), hex_digit_char (code_of c mod 16)]
      else [c])"

definition py_repr :: "string \<Rightarrow> string" where
  "py_repr s = (let q = (if CHR 0x27 \<in> set s \<and> CHR 0x22 \<notin> set s then CHR 0x22 else CHR 0x27) in
     q # concat (map (repr_char q) s) @ [q])"

end
