(* ===== verification/Runtime_Authority.thy ===== *)
theory Runtime_Authority
  imports Board_Resolver Py_Repr Plan_Check Build_Properties
begin

text \<open>
  \<open>firmware/boards/runtime.py\<close>: which authority builds the firmware of a board, the contract
  pipeline or the legacy tools; the record of that decision in the session's data; and the
  one function that composes the builder, the artifact bridge and the plan of a contract
  target.  The default catalog and the home directory are arguments; a text option that is
  absent is the empty text, which the code treats alike.
\<close>

subsection \<open>The decision\<close>

datatype firmware_authority = BOARD_CONTRACT | LEGACY

record authority_decision =
  fad_authority :: firmware_authority
  fad_board_alias :: string
  fad_board_id :: string
  fad_hardware_variant_id :: string
  fad_build_target_id :: string
  fad_support_status :: string
  fad_reason :: string

datatype runtime_exn =
    Runtime_error string | Runtime_value_error string | Runtime_attribute_error
  | Runtime_build build_exn | Runtime_deploy deploy_exn

definition authority_value :: "firmware_authority \<Rightarrow> string" where
  "authority_value a = (case a of BOARD_CONTRACT \<Rightarrow> ''board_contract'' | LEGACY \<Rightarrow> ''legacy'')"

definition support_status_value :: "support_status \<Rightarrow> string" where
  "support_status_value s = (case s of
     PROVISIONAL \<Rightarrow> ''PROVISIONAL'' | BUILD_VERIFIED \<Rightarrow> ''BUILD_VERIFIED''
   | DEPLOYMENT_VERIFIED \<Rightarrow> ''DEPLOYMENT_VERIFIED'' | RUNTIME_SUPPORTED \<Rightarrow> ''RUNTIME_SUPPORTED''
   | CONFIG_ONLY \<Rightarrow> ''CONFIG_ONLY'' | BLOCKED \<Rightarrow> ''BLOCKED'')"

definition decision_identity :: "authority_decision \<Rightarrow> string list" where
  "decision_identity d = [fad_board_id d, fad_hardware_variant_id d, fad_build_target_id d]"

text \<open>\<open>__post_init__\<close>: a contract decision names its target whole, a legacy decision names none.\<close>

definition check_decision :: "authority_decision \<Rightarrow> (runtime_exn, authority_decision) res" where
  "check_decision d =
     require (\<not> (fad_authority d = BOARD_CONTRACT \<and> \<not> list_all (\<lambda>s. s \<noteq> []) (decision_identity d)))
       (Runtime_value_error ''BoardContract authority requires an exact target identity'')
     (require (\<not> (fad_authority d = LEGACY \<and> list_ex (\<lambda>s. s \<noteq> []) (decision_identity d)))
       (Runtime_value_error ''legacy authority may not carry BoardContract identity'')
     (Inr d))"

definition legacy_decision :: "string \<Rightarrow> string \<Rightarrow> (runtime_exn, authority_decision) res" where
  "legacy_decision alias reason = check_decision
     \<lparr>fad_authority = LEGACY, fad_board_alias = alias, fad_board_id = [], fad_hardware_variant_id = [],
      fad_build_target_id = [], fad_support_status = [], fad_reason = reason\<rparr>"

definition runtime_status :: "support_status \<Rightarrow> bool" where
  "runtime_status s = (s = RUNTIME_SUPPORTED \<or> s = DEPLOYMENT_VERIFIED)"

definition runtime_targets :: "board_contract \<Rightarrow> (hardware_variant \<times> build_target) list" where
  "runtime_targets c = concat (map (\<lambda>v. map (Pair v)
     (filter (\<lambda>t. runtime_status (bt_support_status t)) (hv_build_targets v))) (bc_hardware_variants c))"

definition mcu_identifies :: "(string \<Rightarrow> string) \<Rightarrow> string \<Rightarrow> hardware_variant \<Rightarrow> bool" where
  "mcu_identifies nfkc observed_mcu v =
     (observed_mcu = normalize_exact_alias nfkc (ps_model (hv_processor v))
      \<or> observed_mcu = normalize_exact_alias nfkc (ps_resolved_mcu (hv_processor v)))"

text \<open>The candidate that is taken, with the reason that is recorded.\<close>

definition choose_runtime_target ::
    "(string \<Rightarrow> string) \<Rightarrow> board_contract \<Rightarrow> (hardware_variant \<times> build_target) list \<Rightarrow> string
     \<Rightarrow> (runtime_exn, (hardware_variant \<times> build_target) \<times> string) res" where
  "choose_runtime_target nfkc contract candidates detected_mcu =
     (case candidates of
        [vt] \<Rightarrow> Inr (vt, ''exact alias resolved to the sole runtime-authoritative build target'')
      | _ \<Rightarrow>
         (let observed_mcu = normalize_exact_alias nfkc detected_mcu in
          if observed_mcu = [] then Inl (Runtime_error (bc_board_id contract @ '' has ''
              @ show_int (int (length candidates)) @ '' runtime targets and ''
              @ ''KACE MCU detection did not identify an exact variant''))
          else (case filter (\<lambda>(v, t). mcu_identifies nfkc observed_mcu v) candidates of
             [vt] \<Rightarrow> Inr (vt, ''exact alias and existing KACE MCU detection '' @ py_repr observed_mcu
               @ '' resolved one runtime-authoritative build target'')
           | _ \<Rightarrow> Inl (Runtime_error (''detected MCU '' @ py_repr detected_mcu
               @ '' does not identify exactly one runtime variant of '' @ bc_board_id contract)))))"

definition resolve_firmware_authority ::
    "(string \<Rightarrow> string) \<Rightarrow> board_catalog \<Rightarrow> string \<Rightarrow> string \<Rightarrow> (runtime_exn, authority_decision) res" where
  "resolve_firmware_authority nfkc cat alias detected_mcu =
     (case resolve_exact nfkc cat alias of
        None \<Rightarrow> legacy_decision alias ''no exact BoardContract alias''
      | Some contract \<Rightarrow>
         (let candidates = runtime_targets contract in
          if candidates = [] then legacy_decision alias ''contract has no runtime-authoritative build target''
          else bindE (choose_runtime_target nfkc contract candidates detected_mcu) (\<lambda>((v, t), reason).
            require (rr_status (resolve nfkc cat alias (Some (hv_id v)) (Some (bt_id t))) = RESOLVED)
              (Runtime_error ''runtime target resolution failed'')
            (check_decision
               \<lparr>fad_authority = BOARD_CONTRACT, fad_board_alias = alias, fad_board_id = bc_board_id contract,
                fad_hardware_variant_id = hv_id v, fad_build_target_id = bt_id t,
                fad_support_status = support_status_value (bt_support_status t), fad_reason = reason\<rparr>))))"

subsection \<open>Recording the decision\<close>

definition decision_mapping :: "authority_decision \<Rightarrow> pydict" where
  "decision_mapping d =
     [(KStr ''authority'', PStr (authority_value (fad_authority d))), (KStr ''board_alias'', PStr (fad_board_alias d)),
      (KStr ''board_id'', PStr (fad_board_id d)), (KStr ''hardware_variant_id'', PStr (fad_hardware_variant_id d)),
      (KStr ''build_target_id'', PStr (fad_build_target_id d)), (KStr ''support_status'', PStr (fad_support_status d)),
      (KStr ''reason'', PStr (fad_reason d))]"

definition authority_event :: "authority_decision \<Rightarrow> pydict" where
  "authority_event d =
     [(KStr ''schema'', PStr ''kace-firmware-authority-event/v1''),
      (KStr ''firmware_authority'', PStr (authority_value (fad_authority d))),
      (KStr ''board_alias'', PStr (fad_board_alias d)), (KStr ''board_id'', PStr (fad_board_id d)),
      (KStr ''hardware_variant_id'', PStr (fad_hardware_variant_id d)),
      (KStr ''build_target_id'', PStr (fad_build_target_id d)),
      (KStr ''support_status'', PStr (fad_support_status d)), (KStr ''reason'', PStr (fad_reason d))]"

text \<open>
  \<open>user_data.setdefault("firmware_authority_events", []).append(dict(event))\<close>: a value that is
  no list has no \<open>append\<close>.
\<close>

definition append_event :: "pydict \<Rightarrow> pydict \<Rightarrow> (runtime_exn, pydict) res" where
  "append_event user_data event =
     (case dict_get user_data (KStr ''firmware_authority_events'') of
        None \<Rightarrow> Inr (dict_set user_data (KStr ''firmware_authority_events'') (PList [PDict event]))
      | Some (PList events) \<Rightarrow>
          Inr (dict_set user_data (KStr ''firmware_authority_events'') (PList (events @ [PDict event])))
      | Some _ \<Rightarrow> Inl Runtime_attribute_error)"

definition record_firmware_authority ::
    "pydict \<Rightarrow> authority_decision \<Rightarrow> (runtime_exn, pydict \<times> pydict) res" where
  "record_firmware_authority user_data d =
     (let event = authority_event d;
          u1 = dict_set user_data (KStr ''firmware_authority'') (PStr (authority_value (fad_authority d)));
          u2 = dict_set u1 (KStr ''firmware_authority_decision'') (PDict (decision_mapping d));
          u3 = dict_set u2 (KStr ''firmware_authority_event'') (PDict event) in
      bindE (append_event u3 event) (\<lambda>u4. Inr (event, u4)))"

text \<open>The failure names contract authority, no identity and the blocked status.\<close>

definition record_board_contract_authority_failure ::
    "pydict \<Rightarrow> string \<Rightarrow> string \<Rightarrow> (runtime_exn, pydict \<times> pydict) res" where
  "record_board_contract_authority_failure user_data board_alias error_text =
     (let event =
            [(KStr ''schema'', PStr ''kace-firmware-authority-event/v1''),
             (KStr ''firmware_authority'', PStr (authority_value BOARD_CONTRACT)),
             (KStr ''board_alias'', PStr board_alias), (KStr ''board_id'', PStr []),
             (KStr ''hardware_variant_id'', PStr []), (KStr ''build_target_id'', PStr []),
             (KStr ''support_status'', PStr (support_status_value BLOCKED)), (KStr ''reason'', PStr error_text)];
          u1 = dict_set user_data (KStr ''firmware_authority'') (PStr (authority_value BOARD_CONTRACT));
          u2 = dict_set u1 (KStr ''firmware_authority_decision'') (PDict event);
          u3 = dict_set u2 (KStr ''firmware_authority_event'') (PDict event) in
      bindE (append_event u3 event) (\<lambda>u4. Inr (event, u4)))"

subsection \<open>The contract pipeline\<close>

datatype argv_value = Argv_none | Argv_text string | Argv_items "string list" | Argv_other

definition argv_of :: "argv_value \<Rightarrow> string list \<Rightarrow> (runtime_exn, string list) res" where
  "argv_of value usual = (case value of
     Argv_none \<Rightarrow> Inr usual
   | Argv_text s \<Rightarrow> Inr [s]
   | Argv_items items \<Rightarrow> Inr items
   | Argv_other \<Rightarrow> Inl (Runtime_error ''build command must be an argv sequence''))"

text \<open>The options of the session's data that the pipeline reads.\<close>

record runtime_options =
  ro_output_directory :: string
  ro_plan_directory :: string
  ro_staging_parent :: string
  ro_source_checkout :: string
  ro_git_command :: argv_value
  ro_make_command :: argv_value
  ro_concurrency :: "int option"
  ro_last_successful :: string

record runtime_bundle =
  rb_decision :: authority_decision
  rb_proof :: build_proof
  rb_artifact :: build_artifact
  rb_deployment_plan :: deployment_plan

definition all_same :: "'a \<Rightarrow> 'a \<Rightarrow> 'a \<Rightarrow> bool" where
  "all_same x y z = (x = y \<and> y = z)"

text \<open>\<open>__post_init__\<close> of the bundle; \<open>sha\<close> is the SHA-256 the proof's digest is computed with.\<close>

definition check_bundle :: "(string \<Rightarrow> string) \<Rightarrow> runtime_bundle \<Rightarrow> (runtime_exn, runtime_bundle) res" where
  "check_bundle sha b =
     (let d = rb_decision b; p = rb_proof b; a = rb_artifact b; pl = rb_deployment_plan b;
          expected = (fad_board_id d, fad_hardware_variant_id d, fad_build_target_id d) in
      require (list_all (\<lambda>observed. observed = expected)
          [(bp_board_id p, bp_hardware_variant_id p, bp_build_target_id p),
           (ba_board_id a, ba_hardware_variant_id a, ba_build_target_id a),
           (dp_board_id pl, dp_hardware_variant_id pl, dp_build_target_id pl)])
        (Runtime_error ''BuildProof, BuildArtifact and DeploymentPlan do not share the selected BoardContract identity'')
      (require (all_same (bp_contract_digest p) (ba_board_contract_digest a) (dp_board_contract_digest pl))
        (Runtime_error ''contract digests differ across build evidence'')
      (require (all_same (bp_klipper_commit p) (ba_klipper_commit a) (dp_klipper_commit pl))
        (Runtime_error ''Klipper commits differ across build evidence'')
      (require (all_same (build_proof_digest sha p) (ba_build_proof_digest a) (dp_build_proof_digest pl))
        (Runtime_error ''BuildProof digest differs across build evidence'')
      (Inr b)))))"

definition buildR :: "('w, 'a) build \<Rightarrow> ('w build_state, runtime_exn, 'a) action" where
  "buildR m s = (case m s of (r, s') \<Rightarrow> (mapI Runtime_build r, s'))"

definition deployR :: "('w, 'a) deploy \<Rightarrow> ('w build_state, runtime_exn, 'a) action" where
  "deployR m s = (case m (bs_world s) of (r, w) \<Rightarrow> (mapI Runtime_deploy r, s\<lparr>bs_world := w\<rparr>))"

definition text_or :: "string \<Rightarrow> string \<Rightarrow> string" where
  "text_or s other = (if s = [] then other else s)"

definition runtime_context ::
    "string \<Rightarrow> env \<Rightarrow> runtime_options \<Rightarrow> (runtime_exn, build_context) res" where
  "runtime_context home environ ro =
     bindE (argv_of (ro_git_command ro) [''git'']) (\<lambda>git.
     bindE (argv_of (ro_make_command ro) [''make'']) (\<lambda>make.
     let cx = \<lparr>cx_output_directory = text_or (ro_output_directory ro) (path_join home ''kace/board-contract-builds''),
           cx_staging_parent = ro_staging_parent ro,
           cx_source_checkout = text_or (ro_source_checkout ro)
             (case dict_get environ ''KACE_BOARD_CONTRACT_SOURCE'' of Some p \<Rightarrow> p | None \<Rightarrow> []),
           cx_git_command = git, cx_make_command = make, cx_concurrency = ro_concurrency ro,
           cx_environment_path = [], cx_allow_lto_retry = True\<rparr> in
     bindE (mapI Runtime_value_error (check_context cx)) (\<lambda>_. Inr cx)))"

text \<open>Proof, artifact and plan of one selected target, in this order.\<close>

definition contract_evidence ::
    "build_tools \<Rightarrow> (string \<Rightarrow> string) \<Rightarrow> board_catalog \<Rightarrow> string \<Rightarrow> string \<Rightarrow> 'w build_host \<Rightarrow> build_context
     \<Rightarrow> board_contract \<Rightarrow> authority_decision \<Rightarrow> string \<Rightarrow> string
     \<Rightarrow> ('w build_state, runtime_exn, build_proof \<times> build_artifact \<times> deployment_plan) action" where
  "contract_evidence tools nfkc cat source_commit source_repository h cx contract d plan_directory last_successful =
     bindS (buildR (build_firmware tools nfkc cat source_commit source_repository h cx
       (bc_board_id contract) (fad_hardware_variant_id d) (fad_build_target_id d))) (\<lambda>proof_value.
     bindS (deployR (build_artifact_from_proof tools h proof_value contract)) (\<lambda>artifact.
     bindS (deployR (create_deployment_plan tools h contract artifact plan_directory last_successful)) (\<lambda>plan.
     returnS (proof_value, artifact, plan))))"

definition build_board_contract_runtime ::
    "build_tools \<Rightarrow> (string \<Rightarrow> string) \<Rightarrow> board_catalog \<Rightarrow> string \<Rightarrow> string \<Rightarrow> 'w build_host \<Rightarrow> string
     \<Rightarrow> runtime_options \<Rightarrow> authority_decision \<Rightarrow> ('w build_state, runtime_exn, runtime_bundle) action" where
  "build_board_contract_runtime tools nfkc cat source_commit source_repository h home ro d =
     bindS (requireS (fad_authority d = BOARD_CONTRACT)
       (Runtime_error ''runtime build requires BoardContract authority'')) (\<lambda>_.
     (case by_id nfkc cat (fad_board_id d) of
        None \<Rightarrow> raiseS (Runtime_error ''selected contract disappeared from the catalog'')
      | Some contract \<Rightarrow>
         bindS (requireS (case contract_variant contract (fad_hardware_variant_id d) of
              None \<Rightarrow> False
            | Some v \<Rightarrow> (case variant_target v (fad_build_target_id d) of
                None \<Rightarrow> False | Some t \<Rightarrow> runtime_status (bt_support_status t)))
           (Runtime_error ''selected target is no longer runtime-authoritative'')) (\<lambda>_.
         bindS (liftS (runtime_context home (bh_environ h) ro)) (\<lambda>cx.
         bindS (contract_evidence tools nfkc cat source_commit source_repository h cx contract d
           (text_or (ro_plan_directory ro) (path_join home ''kace/board-contract-plans''))
           (ro_last_successful ro)) (\<lambda>(proof_value, artifact, plan).
         liftS (check_bundle (tl_sha tools) \<lparr>rb_decision = d, rb_proof = proof_value, rb_artifact = artifact,
           rb_deployment_plan = plan\<rparr>))))))"

end
