(* ===== verification/Py_Bytes.thy ===== *)
theory Py_Bytes
  imports Py_Text Firmware_Image
begin

text \<open>
  \<open>str.encode("utf-8")\<close> and \<open>bytes.decode("utf-8")\<close> for the code points of the model, U+0000
  to U+00FF: one byte below 128, two bytes from there on.  A sequence that is no UTF-8, or one
  of a code point outside that range, decodes to nothing.
\<close>

definition utf8_char :: "char \<Rightarrow> bytes" where
  "utf8_char c = (let n = code_of c in
     if n < 128 then [word_of_nat n] else [word_of_nat (192 + n div 64), word_of_nat (128 + n mod 64)])"

definition utf8_encode :: "string \<Rightarrow> bytes" where
  "utf8_encode s = concat (map utf8_char s)"

fun utf8_decode :: "bytes \<Rightarrow> string option" where
  "utf8_decode [] = Some []"
| "utf8_decode (b # bs) =
     (if unat b < 128 then map_option (Cons (char_of (unat b))) (utf8_decode bs)
      else (case bs of
         [] \<Rightarrow> None
       | d # ds \<Rightarrow>
           if (unat b = 194 \<or> unat b = 195) \<and> 128 \<le> unat d \<and> unat d < 192
           then map_option (Cons (char_of ((unat b - 192) * 64 + (unat d - 128)))) (utf8_decode ds)
           else None))"

lemma unat_byte: "n < 256 \<Longrightarrow> unat (word_of_nat n :: 8 word) = n"
  by (simp add: unat_of_nat)

lemma code_of_range: "code_of c < 256"
  by (simp add: code_of_def)

lemma decode_char: "utf8_decode (utf8_char c @ bs) = map_option (Cons c) (utf8_decode bs)"
proof (cases "code_of c < 128")
  case True
  then show ?thesis by (simp add: utf8_char_def unat_byte code_of_def)
next
  case False
  define a b :: "8 word" where "a = word_of_nat (192 + code_of c div 64)" and "b = word_of_nat (128 + code_of c mod 64)"
  have d: "code_of c div 64 = 2 \<or> code_of c div 64 = 3" using False code_of_range [of c] by linarith
  have m: "code_of c mod 64 < 64" by simp
  from d m have ab: "unat a = 192 + code_of c div 64" "unat b = 128 + code_of c mod 64"
    unfolding a_def b_def by (auto simp only: intro!: unat_byte)
  have "(unat a - 192) * 64 + (unat b - 128) = code_of c" by (simp add: ab)
  then have "char_of ((unat a - 192) * 64 + (unat b - 128)) = c" by (simp add: code_of_def)
  moreover have "\<not> unat a < 128" "unat a = 194 \<or> unat a = 195" "128 \<le> unat b" "unat b < 192"
    using d m ab by auto
  moreover have "utf8_char c = [a, b]" using False by (simp add: utf8_char_def Let_def a_def b_def)
  ultimately show ?thesis by simp
qed

lemma utf8_decode_encode [simp]: "utf8_decode (utf8_encode s) = Some s"
  by (induction s) (simp_all add: utf8_encode_def decode_char)

end
