(* ===== verification/Deployment_Promotion.thy ===== *)
theory Deployment_Promotion
  imports Runtime_Authority Sd_Session Local_Disk Py_Bytes
begin

text \<open>
  \<open>firmware/boards/promotion.py\<close> with the mapping and the digest of a \<open>DeploymentProof\<close>: the
  reviewable request to promote the support status of a target, made only from the proof of a
  verified physical deployment of the current contract, and its publication as a file.
\<close>

subsection \<open>The canonical form of a deployment proof\<close>

definition state_value :: "deployment_state \<Rightarrow> string" where
  "state_value s = (case s of
     PREPARED \<Rightarrow> ''PREPARED'' | MEDIA_SELECTED \<Rightarrow> ''MEDIA_SELECTED'' | MEDIA_VERIFIED \<Rightarrow> ''MEDIA_VERIFIED''
   | COPIED \<Rightarrow> ''COPIED'' | COPY_VERIFIED \<Rightarrow> ''COPY_VERIFIED'' | EJECTED \<Rightarrow> ''EJECTED''
   | WAITING_FOR_MANUAL_POWER_CYCLE \<Rightarrow> ''WAITING_FOR_MANUAL_POWER_CYCLE''
   | WAITING_FOR_MCU_REENUMERATION \<Rightarrow> ''WAITING_FOR_MCU_REENUMERATION''
   | MCU_REENUMERATED \<Rightarrow> ''MCU_REENUMERATED'' | WAITING_FOR_KLIPPER \<Rightarrow> ''WAITING_FOR_KLIPPER''
   | VERIFYING_FIRMWARE \<Rightarrow> ''VERIFYING_FIRMWARE'' | VERIFIED \<Rightarrow> ''VERIFIED'' | FAILED \<Rightarrow> ''FAILED'')"

definition eject_value :: "eject_status \<Rightarrow> string" where
  "eject_value s = (case s of Eject_EJECTED \<Rightarrow> ''EJECTED'' | Eject_UNSUPPORTED \<Rightarrow> ''UNSUPPORTED'' | Eject_FAILED \<Rightarrow> ''FAILED'')"

definition media_mapping :: "media_candidate \<Rightarrow> pyval" where
  "media_mapping m = PDict
     [(KStr ''stable_id'', PStr (mc_stable_id m)), (KStr ''device_path'', PStr (mc_device_path m)),
      (KStr ''parent_device'', PStr (mc_parent_device m)), (KStr ''mount_path'', PStr (mc_mount_path m)),
      (KStr ''filesystem'', PStr (mc_filesystem m)), (KStr ''size_bytes'', PInt (mc_size_bytes m)),
      (KStr ''free_bytes'', PInt (mc_free_bytes m)), (KStr ''removable'', PBool (mc_removable m)),
      (KStr ''system_disk'', PBool (mc_system_disk m)), (KStr ''read_only'', PBool (mc_read_only m)),
      (KStr ''label'', PStr (mc_label m)), (KStr ''model'', PStr (mc_model m)), (KStr ''serial'', PStr (mc_serial m))]"

definition eject_mapping :: "eject_result \<Rightarrow> pyval" where
  "eject_mapping e = PDict
     [(KStr ''status'', PStr (eject_value (er_status e))), (KStr ''device_path'', PStr (er_device_path e)),
      (KStr ''detail'', PStr (er_detail e)), (KStr ''timestamp'', PStr (er_timestamp e))]"

definition step_mapping :: "step_record \<Rightarrow> pyval" where
  "step_mapping r = PDict
     [(KStr ''state'', PStr (state_value (sr_state r))), (KStr ''timestamp'', PStr (sr_timestamp r)),
      (KStr ''detail'', PStr (sr_detail r))]"

definition power_mapping :: "power_observation \<Rightarrow> pyval" where
  "power_mapping p = PDict
     [(KStr ''state'', PStr (po_state p)), (KStr ''timestamp'', PStr (po_timestamp p)),
      (KStr ''detail'', PStr (po_detail p)), (KStr ''requested_action'', PStr (po_requested_action p)),
      (KStr ''confirmed'', PBool (po_confirmed p))]"

definition mcu_mapping :: "mcu_evidence \<Rightarrow> pyval" where
  "mcu_mapping m = PDict
     [(KStr ''configured_path'', PStr (me_configured_path m)), (KStr ''device_node'', PStr (me_device_node m)),
      (KStr ''devpath'', PStr (me_devpath m)), (KStr ''serial'', PStr (me_serial m)),
      (KStr ''physical_path'', PStr (me_physical_path m)), (KStr ''vendor_id'', PStr (me_vendor_id m)),
      (KStr ''model_id'', PStr (me_model_id m)), (KStr ''physical_port'', PStr (me_physical_port m)),
      (KStr ''by_path'', text_list (me_by_path m)), (KStr ''vid_pid'', PStr (me_vid_pid m))]"

definition or_none :: "('a \<Rightarrow> pyval) \<Rightarrow> 'a option \<Rightarrow> pyval" where
  "or_none f x = (case x of None \<Rightarrow> PNone | Some a \<Rightarrow> f a)"

definition deployment_proof_mapping :: "deployment_proof \<Rightarrow> pydict" where
  "deployment_proof_mapping p =
     [(KStr ''schema'', PStr (pf_schema p)), (KStr ''deployment_id'', PStr (pf_deployment_id p)),
      (KStr ''plan_digest'', PStr (pf_plan_digest p)), (KStr ''board_id'', PStr (pf_board_id p)),
      (KStr ''hardware_variant_id'', PStr (pf_hardware_variant_id p)),
      (KStr ''build_target_id'', PStr (pf_build_target_id p)),
      (KStr ''board_contract_digest'', PStr (pf_board_contract_digest p)),
      (KStr ''klipper_commit'', PStr (pf_klipper_commit p)),
      (KStr ''build_proof_digest'', PStr (pf_build_proof_digest p)),
      (KStr ''artifact_native_hash'', PStr (pf_artifact_native_hash p)),
      (KStr ''artifact_staged_hash'', PStr (pf_artifact_staged_hash p)),
      (KStr ''artifact_filename'', PStr (pf_artifact_filename p)),
      (KStr ''artifact_size'', PInt (pf_artifact_size p)),
      (KStr ''selected_media'', or_none media_mapping (pf_selected_media p)),
      (KStr ''filesystem'', PStr (pf_filesystem p)), (KStr ''destination'', PStr (pf_destination p)),
      (KStr ''media_readback_hash'', PStr (pf_media_readback_hash p)),
      (KStr ''media_readback_size'', PInt (pf_media_readback_size p)),
      (KStr ''safe_eject'', or_none eject_mapping (pf_safe_eject p)),
      (KStr ''executed_steps'', PList (map step_mapping (pf_executed_steps p))),
      (KStr ''started_at'', PStr (pf_started_at p)), (KStr ''finished_at'', PStr (pf_finished_at p)),
      (KStr ''manual_confirmation'', PBool (pf_manual_confirmation p)),
      (KStr ''manual_confirmation_at'', PStr (pf_manual_confirmation_at p)),
      (KStr ''power_observations'', PList (map power_mapping (pf_power_observations p))),
      (KStr ''reenumeration_result'', PStr (pf_reenumeration_result p)),
      (KStr ''observed_mcu_identity'', or_none mcu_mapping (pf_observed_mcu_identity p)),
      (KStr ''klipper_connection_result'', PStr (pf_klipper_connection_result p)),
      (KStr ''expected_fingerprint'', PStr (pf_expected_fingerprint p)),
      (KStr ''observed_fingerprint'', PStr (pf_observed_fingerprint p)),
      (KStr ''final_state'', PStr (state_value (pf_final_state p))), (KStr ''errors'', text_list (pf_errors p))]"

definition deployment_proof_digest :: "(string \<Rightarrow> string) \<Rightarrow> deployment_proof \<Rightarrow> string" where
  "deployment_proof_digest sha p = sha (canonical_json (PDict (deployment_proof_mapping p)))"

lemma deployment_proof_plain: "plain (PDict (deployment_proof_mapping p))"
  by (simp add: deployment_proof_mapping_def or_none_def media_mapping_def eject_mapping_def step_mapping_def
      power_mapping_def mcu_mapping_def plain_texts list_all_iff key_is_str_def split: option.split)

subsection \<open>Requests\<close>

record promotion_request =
  pq_schema :: string
  pq_request_id :: string
  pq_created_at :: string
  pq_review_required :: bool
  pq_source_status :: support_status
  pq_requested_status :: support_status
  pq_deployment_proof_digest :: string
  pq_deployment_id :: string
  pq_plan_digest :: string
  pq_board_id :: string
  pq_hardware_variant_id :: string
  pq_build_target_id :: string
  pq_board_contract_digest :: string
  pq_klipper_commit :: string
  pq_build_proof_digest :: string
  pq_artifact_staged_hash :: string
  pq_observed_fingerprint :: string

datatype promotion_exn = Promotion_error string | Promotion_model model_error

definition request_payload :: "promotion_request \<Rightarrow> pydict" where
  "request_payload q =
     [(KStr ''schema'', PStr (pq_schema q)), (KStr ''request_id'', PStr (pq_request_id q)),
      (KStr ''created_at'', PStr (pq_created_at q)), (KStr ''review_required'', PBool (pq_review_required q)),
      (KStr ''source_status'', PStr (support_status_value (pq_source_status q))),
      (KStr ''requested_status'', PStr (support_status_value (pq_requested_status q))),
      (KStr ''deployment_proof_digest'', PStr (pq_deployment_proof_digest q)),
      (KStr ''deployment_id'', PStr (pq_deployment_id q)), (KStr ''plan_digest'', PStr (pq_plan_digest q)),
      (KStr ''board_id'', PStr (pq_board_id q)), (KStr ''hardware_variant_id'', PStr (pq_hardware_variant_id q)),
      (KStr ''build_target_id'', PStr (pq_build_target_id q)),
      (KStr ''board_contract_digest'', PStr (pq_board_contract_digest q)),
      (KStr ''klipper_commit'', PStr (pq_klipper_commit q)),
      (KStr ''build_proof_digest'', PStr (pq_build_proof_digest q)),
      (KStr ''artifact_staged_hash'', PStr (pq_artifact_staged_hash q)),
      (KStr ''observed_fingerprint'', PStr (pq_observed_fingerprint q))]"

definition request_digest :: "(string \<Rightarrow> string) \<Rightarrow> promotion_request \<Rightarrow> string" where
  "request_digest sha q = sha (canonical_json (PDict (request_payload q)))"

definition request_mapping :: "(string \<Rightarrow> string) \<Rightarrow> promotion_request \<Rightarrow> bool \<Rightarrow> pydict" where
  "request_mapping sha q include_digest =
     (if include_digest then request_payload q @ [(KStr ''request_digest'', PStr (request_digest sha q))]
      else request_payload q)"

text \<open>\<open>now\<close> is the current time as \<open>_now\<close> writes it.\<close>

definition create_deployment_promotion_request ::
    "(string \<Rightarrow> string) \<Rightarrow> (string \<Rightarrow> string) \<Rightarrow> board_catalog \<Rightarrow> string \<Rightarrow> deployment_proof
     \<Rightarrow> (promotion_exn, promotion_request) res" where
  "create_deployment_promotion_request sha nfkc cat now p =
     require (pf_final_state p = VERIFIED)
       (Promotion_error ''only a VERIFIED physical deployment can be promoted'')
     (case by_id nfkc cat (pf_board_id p) of
        None \<Rightarrow> Inl (Promotion_error ''DeploymentProof does not match the current contract'')
      | Some contract \<Rightarrow>
          bindE (mapI Promotion_model (contract_digest sha contract)) (\<lambda>current.
          require (current = pf_board_contract_digest p)
            (Promotion_error ''DeploymentProof does not match the current contract'')
          (require (um_validated_commit (bc_upstream contract) = pf_klipper_commit p)
            (Promotion_error ''DeploymentProof Klipper commit is not current'')
          (case (case contract_variant contract (pf_hardware_variant_id p) of
                   None \<Rightarrow> None | Some v \<Rightarrow> variant_target v (pf_build_target_id p)) of
             None \<Rightarrow> Inl (Promotion_error ''DeploymentProof target is absent from the contract'')
           | Some target \<Rightarrow>
               require (runtime_status (bt_support_status target))
                 (Promotion_error (''target status '' @ support_status_value (bt_support_status target)
                    @ '' is not eligible for promotion''))
               (let digest = deployment_proof_digest sha p in
                Inr \<lparr>pq_schema = ''kace-board-deployment-promotion/v1'',
                  pq_request_id = ''promote-'' @ pf_deployment_id p @ ''-'' @ take 12 digest,
                  pq_created_at = now, pq_review_required = True,
                  pq_source_status = bt_support_status target, pq_requested_status = DEPLOYMENT_VERIFIED,
                  pq_deployment_proof_digest = digest, pq_deployment_id = pf_deployment_id p,
                  pq_plan_digest = pf_plan_digest p, pq_board_id = pf_board_id p,
                  pq_hardware_variant_id = pf_hardware_variant_id p,
                  pq_build_target_id = pf_build_target_id p,
                  pq_board_contract_digest = pf_board_contract_digest p,
                  pq_klipper_commit = pf_klipper_commit p, pq_build_proof_digest = pf_build_proof_digest p,
                  pq_artifact_staged_hash = pf_artifact_staged_hash p,
                  pq_observed_fingerprint = pf_observed_fingerprint p\<rparr>)))))"

subsection \<open>Publication\<close>

text \<open>\<open>json.dumps(..., sort_keys=True, indent=2)\<close> of a mapping whose values are no containers.\<close>

definition indented_entry :: "pkey \<times> string \<Rightarrow> string" where
  "indented_entry e = ''  '' @ json_key (fst e) @ '': '' @ snd e"

definition indented_json :: "pydict \<Rightarrow> string" where
  "indented_json d =
     (case sort_entries (map (\<lambda>(k, v). (k, canonical_json v)) d) of
        None \<Rightarrow> []
      | Some [] \<Rightarrow> ''{}''
      | Some es \<Rightarrow> ''{'' @ newline @ join_with ('','' @ newline) (map indented_entry es) @ newline @ ''}'')"

definition request_bytes :: "(string \<Rightarrow> string) \<Rightarrow> promotion_request \<Rightarrow> bytes" where
  "request_bytes sha q = utf8_encode (indented_json (request_mapping sha q True)) @ utf8_encode newline"

text \<open>
  \<open>open("xb")\<close>, \<open>write\<close>, \<open>flush\<close> and \<open>fsync\<close> of a new file: a file that exists is refused, a
  failing call may leave a prefix.  \<open>Path.exists\<close> follows a link and raises other errors.
\<close>

definition os_create_sync :: "string \<Rightarrow> bytes \<Rightarrow> (disk, tx_exn, unit) action" where
  "os_create_sync p content = os_call
     (\<lambda>k d. if node_at d p = None \<and> 0 < k then set_node p (Some (Regular (take (k - 1) content) 420)) d else d)
     (\<lambda>d. if node_at d p = None then (Inr (), set_node p (Some (Regular content 420)) d)
       else (Inl (os_error ''file exists''), d))"

definition path_exists :: "resolver \<Rightarrow> string \<Rightarrow> (disk, tx_exn, bool) action" where
  "path_exists rp p = plain_call (getS (\<lambda>d. followed rp d p \<noteq> None))"

definition write_deployment_promotion_request ::
    "(string \<Rightarrow> string) \<Rightarrow> resolver \<Rightarrow> promotion_request \<Rightarrow> string \<Rightarrow> (disk, tx_exn, string) action" where
  "write_deployment_promotion_request sha rp q output_directory =
     bindS (os_realpath rp output_directory) (\<lambda>root.
     bindS (os_makedirs rp root) (\<lambda>_.
     let path = path_join root (pq_request_id q @ ''.json'');
         temporary = path_join root (''.'' @ pq_request_id q @ ''.json.part'') in
     bindS (finallyS
        (bindS (os_create_sync temporary (request_bytes sha q)) (\<lambda>_. os_replace temporary path))
        (bindS (path_exists rp temporary) (\<lambda>present. whenS present (os_remove temporary)))) (\<lambda>_.
     returnS path)))"

end
