(* ===== verification/Runtime_Properties.thy ===== *)
theory Runtime_Properties
  imports Runtime_Authority
begin

text \<open>
  Properties of the firmware authority: the decision is exact for every loaded catalog, and the
  evidence of a decided target passes the checks of the bundle.
\<close>

subsection \<open>Selection\<close>

text \<open>The candidates single out one target: there is one only, or the detected processor names one.\<close>

definition singled_out ::
    "(string \<Rightarrow> string) \<Rightarrow> string \<Rightarrow> (hardware_variant \<times> build_target) list \<Rightarrow> hardware_variant \<times> build_target \<Rightarrow> bool" where
  "singled_out nfkc mcu candidates vt =
     (candidates = [vt] \<or> (length candidates \<noteq> 1 \<and> normalize_exact_alias nfkc mcu \<noteq> []
        \<and> filter (\<lambda>(v, t). mcu_identifies nfkc (normalize_exact_alias nfkc mcu) v) candidates = [vt]))"

lemma one_or_other: "(case xs of [x] \<Rightarrow> f x | _ \<Rightarrow> y) = (if length xs = 1 then f (hd xs) else y)"
  by (auto split: list.splits)

lemma choose_runtime_target_eq:
  "choose_runtime_target nfkc c cs mcu =
     (if length cs = 1 then Inr (hd cs, ''exact alias resolved to the sole runtime-authoritative build target'')
      else (let observed = normalize_exact_alias nfkc mcu; ms = filter (\<lambda>(v, t). mcu_identifies nfkc observed v) cs in
        if observed = [] then Inl (Runtime_error (bc_board_id c @ '' has '' @ show_int (int (length cs))
              @ '' runtime targets and '' @ ''KACE MCU detection did not identify an exact variant''))
        else if length ms = 1 then Inr (hd ms, ''exact alias and existing KACE MCU detection '' @ py_repr observed
               @ '' resolved one runtime-authoritative build target'')
        else Inl (Runtime_error (''detected MCU '' @ py_repr mcu
               @ '' does not identify exactly one runtime variant of '' @ bc_board_id c))))"
  by (simp add: choose_runtime_target_def one_or_other Let_def cong: if_weak_cong)

lemma choose_selected: "choose_runtime_target nfkc c cs mcu = Inr (vt, r) \<Longrightarrow> singled_out nfkc mcu cs vt"
  by (auto simp: choose_runtime_target_eq singled_out_def Let_def length_Suc_conv split: if_splits)

lemma choose_refused: "choose_runtime_target nfkc c cs mcu = Inl e \<Longrightarrow> length cs \<noteq> 1 \<and> (\<nexists>vt. singled_out nfkc mcu cs vt)"
  by (auto simp: choose_runtime_target_eq singled_out_def Let_def split: if_splits)

lemma singled_out_member: "singled_out nfkc mcu cs vt \<Longrightarrow> vt \<in> set cs"
  by (auto simp: singled_out_def dest: filter_eq_ConsD)

lemma runtime_targets_iff:
  "(v, t) \<in> set (runtime_targets c) \<longleftrightarrow>
     v \<in> set (bc_hardware_variants c) \<and> t \<in> set (hv_build_targets v) \<and> runtime_status (bt_support_status t)"
  by (auto simp: runtime_targets_def)

subsection \<open>The decided target resolves\<close>

lemma id_re_strip: "id_re s \<Longrightarrow> py_strip s = s"
  by (rule py_strip_no_space, drule id_re_chars)
     (auto simp: list_all_iff is_id_char_def is_id_sep_def is_lower_def is_digit_def py_is_space_def code_of_def)

lemma wf_ids:
  assumes "contract_wf sha c" and "(v, t) \<in> set (runtime_targets c)"
  shows "py_lower (py_strip (hv_id v)) = hv_id v" "py_lower (py_strip (bt_id t)) = bt_id t"
    "bc_board_id c \<noteq> []" "hv_id v \<noteq> []" "bt_id t \<noteq> []"
    "distinct (map hv_id (bc_hardware_variants c))" "distinct (map bt_id (hv_build_targets v))"
  using assms
  by (auto simp: contract_wf_def variant_wf_def target_wf_def list_all_iff runtime_targets_iff id_re_strip
      dest: id_re_nonempty)

lemma decided_denotes:
  assumes "contract_wf sha c" and "c \<in> set (catalog_contracts cat)" and "contract_owns nfkc c alias"
    and "(v, t) \<in> set (runtime_targets c)"
  shows "denotes nfkc cat alias (Some (hv_id v)) (Some (bt_id t)) c v t"
  using assms(2-4) wf_ids(1,2) [OF assms(1,4)] by (simp add: denotes_def runtime_targets_iff)

lemma decided_resolves:
  assumes "catalog_valid nfkc cat" and "contract_wf sha c" and "c \<in> set (catalog_contracts cat)"
    and "contract_owns nfkc c alias" and "(v, t) \<in> set (runtime_targets c)"
  shows "resolve nfkc cat alias (Some (hv_id v)) (Some (bt_id t)) =
     \<lparr>rr_status = RESOLVED, rr_contract = Some c, rr_variant = Some v, rr_target = Some t, rr_candidates = []\<rparr>"
  using wf_ids(6,7) [OF assms(2,5)]
  by (intro resolve_complete [OF assms(1) decided_denotes [OF assms(2-5)]]) auto

text \<open>The decision for a contract target, as the code builds it.\<close>

definition contract_decision :: "string \<Rightarrow> board_contract \<Rightarrow> hardware_variant \<times> build_target \<Rightarrow> string \<Rightarrow> authority_decision" where
  "contract_decision alias c vt reason =
     \<lparr>fad_authority = BOARD_CONTRACT, fad_board_alias = alias, fad_board_id = bc_board_id c,
      fad_hardware_variant_id = hv_id (fst vt), fad_build_target_id = bt_id (snd vt),
      fad_support_status = support_status_value (bt_support_status (snd vt)), fad_reason = reason\<rparr>"

lemma legacy_decided: "legacy_decision alias reason = Inr
     \<lparr>fad_authority = LEGACY, fad_board_alias = alias, fad_board_id = [], fad_hardware_variant_id = [],
      fad_build_target_id = [], fad_support_status = [], fad_reason = reason\<rparr>"
  by (simp add: legacy_decision_def check_decision_def decision_identity_def require_def)

lemma authority_owned:
  assumes valid: "catalog_valid nfkc cat" and wf: "contract_wf sha c"
    and own: "c \<in> set (catalog_contracts cat)" "contract_owns nfkc c alias" and ne: "runtime_targets c \<noteq> []"
  shows "resolve_firmware_authority nfkc cat alias mcu =
     bindE (choose_runtime_target nfkc c (runtime_targets c) mcu) (\<lambda>(vt, reason). Inr (contract_decision alias c vt reason))"
proof -
  have c: "resolve_exact nfkc cat alias = Some c"
    using own by (simp add: alias_directory.lookup_complete [OF valid])
  have pick: "bindE m f = bindE m g" if "\<And>x. m = Inr x \<Longrightarrow> f x = g x" for m and f g :: "'x \<Rightarrow> (runtime_exn, 'y) res"
    using that by (cases m) (simp_all add: bindE_def)
  show ?thesis
    unfolding resolve_firmware_authority_def c option.case Let_def using ne
  proof (simp, intro pick)
    fix x assume "choose_runtime_target nfkc c (runtime_targets c) mcu = Inr x"
    moreover obtain v t r where x: "x = ((v, t), r)" by (metis prod.exhaust)
    ultimately have vt: "(v, t) \<in> set (runtime_targets c)" by (auto dest: choose_selected singled_out_member)
    from decided_resolves [OF valid wf own vt] wf_ids [OF wf vt]
    show "(case x of (xa, xb) \<Rightarrow> (case xa of (v, t) \<Rightarrow> \<lambda>reason.
         require (rr_status (resolve nfkc cat alias (Some (hv_id v)) (Some (bt_id t))) = RESOLVED)
          (Runtime_error ''runtime target resolution failed'')
          (check_decision
            \<lparr>fad_authority = BOARD_CONTRACT, fad_board_alias = alias, fad_board_id = bc_board_id c,
               fad_hardware_variant_id = hv_id v, fad_build_target_id = bt_id t,
               fad_support_status = support_status_value (bt_support_status t), fad_reason = reason\<rparr>)) xb) =
        (case x of (vt, reason) \<Rightarrow> Inr (contract_decision alias c vt reason))"
      by (simp add: x require_def check_decision_def decision_identity_def contract_decision_def)
  qed
qed

text \<open>
  C24. One authority, chosen exactly: on a loaded catalog a legacy decision carries no identity and is
  made only when no contract owns the board's name or its owner has no runtime target; a contract
  decision names the board, variant and target the request denotes, singled out among the owner's
  runtime targets; and an error is raised only when the owner has several and the detected processor
  singles out none.
\<close>

theorem authority_exact:
  assumes load: "load_catalog nfkc sha root listing = Inr cat"
  shows "case resolve_firmware_authority nfkc cat alias mcu of
     Inr d \<Rightarrow> fad_board_alias d = alias \<and> (case fad_authority d of
         LEGACY \<Rightarrow> decision_identity d = [[], [], []]
           \<and> (\<forall>c \<in> set (catalog_contracts cat). contract_owns nfkc c alias \<longrightarrow> runtime_targets c = [])
       | BOARD_CONTRACT \<Rightarrow> \<exists>c v t.
           denotes nfkc cat alias (Some (fad_hardware_variant_id d)) (Some (fad_build_target_id d)) c v t
           \<and> fad_board_id d = bc_board_id c \<and> singled_out nfkc mcu (runtime_targets c) (v, t))
   | Inl e \<Rightarrow> \<exists>c \<in> set (catalog_contracts cat). contract_owns nfkc c alias
       \<and> 2 \<le> length (runtime_targets c) \<and> (\<nexists>vt. singled_out nfkc mcu (runtime_targets c) vt)"
proof -
  from load_catalog_wf [OF load] have valid: "catalog_valid nfkc cat"
    and wfs: "list_all (contract_wf sha) (catalog_contracts cat)" by blast+
  show ?thesis
  proof (cases "resolve_exact nfkc cat alias")
    case None
    then show ?thesis using alias_directory.lookup_None [OF valid, of "alias"]
      by (simp add: resolve_firmware_authority_def legacy_decided decision_identity_def)
  next
    case (Some c)
    from alias_directory.lookup_sound [OF valid Some]
    have own: "c \<in> set (catalog_contracts cat)" "contract_owns nfkc c alias" by auto
    with wfs have wf: "contract_wf sha c" by (simp add: list_all_iff)
    show ?thesis
    proof (cases "runtime_targets c = []")
      case True
      have "\<forall>c' \<in> set (catalog_contracts cat). contract_owns nfkc c' alias \<longrightarrow> runtime_targets c' = []"
        using True alias_directory.owner_unique [OF valid own] by metis
      with True Some show ?thesis
        by (simp add: resolve_firmware_authority_def legacy_decided decision_identity_def)
    next
      case False
      note step = authority_owned [OF valid wf own False, of mcu]
      show ?thesis
      proof (cases "choose_runtime_target nfkc c (runtime_targets c) mcu")
        case (Inl e)
        from choose_refused [OF Inl] False have "2 \<le> length (runtime_targets c)"
          by (cases "runtime_targets c"; cases "tl (runtime_targets c)") auto
        with choose_refused [OF Inl] own have "\<exists>c \<in> set (catalog_contracts cat). contract_owns nfkc c alias
            \<and> 2 \<le> length (runtime_targets c) \<and> (\<nexists>vt. singled_out nfkc mcu (runtime_targets c) vt)" by blast
        then show ?thesis by (simp add: step bindE_def Inl)
      next
        case (Inr x)
        then obtain v t r where x: "choose_runtime_target nfkc c (runtime_targets c) mcu = Inr ((v, t), r)"
          by (metis prod.exhaust)
        from choose_selected [OF this] have s: "singled_out nfkc mcu (runtime_targets c) (v, t)" .
        from decided_denotes [OF wf own singled_out_member [OF s]] s x show ?thesis
          by (auto simp: step bindE_def contract_decision_def)
      qed
    qed
  qed
qed

text \<open>Without the detected processor the example board's sole runtime target is taken.\<close>

lemma ex_owned: "ex_contract \<in> set (catalog_contracts ex_catalog)" "contract_owns ex_nfkc ex_contract ''a.cfg''"
proof -
  have "resolution_ok (resolve ex_nfkc ex_catalog ''a.cfg'' (Some ''stm32f103'') (Some ''sd-usart1''))"
    by (simp add: ex_resolve resolution_ok_def)
  from resolve_sound [OF ex_catalog_valid this]
  show "ex_contract \<in> set (catalog_contracts ex_catalog)" "contract_owns ex_nfkc ex_contract ''a.cfg''"
    by (auto simp: ex_resolve denotes_def)
qed

lemma ex_targets: "runtime_targets ex_contract = [(ex_variant, ex_target)]"
  by code_simp

definition ex_decision :: authority_decision where
  "ex_decision = contract_decision ''a.cfg'' ex_contract (ex_variant, ex_target)
     ''exact alias resolved to the sole runtime-authoritative build target''"

lemma ex_authority: "resolve_firmware_authority ex_nfkc ex_catalog ''a.cfg'' [] = Inr ex_decision"
  by (simp add: authority_owned [OF ex_catalog_valid ex_contract_wf ex_owned] ex_targets
      choose_runtime_target_def bindE_def ex_decision_def)

theorem authority_exact_witness:
  "\<exists>c v t. denotes ex_nfkc ex_catalog ''a.cfg'' (Some ''stm32f103'') (Some ''sd-usart1'') c v t
     \<and> singled_out ex_nfkc [] (runtime_targets c) (v, t)"
proof -
  have "hv_id ex_variant = ''stm32f103''" "bt_id ex_target = ''sd-usart1''" by code_simp+
  with authority_exact [OF ex_catalog_load, of "''a.cfg''" "[]"] show ?thesis
    by (auto simp: ex_authority ex_decision_def contract_decision_def)
qed

subsection \<open>The evidence of a decided target\<close>

lemma buildR_eq [state_simps]: "buildR m s = (Inr x, s') \<longleftrightarrow> m s = (Inr x, s')"
  by (cases "m s") (auto simp: buildR_def result_simps)

lemma deployR_eq [state_simps]:
  "deployR m s = (Inr x, s') \<longleftrightarrow> (\<exists>w. m (bs_world s) = (Inr x, w) \<and> s' = s\<lparr>bs_world := w\<rparr>)"
  by (cases "m (bs_world s)") (auto simp: deployR_def result_simps)

lemma find_target_ids:
  "find_target c vi ti = Inr (v, t) \<Longrightarrow> hv_id v = py_lower (py_strip vi) \<and> bt_id t = py_lower (py_strip ti)"
  by (auto simp: find_target_def dest: contract_variant_Some variant_target_Some split: option.splits)

lemma artifact_of_proof:
  assumes "build_artifact_from_proof tools h p c w = (Inr a, w')"
  shows "ba_board_id a = bc_board_id c \<and> bp_board_id p = bc_board_id c
    \<and> ba_hardware_variant_id a = py_lower (py_strip (bp_hardware_variant_id p))
    \<and> ba_build_target_id a = py_lower (py_strip (bp_build_target_id p))
    \<and> ba_board_contract_digest a = bp_contract_digest p \<and> digest_of (tl_sha tools) c = Inr (bp_contract_digest p)
    \<and> ba_klipper_commit a = bp_klipper_commit p \<and> bp_klipper_commit p = um_validated_commit (bc_upstream c)
    \<and> ba_build_proof_digest a = build_proof_digest (tl_sha tools) p"
  using assms unfolding build_artifact_from_proof_def
  by (clarsimp simp: state_simps result_simps Let_def split: prod.splits dest!: check_artifact_same)
     (simp add: find_target_ids)

lemma plan_of_artifact:
  assumes "create_deployment_plan tools h c a out last_successful w = (Inr p, w')"
  shows "dp_board_id p = bc_board_id c \<and> dp_hardware_variant_id p = ba_hardware_variant_id a
    \<and> dp_build_target_id p = ba_build_target_id a \<and> digest_of (tl_sha tools) c = Inr (dp_board_contract_digest p)
    \<and> dp_klipper_commit p = um_validated_commit (bc_upstream c) \<and> dp_build_proof_digest p = ba_build_proof_digest a"
  using assms by (clarsimp simp: create_deployment_plan_def state_simps Let_def)

lemma evidence_agrees:
  assumes valid: "catalog_valid nfkc cat" and wf: "contract_wf sha c" and own: "c \<in> set (catalog_contracts cat)"
    and vt: "(v, t) \<in> set (runtime_targets c)" and d: "d = contract_decision alias c (v, t) reason"
    and ev: "contract_evidence tools nfkc cat sc sr h cx c d plans last_successful s = (Inr (p, a, pl), s')"
  shows "check_bundle (tl_sha tools) \<lparr>rb_decision = d, rb_proof = p, rb_artifact = a, rb_deployment_plan = pl\<rparr>
     = Inr \<lparr>rb_decision = d, rb_proof = p, rb_artifact = a, rb_deployment_plan = pl\<rparr>"
proof -
  from ev obtain s1 s2 w1 w2 w3 where
    b: "build_firmware tools nfkc cat sc sr h cx (bc_board_id c) (hv_id v) (bt_id t) s = (Inr p, s1)" and
    a: "build_artifact_from_proof tools h p c w1 = (Inr a, w2)" and
    pl: "create_deployment_plan tools h c a plans last_successful w2 = (Inr pl, w3)"
    by (auto simp: contract_evidence_def state_simps d contract_decision_def)
  note ids = wf_ids(1,2) [OF wf vt]
  have mine: "contract_owns nfkc c (bc_board_id c)" by (simp add: contract_owns_def)
  from build_firmware_sound [OF b valid] obtain c' v' t' where
    "denotes nfkc cat (bc_board_id c) (Some (hv_id v)) (Some (bt_id t)) c' v' t'" and "proof_sound tools c' v' t' p"
    by blast
  then have "bp_hardware_variant_id p = hv_id v" "bp_build_target_id p = bt_id t"
    using ids by (auto simp: denotes_def proof_sound_def)
  with artifact_of_proof [OF a] plan_of_artifact [OF pl] ids show ?thesis
    by (simp add: check_bundle_def require_def all_same_def d contract_decision_def Let_def)
qed

lemma bindS_cong_ok:
  assumes "\<And>s x s'. m s = (Inr x, s') \<Longrightarrow> f x = g x"
  shows "bindS m f = bindS m g"
proof
  fix s show "bindS m f s = bindS m g s"
    using assms [of s] by (cases "m s"; cases "fst (m s)") (auto simp: bindS_def)
qed

text \<open>
  C25. The pipeline is coherent: for a contract decision of a loaded catalog, none of the guards that
  look the target up again and none of the cross-checks of the final bundle can fail, whatever the host
  does; the run is exactly the build, the artifact bridge and the plan, in this order.
\<close>

theorem runtime_bundle_coherent:
  assumes load: "load_catalog nfkc sha root listing = Inr cat"
    and dec: "resolve_firmware_authority nfkc cat alias mcu = Inr d" "fad_authority d = BOARD_CONTRACT"
  shows "\<exists>c \<in> set (catalog_contracts cat). fad_board_id d = bc_board_id c
     \<and> build_board_contract_runtime tools nfkc cat source_commit source_repository h home ro d =
       bindS (liftS (runtime_context home (bh_environ h) ro)) (\<lambda>cx.
       bindS (contract_evidence tools nfkc cat source_commit source_repository h cx c d
         (text_or (ro_plan_directory ro) (path_join home ''kace/board-contract-plans'')) (ro_last_successful ro))
       (\<lambda>(p, a, pl). returnS \<lparr>rb_decision = d, rb_proof = p, rb_artifact = a, rb_deployment_plan = pl\<rparr>))"
proof -
  from load_catalog_wf [OF load] have valid: "catalog_valid nfkc cat"
    and wfs: "list_all (contract_wf sha) (catalog_contracts cat)" by blast+
  from dec obtain c where c: "resolve_exact nfkc cat alias = Some c" and ne: "runtime_targets c \<noteq> []"
    by (auto simp: resolve_firmware_authority_def legacy_decided Let_def split: option.splits if_splits)
  from alias_directory.lookup_sound [OF valid c] wfs
  have own: "c \<in> set (catalog_contracts cat)" "contract_owns nfkc c alias" and wf: "contract_wf sha c"
    by (auto simp: list_all_iff)
  from dec(1) obtain v t reason where
    ch: "choose_runtime_target nfkc c (runtime_targets c) mcu = Inr ((v, t), reason)" and
    d: "d = contract_decision alias c (v, t) reason"
    by (auto simp: authority_owned [OF valid wf own ne] result_simps)
  from choose_selected [OF ch] have vt: "(v, t) \<in> set (runtime_targets c)" by (rule singled_out_member)
  note ids = wf_ids [OF wf vt]
  from vt have parts: "v \<in> set (bc_hardware_variants c)" "t \<in> set (hv_build_targets v)"
    "runtime_status (bt_support_status t)" by (simp_all add: runtime_targets_iff)
  have mine: "by_id nfkc cat (bc_board_id c) = Some c"
    using own by (simp add: id_directory.lookup_complete [OF valid] contract_has_id_def)
  have "contract_variant c (hv_id v) = Some v" "variant_target v (bt_id t) = Some t"
    using ids parts by (simp_all add: contract_variant_def variant_target_def Let_def find_key_unique)
  then have "build_board_contract_runtime tools nfkc cat source_commit source_repository h home ro d =
     bindS (liftS (runtime_context home (bh_environ h) ro)) (\<lambda>cx.
     bindS (contract_evidence tools nfkc cat source_commit source_repository h cx c d
       (text_or (ro_plan_directory ro) (path_join home ''kace/board-contract-plans'')) (ro_last_successful ro))
     (\<lambda>(p, a, pl). liftS (check_bundle (tl_sha tools)
       \<lparr>rb_decision = d, rb_proof = p, rb_artifact = a, rb_deployment_plan = pl\<rparr>)))"
    using mine parts(3) by (simp add: build_board_contract_runtime_def d contract_decision_def action_simps)
  also have "\<dots> = bindS (liftS (runtime_context home (bh_environ h) ro)) (\<lambda>cx.
     bindS (contract_evidence tools nfkc cat source_commit source_repository h cx c d
       (text_or (ro_plan_directory ro) (path_join home ''kace/board-contract-plans'')) (ro_last_successful ro))
     (\<lambda>(p, a, pl). returnS \<lparr>rb_decision = d, rb_proof = p, rb_artifact = a, rb_deployment_plan = pl\<rparr>))"
    by (intro arg_cong [of _ _ "bindS _"] ext bindS_cong_ok)
       (auto simp: evidence_agrees [OF valid wf own(1) vt d] action_simps split: prod.splits)
  finally show ?thesis using own d by (auto simp: contract_decision_def)
qed

text \<open>The example board built from the session's options, on the example host.\<close>

definition ex_options :: runtime_options where
  "ex_options = \<lparr>ro_output_directory = ''/o'', ro_plan_directory = ''/o'', ro_staging_parent = [],
     ro_source_checkout = [], ro_git_command = Argv_none, ro_make_command = Argv_text ''make'',
     ro_concurrency = Some 2, ro_last_successful = []\<rparr>"

lemma ex_runtime_context: "runtime_context ''/h'' [] ex_options = Inr ex_context"
  by code_simp

lemma ex_option_fields: "text_or (ro_plan_directory ex_options) other = ''/o''" "ro_last_successful ex_options = []"
  by (simp_all add: ex_options_def text_or_def)

lemma ex_same_board: "build_firmware tools ex_nfkc ex_catalog sc sr h cx (bc_board_id ex_contract) (hv_id ex_variant) (bt_id ex_target)
   = build_firmware tools ex_nfkc ex_catalog sc sr h cx ''a.cfg'' ''stm32f103'' ''sd-usart1''"
proof -
  have vt: "(ex_variant, ex_target) \<in> set (runtime_targets ex_contract)" by (simp add: ex_targets)
  have "contract_owns ex_nfkc ex_contract (bc_board_id ex_contract)" by (simp add: contract_owns_def)
  from decided_resolves [OF ex_catalog_valid ex_contract_wf ex_owned(1) this vt]
  show ?thesis by (simp add: build_firmware_def ex_resolve)
qed

lemma returns_buildR: "returns m x \<Longrightarrow> returns (buildR m) x"
  by (auto simp: returns_def state_simps)

lemma returns_deployR: "returns m x \<Longrightarrow> returns (deployR m) x"
  by (force simp: returns_def state_simps)

lemma ex_evidence: "\<exists>a pl. returns (contract_evidence ex_tools ex_nfkc ex_catalog ex_commit
   ''https://github.com/Klipper3d/klipper.git'' ex_host ex_context ex_contract ex_decision ''/o'' []) (ex_proof, a, pl)"
proof -
  obtain f pl where a: "build_artifact_from_proof ex_tools ex_host ex_proof ex_contract = returnS (ex_artifact_with f)"
    and pl: "returns (create_deployment_plan ex_tools ex_host ex_contract (ex_artifact_with f) ''/o'' []) pl"
    using ex_bridged ex_planned by blast
  have a': "returns (build_artifact_from_proof ex_tools ex_host ex_proof ex_contract) (ex_artifact_with f)"
    by (simp add: a)
  have b: "returns (build_firmware ex_tools ex_nfkc ex_catalog ex_commit ''https://github.com/Klipper3d/klipper.git'' ex_host
     ex_context (bc_board_id ex_contract) (fad_hardware_variant_id ex_decision) (fad_build_target_id ex_decision)) ex_proof"
    using ex_builds by (simp add: ex_decision_def contract_decision_def ex_same_board)
  show ?thesis
    unfolding contract_evidence_def
    by (intro exI, rule returns_bind [OF returns_buildR [OF b]], rule returns_bind [OF returns_deployR [OF a']],
        rule returns_bind [OF returns_deployR [OF pl]]) simp
qed

theorem runtime_bundle_coherent_witness:
  "\<exists>a pl. returns (build_board_contract_runtime ex_tools ex_nfkc ex_catalog ex_commit
     ''https://github.com/Klipper3d/klipper.git'' ex_host ''/h'' ex_options ex_decision)
     \<lparr>rb_decision = ex_decision, rb_proof = ex_proof, rb_artifact = a, rb_deployment_plan = pl\<rparr>"
proof -
  have "fad_authority ex_decision = BOARD_CONTRACT" "fad_board_id ex_decision = bc_board_id ex_contract"
    by (simp_all add: ex_decision_def contract_decision_def)
  moreover obtain c where c: "c \<in> set (catalog_contracts ex_catalog)" "fad_board_id ex_decision = bc_board_id c"
    and run: "build_board_contract_runtime ex_tools ex_nfkc ex_catalog ex_commit
       ''https://github.com/Klipper3d/klipper.git'' ex_host ''/h'' ex_options ex_decision =
     bindS (liftS (runtime_context ''/h'' (bh_environ ex_host) ex_options)) (\<lambda>cx.
     bindS (contract_evidence ex_tools ex_nfkc ex_catalog ex_commit ''https://github.com/Klipper3d/klipper.git'' ex_host cx c
       ex_decision (text_or (ro_plan_directory ex_options) (path_join ''/h'' ''kace/board-contract-plans''))
       (ro_last_successful ex_options))
     (\<lambda>(p, a, pl). returnS \<lparr>rb_decision = ex_decision, rb_proof = p, rb_artifact = a, rb_deployment_plan = pl\<rparr>))"
    using runtime_bundle_coherent [OF ex_catalog_load ex_authority calculation(1), of ex_tools ex_commit
        "''https://github.com/Klipper3d/klipper.git''" ex_host "''/h''" ex_options] by blast
  ultimately have "c = ex_contract"
    using id_directory.owner_unique [OF ex_catalog_valid ex_owned(1), of "bc_board_id ex_contract"]
    by (simp add: contract_has_id_def)
  obtain a pl where ev: "returns (contract_evidence ex_tools ex_nfkc ex_catalog ex_commit
     ''https://github.com/Klipper3d/klipper.git'' ex_host ex_context ex_contract ex_decision ''/o'' []) (ex_proof, a, pl)"
    using ex_evidence by blast
  have "returns (bindS (contract_evidence ex_tools ex_nfkc ex_catalog ex_commit
     ''https://github.com/Klipper3d/klipper.git'' ex_host ex_context ex_contract ex_decision ''/o'' [])
     (\<lambda>(p, a, pl). returnS \<lparr>rb_decision = ex_decision, rb_proof = p, rb_artifact = a, rb_deployment_plan = pl\<rparr>))
     \<lparr>rb_decision = ex_decision, rb_proof = ex_proof, rb_artifact = a, rb_deployment_plan = pl\<rparr>"
    by (rule returns_bind [OF ev]) simp
  then show ?thesis
    using run \<open>c = ex_contract\<close> by (auto simp: ex_runtime_context action_simps ex_option_fields)
qed

end
