(* ===== verification/Promotion_Properties.thy ===== *)
theory Promotion_Properties
  imports Deployment_Promotion Sd_Properties Runtime_Properties
begin

text \<open>
  What a promotion request stands for: a session of the SD-card executor that reached VERIFIED, of
  a target the current catalog still supports; and what publishing it may do to a file it did not
  make.
\<close>

subsection \<open>Requests\<close>

lemma promotion_created:
  "create_deployment_promotion_request sha nfkc cat now p = Inr q \<longleftrightarrow>
     pf_final_state p = VERIFIED
     \<and> (\<exists>c v t. by_id nfkc cat (pf_board_id p) = Some c \<and> contract_digest sha c = Inr (pf_board_contract_digest p)
        \<and> um_validated_commit (bc_upstream c) = pf_klipper_commit p
        \<and> contract_variant c (pf_hardware_variant_id p) = Some v \<and> variant_target v (pf_build_target_id p) = Some t
        \<and> runtime_status (bt_support_status t)
        \<and> q = \<lparr>pq_schema = ''kace-board-deployment-promotion/v1'',
                  pq_request_id = ''promote-'' @ pf_deployment_id p @ ''-'' @ take 12 (deployment_proof_digest sha p),
                  pq_created_at = now, pq_review_required = True,
                  pq_source_status = bt_support_status t, pq_requested_status = DEPLOYMENT_VERIFIED,
                  pq_deployment_proof_digest = deployment_proof_digest sha p, pq_deployment_id = pf_deployment_id p,
                  pq_plan_digest = pf_plan_digest p, pq_board_id = pf_board_id p,
                  pq_hardware_variant_id = pf_hardware_variant_id p,
                  pq_build_target_id = pf_build_target_id p,
                  pq_board_contract_digest = pf_board_contract_digest p,
                  pq_klipper_commit = pf_klipper_commit p, pq_build_proof_digest = pf_build_proof_digest p,
                  pq_artifact_staged_hash = pf_artifact_staged_hash p,
                  pq_observed_fingerprint = pf_observed_fingerprint p\<rparr>)"
  by (auto simp: create_deployment_promotion_request_def result_simps Let_def split: option.splits)

text \<open>A verified session whose plan the catalog still validates can be promoted.\<close>

lemma validated_promotable:
  assumes "validate_plan env resolve_path (se_plan s) = Inr (c, t)" and "se_state s = VERIFIED"
  shows "\<exists>q. create_deployment_promotion_request (en_sha env) (en_nfkc env) (en_catalog env) now (session_proof s) = Inr q"
proof -
  from assms(1) have c: "by_id (en_nfkc env) (en_catalog env) (dp_board_id (se_plan s)) = Some c"
    and v: "validate_deployment_plan (en_sha env) resolve_path c (se_plan s) = Inr t"
    and st: "runtime_status (bt_support_status t)"
    by (auto simp: validate_plan_def result_simps runtime_status_def split: option.splits)
  from v obtain v where "digest_of (en_sha env) c = Inr (dp_board_contract_digest (se_plan s))"
    "dp_klipper_commit (se_plan s) = um_validated_commit (bc_upstream c)"
    "find_target c (dp_hardware_variant_id (se_plan s)) (dp_build_target_id (se_plan s)) = Inr (v, t)"
    by (auto simp: validate_deployment_plan_def result_simps Let_def split: prod.splits)
  then have "contract_digest (en_sha env) c = Inr (dp_board_contract_digest (se_plan s))"
    "um_validated_commit (bc_upstream c) = dp_klipper_commit (se_plan s)"
    "contract_variant c (dp_hardware_variant_id (se_plan s)) = Some v"
    "variant_target v (dp_build_target_id (se_plan s)) = Some t"
    by (auto simp: digest_of_def find_target_def result_simps split: option.splits)
  with c st assms(2) show ?thesis
    unfolding promotion_created by (simp add: session_proof_def Let_def)
qed

text \<open>
  C26. A promotion request stands for a physical deployment: made from the proof of a reachable session of
  the executor, it asks for review and for DEPLOYMENT_VERIFIED only, the user confirmed that deployment,
  what was read back from the medium is the staged artifact the request names, the firmware that answered
  carries the planned fingerprint, and board, variant and target are those of a contract of the loaded
  catalog, at its current digest and pinned commit, with a status that may be promoted.
\<close>

theorem promotion_request_sound:
  assumes "load_catalog nfkc sha root listing = Inr cat" and "env_ok env" and "reachable env s"
    and "create_deployment_promotion_request sha nfkc cat now (session_proof (xs_session s)) = Inr q"
  shows "pq_review_required q \<and> pq_requested_status q = DEPLOYMENT_VERIFIED
     \<and> se_manual_confirmation (xs_session s) \<and> se_readback_hash (xs_session s) = pq_artifact_staged_hash q
     \<and> firmware_version_matches (pq_observed_fingerprint q) (expected_fingerprint (se_plan (xs_session s)))
     \<and> (\<exists>c v t. c \<in> set (catalog_contracts cat) \<and> contract_has_id nfkc c (pq_board_id q)
          \<and> contract_digest sha c = Inr (pq_board_contract_digest q)
          \<and> um_validated_commit (bc_upstream c) = pq_klipper_commit q
          \<and> contract_variant c (pq_hardware_variant_id q) = Some v \<and> variant_target v (pq_build_target_id q) = Some t
          \<and> pq_source_status q = bt_support_status t \<and> runtime_status (bt_support_status t))"
proof -
  from load_catalog_wf [OF assms(1)] have valid: "catalog_valid nfkc cat" by blast
  let ?p = "session_proof (xs_session s)"
  from assms(4) obtain c v t where fin: "pf_final_state ?p = VERIFIED" and
    c: "by_id nfkc cat (pf_board_id ?p) = Some c" and rest: "contract_digest sha c = Inr (pf_board_contract_digest ?p)"
      "um_validated_commit (bc_upstream c) = pf_klipper_commit ?p"
      "contract_variant c (pf_hardware_variant_id ?p) = Some v" "variant_target v (pf_build_target_id ?p) = Some t"
      "runtime_status (bt_support_status t)" and
    q: "pq_review_required q" "pq_requested_status q = DEPLOYMENT_VERIFIED" "pq_board_id q = pf_board_id ?p"
      "pq_hardware_variant_id q = pf_hardware_variant_id ?p" "pq_build_target_id q = pf_build_target_id ?p"
      "pq_board_contract_digest q = pf_board_contract_digest ?p" "pq_klipper_commit q = pf_klipper_commit ?p"
      "pq_source_status q = bt_support_status t" "pq_artifact_staged_hash q = pf_artifact_staged_hash ?p"
      "pq_observed_fingerprint q = pf_observed_fingerprint ?p"
    unfolding promotion_created by auto
  from fin have st: "se_state (xs_session s) = VERIFIED" by (simp add: session_proof_def Let_def)
  with reachable_good [OF assms(3,2)]
  have "se_manual_confirmation (xs_session s)"
    "se_readback_hash (xs_session s) = at_final_sha256 (dp_transformation (se_plan (xs_session s)))"
    "firmware_version_matches (se_observed_fingerprint (xs_session s)) (expected_fingerprint (se_plan (xs_session s)))"
    by (auto simp: good_def core_def session_ok_def readback_matches_def less_eq_deployment_state_def state_stage_def
        split: option.splits)
  moreover from id_directory.lookup_sound [OF valid c]
  have "c \<in> set (catalog_contracts cat)" "contract_has_id nfkc c (pq_board_id q)" by (simp_all add: q)
  ultimately show ?thesis using q rest by (auto simp: session_proof_def Let_def)
qed

theorem promotion_request_sound_witness:
  "\<exists>s q. reachable ex_sd s \<and> create_deployment_promotion_request ex_sha ex_nfkc ex_catalog ''now'' (session_proof (xs_session s)) = Inr q
     \<and> se_manual_confirmation (xs_session s) \<and> pq_requested_status q = DEPLOYMENT_VERIFIED"
proof -
  obtain p co where co: "cooperative ex_sd p co" using ex_cooperates by blast
  from calm_deployment [OF co, of ex_start] obtain x s1 pf s2 where
    run: "prepare_media ex_sd p [] ex_start = (Inr x, s1)" "confirm_manual_power_cycle ex_sd True False s1 = (Inr pf, s2)"
    and st: "stands p VERIFIED (xs_session s2)" by blast
  have r: "reachable ex_sd s2"
    by (rule reachable_confirm [OF reachable_prepare [OF reachable.start [OF ex_executor_start] run(1)] run(2)])
  have sd: "en_nfkc ex_sd = ex_nfkc" "en_catalog ex_sd = ex_catalog" "en_sha ex_sd = ex_sha"
    by (simp_all add: ex_sd_def)
  from co have "validate_plan ex_sd (\<lambda>q. q) p = Inr (co_contract co, co_target co)"
    by (simp add: cooperative_def Let_def)
  with st validated_promotable [of ex_sd "\<lambda>q. q" "xs_session s2" "co_contract co" "co_target co" "''now''"]
  obtain q where q: "create_deployment_promotion_request ex_sha ex_nfkc ex_catalog ''now'' (session_proof (xs_session s2)) = Inr q"
    by (auto simp: stands_def sd)
  from promotion_request_sound [OF ex_catalog_load ex_env_ok r q] q r show ?thesis by blast
qed

subsection \<open>Publication\<close>

text \<open>
  A publication that finds the temporary file of another one refuses to open it, and then removes it: the
  \<open>finally\<close> block deletes any file of that name, its own or not.
\<close>

definition ex_request :: promotion_request where
  "ex_request = \<lparr>pq_schema = [], pq_request_id = ''r'', pq_created_at = [], pq_review_required = True,
     pq_source_status = RUNTIME_SUPPORTED, pq_requested_status = DEPLOYMENT_VERIFIED, pq_deployment_proof_digest = [],
     pq_deployment_id = [], pq_plan_digest = [], pq_board_id = [], pq_hardware_variant_id = [],
     pq_build_target_id = [], pq_board_contract_digest = [], pq_klipper_commit = [], pq_build_proof_digest = [],
     pq_artifact_staged_hash = [], pq_observed_fingerprint = []\<rparr>"

lemma foreign_part_removed:
  "write_deployment_promotion_request (\<lambda>_. []) (\<lambda>_ p. p) ex_request ''/o''
     \<lparr>dk_nodes = [(''/o'', Directory), (''/o/.r.json.part'', Regular [1, 2] 420)], dk_turns = []\<rparr>
   = (Inl (os_error ''file exists''), \<lparr>dk_nodes = [(''/o'', Directory)], dk_turns = []\<rparr>)"
  by code_simp

end
