(* ===== verification/Text_Scan.thy ===== *)
theory Text_Scan
  imports Py_Repr "HOL-Library.Sublist"
begin

text \<open>
  Lines with their ends, and the scanning steps of the regular expressions the configuration
  editors use: runs of white space, positions at the start of a line (\<open>^\<close> with \<open>MULTILINE\<close>)
  and the first index with a property.
\<close>

subsection \<open>Lines\<close>

text \<open>\<open>str.splitlines(keepends=True)\<close>.\<close>

fun split_lines_keep :: "string \<Rightarrow> string list" where
  "split_lines_keep [] = []"
| "split_lines_keep [c] = [[c]]"
| "split_lines_keep (c # d # cs) =
     (if c = CHR 0x0D \<and> d = CHR 0x0A then [c, d] # split_lines_keep cs
      else if is_linebreak c then [c] # split_lines_keep (d # cs)
      else (case split_lines_keep (d # cs) of [] \<Rightarrow> [[c]] | w # ws \<Rightarrow> (c # w) # ws))"

lemma split_lines_none [simp]: "split_lines_keep s = [] \<longleftrightarrow> s = []"
  by (induction s rule: split_lines_keep.induct) (auto split: list.splits)

lemma concat_split_lines [simp]: "concat (split_lines_keep s) = s"
  by (induction s rule: split_lines_keep.induct) (auto split: list.splits)

lemma split_lines_nonempty: "l \<in> set (split_lines_keep s) \<Longrightarrow> l \<noteq> []"
  by (induction s arbitrary: l rule: split_lines_keep.induct) (auto split: list.splits if_splits)

lemma splitlines_crlf: "py_splitlines (CHR 0x0D # CHR 0x0A # ds) = [] # py_splitlines ds"
  by (subst py_splitlines.simps(2)) (simp add: is_linebreak_def code_of_def)

lemma splitlines_other:
  "is_linebreak c \<Longrightarrow> \<not> (c = CHR 0x0D \<and> d = CHR 0x0A) \<Longrightarrow> py_splitlines (c # d # ds) = [] # py_splitlines (d # ds)"
  by (subst py_splitlines.simps(2)) (auto simp del: py_splitlines.simps)

lemma splitlines_break:
  "is_linebreak c \<Longrightarrow> \<exists>ds. length ds \<le> length cs \<and> py_splitlines (c # cs) = [] # py_splitlines ds"
proof (cases cs)
  case (Cons d ds)
  assume "is_linebreak c"
  then show ?thesis using splitlines_crlf [of ds] splitlines_other [of c d ds] Cons
    by (cases "c = CHR 0x0D \<and> d = CHR 0x0A") (auto simp del: py_splitlines.simps intro: exI [of _ ds] exI [of _ cs])
qed (auto intro: exI [of _ "[]"])

lemma splitlines_no_break: "l \<in> set (py_splitlines s) \<Longrightarrow> list_all (\<lambda>c. \<not> is_linebreak c) l"
proof (induction s arbitrary: l rule: length_induct)
  case (1 s)
  show ?case
  proof (cases s)
    case (Cons c cs)
    show ?thesis
    proof (cases "is_linebreak c")
      case True
      from splitlines_break [OF this, of cs] obtain ds where "length ds < length s" "py_splitlines s = [] # py_splitlines ds"
        using Cons by (metis length_Cons less_Suc_eq_le)
      with 1 show ?thesis by auto
    next
      case False
      have "\<forall>x \<in> set (py_splitlines cs). list_all (\<lambda>c. \<not> is_linebreak c) x"
        using 1(1) Cons by (metis length_Cons lessI)
      with 1(2) False Cons show ?thesis by (auto split: list.splits)
    qed
  qed (use 1 in simp)
qed

definition file_newline :: "string \<Rightarrow> string" where
  "file_newline text = (if contains [CHR 0x0D, CHR 0x0A] text then [CHR 0x0D, CHR 0x0A] else [CHR 0x0A])"

lemma file_newline_cases: "file_newline s = [CHR 0x0A] \<or> file_newline s = [CHR 0x0D, CHR 0x0A]"
  by (simp add: file_newline_def)

lemma splitlines_step:
  assumes "list_all (\<lambda>c. \<not> is_linebreak c) l" and "nl = [CHR 0x0A] \<or> nl = [CHR 0x0D, CHR 0x0A]"
  shows "py_splitlines (l @ nl @ rest) = l # py_splitlines rest"
  using assms(1)
proof (induction l)
  case Nil
  from assms(2) show ?case by (auto simp: is_linebreak_def code_of_def split: list.splits)
next
  case (Cons c l)
  then show ?case by simp
qed

lemma splitlines_last: "list_all (\<lambda>c. \<not> is_linebreak c) l \<Longrightarrow> py_splitlines l = (if l = [] then [] else [l])"
  by (induction l) (auto split: list.splits)

text \<open>Joined lines split again, but for an empty last one.\<close>

lemma splitlines_join:
  assumes "nl = [CHR 0x0A] \<or> nl = [CHR 0x0D, CHR 0x0A]"
  shows "\<forall>l \<in> set ls. list_all (\<lambda>c. \<not> is_linebreak c) l \<Longrightarrow>
     py_splitlines (join_with nl ls) = (if ls \<noteq> [] \<and> last ls = [] then butlast ls else ls)"
proof (induction ls rule: induct_list012)
  case (2 x)
  then show ?case by (simp add: splitlines_last)
next
  case (3 x y zs)
  then show ?case using splitlines_step [OF _ assms, of x] by simp
qed simp

lemma splitlines_join_end:
  assumes nl: "nl = [CHR 0x0A] \<or> nl = [CHR 0x0D, CHR 0x0A]" and "ls \<noteq> []"
    and "\<forall>l \<in> set ls. list_all (\<lambda>c. \<not> is_linebreak c) l"
  shows "py_splitlines (join_with nl ls @ nl) = ls"
  using assms(2,3)
proof (induction ls rule: induct_list012)
  case (2 x)
  then show ?case using splitlines_step [OF _ nl, of x "[]"] by simp
next
  case (3 x y zs)
  then show ?case using splitlines_step [OF _ nl, of x] by simp
qed simp

subsection \<open>Scanning\<close>

definition first_index :: "('a \<Rightarrow> bool) \<Rightarrow> 'a list \<Rightarrow> nat option" where
  "first_index P xs = (let n = length (takeWhile (\<lambda>x. \<not> P x) xs) in if n < length xs then Some n else None)"

definition space_run :: "string \<Rightarrow> nat" where
  "space_run s = length (takeWhile py_is_space s)"

definition blank :: "string \<Rightarrow> bool" where
  "blank s = (py_strip s = [])"

definition comment_start :: "string \<Rightarrow> bool" where
  "comment_start s = (s \<noteq> [] \<and> hd s \<in> {CHR ''#'', CHR '';''})"

definition starts_folded :: "string \<Rightarrow> string \<Rightarrow> bool" where
  "starts_folded p s = (py_lower (take (length p) s) = py_lower p)"

lemma space_run_le: "space_run s \<le> length s"
  by (simp add: space_run_def length_takeWhile_le)

end
