(* ===== verification/Upstream.thy ===== *)
theory Upstream
  imports Board_Contract Text_Scan
begin

text \<open>
  \<open>firmware/boards/upstream.py\<close>: the document that pins the validated Klipper source, and the
  check of an upstream configuration file against the evidence of a board contract.
\<close>

subsection \<open>Text of a document value\<close>

text \<open>
  \<open>str(value)\<close>.  A float prints as its JSON text; the model keeps no more of a non-finite number or
  of an opaque object than its kind and its name.
\<close>

fun value_repr :: "pyval \<Rightarrow> string" where
  "value_repr PNone = ''None''"
| "value_repr (PBool b) = (if b then ''True'' else ''False'')"
| "value_repr (PInt i) = show_int i"
| "value_repr (PFloat t) = t"
| "value_repr PNonFinite = ''nan''"
| "value_repr (PStr s) = py_repr s"
| "value_repr (PList xs) = ''['' @ join_with '', '' (map value_repr xs) @ '']''"
| "value_repr (PDict d) = ''{'' @ join_with '', '' (map (\<lambda>(k, v).
     (case k of KStr s \<Rightarrow> py_repr s | KInt i \<Rightarrow> show_int i) @ '': '' @ value_repr v) d) @ ''}''"
| "value_repr (POpaque t) = t"

definition py_str :: "pyval \<Rightarrow> string" where
  "py_str v = (case v of PStr s \<Rightarrow> s | _ \<Rightarrow> value_repr v)"

subsection \<open>The source contract\<close>

record source_contract =
  ks_schema :: string
  ks_repository :: string
  ks_validated_commit :: string
  ks_header_extraction_version :: int
  ks_line_endings :: string
  ks_upstream_monitor_ref :: string
  ks_upstream_monitor_mutation_allowed :: bool

datatype upstream_exn = Upstream_contract_error string | Upstream_attribute_error

text \<open>The document is \<open>Inl\<close> when the file cannot be read or is no YAML.  \<open>True\<close> and \<open>1.0\<close> equal \<open>1\<close>.\<close>

definition equals_one :: "pyval \<Rightarrow> bool" where
  "equals_one v = (v \<in> {PInt 1, PBool True, PFloat ''1.0''})"

definition document_falsy :: "pyval \<Rightarrow> bool" where
  "document_falsy v = (v \<in> {PNone, PBool False, PInt 0, PFloat ''0.0'', PFloat ''-0.0'', PStr [], PList [], PDict []})"

definition load_klipper_source_contract :: "(string, pyval) res \<Rightarrow> (upstream_exn, source_contract) res" where
  "load_klipper_source_contract document =
     (case document of
        Inl e \<Rightarrow> Inl (Upstream_contract_error (''cannot load Klipper source contract: '' @ e))
      | Inr v \<Rightarrow>
         (case (if document_falsy v then PDict [] else v) of
            PDict data \<Rightarrow>
              require (py_get data ''schema'' = PStr ''kace-klipper-source/v1'')
                (Upstream_contract_error ''unsupported Klipper source contract schema'')
              (let commit = py_lower (py_strip (py_str (py_get_or data ''validated_commit'' (PStr [])))) in
               require (commit_re commit) (Upstream_contract_error ''validated_commit must be a full Git SHA'')
              (require (py_get data ''line_endings'' = PStr ''LF'')
                (Upstream_contract_error ''only canonical LF line endings are supported'')
              (require (equals_one (py_get data ''header_extraction_version''))
                (Upstream_contract_error ''unsupported header extraction version'')
              (case py_get data ''upstream_monitor'' of
                 PDict monitor \<Rightarrow>
                   (let monitor_ref = py_strip (py_str (py_get_or monitor ''ref'' (PStr []))) in
                    require (starts_with ''refs/heads/'' monitor_ref)
                      (Upstream_contract_error ''upstream_monitor.ref must name a branch ref'')
                    (require (py_get monitor ''mutation_allowed'' = PBool False)
                      (Upstream_contract_error ''upstream monitoring must be read-only'')
                    (Inr \<lparr>ks_schema = ''kace-klipper-source/v1'',
                      ks_repository = py_strip (py_str (py_get_or data ''repository'' (PStr []))),
                      ks_validated_commit = commit, ks_header_extraction_version = 1, ks_line_endings = ''LF'',
                      ks_upstream_monitor_ref = monitor_ref, ks_upstream_monitor_mutation_allowed = False\<rparr>)))
               | _ \<Rightarrow> Inl (Upstream_contract_error ''upstream_monitor must be an object'')))))
          | _ \<Rightarrow> Inl Upstream_attribute_error))"

subsection \<open>The official header\<close>

definition reference_line :: "string \<Rightarrow> bool" where
  "reference_line l = starts_with ''# See docs/Config_Reference.md'' (py_lstrip l)"

definition settings_line :: "string \<Rightarrow> bool" where
  "settings_line l = (\<not> blank l \<and> \<not> starts_with ''#'' (py_lstrip l))"

text \<open>Where the header ends: after the reference line and its blank lines, else at the first setting.\<close>

definition header_end :: "string list \<Rightarrow> nat option" where
  "header_end lines = (case first_index reference_line lines of
     Some i \<Rightarrow> Some (Suc i + length (takeWhile blank (drop (Suc i) lines)))
   | None \<Rightarrow> first_index settings_line lines)"

definition extract_official_header :: "string \<Rightarrow> int \<Rightarrow> (upstream_exn, string) res" where
  "extract_official_header content version =
     require (version = 1) (Upstream_contract_error ''unsupported header extraction version'')
     (let lines = split_lines_keep (normalize_newlines content) in
      (case header_end lines of
         None \<Rightarrow> Inl (Upstream_contract_error ''could not locate the end of the official header'')
       | Some n \<Rightarrow>
          (let header = concat (take n lines) in
           require (py_strip header \<noteq> []) (Upstream_contract_error ''official header is empty'')
           (Inr header))))"

definition sha256_lf :: "(string \<Rightarrow> string) \<Rightarrow> string \<Rightarrow> string" where
  "sha256_lf sha content = sha (normalize_newlines content)"

record upstream_verification =
  uv_config_hash_matches :: bool
  uv_header_hash_matches :: bool
  uv_header_text_matches :: bool
  uv_observed_config_sha256_lf :: string
  uv_observed_header_sha256_lf :: string
  uv_observed_header_text :: string

definition verification_passes :: "upstream_verification \<Rightarrow> bool" where
  "verification_passes v = (uv_config_hash_matches v \<and> uv_header_hash_matches v \<and> uv_header_text_matches v)"

definition verify_upstream_content ::
    "(string \<Rightarrow> string) \<Rightarrow> board_contract \<Rightarrow> string \<Rightarrow> source_contract \<Rightarrow> (upstream_exn, upstream_verification) res" where
  "verify_upstream_content sha c content source =
     require (um_validated_commit (bc_upstream c) = ks_validated_commit source)
       (Upstream_contract_error (bc_board_id c @ '': board and global validated commits differ''))
     (require (um_repository (bc_upstream c) = ks_repository source)
       (Upstream_contract_error (bc_board_id c @ '': board and global repositories differ''))
     (let normalized = normalize_newlines content in
      bindE (extract_official_header normalized (ks_header_extraction_version source)) (\<lambda>header.
      let config_hash = sha256_lf sha normalized; header_hash = sha256_lf sha header in
      Inr \<lparr>uv_config_hash_matches = (config_hash = um_config_sha256_lf (bc_upstream c)),
        uv_header_hash_matches = (header_hash = um_header_sha256_lf (bc_upstream c)),
        uv_header_text_matches = (header = normalize_newlines (um_header_text (bc_upstream c))),
        uv_observed_config_sha256_lf = config_hash, uv_observed_header_sha256_lf = header_hash,
        uv_observed_header_text = header\<rparr>)))"

subsection \<open>The header depends on itself only\<close>

lemma extracted_prefix:
  assumes "extract_official_header content v = Inr header"
  shows "\<exists>rest. normalize_newlines content = header @ rest"
proof -
  from assms obtain n where "header = concat (take n (split_lines_keep (normalize_newlines content)))"
    by (auto simp: extract_official_header_def result_simps Let_def split: option.splits)
  then show ?thesis
    by (metis append_take_drop_id concat_append concat_split_lines)
qed

lemma header_newlines:
  assumes "extract_official_header content v = Inr header"
  shows "normalize_newlines header = header"
proof (rule normalize_newlines_id)
  from extracted_prefix [OF assms] have "set header \<subseteq> set (normalize_newlines content)" by (metis set_append Un_upper1)
  then show "CHR 0x0D \<notin> set header" using normalize_newlines_no_cr by blast
qed

end
