(* ===== verification/Reconciler.thy ===== *)
theory Reconciler
  imports Text_Scan Config_Plan
begin

text \<open>
  \<open>core/reconciler.py\<close>: the insertion of a section and an option into the text of a
  configuration file, keeping everything the user wrote, and its uses for \<open>printer.cfg\<close> and
  \<open>moonraker.conf\<close>.
\<close>

subsection \<open>Sections and options of a line list\<close>

text \<open>\<open>section_re.match\<close>: the name between the brackets, a comment may follow.\<close>

definition ini_section :: "string \<Rightarrow> string option" where
  "ini_section line =
     (let s = py_lstrip line; inner = takeWhile (\<lambda>c. c \<noteq> CHR '']'') (tl s); rest = drop (length inner) (tl s) in
      if s \<noteq> [] \<and> hd s = CHR ''['' \<and> inner \<noteq> [] \<and> rest \<noteq> []
         \<and> (py_lstrip (tl rest) = [] \<or> comment_start (py_lstrip (tl rest)))
      then Some (py_strip inner) else None)"

definition ini_option :: "string \<Rightarrow> string \<Rightarrow> bool" where
  "ini_option option_name line =
     (let s = py_lstrip line; rest = py_lstrip (drop (length option_name) s) in
      starts_folded option_name s \<and> rest \<noteq> [] \<and> hd rest \<in> {CHR '':'', CHR ''=''})"

definition names_section :: "string \<Rightarrow> string \<Rightarrow> bool" where
  "names_section section_name line =
     (case ini_section line of None \<Rightarrow> False | Some n \<Rightarrow> py_lower n = py_lower section_name)"

definition section_indexes :: "string \<Rightarrow> string list \<Rightarrow> nat list" where
  "section_indexes section_name lines = filter (\<lambda>i. names_section section_name (lines ! i)) [0..<length lines]"

text \<open>The lines after a header, up to the next header.\<close>

definition section_body :: "string list \<Rightarrow> nat \<Rightarrow> string list" where
  "section_body lines start = takeWhile (\<lambda>l. ini_section l = None) (drop (Suc start) lines)"

definition has_option :: "string \<Rightarrow> string \<Rightarrow> string list \<Rightarrow> bool" where
  "has_option section_name option_name lines =
     list_ex (\<lambda>i. list_ex (ini_option option_name) (section_body lines i)) (section_indexes section_name lines)"

text \<open>A new option goes behind the last line of the first such section that is not blank.\<close>

definition insert_position :: "string list \<Rightarrow> nat \<Rightarrow> nat" where
  "insert_position lines start =
     Suc start + length (dropWhile blank (rev (section_body lines start)))"

definition insert_at :: "nat \<Rightarrow> 'a \<Rightarrow> 'a list \<Rightarrow> 'a list" where
  "insert_at n x xs = take n xs @ x # drop n xs"

text \<open>The option comes with its default value; both callers give both or none.\<close>

definition ensured_lines :: "string list \<Rightarrow> string \<Rightarrow> (string \<times> string) option \<Rightarrow> string list option" where
  "ensured_lines lines section_name setting =
     (case section_indexes section_name lines of
        [] \<Rightarrow> Some (lines @ (if lines \<noteq> [] \<and> \<not> blank (last lines) then [[]] else [])
           @ [''['' @ section_name @ '']''] @ (case setting of None \<Rightarrow> [] | Some (n, v) \<Rightarrow> [n @ '': '' @ v]))
      | start # _ \<Rightarrow> (case setting of
          None \<Rightarrow> None
        | Some (n, v) \<Rightarrow>
            if has_option section_name n lines then None
            else Some (insert_at (insert_position lines start) (n @ '': '' @ v) lines)))"

definition ensure_ini_section_and_option ::
    "string \<Rightarrow> string \<Rightarrow> (string \<times> string) option \<Rightarrow> string \<times> bool" where
  "ensure_ini_section_and_option content section_name setting =
     (let newline = file_newline content in
      case ensured_lines (py_splitlines content) section_name setting of
        None \<Rightarrow> (content, False)
      | Some lines \<Rightarrow> (join_with newline lines @ (if ends_with [CHR 0x0A] content then newline else []), True))"

definition reconcile_moonraker_conf_content :: "string \<Rightarrow> string \<times> bool" where
  "reconcile_moonraker_conf_content content =
     ensure_ini_section_and_option content ''file_manager'' (Some (''enable_object_processing'', ''True''))"

subsection \<open>What the insertion keeps\<close>

text \<open>The section is there, with the option if one is asked for.\<close>

definition ensured :: "string list \<Rightarrow> string \<Rightarrow> (string \<times> string) option \<Rightarrow> bool" where
  "ensured lines section_name setting = (case setting of
     None \<Rightarrow> section_indexes section_name lines \<noteq> [] | Some (n, v) \<Rightarrow> has_option section_name n lines)"

lemma ensured_None: "ensured_lines lines sec setting = None \<longleftrightarrow> ensured lines sec setting"
  by (cases "section_indexes sec lines")
     (auto simp: ensured_lines_def ensured_def has_option_def split: option.splits)

lemma insert_keeps: "subseq xs (insert_at n x xs)"
  unfolding insert_at_def by (metis append_take_drop_id list_emb_append_mono subseq_order.refl subseq_Cons')

lemma ensured_keeps: "ensured_lines lines sec setting = Some new \<Longrightarrow> subseq lines new"
  by (auto simp: ensured_lines_def insert_keeps split: list.splits option.splits if_splits)

text \<open>Names that are read back as written.\<close>

definition plain_name :: "string \<Rightarrow> bool" where
  "plain_name s = (s \<noteq> [] \<and> list_all (\<lambda>c. is_word c) s)"

lemma plain_chars:
  assumes "plain_name s"
  shows "py_lstrip (s @ r) = s @ r" "py_strip s = s" "CHR '']'' \<notin> set s" "list_all (\<lambda>c. \<not> is_linebreak c) s"
    "hd s \<noteq> CHR ''[''" "s \<noteq> []"
proof -
  have w: "is_word c \<Longrightarrow> \<not> py_is_space c \<and> c \<noteq> CHR '']'' \<and> c \<noteq> CHR ''['' \<and> \<not> is_linebreak c" for c
    by (auto simp: is_word_def is_digit_def is_lower_def is_upper_def py_is_space_def is_linebreak_def code_of_def Let_def)
  with assms have a: "list_all (\<lambda>c. \<not> py_is_space c) s" "CHR '']'' \<notin> set s" "list_all (\<lambda>c. \<not> is_linebreak c) s"
    and ne: "s \<noteq> []" by (auto simp: plain_name_def list_all_iff)
  then show "py_strip s = s" "CHR '']'' \<notin> set s" "list_all (\<lambda>c. \<not> is_linebreak c) s" "s \<noteq> []"
    by (simp_all add: py_strip_no_space)
  from a ne show "py_lstrip (s @ r) = s @ r" by (cases s) (auto simp: py_lstrip_def)
  from ne assms w show "hd s \<noteq> CHR ''[''" by (cases s) (auto simp: plain_name_def)
qed

lemma header_written: "plain_name n \<Longrightarrow> ini_section (''['' @ n @ '']'') = Some n"
proof -
  assume n: "plain_name n"
  have "takeWhile (\<lambda>c. c \<noteq> CHR '']'') (n @ '']'') = n" using plain_chars(3) [OF n]
    by (simp add: takeWhile_append2 in_set_conv_decomp takeWhile_append)
  moreover have "py_lstrip (''['' @ n @ '']'') = ''['' @ n @ '']''" "py_lstrip [] = []"
    by (simp_all add: py_lstrip_def py_is_space_def code_of_def)
  ultimately show ?thesis using plain_chars [OF n] by (simp add: ini_section_def Let_def)
qed

lemma option_written: "plain_name n \<Longrightarrow> ini_option n (n @ '': '' @ v) \<and> ini_section (n @ '': '' @ v) = None"
proof -
  assume n: "plain_name n"
  have "py_lstrip (n @ '': '' @ v) = n @ '': '' @ v" by (rule plain_chars(1) [OF n])
  moreover have "py_lstrip ('': '' @ v) = '': '' @ v" by (simp add: py_lstrip_def py_is_space_def code_of_def)
  moreover have "hd (n @ '': '' @ v) \<noteq> CHR ''[''" using plain_chars [OF n] by simp
  ultimately show ?thesis by (simp add: ini_option_def ini_section_def starts_folded_def Let_def)
qed

lemma body_at_header:
  assumes "start < length lines"
  obtains body' blanks rest where "lines = take (Suc start) lines @ body' @ blanks @ rest"
    and "insert_position lines start = Suc start + length body'"
    and "\<forall>l \<in> set body'. ini_section l = None" and "\<forall>l \<in> set blanks. blank l"
proof -
  let ?body = "section_body lines start"
  define body' where "body' = rev (dropWhile blank (rev ?body))"
  define blanks where "blanks = rev (takeWhile blank (rev ?body))"
  have "?body = rev (takeWhile blank (rev ?body) @ dropWhile blank (rev ?body))"
    by (simp only: takeWhile_dropWhile_id rev_rev_ident)
  then have split: "?body = body' @ blanks" unfolding body'_def blanks_def by (simp only: rev_append)
  have "drop (Suc start) lines = ?body @ dropWhile (\<lambda>l. ini_section l = None) (drop (Suc start) lines)"
    by (simp add: section_body_def)
  with split have "lines = take (Suc start) lines @ body' @ blanks @ dropWhile (\<lambda>l. ini_section l = None) (drop (Suc start) lines)"
    by (metis append.assoc append_take_drop_id)
  moreover have "insert_position lines start = Suc start + length body'"
    by (simp add: insert_position_def body'_def)
  moreover have "\<forall>l \<in> set body'. ini_section l = None"
    using split by (auto simp: section_body_def dest: set_takeWhileD)
      (metis (mono_tags, lifting) UnCI section_body_def set_append set_takeWhileD)
  moreover have "\<forall>l \<in> set blanks. blank l" by (auto simp: blanks_def dest: set_takeWhileD)
  ultimately show thesis by (rule that)
qed

lemma indexes_iff: "i \<in> set (section_indexes sec lines) \<longleftrightarrow> i < length lines \<and> names_section sec (lines ! i)"
  by (auto simp: section_indexes_def)

lemma has_optionI:
  assumes "names_section sec h" and "ini_option n l" and "\<forall>b \<in> set body. ini_section b = None" and "ini_section l = None"
  shows "has_option sec n (front @ h # body @ l # rest)"
proof -
  let ?ls = "front @ h # body @ l # rest"
  have "length front \<in> set (section_indexes sec ?ls)" using assms(1) by (simp add: indexes_iff nth_append)
  moreover have "l \<in> set (section_body ?ls (length front))"
    using assms(3,4) by (simp add: section_body_def takeWhile_append2)
  ultimately show ?thesis using assms(2) unfolding has_option_def list_ex_iff by blast
qed

lemma last_cut: "xs \<noteq> [] \<Longrightarrow> l \<noteq> [] \<Longrightarrow> front @ l # rest = xs \<Longrightarrow> last xs = [] \<Longrightarrow> \<exists>rest'. butlast xs = front @ l # rest'"
  by (cases "rest = []") (auto simp: butlast_append)

text \<open>The written option is found again, also when an empty last line is lost.\<close>

lemma ensured_found:
  assumes sec: "plain_name sec" and n: "plain_name n" and e: "ensured_lines lines sec (Some (n, v)) = Some new"
  shows "has_option sec n new \<and> (last new = [] \<longrightarrow> has_option sec n (butlast new)) \<and> new \<noteq> []"
proof -
  let ?l = "n @ '': '' @ v"
  have l: "ini_option n ?l" "ini_section ?l = None" "?l \<noteq> []" using option_written [OF n] plain_chars(6) [OF n] by auto
  obtain front h body rest where new: "new = front @ h # body @ ?l # rest" and h: "names_section sec h"
    and body: "\<forall>b \<in> set body. ini_section b = None"
  proof (cases "section_indexes sec lines")
    case Nil
    with e have "new = (lines @ (if lines \<noteq> [] \<and> \<not> blank (last lines) then [[]] else [])) @ (''['' @ sec @ '']'') # [] @ ?l # []"
      by (auto simp: ensured_lines_def)
    moreover have "names_section sec (''['' @ sec @ '']'')" using header_written [OF sec] by (simp add: names_section_def)
    ultimately show thesis using that by (metis empty_iff list.set(1))
  next
    case (Cons start others)
    with e have new: "new = insert_at (insert_position lines start) ?l lines"
      by (auto simp: ensured_lines_def split: if_splits)
    from Cons indexes_iff [of start sec lines] have start: "start < length lines" "names_section sec (lines ! start)" by auto
    from body_at_header [OF start(1)] obtain body' blanks rest where parts: "lines = take (Suc start) lines @ body' @ blanks @ rest"
      "insert_position lines start = Suc start + length body'" "\<forall>l \<in> set body'. ini_section l = None" by metis
    have len: "length (take (Suc start) lines) = Suc start" using start by simp
    have "take (Suc start + length body') lines = take (Suc start) lines @ body'"
      "drop (Suc start + length body') lines = blanks @ rest"
      using len by (subst parts(1), simp)+
    with new parts(2) have "new = take (Suc start) lines @ body' @ ?l # blanks @ rest" by (simp add: insert_at_def)
    with start have "new = take start lines @ (lines ! start) # body' @ ?l # blanks @ rest"
      by (simp add: take_Suc_conv_app_nth)
    with start parts(3) that show thesis by blast
  qed
  have "has_option sec n (front @ h # body @ ?l # r)" for r by (rule has_optionI [OF h l(1) body l(2)])
  moreover have "last new = [] \<Longrightarrow> \<exists>r. butlast new = (front @ h # body) @ ?l # r"
    by (rule last_cut [of new ?l]) (use new l in auto)
  ultimately show ?thesis using new by auto
qed

lemma ensured_breaks:
  assumes "plain_name sec" and "plain_name n" and "list_all (\<lambda>c. \<not> is_linebreak c) v"
    and "ensured_lines (py_splitlines content) sec (Some (n, v)) = Some new" and "l \<in> set new"
  shows "list_all (\<lambda>c. \<not> is_linebreak c) l"
proof -
  have "list_all (\<lambda>c. \<not> is_linebreak c) ('': '' @ v)" "list_all (\<lambda>c. \<not> is_linebreak c) (''['' @ sec @ '']'')"
    using assms(1,3) plain_chars(4) by (auto simp: is_linebreak_def code_of_def)
  then have written: "list_all (\<lambda>c. \<not> is_linebreak c) (n @ '': '' @ v)" "list_all (\<lambda>c. \<not> is_linebreak c) (''['' @ sec @ '']'')"
    using plain_chars(4) [OF assms(2)] by simp_all
  from assms(4,5) have "l \<in> set (py_splitlines content) \<or> l \<in> {[], ''['' @ sec @ '']'', n @ '': '' @ v}"
    by (auto simp: ensured_lines_def insert_at_def split: list.splits if_splits dest: in_set_takeD in_set_dropD)
  with written splitlines_no_break show ?thesis by auto
qed

lemma filter_butlast: "last xs = [] \<Longrightarrow> xs \<noteq> [] \<Longrightarrow> filter (\<lambda>l. l \<noteq> []) (butlast xs) = filter (\<lambda>l. l \<noteq> []) xs"
  by (cases xs rule: rev_cases) auto

lemma ensure_ini_result:
  assumes "plain_name sec" and "plain_name n" and "list_all (\<lambda>c. \<not> is_linebreak c) v"
    and "ensure_ini_section_and_option content sec (Some (n, v)) = (r, changed)"
  shows "has_option sec n (py_splitlines r)
     \<and> (changed \<longleftrightarrow> \<not> has_option sec n (py_splitlines content)) \<and> (\<not> changed \<longrightarrow> r = content)
     \<and> subseq (filter (\<lambda>l. l \<noteq> []) (py_splitlines content)) (py_splitlines r)"
proof (cases "ensured_lines (py_splitlines content) sec (Some (n, v))")
  case None
  then have "has_option sec n (py_splitlines content)" by (simp add: ensured_None ensured_def)
  moreover have "r = content" "\<not> changed" using assms(4) None by (auto simp: ensure_ini_section_and_option_def Let_def)
  ultimately show ?thesis by (simp add: subseq_filter_left)
next
  case (Some new)
  let ?nl = "file_newline content"
  from Some have not: "\<not> has_option sec n (py_splitlines content)"
    by (metis ensured_None ensured_def option.discI option.simps(5) case_prod_conv)
  from assms(4) Some have ch: "changed" and r: "r = join_with ?nl new @ (if ends_with [CHR 0x0A] content then ?nl else [])"
    by (auto simp: ensure_ini_section_and_option_def Let_def)
  note found = ensured_found [OF assms(1,2) Some]
  have breaks: "\<forall>l \<in> set new. list_all (\<lambda>c. \<not> is_linebreak c) l"
    using ensured_breaks [OF assms(1-3) Some] by blast
  have "py_splitlines r = new \<or> (last new = [] \<and> py_splitlines r = butlast new)"
    using splitlines_join_end [OF file_newline_cases _ breaks] splitlines_join [OF file_newline_cases breaks] found
    by (auto simp: r split: if_splits)
  moreover have "subseq (filter (\<lambda>l. l \<noteq> []) (py_splitlines content)) (filter (\<lambda>l. l \<noteq> []) new)"
    using ensured_keeps [OF Some] by (rule subseq_filter)
  moreover have "subseq (filter (\<lambda>l. l \<noteq> []) xs) xs" for xs :: "string list" by (rule subseq_filter_left)
  ultimately show ?thesis using found not ch filter_butlast [of new]
    by (metis subseq_order.order_trans)
qed

end
