(* ===== verification/Config_Reconciler.thy ===== *)
theory Config_Reconciler
  imports Reconciler Local_Disk Py_Bytes
begin

text \<open>
  The rest of \<open>core/reconciler.py\<close>: the switch of \<open>[force_move]\<close> in \<open>printer.cfg\<close>, the atomic
  rewriting of a text file, on the disk of \<open>Local_Disk\<close>, and the reconciliation of a
  configuration directory.
\<close>

subsection \<open>Regular expressions over a whole text\<close>

text \<open>\<open>re.search\<close> of a pattern that starts with \<open>^\<close> under \<open>MULTILINE\<close>: where it matches, and what.\<close>

fun search_line :: "(string \<Rightarrow> 'a option) \<Rightarrow> bool \<Rightarrow> string \<Rightarrow> (nat \<times> 'a) option" where
  "search_line f start [] = (if start then map_option (Pair 0) (f []) else None)"
| "search_line f start (c # cs) = (case (if start then f (c # cs) else None) of
     Some x \<Rightarrow> Some (0, x)
   | None \<Rightarrow> map_option (\<lambda>(k, x). (Suc k, x)) (search_line f (c = CHR 0x0A) cs))"

text \<open>\<open>\s*\[\s*force_move\s*\]\<close>: the length of the match.\<close>

definition force_move_header :: "string \<Rightarrow> nat option" where
  "force_move_header s =
     (let s1 = py_lstrip s; s2 = py_lstrip (tl s1); s3 = py_lstrip (drop (length ''force_move'') s2) in
      if s1 \<noteq> [] \<and> hd s1 = CHR ''['' \<and> starts_folded ''force_move'' s2 \<and> s3 \<noteq> [] \<and> hd s3 = CHR '']''
      then Some (length s - length (tl s3)) else None)"

definition opens_section :: "string \<Rightarrow> unit option" where
  "opens_section s = (if starts_with ''['' (py_lstrip s) then Some () else None)"

definition force_move_block :: "string \<Rightarrow> string option" where
  "force_move_block content = (case search_line force_move_header True content of
     None \<Rightarrow> None
   | Some (k, n) \<Rightarrow> (let rest = drop (k + n) content in
       case search_line opens_section False rest of Some (p, _) \<Rightarrow> Some (take p rest) | None \<Rightarrow> Some rest))"

text \<open>\<open>\s*(enable_force_move\s*[:=]\s*)(word|...)\<close>: the whole match, and the first group.\<close>

definition force_move_setting :: "string list \<Rightarrow> string \<Rightarrow> (string \<times> string) option" where
  "force_move_setting words s =
     (let s1 = py_lstrip s; s2 = py_lstrip (drop (length ''enable_force_move'') s1); s3 = py_lstrip (tl s2) in
      if starts_folded ''enable_force_move'' s1 \<and> s2 \<noteq> [] \<and> hd s2 \<in> {CHR '':'', CHR ''=''}
      then map_option (\<lambda>w. (take (length s - length s3 + length w) s, take (length s1 - length s3) s1))
        (find (\<lambda>w. starts_folded w s3) words)
      else None)"

fun replace_first :: "string \<Rightarrow> string \<Rightarrow> string \<Rightarrow> string" where
  "replace_first old new [] = (if old = [] then new else [])"
| "replace_first old new (c # cs) =
     (if starts_with old (c # cs) then new @ drop (length old) (c # cs) else c # replace_first old new cs)"

definition setting_in :: "string list \<Rightarrow> string \<Rightarrow> (string \<times> string) option" where
  "setting_in words content = (case force_move_block content of
     None \<Rightarrow> None | Some block \<Rightarrow> map_option snd (search_line (force_move_setting words) True block))"

definition reconcile_printer_cfg_content :: "string \<Rightarrow> string option \<Rightarrow> string \<times> bool" where
  "reconcile_printer_cfg_content content existing_target_content =
     (let preserve_false = (case existing_target_content of
            None \<Rightarrow> False | Some t \<Rightarrow> setting_in [''false'', ''0'', ''no'', ''off''] t \<noteq> None);
          (content1, mod_false) = (case (if preserve_false then setting_in [''true'', ''1'', ''yes'', ''on''] content else None) of
            Some (old_line, key) \<Rightarrow> (replace_first old_line (key @ ''False'') content, True)
          | None \<Rightarrow> (content, False));
          (content2, mod1) = ensure_ini_section_and_option content1 ''exclude_object'' None;
          (content3, mod2) = ensure_ini_section_and_option content2 ''force_move''
            (Some (''enable_force_move'', if preserve_false then ''False'' else ''True'')) in
      (content3, mod1 \<or> mod2 \<or> mod_false))"

text \<open>
  An enabled switch on the line after its header loses that line break when the existing file has
  it disabled: the match swallows the white space before the option, the replacement does not put it
  back, and the joined line is no header any more, so a second section is appended.
\<close>

lemma force_move_header_lost:
  "reconcile_printer_cfg_content (''[force_move]'' @ newline @ ''enable_force_move: True'' @ newline @ ''[exclude_object]'' @ newline)
      (Some (''[force_move]'' @ newline @ ''enable_force_move: False'' @ newline)) =
   (''[force_move]enable_force_move: False'' @ newline @ ''[exclude_object]'' @ newline @ newline
      @ ''[force_move]'' @ newline @ ''enable_force_move: False'' @ newline, True)"
  by code_simp

subsection \<open>Files\<close>

text \<open>
  \<open>names\<close> are the random parts \<open>mkstemp\<close> may try; the suffix is part of the name.  \<open>stat\<close> of an
  existing file gives its mode.  \<open>on_failure\<close> is \<open>except BaseException\<close> that raises again.
\<close>

definition path_there :: "resolver \<Rightarrow> string \<Rightarrow> (disk, tx_exn, bool) action" where
  "path_there rp p = plain_call (getS (\<lambda>d. followed rp d p \<noteq> None))"

definition os_stat_mode :: "resolver \<Rightarrow> string \<Rightarrow> (disk, tx_exn, int) action" where
  "os_stat_mode rp p = plain_call (\<lambda>d. case followed rp d p of
     Some (Regular _ m) \<Rightarrow> (Inr (m mod 512), d)
   | Some Directory \<Rightarrow> (Inr 493, d)
   | _ \<Rightarrow> (Inl (not_found p), d))"

definition unlink_missing_ok :: "string \<Rightarrow> (disk, tx_exn, unit) action" where
  "unlink_missing_ok p = catchS (os_remove p) (\<lambda>e. if tx_kind e = Not_found then returnS () else raiseS e)"

definition write_text_atomically :: "resolver \<Rightarrow> string list \<Rightarrow> string \<Rightarrow> bytes \<Rightarrow> (disk, tx_exn, unit) action" where
  "write_text_atomically rp names path content =
     bindS (os_makedirs rp (posix_dirname path)) (\<lambda>_.
     bindS (path_there rp path) (\<lambda>present.
     bindS (if present then os_stat_mode rp path else returnS 420) (\<lambda>mode.
     bindS (os_mkstemp (map (\<lambda>n. n @ ''.part'') names) (''.'' @ path_name path @ ''.'') (posix_dirname path)) (\<lambda>temporary.
     catchS
       (bindS (os_write_sync temporary content) (\<lambda>_.
        bindS (os_chmod temporary mode) (\<lambda>_.
        os_replace temporary path)))
       (\<lambda>e. bindS (unlink_missing_ok temporary) (\<lambda>_. raiseS e))))))"

text \<open>\<open>read_text\<close> turns every line end into a line feed.\<close>

definition read_file_text :: "resolver \<Rightarrow> string \<Rightarrow> (disk, tx_exn, string) action" where
  "read_file_text rp p = bindS (os_read rp p) (\<lambda>b. case utf8_decode b of
     Some t \<Rightarrow> returnS (normalize_newlines t) | None \<Rightarrow> raiseS (Tx Value_failed ''utf-8''))"

definition reconcile_file_atomically ::
    "resolver \<Rightarrow> string list \<Rightarrow> string \<Rightarrow> (string \<Rightarrow> string \<times> bool) \<Rightarrow> (disk, tx_exn, bool) action" where
  "reconcile_file_atomically rp names path reconciler_fn =
     bindS (catchS
        (bindS (path_there rp path) (\<lambda>present. if present then read_file_text rp path else returnS []))
        (\<lambda>e. if is_exception e then raiseS (os_error (''Could not read existing configuration: '' @ path)) else raiseS e)) (\<lambda>content.
     case reconciler_fn content of (new_content, modified) \<Rightarrow>
     bindS (path_there rp path) (\<lambda>present.
     if \<not> modified \<and> present then returnS False
     else (let nl = file_newline new_content;
               full = (if ends_with nl new_content then new_content else new_content @ nl) in
       catchS (bindS (write_text_atomically rp names path (utf8_encode full)) (\<lambda>_. returnS True))
         (\<lambda>e. if is_exception e then returnS False else raiseS e))))"

definition reconcile_config_directory ::
    "resolver \<Rightarrow> string list \<Rightarrow> string \<Rightarrow> string option \<Rightarrow> (disk, tx_exn, bool) action" where
  "reconcile_config_directory rp names config_dir existing =
     (let printer_cfg = path_join config_dir ''printer.cfg''; moonraker_conf = path_join config_dir ''moonraker.conf'' in
      bindS (path_there rp printer_cfg) (\<lambda>present.
      bindS (if present then reconcile_file_atomically rp names printer_cfg (\<lambda>c. reconcile_printer_cfg_content c existing)
             else returnS False) (\<lambda>m1.
      bindS (reconcile_file_atomically rp names moonraker_conf reconcile_moonraker_conf_content) (\<lambda>m2.
      returnS (m1 \<or> m2)))))"

text \<open>A file with Windows line ends comes back with line feeds when an option is added.\<close>

lemma windows_newlines_lost:
  "fst (reconcile_file_atomically (\<lambda>_ p. p) [''x''] ''/c/moonraker.conf'' reconcile_moonraker_conf_content
      \<lparr>dk_nodes = [(''/c'', Directory), (''/c/moonraker.conf'', Regular (utf8_encode (''[server]'' @ [CHR 0x0D, CHR 0x0A])) 420)],
       dk_turns = []\<rparr>) = Inr True
   \<and> node_at (snd (reconcile_file_atomically (\<lambda>_ p. p) [''x''] ''/c/moonraker.conf'' reconcile_moonraker_conf_content
      \<lparr>dk_nodes = [(''/c'', Directory), (''/c/moonraker.conf'', Regular (utf8_encode (''[server]'' @ [CHR 0x0D, CHR 0x0A])) 420)],
       dk_turns = []\<rparr>)) ''/c/moonraker.conf'' =
     Some (Regular (utf8_encode (''[server]'' @ newline @ newline @ ''[file_manager]'' @ newline
        @ ''enable_object_processing: True'' @ newline)) 420)"
  by code_simp

end
