(* ===== verification/Managed_Text.thy ===== *)
theory Managed_Text
  imports Config_Reconciler
begin

text \<open>
  The text half of \<open>core/managed_config.py\<close> with \<open>core/config_sections.py\<close>: sections and options
  of a configuration text as its regular expressions find them, and the edits of one text that
  the planner makes.  A match is computed the way the backtracking search would find it: the
  comments say where a repetition may give back characters.
\<close>

subsection \<open>Trimming and slices\<close>

definition py_rstrip :: "string \<Rightarrow> string" where
  "py_rstrip s = rev (py_lstrip (rev s))"

definition is_crlf :: "char \<Rightarrow> bool" where
  "is_crlf c = (c = CHR 0x0D \<or> c = CHR 0x0A)"

definition lstrip_crlf :: "string \<Rightarrow> string" where
  "lstrip_crlf s = dropWhile is_crlf s"

definition rstrip_crlf :: "string \<Rightarrow> string" where
  "rstrip_crlf s = rev (dropWhile is_crlf (rev s))"

definition slice :: "string \<Rightarrow> nat \<Rightarrow> nat \<Rightarrow> string" where
  "slice text a b = take (b - a) (drop a text)"

text \<open>The index of the last line feed.\<close>

definition last_newline :: "string \<Rightarrow> nat option" where
  "last_newline s = (if CHR 0x0A \<in> set s then Some (length s - 1 - length (takeWhile (\<lambda>c. c \<noteq> CHR 0x0A) (rev s))) else None)"

subsection \<open>Sections\<close>

definition section_identity :: "string \<Rightarrow> string" where
  "section_identity section_name =
     (let n = py_strip section_name in
      if list_ex (\<lambda>p. starts_with p n) [''heater_fan '', ''controller_fan '', ''verify_heater '']
         \<or> starts_with ''output_pin '' (py_lower n)
      then n else py_lower n)"

text \<open>
  \<open>_SECTION_RE\<close> at the start of a line: the name and the length of the match.  White space after
  the bracket may run over line ends up to a comment; before other text the match gives back all
  but the part up to the last line feed.
\<close>

definition section_match :: "string \<Rightarrow> (string \<times> nat) option" where
  "section_match s =
     (let s1 = py_lstrip s;
          section_name = takeWhile (\<lambda>c. c \<noteq> CHR '']'' \<and> \<not> is_crlf c) (tl s1);
          close = drop (length section_name) (tl s1);
          after = tl close; w = space_run after; rest = drop w after in
      if s1 = [] \<or> hd s1 \<noteq> CHR ''['' \<or> section_name = [] \<or> close = [] \<or> hd close \<noteq> CHR '']'' then None
      else if comment_start rest then Some (section_name, length s - length (dropWhile (\<lambda>c. c \<noteq> CHR 0x0A) rest))
      else if rest = [] then Some (section_name, length s)
      else map_option (\<lambda>p. (section_name, length s - length after + p)) (last_newline (take w after)))"

lemma section_match_length: "section_match s = Some (n, k) \<Longrightarrow> 0 < k \<and> s \<noteq> []"
proof -
  assume m: "section_match s = Some (n, k)"
  define s1 where "s1 = py_lstrip s"
  define after where "after = tl (drop (length n) (tl s1))"
  from m have s1: "s1 \<noteq> []" "n \<noteq> []"
    and k: "k = length s - length (dropWhile (\<lambda>c. c \<noteq> CHR 0x0A) (drop (space_run after) after)) \<or> k = length s
      \<or> (\<exists>p. k = length s - length after + p)"
    by (auto simp: section_match_def Let_def s1_def after_def split: if_splits)
  have "length s1 \<le> length s" by (simp add: s1_def py_lstrip_def length_dropWhile_le)
  moreover have "length after < length s1" using s1 by (simp add: after_def)
  moreover have "length (dropWhile (\<lambda>c. c \<noteq> CHR 0x0A) (drop (space_run after) after)) \<le> length after"
    using length_dropWhile_le [of "\<lambda>c. c \<noteq> CHR 0x0A" "drop (space_run after) after"] by simp
  moreover from s1 have "0 < length s1" by simp
  ultimately have "0 < length s" "0 < k" using k by linarith+
  then show ?thesis by simp
qed

text \<open>\<open>_SECTION_RE.finditer\<close>: names and start positions; \<open>start\<close> says whether a line starts here.\<close>

function scan_sections :: "nat \<Rightarrow> bool \<Rightarrow> string \<Rightarrow> (string \<times> nat) list" where
  "scan_sections pos start s =
     (case (if start then section_match s else None) of
        Some (n, k) \<Rightarrow> (n, pos) # scan_sections (pos + k) (s ! (k - 1) = CHR 0x0A) (drop k s)
      | None \<Rightarrow> (case s of [] \<Rightarrow> [] | c # cs \<Rightarrow> scan_sections (Suc pos) (c = CHR 0x0A) cs))"
  by pat_completeness auto

termination
  by (relation "measure (\<lambda>(pos, start, s). length s)") (auto dest: section_match_length split: if_splits)

declare scan_sections.simps [simp del]

text \<open>\<open>_section_spans\<close>: each section runs to the start of the next.\<close>

definition section_spans :: "string \<Rightarrow> (string \<times> nat \<times> nat) list" where
  "section_spans text =
     (let ms = scan_sections 0 True text in
      map (\<lambda>((n, a), b). (py_strip n, a, b)) (zip ms (map snd (tl ms) @ [length text])))"

subsection \<open>Options\<close>

text \<open>The option expression on one line: the key up to the separator, the value up to a comment.\<close>

definition option_line :: "string \<Rightarrow> (string \<times> string) option" where
  "option_line line =
     (let key = takeWhile (\<lambda>c. c \<notin> {CHR '':'', CHR ''='', CHR ''#'', CHR '';''}) line; rest = drop (length key) line in
      if key \<noteq> [] \<and> rest \<noteq> [] \<and> hd rest \<in> {CHR '':'', CHR ''=''}
      then Some (py_lower (py_strip key), py_strip (takeWhile (\<lambda>c. c \<noteq> CHR ''#'' \<and> c \<noteq> CHR '';'') (tl rest)))
      else None)"

type_synonym options = "(string, string) dict"

record option_reading =
  or_options :: options
  or_previous :: "string option"
  or_indent :: nat

definition read_option :: "option_reading \<Rightarrow> string \<Rightarrow> option_reading" where
  "read_option r line =
     (let indent = length line - length (py_lstrip line) in
      if blank line \<or> comment_start (py_lstrip line) then r
      else if or_previous r \<noteq> None \<and> or_indent r < indent then
        (let p = the (or_previous r) in
         r\<lparr>or_options := dict_set (or_options r) p
            ((case dict_get (or_options r) p of Some v \<Rightarrow> v | None \<Rightarrow> []) @ newline @ py_strip line)\<rparr>)
      else (case option_line line of
         Some (k, v) \<Rightarrow> \<lparr>or_options = dict_set (or_options r) k v, or_previous = Some k, or_indent = indent\<rparr>
       | None \<Rightarrow> r\<lparr>or_previous := None\<rparr>))"

text \<open>\<open>text.find("\n", start, end)\<close> gives where the body begins.\<close>

definition span_body :: "string \<Rightarrow> nat \<Rightarrow> nat \<Rightarrow> string" where
  "span_body text a b = (case first_index (\<lambda>c. c = CHR 0x0A) (slice text a b) of
     Some i \<Rightarrow> slice text (Suc (a + i)) b | None \<Rightarrow> [])"

definition span_options :: "string \<Rightarrow> options" where
  "span_options body = or_options (foldl read_option \<lparr>or_options = [], or_previous = None, or_indent = 0\<rparr> (py_splitlines body))"

definition options_of :: "(string, options) dict \<Rightarrow> string \<Rightarrow> options" where
  "options_of d section_name = (case dict_get d section_name of Some os \<Rightarrow> os | None \<Rightarrow> [])"

definition section_options :: "string \<Rightarrow> (string, options) dict" where
  "section_options text = foldl (\<lambda>d (n, a, b). let i = section_identity n in
     dict_set d i (dict_update (options_of d i) (span_options (span_body text a b)))) [] (section_spans text)"

definition option_value :: "options \<Rightarrow> string \<Rightarrow> string" where
  "option_value os k = (case dict_get os k of Some v \<Rightarrow> v | None \<Rightarrow> [])"

subsection \<open>Loss warnings\<close>

definition loss_warning :: "string \<Rightarrow> string \<Rightarrow> string \<times> string \<Rightarrow> string option \<Rightarrow> string" where
  "loss_warning source section_name e replacement =
     source @ '': ['' @ section_name @ ''] '' @ fst e @ '' = '' @ py_repr (snd e) @ '' will be ''
       @ (case replacement of None \<Rightarrow> ''removed'' | Some r \<Rightarrow> ''replaced with '' @ py_repr r) @ ''.''"

definition setting_loss_warnings :: "string \<Rightarrow> string \<Rightarrow> string \<Rightarrow> string list" where
  "setting_loss_warnings source before after =
     (let planned = section_options after in
      concat (map (\<lambda>(section_name, os).
        if starts_with ''include '' section_name then []
        else (if os = [] \<and> dict_get planned section_name = None
                then [source @ '': ['' @ section_name @ ''] will be removed.''] else [])
          @ concat (map (\<lambda>e. let replacement = dict_get (options_of planned section_name) (fst e) in
              if replacement = Some (snd e) then [] else [loss_warning source section_name e replacement]) os))
        (section_options before)))"

subsection \<open>Replacing one option\<close>

text \<open>
  \<open>(\s*)((?:[#;].*)?)$\<close> behind the old value: the white space runs to a comment or to the end of
  the text, else it gives back all from its last line feed on.
\<close>

definition value_tail :: "string \<Rightarrow> (nat \<times> nat) option" where
  "value_tail t =
     (let w = space_run t; rest = drop w t in
      if comment_start rest then Some (w, length (takeWhile (\<lambda>c. c \<noteq> CHR 0x0A) rest))
      else if rest = [] then Some (w, 0)
      else map_option (\<lambda>p. (p, 0)) (last_newline (take w t)))"

text \<open>The old value is the shortest text before such a tail.\<close>

definition old_value :: "string \<Rightarrow> (nat \<times> nat \<times> nat) option" where
  "old_value r =
     (let most = length (takeWhile (\<lambda>c. c \<notin> {CHR ''#'', CHR '';'', CHR 0x0D, CHR 0x0A}) r) in
      case find (\<lambda>v. value_tail (drop v r) \<noteq> None) [0..<Suc most] of
        None \<Rightarrow> None
      | Some v \<Rightarrow> map_option (\<lambda>(w, c). (v, w, c)) (value_tail (drop v r)))"

text \<open>
  The whole expression at the start of a line: the first group, the kept tail and the length of the
  match.  The white space behind the separator is given back one by one until the rest matches.
\<close>

definition option_match :: "string \<Rightarrow> string \<Rightarrow> (string \<times> string \<times> nat) option" where
  "option_match opt s =
     (let k1 = space_run s; named = drop k1 s; after = drop (length opt) named; k2 = space_run after;
          sep = drop k2 after; rest = tl sep in
      if \<not> starts_folded opt named \<or> length named < length opt \<or> sep = [] \<or> hd sep \<notin> {CHR '':'', CHR ''=''} then None
      else (case find (\<lambda>k. old_value (drop k rest) \<noteq> None) (rev [0..<Suc (space_run rest)]) of
          None \<Rightarrow> None
        | Some k \<Rightarrow> map_option (\<lambda>(v, w, c). let g = length s - length rest + k in
              (take g s, take (w + c) (drop (g + v) s), g + v + w + c)) (old_value (drop k rest))))"

definition replace_or_insert_option :: "string \<Rightarrow> string \<Rightarrow> string \<Rightarrow> string \<Rightarrow> string" where
  "replace_or_insert_option text section_name opt val =
     (case find (\<lambda>(n, a, b). section_identity n = section_identity section_name) (section_spans text) of
        None \<Rightarrow> text
      | Some (n, a, b) \<Rightarrow>
          (let body = slice text a b; nl = file_newline text;
               replacement = (case search_line (option_match opt) True body of
                 Some (k, g, kept, len) \<Rightarrow> take k body @ g @ val @ kept @ drop (k + len) body
               | None \<Rightarrow> rstrip_crlf body @ nl @ opt @ '': '' @ val @ nl) in
           take a text @ replacement @ drop b text))"

subsection \<open>Removing sections\<close>

text \<open>\<open>for name, start, end in reversed(spans)\<close> cutting the chosen ones out of the text.\<close>

definition drop_sections :: "(string \<Rightarrow> bool) \<Rightarrow> string \<Rightarrow> string" where
  "drop_sections p text = foldr (\<lambda>(n, a, b) t. if p n then take a t @ drop b t else t) (section_spans text) text"

definition is_include :: "string \<Rightarrow> bool" where
  "is_include n = starts_with ''include '' (py_lower n)"

definition extract_generated_includes :: "string \<Rightarrow> string \<times> string list" where
  "extract_generated_includes generated =
     (py_strip (drop_sections is_include generated) @ newline,
      map (\<lambda>(n, a, b). ''['' @ n @ '']'') (filter (\<lambda>(n, a, b). is_include n) (section_spans generated)))"

definition strip_owned_sections :: "string \<Rightarrow> string list \<Rightarrow> string" where
  "strip_owned_sections root owned =
     drop_sections (\<lambda>n. \<not> starts_with ''include '' (section_identity n) \<and> section_identity n \<in> set owned) root"

definition has_include :: "string \<Rightarrow> string \<Rightarrow> bool" where
  "has_include text remote_name =
     list_ex (\<lambda>(n, a, b). py_lower n = py_lower (''include '' @ remote_name)) (section_spans text)"

definition remove_include :: "string \<Rightarrow> string \<Rightarrow> string" where
  "remove_include text remote_name = drop_sections (\<lambda>n. py_lower n = py_lower (''include '' @ remote_name)) text"

definition autosave_text :: "string \<Rightarrow> string" where
  "autosave_text text = join_with newline (map (drop 4) (filter (starts_with ''#*# '') (py_splitlines text)))"

end
