(* ===== verification/Managed_Config.thy ===== *)
theory Managed_Config
  imports Managed_Text
begin

text \<open>
  The planner of \<open>core/managed_config.py\<close>: user tuning carried into the generated hardware file,
  the managed block of \<open>printer.cfg\<close> in its two layouts, the calibration that SAVE_CONFIG must be
  able to rewrite, the expansion of includes and the whole plan.  Texts are the code points of the
  model; bytes that are no UTF-8, or of other code points, raise as a failed decoding does.
\<close>

subsection \<open>Names\<close>

definition managed_begin :: string where "managed_begin = ''# BEGIN KACE MANAGED: generated-includes''"
definition managed_end :: string where "managed_end = ''# END KACE MANAGED: generated-includes''"
definition legacy_header :: string where
  "legacy_header = ''# This file was generated by KACE (Klipper Automated Configuration Ecosystem)''"
definition layout_marker :: string where "layout_marker = ''# KACE layout: root-v1''"
definition save_config_header :: string where
  "save_config_header = ''#*# <---------------------- SAVE_CONFIG ---------------------->''"

definition preserved_options :: "(string \<times> string list) list" where
  "preserved_options =
     [(''printer'', [''max_velocity'', ''max_accel'', ''max_z_velocity'', ''max_z_accel'',
         ''square_corner_velocity'', ''minimum_cruise_ratio'']),
      (''extruder'', [''pid_kp'', ''pid_ki'', ''pid_kd'', ''pressure_advance'',
         ''pressure_advance_smooth_time'', ''nozzle_diameter'', ''filament_diameter'',
         ''rotation_distance'', ''gear_ratio'', ''microsteps'',
         ''max_extrude_only_distance'', ''max_extrude_only_velocity'', ''max_extrude_only_accel'',
         ''instantaneous_corner_velocity'', ''min_extrude_temp'', ''smooth_time'']),
      (''heater_bed'', [''pid_kp'', ''pid_ki'', ''pid_kd'']),
      (''force_move'', [''enable_force_move'']),
      (''probe'', [''z_offset'']),
      (''bltouch'', [''z_offset'']),
      (''bed_mesh'', [''horizontal_move_z'', ''probe_count'', ''algorithm'', ''mesh_pps'', ''bicubic_tension'']),
      (''input_shaper'', [''shaper_freq_x'', ''shaper_freq_y'', ''shaper_type_x'', ''shaper_type_y''])]"

definition preserved_prefix_options :: "(string \<times> string list) list" where
  "preserved_prefix_options =
     [(''stepper_'', [''microsteps'', ''rotation_distance'', ''gear_ratio'', ''homing_speed'', ''position_endstop'']),
      (''tmc'', [''run_current'', ''hold_current'', ''stealthchop_threshold'', ''interpolate''])]"

text \<open>Sets of option names are lists here; they are sorted or only asked for members.\<close>

definition preserved_names :: "string \<Rightarrow> string list" where
  "preserved_names section_name =
     (let folded = py_lower section_name in
      (case map_of preserved_options folded of Some ns \<Rightarrow> ns | None \<Rightarrow> [])
      @ concat (map snd (filter (\<lambda>(p, _). starts_with p folded) preserved_prefix_options)))"

subsection \<open>Carrying user tuning\<close>

definition carry_option :: "string \<Rightarrow> options \<Rightarrow> options \<Rightarrow> string \<Rightarrow> string \<Rightarrow> string" where
  "carry_option section_name user_options generated_options generated opt =
     (if section_name \<in> {''extruder'', ''heater_bed''} \<and> starts_with ''pid_'' opt
         \<and> py_lower (option_value generated_options ''control'') \<noteq> ''pid'' then generated
      else (case dict_get user_options opt of
        Some v \<Rightarrow> replace_or_insert_option generated section_name opt v
      | None \<Rightarrow> generated))"

definition carry_user_tuning :: "string \<Rightarrow> string \<Rightarrow> string" where
  "carry_user_tuning generated existing_root =
     (let generated_options = section_options generated in
      foldl (\<lambda>text (section_name, os). case dict_get generated_options section_name of
          None \<Rightarrow> text
        | Some gs \<Rightarrow> foldl (carry_option section_name os gs) text
            (sort (remdups (preserved_names section_name @ filter (\<lambda>k. k \<notin> set (dict_keys gs)) (dict_keys os)))))
        generated (section_options existing_root))"

text \<open>
  An option with continuation lines that the generated section lacks is inserted without their
  indentation: what continued the value stands at the start of a line.
\<close>

lemma multiline_option_unindented:
  "carry_user_tuning (''[idle_timeout]'' @ newline @ ''timeout: 600'' @ newline)
     (''[idle_timeout]'' @ newline @ ''gcode:'' @ newline @ ''  M84'' @ newline)
   = ''[idle_timeout]'' @ newline @ ''timeout: 600'' @ newline @ ''gcode: '' @ newline @ ''M84'' @ newline"
  by code_simp

subsection \<open>The managed block\<close>

definition managed_block :: "string list \<Rightarrow> bool \<Rightarrow> string \<Rightarrow> string" where
  "managed_block extra_includes include_macros nl =
     join_with nl ([managed_begin] @ extra_includes @ [''[include '' @ hardware_remote @ '']'']
       @ (if include_macros then [''[include '' @ macros_remote @ '']''] else []) @ [managed_end]) @ nl"

text \<open>\<open>_MANAGED_RE\<close> at the start of a line: up to the first end marker, with the white space behind it.\<close>

definition managed_end_match :: "string \<Rightarrow> nat option" where
  "managed_end_match s = (let s1 = py_lstrip s in
     if starts_with managed_end s1 then Some (length s - length (py_lstrip (drop (length managed_end) s1))) else None)"

definition managed_match :: "string \<Rightarrow> nat option" where
  "managed_match s =
     (let s1 = py_lstrip s; after = drop (length managed_begin) s1;
          body = (if starts_with [CHR 0x0D, CHR 0x0A] after then Some (drop 2 after)
            else if starts_with [CHR 0x0A] after then Some (drop 1 after) else None) in
      if \<not> starts_with managed_begin s1 then None
      else (case body of
        None \<Rightarrow> None
      | Some b \<Rightarrow> map_option (\<lambda>(k, n). length s - length b + k + n) (search_line managed_end_match True b)))"

definition managed_span :: "string \<Rightarrow> (nat \<times> nat) option" where
  "managed_span existing = search_line managed_match True existing"

definition keys_of :: "(string, options) dict \<Rightarrow> string \<Rightarrow> string list" where
  "keys_of d section_name = dict_keys (options_of d section_name)"

text \<open>The option at column zero of a line, \<open>^([^\s#;\[=:]+)\s*[:=]\<close>.\<close>

definition column_option :: "string \<Rightarrow> string option" where
  "column_option line =
     (let key = takeWhile (\<lambda>c. \<not> py_is_space c \<and> c \<notin> {CHR ''#'', CHR '';'', CHR ''['', CHR ''='', CHR '':''}) line;
          rest = py_lstrip (drop (length key) line) in
      if key \<noteq> [] \<and> rest \<noteq> [] \<and> hd rest \<in> {CHR '':'', CHR ''=''} then Some (py_lower key) else None)"

text \<open>\<open>re.match(key + r"\s*[:=]", line)\<close>.\<close>

definition key_at :: "string \<Rightarrow> string \<Rightarrow> bool" where
  "key_at line key = (let rest = py_lstrip (drop (length key) line) in
     starts_with key line \<and> rest \<noteq> [] \<and> hd rest \<in> {CHR '':'', CHR ''=''})"

subsection \<open>Calibration for SAVE_CONFIG\<close>

record line_sorting =
  ls_moving :: bool
  ls_retain :: bool
  ls_kept :: "string list"
  ls_moved :: "string list"

definition sort_line :: "string list \<Rightarrow> (string \<Rightarrow> bool) \<Rightarrow> line_sorting \<Rightarrow> string \<Rightarrow> line_sorting" where
  "sort_line names retains s line =
     (let s1 = (case column_option line of
            Some opt \<Rightarrow> s\<lparr>ls_moving := (opt \<in> set names), ls_retain := retains opt\<rparr>
          | None \<Rightarrow> if \<not> blank line \<and> \<not> py_is_space (hd line) then s\<lparr>ls_moving := False\<rparr> else s) in
      if ls_moving s1 then (if ls_retain s1 then s1\<lparr>ls_moved := ls_moved s1 @ [line]\<rparr> else s1)
      else s1\<lparr>ls_kept := ls_kept s1 @ [line]\<rparr>)"

definition pid_options :: "string list" where
  "pid_options = [''control'', ''pid_kp'', ''pid_ki'', ''pid_kd'']"

text \<open>The options of a section that must stay in the root; a saved heater calibration may conflict.\<close>

definition calibration_names :: "string \<Rightarrow> options \<Rightarrow> string list \<Rightarrow> (tx_exn, string list) res" where
  "calibration_names section_name os saved_names =
     (let folded = section_identity section_name;
          heater = (folded \<in> {''extruder'', ''heater_bed''} \<or> starts_with ''heater_generic '' folded);
          pid = (py_lower (option_value os ''control'') = ''pid'') in
      require (\<not> (heater \<and> \<not> pid \<and> list_ex (\<lambda>k. k \<in> set pid_options) saved_names))
        (Tx Value_failed (''['' @ section_name @ ''] saved heater calibration conflicts with the selected control mode; resolve SAVE_CONFIG first''))
      (Inr (saved_names
        @ (if heater then ''control'' # (if pid then pid_options else []) else [])
        @ (if folded \<in> {''probe'', ''bltouch''} \<or> starts_with ''probe '' folded then [''z_offset''] else [])
        @ (if starts_with ''stepper_'' folded then [''position_endstop''] else [])
        @ (if folded = ''input_shaper'' then [''shaper_freq_x'', ''shaper_freq_y'', ''shaper_type_x'', ''shaper_type_y''] else []))))"

definition calibrate_section ::
    "(string, options) dict \<Rightarrow> (string, options) dict \<Rightarrow> string \<times> nat \<times> nat
     \<Rightarrow> string \<times> string list \<Rightarrow> (tx_exn, string \<times> string list) res" where
  "calibrate_section saved_options active_options span acc =
     (case (span, acc) of ((section_name, a, b), (generated, fragments)) \<Rightarrow>
      let folded = section_identity section_name;
          os = options_of (section_options (slice generated a b)) folded;
          saved_names = keys_of saved_options folded;
          retains = (\<lambda>opt. opt \<notin> set saved_names
            \<or> (opt \<in> set (keys_of active_options folded) \<and> dict_get os opt = dict_get (options_of active_options folded) opt)) in
      bindE (calibration_names section_name os saved_names) (\<lambda>names.
      let s = foldl (sort_line names retains) \<lparr>ls_moving = False, ls_retain = False, ls_kept = [], ls_moved = []\<rparr>
            (split_lines_keep (slice generated a b)) in
      Inr (take a generated @ concat (ls_kept s) @ drop b generated,
           if ls_moved s = [] then fragments
           else (''['' @ section_name @ '']'' @ newline @ py_rstrip (concat (ls_moved s)) @ newline) # fragments)))"

fun foldE :: "('a \<Rightarrow> 's \<Rightarrow> ('e, 's) res) \<Rightarrow> 'a list \<Rightarrow> 's \<Rightarrow> ('e, 's) res" where
  "foldE f [] s = Inr s"
| "foldE f (x # xs) s = bindE (f x s) (foldE f xs)"

definition root_calibration :: "string \<Rightarrow> string \<Rightarrow> string \<Rightarrow> (tx_exn, string \<times> string) res" where
  "root_calibration generated saved active =
     bindE (foldE (calibrate_section (section_options (autosave_text saved)) (section_options active))
       (rev (section_spans generated)) (generated, [])) (\<lambda>(g, fragments).
     Inr (g, join_with newline fragments))"

subsection \<open>The root file\<close>

text \<open>\<open>^\s*\[include\s+mainsail\.cfg\]\s*(?:#.*)?$\<close> on one line.\<close>

definition mainsail_line :: "string \<Rightarrow> bool" where
  "mainsail_line line =
     (let s = py_lstrip line; gap = drop (length ''[include'') s; target = py_lstrip gap;
          rest = py_lstrip (drop (length ''mainsail.cfg]'') target) in
      starts_folded ''[include'' s \<and> gap \<noteq> target \<and> starts_folded ''mainsail.cfg]'' target
      \<and> (rest = [] \<or> (hd rest = CHR ''#'' \<and> CHR 0x0A \<notin> set rest)))"

definition drop_saved_lines :: "(string, options) dict \<Rightarrow> (string, options) dict \<Rightarrow> string \<Rightarrow> string" where
  "drop_saved_lines saved_options active_options generated =
     foldr (\<lambda>(n, a, b) g. let i = section_identity n;
          removed = filter (\<lambda>k. k \<notin> set (keys_of active_options i)) (keys_of saved_options i) in
        take a g @ concat (filter (\<lambda>l. \<not> list_ex (key_at l) removed) (split_lines_keep (slice g a b))) @ drop b g)
      (section_spans generated) generated"

definition retained_inside :: "string \<Rightarrow> string list \<Rightarrow> string list \<Rightarrow> string" where
  "retained_inside block owned generated_includes =
     (let managed = replace_text managed_end [] (replace_text managed_begin [] block);
          own = [''include '' @ hardware_remote, ''include '' @ macros_remote] in
      concat (map (\<lambda>(n, a, b). slice managed a b)
        (filter (\<lambda>(n, a, b). section_identity n \<notin> set (owned @ own) \<and> (''['' @ n @ '']'') \<notin> set generated_includes)
          (section_spans managed))))"

text \<open>What is the user's: the text around the managed block, and in the root layout what was added inside.\<close>

definition user_base :: "string \<Rightarrow> bool \<Rightarrow> string list \<Rightarrow> string list \<Rightarrow> string" where
  "user_base existing inline owned generated_includes =
     (case managed_span existing of
        None \<Rightarrow> existing
      | Some (k, n) \<Rightarrow> take k existing
          @ (if inline then retained_inside (slice existing k (k + n)) owned generated_includes else [])
          @ drop (k + n) existing)"

definition section_identities :: "string \<Rightarrow> string list" where
  "section_identities text = map (\<lambda>(n, a, b). section_identity n) (section_spans text)"

text \<open>In the root layout the lines that include mainsail.cfg move to the top.\<close>

definition moved_include :: "string \<Rightarrow> bool" where
  "moved_include line = mainsail_line (rstrip_crlf line)"

definition kept_lines :: "bool \<Rightarrow> string \<Rightarrow> string" where
  "kept_lines inline base = (if inline then concat (filter (\<lambda>l. \<not> moved_include l) (split_lines_keep base)) else base)"

definition assemble_root :: "string \<Rightarrow> string list \<Rightarrow> string \<Rightarrow> string \<Rightarrow> string" where
  "assemble_root nl header_includes block base0 =
     (let base = lstrip_crlf base0;
          reconciled = block @ (if base \<noteq> [] then nl else []) @ base;
          full = (if header_includes \<noteq> [] then join_with nl header_includes @ nl @ nl @ reconciled else reconciled) in
      if ends_with nl full then full else full @ nl)"

definition reconcile_root ::
    "string \<Rightarrow> string \<Rightarrow> bool \<Rightarrow> string \<Rightarrow> string \<Rightarrow> bool \<Rightarrow> (tx_exn, string \<times> string \<times> bool) res" where
  "reconcile_root existing generated0 include_macros saved active inline =
     (let nl = file_newline (if existing \<noteq> [] then existing else generated0);
          (generated, generated_includes) = extract_generated_includes generated0;
          owned = section_identities generated;
          migrated = (contains legacy_header existing \<and> \<not> contains managed_begin existing);
          begin_count = count_text managed_begin existing in
      require (begin_count = count_text managed_end existing \<and> begin_count \<le> 1)
        (Tx Value_failed ''printer.cfg contains malformed or duplicate KACE managed markers'')
      (let base = strip_owned_sections (user_base existing inline owned generated_includes) owned;
           existing_include_names = map (\<lambda>(n, a, b). py_lower n) (filter (\<lambda>(n, a, b). is_include n) (section_spans base));
           extra = filter (\<lambda>l. py_lower (butlast (tl l)) \<notin> set existing_include_names) generated_includes;
           header_includes = (if inline then map rstrip_crlf (filter moved_include (split_lines_keep base)) @ filter mainsail_line extra
             else []);
           extra1 = (if inline then filter (\<lambda>l. \<not> mainsail_line l) extra else extra);
           block = managed_block extra1 include_macros nl in
       bindE (if inline
          then (let g = drop_saved_lines (section_options (autosave_text saved)) (section_options active) generated in
            Inr (replace_text (''[include '' @ hardware_remote @ '']'') (py_rstrip g) block, g, []))
          else bindE (root_calibration generated saved active) (\<lambda>(g, calibration). Inr (block, g, calibration)))
       (\<lambda>(block1, g, calibration).
       let block2 = (if calibration \<noteq> []
             then replace_text managed_end (replace_text newline nl calibration @ managed_end) block1 else block1) in
       Inr (assemble_root nl header_includes block2 (kept_lines inline base), g, migrated))))"

subsection \<open>Expansion of includes\<close>

definition decode_text :: "bytes \<Rightarrow> (tx_exn, string) res" where
  "decode_text b = (case utf8_decode b of Some t \<Rightarrow> Inr t | None \<Rightarrow> Inl (Tx Value_failed ''utf-8''))"

definition decode_lines :: "bytes \<Rightarrow> (tx_exn, string list) res" where
  "decode_lines b = bindE (decode_text b) (\<lambda>t. Inr (py_splitlines t))"

text \<open>The lines of one file, each include replaced; the count of expanded bytes is passed along.\<close>

fun expand_each ::
    "(string \<Rightarrow> int \<Rightarrow> (tx_exn, string \<times> int) res) \<Rightarrow> (string, string) dict \<Rightarrow> string list \<Rightarrow> int
     \<Rightarrow> (tx_exn, string list \<times> int) res" where
  "expand_each f includes [] n = Inr ([], n)"
| "expand_each f includes (l # ls) n =
     bindE (case dict_get includes l of Some p \<Rightarrow> f p n | None \<Rightarrow> Inr (l, n)) (\<lambda>(t, n1).
     bindE (expand_each f includes ls n1) (\<lambda>(ts, n2). Inr (t # ts, n2)))"

text \<open>The first argument is 32 less the length of the stack, so the depth limit is its end.\<close>

fun expand ::
    "nat \<Rightarrow> (string, string) dict \<Rightarrow> bool \<Rightarrow> string list \<Rightarrow> string \<Rightarrow> int \<Rightarrow> (tx_exn, string \<times> int) res" where
  "expand 0 files strict stack p n = Inl (Tx Value_failed (''recursive or excessively nested include: '' @ p))"
| "expand (Suc depth) files strict stack p n =
     (if p \<in> set stack then Inl (Tx Value_failed (''recursive or excessively nested include: '' @ p))
      else (case dict_get files p of
        None \<Rightarrow> if strict then Inl (Tx Value_failed (''Include file was not read for review: '' @ p)) else Inr ([], n)
      | Some text \<Rightarrow>
          (let n1 = n + int (length (utf8_encode text)) in
           require (n1 \<le> 8 * 1024 * 1024) (Tx Value_failed ''expanded configuration exceeds review limits'')
           (bindE (config_includes decode_lines (utf8_encode text) p) (\<lambda>pairs.
            bindE (expand_each (expand depth files strict (stack @ [p])) (dict_update [] pairs) (py_splitlines text) n1)
              (\<lambda>(ts, n2). Inr (join_with newline ts @ newline, n2)))))))"

text \<open>Saved options that are not active are appended, their continuation lines indented.\<close>

definition append_saved :: "(string, options) dict \<Rightarrow> string \<Rightarrow> string \<times> options \<Rightarrow> string" where
  "append_saved active text e =
     (let missing = filter (\<lambda>(k, v). k \<notin> set (keys_of active (fst e))) (snd e) in
      if missing = [] then text
      else text @ newline @ ''['' @ fst e @ '']'' @ newline
        @ join_with newline (map (\<lambda>(k, v). k @ '': '' @ replace_text newline (newline @ ''    '') v) missing) @ newline)"

definition effective_hardware_text :: "config_plan \<Rightarrow> bool \<Rightarrow> (tx_exn, string) res" where
  "effective_hardware_text p strict =
     bindE (mapE (\<lambda>(n, b). bindE (decode_text b) (\<lambda>t. Inr (n, t)))
        [(n, b). (n, Some b) \<leftarrow> cp_source_files p]) (\<lambda>sources.
     bindE (mapE (\<lambda>a. bindE (decode_text (pa_content a)) (\<lambda>t. Inr (pa_remote_name a, t))) (cp_artifacts p)) (\<lambda>planned.
     let files = dict_update (dict_update [] sources) planned in
     bindE (expand 32 files strict [] root_remote 0) (\<lambda>(text, n).
     let active = section_options text;
         saved = section_options (autosave_text (case dict_get files root_remote of Some t \<Rightarrow> t | None \<Rightarrow> [])) in
     Inr (foldl (append_saved active) text saved))))"

subsection \<open>The plan\<close>

text \<open>\<open>_SAVE_CONFIG_RE\<close> at the start of a line.\<close>

definition save_config_match :: "string \<Rightarrow> unit option" where
  "save_config_match s =
     (let r = dropWhile (\<lambda>c. c = CHR '' '' \<or> c = CHR 0x09) (drop (length save_config_header) s);
          r1 = (if r \<noteq> [] \<and> hd r = CHR 0x0D then tl r else r) in
      if starts_with save_config_header s \<and> (r1 = [] \<or> hd r1 = CHR 0x0A) then Some () else None)"

text \<open>The user's part of the root file, and everything from the SAVE_CONFIG header on.\<close>

definition split_save_config :: "string \<Rightarrow> string \<times> string" where
  "split_save_config text = (case search_line save_config_match True text of
     Some (k, _) \<Rightarrow> (take k text, drop k text) | None \<Rightarrow> (text, []))"

definition remote_bytes :: "file_state \<Rightarrow> string \<Rightarrow> bytes option" where
  "remote_bytes remote p = (case dict_get remote p of Some v \<Rightarrow> v | None \<Rightarrow> None)"

definition remote_text :: "file_state \<Rightarrow> string \<Rightarrow> (tx_exn, string) res" where
  "remote_text remote p = (case remote_bytes remote p of Some b \<Rightarrow> decode_text b | None \<Rightarrow> Inr [])"

text \<open>The generated file has the root layout when there is no root file, or it is marked, or it is a stub.\<close>

definition uses_root_layout :: "bytes option \<Rightarrow> string \<Rightarrow> bool" where
  "uses_root_layout root_bytes existing_root =
     (let os = section_options existing_root in
      root_bytes = None \<or> contains layout_marker existing_root
      \<or> (dict_get (options_of os ''printer'') ''kinematics'' = Some ''none''
         \<and> \<not> list_ex (starts_with ''stepper_'') (dict_keys os)))"

definition planned_artifact :: "file_state \<Rightarrow> string \<Rightarrow> bytes \<Rightarrow> plan_artifact" where
  "planned_artifact remote p content =
     \<lparr>pa_remote_name = p, pa_content = content, pa_previous = remote_bytes remote p\<rparr>"

definition moonraker_artifacts :: "file_state \<Rightarrow> (tx_exn, plan_artifact list) res" where
  "moonraker_artifacts remote =
     bindE (remote_text remote moonraker_remote) (\<lambda>t.
     let (reconciled, changed) = reconcile_moonraker_conf_content t;
         full = (if ends_with newline reconciled then reconciled else reconciled @ file_newline reconciled) in
     Inr (if changed \<and> remote_bytes remote moonraker_remote \<noteq> None
          then [planned_artifact remote moonraker_remote (utf8_encode full)] else []))"

definition kept_macros_warning :: string where
  "kept_macros_warning = ''Existing macros.cfg remains user-owned; generated starter macros were not deployed to avoid duplicate macro definitions.''"
definition stale_include_warning :: string where
  "stale_include_warning = ''Removed a stale legacy [include macros.cfg] after confirming that macros.cfg is absent.''"

text \<open>The settings the new configuration loses, and the decisions about macros.\<close>

definition plan_warnings ::
    "file_state \<Rightarrow> string \<Rightarrow> string \<Rightarrow> bytes option \<Rightarrow> bool \<Rightarrow> bool \<Rightarrow> string \<Rightarrow> (tx_exn, string list) res" where
  "plan_warnings remote root hardware macros kept_macros stale final_hardware =
     bindE (case (macros, remote_bytes remote macros_remote) of
         (Some m, Some old) \<Rightarrow> bindE (decode_text old) (\<lambda>o'. bindE (decode_text m) (\<lambda>m'.
            Inr (setting_loss_warnings macros_remote o' m')))
       | _ \<Rightarrow> Inr []) (\<lambda>macro_warnings.
     Inr (setting_loss_warnings root_remote root final_hardware
       @ setting_loss_warnings hardware_remote hardware final_hardware @ macro_warnings
       @ (if kept_macros then [kept_macros_warning] else [])
       @ (if stale then [stale_include_warning] else [])))"

text \<open>The effective configuration is read off the planned artifacts over the present files.\<close>

definition complete_plan ::
    "file_state \<Rightarrow> plan_artifact list \<Rightarrow> bool \<Rightarrow> (string \<Rightarrow> (tx_exn, string list) res) \<Rightarrow> (tx_exn, config_plan) res" where
  "complete_plan remote artifacts migrated warnings =
     bindE (effective_hardware_text
        \<lparr>cp_artifacts = artifacts, cp_legacy_migration = False, cp_warnings = [], cp_source_files = remote\<rparr> False) (\<lambda>final_hardware.
     bindE (warnings final_hardware) (\<lambda>ws.
     Inr \<lparr>cp_artifacts = artifacts, cp_legacy_migration = migrated, cp_warnings = ws, cp_source_files = remote\<rparr>))"

text \<open>A root file of the old generator may include a \<open>macros.cfg\<close> that is not there.\<close>

definition stale_legacy_macros :: "file_state \<Rightarrow> string \<Rightarrow> bool" where
  "stale_legacy_macros remote root =
     (contains legacy_header root \<and> \<not> contains managed_begin root
      \<and> has_include root legacy_macros_remote \<and> remote_bytes remote legacy_macros_remote = None)"

definition without_stale_include :: "file_state \<Rightarrow> string \<Rightarrow> string" where
  "without_stale_include remote root =
     (if stale_legacy_macros remote root then remove_include root legacy_macros_remote else root)"

definition build_managed_config_plan ::
    "bytes \<Rightarrow> bytes option \<Rightarrow> file_state \<Rightarrow> (tx_exn, config_plan) res" where
  "build_managed_config_plan generated_hardware generated_macros remote =
     bindE (decode_text generated_hardware) (\<lambda>generated0.
     bindE (remote_text remote root_remote) (\<lambda>root_text.
     let (root1, save_config) = split_save_config root_text;
         stale = stale_legacy_macros remote root1; root2 = without_stale_include remote root1 in
     bindE (remote_text remote hardware_remote) (\<lambda>existing_hardware.
     let generated1 = carry_user_tuning (carry_user_tuning generated0 existing_hardware) root2;
         keep_macros = (remote_bytes remote legacy_macros_remote \<noteq> None \<and> has_include root2 legacy_macros_remote);
         effective_macros = (if keep_macros then None else generated_macros);
         root_layout = uses_root_layout (remote_bytes remote root_remote) root2;
         root3 = replace_text (layout_marker @ newline) [] root2 in
     bindE (reconcile_root root3 generated1 (effective_macros \<noteq> None) save_config
         (existing_hardware @ newline @ root3) root_layout) (\<lambda>(reconciled, generated2, migrated).
     let root_out = (if root_layout then layout_marker @ newline else []) @ reconciled @ save_config;
         first = [planned_artifact remote root_remote (utf8_encode root_out)]
           @ (if root_layout then [] else [planned_artifact remote hardware_remote (utf8_encode generated2)])
           @ (case effective_macros of Some m \<Rightarrow> [planned_artifact remote macros_remote m] | None \<Rightarrow> []) in
     bindE (moonraker_artifacts remote) (\<lambda>moonraker.
     complete_plan remote (first @ moonraker) migrated
       (plan_warnings remote root3 existing_hardware effective_macros (keep_macros \<and> generated_macros \<noteq> None) stale))))))"

end
