(* ===== verification/Managed_Sections.thy ===== *)
theory Managed_Sections
  imports Managed_Config
begin

text \<open>
  The sections of a text tile it from the first header on: each begins at the start of a line and
  ends where the next begins.  Dropping some of them leaves the others as they are.
\<close>

subsection \<open>Positions\<close>

lemma scan_positions:
  "(n, p) \<in> set (scan_sections pos start s) \<Longrightarrow>
     pos \<le> p \<and> p < pos + length s \<and> (p = pos \<or> s ! (p - pos - 1) = CHR 0x0A) \<and> (p = pos \<longrightarrow> start)"
proof (induction pos start s arbitrary: n p rule: scan_sections.induct)
  case (1 pos start s)
  show ?case
  proof (cases "if start then section_match s else None")
    case (Some m)
    obtain n' k where m: "m = (n', k)" by (cases m)
    with Some have k: "0 < k" "s \<noteq> []" "start" by (auto dest: section_match_length split: if_splits)
    from "1.prems" Some m have "(n, p) = (n', pos) \<or> (n, p) \<in> set (scan_sections (pos + k) (s ! (k - 1) = CHR 0x0A) (drop k s))"
      by (subst (asm) scan_sections.simps) simp
    then show ?thesis
    proof
      assume "(n, p) \<in> set (scan_sections (pos + k) (s ! (k - 1) = CHR 0x0A) (drop k s))"
      from "1.IH"(2) [OF Some m [symmetric] this] have
        r: "pos + k \<le> p" "p < pos + k + length (drop k s)"
          "p = pos + k \<or> drop k s ! (p - (pos + k) - 1) = CHR 0x0A" "p = pos + k \<longrightarrow> s ! (k - 1) = CHR 0x0A" by auto
      then have "s ! (p - pos - 1) = CHR 0x0A"
        by (cases "p = pos + k") auto
      with r k show ?thesis by auto
    qed (use k in auto)
  next
    case None
    show ?thesis
    proof (cases s)
      case Nil
      with "1.prems" None show ?thesis by (subst (asm) scan_sections.simps) simp
    next
      case (Cons c cs)
      with "1.prems" None have "(n, p) \<in> set (scan_sections (Suc pos) (c = CHR 0x0A) cs)"
        by (subst (asm) scan_sections.simps) simp
      from "1.IH"(1) [OF None Cons this] have
        "Suc pos \<le> p" "p < Suc pos + length cs" "p = Suc pos \<or> cs ! (p - Suc pos - 1) = CHR 0x0A" "p = Suc pos \<longrightarrow> c = CHR 0x0A"
        by auto
      moreover have "s ! (p - pos - 1) = (if p = Suc pos then c else cs ! (p - Suc pos - 1))"
        using Cons \<open>Suc pos \<le> p\<close> by (auto simp: nth_Cons diff_Suc split: nat.split)
      ultimately show ?thesis using Cons by auto
    qed
  qed
qed

lemma scan_sorted: "sorted_wrt (\<lambda>x y. snd x < snd y) (scan_sections pos start s)"
proof (induction pos start s rule: scan_sections.induct)
  case (1 pos start s)
  show ?case
  proof (cases "if start then section_match s else None")
    case (Some m)
    obtain n' k where m: "m = (n', k)" by (cases m)
    with Some have k: "0 < k" by (auto dest: section_match_length split: if_splits)
    have "pos < snd x" if "x \<in> set (scan_sections (pos + k) (s ! (k - 1) = CHR 0x0A) (drop k s))" for x
      using scan_positions [of "fst x" "snd x"] that k by fastforce
    with "1.IH"(2) [OF Some m [symmetric]] Some m show ?thesis by (subst scan_sections.simps) simp
  next
    case None
    with "1.IH"(1) [OF None] show ?thesis by (subst scan_sections.simps) (simp split: list.split)
  qed
qed

subsection \<open>Tiles\<close>

text \<open>Sections \<open>(name, start, end)\<close> that follow one another without a gap up to \<open>m\<close>.\<close>

fun adjoining :: "(string \<times> nat \<times> nat) list \<Rightarrow> nat \<Rightarrow> bool" where
  "adjoining [] m = True"
| "adjoining ((n, a, b) # xs) m = (a < b \<and> b \<le> m \<and> (case xs of [] \<Rightarrow> b = m | (_, a', _) # _ \<Rightarrow> b = a') \<and> adjoining xs m)"

lemma adjoining_zip:
  "sorted_wrt (\<lambda>x y. snd x < snd y) ms \<Longrightarrow> \<forall>x \<in> set ms. snd x < m \<Longrightarrow>
   adjoining (map (\<lambda>((n, a), b). (f n, a, b)) (zip ms (map snd (tl ms) @ [m]))) m"
proof (induction ms rule: induct_list012)
  case (3 x y zs)
  then show ?case by (cases x; cases y; cases zs) auto
qed (auto split: prod.splits)

lemma spans_adjoining: "adjoining (section_spans text) (length text)"
proof -
  have "\<forall>x \<in> set (scan_sections 0 True text). snd x < length text"
    using scan_positions [of _ _ 0 True "text"] by fastforce
  from adjoining_zip [OF scan_sorted, OF this] show ?thesis by (simp add: section_spans_def Let_def)
qed

definition ended :: "string \<Rightarrow> bool" where
  "ended q = (q = [] \<or> last q = CHR 0x0A)"

lemma span_start:
  "(n, a, b) \<in> set (section_spans text) \<Longrightarrow> a = 0 \<or> (a < length text \<and> text ! (a - 1) = CHR 0x0A)"
proof -
  assume "(n, a, b) \<in> set (section_spans text)"
  then obtain n' where "(n', a) \<in> set (scan_sections 0 True text)"
    by (auto simp: section_spans_def Let_def dest: set_zip_leftD)
  from scan_positions [OF this] show ?thesis by auto
qed

lemma ended_take: "a = 0 \<or> (a < length text \<and> text ! (a - 1) = CHR 0x0A) \<Longrightarrow> ended (take a text)"
  by (cases "take a text = []") (auto simp: ended_def last_conv_nth min_def)

lemma ended_slice: "a < b \<Longrightarrow> b < length text \<Longrightarrow> text ! (b - 1) = CHR 0x0A \<Longrightarrow> ended (slice text a b)"
  by (auto simp: ended_def slice_def last_conv_nth)

lemma adjoining_end:
  "adjoining xs m \<Longrightarrow> x \<in> set xs \<Longrightarrow> snd (snd x) = m \<or> (\<exists>y \<in> set xs. fst (snd y) = snd (snd x) \<and> fst (snd x) < fst (snd y))"
  by (induction xs) (fastforce split: list.splits)+

lemma adjoining_sorted: "adjoining xs m \<Longrightarrow> sorted_wrt (\<lambda>x y. snd (snd x) \<le> fst (snd y)) xs \<and> (\<forall>x \<in> set xs. fst (snd x) < snd (snd x) \<and> snd (snd x) \<le> m)"
  by (induction xs) (fastforce split: list.splits)+

text \<open>The texts of the sections: all but the last end with a line feed.\<close>

definition span_text :: "string \<Rightarrow> string \<times> nat \<times> nat \<Rightarrow> string" where
  "span_text text x = slice text (fst (snd x)) (snd (snd x))"

lemma slices_ended: "sorted_wrt (\<lambda>x y. ended (span_text text x)) (section_spans text)"
proof -
  have a: "adjoining (section_spans text) (length text)" by (rule spans_adjoining)
  have "ended (slice text (fst (snd x)) (snd (snd x)))"
    if "x \<in> set (section_spans text)" "y \<in> set (section_spans text)" "snd (snd x) \<le> fst (snd y)" for x y
  proof -
    from adjoining_sorted [OF a] that have m: "snd (snd x) < length text" "fst (snd x) < snd (snd x)" by force+
    with adjoining_end [OF a that(1)] obtain z where "z \<in> set (section_spans text)" "fst (snd z) = snd (snd x)" by auto
    with m span_start [of "fst z" "fst (snd z)" "snd (snd z)" "text"] show ?thesis by (cases z) (auto intro!: ended_slice)
  qed
  then show ?thesis
    unfolding span_text_def
    by (rule sorted_wrt_mono_rel [OF _ conjunct1 [OF adjoining_sorted [OF a]]])
qed

lemma slice_take: "a \<le> b \<Longrightarrow> take a text @ slice text a b = take b text"
  by (simp add: slice_def flip: take_add)

text \<open>Cutting from the rear leaves the kept sections behind what precedes the first one.\<close>

lemma drop_adjoining:
  "adjoining xs (length text) \<Longrightarrow> xs \<noteq> [] \<Longrightarrow>
   foldr (\<lambda>x t. if p (fst x) then take (fst (snd x)) t @ drop (snd (snd x)) t else t) xs text =
     take (fst (snd (hd xs))) text @ concat (map (span_text text) (filter (\<lambda>x. \<not> p (fst x)) xs))"
proof (induction xs)
  case (Cons x xs)
  obtain n a b where x: "x = (n, a, b)" by (cases x)
  show ?case
  proof (cases xs)
    case Nil
    with Cons.prems x show ?thesis by (auto simp: slice_def span_text_def)
  next
    case (Cons y ys)
    obtain n' a' b' where y: "y = (n', a', b')" by (cases y)
    from Cons.prems x y \<open>xs = y # ys\<close> have ab: "a < b" "b = a'" "b \<le> length text" "adjoining xs (length text)" by auto
    let ?k = "concat (map (span_text text) (filter (\<lambda>x. \<not> p (fst x)) xs))"
    let ?f = "\<lambda>x t. if p (fst x) then take (fst (snd x)) t @ drop (snd (snd x)) t else t"
    have IH: "foldr ?f xs text = take b text @ ?k"
      using Cons.IH ab \<open>xs = y # ys\<close> y by simp
    have "foldr ?f (x # xs) text = ?f x (take b text @ ?k)" by (simp only: foldr_Cons o_apply IH)
    moreover have "take a (take b text @ ?k) @ drop b (take b text @ ?k) = take a text @ ?k" using ab by (simp add: min_def)
    moreover have "take b text @ ?k = take a text @ span_text text x @ ?k"
      using slice_take [of a b "text"] ab x by (simp add: span_text_def)
    ultimately show ?thesis using x by simp
  qed
qed simp

lemma drop_pieces:
  "\<exists>front. drop_sections p text = concat (front # map (span_text text) (filter (\<lambda>x. \<not> p (fst x)) (section_spans text)))
     \<and> (section_spans text \<noteq> [] \<longrightarrow> ended front)"
proof (cases "section_spans text")
  case Nil
  then show ?thesis by (intro exI [of _ "text"]) (simp add: drop_sections_def)
next
  case (Cons x xs)
  obtain n a b where x: "x = (n, a, b)" by (cases x)
  have "ended (take a text)" using span_start [of n a b "text"] Cons x by (intro ended_take) simp
  with drop_adjoining [OF spans_adjoining, of "text" p] Cons x show ?thesis
    by (intro exI [of _ "take a text"]) (simp add: drop_sections_def case_prod_beta')
qed

subsection \<open>Lines of tiles\<close>

lemma split_lines_append: "ended x \<Longrightarrow> split_lines_keep (x @ y) = split_lines_keep x @ split_lines_keep y"
proof (induction x rule: split_lines_keep.induct)
  case (2 c)
  then have "c = CHR 0x0A" "is_linebreak (CHR 0x0A)" by (auto simp: ended_def is_linebreak_def code_of_def)
  then show ?case by (cases y) simp_all
next
  case (3 c d cs)
  then have e: "ended (d # cs)" "ended cs" by (auto simp: ended_def split: if_splits)
  show ?case
  proof (cases "c = CHR 0x0D \<and> d = CHR 0x0A \<or> is_linebreak c")
    case True
    with 3 e show ?thesis by auto
  next
    case False
    have "split_lines_keep (d # cs) \<noteq> []" by simp
    then obtain w ws where "split_lines_keep (d # cs) = w # ws" by (cases "split_lines_keep (d # cs)") simp_all
    with False 3(3) [OF _ _ e(1)] show ?thesis
      by (simp only: append_Cons split_lines_keep.simps(3) if_False) (use False in auto)
  qed
qed simp

lemma split_pieces:
  "sorted_wrt (\<lambda>q r. ended q) qs \<Longrightarrow> split_lines_keep (concat qs) = concat (map split_lines_keep qs)"
proof (induction qs)
  case (Cons q qs)
  then show ?case by (cases "qs = []") (auto simp: split_lines_append neq_Nil_conv)
qed simp

lemma contains_piece: "q \<in> set qs \<Longrightarrow> contains q (concat qs)"
  unfolding contains_iff by (metis concat.simps(2) concat_append split_list)

lemma contains_append: "contains p s \<Longrightarrow> contains p (u @ s @ v)"
  unfolding contains_iff by (metis append.assoc)

lemma contains_self [simp]: "contains s s"
  unfolding contains_iff by (metis append_Nil append_Nil2)

lemma contains_lstrip: "contains p s \<Longrightarrow> contains (lstrip_crlf p) (lstrip_crlf s)"
proof -
  assume "contains p s"
  then obtain u v where s: "s = u @ p @ v" by (auto simp: contains_iff)
  have split: "p = takeWhile is_crlf p @ lstrip_crlf p" by (simp add: lstrip_crlf_def)
  show ?thesis
  proof (cases "\<forall>c \<in> set u. is_crlf c")
    case True
    then have s2: "lstrip_crlf s = lstrip_crlf (p @ v)" by (simp add: s lstrip_crlf_def)
    have "lstrip_crlf (p @ v) = lstrip_crlf p @ v \<or> lstrip_crlf p = []"
      by (induction p) (auto simp: lstrip_crlf_def)
    then show ?thesis unfolding s2 contains_iff by (metis append_Nil append_Nil2)
  next
    case False
    have "lstrip_crlf s = lstrip_crlf u @ p @ v" using False by (auto simp: s lstrip_crlf_def dropWhile_append)
    then show ?thesis using split unfolding contains_iff by (metis append.assoc)
  qed
qed

lemma contains_join: "l \<in> set ls \<Longrightarrow> contains l (join_with nl ls)"
proof (induction ls rule: induct_list012)
  case (3 x y zs)
  show ?case
  proof (cases "l = x")
    case True
    then show ?thesis unfolding contains_iff by (metis append_Nil join_with.simps(3))
  next
    case False
    then have "contains l (join_with nl (y # zs))" using 3 by simp
    from contains_append [OF this, of "x @ nl" "[]"] show ?thesis by simp
  qed
qed (auto simp: contains_iff)

end
