(* ===== verification/Config_Grounds.thy ===== *)
theory Config_Grounds
  imports Config_Properties
begin

text \<open>
  What every write of a configuration transaction rests on: an artifact of a plan that the planner
  made, and the very content which the planner was given for that file is the one it replaces.
\<close>

definition grounded :: "'w tx_env \<Rightarrow> tx_core \<Rightarrow> bool" where
  "grounded env c = (\<forall>n d v. Uploading n d v \<in> set (tc_log c) \<longrightarrow>
     (\<exists>remote p. te_planner env (te_hardware env) (te_macros env) remote = Inr p \<and> dict_get remote n = Some v
        \<and> (\<exists>a \<in> set (changed_artifacts p). pa_remote_name a = n \<and> pa_content a = d)))"

definition stays :: "'w tx_env \<Rightarrow> ('w, 'a) tx \<Rightarrow> bool" where
  "stays env m = (\<forall>c. grounded env c \<longrightarrow> wp snd m (\<lambda>_. grounded env) (\<lambda>_. grounded env) c)"

named_theorems stays_intros \<open>actions that leave every write grounded\<close>

lemma later_grounded: "later c c' \<Longrightarrow> grounded env c \<Longrightarrow> grounded env c'"
proof -
  assume l: "later c c'" and g: "grounded env c"
  have "e \<in> set (tc_log c)" if "e \<in> set (tc_log c')" "is_upload e" for e
    using l that by (auto simp: later_def list_all_iff)
  then show ?thesis using g unfolding grounded_def by (metis effects_quiet(8))
qed

lemma quiet_keeps: "quiet_tx m \<Longrightarrow> stays env m"
  by (auto simp: stays_def intro!: quiet_wp [of m] elim: later_grounded)

lemma stays_wp: "stays env m \<Longrightarrow> grounded env c \<Longrightarrow> (\<And>x c'. grounded env c' \<Longrightarrow> Q x c') \<Longrightarrow> (\<And>e c'. grounded env c' \<Longrightarrow> E e c') \<Longrightarrow> wp snd m Q E c"
  unfolding stays_def by (blast intro: wp_conseq)

lemma stays_bind [stays_intros]: "stays env m \<Longrightarrow> (\<And>x. stays env (k x)) \<Longrightarrow> stays env (bindS m k)"
  unfolding stays_def by (intro allI impI wp_bind) (blast intro: wp_conseq)

lemma stays_catch [stays_intros]: "stays env m \<Longrightarrow> (\<And>e. stays env (h e)) \<Longrightarrow> stays env (catchS m h)"
  unfolding stays_def by (intro allI impI wp_catch) (blast intro: wp_conseq)

lemma stays_finally [stays_intros]: "stays env m \<Longrightarrow> stays env f \<Longrightarrow> stays env (finallyS m f)"
  unfolding stays_def by (intro allI impI wp_finally) (blast intro: wp_conseq)

lemma stays_core: "(\<And>c. tc_log (f c) = tc_log c) \<Longrightarrow> stays env (on_core f)"
  by (auto simp: stays_def grounded_def intro!: wp_on_core)

lemma stays_attempt [stays_intros]: "stays env m \<Longrightarrow> stays env (attempt m)"
  unfolding attempt_def by (intro stays_bind stays_catch) (auto intro!: quiet_keeps quiet_intros)

lemma stays_cases [stays_intros]:
  "stays env m \<Longrightarrow> stays env n \<Longrightarrow> stays env (if b then m else n)"
  "stays env m \<Longrightarrow> (\<And>x. stays env (f x)) \<Longrightarrow> stays env (case q of None \<Rightarrow> m | Some x \<Rightarrow> f x)"
  "(\<And>x. stays env (g x)) \<Longrightarrow> (\<And>x. stays env (h x)) \<Longrightarrow> stays env (case r of Inl x \<Rightarrow> g x | Inr x \<Rightarrow> h x)"
  by (auto split: option.splits sum.splits)

lemma stays_each: "(\<And>x. x \<in> set xs \<Longrightarrow> stays env (f x)) \<Longrightarrow> stays env (eachS f xs)"
  by (induction xs) (auto intro!: stays_bind quiet_keeps [OF quiet_tx_basic(1)])

subsection \<open>The steps of a run\<close>

lemma stays_mark: "stays env (mark_written n)"
  unfolding mark_written_def by (intro stays_core) simp

lemma stays_record: "stays env (record_possible_write env n)"
  unfolding record_possible_write_def Let_def
  by (intro stays_bind stays_cases stays_mark stays_catch quiet_keeps quiet_intros)

lemma stays_upload:
  assumes "te_planner env (te_hardware env) (te_macros env) remote = Inr p" and "a \<in> set (changed_artifacts p)"
    and "\<forall>n. dict_get current n = dict_get remote n"
  shows "stays env (upload_one env current a)"
proof -
  have log: "wp snd (log_effect (Uploading (pa_remote_name a) (pa_content a) v)) (\<lambda>_. grounded env) (\<lambda>_. grounded env) c"
    if "grounded env c" "entry current (pa_remote_name a) = Inr v" for c v
  proof (rule wp_log)
    have "dict_get remote (pa_remote_name a) = Some v" using that(2) assms(3) by (simp add: entry_def split: option.splits)
    then show "grounded env (c\<lparr>tc_log := tc_log c @ [Uploading (pa_remote_name a) (pa_content a) v]\<rparr>)"
      using that(1) assms(1,2) unfolding grounded_def by auto
  qed
  have rest: "stays env (catchS
       (bindS (outside (te_upload env (pa_remote_name a) (pa_content a) v)) (\<lambda>_. mark_written (pa_remote_name a)))
       (\<lambda>e. if tx_kind e = Still_running then raiseS e
            else bindS (record_possible_write env (pa_remote_name a)) (\<lambda>_. raiseS e)))" for v
    by (intro stays_bind stays_cases stays_mark stays_catch stays_record quiet_keeps quiet_intros)
  have published: "wp snd (bindS (log_effect (Uploading (pa_remote_name a) (pa_content a) v)) (\<lambda>_. catchS
       (bindS (outside (te_upload env (pa_remote_name a) (pa_content a) v)) (\<lambda>_. mark_written (pa_remote_name a)))
       (\<lambda>e. if tx_kind e = Still_running then raiseS e
            else bindS (record_possible_write env (pa_remote_name a)) (\<lambda>_. raiseS e))))
       (\<lambda>_. grounded env) (\<lambda>_. grounded env) c"
    if "grounded env c" "entry current (pa_remote_name a) = Inr v" for c v
    by (rule wp_bind, rule wp_conseq [OF log [OF that]]) (use rest in \<open>auto simp: stays_def\<close>)
  show ?thesis
    unfolding stays_def upload_one_def
    by (intro allI impI, rule wp_bind, rule wp_lift, rule wp_bind, erule stays_wp [OF quiet_keeps [OF quiet_parts(4)]])
       (auto intro: published)
qed

lemma stays_publish:
  assumes "te_planner env (te_hardware env) (te_macros env) remote = Inr p" and "\<forall>n. dict_get current n = dict_get remote n"
  shows "stays env (published env p current)"
proof -
  have "stays env (eachS (upload_one env current) (ordered_artifacts p))"
    by (rule stays_each, rule stays_upload [OF assms(1) _ assms(2)]) (simp add: ordered_artifacts_def)
  then show ?thesis
    unfolding published_def publish_def
    by (intro stays_bind stays_attempt stays_cases) (auto intro!: quiet_keeps quiet_intros)
qed

text \<open>A state that was read again and compared has the reviewed entries, and no others.\<close>

lemma changed_names_none:
  "changed_names reviewed current = Inr [] \<Longrightarrow> (n, v) \<in> set reviewed \<Longrightarrow> dict_get current n = Some v"
  unfolding changed_names_def
  by (induction reviewed) (auto simp: result_simps entry_def split: option.splits if_splits)

lemma read_names_subset: "read_names reader ns w = (Inr current, w') \<Longrightarrow> set (dict_keys current) \<subseteq> set ns"
proof -
  have "mapE (\<lambda>n. bindE (entry remote n) (\<lambda>v. Inr (n, v))) ns = Inr current \<Longrightarrow> set (dict_keys current) \<subseteq> set ns" for remote
    by (induction ns arbitrary: current) (fastforce simp: result_simps dict_keys_def)+
  then show "read_names reader ns w = (Inr current, w') \<Longrightarrow> set (dict_keys current) \<subseteq> set ns"
    by (auto simp: read_names_def bindS_def liftS_def split: prod.splits sum.splits)
qed

lemma same_entries:
  assumes "changed_names reviewed current = Inr []" and "set (dict_keys current) \<subseteq> set (dict_keys reviewed)"
  shows "dict_get current n = dict_get reviewed n"
proof (cases "dict_get reviewed n")
  case None
  then have "n \<notin> set (dict_keys current)" using assms(2) by (auto simp: dict_get_def dict_keys_def map_of_eq_None_iff)
  then have "dict_get current n = None" by (simp add: dict_get_def dict_keys_def map_of_eq_None_iff)
  with None show ?thesis by simp
next
  case (Some v)
  then have "(n, v) \<in> set reviewed" by (simp add: dict_get_def map_of_SomeD)
  with changed_names_none [OF assms(1)] Some show ?thesis by simp
qed

lemma revalidate_entries:
  assumes "grounded env c"
  shows "wp snd (revalidate env reviewed) (\<lambda>current c'. grounded env c' \<and> (\<forall>n. dict_get current n = dict_get reviewed n))
    (\<lambda>_. grounded env) c"
  unfolding revalidate_def
proof (rule wp_bind, rule wp_attempt, rule wp_outside_value)
  fix w current w' assume "bindS (te_validate_target env) (\<lambda>_. read_names (te_read env) (dict_keys reviewed)) w = (Inr current, w')"
  then obtain w1 where "read_names (te_read env) (dict_keys reviewed) w1 = (Inr current, w')"
    by (auto simp: bindS_def split: prod.splits sum.splits)
  from read_names_subset [OF this] have keys: "set (dict_keys current) \<subseteq> set (dict_keys reviewed)" .
  show "wp snd (case Inr current of
       Inl e \<Rightarrow> raiseS (Tx Conflict_error (''configuration revalidation failed: '' @ tx_text e))
     | Inr current \<Rightarrow>
         bindS (liftS (changed_names reviewed current)) (\<lambda>changed.
         bindS (requireS (changed = []) (conflict changed)) (\<lambda>_.
         returnS current)))
     (\<lambda>current c'. grounded env c' \<and> (\<forall>n. dict_get current n = dict_get reviewed n)) (\<lambda>_. grounded env) c"
    using assms same_entries [OF _ keys] by (auto intro!: wp_bind wp_lift wp_require wp_return)
qed (use assms in \<open>auto intro!: wp_raise\<close>)

lemma decided_entries:
  assumes "grounded env c"
  shows "wp snd (decided env pf)
     (\<lambda>d c'. grounded env c' \<and> (\<forall>current. d = Inr current \<longrightarrow> (\<forall>n. dict_get current n = dict_get (pf_remote pf) n)))
     (\<lambda>_. grounded env) c"
proof -
  have core: "stays env (choose_activation env p)" "stays env (take_snapshot env os)" for p os
    unfolding choose_activation_def take_snapshot_def whenS_def
    by (auto intro!: stays_bind stays_cases stays_core quiet_keeps [OF quiet_tx_basic(1)] quiet_keeps [OF quiet_tx_basic(4)]
        quiet_keeps [OF quiet_tx_basic(5)] quiet_keeps [OF quiet_log])
  have decide: "wp snd (decide env pf)
     (\<lambda>d c'. grounded env c' \<and> (\<forall>current. d = Inr current \<longrightarrow> (\<forall>n. dict_get current n = dict_get (pf_remote pf) n)))
     (\<lambda>_. grounded env) c"
    unfolding decide_def
    apply (rule wp_bind)
    apply (rule stays_wp [of env])
       apply (intro stays_cases quiet_keeps quiet_intros)
      apply (rule assms)
     apply (rule wp_if)
      apply (simp add: wp_return)
     apply (rule wp_bind, rule stays_wp [OF quiet_keeps [OF quiet_log]], simp, assumption)
      apply (rule wp_bind, rule stays_wp [OF core(1)], assumption)
       apply (rule wp_bind, rule wp_conseq [OF revalidate_entries], assumption)
        apply (elim conjE)
        apply (rule wp_bind, rule stays_wp [OF quiet_keeps [OF quiet_parts(5)]], assumption)
         apply (intro wp_bind wp_lift)
          apply (rule stays_wp [OF core(2)], assumption)
           apply (auto intro!: wp_return)
    done
  show ?thesis
    unfolding decided_def
  proof (rule wp_bind, rule wp_attempt, rule wp_conseq [OF decide])
    fix e c' assume "grounded env c'"
    then show "if is_exception e then
       wp snd (case Inl e of Inl e \<Rightarrow>
         if tx_kind e = Conflict_error then
           bindS (preserve_proposal env) (\<lambda>_.
           returnS (Inl (tx_result_of env PRECONDITION_FAILED (tx_text e @ ''; no configuration files were written'') None)))
         else returnS (Inl (tx_result_of env SNAPSHOT_FAILED (''snapshot could not be completed: '' @ tx_text e) None))
       | Inr x \<Rightarrow> returnS x)
       (\<lambda>d c'. grounded env c' \<and> (\<forall>current. d = Inr current \<longrightarrow> (\<forall>n. dict_get current n = dict_get (pf_remote pf) n)))
       (\<lambda>_. grounded env) c'
     else grounded env c'"
      by (auto intro!: wp_bind wp_return stays_wp [OF quiet_keeps [OF quiet_parts(9)]])
  qed (auto intro!: wp_return)
qed

lemma preflight_planned:
  assumes "grounded env c"
  shows "wp snd (preflight env)
     (\<lambda>pf c'. grounded env c' \<and> te_planner env (te_hardware env) (te_macros env) (pf_remote pf) = Inr (pf_plan pf))
     (\<lambda>_. grounded env) c"
proof -
  have guard: "wp snd (require_conditional_writes env p) Q E c'" if "\<And>x. Q x c'" "\<And>e. E e c'" for p Q E c'
    unfolding require_conditional_writes_def Let_def using that by (auto intro!: wp_when wp_outside)
  show ?thesis
    unfolding preflight_def Let_def
    by (intro wp_intros guard) (use assms in \<open>auto simp: grounded_def intro!: wp_intros\<close>)
qed

lemma stays_locked: "stays env (run_locked env)"
proof -
  have "wp snd (proceed env pf) (\<lambda>_. grounded env) (\<lambda>_. grounded env) c"
    if "grounded env c" "te_planner env (te_hardware env) (te_macros env) (pf_remote pf) = Inr (pf_plan pf)" for pf c
    unfolding proceed_def
    apply (rule wp_if)
     apply (simp add: wp_return that)
    apply (rule wp_bind, rule wp_conseq [OF decided_entries [OF that(1)]])
     apply (auto intro!: wp_return wp_sum)[1]
     apply (rule wp_bind, rule stays_wp [OF quiet_keeps [OF quiet_tx_basic(8)]], assumption)
      apply (rule wp_bind, rule stays_wp [OF quiet_keeps [OF quiet_recheck]], assumption)
       apply (auto intro!: wp_return stays_wp [OF stays_publish [OF that(2)]] split: sum.splits)
    done
  then show ?thesis
    unfolding stays_def run_locked_def
    by (intro allI impI wp_bind wp_emit_state wp_attempt wp_conseq [OF preflight_planned])
       (auto intro!: wp_return)
qed

lemma run_grounded:
  assumes "new_transaction activation = Inr c0" and "run_transaction env (w, c0) = (r, (w', c))"
  shows "grounded env c"
proof -
  have locked: "stays env (run_held env)"
    unfolding run_held_def interrupted_def
    by (auto intro!: stays_catch stays_cases stays_bind stays_finally stays_locked quiet_keeps [OF quiet_tx_basic(5)]
        quiet_keeps [OF quiet_tx_basic(6)] quiet_keeps [OF quiet_tx_basic(1)] quiet_keeps [OF quiet_tx_basic(2)]
        quiet_keeps [OF quiet_rollback] split: option.splits prod.splits)
  have "stays env (run_transaction env)"
    unfolding run_transaction_def destination_key_def
    by (intro stays_bind stays_cases stays_finally stays_attempt locked quiet_keeps quiet_intros)
  moreover have "grounded env c0"
    using assms(1) by (auto simp: new_transaction_def require_def grounded_def split: if_splits)
  ultimately have s: "wp snd (run_transaction env) (\<lambda>_. grounded env) (\<lambda>_. grounded env) (snd (w, c0))" by (simp add: stays_def)
  show ?thesis
  proof (cases r)
    case (Inl e)
    with wpE [OF s] assms(2) show ?thesis by fastforce
  next
    case (Inr x)
    with wpD [OF s] assms(2) show ?thesis by fastforce
  qed
qed

end
