(* ===== verification/Reconciler_Properties.thy ===== *)
theory Reconciler_Properties
  imports Config_Reconciler Transport_Properties
begin

text \<open>
  What the reconciliation of one file leaves on the disk, whatever else happens there and
  whichever call fails.
\<close>

subsection \<open>Calls\<close>

lemma wp_path_there:
  assumes "P p" and "\<not> is_link (f p)" and "Q (f p \<noteq> None) (True, f)" and "\<And>e. E e (True, f)"
  shows "wp (watched P) (path_there rp p) Q E (True, f)"
  unfolding path_there_def
proof (intro wp_plain_call wp_get)
  fix d assume w: "watched P d = (True, f)"
  then have "followed rp d p = f p" using watched_at [OF w assms(1)] assms(2) by (simp add: followed_def)
  then show "Q (followed rp d p \<noteq> None) (True, f)" using assms(3) by simp
qed (rule assms(4))

lemma wp_os_stat_mode:
  "(\<And>x. Q x (True, f)) \<Longrightarrow> (\<And>e. E e (True, f)) \<Longrightarrow> wp (watched P) (os_stat_mode rp p) Q E (True, f)"
  unfolding os_stat_mode_def by (intro wp_plain_call wp_pick) (auto split: option.splits node.splits)

lemma wp_unlink:
  assumes "\<And>g. (\<forall>q. q \<noteq> p \<longrightarrow> g q = f q) \<Longrightarrow> Q () (True, g)" and "\<And>e. E e (True, f)"
  shows "wp (watched P) (unlink_missing_ok p) Q E (True, f)"
  unfolding unlink_missing_ok_def
  by (intro wp_catch wp_os_remove wp_if wp_return wp_raise) (use assms in auto)

subsection \<open>The paths of one file\<close>

definition new_names :: "string list \<Rightarrow> string \<Rightarrow> string list \<Rightarrow> string set" where
  "new_names vs w names = (\<lambda>n. path_of (vs @ [''.'' @ w @ ''.'' @ n @ ''.part''])) ` set names"

definition file_paths :: "string list \<Rightarrow> string \<Rightarrow> string list \<Rightarrow> string \<Rightarrow> bool" where
  "file_paths vs w names p = (p = path_of (vs @ [w]) \<or> p \<in> new_names vs w names)"

lemma path_name_of: "list_all ordinary vs \<Longrightarrow> ordinary w \<Longrightarrow> path_name (path_of (vs @ [w])) = w"
  using split_path_of [of "vs @ [w]"] by (simp add: path_name_def path_sep_def)

lemma above_untouched:
  assumes "list_all ordinary vs" and "ordinary w" and "\<forall>n \<in> set names. path_sep \<notin> set n"
  shows "\<forall>q \<in> set (path_prefixes (path_of vs)). \<not> file_paths vs w names q"
proof
  fix q assume "q \<in> set (path_prefixes (path_of vs))"
  then obtain k where k: "q = path_of (take k vs)" using prefixes_of [OF assms(1)] by blast
  have t: "list_all ordinary (take k vs)" using assms(1) by (auto simp: list_all_iff dest: in_set_takeD)
  have ne: "q \<noteq> path_of (vs @ [x])" if "ordinary x" for x
  proof
    assume "q = path_of (vs @ [x])"
    then have "take k vs = vs @ [x]" using k t assms(1) that by (intro path_of_inj) auto
    then have "length (take k vs) = length (vs @ [x])" by (rule arg_cong)
    then show False by simp
  qed
  moreover have "ordinary (''.'' @ w @ ''.'' @ n @ ''.part'')" if "n \<in> set names" for n
    using assms(2,3) that by (auto simp: ordinary_def path_sep_def)
  ultimately show "\<not> file_paths vs w names q" using assms(2) by (auto simp: file_paths_def new_names_def)
qed

subsection \<open>Rewriting\<close>

text \<open>The text a file is read as: an absent one is empty.\<close>

definition read_as :: "node option \<Rightarrow> string option" where
  "read_as x = (case x of
     None \<Rightarrow> Some []
   | Some (Regular content _) \<Rightarrow> map_option normalize_newlines (utf8_decode content)
   | _ \<Rightarrow> None)"

definition finished :: "string \<Rightarrow> string" where
  "finished c = (if ends_with (file_newline c) c then c else c @ file_newline c)"

lemma wp_write_text:
  assumes vs: "list_all ordinary vs" "ordinary w" and sep: "\<forall>n \<in> set names. path_sep \<notin> set n"
    and path: "path = path_of (vs @ [w])" "path \<notin> new_names vs w names" and f: "\<not> is_link (f path)"
    and Q: "\<And>g m. g path = Some (Regular content m) \<Longrightarrow> Q () (True, g)" and E: "\<And>e g. g path = f path \<Longrightarrow> E e (True, g)"
  shows "wp (watched (file_paths vs w names)) (write_text_atomically rp names path content) Q E (True, f)"
proof -
  let ?P = "file_paths vs w names"
  have P: "?P path" "\<And>t. t \<in> new_names vs w names \<Longrightarrow> ?P t" using path by (auto simp: file_paths_def)
  have tail: "wp (watched ?P) (catchS
       (bindS (os_write_sync t content) (\<lambda>_. bindS (os_chmod t mode) (\<lambda>_. os_replace t path)))
       (\<lambda>e. bindS (unlink_missing_ok t) (\<lambda>_. raiseS e))) Q E (True, f(t \<mapsto> Regular [] 384))"
    if t: "t \<in> new_names vs w names" for t mode
  proof -
    have ne: "t \<noteq> path" using t path(2) by auto
    have un: "wp (watched ?P) (unlink_missing_ok t) (\<lambda>_. wp (watched ?P) (raiseS e) Q E) E (True, g)"
      if "g path = f path" for e g
      by (intro wp_unlink wp_raise) (use that E ne in auto)
    show ?thesis
      by (intro wp_catch wp_bind wp_os_write wp_os_chmod wp_os_replace)
         (use P t ne Q un in \<open>auto intro!: un split: if_splits\<close>)
  qed
  show ?thesis
    unfolding write_text_atomically_def
    using vs path
    by (intro wp_bind wp_os_makedirs wp_path_there wp_if wp_os_stat_mode wp_return wp_os_mkstemp)
       (use above_untouched [OF vs sep] P f E tail sep in
         \<open>auto simp: dirname_of path_name_of join_of new_names_def ordinary_def path_sep_def intro!: tail\<close>)
qed

lemma wp_reconcile_file:
  assumes vs: "list_all ordinary vs" "ordinary w" and sep: "\<forall>n \<in> set names. path_sep \<notin> set n"
    and path: "path = path_of (vs @ [w])" "path \<notin> new_names vs w names" and f: "\<not> is_link (f path)"
  shows "wp (watched (file_paths vs w names)) (reconcile_file_atomically rp names path fn)
     (\<lambda>b c. if b then \<exists>t m. read_as (f path) = Some t \<and> (snd (fn t) \<or> f path = None)
              \<and> snd c path = Some (Regular (utf8_encode (finished (fst (fn t)))) m)
            else snd c path = f path)
     (\<lambda>e c. snd c path = f path) (True, f)"
proof -
  let ?P = "file_paths vs w names"
  let ?E = "\<lambda>(e :: tx_exn) (c :: bool \<times> (string \<Rightarrow> node option)). snd c path = f path"
  let ?Q = "\<lambda>b c. if b then \<exists>t m. read_as (f path) = Some t \<and> (snd (fn t) \<or> f path = None)
              \<and> snd c path = Some (Regular (utf8_encode (finished (fst (fn t)))) m)
            else snd c path = f path"
  have P: "?P path" using path by (auto simp: file_paths_def)
  let ?R = "\<lambda>t c. c = (True, f) \<and> read_as (f path) = Some t"
  have reading: "wp (watched ?P) (read_file_text rp path) ?R (\<lambda>e c. c = (True, f)) (True, f)"
    unfolding read_file_text_def
    by (intro wp_bind wp_os_read wp_option wp_return wp_raise) (use P f in \<open>auto simp: read_as_def\<close>)
  have read: "wp (watched ?P) (catchS (bindS (path_there rp path) (\<lambda>present. if present then read_file_text rp path else returnS []))
        (\<lambda>e. if is_exception e then raiseS (os_error (''Could not read existing configuration: '' @ path)) else raiseS e))
     ?R (\<lambda>e c. c = (True, f)) (True, f)"
  proof (intro wp_catch wp_bind wp_path_there wp_if)
    show "f path \<noteq> None \<Longrightarrow> wp (watched ?P) (read_file_text rp path) ?R (\<lambda>e. wp (watched ?P)
        (if is_exception e then raiseS (os_error (''Could not read existing configuration: '' @ path)) else raiseS e)
        ?R (\<lambda>e c. c = (True, f))) (True, f)"
      by (rule wp_conseq [OF reading]) (auto intro!: wp_if wp_raise)
  qed (use P f in \<open>auto simp: read_as_def intro!: wp_if wp_raise wp_return\<close>)
  have rest: "wp (watched ?P) (case fn t of (new_content, modified) \<Rightarrow>
     bindS (path_there rp path) (\<lambda>present.
     if \<not> modified \<and> present then returnS False
     else (let nl = file_newline new_content;
               full = (if ends_with nl new_content then new_content else new_content @ nl) in
       catchS (bindS (write_text_atomically rp names path (utf8_encode full)) (\<lambda>_. returnS True))
         (\<lambda>e. if is_exception e then returnS False else raiseS e)))) ?Q ?E (True, f)"
    if t: "read_as (f path) = Some t" for t
    unfolding Let_def
    by (intro wp_prod wp_bind wp_path_there wp_if wp_catch wp_write_text [where f = f, OF vs sep path f] wp_return wp_raise)
       (use P f t in \<open>auto simp: finished_def intro!: wp_if wp_return wp_raise\<close>)
  show ?thesis
    unfolding reconcile_file_atomically_def
  proof (rule wp_bind, rule wp_conseq [OF read])
    fix t c assume "c = (True, f) \<and> read_as (f path) = Some t"
    then show "wp (watched ?P) (case fn t of (new_content, modified) \<Rightarrow>
     bindS (path_there rp path) (\<lambda>present.
     if \<not> modified \<and> present then returnS False
     else (let nl = file_newline new_content;
               full = (if ends_with nl new_content then new_content else new_content @ nl) in
       catchS (bindS (write_text_atomically rp names path (utf8_encode full)) (\<lambda>_. returnS True))
         (\<lambda>e. if is_exception e then returnS False else raiseS e)))) ?Q ?E c"
      using rest [of t] by (elim conjE) (simp only:)
  qed simp
qed

lemma splitlines_newline:
  assumes nl: "nl = [CHR 0x0A] \<or> nl = [CHR 0x0D, CHR 0x0A]"
  shows "\<exists>ls. py_splitlines (c @ nl) = py_splitlines c @ ls"
proof (induction c rule: length_induct)
  case (1 c)
  have one: "py_splitlines nl = [[]]" using splitlines_step [OF _ nl, of "[]" "[]"] by simp
  show ?case
  proof (cases c)
    case Nil
    then show ?thesis by simp
  next
    case (Cons x xs)
    then have IH: "length ds \<le> length xs \<Longrightarrow> \<exists>ls. py_splitlines (ds @ nl) = py_splitlines ds @ ls" for ds
      using "1" by (metis length_Cons less_Suc_eq_le)
    show ?thesis
    proof (cases "is_linebreak x")
      case brk: True
      show ?thesis
      proof (cases xs)
        case Nil
        have "\<exists>ls. py_splitlines ([x] @ nl) = [[]] @ ls"
          using splitlines_break [OF brk, of nl] by (metis append_Cons append_Nil)
        moreover have "py_splitlines [x] = [[]]" using brk by simp
        ultimately show ?thesis using Cons Nil by (simp only: append_Cons append_Nil)
      next
        case (Cons d ds)
        have "\<exists>ls. py_splitlines ((x # d # ds) @ nl) = py_splitlines (x # d # ds) @ ls"
        proof (cases "x = CHR 0x0D \<and> d = CHR 0x0A")
          case True
          then have "py_splitlines ((x # d # ds) @ nl) = [] # py_splitlines (ds @ nl)" "py_splitlines (x # d # ds) = [] # py_splitlines ds"
            using splitlines_crlf [of "ds @ nl"] splitlines_crlf [of ds] by (simp_all only: append_Cons)
          moreover obtain ls where "py_splitlines (ds @ nl) = py_splitlines ds @ ls" using IH [of ds] Cons by auto
          ultimately show ?thesis by (metis append_Cons)
        next
          case False
          then have "py_splitlines ((x # d # ds) @ nl) = [] # py_splitlines ((d # ds) @ nl)"
            "py_splitlines (x # d # ds) = [] # py_splitlines (d # ds)"
            using splitlines_other [OF brk False, of "ds @ nl"] splitlines_other [OF brk False, of ds] by (simp_all only: append_Cons)
          moreover obtain ls where "py_splitlines ((d # ds) @ nl) = py_splitlines (d # ds) @ ls"
            using IH [of "d # ds"] Cons by blast
          ultimately show ?thesis by (metis append_Cons)
        qed
        then show ?thesis using \<open>c = x # xs\<close> Cons by simp
      qed
    next
      case False
      then have step: "py_splitlines (x # s) = (case py_splitlines s of [] \<Rightarrow> [[x]] | w # ws \<Rightarrow> (x # w) # ws)" for s by simp
      show ?thesis
      proof (cases xs)
        case Nil
        have "py_splitlines (x # nl) = [[x]]" "py_splitlines [x] = [[x]]" by (simp_all only: step one) simp_all
        then show ?thesis using Cons Nil by (simp only: append_Cons append_Nil) blast
      next
        case (Cons d ds)
        then have "py_splitlines xs \<noteq> []" by (simp split: list.split)
        then obtain w ws where "py_splitlines xs = w # ws" by (cases "py_splitlines xs") simp_all
        moreover obtain ls where "py_splitlines (xs @ nl) = py_splitlines xs @ ls" using IH [of xs] by blast
        ultimately have "py_splitlines ((x # xs) @ nl) = py_splitlines (x # xs) @ ls" by (simp only: append_Cons step list.case)
        then show ?thesis using \<open>c = x # xs\<close> by blast
      qed
    qed
  qed
qed

lemma finished_lines: "\<exists>ls. py_splitlines (finished c) = py_splitlines c @ ls"
  using splitlines_newline [OF file_newline_cases] by (auto simp: finished_def intro: exI [of _ "[]"])

lemma has_option_append: "has_option sec n xs \<Longrightarrow> has_option sec n (xs @ ys)"
proof -
  assume "has_option sec n xs"
  then obtain i l where i: "i \<in> set (section_indexes sec xs)" and l: "l \<in> set (section_body xs i)" "ini_option n l"
    by (auto simp: has_option_def list_ex_iff)
  from i have "i \<in> set (section_indexes sec (xs @ ys))" by (simp add: indexes_iff nth_append)
  moreover have "set (section_body xs i) \<subseteq> set (section_body (xs @ ys) i)"
    using i by (auto simp: section_body_def indexes_iff takeWhile_append split: if_splits dest: set_takeWhileD)
  ultimately show ?thesis using l unfolding has_option_def list_ex_iff by blast
qed


definition ex_moonraker :: disk where
  "ex_moonraker = \<lparr>dk_nodes = [(''/c'', Directory), (''/c/moonraker.conf'', Regular (utf8_encode (''[server]'' @ newline)) 420)],
     dk_turns = []\<rparr>"

lemma ex_reconciled:
  "reconcile_file_atomically (\<lambda>_ p. p) [''x''] ''/c/moonraker.conf'' reconcile_moonraker_conf_content ex_moonraker =
     (Inr True, \<lparr>dk_nodes = [(''/c'', Directory), (''/c/moonraker.conf'', Regular (utf8_encode (''[server]'' @ newline @ newline
        @ ''[file_manager]'' @ newline @ ''enable_object_processing: True'' @ newline)) 420)], dk_turns = []\<rparr>)"
  by code_simp


end
