(* ===== verification/Managed_Properties.thy ===== *)
theory Managed_Properties
  imports Managed_Sections Config_Grounds Config_Claims Reconciler_Properties
begin

text \<open>
  What a plan may touch, what it must keep and what it must announce; and, with the planner in
  the transaction, what every write to the printer therefore is.
\<close>

subsection \<open>Bytes and texts\<close>

lemma decode_encode_bytes: "utf8_decode b = Some t \<Longrightarrow> utf8_encode t = b"
proof (induction b arbitrary: t rule: utf8_decode.induct)
  case (2 b bs)
  have word: "word_of_nat (unat b) = b" for b :: "8 word" by simp
  show ?case
  proof (cases "unat b < 128")
    case True
    with 2 obtain t' where "t = char_of (unat b) # t'" "utf8_encode t' = bs" by auto
    moreover have "code_of (char_of (unat b)) = unat b" using True by (simp add: code_of_def)
    ultimately show ?thesis using True by (simp add: utf8_encode_def utf8_char_def)
  next
    case False
    with "2.prems" obtain d ds t' where bs: "bs = d # ds" and r: "unat b = 194 \<or> unat b = 195" "128 \<le> unat d" "unat d < 192"
      and t: "utf8_decode ds = Some t'" "t = char_of ((unat b - 192) * 64 + (unat d - 128)) # t'"
      by (auto split: list.splits if_splits)
    have ih: "utf8_encode t' = ds" by (rule "2.IH"(2) [OF False bs _ t(1)]) (use r in simp)
    let ?n = "(unat b - 192) * 64 + (unat d - 128)"
    have "?n mod 64 = unat d - 128" "?n div 64 = unat b - 192" using r(2,3) by (simp_all only: mod_mult_self3 div_mult_self3) simp_all
    with r have n: "128 \<le> ?n" "?n < 256" "192 + ?n div 64 = unat b" "128 + ?n mod 64 = unat d" by auto
    then have "code_of (char_of ?n) = ?n" by (simp add: code_of_def)
    then have "utf8_char (char_of ?n) = [word_of_nat (192 + ?n div 64), word_of_nat (128 + ?n mod 64)]"
      using n(1) by (simp only: utf8_char_def Let_def) simp
    also have "\<dots> = [b, d]" by (simp only: n(3,4) word)
    finally have "utf8_char (char_of ?n) = [b, d]" .
    with ih t bs show ?thesis by (simp add: utf8_encode_def)
  qed
qed (simp add: utf8_encode_def)

lemma decode_text_bytes: "decode_text b = Inr t \<Longrightarrow> b = utf8_encode t"
  by (auto simp: decode_text_def dest: decode_encode_bytes split: option.splits)

lemma remote_text_bytes: "remote_text remote p = Inr t \<Longrightarrow> remote_bytes remote p = Some b \<Longrightarrow> b = utf8_encode t"
  by (simp add: remote_text_def decode_text_bytes)

lemma encode_nil [simp]: "utf8_encode [] = []"
  by (simp add: utf8_encode_def)

lemma encode_append [simp]: "utf8_encode (s @ t) = utf8_encode s @ utf8_encode t"
  by (simp add: utf8_encode_def)

subsection \<open>The artifacts of a plan\<close>

text \<open>What the plan may hold for one file, given what is there now.\<close>

definition owned_change :: "bytes option \<Rightarrow> file_state \<Rightarrow> plan_artifact \<Rightarrow> bool" where
  "owned_change generated_macros remote a =
     (pa_previous a = remote_bytes remote (pa_remote_name a) \<and>
      (if pa_remote_name a = root_remote then
         \<exists>user t. remote_text remote root_remote = Inr t \<and> pa_content a = utf8_encode (user @ snd (split_save_config t))
       else if pa_remote_name a = moonraker_remote then
         \<exists>t new. pa_previous a = Some (utf8_encode t) \<and> pa_content a = utf8_encode new
           \<and> \<not> has_option ''file_manager'' ''enable_object_processing'' (py_splitlines t)
           \<and> has_option ''file_manager'' ''enable_object_processing'' (py_splitlines new)
           \<and> subseq (filter (\<lambda>l. l \<noteq> []) (py_splitlines t)) (py_splitlines new)
       else pa_remote_name a = hardware_remote \<or> (pa_remote_name a = macros_remote \<and> generated_macros = Some (pa_content a))))"

lemma moonraker_owned:
  assumes "moonraker_artifacts remote = Inr as" and "a \<in> set as"
  shows "pa_remote_name a = moonraker_remote \<and> owned_change m remote a"
proof -
  obtain t where t: "remote_text remote moonraker_remote = Inr t"
    using assms(1) by (auto simp: moonraker_artifacts_def result_simps)
  obtain c ch where c: "reconcile_moonraker_conf_content t = (c, ch)" by (metis surj_pair)
  define new where "new = (if ends_with newline c then c else c @ file_newline c)"
  from assms t c have a: "a = planned_artifact remote moonraker_remote (utf8_encode new)" and ch: "ch"
    and r: "remote_bytes remote moonraker_remote \<noteq> None"
    by (auto simp: moonraker_artifacts_def new_def split: if_splits)
  have names: "plain_name ''file_manager''" "plain_name ''enable_object_processing''" by code_simp+
  have value_ok: "list_all (\<lambda>c. \<not> is_linebreak c) ''True''" by code_simp
  from ensure_ini_result [OF names value_ok c [unfolded reconcile_moonraker_conf_content_def]]
  have res: "has_option ''file_manager'' ''enable_object_processing'' (py_splitlines c)"
    "\<not> has_option ''file_manager'' ''enable_object_processing'' (py_splitlines t)"
    "subseq (filter (\<lambda>l. l \<noteq> []) (py_splitlines t)) (py_splitlines c)" using ch by blast+
  obtain ls where ls: "py_splitlines new = py_splitlines c @ ls"
    by (metis new_def splitlines_newline [OF file_newline_cases] append_Nil2)
  from res(3) have "subseq (filter (\<lambda>l. l \<noteq> []) (py_splitlines t)) (py_splitlines new)"
    unfolding ls by (rule subseq_order.order_trans) (rule prefix_imp_subseq [OF prefixI [OF refl]])
  moreover obtain y where y: "remote_bytes remote moonraker_remote = Some y" using r by blast
  moreover have "y = utf8_encode t" by (rule remote_text_bytes [OF t y])
  moreover have "moonraker_remote \<noteq> root_remote" by (simp add: remote_defs)
  moreover have "has_option ''file_manager'' ''enable_object_processing'' (py_splitlines new)"
    unfolding ls by (rule has_option_append [OF res(1)])
  ultimately show ?thesis using res(2) unfolding a owned_change_def planned_artifact_def by auto
qed

lemma bind_pair: "bindE m (\<lambda>(x, y, z). k x y z) = Inr r \<longleftrightarrow> (\<exists>x y z. m = Inr (x, y, z) \<and> k x y z = Inr r)"
  by (auto simp: result_simps)

lemma complete_plan_parts:
  "complete_plan remote as migrated warn = Inr p \<Longrightarrow>
   cp_artifacts p = as \<and> cp_source_files p = remote
     \<and> (\<exists>final. effective_hardware_text p False = Inr final \<and> warn final = Inr (cp_warnings p))"
  by (auto simp: complete_plan_def result_simps effective_hardware_text_def)

text \<open>What a plan consists of: the root file, the owned files, and moonraker.conf; and its warnings.\<close>

lemma plan_split:
  assumes "build_managed_config_plan hw m remote = Inr p"
  obtains layout reconciled hardware macros bs t eh final kept stale mw where
    "moonraker_artifacts remote = Inr bs" and "remote_text remote root_remote = Inr t" and "remote_text remote hardware_remote = Inr eh"
    and "cp_artifacts p = ([planned_artifact remote root_remote (utf8_encode ((if layout then layout_marker @ newline else []) @ reconciled @ snd (split_save_config t)))]
         @ (if layout then [] else [planned_artifact remote hardware_remote (utf8_encode hardware)])
         @ (case macros of Some m \<Rightarrow> [planned_artifact remote macros_remote m] | None \<Rightarrow> [])) @ bs"
    and "macros = None \<or> macros = m" and "cp_source_files p = remote"
    and "effective_hardware_text p False = Inr final"
    and "plan_warnings remote (replace_text (layout_marker @ newline) [] (without_stale_include remote (fst (split_save_config t)))) eh
           macros kept stale final = Inr (cp_warnings p)"
proof -
  from assms obtain t where t: "remote_text remote root_remote = Inr t"
    unfolding build_managed_config_plan_def result_simps by blast
  obtain root1 save_config where sc: "split_save_config t = (root1, save_config)" by (metis surj_pair)
  obtain layout reconciled hardware macros bs eh migrated kept stale where bs: "moonraker_artifacts remote = Inr bs"
    and eh: "remote_text remote hardware_remote = Inr eh"
    and c: "complete_plan remote (([planned_artifact remote root_remote (utf8_encode ((if layout then layout_marker @ newline else []) @ reconciled @ save_config))]
         @ (if layout then [] else [planned_artifact remote hardware_remote (utf8_encode hardware)])
         @ (case macros of Some m \<Rightarrow> [planned_artifact remote macros_remote m] | None \<Rightarrow> [])) @ bs) migrated
         (plan_warnings remote (replace_text (layout_marker @ newline) [] (without_stale_include remote root1)) eh macros kept stale) = Inr p"
    and macros: "macros = None \<or> macros = m"
  proof -
    from assms show thesis
      unfolding build_managed_config_plan_def Let_def bind_pair result_simps t sc sum.inject
      apply (elim exE conjE)
      apply hypsubst
      apply (unfold sc prod.case)
      apply (unfold bindE_eq_Inr split_paired_Ex prod.case)
      apply (elim exE conjE)
      apply (rule that, assumption, assumption, assumption, simp)
      done
  qed
  from complete_plan_parts [OF c] obtain final where "cp_source_files p = remote" "effective_hardware_text p False = Inr final"
    "plan_warnings remote (replace_text (layout_marker @ newline) [] (without_stale_include remote root1)) eh macros kept stale final
      = Inr (cp_warnings p)"
    "cp_artifacts p = ([planned_artifact remote root_remote (utf8_encode ((if layout then layout_marker @ newline else []) @ reconciled @ save_config))]
         @ (if layout then [] else [planned_artifact remote hardware_remote (utf8_encode hardware)])
         @ (case macros of Some m \<Rightarrow> [planned_artifact remote macros_remote m] | None \<Rightarrow> [])) @ bs" by blast
  then show thesis using that [OF bs t eh _ macros] by (simp add: sc)
qed

lemma plan_artifacts_owned:
  assumes "build_managed_config_plan hw m remote = Inr p" and "a \<in> set (cp_artifacts p)"
  shows "owned_change m remote a"
proof -
  from assms(1) show ?thesis
  proof (rule plan_split)
    fix layout reconciled hardware macros bs t
    assume bs: "moonraker_artifacts remote = Inr bs" and t: "remote_text remote root_remote = Inr t" and m: "macros = None \<or> macros = m"
      and as: "cp_artifacts p = ([planned_artifact remote root_remote (utf8_encode ((if layout then layout_marker @ newline else []) @ reconciled @ snd (split_save_config t)))]
         @ (if layout then [] else [planned_artifact remote hardware_remote (utf8_encode hardware)])
         @ (case macros of Some m \<Rightarrow> [planned_artifact remote macros_remote m] | None \<Rightarrow> [])) @ bs"
    define root where "root = planned_artifact remote root_remote (utf8_encode ((if layout then layout_marker @ newline else []) @ reconciled @ snd (split_save_config t)))"
    have "owned_change m remote root"
      using t by (auto simp: owned_change_def root_def planned_artifact_def intro!: exI [of _ "(if layout then layout_marker @ newline else []) @ reconciled"])
    moreover have "owned_change m remote a" if "a \<in> set bs" using moonraker_owned [OF bs that] by blast
    moreover have "owned_change m remote (planned_artifact remote hardware_remote x)" for x
      by (simp add: owned_change_def planned_artifact_def remote_defs)
    moreover have "owned_change m remote (planned_artifact remote macros_remote x)" if "macros = Some x" for x
      using m that by (simp add: owned_change_def planned_artifact_def remote_defs)
    moreover have "a = root \<or> a \<in> set bs \<or> a = planned_artifact remote hardware_remote (utf8_encode hardware)
        \<or> (\<exists>x. macros = Some x \<and> a = planned_artifact remote macros_remote x)"
      using assms(2) as by (auto simp: root_def split: if_splits option.splits)
    ultimately show ?thesis by blast
  qed
qed

subsection \<open>An example\<close>

text \<open>The lookup is the planner itself: it only spares its evaluation inside the run.\<close>

definition ex_user_base :: string where
  "ex_user_base = ''[mcu]'' @ newline @ ''serial: a'' @ newline @ ''[fan]'' @ newline"

definition ex_saved_part :: string where
  "ex_saved_part = save_config_header @ newline"

definition ex_generated :: string where
  "ex_generated = ''[mcu]'' @ newline @ ''serial: b'' @ newline"

definition ex_remote :: file_state where
  "ex_remote = [(root_remote, Some (utf8_encode (ex_user_base @ ex_saved_part))), (moonraker_remote, None),
     (hardware_remote, None), (macros_remote, None), (legacy_macros_remote, None)]"

definition ex_new_base :: string where
  "ex_new_base = managed_begin @ newline @ ''[include '' @ hardware_remote @ '']'' @ newline @ managed_end @ newline @ newline
     @ ''[fan]'' @ newline"

definition ex_managed_plan :: config_plan where
  "ex_managed_plan = \<lparr>cp_artifacts = [planned_artifact ex_remote root_remote (utf8_encode (ex_new_base @ ex_saved_part)),
       planned_artifact ex_remote hardware_remote (utf8_encode ex_generated)], cp_legacy_migration = False,
     cp_warnings = [loss_warning root_remote ''mcu'' (''serial'', ''a'') (Some ''b'')], cp_source_files = ex_remote\<rparr>"

lemma bindE_weak_cong: "m = m' \<Longrightarrow> bindE m k = bindE m' k"
  by simp

lemma ex_parts:
  "split_save_config (ex_user_base @ ex_saved_part) = (ex_user_base, ex_saved_part)"
  "stale_legacy_macros ex_remote ex_user_base = False"
  "carry_user_tuning (carry_user_tuning ex_generated []) ex_user_base = ex_generated"
  "uses_root_layout (remote_bytes ex_remote root_remote) ex_user_base = False"
  "has_include ex_user_base legacy_macros_remote = False"
  "replace_text (layout_marker @ newline) [] ex_user_base = ex_user_base"
  "reconcile_root ex_user_base ex_generated False ex_saved_part (newline @ ex_user_base) False = Inr (ex_new_base, ex_generated, False)"
  "moonraker_artifacts ex_remote = Inr []"
  by code_simp+

lemma ex_remote_texts:
  "remote_text ex_remote root_remote = Inr (ex_user_base @ ex_saved_part)" "remote_text ex_remote hardware_remote = Inr []"
  by (simp_all add: remote_text_def remote_bytes_def ex_remote_def decode_text_def remote_defs dict_get_def del: encode_append)

definition ex_final :: string where
  "ex_final = managed_begin @ newline @ ex_generated @ newline @ managed_end @ newline @ newline @ ''[fan]'' @ newline @ ex_saved_part"

lemma ex_effective:
  "effective_hardware_text \<lparr>cp_artifacts = [planned_artifact ex_remote root_remote (utf8_encode (ex_new_base @ ex_saved_part)),
       planned_artifact ex_remote hardware_remote (utf8_encode ex_generated)], cp_legacy_migration = False,
     cp_warnings = [], cp_source_files = ex_remote\<rparr> False =
   Inr ex_final"
  by code_simp

lemma ex_warnings:
  "plan_warnings ex_remote ex_user_base [] None False False
     ex_final =
   Inr [loss_warning root_remote ''mcu'' (''serial'', ''a'') (Some ''b'')]"
  by code_simp

lemma ex_managed_planned: "build_managed_config_plan (utf8_encode ex_generated) None ex_remote = Inr ex_managed_plan"
proof -
  have "remote_bytes ex_remote legacy_macros_remote = None"
    by (simp add: remote_bytes_def ex_remote_def remote_defs dict_get_def)
  then show ?thesis
    by (simp add: build_managed_config_plan_def ex_remote_texts ex_parts without_stale_include_def complete_plan_def
        ex_effective ex_warnings decode_text_def ex_managed_plan_def cong: bindE_weak_cong let_weak_cong del: encode_append)
qed

fun planner_at :: "bool \<Rightarrow> bytes \<Rightarrow> bytes option \<Rightarrow> file_state \<Rightarrow> (tx_exn, config_plan) res" where
  "planner_at True h m remote = Inr ex_managed_plan"
| "planner_at False h m remote = build_managed_config_plan h m remote"

definition ex_managed_env :: "printer tx_env" where
  "ex_managed_env = (ex_tx_env [] (returnS ''ready'') True)\<lparr>te_hardware := utf8_encode ex_generated, te_decode := decode_lines,
     te_planner := (\<lambda>h m remote. planner_at (h = utf8_encode ex_generated \<and> m = None \<and> remote = ex_remote) h m remote)\<rparr>"

lemma ex_managed_planner: "te_planner ex_managed_env = build_managed_config_plan"
proof (intro ext)
  show "te_planner ex_managed_env h m remote = build_managed_config_plan h m remote" for h m remote
    by (cases "h = utf8_encode ex_generated \<and> m = None \<and> remote = ex_remote") (auto simp: ex_managed_env_def ex_managed_planned)
qed

lemma ex_managed_run:
  "case run_transaction ex_managed_env ((0, [(root_remote, Some (utf8_encode (ex_user_base @ ex_saved_part)))]), ex_core) of
     (Inr r, _, c) \<Rightarrow> tr_state r = COMMITTED \<and> uploads (tc_log c) =
       [(hardware_remote, utf8_encode ex_generated), (root_remote, utf8_encode (ex_new_base @ ex_saved_part))] | _ \<Rightarrow> False"
  by code_simp
subsection \<open>Writes\<close>

text \<open>
  C13. With the planner in the transaction, whatever the transport and the callbacks do and however the
  run ends, every write is one of four files.  The new printer.cfg ends with exactly the SAVE_CONFIG
  part of the printer.cfg it replaces; moonraker.conf is written only where it existed without the
  option, keeps every nonempty line in order and gains the option; the macros are the generated ones.
\<close>

theorem managed_writes_owned:
  assumes "te_planner env = build_managed_config_plan" and "new_transaction activation = Inr c0"
    and "run_transaction env (w, c0) = (r, (w', c))" and "Uploading n d previous \<in> set (tc_log c)"
  shows "(n = root_remote \<and> (\<forall>b. previous = Some b \<longrightarrow>
        (\<exists>t user. b = utf8_encode t \<and> d = utf8_encode (user @ snd (split_save_config t)))))
     \<or> (n = moonraker_remote \<and> (\<exists>t new. previous = Some (utf8_encode t) \<and> d = utf8_encode new
          \<and> \<not> has_option ''file_manager'' ''enable_object_processing'' (py_splitlines t)
          \<and> has_option ''file_manager'' ''enable_object_processing'' (py_splitlines new)
          \<and> subseq (filter (\<lambda>l. l \<noteq> []) (py_splitlines t)) (py_splitlines new)))
     \<or> n = hardware_remote \<or> (n = macros_remote \<and> te_macros env = Some d)"
proof -
  from run_grounded [OF assms(2,3)] assms(1,4) obtain remote p a where
    p: "build_managed_config_plan (te_hardware env) (te_macros env) remote = Inr p" and v: "dict_get remote n = Some previous"
    and a: "a \<in> set (changed_artifacts p)" "pa_remote_name a = n" "pa_content a = d"
    unfolding grounded_def by fastforce
  have o: "owned_change (te_macros env) remote a"
    using a(1) by (intro plan_artifacts_owned [OF p]) (simp add: changed_artifacts_def)
  have prev: "pa_previous a = previous" using o a v by (simp add: owned_change_def remote_bytes_def)
  show ?thesis
  proof (cases "n = root_remote")
    case True
    with o a obtain user t where t: "remote_text remote root_remote = Inr t" "d = utf8_encode (user @ snd (split_save_config t))"
      by (auto simp: owned_change_def)
    moreover have "b = utf8_encode t" if "previous = Some b" for b
      using that True v by (intro remote_text_bytes [OF t(1)]) (simp add: remote_bytes_def)
    ultimately show ?thesis using True by blast
  next
    case False
    with o a prev show ?thesis by (cases "n = moonraker_remote") (auto simp: owned_change_def)
  qed
qed

theorem managed_writes_owned_witness:
  "\<exists>r w' c previous d. run_transaction ex_managed_env ((0, [(root_remote, Some (utf8_encode (ex_user_base @ ex_saved_part)))]), ex_core) = (r, (w', c))
     \<and> Uploading root_remote d previous \<in> set (tc_log c)
     \<and> (\<forall>b. previous = Some b \<longrightarrow> (\<exists>t user. b = utf8_encode t \<and> d = utf8_encode (user @ snd (split_save_config t))))"
proof -
  let ?run = "run_transaction ex_managed_env ((0, [(root_remote, Some (utf8_encode (ex_user_base @ ex_saved_part)))]), ex_core)"
  obtain r w' c where run: "?run = (r, (w', c))" by (metis prod.collapse)
  with ex_managed_run have "(root_remote, utf8_encode (ex_new_base @ ex_saved_part)) \<in> set (uploads (tc_log c))"
    by (auto split: sum.splits)
  then obtain previous where u: "Uploading root_remote (utf8_encode (ex_new_base @ ex_saved_part)) previous \<in> set (tc_log c)"
    by (auto simp: uploads_def split: tx_effect.splits)
  have "root_remote \<noteq> moonraker_remote" "root_remote \<noteq> hardware_remote" "root_remote \<noteq> macros_remote"
    by (simp_all add: remote_defs)
  with managed_writes_owned [OF ex_managed_planner ex_core_new run u] run u show ?thesis by blast
qed

subsection \<open>Nothing is lost silently\<close>

lemma root_warnings:
  "plan_warnings remote root eh macros kept stale final = Inr ws \<Longrightarrow> set (setting_loss_warnings root_remote root final) \<subseteq> set ws"
  by (auto simp: plan_warnings_def result_simps)

lemma setting_announced:
  assumes "(sec, os) \<in> set (section_options before)" and "\<not> starts_with ''include '' sec"
  shows "(os = [] \<longrightarrow> dict_get (section_options after) sec \<noteq> None
        \<or> source @ '': ['' @ sec @ ''] will be removed.'' \<in> set (setting_loss_warnings source before after))
     \<and> (\<forall>e \<in> set os. dict_get (options_of (section_options after) sec) (fst e) = Some (snd e)
        \<or> loss_warning source sec e (dict_get (options_of (section_options after) sec) (fst e))
          \<in> set (setting_loss_warnings source before after))"
proof -
  let ?after = "section_options after"
  let ?w = "(if os = [] \<and> dict_get ?after sec = None then [source @ '': ['' @ sec @ ''] will be removed.''] else [])
     @ concat (map (\<lambda>e. let replacement = dict_get (options_of ?after sec) (fst e) in
         if replacement = Some (snd e) then [] else [loss_warning source sec e replacement]) os)"
  have "set ?w \<subseteq> set (setting_loss_warnings source before after)"
    unfolding setting_loss_warnings_def Let_def set_concat set_map
    by (rule subset_trans [OF _ Union_upper [OF imageI [OF imageI [OF assms(1)]]]]) (simp add: assms(2))
  then have part: "q \<in> set (setting_loss_warnings source before after)" if "q \<in> set ?w" for q using that by blast
  show ?thesis
  proof (intro conjI impI ballI)
    show "dict_get ?after sec \<noteq> None \<or> source @ '': ['' @ sec @ ''] will be removed.'' \<in> set (setting_loss_warnings source before after)"
      if "os = []" using that part by (cases "dict_get ?after sec") simp_all
    show "dict_get (options_of ?after sec) (fst e) = Some (snd e)
        \<or> loss_warning source sec e (dict_get (options_of ?after sec) (fst e)) \<in> set (setting_loss_warnings source before after)"
      if "e \<in> set os" for e
    proof (cases "dict_get (options_of ?after sec) (fst e) = Some (snd e)")
      case False
      show ?thesis by (rule disjI2, rule part) (use that False in \<open>auto simp: Let_def intro!: bexI [of _ e]\<close>)
    qed simp
  qed
qed

text \<open>
  C15. A plan never drops a setting of printer.cfg silently.  Every option of a section of the user's
  part, as the program reads it, has the same value in the configuration that Klipper will load, or a
  warning of the plan names section, option and value; a section without options is there or announced.
\<close>

theorem no_silent_loss:
  assumes "build_managed_config_plan hw m remote = Inr p" and "remote_text remote root_remote = Inr t"
    and "(sec, os) \<in> set (section_options (replace_text (layout_marker @ newline) []
          (without_stale_include remote (fst (split_save_config t)))))"
    and "\<not> starts_with ''include '' sec"
  shows "\<exists>final. effective_hardware_text p False = Inr final
     \<and> (os = [] \<longrightarrow> dict_get (section_options final) sec \<noteq> None
        \<or> root_remote @ '': ['' @ sec @ ''] will be removed.'' \<in> set (cp_warnings p))
     \<and> (\<forall>e \<in> set os. dict_get (options_of (section_options final) sec) (fst e) = Some (snd e)
        \<or> loss_warning root_remote sec e (dict_get (options_of (section_options final) sec) (fst e)) \<in> set (cp_warnings p))"
  using assms(1)
proof (rule plan_split)
  fix eh macros kept stale final t'
  assume t: "remote_text remote root_remote = Inr t'" and final: "effective_hardware_text p False = Inr final"
    and w: "plan_warnings remote (replace_text (layout_marker @ newline) [] (without_stale_include remote (fst (split_save_config t')))) eh
           macros kept stale final = Inr (cp_warnings p)"
  have "t' = t" using t assms(2) by simp
  with w have "set (setting_loss_warnings root_remote (replace_text (layout_marker @ newline) []
       (without_stale_include remote (fst (split_save_config t)))) final) \<subseteq> set (cp_warnings p)"
    by (intro root_warnings) simp
  with setting_announced [OF assms(3,4), of final root_remote] final show ?thesis by blast
qed

theorem no_silent_loss_witness:
  "\<exists>final. effective_hardware_text ex_managed_plan False = Inr final
     \<and> loss_warning root_remote ''mcu'' (''serial'', ''a'') (dict_get (options_of (section_options final) ''mcu'') ''serial'')
       \<in> set (cp_warnings ex_managed_plan)"
proof -
  have "(''mcu'', [(''serial'', ''a'')]) \<in> set (section_options (replace_text (layout_marker @ newline) []
      (without_stale_include ex_remote (fst (split_save_config (ex_user_base @ ex_saved_part))))))"
    by (simp add: ex_parts without_stale_include_def) code_simp
  moreover have "\<not> starts_with ''include '' ''mcu''" by code_simp
  moreover have "effective_hardware_text ex_managed_plan False = Inr ex_final"
    using ex_effective by (simp add: effective_hardware_text_def ex_managed_plan_def)
  moreover have "dict_get (options_of (section_options ex_final) ''mcu'') ''serial'' \<noteq> Some ''a''" by code_simp
  ultimately show ?thesis
    using no_silent_loss [OF ex_managed_planned ex_remote_texts(1), of "''mcu''" "[(''serial'', ''a'')]"] by fastforce
qed

subsection \<open>The user's sections\<close>

lemma concat_map_concat: "concat (concat (map f xs)) = concat (map (\<lambda>x. concat (f x)) xs)"
  by (induction xs) simp_all

lemma contains_trans: "contains p q \<Longrightarrow> contains q r \<Longrightarrow> contains p r"
  unfolding contains_iff by (metis append.assoc)

lemma contains_end: "contains p s \<Longrightarrow> contains p (if b then s else s @ t)"
  using contains_append [of p s "[]" t] by simp

lemma contains_last: "contains p (u @ v @ p)" "contains p (a @ b @ c @ u @ v @ p)"
  unfolding contains_iff by (metis append.assoc append_Nil2)+

lemma assemble_base: "contains (lstrip_crlf base) (assemble_root nl header block base)"
  unfolding assemble_root_def Let_def
  by (intro contains_end) (simp only: contains_last if_cancel split: if_split, simp)

lemma assemble_header: "l \<in> set header \<Longrightarrow> contains l (assemble_root nl header block base)"
  unfolding assemble_root_def Let_def
  by (intro contains_end) (auto intro: contains_append [OF contains_join, of l header "[]", simplified])

lemma reconcile_parts:
  assumes "reconcile_root existing generated include_macros saved active inline = Inr (root, g, migrated)"
    and "extract_generated_includes generated = (body, includes)"
  shows "contains (lstrip_crlf (kept_lines inline (strip_owned_sections
      (user_base existing inline (section_identities body) includes) (section_identities body)))) root"
    and "\<forall>l \<in> set (split_lines_keep (strip_owned_sections
      (user_base existing inline (section_identities body) includes) (section_identities body))).
      inline \<and> moved_include l \<longrightarrow> contains (rstrip_crlf l) root"
proof -
  define base where "base = strip_owned_sections (user_base existing inline (section_identities body) includes) (section_identities body)"
  obtain nl block others where root: "root = assemble_root nl
      (if inline then map rstrip_crlf (filter moved_include (split_lines_keep base)) @ others else []) block (kept_lines inline base)"
  proof (cases inline)
    case True
    show thesis
      apply (rule that)
      using assms True
      apply (simp add: reconcile_root_def Let_def require_eq_Inr bind_pair base_def)
      apply (elim conjE)
      apply (erule sym)
      done
  next
    case False
    show thesis
      using assms False
      apply (simp add: reconcile_root_def Let_def require_eq_Inr bind_pair result_simps split_paired_Ex)
      apply (elim exE conjE)
      apply (rule that)
      apply (simp only: False if_False base_def)
      apply (erule sym)
      done
  qed
  show "contains (lstrip_crlf (kept_lines inline base)) root"
    unfolding root by (rule assemble_base)
  show "\<forall>l \<in> set (split_lines_keep base). inline \<and> moved_include l \<longrightarrow> contains (rstrip_crlf l) root"
    unfolding root by (auto intro!: assemble_header)
qed

text \<open>
  C14. Reconciling printer.cfg keeps every section that is not generated.  Each section found outside
  the managed block (in the root layout also each one the user added inside it) that is an include
  or has no generated section's identity stands in the new file with its whole text, comments
  included; only lines that include mainsail.cfg are moved, in the root layout, and are there too.
\<close>

theorem user_sections_kept:
  assumes "reconcile_root existing generated include_macros saved active inline = Inr (root, g, migrated)"
    and "extract_generated_includes generated = (body, includes)"
    and "base = user_base existing inline (section_identities body) includes"
    and "x \<in> set (section_spans base)"
    and "starts_with ''include '' (section_identity (fst x)) \<or> section_identity (fst x) \<notin> set (section_identities body)"
  shows "contains (lstrip_crlf (kept_lines inline (span_text base x))) root
     \<and> (\<forall>l \<in> set (split_lines_keep (span_text base x)). inline \<and> moved_include l \<longrightarrow> contains (rstrip_crlf l) root)"
proof -
  let ?owned = "section_identities body"
  let ?p = "\<lambda>n. \<not> starts_with ''include '' (section_identity n) \<and> section_identity n \<in> set ?owned"
  obtain front where front: "strip_owned_sections base ?owned = concat (front # map (span_text base) (filter (\<lambda>x. \<not> ?p (fst x)) (section_spans base)))"
    and "section_spans base \<noteq> [] \<longrightarrow> ended front"
    using drop_pieces [of ?p base] unfolding strip_owned_sections_def by blast
  then have fe: "ended front" using assms(4) by fastforce
  define pieces where "pieces = front # map (span_text base) (filter (\<lambda>x. \<not> ?p (fst x)) (section_spans base))"
  have "sorted_wrt (\<lambda>q r. ended q) pieces"
    using slices_ended [of base] fe by (auto simp: pieces_def sorted_wrt_map intro!: sorted_wrt_filter)
  from split_pieces [OF this] have lines: "split_lines_keep (concat pieces) = concat (map split_lines_keep pieces)" .
  have piece: "span_text base x \<in> set pieces" using assms(4,5) by (auto simp: pieces_def)
  have kept: "kept_lines inline (concat pieces) = concat (map (kept_lines inline) pieces)"
    by (cases inline) (simp_all add: kept_lines_def [abs_def] lines filter_concat comp_def concat_map_concat)
  note parts = reconcile_parts [OF assms(1,2), folded assms(3), unfolded front, folded pieces_def]
  have "contains (kept_lines inline (span_text base x)) (kept_lines inline (concat pieces))"
    unfolding kept by (rule contains_piece) (use piece in simp)
  from contains_trans [OF contains_lstrip [OF this] parts(1)]
  have "contains (lstrip_crlf (kept_lines inline (span_text base x))) root" .
  moreover have "set (split_lines_keep (span_text base x)) \<subseteq> set (split_lines_keep (concat pieces))"
    unfolding lines using piece by auto
  ultimately show ?thesis using parts(2) by blast
qed

theorem user_sections_kept_witness:
  "contains (''[fan]'' @ newline) ex_new_base"
proof -
  have g: "extract_generated_includes ex_generated = (ex_generated, [])" by code_simp
  have s: "(''fan'', length (''[mcu]'' @ newline @ ''serial: a'' @ newline), length ex_user_base) \<in> set (section_spans ex_user_base)"
    by code_simp
  have b: "user_base ex_user_base False (section_identities ex_generated) [] = ex_user_base" by code_simp
  have o: "section_identity ''fan'' \<notin> set (section_identities ex_generated)" by code_simp
  have t: "lstrip_crlf (kept_lines False (span_text ex_user_base
      (''fan'', length (''[mcu]'' @ newline @ ''serial: a'' @ newline), length ex_user_base))) = ''[fan]'' @ newline" by code_simp
  show ?thesis
    using user_sections_kept [OF ex_parts(7) g b [symmetric] s] o t by simp
qed

end
