(* ===== verification/Spec2Isabelle.thy ===== *)
theory Spec2Isabelle
  imports Board_Properties Build_Properties Sd_Properties Sd_Media Power_Control Config_Liveness Deployer_Claims Transport_Properties
    Promotion_Properties Upstream Managed_Properties
begin

text \<open>
  KACE builds Klipper firmware for 3D printer boards, puts it on an SD card, watches the board come
  back, and deploys the printer's configuration files.  This library models the parts of the program
  that decide what may be built, written, ejected and uploaded, in the order the program uses them.
  All paths below are relative to \<open>src/\<close>.

  \<^bold>\<open>Shared theories.\<close>  \<open>Kace_Prelude\<close> has results with errors as values (\<open>('e, 'a) res\<close>, with
  \<open>bindE\<close> and \<open>require\<close> for early returns) and the basic Python string operations; \<open>Py_Text\<close>,
  \<open>Py_Numerals\<close> and \<open>Py_Values\<close> have splitting and joining, numerals as \<open>str\<close> and \<open>int\<close> treat
  them, YAML values and canonical JSON.  \<open>Py_State\<close> has actions (\<open>bindS\<close>, \<open>catchS\<close>, \<open>eachS\<close>):
  functions from a state to a result and the state that is left, also when the action raised.
  \<open>Py_Logic\<close> has their weakest preconditions, \<open>Py_Poll\<close> loops \<open>while True\<close> against a deadline,
  \<open>Posix_Path\<close> the functions of \<open>posixpath\<close>.

  \<^bold>\<open>Board contracts\<close> (\<open>firmware/boards/models.py\<close>, \<open>catalog.py\<close>, \<open>resolver.py\<close>).  \<open>Board_Fields\<close>,
  \<open>Board_Specs\<close>, \<open>Board_Recipes\<close>, \<open>Board_Models\<close> and \<open>Board_Contract\<close> have one record per
  dataclass, one function \<open>x_from_mapping\<close> per reader and one \<open>x_to_mapping\<close> per writer.
  \<open>Board_Catalog\<close> builds the indices of ids and aliases, \<open>Board_Resolver\<close> finds the contract, the
  hardware variant and the build target of a request.  \<open>Board_Properties\<close> shows that every loaded
  contract is well formed, that its mapping reads back to itself, that its digest does not depend on
  the order of keys, that an alias is found exactly when a contract declares it, and that the
  resolver refines its specification.  \<open>Example_Board\<close> is a concrete board for the instances.

  \<^bold>\<open>Firmware build\<close> (\<open>firmware/boards/kconfig.py\<close>, \<open>firmware/identity.py\<close>, \<open>firmware/artifacts.py\<close>,
  \<open>core/workspace.py\<close>).  \<open>Kconfig_Text\<close> writes and reads \<open>.config\<close>, \<open>Kconfig_Target\<close> checks it
  against the target, \<open>Firmware_Identity\<close> has the build marker, the Makefile line and the canonical
  configuration, \<open>Firmware_Image\<close> the decoders of UF2 and Intel HEX, \<open>Firmware_Marker\<close> the search for
  the marker in a binary.  \<open>Build_Host\<close> has the commands and files of the host as a record,
  \<open>Build_Source\<close> the verified source cache and the checkout, \<open>Build_Pipeline\<close> configuration,
  compilation and the build proof, \<open>Build_Artifact\<close> the artifact.  \<open>Build_Safety\<close> and
  \<open>Build_Properties\<close> show that no command has shell syntax and that a returned proof speaks of the
  pinned commit, of a configuration that kept every requested value and of an artifact that carries
  the fingerprint.

  \<^bold>\<open>Deployment\<close> (\<open>firmware/boards/deployment.py\<close>, \<open>firmware/boards/executor.py\<close>,
  \<open>core/mcu_monitor.py\<close>, \<open>core/power_controller.py\<close>, \<open>core/power_config.py\<close>).  \<open>Deployment_Plan\<close> and
  \<open>Plan_Check\<close> make and validate the typed plan of a proof.  \<open>Sd_Session\<close> has the state machine of a
  physical deployment, \<open>Sd_Executor\<close> the executor over abstract collaborators, \<open>Sd_Media\<close> these
  collaborators on Linux.  \<open>Mcu_Monitor\<close> matches the board that reappears, \<open>Power_Control\<close> switches
  the printer.  \<open>Sd_Safety\<close> and \<open>Sd_Properties\<close> prove the invariant of the session by induction over
  the operations, what was written and ejected on the way, how failures end, and that a deployment on
  cooperative collaborators ends verified.

  \<^bold>\<open>Configuration\<close> (\<open>core/config_transaction.py\<close>, \<open>core/snapshot.py\<close>, part of
  \<open>core/managed_config.py\<close>).  \<open>Config_Plan\<close> has the planned artifacts and the reading of the files
  under review, \<open>Snapshot\<close> the durable copy of the originals, \<open>Config_Transaction\<close> the waits and the
  rollback, \<open>Config_Run\<close> the stages of the run.  \<open>Config_Safety\<close> and \<open>Config_Properties\<close> carry the
  triples of the stages, \<open>Config_Claims\<close> the properties of the whole run on an example printer, and
  \<open>Config_Liveness\<close> the proof that a run ends.

  \<^bold>\<open>State and effects.\<close>  An object that the code mutates is a record, and each method is an action on
  it.  The world outside (files, subprocesses, HTTP, the clock) is a type variable \<open>'w\<close> with the calls
  the code makes as fields of a record; each call may raise and may change the world.  Effects that a
  property speaks of are logged: \<open>xs_effects\<close> of the executor, \<open>tc_log\<close> of the transaction, the
  command list of the build.  The program has no such logs.

  \<^bold>\<open>Bounds.\<close>  A loop against a deadline takes its number of turns as fuel.  The clock is an action of
  the world; the theorems of termination ask that each turn advances it, and that the fuel exceeds the
  timeout in its unit, which is then enough.  The review of the configuration adds up file sizes and
  stops beyond 8 MiB, so that its fuel is bounded by that limit plus three.  A run whose fuel is used
  up has the outcome \<open>Still_running\<close>, which no exception handler of the model catches.

  \<^bold>\<open>Parameters.\<close>  SHA-256, Unicode NFKC, YAML and JSON parsing, zlib decompression, the regular
  expression engine where a pattern is not written out, \<open>udevadm\<close>, \<open>lsblk\<close> and the Moonraker calls
  are parameters.  The planner that rewrites \<open>printer.cfg\<close>, the semantic review and the
  transport are parameters of the transaction.

  \<^bold>\<open>Abstractions.\<close>  Text is a list of characters of U+0000 to U+00FF, case mapping is the one of ASCII.
  Python's unbounded integers are \<open>int\<close>, floating seconds are integers in a fixed unit.  Iteration
  over a \<open>set\<close> is modelled in the order of insertion.  Type guards on values that the model types
  statically (\<open>isinstance(x, bytes)\<close>) cannot fail and are left out.  Progress reports, colours and
  translations are left out.

  \<^bold>\<open>Not modelled.\<close>  The wizards, menus and dashboards (terminal dialogue), the generator (Jinja
  templates), the SSH and HTTP clients, the scraper and the translations are input and output or
  text.  The manifest lists every part.
\<close>

end
